(* ===== verification/Ch32_Prelude.thy ===== *)
theory Ch32_Prelude
  imports Main "HOL-Library.Word"
begin

text \<open>
  Shared vocabulary of the development: the C integer types as machine words, the QEMU timer
  as the state the peripherals can observe of it, reads and updates of C arrays (lists whose
  length is part of the invariants), and the generic lemmas on words and lists that the
  component theories use through \<open>ch32_simps\<close> and \<open>word_bits\<close>.
\<close>

unbundle bit_operations_syntax

section \<open>C integer types\<close>

type_synonym u8 = "8 word"
type_synonym u16 = "16 word"
type_synonym u32 = "32 word"
type_synonym u64 = "64 word"

named_theorems ch32_simps "unfolding rules of the machine model"
named_theorems frame_simps "which parts of the machine an operation leaves alone"

text \<open>Register images that the code stores as flag words: clearing and setting bits under a mask.\<close>

abbreviation set_bits_mask :: "'a::len word \<Rightarrow> 'a word \<Rightarrow> 'a word" where
  "set_bits_mask msk w \<equiv> w OR msk"

abbreviation clear_bits_mask :: "'a::len word \<Rightarrow> 'a word \<Rightarrow> 'a word" where
  "clear_bits_mask msk w \<equiv> w AND NOT msk"

abbreviation one_bit :: "nat \<Rightarrow> 'a::len word" where
  "one_bit n \<equiv> push_bit n 1"

lemma bit_set_one_bit:
  "bit (w OR one_bit n) k \<longleftrightarrow> bit w k \<or> (k = n \<and> n < LENGTH('a))" for w :: "'a::len word"
  by (auto simp: bit_simps)

lemma bit_clear_one_bit:
  "bit (w AND NOT (one_bit n)) k \<longleftrightarrow> bit w k \<and> k \<noteq> n" for w :: "'a::len word"
  by (auto simp: bit_simps dest: bit_imp_le_length)

lemma or_eq_zero_iff: "w OR v = 0 \<longleftrightarrow> w = 0 \<and> v = 0" for w v :: "'a::len word"
  by (auto simp: bit_eq_iff bit_simps)

lemma and_or_absorb_clear: "(w OR v) AND NOT v = w AND NOT v" for w v :: "'a::len word"
  by (auto intro!: bit_word_eqI simp: bit_simps)

lemma and_not_or_same: "(w AND NOT v) OR v = w OR v" for w v :: "'a::len word"
  by (auto intro!: bit_word_eqI simp: bit_simps)

lemma and_not_idem: "(w AND NOT v) AND NOT v = w AND NOT v" for w v :: "'a::len word"
  by (auto intro!: bit_word_eqI simp: bit_simps)

lemma and_not_disjoint: "(w AND NOT v) AND v = 0" for w v :: "'a::len word"
  by (auto intro!: bit_word_eqI simp: bit_simps)

text \<open>The masks of the byte and halfword lanes.\<close>

lemma and_ffff_take_bit: "w AND 0xffff = take_bit 16 w" for w :: "'a::len word"
  by (simp add: take_bit_eq_mask mask_eq_exp_minus_1)

lemma and_ff_take_bit: "w AND 0xff = take_bit 8 w" for w :: "'a::len word"
  by (simp add: take_bit_eq_mask mask_eq_exp_minus_1)

section \<open>C arrays\<close>

lemma unat_of_nat_small: "n < 2 ^ LENGTH('a) \<Longrightarrow> unat (of_nat n :: 'a::len word) = n"
  by (simp add: unat_of_nat take_bit_nat_eq_self)

text \<open>A field \<open>T a[n]\<close> of a C structure is a list of length \<open>n\<close>; \<open>arr_upd\<close> is a
  read-modify-write of one element.\<close>

definition arr_upd :: "nat \<Rightarrow> ('a \<Rightarrow> 'a) \<Rightarrow> 'a list \<Rightarrow> 'a list" where
  "arr_upd i f xs = xs[i := f (xs ! i)]"

lemma length_arr_upd [simp]: "length (arr_upd i f xs) = length xs"
  by (simp add: arr_upd_def)

lemma arr_upd_nth_eq [simp]: "i < length xs \<Longrightarrow> arr_upd i f xs ! i = f (xs ! i)"
  by (simp add: arr_upd_def)

lemma arr_upd_nth_neq [simp]: "i \<noteq> j \<Longrightarrow> arr_upd i f xs ! j = xs ! j"
  by (simp add: arr_upd_def)

lemma arr_upd_nth: "i < length xs \<Longrightarrow> arr_upd i f xs ! j = (if i = j then f (xs ! j) else xs ! j)"
  by simp

lemma arr_upd_out [simp]: "length xs \<le> i \<Longrightarrow> arr_upd i f xs = xs"
  by (simp add: arr_upd_def list_update_beyond)

lemma arr_upd_id: "f (xs ! i) = xs ! i \<Longrightarrow> arr_upd i f xs = xs"
  by (simp add: arr_upd_def)

lemma map_arr_upd_same: "(\<And>x. f (g x) = f x) \<Longrightarrow> map f (arr_upd i g xs) = map f xs"
  by (cases "i < length xs") (auto simp: arr_upd_def map_update list_update_same_conv list_update_beyond)

lemma nth_map_cong:
  assumes "map f xs = map f ys" "\<And>x y. f x = f y \<Longrightarrow> g x = g y"
  shows "g (xs ! i) = g (ys ! i)"
  using assms(1)
proof (induction xs arbitrary: ys i)
  case (Cons x xs)
  then obtain y ys' where ys: "ys = y # ys'" "f x = f y" "map f xs = map f ys'"
    by (cases ys) auto
  show ?case
  proof (cases i)
    case 0
    then show ?thesis using assms(2)[OF ys(2)] ys(1) by simp
  next
    case (Suc j)
    then show ?thesis using Cons.IH[OF ys(3), of j] ys(1) by simp
  qed
qed simp

lemma nth_list_all: "list_all P xs \<Longrightarrow> i < length xs \<Longrightarrow> P (xs ! i)"
  by (simp add: list_all_length)

text \<open>The bytes of a little-endian value of \<open>n\<close> bytes, and back.\<close>

definition le_bytes :: "nat \<Rightarrow> u32 \<Rightarrow> u8 list" where
  "le_bytes n w = map (\<lambda>i. ucast (drop_bit (8 * i) w)) [0..<n]"

fun of_le_bytes :: "u8 list \<Rightarrow> u32" where
  "of_le_bytes [] = 0"
| "of_le_bytes (b # bs) = ucast b OR push_bit 8 (of_le_bytes bs)"

lemma length_le_bytes [simp]: "length (le_bytes n w) = n"
  by (simp add: le_bytes_def)

lemma le_bytes_Suc: "le_bytes (Suc n) w = ucast w # le_bytes n (drop_bit 8 w)"
proof -
  have "[0..<Suc n] = 0 # map Suc [0..<n]" by (simp only: upt_conv_Cons map_Suc_upt zero_less_Suc)
  then show ?thesis unfolding le_bytes_def by (simp add: o_def drop_bit_drop_bit add.commute)
qed

lemma of_le_bytes_roundtrip: "n \<le> 4 \<Longrightarrow> of_le_bytes (le_bytes n w) = take_bit (8 * n) w"
proof (induction n arbitrary: w)
  case 0
  then show ?case by (simp add: le_bytes_def)
next
  case (Suc n)
  then have "of_le_bytes (le_bytes n (drop_bit 8 w)) = take_bit (8 * n) (drop_bit 8 w)" by simp
  then show ?case
    by (intro bit_word_eqI) (auto simp: le_bytes_Suc bit_simps)
qed

section \<open>QEMU timers\<close>

text \<open>
  What a device can observe of a \<open>QEMUTimer\<close>: whether it was created, and the absolute
  deadline (in nanoseconds of the virtual clock) the last \<open>timer_mod\<close> asked for.
\<close>

datatype qtimer = Timer_null | Timer_idle | Timer_armed u64

fun timer_mod_ns :: "u64 \<Rightarrow> qtimer \<Rightarrow> qtimer" where
  "timer_mod_ns t Timer_null = Timer_null"
| "timer_mod_ns t _ = Timer_armed t"

fun timer_del :: "qtimer \<Rightarrow> qtimer" where
  "timer_del Timer_null = Timer_null"
| "timer_del _ = Timer_idle"

fun timer_pending :: "qtimer \<Rightarrow> bool" where
  "timer_pending (Timer_armed _) = True"
| "timer_pending _ = False"

lemma timer_null_stable [simp]:
  "(timer_mod_ns t q = Timer_null) = (q = Timer_null)"
  "(timer_del q = Timer_null) = (q = Timer_null)"
  by (cases q; simp)+

lemma timer_mod_armed [simp]: "q \<noteq> Timer_null \<Longrightarrow> timer_mod_ns t q = Timer_armed t"
  by (cases q) simp_all

lemma timer_del_idle [simp]: "q \<noteq> Timer_null \<Longrightarrow> timer_del q = Timer_idle"
  by (cases q) simp_all

section \<open>Host arithmetic service\<close>

text \<open>
  \<open>muldiv64\<close> is a QEMU host utility that is not part of this source tree. The model takes it as
  a parameter; \<open>muldiv64_ok\<close> is its documented behaviour: the product is formed without overflow,
  divided, and the quotient truncated to 64 bits.
\<close>

type_synonym muldiv = "u64 \<Rightarrow> u32 \<Rightarrow> u32 \<Rightarrow> u64"

definition muldiv64_ok :: "muldiv \<Rightarrow> bool" where
  "muldiv64_ok f \<longleftrightarrow> (\<forall>a b c. c \<noteq> 0 \<longrightarrow> f a b c = word_of_nat (unat a * unat b div unat c))"

definition muldiv64_ref :: muldiv where
  "muldiv64_ref a b c = word_of_nat (unat a * unat b div unat c)"

lemma muldiv64_ref_ok: "muldiv64_ok muldiv64_ref"
  by (simp add: muldiv64_ok_def muldiv64_ref_def)

lemma muldiv64_unat_less:
  assumes "muldiv64_ok f" "c \<noteq> 0" "unat a * unat b div unat c < 2 ^ 64"
  shows "unat (f a b c) = unat a * unat b div unat c"
  using assms by (simp add: muldiv64_ok_def unat_of_nat take_bit_nat_eq_self)

section \<open>Byte memories\<close>

text \<open>\<open>memcpy\<close> into a byte array.\<close>

definition mem_store :: "nat \<Rightarrow> u8 list \<Rightarrow> u8 list \<Rightarrow> u8 list" where
  "mem_store off ds mem = take off mem @ ds @ drop (off + length ds) mem"

lemma length_mem_store: "off + length ds \<le> length mem \<Longrightarrow> length (mem_store off ds mem) = length mem"
  by (simp add: mem_store_def)

lemma mem_store_outside:
  "off + length ds \<le> length mem \<Longrightarrow> k < length mem \<Longrightarrow> k < off \<or> off + length ds \<le> k \<Longrightarrow>
   mem_store off ds mem ! k = mem ! k"
  by (auto simp: mem_store_def nth_append)

lemma mem_store_append:
  assumes "off + length r + length ds \<le> length mem"
  shows "mem_store (off + length r) ds (mem_store off r mem) = mem_store off (r @ ds) mem"
  using assms by (cases "off = length mem") (simp_all add: mem_store_def min_def ac_simps)

lemma mem_store_hit: "off + length ds \<le> length mem \<Longrightarrow> take (length ds) (drop off (mem_store off ds mem)) = ds"
  by (simp add: mem_store_def)

lemma mem_store_elsewhere:
  assumes "off + length ds \<le> length mem" "k + n \<le> off \<or> off + length ds \<le> k"
  shows "take n (drop k (mem_store off ds mem)) = take n (drop k mem)"
  using assms(2)
  by (intro nth_equalityI) (auto simp: length_mem_store[OF assms(1)] mem_store_outside[OF assms(1)])

end
