(* ===== verification/Ch32_State.thy ===== *)
theory Ch32_State
  imports Ch32_Prelude
begin

text \<open>
  The state of the emulated machine, after \<open>Ch32MachineState\<close> and the structures it embeds
  (\<open>ch32-machine-internal.h\<close>), \<open>Ch32Eth10mState\<close>, \<open>Ch32EthState\<close> and the fields of
  \<open>CPURISCVState\<close> that the WCH extensions and the M-mode trap path use (\<open>target/riscv/cpu.h\<close>).
  Only the part that takes part in the interrupt network is one nested record; the peripherals
  without an interrupt path (flash, GPIO, RTC, watchdogs, SPI, I2C, CRC, ...) keep their own
  records in their own theories.
\<close>

section \<open>The QingKe core\<close>

text \<open>\<open>mstatus\<close> by its fields: \<open>get_field\<close> is the selector and \<open>set_field\<close> the update.\<close>

record mstatus_fields =
  ms_sie :: bool
  ms_mie :: bool
  ms_spie :: bool
  ms_spp :: nat
  ms_mpie :: bool
  ms_mpp :: nat
  ms_fs :: nat
  ms_mprv :: bool
  ms_mpv :: bool
  ms_mpelp :: bool

record cpu_cfg =
  ext_hpe :: bool
  has_rvf :: bool
  has_rvu :: bool
  allow_16bit :: bool
  cfg_pmp :: bool
  pmp_num_rules :: nat
  priv_ge_1_12 :: bool

record cpu_state =
  cfg :: cpu_cfg
  gpr :: "u32 list"
  pc :: u32
  priv :: nat
  mstatus :: mstatus_fields
  mie :: u64
  mip :: u64
  mideleg :: u64
  medeleg :: u64
  mvien :: u64
  mvip :: u64
  sie :: u64
  vstime_irq :: bool
  mtvec :: u32
  mcause :: u32
  mepc :: u32
  mtval :: u32
  stvec :: u32
  scause :: u32
  sepc :: u32
  stval :: u32
  load_res :: u32
  irq_line :: bool
  wch_hpe_depth :: u8
  wch_hpe_bank :: "u32 list list"
  wch_hpe_sw_handler_skip :: bool
  wch_vtf_in_isr :: u32
  wch_evt_mcause_override :: u32
  wch_intsyscr :: u32

section \<open>Interrupt controller and system timer\<close>

record pfic_state =
  pfic_ienr :: "u32 list"
  pfic_ipr :: "u32 list"
  pfic_iactr :: "u32 list"
  pfic_iprior :: "u8 list"
  pfic_ithresdr :: u32
  pfic_sctlr :: u32
  pfic_vtfidr :: "u8 list"
  pfic_vtfaddr :: "u32 list"

record stk_state =
  stk_ctlr :: u32
  stk_sr :: u32
  stk_cmpl :: u32
  stk_cmph :: u32

section \<open>Serial ports\<close>

record usart1_state =
  u1_statr :: u16
  u1_brr :: u32
  u1_ctlr1 :: u32
  u1_ctlr2 :: u32
  u1_ctlr3 :: u32
  u1_gpr :: u32
  u1_ctlr4 :: u32
  rx_buf :: "u8 list"
  rx_head :: nat
  rx_tail :: nat
  tx_buf :: "u8 list"
  tx_head :: nat
  tx_tail :: nat
  tx_timer :: qtimer
  rx_timer :: qtimer
  rx_stage_buf :: "u8 list"
  rx_stage_head :: nat
  rx_stage_tail :: nat
  u1_rx_pending :: bool
  rdr :: u8
  tx_empty :: bool
  tx_complete :: bool

record lite_state =
  l_statr :: u16
  l_brr :: u32
  l_ctlr1 :: u32
  l_ctlr2 :: u32
  l_ctlr3 :: u32
  l_gpr :: u32
  l_ctlr4 :: u32
  datar_last :: u8
  l_rx_pending :: bool
  rx_fifo :: "u8 list"
  rx_fifo_h :: u8
  rx_fifo_t :: u8

section \<open>General-purpose timers\<close>

record tim_state =
  tim_timer :: qtimer
  t_ctlr1 :: u16
  t_ctlr2 :: u16
  t_smcfgr :: u16
  t_dmaintenr :: u16
  t_intfr :: u16
  t_chctlr1 :: u16
  t_chctlr2 :: u16
  t_ccer :: u16
  t_psc :: u16
  t_atrlr :: u16
  t_atrlr_preload :: u16
  t_ch1cvr :: u16
  t_ch2cvr :: u16
  t_ch3cvr :: u16
  t_ch4cvr :: u16
  t_dmacfgr :: u16
  t_dmaadr :: u16
  t_aux :: u16
  cnt_base :: u64
  epoch_ns :: u64
  t_irq_active :: bool

section \<open>DMA controllers\<close>

record dma_channel =
  dma_cfgr :: u32
  dma_cntr :: u32
  dma_paddr :: u32
  dma_maddr :: u32

record dma_state =
  dma_intfr :: "u32 list"
  dma_ch1 :: "dma_channel list"
  dma_ch2 :: "dma_channel list"

section \<open>Ethernet controllers\<close>

record eth10m_state =
  e10_regs :: "u8 list"
  e10_phy_regs :: "u16 list"
  e10_rx_stash :: "u8 list"
  e10_irq_active :: bool
  link_up_deadline_ns :: u64
  link_announced :: bool
  link_timer :: qtimer

datatype phy_variant = CH32_ETH_PHY_CH182 | CH32_ETH_PHY_PHY10M | CH32_ETH_PHY_RTL8211F

text \<open>The receive stash is the list of its valid bytes; \<open>bh_scheduled\<close> is the bottom half \<open>bh\<close>.\<close>

record eth_state =
  eth_poll :: qtimer
  poll_active :: bool
  bh_scheduled :: bool
  poll_idle_count :: nat
  mmio_w :: "u32 list"
  phy_reg :: "u16 list"
  phy_bcr :: u16
  phy_bsr :: u16
  rx_stash :: "u8 list"
  tx_cur_desc :: u32
  rx_cur_desc :: u32
  eth_irq_active :: bool
  phy_link_up_deadline_ns :: u64
  phy_link_irq_injected :: bool
  the_phy_variant :: phy_variant
  rtl8211f_page :: u16
  rtl8211f_mmd_ctrl :: u16
  rtl8211f_mmd_addr :: u16

section \<open>The machine\<close>

record machine =
  m_cpu :: cpu_state
  m_pfic :: pfic_state
  rcc_words :: "u32 list"
  board_clocks :: "(u32 \<times> u32) option"
  m_stk :: stk_state
  stk_timer :: qtimer
  stk_epoch_ns :: u64
  stk_cnt_at_epoch :: u64
  m_usart1 :: usart1_state
  m_lite :: "lite_state list"
  m_tims :: "tim_state list"
  m_dma :: dma_state
  m_eth10m :: "eth10m_state option"
  m_eth :: "eth_state option"
  usbhs_reg :: "u8 list"
  usbfs_reg :: "u8 list"
  usb_host_inited :: bool
  usbfs_host_inited :: bool
  bkp_datar :: "u16 list"
  bkp_octlr :: u32
  bkp_tpcsr :: u32
  m_ram :: "u8 list"
  clock_ns :: u64
  muldiv64 :: muldiv
  chr_out :: "u8 list"
  net_out :: "u8 list list"
  reset_requested :: bool
  out_of_fuel :: bool

text \<open>
  \<open>m_ram\<close> is the main memory at \<open>CH32_SRAM_BASE\<close>. The last seven fields are the host side of the
  model: the value of the virtual clock during the
  handler that runs, the 64-bit multiply-divide service, the bytes handed to the character
  backend, the frames handed to the network backend, whether a guest reset was requested, and the ghost flag that a bounded rescan ran out
  of its bound (shown never to happen in \<open>Ch32_Resync\<close>).
\<close>

section \<open>Constants\<close>

definition MIP_MSIP :: u64 where "MIP_MSIP = one_bit 3"
definition MIP_MTIP :: u64 where "MIP_MTIP = one_bit 7"
definition MIP_MEIP :: u64 where "MIP_MEIP = one_bit 11"

definition CH32_SYSTICK_NVIC_BIT :: nat where "CH32_SYSTICK_NVIC_BIT = 12"
definition CH32_PFIC_SW_IRQ_BIT :: nat where "CH32_PFIC_SW_IRQ_BIT = 14"
definition CH32_USART1_NVIC_IRQ :: nat where "CH32_USART1_NVIC_IRQ = 53"
definition CH32_ETH_10M_IRQ_N :: nat where "CH32_ETH_10M_IRQ_N = 61"
definition CH32_ETH_IRQ_N :: nat where "CH32_ETH_IRQ_N = 77"

lemmas irq_number_defs = CH32_SYSTICK_NVIC_BIT_def CH32_PFIC_SW_IRQ_BIT_def
  CH32_USART1_NVIC_IRQ_def CH32_ETH_10M_IRQ_N_def CH32_ETH_IRQ_N_def

text \<open>The bit a peripheral tests before it raises its interrupt: \<open>(m->pfic_ienr[n / 32] >> (n % 32)) & 1u\<close>.\<close>

definition ienr_on :: "nat \<Rightarrow> machine \<Rightarrow> bool" where
  "ienr_on n m = bit (pfic_ienr (m_pfic m) ! (n div 32)) (n mod 32)"

abbreviation owner :: "machine \<Rightarrow> u32" where
  "owner m \<equiv> wch_evt_mcause_override (m_cpu m)"

abbreviation env_upd :: "(cpu_state \<Rightarrow> cpu_state) \<Rightarrow> machine \<Rightarrow> machine" where
  "env_upd f \<equiv> m_cpu_update f"

text \<open>
  \<open>Ch32DmaChannel *\<close>: the channel pointers of the code always point into one of the two arrays.
\<close>

datatype dma_ref = Dma1 nat | Dma2 nat

fun dma_get :: "dma_ref \<Rightarrow> machine \<Rightarrow> dma_channel" where
  "dma_get (Dma1 i) m = dma_ch1 (m_dma m) ! i"
| "dma_get (Dma2 i) m = dma_ch2 (m_dma m) ! i"

fun dma_upd :: "dma_ref \<Rightarrow> (dma_channel \<Rightarrow> dma_channel) \<Rightarrow> machine \<Rightarrow> machine" where
  "dma_upd (Dma1 i) f m = m_dma_update (dma_ch1_update (arr_upd i f)) m"
| "dma_upd (Dma2 i) f m = m_dma_update (dma_ch2_update (arr_upd i f)) m"

text \<open>
  The system address space of the DMA engine: reads and writes of guest physical memory, which may
  reach device registers and so change the machine. \<open>None\<close> and \<open>False\<close> stand for a result other
  than \<open>MEMTX_OK\<close>.
\<close>

type_synonym as_read = "u32 \<Rightarrow> nat \<Rightarrow> machine \<Rightarrow> u8 list option \<times> machine"
type_synonym as_write = "u32 \<Rightarrow> u8 list \<Rightarrow> machine \<Rightarrow> bool \<times> machine"

text \<open>Array shapes of the C declarations.\<close>

definition pfic_shape :: "pfic_state \<Rightarrow> bool" where
  "pfic_shape p \<longleftrightarrow> length (pfic_ienr p) = 8 \<and> length (pfic_ipr p) = 8 \<and>
     length (pfic_iactr p) = 8 \<and> length (pfic_iprior p) = 256 \<and>
     length (pfic_vtfidr p) = 4 \<and> length (pfic_vtfaddr p) = 4"

lemma pfic_shapeD:
  assumes "pfic_shape p"
  shows "length (pfic_ienr p) = 8" "length (pfic_ipr p) = 8" "length (pfic_iactr p) = 8"
    "length (pfic_iprior p) = 256" "length (pfic_vtfidr p) = 4" "length (pfic_vtfaddr p) = 4"
  using assms by (simp_all add: pfic_shape_def)

end
