(* ===== verification/Ch32_Cpu.thy ===== *)
theory Ch32_Cpu
  imports Ch32_State
begin

text \<open>
  The WCH QingKe extensions of the RISC-V core: the HPE shadow register bank and the VTF helpers
  of \<open>target/riscv/wch-qingke.h\<close>, the pending-interrupt choice, trap entry and interrupt
  acceptance of \<open>cpu_helper.c\<close> and the machine-mode return of \<open>op_helper.c\<close>. The extensions a
  QingKe core does not have (H, Smrnmi, Smaia, Smdbltrp, Zicfilp, CTR) are switched off, as
  their configuration bits are for these cores; what remains is every branch that is left.
\<close>

section \<open>HPE shadow bank\<close>

definition wch_hpe_regmap :: "nat list" where
  "wch_hpe_regmap = [1, 5, 6, 7, 10, 11, 12, 13, 14, 15, 16, 17, 28, 29, 30, 31]"

definition wch_qingke_hpe_push :: "cpu_state \<Rightarrow> cpu_state" where
  "wch_qingke_hpe_push env =
     (if \<not> ext_hpe (cfg env) \<or> unat (wch_hpe_depth env) \<ge> 8 then env
      else env\<lparr>wch_hpe_bank := (wch_hpe_bank env)[unat (wch_hpe_depth env) :=
                   map (\<lambda>r. gpr env ! r) wch_hpe_regmap],
               wch_hpe_depth := wch_hpe_depth env + 1\<rparr>)"

definition hpe_restore :: "u32 list \<Rightarrow> u32 list \<Rightarrow> u32 list" where
  "hpe_restore frame g = fold (\<lambda>i g. g[wch_hpe_regmap ! i := frame ! i]) [0..<16] g"

definition wch_qingke_hpe_mret_pop :: "cpu_state \<Rightarrow> cpu_state" where
  "wch_qingke_hpe_mret_pop env =
     (if wch_hpe_sw_handler_skip env then env\<lparr>wch_hpe_sw_handler_skip := False\<rparr>
      else if \<not> ext_hpe (cfg env) \<or> wch_hpe_depth env = 0 then env
      else let d = wch_hpe_depth env - 1 in
           env\<lparr>wch_hpe_depth := d,
               gpr := hpe_restore (wch_hpe_bank env ! unat d) (gpr env)\<rparr>)"

section \<open>VTF helpers\<close>

definition wch_is_vtf_mode :: "cpu_state \<Rightarrow> bool" where
  "wch_is_vtf_mode env \<longleftrightarrow> ext_hpe (cfg env) \<and> mtvec env AND 3 = 3"

definition wch_vtf_irq_blocked :: "cpu_state \<Rightarrow> bool" where
  "wch_vtf_irq_blocked env \<longleftrightarrow> wch_is_vtf_mode env \<and> 0 < wch_vtf_in_isr env"

definition wch_sw_handler_irq_blocked :: "cpu_state \<Rightarrow> bool" where
  "wch_sw_handler_irq_blocked env \<longleftrightarrow> wch_is_vtf_mode env \<and> wch_hpe_sw_handler_skip env"

definition wch_vtf_enter :: "cpu_state \<Rightarrow> cpu_state" where
  "wch_vtf_enter env = env\<lparr>wch_vtf_in_isr := wch_vtf_in_isr env + 1\<rparr>"

definition wch_vtf_exit :: "cpu_state \<Rightarrow> cpu_state" where
  "wch_vtf_exit env =
     (if 0 < wch_vtf_in_isr env then env\<lparr>wch_vtf_in_isr := wch_vtf_in_isr env - 1\<rparr> else env)"

definition EXT_STATUS_INITIAL :: nat where "EXT_STATUS_INITIAL = 1"

definition wch_hpe_fix_fpu_on_entry :: "cpu_state \<Rightarrow> cpu_state" where
  "wch_hpe_fix_fpu_on_entry env =
     (if ext_hpe (cfg env) \<and> has_rvf (cfg env) \<and> ms_fs (mstatus env) = 0
      then env\<lparr>mstatus := (mstatus env)\<lparr>ms_fs := EXT_STATUS_INITIAL\<rparr>\<rparr> else env)"

definition IRQ_M_SOFT :: nat where "IRQ_M_SOFT = 3"
definition IRQ_M_TIMER :: nat where "IRQ_M_TIMER = 7"
definition IRQ_M_EXT :: nat where "IRQ_M_EXT = 11"

lemmas irq_m_defs = IRQ_M_SOFT_def IRQ_M_TIMER_def IRQ_M_EXT_def

definition WCH_EVT_HARDFAULT_WORD :: u32 where "WCH_EVT_HARDFAULT_WORD = 3"

definition wch_vtf_async_vec_word :: "cpu_state \<Rightarrow> nat \<Rightarrow> u32" where
  "wch_vtf_async_vec_word env cause =
     (if cause = IRQ_M_TIMER then 12
      else if cause = IRQ_M_SOFT then 14
      else if cause = IRQ_M_EXT \<and> wch_evt_mcause_override env \<noteq> 0
           then wch_evt_mcause_override env
      else of_nat cause)"

section \<open>Interrupt line\<close>

definition MIP_VSTIP :: u64 where "MIP_VSTIP = one_bit 6"

definition riscv_cpu_interrupt :: "cpu_state \<Rightarrow> cpu_state" where
  "riscv_cpu_interrupt env =
     (let irqf = mvien env AND mvip env AND sie env;
          vstip = (if vstime_irq env then MIP_VSTIP else 0)
      in env\<lparr>irq_line := (mip env OR vstip OR irqf) \<noteq> 0\<rparr>)"

definition riscv_cpu_update_mip :: "u64 \<Rightarrow> u64 \<Rightarrow> cpu_state \<Rightarrow> cpu_state" where
  "riscv_cpu_update_mip msk value env =
     (let msk' = (if msk = MIP_VSTIP \<and> vstime_irq env then 0 else msk)
      in riscv_cpu_interrupt (env\<lparr>mip := (mip env AND NOT msk') OR (value AND msk')\<rparr>))"

definition PRV_U :: nat where "PRV_U = 0"
definition PRV_S :: nat where "PRV_S = 1"
definition PRV_M :: nat where "PRV_M = 3"

lemmas prv_defs = PRV_U_def PRV_S_def PRV_M_def

definition riscv_cpu_all_pending :: "cpu_state \<Rightarrow> u64" where
  "riscv_cpu_all_pending env =
     (mip env OR (if vstime_irq env then MIP_VSTIP else 0)) AND mie env"

text \<open>\<open>ctz64\<close>: without Smaia/Ssaia the lowest pending line wins; \<open>None\<close> is \<open>RISCV_EXCP_NONE\<close>.\<close>

definition riscv_cpu_pending_to_irq :: "u64 \<Rightarrow> nat option" where
  "riscv_cpu_pending_to_irq pending = List.find (bit pending) [0..<64]"

definition riscv_cpu_local_irq_pending :: "cpu_state \<Rightarrow> nat option" where
  "riscv_cpu_local_irq_pending env =
     (let m_on = priv env < PRV_M \<or> (priv env = PRV_M \<and> ms_mie (mstatus env));
          hs_on = priv env < PRV_S \<or> (priv env = PRV_S \<and> ms_sie (mstatus env));
          pending = riscv_cpu_all_pending env;
          irqs = (if m_on then pending AND NOT (mideleg env) else 0)
      in if irqs \<noteq> 0 then riscv_cpu_pending_to_irq irqs
         else let irqs_f = mvip env AND (mvien env AND NOT (mideleg env)) AND sie env;
                  irqs_s = (if hs_on then (pending AND mideleg env) OR irqs_f else 0)
              in if irqs_s \<noteq> 0 then riscv_cpu_pending_to_irq irqs_s else None)"

section \<open>Trap entry\<close>

definition riscv_cpu_set_mode :: "nat \<Rightarrow> cpu_state \<Rightarrow> cpu_state" where
  "riscv_cpu_set_mode newpriv env = env\<lparr>priv := newpriv, load_res := - 1\<rparr>"

text \<open>
  The dispatch through the EVT word table: \<open>ldl\<close> is \<open>address_space_ldl\<close> on the machine's address
  space, \<open>None\<close> a result other than \<open>MEMTX_OK\<close>.
\<close>

definition evt_dispatch :: "(u64 \<Rightarrow> u32 option) \<Rightarrow> u32 \<Rightarrow> u32 \<Rightarrow> u32" where
  "evt_dispatch ldl mtvec_addr vec_word =
     (case ldl (ucast mtvec_addr + 4 * ucast vec_word) of
        Some handler \<Rightarrow>
          let dest = handler AND NOT 1 in if dest = 0 then mtvec_addr else dest
      | None \<Rightarrow> mtvec_addr)"

definition trap_mstatus :: "cpu_state \<Rightarrow> mstatus_fields" where
  "trap_mstatus env =
     (mstatus env)\<lparr>ms_mpie := ms_mie (mstatus env), ms_mpp := priv env, ms_mie := False\<rparr>"

definition trap_vector :: "(u64 \<Rightarrow> u32 option) \<Rightarrow> bool \<Rightarrow> nat \<Rightarrow> cpu_state \<Rightarrow> cpu_state" where
  "trap_vector ldl async cause env =
     (let mtvec_addr = mtvec env AND NOT 3; mtvec_mode = mtvec env AND 3 in
      if \<not> async \<and> wch_is_vtf_mode env then
        env\<lparr>pc := evt_dispatch ldl mtvec_addr WCH_EVT_HARDFAULT_WORD\<rparr>
      else if async \<and> wch_is_vtf_mode env then
        let env1 = (if cause = IRQ_M_SOFT
                    then (riscv_cpu_update_mip MIP_MSIP 0 env)\<lparr>wch_hpe_sw_handler_skip := True\<rparr>
                    else env);
            env2 = env1\<lparr>pc := evt_dispatch ldl mtvec_addr (wch_vtf_async_vec_word env1 cause)\<rparr>
        in if cause \<noteq> IRQ_M_SOFT then wch_vtf_enter env2 else env2
      else env\<lparr>pc := mtvec_addr + (if async \<and> mtvec_mode = 1 then of_nat cause * 4 else 0)\<rparr>)"

text \<open>
  The mode that takes the trap (\<open>s_injected\<close>: raised through \<open>mvip\<close> only), the supervisor branch
  and the machine branch.
\<close>

definition trap_to_smode :: "bool \<Rightarrow> nat \<Rightarrow> cpu_state \<Rightarrow> bool" where
  "trap_to_smode async cause env =
     (let deleg = (if async then mideleg env else medeleg env);
          s_injected = bit (mvip env) cause \<and> bit (mvien env) cause \<and> \<not> bit (mip env) cause
      in priv env \<le> PRV_S \<and> cause < 64 \<and> (bit deleg cause \<or> s_injected))"

definition do_interrupt_smode :: "bool \<Rightarrow> nat \<Rightarrow> u32 \<Rightarrow> cpu_state \<Rightarrow> cpu_state" where
  "do_interrupt_smode async cause tval env =
     riscv_cpu_set_mode PRV_S
       (env\<lparr>mstatus := (mstatus env)\<lparr>ms_spie := ms_sie (mstatus env), ms_spp := priv env,
                                     ms_sie := False\<rparr>,
            scause := of_nat cause OR (if async then one_bit 31 else 0),
            sepc := pc env, stval := tval,
            pc := (stvec env AND NOT 3) +
                  (if async \<and> stvec env AND 3 = 1 then of_nat cause * 4 else 0)\<rparr>)"

definition do_interrupt_mmode ::
    "(u64 \<Rightarrow> u32 option) \<Rightarrow> bool \<Rightarrow> nat \<Rightarrow> u32 \<Rightarrow> cpu_state \<Rightarrow> cpu_state" where
  "do_interrupt_mmode ldl async cause tval env =
     (let env1 = env\<lparr>mstatus := trap_mstatus env\<rparr>;
          env2 = wch_hpe_fix_fpu_on_entry env1;
          env3 = env2\<lparr>mcause := of_nat cause OR (if async then one_bit 31 else 0),
                      mepc := pc env2, mtval := tval\<rparr>;
          env4 = riscv_cpu_set_mode PRV_M (trap_vector ldl async cause env3)
      in if async \<and> ext_hpe (cfg env4) \<and> \<not> wch_hpe_sw_handler_skip env4
         then wch_qingke_hpe_push env4 else env4)"

definition riscv_cpu_do_interrupt ::
    "(u64 \<Rightarrow> u32 option) \<Rightarrow> bool \<Rightarrow> nat \<Rightarrow> u32 \<Rightarrow> cpu_state \<Rightarrow> cpu_state" where
  "riscv_cpu_do_interrupt ldl async cause tval env =
     (if trap_to_smode async cause env then do_interrupt_smode async cause tval env
      else do_interrupt_mmode ldl async cause tval env)"

text \<open>\<open>request\<close>: the hard interrupt line of the CPU is up.\<close>

definition riscv_cpu_exec_interrupt ::
    "(u64 \<Rightarrow> u32 option) \<Rightarrow> bool \<Rightarrow> cpu_state \<Rightarrow> bool \<times> cpu_state" where
  "riscv_cpu_exec_interrupt ldl request env =
     (if request then
        (case riscv_cpu_local_irq_pending env of
           None \<Rightarrow> (False, env)
         | Some interruptno \<Rightarrow>
             if wch_vtf_irq_blocked env then (False, env)
             else if wch_sw_handler_irq_blocked env then (False, env)
             else (True, riscv_cpu_do_interrupt ldl True interruptno 0 env))
      else (False, env))"

section \<open>Return from machine mode\<close>

datatype riscv_excp = RISCV_EXCP_ILLEGAL_INST | RISCV_EXCP_INST_ADDR_MIS
  | RISCV_EXCP_INST_ACCESS_FAULT

definition check_ret_from_m_mode :: "u32 \<Rightarrow> nat \<Rightarrow> cpu_state \<Rightarrow> riscv_excp option" where
  "check_ret_from_m_mode retpc prev_priv env =
     (if \<not> priv env \<ge> PRV_M then Some RISCV_EXCP_ILLEGAL_INST
      else if \<not> allow_16bit (cfg env) \<and> retpc AND 3 \<noteq> 0 then Some RISCV_EXCP_INST_ADDR_MIS
      else if cfg_pmp (cfg env) \<and> pmp_num_rules (cfg env) = 0 \<and> prev_priv \<noteq> PRV_M \<and>
              \<not> ext_hpe (cfg env) then Some RISCV_EXCP_INST_ACCESS_FAULT
      else None)"

definition mret_mstatus :: "cpu_state \<Rightarrow> mstatus_fields" where
  "mret_mstatus env =
     (let s = mstatus env; prev_priv = ms_mpp s;
          s1 = s\<lparr>ms_mie := ms_mpie s, ms_mpie := True,
                 ms_mpp := (if has_rvu (cfg env) then PRV_U else PRV_M), ms_mpv := False\<rparr>
      in if priv_ge_1_12 (cfg env) \<and> prev_priv \<noteq> PRV_M then s1\<lparr>ms_mprv := False\<rparr> else s1)"

text \<open>
  \<open>cb\<close> is \<open>wch_pfic_mret_cb\<close> with its opaque argument (\<open>None\<close> when not registered) and
  \<open>xepc_mask\<close> the value of \<open>get_xepc_mask\<close>. An exception leaves the state as it is at the raise.
\<close>

definition mret_wch :: "(u32 \<Rightarrow> machine \<Rightarrow> machine) option \<Rightarrow> machine \<Rightarrow> machine" where
  "mret_wch cb m =
     (let was_sw_handler = wch_hpe_sw_handler_skip (m_cpu m);
          m1 = env_upd wch_qingke_hpe_mret_pop m
      in if wch_is_vtf_mode (m_cpu m1) \<and> \<not> was_sw_handler
         then let m' = env_upd wch_vtf_exit m1
              in (case cb of
                    Some f \<Rightarrow> if owner m' \<noteq> 0 then f (owner m') m' else m'
                  | None \<Rightarrow> m')
         else m1)"

definition mret_restore :: "nat \<Rightarrow> cpu_state \<Rightarrow> cpu_state" where
  "mret_restore prev_priv env =
     (let e1 = riscv_cpu_set_mode prev_priv (env\<lparr>mstatus := mret_mstatus env\<rparr>)
      in e1\<lparr>mstatus := (mstatus e1)\<lparr>ms_mpelp := False\<rparr>\<rparr>)"

definition helper_mret ::
    "(u32 \<Rightarrow> machine \<Rightarrow> machine) option \<Rightarrow> u32 \<Rightarrow> machine \<Rightarrow> (riscv_excp + u32) \<times> machine" where
  "helper_mret cb xepc_mask m =
     (let m2 = mret_wch cb m;
          env = m_cpu m2;
          retpc = mepc env AND xepc_mask;
          prev_priv = ms_mpp (mstatus env)
      in case check_ret_from_m_mode retpc prev_priv env of
           Some e \<Rightarrow> (Inl e, m2)
         | None \<Rightarrow> (Inr retpc, env_upd (mret_restore prev_priv) m2))"

section \<open>Reset\<close>

text \<open>
  \<open>riscv_cpu_reset_hold\<close> on the fields of the model; \<open>hold\<close> is the hold phase of QEMU's generic CPU
  class, which runs first.
\<close>

definition riscv_cpu_reset_hold :: "(cpu_state \<Rightarrow> cpu_state) \<Rightarrow> u32 \<Rightarrow> cpu_state \<Rightarrow> cpu_state" where
  "riscv_cpu_reset_hold hold resetvec env0 =
     (let env = hold env0 in
      env\<lparr>priv := PRV_M,
          mstatus := (mstatus env)\<lparr>ms_mie := False, ms_mprv := False\<rparr>,
          mcause := 0, wch_evt_mcause_override := 0, mtvec := 0,
          wch_hpe_depth := 0, wch_vtf_in_isr := 0, wch_hpe_sw_handler_skip := False,
          wch_hpe_bank := replicate 8 (replicate 16 0), wch_intsyscr := 0, pc := resetvec,
          load_res := - 1\<rparr>)"

definition write_mtvec :: "u32 \<Rightarrow> cpu_state \<Rightarrow> cpu_state" where
  "write_mtvec val env =
     (if val AND 3 < 2 then env\<lparr>mtvec := val\<rparr>
      else if val AND 3 = 3 \<and> ext_hpe (cfg env) then env\<lparr>mtvec := val\<rparr>
      else env)"

definition write_wch_intsyscr :: "u32 \<Rightarrow> cpu_state \<Rightarrow> cpu_state" where
  "write_wch_intsyscr v env = env\<lparr>wch_intsyscr := v AND 0x1F\<rparr>"

section \<open>Facts about the bank\<close>

lemma regmap_distinct: "distinct wch_hpe_regmap" and length_regmap [simp]: "length wch_hpe_regmap = 16"
  by (simp_all add: wch_hpe_regmap_def)

lemma regmap_less_32: "r \<in> set wch_hpe_regmap \<Longrightarrow> r < 32"
  by (auto simp: wch_hpe_regmap_def)

lemma fold_scatter_length: "length (fold (\<lambda>i g. g[ks ! i := fr ! i]) is g) = length g"
  by (induction "is" arbitrary: g) auto

lemma fold_scatter_other:
  "(\<And>i. i \<in> set is \<Longrightarrow> ks ! i \<noteq> j) \<Longrightarrow> fold (\<lambda>i g. g[ks ! i := fr ! i]) is g ! j = g ! j"
  by (induction "is" arbitrary: g) auto

lemma fold_scatter_hit:
  assumes "distinct ks" "n \<le> length ks" "i < n" "ks ! i < length g"
  shows "fold (\<lambda>i g. g[ks ! i := fr ! i]) [0..<n] g ! (ks ! i) = fr ! i"
  using assms
proof (induction n)
  case (Suc n)
  show ?case
  proof (cases "i = n")
    case True
    then show ?thesis using Suc.prems by (simp add: fold_scatter_length)
  next
    case False
    then have "ks ! n \<noteq> ks ! i" using Suc.prems by (simp add: nth_eq_iff_index_eq)
    then show ?thesis using Suc False by simp
  qed
qed simp

lemma length_hpe_restore [simp]: "length (hpe_restore fr g) = length g"
  by (simp add: hpe_restore_def fold_scatter_length)

lemma hpe_restore_saved:
  assumes "length g = 32" "i < 16"
  shows "hpe_restore fr g ! (wch_hpe_regmap ! i) = fr ! i"
  unfolding hpe_restore_def using assms
  by (intro fold_scatter_hit) (auto simp: regmap_distinct regmap_less_32)

lemma hpe_restore_other: "r \<notin> set wch_hpe_regmap \<Longrightarrow> hpe_restore fr g ! r = g ! r"
  unfolding hpe_restore_def by (intro fold_scatter_other) auto

lemma hpe_restore_frame:
  assumes "length g = 32" "r \<in> set wch_hpe_regmap"
  shows "hpe_restore (map (\<lambda>r. h ! r) wch_hpe_regmap) g ! r = h ! r"
proof -
  obtain i where "i < 16" "r = wch_hpe_regmap ! i" using assms(2) by (auto simp: in_set_conv_nth)
  then show ?thesis using hpe_restore_saved[OF assms(1), of i] by simp
qed

definition cpu_shape :: "cpu_state \<Rightarrow> bool" where
  "cpu_shape env \<longleftrightarrow> length (gpr env) = 32 \<and> length (wch_hpe_bank env) = 8 \<and>
     unat (wch_hpe_depth env) \<le> 8"

lemma unat_depth_Suc: "unat d < 8 \<Longrightarrow> unat (d + 1) = Suc (unat d)" for d :: u8
  by (simp add: unat_word_ariths)

lemma unat_depth_pred: "d \<noteq> 0 \<Longrightarrow> unat (d - 1) = unat d - 1" for d :: u8
  by (simp add: unat_minus_one)

lemma push_shape: "cpu_shape env \<Longrightarrow> cpu_shape (wch_qingke_hpe_push env)"
  by (auto simp: cpu_shape_def wch_qingke_hpe_push_def unat_depth_Suc)

lemma pop_shape: "cpu_shape env \<Longrightarrow> cpu_shape (wch_qingke_hpe_mret_pop env)"
  by (auto simp: cpu_shape_def wch_qingke_hpe_mret_pop_def unat_depth_pred Let_def)

text \<open>
  A well-nested run of handler code on the register bank: instructions change the registers at
  will, and a nested interrupt pushes, runs a handler and pops.
\<close>

inductive handler_run :: "cpu_state \<Rightarrow> cpu_state \<Rightarrow> bool" where
  run_done: "handler_run e e"
| run_instr: "handler_run e e' \<Longrightarrow> length g = 32 \<Longrightarrow> handler_run e (e'\<lparr>gpr := g, pc := p\<rparr>)"
| run_nested: "handler_run e e' \<Longrightarrow> unat (wch_hpe_depth e') < 8 \<Longrightarrow>
    handler_run (wch_qingke_hpe_push e') e'' \<Longrightarrow> handler_run e (wch_qingke_hpe_mret_pop e'')"

inductive_simps handler_run_simps: "handler_run e e'"

lemma push_fields:
  assumes "ext_hpe (cfg e)" "unat (wch_hpe_depth e) < 8"
  shows "unat (wch_hpe_depth (wch_qingke_hpe_push e)) = Suc (unat (wch_hpe_depth e))"
    "wch_hpe_bank (wch_qingke_hpe_push e) =
       (wch_hpe_bank e)[unat (wch_hpe_depth e) := map (\<lambda>r. gpr e ! r) wch_hpe_regmap]"
    "gpr (wch_qingke_hpe_push e) = gpr e" "cfg (wch_qingke_hpe_push e) = cfg e"
    "wch_hpe_sw_handler_skip (wch_qingke_hpe_push e) = wch_hpe_sw_handler_skip e"
  using assms by (simp_all add: wch_qingke_hpe_push_def unat_depth_Suc)

lemma pop_fields:
  assumes "ext_hpe (cfg e)" "wch_hpe_depth e \<noteq> 0" "\<not> wch_hpe_sw_handler_skip e"
  shows "unat (wch_hpe_depth (wch_qingke_hpe_mret_pop e)) = unat (wch_hpe_depth e) - 1"
    "wch_hpe_bank (wch_qingke_hpe_mret_pop e) = wch_hpe_bank e"
    "gpr (wch_qingke_hpe_mret_pop e) =
       hpe_restore (wch_hpe_bank e ! (unat (wch_hpe_depth e) - 1)) (gpr e)"
    "cfg (wch_qingke_hpe_mret_pop e) = cfg e"
    "\<not> wch_hpe_sw_handler_skip (wch_qingke_hpe_mret_pop e)"
  using assms by (simp_all add: wch_qingke_hpe_mret_pop_def Let_def unat_depth_pred)

definition same_frames :: "cpu_state \<Rightarrow> cpu_state \<Rightarrow> bool" where
  "same_frames e e' \<longleftrightarrow> cfg e' = cfg e \<and> wch_hpe_depth e' = wch_hpe_depth e \<and>
     \<not> wch_hpe_sw_handler_skip e' \<and> length (wch_hpe_bank e') = length (wch_hpe_bank e) \<and>
     length (gpr e') = 32 \<and>
     (\<forall>k < unat (wch_hpe_depth e). wch_hpe_bank e' ! k = wch_hpe_bank e ! k)"

lemma handler_run_frames:
  assumes "handler_run e e'" "cpu_shape e" "ext_hpe (cfg e)" "\<not> wch_hpe_sw_handler_skip e"
  shows "same_frames e e'"
  using assms
proof (induction rule: handler_run.induct)
  case (run_done e)
  then show ?case by (simp add: same_frames_def cpu_shape_def)
next
  case (run_instr e e' g p)
  then show ?case by (simp add: same_frames_def)
next
  case (run_nested e e' e'')
  then have F: "same_frames e e'" by simp
  let ?d = "unat (wch_hpe_depth e)"
  have d: "wch_hpe_depth e' = wch_hpe_depth e" "ext_hpe (cfg e')" "\<not> wch_hpe_sw_handler_skip e'"
    "cpu_shape e'" using F run_nested.prems by (auto simp: same_frames_def cpu_shape_def)
  note P = push_fields[OF d(2) run_nested.hyps(2)]
  have G: "same_frames (wch_qingke_hpe_push e') e''"
    using run_nested.IH(2) d P push_shape by simp
  have "unat (wch_hpe_depth e'') = Suc ?d" using G P(1) d(1) by (simp add: same_frames_def)
  then have nz: "wch_hpe_depth e'' \<noteq> 0" by (metis unat_0 nat.distinct(1))
  have e'': "ext_hpe (cfg e'')" "\<not> wch_hpe_sw_handler_skip e''"
    using G P(4) d(2) by (auto simp: same_frames_def)
  note Q = pop_fields[OF e''(1) nz e''(2)]
  have "wch_hpe_depth (wch_qingke_hpe_mret_pop e'') = wch_hpe_depth e"
    using Q(1) \<open>unat (wch_hpe_depth e'') = Suc ?d\<close> by (simp add: word_unat_eq_iff)
  moreover have "wch_hpe_bank e'' ! k = wch_hpe_bank e ! k" if "k < ?d" for k
    using that F G P(1,2) d(1) by (simp add: same_frames_def)
  ultimately show ?case using F G P Q d by (simp add: same_frames_def)
qed

text \<open>
  The interrupt handler theorem: push, any well-nested handler run, pop gives back the depth, the
  sixteen caller-saved registers of the interrupted code, and leaves the other registers as the
  handler made them.
\<close>

lemma hpe_handler_restores:
  assumes "cpu_shape e" "ext_hpe (cfg e)" "\<not> wch_hpe_sw_handler_skip e"
    "unat (wch_hpe_depth e) < 8" "handler_run (wch_qingke_hpe_push e) e1"
  defines "e2 \<equiv> wch_qingke_hpe_mret_pop e1"
  shows "wch_hpe_depth e2 = wch_hpe_depth e"
    "r \<in> set wch_hpe_regmap \<Longrightarrow> gpr e2 ! r = gpr e ! r"
    "r \<notin> set wch_hpe_regmap \<Longrightarrow> gpr e2 ! r = gpr e1 ! r"
proof -
  note P = push_fields[OF assms(2,4)]
  have G: "same_frames (wch_qingke_hpe_push e) e1"
    using handler_run_frames[OF assms(5)] push_shape assms P by simp
  have d1: "unat (wch_hpe_depth e1) = Suc (unat (wch_hpe_depth e))"
    using G P(1) by (simp add: same_frames_def)
  then have nz: "wch_hpe_depth e1 \<noteq> 0" by (metis unat_0 nat.distinct(1))
  have c1: "ext_hpe (cfg e1)" "\<not> wch_hpe_sw_handler_skip e1" "length (gpr e1) = 32"
    using G P(4) assms(2) by (auto simp: same_frames_def)
  note Q = pop_fields[OF c1(1) nz c1(2)]
  show "wch_hpe_depth e2 = wch_hpe_depth e"
    unfolding e2_def using Q(1) d1 by (simp add: word_unat_eq_iff)
  have "wch_hpe_bank e1 ! unat (wch_hpe_depth e) = map (\<lambda>r. gpr e ! r) wch_hpe_regmap"
    using G P(1,2) assms(1,4) by (simp add: same_frames_def cpu_shape_def)
  then have g2: "gpr e2 = hpe_restore (map (\<lambda>r. gpr e ! r) wch_hpe_regmap) (gpr e1)"
    unfolding e2_def using Q(3) d1 by simp
  show "gpr e2 ! r = gpr e ! r" if "r \<in> set wch_hpe_regmap"
    using hpe_restore_frame[OF c1(3) that] g2 by simp
  show "gpr e2 ! r = gpr e1 ! r" if "r \<notin> set wch_hpe_regmap"
    using hpe_restore_other[OF that] g2 by simp
qed

section \<open>The interrupt line and \<open>mip\<close>\<close>

lemma cpu_interrupt_fields [simp]:
  "cfg (riscv_cpu_interrupt e) = cfg e" "mip (riscv_cpu_interrupt e) = mip e"
  "mie (riscv_cpu_interrupt e) = mie e" "mstatus (riscv_cpu_interrupt e) = mstatus e"
  "mepc (riscv_cpu_interrupt e) = mepc e" "priv (riscv_cpu_interrupt e) = priv e"
  "gpr (riscv_cpu_interrupt e) = gpr e" "mtvec (riscv_cpu_interrupt e) = mtvec e"
  "wch_vtf_in_isr (riscv_cpu_interrupt e) = wch_vtf_in_isr e"
  "wch_hpe_depth (riscv_cpu_interrupt e) = wch_hpe_depth e"
  "wch_hpe_bank (riscv_cpu_interrupt e) = wch_hpe_bank e"
  "wch_hpe_sw_handler_skip (riscv_cpu_interrupt e) = wch_hpe_sw_handler_skip e"
  "wch_evt_mcause_override (riscv_cpu_interrupt e) = wch_evt_mcause_override e"
  "pc (riscv_cpu_interrupt e) = pc e"
  by (simp_all add: riscv_cpu_interrupt_def Let_def)

lemma update_mip_fields [simp]:
  "cfg (riscv_cpu_update_mip a b e) = cfg e" "mie (riscv_cpu_update_mip a b e) = mie e"
  "mstatus (riscv_cpu_update_mip a b e) = mstatus e"
  "mepc (riscv_cpu_update_mip a b e) = mepc e" "priv (riscv_cpu_update_mip a b e) = priv e"
  "gpr (riscv_cpu_update_mip a b e) = gpr e" "mtvec (riscv_cpu_update_mip a b e) = mtvec e"
  "wch_vtf_in_isr (riscv_cpu_update_mip a b e) = wch_vtf_in_isr e"
  "wch_hpe_depth (riscv_cpu_update_mip a b e) = wch_hpe_depth e"
  "wch_hpe_bank (riscv_cpu_update_mip a b e) = wch_hpe_bank e"
  "wch_hpe_sw_handler_skip (riscv_cpu_update_mip a b e) = wch_hpe_sw_handler_skip e"
  "wch_evt_mcause_override (riscv_cpu_update_mip a b e) = wch_evt_mcause_override e"
  "pc (riscv_cpu_update_mip a b e) = pc e"
  by (simp_all add: riscv_cpu_update_mip_def Let_def)

lemma mip_consts_neq [simp]:
  "MIP_MEIP \<noteq> MIP_VSTIP" "MIP_MTIP \<noteq> MIP_VSTIP" "MIP_MSIP \<noteq> MIP_VSTIP"
  "MIP_MTIP OR MIP_MSIP \<noteq> MIP_VSTIP"
  by (simp_all add: MIP_MEIP_def MIP_MTIP_def MIP_MSIP_def MIP_VSTIP_def)

lemma mip_update_mip:
  "msk \<noteq> MIP_VSTIP \<Longrightarrow> mip (riscv_cpu_update_mip msk v e) = (mip e AND NOT msk) OR (v AND msk)"
  by (simp add: riscv_cpu_update_mip_def Let_def)

lemma raise_meip_mip [simp]: "mip (riscv_cpu_update_mip MIP_MEIP MIP_MEIP e) = mip e OR MIP_MEIP"
  by (simp add: mip_update_mip and_not_or_same)

lemma lower_meip_mip [simp]: "mip (riscv_cpu_update_mip MIP_MEIP 0 e) = mip e AND NOT MIP_MEIP"
  by (simp add: mip_update_mip)

text \<open>The line reflects \<open>mip\<close>: what every device relies on after it changed a pending bit.\<close>

lemma irq_line_of_mip: "mip e \<noteq> 0 \<Longrightarrow> irq_line (riscv_cpu_interrupt e)"
  by (simp add: riscv_cpu_interrupt_def Let_def or_eq_zero_iff)

lemma raise_meip_line: "irq_line (riscv_cpu_update_mip MIP_MEIP MIP_MEIP e)"
  by (simp add: riscv_cpu_update_mip_def Let_def, intro irq_line_of_mip, simp add: or_eq_zero_iff,
    simp add: MIP_MEIP_def)

section \<open>Facts about traps and returns\<close>

lemma fix_fpu_fields [simp]:
  "cfg (wch_hpe_fix_fpu_on_entry e) = cfg e" "mtvec (wch_hpe_fix_fpu_on_entry e) = mtvec e"
  "pc (wch_hpe_fix_fpu_on_entry e) = pc e" "gpr (wch_hpe_fix_fpu_on_entry e) = gpr e"
  "wch_vtf_in_isr (wch_hpe_fix_fpu_on_entry e) = wch_vtf_in_isr e"
  "wch_hpe_sw_handler_skip (wch_hpe_fix_fpu_on_entry e) = wch_hpe_sw_handler_skip e"
  "wch_hpe_depth (wch_hpe_fix_fpu_on_entry e) = wch_hpe_depth e"
  "wch_hpe_bank (wch_hpe_fix_fpu_on_entry e) = wch_hpe_bank e"
  "wch_evt_mcause_override (wch_hpe_fix_fpu_on_entry e) = wch_evt_mcause_override e"
  "priv (wch_hpe_fix_fpu_on_entry e) = priv e"
  "ms_mpp (mstatus (wch_hpe_fix_fpu_on_entry e)) = ms_mpp (mstatus e)"
  "ms_mpie (mstatus (wch_hpe_fix_fpu_on_entry e)) = ms_mpie (mstatus e)"
  by (simp_all add: wch_hpe_fix_fpu_on_entry_def)

lemma push_other_fields [simp]:
  "cfg (wch_qingke_hpe_push e) = cfg e" "gpr (wch_qingke_hpe_push e) = gpr e"
  "mstatus (wch_qingke_hpe_push e) = mstatus e" "mepc (wch_qingke_hpe_push e) = mepc e"
  "mtvec (wch_qingke_hpe_push e) = mtvec e" "priv (wch_qingke_hpe_push e) = priv e"
  "wch_vtf_in_isr (wch_qingke_hpe_push e) = wch_vtf_in_isr e"
  "wch_hpe_sw_handler_skip (wch_qingke_hpe_push e) = wch_hpe_sw_handler_skip e"
  "wch_evt_mcause_override (wch_qingke_hpe_push e) = wch_evt_mcause_override e"
  by (simp_all add: wch_qingke_hpe_push_def)

lemma pop_other_fields [simp]:
  "cfg (wch_qingke_hpe_mret_pop e) = cfg e"
  "mstatus (wch_qingke_hpe_mret_pop e) = mstatus e" "mepc (wch_qingke_hpe_mret_pop e) = mepc e"
  "mtvec (wch_qingke_hpe_mret_pop e) = mtvec e" "priv (wch_qingke_hpe_mret_pop e) = priv e"
  "mip (wch_qingke_hpe_mret_pop e) = mip e" "mie (wch_qingke_hpe_mret_pop e) = mie e"
  "wch_vtf_in_isr (wch_qingke_hpe_mret_pop e) = wch_vtf_in_isr e"
  "wch_evt_mcause_override (wch_qingke_hpe_mret_pop e) = wch_evt_mcause_override e"
  "\<not> wch_hpe_sw_handler_skip (wch_qingke_hpe_mret_pop e)"
  by (simp_all add: wch_qingke_hpe_mret_pop_def Let_def)

lemma set_mode_fields [simp]:
  "cfg (riscv_cpu_set_mode p e) = cfg e" "gpr (riscv_cpu_set_mode p e) = gpr e"
  "mstatus (riscv_cpu_set_mode p e) = mstatus e" "mepc (riscv_cpu_set_mode p e) = mepc e"
  "mtvec (riscv_cpu_set_mode p e) = mtvec e" "priv (riscv_cpu_set_mode p e) = p"
  "wch_vtf_in_isr (riscv_cpu_set_mode p e) = wch_vtf_in_isr e"
  "wch_hpe_depth (riscv_cpu_set_mode p e) = wch_hpe_depth e"
  "wch_hpe_bank (riscv_cpu_set_mode p e) = wch_hpe_bank e"
  "wch_hpe_sw_handler_skip (riscv_cpu_set_mode p e) = wch_hpe_sw_handler_skip e"
  "wch_evt_mcause_override (riscv_cpu_set_mode p e) = wch_evt_mcause_override e"
  "pc (riscv_cpu_set_mode p e) = pc e"
  by (simp_all add: riscv_cpu_set_mode_def)

lemma trap_vector_fields [simp]:
  "cfg (trap_vector ldl a c e) = cfg e" "gpr (trap_vector ldl a c e) = gpr e"
  "mstatus (trap_vector ldl a c e) = mstatus e" "mepc (trap_vector ldl a c e) = mepc e"
  "mtvec (trap_vector ldl a c e) = mtvec e"
  "wch_hpe_depth (trap_vector ldl a c e) = wch_hpe_depth e"
  "wch_hpe_bank (trap_vector ldl a c e) = wch_hpe_bank e"
  "wch_evt_mcause_override (trap_vector ldl a c e) = wch_evt_mcause_override e"
  by (simp_all add: trap_vector_def Let_def wch_vtf_enter_def)

lemma trap_vector_skip:
  "wch_hpe_sw_handler_skip (trap_vector ldl a c e) =
     ((a \<and> wch_is_vtf_mode e \<and> c = IRQ_M_SOFT) \<or> wch_hpe_sw_handler_skip e)"
  by (auto simp: trap_vector_def Let_def wch_vtf_enter_def)

lemma trap_vector_in_isr:
  "wch_vtf_in_isr (trap_vector ldl a c e) =
     (if a \<and> wch_is_vtf_mode e \<and> c \<noteq> IRQ_M_SOFT then wch_vtf_in_isr e + 1 else wch_vtf_in_isr e)"
  by (auto simp: trap_vector_def Let_def wch_vtf_enter_def)

lemma vtf_mode_cong: "cfg e = cfg e' \<Longrightarrow> mtvec e = mtvec e' \<Longrightarrow> wch_is_vtf_mode e = wch_is_vtf_mode e'"
  by (simp add: wch_is_vtf_mode_def)

lemma do_interrupt_in_isr:
  "wch_vtf_in_isr (do_interrupt_mmode ldl a c t e) =
     (if a \<and> wch_is_vtf_mode e \<and> c \<noteq> IRQ_M_SOFT then wch_vtf_in_isr e + 1 else wch_vtf_in_isr e)"
  by (simp add: do_interrupt_mmode_def Let_def trap_vector_in_isr wch_is_vtf_mode_def)

lemma smode_fields [simp]:
  "wch_vtf_in_isr (do_interrupt_smode a c t e) = wch_vtf_in_isr e"
  "wch_hpe_depth (do_interrupt_smode a c t e) = wch_hpe_depth e"
  by (simp_all add: do_interrupt_smode_def)

text \<open>An accepted interrupt never finds another VTF handler active.\<close>

lemma exec_interrupt_in_isr:
  assumes "riscv_cpu_exec_interrupt ldl req e = (b, e')" "wch_vtf_in_isr e \<le> 1"
  shows "wch_vtf_in_isr e' \<le> 1"
proof -
  have "wch_vtf_in_isr e + 1 \<le> 1" if "wch_is_vtf_mode e" "\<not> wch_vtf_irq_blocked e"
    using that by (simp add: wch_vtf_irq_blocked_def word_gt_0)
  then show ?thesis using assms
    by (auto simp: riscv_cpu_exec_interrupt_def riscv_cpu_do_interrupt_def do_interrupt_in_isr
        split: if_splits option.splits)
qed

lemma exec_interrupt_blocked:
  assumes "wch_vtf_irq_blocked e \<or> wch_sw_handler_irq_blocked e"
  shows "riscv_cpu_exec_interrupt ldl req e = (False, e)"
  using assms by (auto simp: riscv_cpu_exec_interrupt_def split: option.splits)

lemma vtf_exit_le: "wch_vtf_in_isr e \<le> n \<Longrightarrow> wch_vtf_in_isr (wch_vtf_exit e) \<le> n"
proof -
  assume a: "wch_vtf_in_isr e \<le> n"
  have "0 < wch_vtf_in_isr e \<Longrightarrow> wch_vtf_in_isr e - 1 \<le> wch_vtf_in_isr e"
    by (metis word_gt_0 word_le_nat_alt unat_minus_one diff_le_self)
  with a show ?thesis by (auto simp: wch_vtf_exit_def)
qed

end
