(* ===== verification/Ch32_Meip.thy ===== *)
theory Ch32_Meip
  imports Ch32_Cpu
begin

text \<open>
  The single routing slot of the interrupt network. All peripheral interrupts of the PFIC share
  the machine external line \<open>MIP_MEIP\<close>; \<open>wch_evt_mcause_override\<close> holds the number of the one that
  owns it. Each peripheral has a resync function that claims a free slot while its condition
  holds, leaves a slot of somebody else alone, and gives its own slot back when the condition has
  gone, asking for a rescan of all the others (\<open>ch32_pfic_resync_pending_meip\<close>).

  This theory holds the operations on the active bits, the projection of the machine that resync
  functions leave unchanged, the contract of one such function as a locale, and what follows for
  any list of them.
\<close>

section \<open>Active bits\<close>

definition ch32_pfic_irq_active_set :: "nat \<Rightarrow> machine \<Rightarrow> machine" where
  "ch32_pfic_irq_active_set irq_n m =
     (let wd = irq_n div 32; b = irq_n mod 32 in
      if wd < 8 then m_pfic_update (pfic_iactr_update (arr_upd wd (\<lambda>w. w OR one_bit b))) m else m)"

definition ch32_pfic_irq_active_clear :: "nat \<Rightarrow> machine \<Rightarrow> machine" where
  "ch32_pfic_irq_active_clear irq_n m =
     (let wd = irq_n div 32; b = irq_n mod 32 in
      if wd < 8 then m_pfic_update (pfic_iactr_update (arr_upd wd (\<lambda>w. w AND NOT (one_bit b)))) m
      else m)"

section \<open>Taking and releasing the slot\<close>

text \<open>
  The statement sequences every peripheral uses: \<open>mie |= MIP_MEIP\<close>, the override, the active bit
  and \<open>riscv_cpu_update_mip(env, MIP_MEIP, MIP_MEIP)\<close>; and the lowering of the line with the slot
  freed.
\<close>

definition meip_claim :: "nat \<Rightarrow> machine \<Rightarrow> machine" where
  "meip_claim n m =
     env_upd (riscv_cpu_update_mip MIP_MEIP MIP_MEIP)
       (ch32_pfic_irq_active_set n
         (env_upd (\<lambda>e. e\<lparr>mie := mie e OR MIP_MEIP, wch_evt_mcause_override := of_nat n\<rparr>) m))"

definition meip_lower :: "machine \<Rightarrow> machine" where
  "meip_lower m = env_upd (riscv_cpu_update_mip MIP_MEIP 0) m"

definition meip_release :: "nat \<Rightarrow> machine \<Rightarrow> machine" where
  "meip_release n m =
     ch32_pfic_irq_active_clear n
       (env_upd (\<lambda>e. e\<lparr>wch_evt_mcause_override := 0\<rparr>) (meip_lower m))"

definition meip_disable :: "machine \<Rightarrow> machine" where
  "meip_disable m = env_upd (\<lambda>e. e\<lparr>mie := mie e AND NOT MIP_MEIP\<rparr>) m"

definition cpu_irq :: "machine \<Rightarrow> machine" where
  "cpu_irq m = env_upd riscv_cpu_interrupt m"

section \<open>What a resync leaves alone\<close>

text \<open>
  \<open>meip_view\<close> forgets everything a resync may change: the interrupt state of the CPU, pending and
  active bits, the per-device active flags, the SysTick timer and the ghost flag.
\<close>

definition meip_view :: "machine \<Rightarrow> machine" where
  "meip_view m = m\<lparr>
     m_cpu := (m_cpu m)\<lparr>mie := 0, mip := 0, irq_line := False, wch_evt_mcause_override := 0\<rparr>,
     m_pfic := (m_pfic m)\<lparr>pfic_ipr := [], pfic_iactr := []\<rparr>,
     m_tims := map (t_irq_active_update (\<lambda>_. False)) (m_tims m),
     m_eth10m := map_option (e10_irq_active_update (\<lambda>_. False)) (m_eth10m m),
     m_eth := map_option (eth_irq_active_update (\<lambda>_. False)) (m_eth m),
     stk_timer := Timer_null, out_of_fuel := False\<rparr>"

lemma view_env:
  assumes "(f (m_cpu m))\<lparr>mie := 0, mip := 0, irq_line := False, wch_evt_mcause_override := 0\<rparr> =
    (m_cpu m)\<lparr>mie := 0, mip := 0, irq_line := False, wch_evt_mcause_override := 0\<rparr>"
  shows "meip_view (env_upd f m) = meip_view m"
  using assms by (simp add: meip_view_def)

lemma view_active [frame_simps]:
  "meip_view (ch32_pfic_irq_active_set n m) = meip_view m"
  "meip_view (ch32_pfic_irq_active_clear n m) = meip_view m"
  by (simp_all add: meip_view_def ch32_pfic_irq_active_set_def ch32_pfic_irq_active_clear_def Let_def)

lemma update_mip_view:
  "(riscv_cpu_update_mip a b e)\<lparr>mie := x, mip := y, irq_line := z, wch_evt_mcause_override := w\<rparr> =
   e\<lparr>mie := x, mip := y, irq_line := z, wch_evt_mcause_override := w\<rparr>"
  by (simp add: riscv_cpu_update_mip_def riscv_cpu_interrupt_def Let_def)

lemma cpu_interrupt_view:
  "(riscv_cpu_interrupt e)\<lparr>mie := x, mip := y, irq_line := z, wch_evt_mcause_override := w\<rparr> =
   e\<lparr>mie := x, mip := y, irq_line := z, wch_evt_mcause_override := w\<rparr>"
  by (simp add: riscv_cpu_interrupt_def Let_def)

lemma view_meip_ops [frame_simps]:
  "meip_view (meip_lower m) = meip_view m" "meip_view (meip_disable m) = meip_view m"
  "meip_view (cpu_irq m) = meip_view m"
  "meip_view (env_upd (\<lambda>e. e\<lparr>wch_evt_mcause_override := x\<rparr>) m) = meip_view m"
  "meip_view (env_upd (\<lambda>e. e\<lparr>mie := h e, wch_evt_mcause_override := x\<rparr>) m) = meip_view m"
  "meip_view (env_upd (\<lambda>e. e\<lparr>mie := h e\<rparr>) m) = meip_view m"
  "meip_view (env_upd (riscv_cpu_update_mip a b) m) = meip_view m"
  by (simp_all add: meip_lower_def meip_disable_def cpu_irq_def view_env update_mip_view
      cpu_interrupt_view)

lemma view_claim_release [frame_simps]:
  "meip_view (meip_claim n m) = meip_view m" "meip_view (meip_release n m) = meip_view m"
  by (simp_all add: meip_claim_def meip_release_def frame_simps)

lemma owner_ops [simp]:
  "owner (ch32_pfic_irq_active_set n m) = owner m"
  "owner (ch32_pfic_irq_active_clear n m) = owner m"
  "owner (meip_lower m) = owner m" "owner (meip_disable m) = owner m"
  "owner (cpu_irq m) = owner m" "owner (meip_claim n m) = of_nat n" "owner (meip_release n m) = 0"
  by (simp_all add: ch32_pfic_irq_active_set_def ch32_pfic_irq_active_clear_def meip_lower_def
      meip_disable_def cpu_irq_def meip_claim_def meip_release_def Let_def)

lemma fuel_ops [simp]:
  "out_of_fuel (env_upd f m) = out_of_fuel m"
  "out_of_fuel (ch32_pfic_irq_active_set n m) = out_of_fuel m"
  "out_of_fuel (ch32_pfic_irq_active_clear n m) = out_of_fuel m"
  "out_of_fuel (meip_lower m) = out_of_fuel m" "out_of_fuel (meip_disable m) = out_of_fuel m"
  "out_of_fuel (cpu_irq m) = out_of_fuel m" "out_of_fuel (meip_claim n m) = out_of_fuel m"
  "out_of_fuel (meip_release n m) = out_of_fuel m"
  by (simp_all add: ch32_pfic_irq_active_set_def ch32_pfic_irq_active_clear_def meip_lower_def
      meip_disable_def cpu_irq_def meip_claim_def meip_release_def Let_def)

text \<open>What the view still determines.\<close>

lemma view_fields:
  assumes "meip_view m = meip_view m'"
  shows "pfic_ienr (m_pfic m) = pfic_ienr (m_pfic m')"
    "wch_vtf_in_isr (m_cpu m) = wch_vtf_in_isr (m_cpu m')"
    "m_usart1 m = m_usart1 m'" "m_lite m = m_lite m'" "m_dma m = m_dma m'"
    "usbhs_reg m = usbhs_reg m'" "usbfs_reg m = usbfs_reg m'"
    "usb_host_inited m = usb_host_inited m'" "usbfs_host_inited m = usbfs_host_inited m'"
    "m_stk m = m_stk m'" "rcc_words m = rcc_words m'"
    "map (t_irq_active_update (\<lambda>_. False)) (m_tims m) =
       map (t_irq_active_update (\<lambda>_. False)) (m_tims m')"
    "map_option (e10_irq_active_update (\<lambda>_. False)) (m_eth10m m) =
       map_option (e10_irq_active_update (\<lambda>_. False)) (m_eth10m m')"
    "map_option (eth_irq_active_update (\<lambda>_. False)) (m_eth m) =
       map_option (eth_irq_active_update (\<lambda>_. False)) (m_eth m')"
proof -
  show "pfic_ienr (m_pfic m) = pfic_ienr (m_pfic m')"
    using arg_cong[OF assms, of "\<lambda>m. pfic_ienr (m_pfic m)"] by (simp add: meip_view_def)
  show "wch_vtf_in_isr (m_cpu m) = wch_vtf_in_isr (m_cpu m')"
    using arg_cong[OF assms, of "\<lambda>m. wch_vtf_in_isr (m_cpu m)"] by (simp add: meip_view_def)
  show "m_usart1 m = m_usart1 m'" using arg_cong[OF assms, of m_usart1] by (simp add: meip_view_def)
  show "m_lite m = m_lite m'" using arg_cong[OF assms, of m_lite] by (simp add: meip_view_def)
  show "m_dma m = m_dma m'" using arg_cong[OF assms, of m_dma] by (simp add: meip_view_def)
  show "usbhs_reg m = usbhs_reg m'" using arg_cong[OF assms, of usbhs_reg] by (simp add: meip_view_def)
  show "usbfs_reg m = usbfs_reg m'" using arg_cong[OF assms, of usbfs_reg] by (simp add: meip_view_def)
  show "usb_host_inited m = usb_host_inited m'"
    using arg_cong[OF assms, of usb_host_inited] by (simp add: meip_view_def)
  show "usbfs_host_inited m = usbfs_host_inited m'"
    using arg_cong[OF assms, of usbfs_host_inited] by (simp add: meip_view_def)
  show "m_stk m = m_stk m'" using arg_cong[OF assms, of m_stk] by (simp add: meip_view_def)
  show "rcc_words m = rcc_words m'" using arg_cong[OF assms, of rcc_words] by (simp add: meip_view_def)
  show "map (t_irq_active_update (\<lambda>_. False)) (m_tims m) =
       map (t_irq_active_update (\<lambda>_. False)) (m_tims m')"
    using arg_cong[OF assms, of m_tims] by (simp add: meip_view_def)
  show "map_option (e10_irq_active_update (\<lambda>_. False)) (m_eth10m m) =
       map_option (e10_irq_active_update (\<lambda>_. False)) (m_eth10m m')"
    using arg_cong[OF assms, of m_eth10m] by (simp add: meip_view_def)
  show "map_option (eth_irq_active_update (\<lambda>_. False)) (m_eth m) =
       map_option (eth_irq_active_update (\<lambda>_. False)) (m_eth m')"
    using arg_cong[OF assms, of m_eth] by (simp add: meip_view_def)
qed

lemma view_ienr_on: "meip_view m = meip_view m' \<Longrightarrow> ienr_on n m = ienr_on n m'"
  using view_fields(1)[of m m'] by (simp add: ienr_on_def)

section \<open>The contract of one resync function\<close>

text \<open>
  \<open>D r\<close> is the resync function of the peripheral with interrupt number \<open>N\<close>; its argument \<open>r\<close>
  stands for the rescan it may ask for. \<open>on\<close> is the condition under which the peripheral asserts
  its interrupt, \<open>keep\<close> the weaker one under which, owning the slot, it asks for no rescan.
\<close>

locale meip_unit =
  fixes N :: u32
    and on keep :: "machine \<Rightarrow> bool"
    and D :: "(machine \<Rightarrow> machine) \<Rightarrow> machine \<Rightarrow> machine"
  assumes N_nonzero: "N \<noteq> 0"
    and on_view: "meip_view m = meip_view m' \<Longrightarrow> on m = on m'"
    and keep_view: "meip_view m = meip_view m' \<Longrightarrow> keep m = keep m'"
    and on_keep: "on m \<Longrightarrow> keep m"
    and frame: "(\<And>x. meip_view (r x) = meip_view x) \<Longrightarrow> meip_view (D r m) = meip_view m"
    and quiet: "owner m \<noteq> N \<or> keep m \<Longrightarrow> D r m = D r' m"
    and quiet_fuel: "owner m \<noteq> N \<or> keep m \<Longrightarrow> out_of_fuel (D r m) = out_of_fuel m"
    and never_steals: "owner m \<noteq> 0 \<Longrightarrow> owner m \<noteq> N \<Longrightarrow> owner (D r m) = owner m"
    and claims_own: "owner m = 0 \<Longrightarrow> owner (D r m) = 0 \<or> (owner (D r m) = N \<and> on m)"
    and own_on: "owner m = N \<Longrightarrow> on m \<Longrightarrow> owner (D r m) = N"
    and own_kept: "owner m = N \<Longrightarrow> keep m \<Longrightarrow> owner (D r m) = 0 \<or> owner (D r m) = N"
    and releases: "owner m = N \<Longrightarrow> \<not> keep m \<Longrightarrow>
      \<exists>m0 f. owner m0 = 0 \<and> meip_view m0 = meip_view m \<and> out_of_fuel m0 = out_of_fuel m \<and>
        (\<forall>r. D r m = f (r m0)) \<and>
        (\<forall>x. meip_view (f x) = meip_view x \<and> owner (f x) = owner x \<and>
          out_of_fuel (f x) = out_of_fuel x)"
begin

lemma quiet_frame:
  assumes "owner m \<noteq> N \<or> keep m"
  shows "meip_view (D r m) = meip_view m"
  using frame[of id m] quiet[OF assms, of r id] by simp

lemma owner_range:
  assumes "owner m = 0 \<or> owner m \<noteq> N \<or> keep m"
  shows "owner (D r m) = owner m \<or> owner (D r m) = 0 \<or> (owner (D r m) = N \<and> keep m)"
  using assms never_steals[of m r] claims_own[of m r] own_kept[of m r] on_keep by auto

end

text \<open>A peripheral without a latch of its own claims a free slot whenever it asserts.\<close>

locale prompt_unit = meip_unit +
  assumes wakes: "owner m = 0 \<Longrightarrow> on m \<Longrightarrow> owner (D r m) = N"

section \<open>Networks of resync functions\<close>

type_synonym resync_unit = "u32 \<times> ((machine \<Rightarrow> machine) \<Rightarrow> machine \<Rightarrow> machine)"

definition run_units :: "resync_unit list \<Rightarrow> (machine \<Rightarrow> machine) \<Rightarrow> machine \<Rightarrow> machine" where
  "run_units us r m = fold (\<lambda>u. snd u r) us m"

lemma run_units_simps [simp]:
  "run_units [] r m = m" "run_units (u # us) r m = run_units us r (snd u r m)"
  "run_units (us @ vs) r m = run_units vs r (run_units us r m)"
  by (simp_all add: run_units_def)

text \<open>
  The rescan of all units, which the units themselves may ask for again. The bound \<open>k\<close> counts the
  nesting; running out of it is recorded.
\<close>

fun bounded_rescan :: "resync_unit list \<Rightarrow> nat \<Rightarrow> machine \<Rightarrow> machine" where
  "bounded_rescan us 0 m = m\<lparr>out_of_fuel := True\<rparr>"
| "bounded_rescan us (Suc k) m = run_units us (bounded_rescan us k) m"

text \<open>The slot is free, or its owner would not give it back.\<close>

definition settled :: "(u32 \<Rightarrow> machine \<Rightarrow> bool) \<Rightarrow> machine \<Rightarrow> bool" where
  "settled Keep m \<longleftrightarrow> owner m = 0 \<or> Keep (owner m) m"

text \<open>The slot is taken by a peripheral that asserts its interrupt.\<close>

definition served :: "(u32 \<Rightarrow> machine \<Rightarrow> bool) \<Rightarrow> machine \<Rightarrow> bool" where
  "served On m \<longleftrightarrow> owner m \<noteq> 0 \<and> On (owner m) m"

locale meip_network =
  fixes On Keep :: "u32 \<Rightarrow> machine \<Rightarrow> bool"
    and us :: "resync_unit list"
  assumes units: "(N, D) \<in> set us \<Longrightarrow> meip_unit N (On N) (Keep N) D"
    and On_view: "meip_view m = meip_view m' \<Longrightarrow> On n m = On n m'"
    and Keep_view: "meip_view m = meip_view m' \<Longrightarrow> Keep n m = Keep n m'"
begin

lemma settled_quiet:
  assumes "settled Keep m" "(N, D) \<in> set us"
  shows "owner m \<noteq> N \<or> Keep N m"
  using assms(1) meip_unit.N_nonzero[OF units[OF assms(2)]] by (auto simp: settled_def)

lemma unit_settled:
  assumes u: "(N, D) \<in> set us" and s: "settled Keep m"
  shows "D r m = D r' m" "out_of_fuel (D r m) = out_of_fuel m" "settled Keep (D r m)"
proof -
  note U = units[OF u] and q = settled_quiet[OF s u]
  show "D r m = D r' m" using meip_unit.quiet[OF U q] .
  show "out_of_fuel (D r m) = out_of_fuel m" using meip_unit.quiet_fuel[OF U q] .
  have v: "meip_view (D r m) = meip_view m" using meip_unit.quiet_frame[OF U q] .
  have "owner m = 0 \<or> owner m \<noteq> N \<or> Keep N m" using q by blast
  from meip_unit.owner_range[OF U this, of r]
  consider "owner (D r m) = owner m" | "owner (D r m) = 0" | "owner (D r m) = N" "Keep N m"
    by blast
  then show "settled Keep (D r m)"
    using s Keep_view[OF v] by cases (auto simp: settled_def)
qed

lemma run_settled:
  assumes "set vs \<subseteq> set us" "settled Keep m"
  shows "run_units vs r m = run_units vs r' m \<and> out_of_fuel (run_units vs r m) = out_of_fuel m \<and>
    settled Keep (run_units vs r m)"
  using assms
proof (induction vs arbitrary: m)
  case (Cons u vs)
  obtain N D where u: "u = (N, D)" by (cases u)
  then have "(N, D) \<in> set us" using Cons.prems by simp
  note S = unit_settled[OF this Cons.prems(2)]
  have "settled Keep (D r' m)" using S(3) .
  from Cons.IH[OF _ this] S(2)[of r'] S(1)[of r r'] Cons.prems u show ?case by auto
qed simp

lemma run_frame:
  assumes "set vs \<subseteq> set us" "\<And>x. meip_view (r x) = meip_view x"
  shows "meip_view (run_units vs r m) = meip_view m"
  using assms(1)
proof (induction vs arbitrary: m)
  case (Cons u vs)
  then show ?case using meip_unit.frame[OF units assms(2)] by (cases u) auto
qed simp

lemma rescan_frame: "meip_view (bounded_rescan us k m) = meip_view m"
proof (induction k arbitrary: m)
  case 0
  show ?case by (simp add: meip_view_def)
next
  case (Suc k)
  then show ?case by (simp add: run_frame)
qed

lemma rescan_settled:
  assumes "settled Keep m"
  shows "bounded_rescan us (Suc k) m = bounded_rescan us (Suc j) m"
    "out_of_fuel (bounded_rescan us (Suc k) m) = out_of_fuel m"
    "settled Keep (bounded_rescan us (Suc k) m)"
  using run_settled[OF subset_refl assms, of "bounded_rescan us k" "bounded_rescan us j"]
  unfolding bounded_rescan.simps by blast+

text \<open>From any machine, a unit depends on the rescan only through settled Keep machines.\<close>

lemma unit_cong:
  assumes u: "(N, D) \<in> set us" and eq: "\<And>x. settled Keep x \<Longrightarrow> r x = r' x"
  shows "D r m = D r' m"
proof (cases "owner m \<noteq> N \<or> Keep N m")
  case True
  then show ?thesis by (rule meip_unit.quiet[OF units[OF u]])
next
  case False
  then obtain m0 f where "owner m0 = 0" "\<And>r. D r m = f (r m0)"
    using meip_unit.releases[OF units[OF u], of m] by auto
  then show ?thesis using eq[of m0] by (simp add: settled_def)
qed

lemma unit_fuel:
  assumes u: "(N, D) \<in> set us" and r: "\<And>x. settled Keep x \<Longrightarrow> out_of_fuel (r x) = out_of_fuel x"
  shows "out_of_fuel (D r m) = out_of_fuel m"
proof (cases "owner m \<noteq> N \<or> Keep N m")
  case True
  then show ?thesis by (rule meip_unit.quiet_fuel[OF units[OF u]])
next
  case False
  then obtain m0 f where "owner m0 = 0" "out_of_fuel m0 = out_of_fuel m" "\<And>r. D r m = f (r m0)"
    "\<And>x. out_of_fuel (f x) = out_of_fuel x"
    using meip_unit.releases[OF units[OF u], of m] by auto
  then show ?thesis using r[of m0] by (simp add: settled_def)
qed

lemma run_cong:
  assumes "set vs \<subseteq> set us" "\<And>x. settled Keep x \<Longrightarrow> r x = r' x"
  shows "run_units vs r m = run_units vs r' m"
  using assms(1)
proof (induction vs arbitrary: m)
  case (Cons u vs)
  then show ?case using unit_cong[OF _ assms(2), of "fst u" "snd u"] by simp
qed simp

lemma run_fuel:
  assumes "set vs \<subseteq> set us" "\<And>x. settled Keep x \<Longrightarrow> out_of_fuel (r x) = out_of_fuel x"
  shows "out_of_fuel (run_units vs r m) = out_of_fuel m"
  using assms(1)
proof (induction vs arbitrary: m)
  case (Cons u vs)
  then show ?case using unit_fuel[OF _ assms(2), of "fst u" "snd u"] by simp
qed simp

text \<open>A nesting of two is enough: the recursion of the code ends, whatever the machine.\<close>

lemma rescan_two: "bounded_rescan us (Suc (Suc k)) m = bounded_rescan us 2 m"
proof -
  have "run_units us (bounded_rescan us (Suc k)) m = run_units us (bounded_rescan us (Suc 0)) m"
    by (rule run_cong[OF subset_refl]) (rule rescan_settled(1))
  then show ?thesis by (simp add: numeral_2_eq_2)
qed

lemma rescan_fixpoint: "bounded_rescan us 2 m = run_units us (bounded_rescan us 2) m"
  using rescan_two[of 1 m] by (simp add: numeral_2_eq_2)

lemma rescan_fuel: "out_of_fuel (bounded_rescan us 2 m) = out_of_fuel m"
  using run_fuel[of us "bounded_rescan us (Suc 0)" m] rescan_settled(2)[of _ 0]
  by (simp add: numeral_2_eq_2)

text \<open>Once an asserting peripheral has the slot, the others leave it there.\<close>

lemma unit_served:
  assumes u: "(N, D) \<in> set us" and s: "served On m"
  shows "owner (D r m) = owner m" "served On (D r m)"
proof -
  note U = units[OF u]
  have q: "owner m \<noteq> N \<or> Keep N m"
    using s meip_unit.on_keep[OF U] by (auto simp: served_def)
  show o: "owner (D r m) = owner m"
    using s meip_unit.own_on[OF U] meip_unit.never_steals[OF U] by (auto simp: served_def)
  show "served On (D r m)"
    using s o On_view[OF meip_unit.quiet_frame[OF U q]] by (simp add: served_def)
qed

lemma run_served:
  assumes "set vs \<subseteq> set us" "served On m"
  shows "owner (run_units vs r m) = owner m" "served On (run_units vs r m)"
proof -
  have "owner (run_units vs r m) = owner m \<and> served On (run_units vs r m)"
    using assms
  proof (induction vs arbitrary: m)
    case (Cons u vs)
    have "(fst u, snd u) \<in> set us" using Cons.prems by simp
    then show ?case using Cons.IH Cons.prems unit_served[of "fst u" "snd u" m r] by simp
  qed simp
  then show "owner (run_units vs r m) = owner m" "served On (run_units vs r m)" by blast+
qed

text \<open>A free slot is only ever given to an interrupt whose peripheral asserts it.\<close>

lemma unit_claims:
  assumes u: "(N, D) \<in> set us" and free: "owner m = 0"
  shows "owner (D r m) = 0 \<or> served On (D r m)"
proof -
  note U = units[OF u]
  have "owner m \<noteq> N" using free meip_unit.N_nonzero[OF U] by simp
  then have v: "meip_view (D r m) = meip_view m" using meip_unit.quiet_frame[OF U] by blast
  show ?thesis
    using meip_unit.claims_own[OF U free, of r] meip_unit.N_nonzero[OF U] On_view[OF v, of N]
    unfolding served_def by metis
qed

lemma run_free:
  assumes "set vs \<subseteq> set us" "owner m = 0"
  shows "owner (run_units vs r m) = 0 \<or> served On (run_units vs r m)"
  using assms
proof (induction vs arbitrary: m)
  case (Cons u vs)
  have u: "(fst u, snd u) \<in> set us" using Cons.prems by simp
  from unit_claims[OF u Cons.prems(2), of r] show ?case
  proof
    assume "owner (snd u r m) = 0"
    from Cons.IH[OF _ this] Cons.prems(1) show ?thesis by simp
  next
    assume "served On (snd u r m)"
    from run_served(2)[OF _ this, of vs r] Cons.prems(1) show ?thesis by simp
  qed
qed simp

text \<open>A free slot goes to some asserting peripheral if a prompt one asserts.\<close>

lemma run_wakes:
  assumes "set vs \<subseteq> set us" "owner m = 0" "(N, D) \<in> set vs"
    and p: "prompt_unit N (On N) (Keep N) D" and "On N m"
  shows "served On (run_units vs r m)"
  using assms(1-3,5)
proof (induction vs arbitrary: m)
  case (Cons u vs)
  have u: "(fst u, snd u) \<in> set us" using Cons.prems by simp
  note U = units[OF u]
  have "owner m \<noteq> fst u" using Cons.prems(2) meip_unit.N_nonzero[OF U] by simp
  then have v: "meip_view (snd u r m) = meip_view m"
    using meip_unit.quiet_frame[OF U] by blast
  show ?case
  proof (cases "owner (snd u r m) = 0")
    case True
    then have "u \<noteq> (N, D)"
      using prompt_unit.wakes[OF p Cons.prems(2,4)] meip_unit.N_nonzero[OF prompt_unit.axioms(1)[OF p]]
      by auto
    then show ?thesis
      using Cons.IH[of "snd u r m"] Cons.prems True On_view[OF v] by simp
  next
    case False
    then have "served On (snd u r m)" using unit_claims[OF u Cons.prems(2), of r] by blast
    then show ?thesis using run_served(2)[of vs "snd u r m" r] Cons.prems by simp
  qed
qed simp

end

end
