(* ===== verification/Ch32_Ring.thy ===== *)
theory Ch32_Ring
  imports Ch32_Prelude
begin

text \<open>
  The ring buffers of the serial ports: an array, a head and a tail index, one slot left unused.
  \<open>ring_list\<close> is the queue such a buffer represents; the locale states what the push and pop
  statements of the code do to the three fields, and derives the queue laws once for all rings.
\<close>

definition ring_used :: "nat \<Rightarrow> nat \<Rightarrow> nat \<Rightarrow> nat" where
  "ring_used depth h t = (t + depth - h) mod depth"

definition ring_list :: "nat \<Rightarrow> 'a list \<Rightarrow> nat \<Rightarrow> nat \<Rightarrow> 'a list" where
  "ring_list depth buf h t = map (\<lambda>i. buf ! ((h + i) mod depth)) [0..<ring_used depth h t]"

definition ring_ok :: "nat \<Rightarrow> 'a list \<Rightarrow> nat \<Rightarrow> nat \<Rightarrow> bool" where
  "ring_ok depth buf h t \<longleftrightarrow> length buf = depth \<and> h < depth \<and> t < depth"

lemma length_ring_list: "length (ring_list depth buf h t) = ring_used depth h t"
  by (simp add: ring_list_def)

lemma ring_used_cases:
  assumes "h < d" "t < d"
  shows "ring_used d h t = (if h \<le> t then t - h else t + d - h)"
  using assms by (auto simp: ring_used_def mod_if)

lemma ring_used_less: "0 < d \<Longrightarrow> ring_used d h t < d"
  by (simp add: ring_used_def)

lemma ring_used_zero: "h < d \<Longrightarrow> t < d \<Longrightarrow> ring_used d h t = 0 \<longleftrightarrow> h = t"
  by (auto simp: ring_used_cases)

lemma ring_used_full:
  "h < d \<Longrightarrow> t < d \<Longrightarrow> (t + 1) mod d = h \<longleftrightarrow> ring_used d h t = d - 1"
  by (auto simp: ring_used_cases mod_if)

lemma ring_used_push:
  "h < d \<Longrightarrow> t < d \<Longrightarrow> (t + 1) mod d \<noteq> h \<Longrightarrow> ring_used d h ((t + 1) mod d) = Suc (ring_used d h t)"
  by (auto simp: ring_used_cases mod_if)

lemma ring_used_pop:
  "h < d \<Longrightarrow> t < d \<Longrightarrow> h \<noteq> t \<Longrightarrow> ring_used d h t = Suc (ring_used d ((h + 1) mod d) t)"
  by (auto simp: ring_used_cases mod_if)

lemma ring_last_index:
  "h < d \<Longrightarrow> t < d \<Longrightarrow> (h + ring_used d h t) mod d = t"
  by (auto simp: ring_used_cases mod_if)

lemma ring_index_neq_tail:
  assumes "h < d" "t < d" "i < ring_used d h t"
  shows "t \<noteq> (h + i) mod d"
proof (cases "h + i < d")
  case True
  then show ?thesis using assms by (auto simp: ring_used_cases split: if_splits)
next
  case False
  moreover have "h + i < d + d" using assms ring_used_less[of d h t] by linarith
  ultimately have "(h + i) mod d = h + i - d" by (simp add: mod_if)
  then show ?thesis using assms False by (auto simp: ring_used_cases split: if_splits)
qed

lemma ring_list_push:
  assumes "ring_ok d buf h t" "(t + 1) mod d \<noteq> h"
  shows "ring_list d (buf[t := x]) h ((t + 1) mod d) = ring_list d buf h t @ [x]"
proof -
  have h: "h < d" "t < d" "length buf = d" using assms(1) by (auto simp: ring_ok_def)
  have "buf[t := x] ! ((h + i) mod d) = buf ! ((h + i) mod d)" if "i < ring_used d h t" for i
    using ring_index_neq_tail[OF h(1,2) that] by (rule nth_list_update_neq)
  then have "map (\<lambda>i. buf[t := x] ! ((h + i) mod d)) [0..<ring_used d h t] = ring_list d buf h t"
    by (simp add: ring_list_def)
  moreover have "buf[t := x] ! ((h + ring_used d h t) mod d) = x"
    using h ring_last_index[OF h(1,2)] by simp
  ultimately show ?thesis
    unfolding ring_list_def ring_used_push[OF h(1,2) assms(2)] by (simp add: ring_list_def)
qed

lemma ring_list_pop:
  assumes "ring_ok d buf h t" "h \<noteq> t"
  shows "ring_list d buf h t = buf ! h # ring_list d buf ((h + 1) mod d) t"
proof -
  have h: "h < d" "t < d" using assms(1) by (auto simp: ring_ok_def)
  let ?n = "ring_used d ((h + 1) mod d) t"
  have upt: "[0..<Suc ?n] = 0 # map Suc [0..<?n]" by (simp only: upt_conv_Cons map_Suc_upt zero_less_Suc)
  have "ring_list d buf h t = map (\<lambda>i. buf ! ((h + i) mod d)) [0..<Suc ?n]"
    by (simp only: ring_list_def ring_used_pop[OF h assms(2)])
  also have "\<dots> = buf ! h # map (\<lambda>i. buf ! ((h + Suc i) mod d)) [0..<?n]"
    unfolding upt using h by (simp add: o_def)
  also have "map (\<lambda>i. buf ! ((h + Suc i) mod d)) [0..<?n] = ring_list d buf ((h + 1) mod d) t"
    by (simp add: ring_list_def mod_add_left_eq)
  finally show ?thesis .
qed

lemma ring_list_empty: "ring_ok d buf h t \<Longrightarrow> ring_list d buf h t = [] \<longleftrightarrow> h = t"
  using ring_used_zero[of h d t] by (auto simp: ring_ok_def simp flip: length_0_conv simp: length_ring_list)

section \<open>The interface\<close>

locale ring_buffer =
  fixes depth :: nat
    and buf :: "'s \<Rightarrow> 'a list"
    and head tail :: "'s \<Rightarrow> nat"
    and push :: "'a \<Rightarrow> 's \<Rightarrow> 's"
    and pop :: "'s \<Rightarrow> 's"
  assumes push_buf: "tail s < depth \<Longrightarrow> buf (push x s) = (buf s)[tail s := x]"
    and push_head: "tail s < depth \<Longrightarrow> head (push x s) = head s"
    and push_tail: "tail s < depth \<Longrightarrow> tail (push x s) = (tail s + 1) mod depth"
    and pop_buf: "head s < depth \<Longrightarrow> buf (pop s) = buf s"
    and pop_head: "head s < depth \<Longrightarrow> head (pop s) = (head s + 1) mod depth"
    and pop_tail: "head s < depth \<Longrightarrow> tail (pop s) = tail s"
begin

abbreviation "queue s \<equiv> ring_list depth (buf s) (head s) (tail s)"
abbreviation "valid s \<equiv> ring_ok depth (buf s) (head s) (tail s)"

lemma valid_push: "valid s \<Longrightarrow> valid (push x s)"
  by (auto simp: ring_ok_def push_buf push_head push_tail)

lemma valid_pop: "valid s \<Longrightarrow> valid (pop s)"
  by (auto simp: ring_ok_def pop_buf pop_head pop_tail)

lemma queue_push: "valid s \<Longrightarrow> (tail s + 1) mod depth \<noteq> head s \<Longrightarrow> queue (push x s) = queue s @ [x]"
  using ring_list_push[of depth "buf s" "head s" "tail s" x]
  by (simp add: ring_ok_def push_buf push_head push_tail)

lemma queue_pop: "valid s \<Longrightarrow> head s \<noteq> tail s \<Longrightarrow> queue s = buf s ! head s # queue (pop s)"
  using ring_list_pop[of depth "buf s" "head s" "tail s"]
  by (simp add: ring_ok_def pop_buf pop_head pop_tail)

lemma queue_empty: "valid s \<Longrightarrow> queue s = [] \<longleftrightarrow> head s = tail s"
  by (rule ring_list_empty)

lemma queue_capacity: "valid s \<Longrightarrow> length (queue s) < depth"
  by (simp add: length_ring_list ring_used_less ring_ok_def)

lemma queue_full: "valid s \<Longrightarrow> (tail s + 1) mod depth = head s \<longleftrightarrow> length (queue s) = depth - 1"
  using ring_used_full[of "head s" depth "tail s"] by (auto simp: length_ring_list ring_ok_def)

end

end
