(* ===== verification/Ch32_Usart1.thy ===== *)
theory Ch32_Usart1
  imports Ch32_Meip Ch32_Ring
begin

text \<open>
  USART1 (\<open>ch32-usart.c\<close>, first half): status derivation, interrupt resync, the transmit drain and
  receive tick driven by timers, the receive DMA pump, the character backend callbacks, the MMIO
  handlers and the reset. \<open>r\<close> is the rescan \<open>ch32_pfic_resync_pending_meip\<close>, tied in
  \<open>Ch32_Resync\<close>. The backend is a parameter: \<open>chr_write out ch\<close> tells whether it takes \<open>ch\<close> after
  the bytes \<open>out\<close>; asking it for more input changes nothing in the device and is left out.
\<close>

abbreviation uart_upd :: "(usart1_state \<Rightarrow> usart1_state) \<Rightarrow> machine \<Rightarrow> machine" where
  "uart_upd f \<equiv> m_usart1_update f"

definition STATR_ORE :: u16 where "STATR_ORE = one_bit 3"
definition STATR_RXNE :: u16 where "STATR_RXNE = one_bit 5"
definition STATR_TC :: u16 where "STATR_TC = one_bit 6"
definition STATR_TXE :: u16 where "STATR_TXE = one_bit 7"
definition STATR_LBD :: u16 where "STATR_LBD = one_bit 8"
definition STATR_CTS :: u16 where "STATR_CTS = one_bit 9"
definition STATR_W0C_MASK :: u16 where
  "STATR_W0C_MASK = STATR_RXNE OR STATR_TC OR STATR_LBD OR STATR_CTS"

lemmas statr_defs = STATR_ORE_def STATR_RXNE_def STATR_TC_def STATR_TXE_def STATR_LBD_def
  STATR_CTS_def STATR_W0C_MASK_def

abbreviation "CTLR1_RE \<equiv> (2::nat)"
abbreviation "CTLR1_TE \<equiv> (3::nat)"
abbreviation "CTLR1_RXNEIE \<equiv> (5::nat)"
abbreviation "CTLR1_TCIE \<equiv> (6::nat)"
abbreviation "CTLR1_TXEIE \<equiv> (7::nat)"
abbreviation "CTLR1_UE \<equiv> (13::nat)"
abbreviation "CTLR3_DMAR \<equiv> (6::nat)"

definition CH32_USART1_TX_DRAIN_NS :: u64 where "CH32_USART1_TX_DRAIN_NS = 10000"
definition CH32_USART1_RX_BYTE_NS :: u64 where "CH32_USART1_RX_BYTE_NS = 86806"
definition CH32_USART1_BASE :: u32 where "CH32_USART1_BASE = 0x40013800"

section \<open>The three rings\<close>

definition rx_push :: "u8 \<Rightarrow> usart1_state \<Rightarrow> usart1_state" where
  "rx_push ch u = u\<lparr>rx_buf := (rx_buf u)[rx_tail u := ch], rx_tail := (rx_tail u + 1) mod 64\<rparr>"

definition rx_pop :: "usart1_state \<Rightarrow> usart1_state" where
  "rx_pop u = u\<lparr>rx_head := (rx_head u + 1) mod 64\<rparr>"

definition rx_stage_push :: "u8 \<Rightarrow> usart1_state \<Rightarrow> usart1_state" where
  "rx_stage_push b u =
     u\<lparr>rx_stage_buf := (rx_stage_buf u)[rx_stage_tail u := b],
       rx_stage_tail := (rx_stage_tail u + 1) mod 64\<rparr>"

definition rx_stage_pop :: "usart1_state \<Rightarrow> usart1_state" where
  "rx_stage_pop u = u\<lparr>rx_stage_head := (rx_stage_head u + 1) mod 64\<rparr>"

definition tx_push :: "u8 \<Rightarrow> usart1_state \<Rightarrow> usart1_state" where
  "tx_push ch u = u\<lparr>tx_buf := (tx_buf u)[tx_tail u := ch], tx_tail := (tx_tail u + 1) mod 64\<rparr>"

definition tx_pop :: "usart1_state \<Rightarrow> usart1_state" where
  "tx_pop u = u\<lparr>tx_head := (tx_head u + 1) mod 64\<rparr>"

lemmas usart_ring_defs = rx_push_def rx_pop_def rx_stage_push_def rx_stage_pop_def tx_push_def tx_pop_def

interpretation rxring: ring_buffer 64 rx_buf rx_head rx_tail rx_push rx_pop
  by unfold_locales (simp_all add: usart_ring_defs)

interpretation stagering: ring_buffer 64 rx_stage_buf rx_stage_head rx_stage_tail rx_stage_push rx_stage_pop
  by unfold_locales (simp_all add: usart_ring_defs)

interpretation txring: ring_buffer 64 tx_buf tx_head tx_tail tx_push tx_pop
  by unfold_locales (simp_all add: usart_ring_defs)

section \<open>FIFO predicates and status\<close>

definition ch32_usart1_rx_enabled :: "usart1_state \<Rightarrow> bool" where
  "ch32_usart1_rx_enabled u \<longleftrightarrow> bit (u1_ctlr1 u) CTLR1_UE \<and> bit (u1_ctlr1 u) CTLR1_RE"

definition ch32_rxfifo_empty :: "usart1_state \<Rightarrow> bool" where
  "ch32_rxfifo_empty u \<longleftrightarrow> rx_head u = rx_tail u"

definition ch32_rxfifo_full :: "usart1_state \<Rightarrow> bool" where
  "ch32_rxfifo_full u \<longleftrightarrow> (rx_tail u + 1) mod 64 = rx_head u"

definition ch32_txfifo_empty :: "usart1_state \<Rightarrow> bool" where
  "ch32_txfifo_empty u \<longleftrightarrow> tx_head u = tx_tail u"

definition ch32_txfifo_full :: "usart1_state \<Rightarrow> bool" where
  "ch32_txfifo_full u \<longleftrightarrow> (tx_tail u + 1) mod 64 = tx_head u"

definition ch32_usart1_statr_hw :: "usart1_state \<Rightarrow> u16" where
  "ch32_usart1_statr_hw u =
     (let ue = bit (u1_ctlr1 u) CTLR1_UE; te = bit (u1_ctlr1 u) CTLR1_TE;
          st = u1_statr u AND NOT (STATR_RXNE OR STATR_TXE OR STATR_TC);
          st1 = (if \<not> ch32_rxfifo_empty u then st OR STATR_RXNE else st)
      in if \<not> ue \<or> (ue \<and> te) then
           let st2 = (if \<not> ue \<or> tx_empty u then st1 OR STATR_TXE else st1)
           in if \<not> ue \<or> tx_complete u then st2 OR STATR_TC else st2
         else st1)"

section \<open>Interrupt resync\<close>

definition usart1_irq :: "machine \<Rightarrow> bool" where
  "usart1_irq m =
     (let st = ch32_usart1_statr_hw (m_usart1 m); c1 = u1_ctlr1 (m_usart1 m)
      in ienr_on CH32_USART1_NVIC_IRQ m \<and>
         (bit c1 CTLR1_RXNEIE \<and> st AND STATR_RXNE \<noteq> 0 \<or>
          bit c1 CTLR1_TXEIE \<and> st AND STATR_TXE \<noteq> 0 \<or>
          bit c1 CTLR1_TCIE \<and> st AND STATR_TC \<noteq> 0))"

definition ch32_usart1_meip_resync :: "(machine \<Rightarrow> machine) \<Rightarrow> machine \<Rightarrow> machine" where
  "ch32_usart1_meip_resync r m =
     (let n = CH32_USART1_NVIC_IRQ in
      if usart1_irq m then
        if owner m \<noteq> 0 \<and> owner m \<noteq> of_nat n then m
        else cpu_irq (meip_claim n m)
      else
        cpu_irq
          (if owner m = of_nat n then
             if 0 < wch_vtf_in_isr (m_cpu m) then meip_lower m
             else r (meip_release n m)
           else m))"

section \<open>Transmit path\<close>

text \<open>
  The drain loop: the flag is \<open>changed\<close>, the result also tells whether the backend stopped it
  (\<open>goto done\<close>). On an invalid ring the C loop need not end; \<open>None\<close> is that case.
\<close>

partial_function (option) tx_drain_loop ::
    "(u8 list \<Rightarrow> u8 \<Rightarrow> bool) \<Rightarrow> bool \<Rightarrow> machine \<Rightarrow> (bool \<times> bool \<times> machine) option" where
  "tx_drain_loop chr_write changed m =
     (let u = m_usart1 m in
      if ch32_txfifo_empty u then Some (changed, False, m)
      else let ch = tx_buf u ! tx_head u in
           if \<not> chr_write (chr_out m) ch then
             Some (changed, True,
               uart_upd (tx_timer_update (timer_mod_ns (clock_ns m + CH32_USART1_TX_DRAIN_NS))) m)
           else tx_drain_loop chr_write True
                  (uart_upd tx_pop (m\<lparr>chr_out := chr_out m @ [ch]\<rparr>)))"

definition ch32_usart1_tx_drain ::
    "(machine \<Rightarrow> machine) \<Rightarrow> (u8 list \<Rightarrow> u8 \<Rightarrow> bool) \<Rightarrow> machine \<Rightarrow> machine option" where
  "ch32_usart1_tx_drain r chr_write m =
     (case tx_drain_loop chr_write False m of
        None \<Rightarrow> None
      | Some (changed, stopped, m1) \<Rightarrow>
          let (changed', m2) =
            (if \<not> stopped \<and> (changed \<or> \<not> tx_empty (m_usart1 m1))
             then (True, uart_upd (\<lambda>u. u\<lparr>tx_empty := True, tx_complete := True\<rparr>) m1)
             else (changed, m1))
          in Some (if changed' then ch32_usart1_meip_resync r m2 else m2))"

section \<open>Receive path\<close>

definition ch32_usart1_can_receive :: "bool \<Rightarrow> usart1_state \<Rightarrow> nat" where
  "ch32_usart1_can_receive backend_connected u =
     (if \<not> backend_connected then 0
      else let used = (rx_stage_tail u + 64 - rx_stage_head u) mod 64
           in if used < 64 - 1 then 1 else 0)"

fun rx_stage_fill :: "u8 list \<Rightarrow> usart1_state \<Rightarrow> usart1_state" where
  "rx_stage_fill [] u = u"
| "rx_stage_fill (b # bs) u =
     (let nxt = (rx_stage_tail u + 1) mod 64 in
      if nxt = rx_stage_head u then u
      else rx_stage_fill bs (rx_stage_push b u))"

definition ch32_usart1_receive :: "u8 list \<Rightarrow> machine \<Rightarrow> machine" where
  "ch32_usart1_receive buf m =
     (if buf = [] then m
      else if \<not> ch32_usart1_rx_enabled (m_usart1 m) then m
      else let m1 = uart_upd (rx_stage_fill buf) m
           in if \<not> timer_pending (rx_timer (m_usart1 m1))
              then uart_upd (rx_timer_update (timer_mod_ns (clock_ns m1))) m1 else m1)"

definition ch32_dma_write_byte :: "as_write \<Rightarrow> dma_ref \<Rightarrow> u8 \<Rightarrow> machine \<Rightarrow> machine" where
  "ch32_dma_write_byte asw ch byte m =
     (let msize = drop_bit 10 (dma_cfgr (dma_get ch m)) AND 3;
          sz = (if msize = 1 then 2 else if msize = 2 then 4 else 1) :: nat;
          m1 = snd (asw (dma_maddr (dma_get ch m)) (le_bytes sz (ucast byte)) m)
      in if bit (dma_cfgr (dma_get ch m1)) 7
         then dma_upd ch (dma_maddr_update (\<lambda>a. a + of_nat sz)) m1 else m1)"

definition ch32_dma_finish_channel :: "dma_ref \<Rightarrow> nat \<Rightarrow> nat \<Rightarrow> nat \<Rightarrow> machine \<Rightarrow> machine" where
  "ch32_dma_finish_channel ch intfr_idx ch_local irq_n m =
     (let gif_bit = (ch_local - 1) * 4; tcif_bit = (ch_local - 1) * 4 + 1;
          m1 = dma_upd ch (\<lambda>c. c\<lparr>dma_cntr := 0, dma_cfgr := dma_cfgr c AND NOT (one_bit 0)\<rparr>) m;
          m2 = m_dma_update (dma_intfr_update
                 (arr_upd intfr_idx (\<lambda>w. w OR (one_bit gif_bit OR one_bit tcif_bit)))) m1
      in if bit (dma_cfgr (dma_get ch m2)) 1 \<and> ienr_on irq_n m2 \<and> owner m2 = 0
         then cpu_irq (env_upd (riscv_cpu_update_mip MIP_MEIP MIP_MEIP)
                (env_upd (\<lambda>e. e\<lparr>mie := mie e OR MIP_MEIP,
                               wch_evt_mcause_override := of_nat irq_n\<rparr>) m2))
         else m2)"

text \<open>Taking the head byte off the receive FIFO, as the pump and the data register do.\<close>

definition rx_take_head :: "usart1_state \<Rightarrow> usart1_state" where
  "rx_take_head u =
     (let u1 = rx_pop u;
          u2 = u1\<lparr>u1_rx_pending := \<not> ch32_rxfifo_empty u1\<rparr>
      in if u1_rx_pending u2 then u2\<lparr>rdr := rx_buf u2 ! rx_head u2\<rparr> else u2)"

definition ch32_usart1_dma_rx_pump :: "as_write \<Rightarrow> machine \<Rightarrow> machine" where
  "ch32_usart1_dma_rx_pump asw m =
     (let u = m_usart1 m; ref = Dma1 4; ch = dma_get ref m in
      if \<not> bit (u1_ctlr3 u) CTLR3_DMAR then m
      else if \<not> bit (dma_cfgr ch) 0 then m
      else if dma_cntr ch = 0 then m
      else if dma_paddr ch < CH32_USART1_BASE + 4 \<or> dma_paddr ch > CH32_USART1_BASE + 7 then m
      else if ch32_rxfifo_empty u then m
      else
        let byte = rx_buf u ! rx_head u;
            m1 = uart_upd (\<lambda>u. (rx_take_head u)\<lparr>u1_statr := u1_statr u AND NOT STATR_RXNE\<rparr>) m;
            m2 = ch32_dma_write_byte asw ref byte m1;
            m3 = dma_upd ref (dma_cntr_update (\<lambda>c. c - 1)) m2
        in if dma_cntr (dma_get ref m3) = 0 then ch32_dma_finish_channel ref 0 5 31 m3 else m3)"

definition rx_feed_byte :: "usart1_state \<Rightarrow> usart1_state" where
  "rx_feed_byte u =
     (let ch = rx_stage_buf u ! rx_stage_head u;
          u2 = (rx_push ch (rx_stage_pop u))\<lparr>u1_rx_pending := True\<rparr>
      in u2\<lparr>rdr := rx_buf u2 ! rx_head u2\<rparr>)"

definition ch32_usart1_rx_tick :: "(machine \<Rightarrow> machine) \<Rightarrow> as_write \<Rightarrow> machine \<Rightarrow> machine" where
  "ch32_usart1_rx_tick r asw m =
     (let u = m_usart1 m; rearm = rx_timer_update (timer_mod_ns (clock_ns m + CH32_USART1_RX_BYTE_NS)) in
      if rx_stage_head u = rx_stage_tail u then m
      else if ch32_rxfifo_full u then uart_upd rearm m
      else
        let m1 = uart_upd rx_feed_byte m;
            m2 = (if bit (u1_ctlr3 (m_usart1 m1)) CTLR3_DMAR then ch32_usart1_dma_rx_pump asw m1
                  else ch32_usart1_meip_resync r m1)
        in if rx_stage_head (m_usart1 m2) \<noteq> rx_stage_tail (m_usart1 m2) then uart_upd rearm m2 else m2)"

section \<open>MMIO handlers\<close>

definition ch32_usart1_read :: "(machine \<Rightarrow> machine) \<Rightarrow> u32 \<Rightarrow> nat \<Rightarrow> machine \<Rightarrow> u32 \<times> machine" where
  "ch32_usart1_read r addr sz m =
     (let u = m_usart1 m in
      if addr = 0x00 then
        (let st = ch32_usart1_statr_hw u
         in (if sz = 1 then ucast (st AND 0xff) else ucast st, m))
      else if addr = 0x04 then
        (let (ret, m1) =
           (if u1_rx_pending u then
              (ucast (rdr u),
               uart_upd (\<lambda>u. (rx_take_head u)\<lparr>u1_statr := u1_statr u AND NOT STATR_RXNE
                                                            AND NOT STATR_ORE\<rparr>) m)
            else (0 :: u32, m))
         in (if sz = 1 then ret AND 0xff else ret, ch32_usart1_meip_resync r m1))
      else if addr = 0x08 then (u1_brr u, m)
      else if addr = 0x0c then (u1_ctlr1 u, m)
      else if addr = 0x10 then (u1_ctlr2 u, m)
      else if addr = 0x14 then (u1_ctlr3 u, m)
      else if addr = 0x18 then (u1_gpr u, m)
      else if addr = 0x1c then (u1_ctlr4 u, m)
      else (0, m))"

definition ch32_usart1_write :: "(machine \<Rightarrow> machine) \<Rightarrow> u32 \<Rightarrow> u32 \<Rightarrow> machine \<Rightarrow> machine" where
  "ch32_usart1_write r addr v m =
     (let u = m_usart1 m in
      if addr = 0x00 then
        (let clr = NOT (ucast v) AND STATR_W0C_MASK
         in ch32_usart1_meip_resync r (uart_upd (u1_statr_update (\<lambda>s. s AND NOT clr)) m))
      else if addr = 0x04 then
        (let ue = bit (u1_ctlr1 u) CTLR1_UE; ch = ucast (v AND 0xff) :: u8 in
         if \<not> ue then ch32_usart1_meip_resync r (m\<lparr>chr_out := chr_out m @ [ch]\<rparr>)
         else
           let m1 = (if \<not> ch32_txfifo_full u then
                       uart_upd (\<lambda>u. (tx_push ch u)\<lparr>tx_empty := False, tx_complete := False\<rparr>) m
                     else m);
               m2 = uart_upd (u1_statr_update (\<lambda>s. s AND NOT STATR_TC)) m1;
               m3 = (if \<not> timer_pending (tx_timer (m_usart1 m2)) then
                       uart_upd (tx_timer_update
                         (timer_mod_ns (clock_ns m2 + CH32_USART1_TX_DRAIN_NS))) m2
                     else m2)
           in ch32_usart1_meip_resync r m3)
      else if addr = 0x08 then uart_upd (u1_brr_update (\<lambda>_. v)) m
      else if addr = 0x0c then ch32_usart1_meip_resync r (uart_upd (u1_ctlr1_update (\<lambda>_. v)) m)
      else if addr = 0x10 then uart_upd (u1_ctlr2_update (\<lambda>_. v)) m
      else if addr = 0x14 then uart_upd (u1_ctlr3_update (\<lambda>_. v)) m
      else if addr = 0x18 then uart_upd (u1_gpr_update (\<lambda>_. v)) m
      else if addr = 0x1c then uart_upd (u1_ctlr4_update (\<lambda>_. v)) m
      else m)"

section \<open>Reset\<close>

definition usart1_reset_regs :: "usart1_state \<Rightarrow> usart1_state" where
  "usart1_reset_regs u = u\<lparr>
     u1_statr := STATR_TXE OR STATR_TC, u1_brr := 0, u1_ctlr1 := 0, u1_ctlr2 := 0, u1_ctlr3 := 0,
     u1_gpr := 0, u1_ctlr4 := 0,
     rx_head := 0, rx_tail := 0, u1_rx_pending := False, rdr := 0, rx_buf := replicate 64 0,
     rx_stage_head := 0, rx_stage_tail := 0, rx_stage_buf := replicate 64 0,
     rx_timer := timer_del (rx_timer u),
     tx_head := 0, tx_tail := 0, tx_empty := True, tx_complete := True, tx_buf := replicate 64 0,
     tx_timer := timer_del (tx_timer u)\<rparr>"

definition ch32_usart1_reset :: "machine \<Rightarrow> machine" where
  "ch32_usart1_reset m =
     (let m1 = uart_upd usart1_reset_regs m in
      if owner m1 = of_nat CH32_USART1_NVIC_IRQ
      then cpu_irq (meip_disable (meip_release CH32_USART1_NVIC_IRQ m1))
      else m1)"

section \<open>The resync contract\<close>

lemma uart_view_owner [simp]:
  "owner (uart_upd f m) = owner m" "out_of_fuel (uart_upd f m) = out_of_fuel m"
  by simp_all

definition usart1_keep :: "machine \<Rightarrow> bool" where
  "usart1_keep m \<longleftrightarrow> usart1_irq m \<or> 0 < wch_vtf_in_isr (m_cpu m)"

lemma usart1_irq_view: "meip_view m = meip_view m' \<Longrightarrow> usart1_irq m = usart1_irq m'"
  using view_fields(3)[of m m'] view_ienr_on[of m m'] by (simp add: usart1_irq_def)

lemma usart1_keep_view: "meip_view m = meip_view m' \<Longrightarrow> usart1_keep m = usart1_keep m'"
  using usart1_irq_view[of m m'] view_fields(2)[of m m'] by (simp add: usart1_keep_def)

lemma usart1_releases:
  assumes "owner m = of_nat CH32_USART1_NVIC_IRQ" "\<not> usart1_keep m"
  shows "\<exists>m0 f. owner m0 = 0 \<and> meip_view m0 = meip_view m \<and> out_of_fuel m0 = out_of_fuel m \<and>
    (\<forall>r. ch32_usart1_meip_resync r m = f (r m0)) \<and>
    (\<forall>x. meip_view (f x) = meip_view x \<and> owner (f x) = owner x \<and> out_of_fuel (f x) = out_of_fuel x)"
  using assms
  by (intro exI[of _ "meip_release CH32_USART1_NVIC_IRQ m"] exI[of _ cpu_irq])
    (simp add: ch32_usart1_meip_resync_def usart1_keep_def frame_simps)

interpretation usart1: prompt_unit "of_nat CH32_USART1_NVIC_IRQ" usart1_irq usart1_keep
  ch32_usart1_meip_resync
  by (unfold_locales; (erule usart1_irq_view | erule usart1_keep_view | (erule (1) usart1_releases)
      | auto simp: ch32_usart1_meip_resync_def usart1_keep_def frame_simps Let_def
          CH32_USART1_NVIC_IRQ_def))

end
