(* ===== verification/Ch32_Lite.thy ===== *)
theory Ch32_Lite
  imports Ch32_Usart1
begin

text \<open>
  USART2, USART3 and UART4 to UART8 (\<open>ch32-usart.c\<close>, second half): the lightweight ports without
  a backend, units 0 to 6 of the model. A unit has an eight-byte receive FIFO for the interrupt
  path and one simulated byte for the receive DMA path.
\<close>

record uart_dma_rx_cfg =
  dma_unit :: nat
  phys_rx_ch :: nat
  uart_base :: u32
  dma_rx_irq :: nat

definition lite_rx_dma :: "uart_dma_rx_cfg list" where
  "lite_rx_dma =
    [\<lparr>dma_unit = 1, phys_rx_ch = 6, uart_base = 0x40004400, dma_rx_irq = 32\<rparr>,
     \<lparr>dma_unit = 1, phys_rx_ch = 3, uart_base = 0x40004800, dma_rx_irq = 29\<rparr>,
     \<lparr>dma_unit = 2, phys_rx_ch = 3, uart_base = 0x40004C00, dma_rx_irq = 74\<rparr>,
     \<lparr>dma_unit = 2, phys_rx_ch = 2, uart_base = 0x40005000, dma_rx_irq = 73\<rparr>,
     \<lparr>dma_unit = 2, phys_rx_ch = 7, uart_base = 0x40001800, dma_rx_irq = 99\<rparr>,
     \<lparr>dma_unit = 2, phys_rx_ch = 9, uart_base = 0x40001C00, dma_rx_irq = 101\<rparr>,
     \<lparr>dma_unit = 2, phys_rx_ch = 11, uart_base = 0x40002000, dma_rx_irq = 103\<rparr>]"

definition lite_irq :: "nat list" where
  "lite_irq = [54, 55, 68, 69, 87, 88, 89]"

abbreviation lite_upd :: "nat \<Rightarrow> (lite_state \<Rightarrow> lite_state) \<Rightarrow> machine \<Rightarrow> machine" where
  "lite_upd i f \<equiv> m_lite_update (arr_upd i f)"

definition ch32_usart_lite_dma_ch :: "uart_dma_rx_cfg \<Rightarrow> dma_ref option" where
  "ch32_usart_lite_dma_ch c =
     (if dma_unit c = 1 then
        if phys_rx_ch c < 1 \<or> phys_rx_ch c > 7 then None else Some (Dma1 (phys_rx_ch c - 1))
      else if dma_unit c = 2 then
        if phys_rx_ch c < 1 \<or> phys_rx_ch c > 11 then None else Some (Dma2 (phys_rx_ch c - 1))
      else None)"

definition ch32_usart_lite_dma_rx_finish :: "dma_ref \<Rightarrow> uart_dma_rx_cfg \<Rightarrow> machine \<Rightarrow> machine" where
  "ch32_usart_lite_dma_rx_finish ch c m =
     (let (intfr_idx, ch_local_bm) =
        (if dma_unit c = 1 then (0, phys_rx_ch c)
         else if phys_rx_ch c \<le> 7 then (1, phys_rx_ch c) else (2, phys_rx_ch c - 7))
      in ch32_dma_finish_channel ch intfr_idx ch_local_bm (dma_rx_irq c) m)"

definition ch32_usart_lite_dma_rx_pump :: "as_write \<Rightarrow> nat \<Rightarrow> uart_dma_rx_cfg \<Rightarrow> machine \<Rightarrow> machine" where
  "ch32_usart_lite_dma_rx_pump asw i c m =
     (let u = m_lite m ! i in
      if \<not> l_rx_pending u then m
      else case ch32_usart_lite_dma_ch c of
        None \<Rightarrow> m
      | Some ref \<Rightarrow>
          let ch = dma_get ref m; expected = uart_base c + 4 in
          if \<not> bit (dma_cfgr ch) 0 \<or> dma_cntr ch = 0 then m
          else if dma_paddr ch < expected \<or> dma_paddr ch > expected + 3 then m
          else
            let byte = datar_last u;
                m1 = lite_upd i (l_rx_pending_update (\<lambda>_. False)) m;
                m2 = ch32_dma_write_byte asw ref byte m1;
                m3 = dma_upd ref (dma_cntr_update (\<lambda>n. n - 1)) m2
            in if dma_cntr (dma_get ref m3) = 0 then ch32_usart_lite_dma_rx_finish ref c m3 else m3)"

section \<open>Receive FIFO\<close>

definition lite_rxfifo_empty :: "lite_state \<Rightarrow> bool" where
  "lite_rxfifo_empty u \<longleftrightarrow> rx_fifo_h u = rx_fifo_t u"

definition lite_rxfifo_full :: "lite_state \<Rightarrow> bool" where
  "lite_rxfifo_full u \<longleftrightarrow> (unat (rx_fifo_t u) + 1) mod 8 = unat (rx_fifo_h u)"

definition lite_rxfifo_push :: "u8 \<Rightarrow> lite_state \<Rightarrow> lite_state" where
  "lite_rxfifo_push b u =
     u\<lparr>rx_fifo := (rx_fifo u)[unat (rx_fifo_t u) := b],
       rx_fifo_t := of_nat ((unat (rx_fifo_t u) + 1) mod 8)\<rparr>"

definition lite_rxfifo_pop :: "lite_state \<Rightarrow> u8 \<times> lite_state" where
  "lite_rxfifo_pop u =
     (rx_fifo u ! unat (rx_fifo_h u),
      u\<lparr>rx_fifo_h := of_nat ((unat (rx_fifo_h u) + 1) mod 8)\<rparr>)"

interpretation litering: ring_buffer 8 rx_fifo "\<lambda>u. unat (rx_fifo_h u)" "\<lambda>u. unat (rx_fifo_t u)"
  lite_rxfifo_push "\<lambda>u. snd (lite_rxfifo_pop u)"
  by unfold_locales (simp_all add: lite_rxfifo_push_def lite_rxfifo_pop_def unat_of_nat_small)

definition ch32_usart_lite_statr_hw :: "lite_state \<Rightarrow> u16" where
  "ch32_usart_lite_statr_hw u =
     (let st = STATR_TXE OR STATR_TC in if \<not> lite_rxfifo_empty u then st OR STATR_RXNE else st)"

section \<open>Interrupt resync\<close>

definition lite_irq_on :: "nat \<Rightarrow> nat \<Rightarrow> machine \<Rightarrow> bool" where
  "lite_irq_on i irq_n m =
     (let u = m_lite m ! i in
      ienr_on irq_n m \<and> bit (l_ctlr1 u) CTLR1_RXNEIE \<and>
      ch32_usart_lite_statr_hw u AND STATR_RXNE \<noteq> 0)"

definition usart_lite_meip_one :: "nat \<Rightarrow> nat \<Rightarrow> (machine \<Rightarrow> machine) \<Rightarrow> machine \<Rightarrow> machine" where
  "usart_lite_meip_one i irq_n r m =
     (if lite_irq_on i irq_n m then
        if owner m \<noteq> 0 \<and> owner m \<noteq> of_nat irq_n then m
        else cpu_irq (meip_claim irq_n m)
      else
        cpu_irq
          (if owner m = of_nat irq_n then
             if 0 < wch_vtf_in_isr (m_cpu m) then meip_lower m
             else r (meip_release irq_n m)
           else m))"

definition ch32_usart_lite_meip_resync :: "(machine \<Rightarrow> machine) \<Rightarrow> machine \<Rightarrow> machine" where
  "ch32_usart_lite_meip_resync r m =
     fold (\<lambda>i. usart_lite_meip_one i (lite_irq ! i) r) [0..<7] m"

definition ch32_usart_lite_push_rx_byte ::
    "(machine \<Rightarrow> machine) \<Rightarrow> nat \<Rightarrow> u8 \<Rightarrow> machine \<Rightarrow> machine" where
  "ch32_usart_lite_push_rx_byte r idx b m =
     (if idx > 6 then m
      else if lite_rxfifo_full (m_lite m ! idx) then m
      else ch32_usart_lite_meip_resync r (lite_upd idx (lite_rxfifo_push b) m))"

section \<open>MMIO handlers\<close>

definition ch32_usart_lite_read ::
    "(machine \<Rightarrow> machine) \<Rightarrow> nat \<Rightarrow> u32 \<Rightarrow> nat \<Rightarrow> machine \<Rightarrow> u32 \<times> machine" where
  "ch32_usart_lite_read r i addr sz m =
     (let u = m_lite m ! i in
      if addr = 0x00 then
        (let st = ch32_usart_lite_statr_hw u
         in (if sz = 1 then ucast (st AND 0xff) else ucast st, m))
      else if addr = 0x04 then
        (let (ret, m1) =
           (if \<not> lite_rxfifo_empty u then
              let (b, u') = lite_rxfifo_pop u
              in (ucast b :: u32, lite_upd i (\<lambda>_. u'\<lparr>datar_last := b\<rparr>) m)
            else (ucast (datar_last u), m))
         in (if sz = 1 then ret AND 0xff else ret, ch32_usart_lite_meip_resync r m1))
      else if addr = 0x08 then (l_brr u, m)
      else if addr = 0x0c then (l_ctlr1 u, m)
      else if addr = 0x10 then (l_ctlr2 u, m)
      else if addr = 0x14 then (l_ctlr3 u, m)
      else if addr = 0x18 then (l_gpr u, m)
      else if addr = 0x1c then (l_ctlr4 u, m)
      else (0, m))"

definition ch32_usart_lite_write ::
    "(machine \<Rightarrow> machine) \<Rightarrow> as_write \<Rightarrow> nat \<Rightarrow> u32 \<Rightarrow> u32 \<Rightarrow> machine \<Rightarrow> machine" where
  "ch32_usart_lite_write r asw i addr v m =
     (let u = m_lite m ! i in
      if addr = 0x00 then
        (let clr = NOT (ucast v) AND STATR_W0C_MASK;
             m1 = (if clr AND STATR_RXNE \<noteq> 0 \<and> \<not> lite_rxfifo_empty u
                   then lite_upd i (\<lambda>u. snd (lite_rxfifo_pop u)) m else m)
         in ch32_usart_lite_meip_resync r m1)
      else if addr = 0x04 then
        (let m1 = lite_upd i (datar_last_update (\<lambda>_. ucast (v AND 0xff))) m in
         if bit (l_ctlr3 u) CTLR3_DMAR then
           ch32_usart_lite_dma_rx_pump asw i (lite_rx_dma ! i)
             (lite_upd i (l_rx_pending_update (\<lambda>_. True)) m1)
         else m1)
      else if addr = 0x08 then lite_upd i (l_brr_update (\<lambda>_. v)) m
      else if addr = 0x0c then
        ch32_usart_lite_meip_resync r (lite_upd i (l_ctlr1_update (\<lambda>_. v)) m)
      else if addr = 0x10 then lite_upd i (l_ctlr2_update (\<lambda>_. v)) m
      else if addr = 0x14 then
        ch32_usart_lite_meip_resync r (lite_upd i (l_ctlr3_update (\<lambda>_. v)) m)
      else if addr = 0x18 then lite_upd i (l_gpr_update (\<lambda>_. v)) m
      else if addr = 0x1c then lite_upd i (l_ctlr4_update (\<lambda>_. v)) m
      else m)"

definition lite_reset_one :: "lite_state \<Rightarrow> lite_state" where
  "lite_reset_one u = u\<lparr>
     l_statr := STATR_TXE OR STATR_TC, l_brr := 0, l_ctlr1 := 0, l_ctlr2 := 0, l_ctlr3 := 0,
     l_gpr := 0, l_ctlr4 := 0, datar_last := 0, l_rx_pending := False,
     rx_fifo_h := 0, rx_fifo_t := 0, rx_fifo := replicate 8 0\<rparr>"

definition ch32_usart_lite_reset :: "machine \<Rightarrow> machine" where
  "ch32_usart_lite_reset m = m_lite_update (map lite_reset_one) m"

section \<open>The resync contract of each unit\<close>

definition lite_keep :: "nat \<Rightarrow> nat \<Rightarrow> machine \<Rightarrow> bool" where
  "lite_keep i irq_n m \<longleftrightarrow> lite_irq_on i irq_n m \<or> 0 < wch_vtf_in_isr (m_cpu m)"

lemma lite_irq_view: "meip_view m = meip_view m' \<Longrightarrow> lite_irq_on i n m = lite_irq_on i n m'"
  using view_fields(4)[of m m'] view_ienr_on[of m m'] by (simp add: lite_irq_on_def)

lemma lite_keep_view: "meip_view m = meip_view m' \<Longrightarrow> lite_keep i n m = lite_keep i n m'"
  using lite_irq_view[of m m'] view_fields(2)[of m m'] by (simp add: lite_keep_def)

lemma lite_releases:
  assumes "owner m = of_nat n" "\<not> lite_keep i n m"
  shows "\<exists>m0 f. owner m0 = 0 \<and> meip_view m0 = meip_view m \<and> out_of_fuel m0 = out_of_fuel m \<and>
    (\<forall>r. usart_lite_meip_one i n r m = f (r m0)) \<and>
    (\<forall>x. meip_view (f x) = meip_view x \<and> owner (f x) = owner x \<and> out_of_fuel (f x) = out_of_fuel x)"
  using assms
  by (intro exI[of _ "meip_release n m"] exI[of _ cpu_irq])
    (simp add: usart_lite_meip_one_def lite_keep_def frame_simps)

lemma lite_prompt_unit:
  assumes "(of_nat n :: u32) \<noteq> 0"
  shows "prompt_unit (of_nat n) (lite_irq_on i n) (lite_keep i n) (usart_lite_meip_one i n)"
  by (unfold_locales; (erule lite_irq_view | erule lite_keep_view | (erule (1) lite_releases)
      | auto simp: usart_lite_meip_one_def lite_keep_def frame_simps Let_def assms))

interpretation usart2: prompt_unit "of_nat 54" "lite_irq_on 0 54" "lite_keep 0 54" "usart_lite_meip_one 0 54"
  by (rule lite_prompt_unit) simp
interpretation usart3: prompt_unit "of_nat 55" "lite_irq_on 1 55" "lite_keep 1 55" "usart_lite_meip_one 1 55"
  by (rule lite_prompt_unit) simp
interpretation uart4: prompt_unit "of_nat 68" "lite_irq_on 2 68" "lite_keep 2 68" "usart_lite_meip_one 2 68"
  by (rule lite_prompt_unit) simp
interpretation uart5: prompt_unit "of_nat 69" "lite_irq_on 3 69" "lite_keep 3 69" "usart_lite_meip_one 3 69"
  by (rule lite_prompt_unit) simp
interpretation uart6: prompt_unit "of_nat 87" "lite_irq_on 4 87" "lite_keep 4 87" "usart_lite_meip_one 4 87"
  by (rule lite_prompt_unit) simp
interpretation uart7: prompt_unit "of_nat 88" "lite_irq_on 5 88" "lite_keep 5 88" "usart_lite_meip_one 5 88"
  by (rule lite_prompt_unit) simp
interpretation uart8: prompt_unit "of_nat 89" "lite_irq_on 6 89" "lite_keep 6 89" "usart_lite_meip_one 6 89"
  by (rule lite_prompt_unit) simp

end
