(* ===== verification/Ch32_Rcc.thy ===== *)
theory Ch32_Rcc
  imports Ch32_Meip
begin

text \<open>
  The reset and clock controller (\<open>ch32-rcc.c\<close>): the clock tree derived from the shadow of CFGR0,
  and register reads. The write handler, which reaches into SysTick, the timers and the backup
  domain, is in \<open>Ch32_RccIo\<close>.
\<close>

definition RCC_RDY_MASK :: u32 where "RCC_RDY_MASK = 0x2A020002"
definition RCC_SWS_MASK :: u32 where "RCC_SWS_MASK = 0xC"
definition RCC_CFGR0_CLOCK_MASK :: u32 where "RCC_CFGR0_CLOCK_MASK = 0x003D07F3"

text \<open>\<open>board_clocks\<close> is \<open>None\<close> without a board, else its \<open>hsi_hz\<close> and \<open>hse_hz\<close>.\<close>

definition ch32_rcc_hsi_hz :: "machine \<Rightarrow> u32" where
  "ch32_rcc_hsi_hz m =
     (case board_clocks m of Some (hsi, hse) \<Rightarrow> if hsi \<noteq> 0 then hsi else 8000000 | None \<Rightarrow> 8000000)"

definition ch32_rcc_hse_hz :: "machine \<Rightarrow> u32" where
  "ch32_rcc_hse_hz m =
     (case board_clocks m of Some (hsi, hse) \<Rightarrow> if hse \<noteq> 0 then hse else 8000000 | None \<Rightarrow> 8000000)"

definition ch32_rcc_hpre_div :: "u32 \<Rightarrow> u32" where
  "ch32_rcc_hpre_div hpre =
     [1, 1, 1, 1, 1, 1, 1, 1, 2, 4, 8, 16, 64, 128, 256, 512] ! unat (hpre AND 0xf)"

definition ch32_rcc_ppre_div :: "u32 \<Rightarrow> u32" where
  "ch32_rcc_ppre_div ppre = [1, 1, 1, 1, 2, 4, 8, 16] ! unat (ppre AND 0x7)"

definition ch32_rcc_pll_mul :: "u32 \<Rightarrow> u32" where
  "ch32_rcc_pll_mul pllmul = (let v = pllmul AND 0xf in if v \<le> 14 then v + 2 else 16)"

definition ch32_rcc_calc_sysclk :: "machine \<Rightarrow> u32" where
  "ch32_rcc_calc_sysclk m =
     (let cfgr0 = rcc_words m ! 1; sw = cfgr0 AND 3;
          hsi_hz = ch32_rcc_hsi_hz m; hse_hz = ch32_rcc_hse_hz m
      in if sw = 1 then hse_hz
         else if sw = 2 then
           let pllsrc = drop_bit 16 cfgr0 AND 1; pllmul = drop_bit 18 cfgr0 AND 0xf;
               pll_in = (if pllsrc \<noteq> 0 then hse_hz else hsi_hz div 2)
           in pll_in * ch32_rcc_pll_mul pllmul
         else hsi_hz)"

definition ch32_rcc_get_hclk_hz :: "machine \<Rightarrow> u32" where
  "ch32_rcc_get_hclk_hz m =
     (let cfgr0 = rcc_words m ! 1; hpre = drop_bit 4 cfgr0 AND 0xf;
          sysclk = ch32_rcc_calc_sysclk m; dv = ch32_rcc_hpre_div hpre
      in if dv \<noteq> 0 then sysclk div dv else sysclk)"

definition ch32_rcc_get_pclk1_hz :: "machine \<Rightarrow> u32" where
  "ch32_rcc_get_pclk1_hz m =
     (let cfgr0 = rcc_words m ! 1; ppre1 = drop_bit 8 cfgr0 AND 7;
          hclk = ch32_rcc_get_hclk_hz m; dv = ch32_rcc_ppre_div ppre1
      in if dv \<noteq> 0 then hclk div dv else hclk)"

section \<open>Reads\<close>

definition ch32_rcc_read_reg :: "machine \<Rightarrow> u32 \<Rightarrow> u32" where
  "ch32_rcc_read_reg m aligned_addr =
     (let v = rcc_words m ! (unat aligned_addr div 4) in
      if aligned_addr = 0 then v OR RCC_RDY_MASK
      else if aligned_addr = 4 then
        let sw = v AND 3; base = v AND NOT RCC_SWS_MASK
        in if sw = 2 then base OR 8 else if sw = 1 then base OR 4 else base
      else if aligned_addr = 0x20 then v OR 2
      else if aligned_addr = 0x24 then v OR 2
      else v)"

definition ch32_rcc_read :: "u32 \<Rightarrow> nat \<Rightarrow> machine \<Rightarrow> u32" where
  "ch32_rcc_read addr sz m =
     (let aligned_addr = addr AND NOT 3 in
      if addr \<ge> 0x80 then 0
      else if aligned_addr \<ge> 0x80 then 0
      else if sz \<noteq> 1 \<and> sz \<noteq> 2 \<and> sz \<noteq> 4 then 0
      else let v = ch32_rcc_read_reg m aligned_addr; sh = unat (addr AND 3) * 8
           in if sz = 1 then drop_bit sh v AND 0xFF
              else if sz = 2 then drop_bit sh v AND 0xFFFF
              else v)"

section \<open>Clock facts\<close>

lemma hpre_div_pos: "ch32_rcc_hpre_div h \<noteq> 0"
proof -
  have "unat (h AND 0xf) < 16"
    using word_and_le1[of h "0xf"] by (simp add: word_le_nat_alt)
  then show ?thesis unfolding ch32_rcc_hpre_div_def by (intro nth_list_all[where P = "\<lambda>x. x \<noteq> 0"]) simp_all
qed

lemma ppre_div_pos: "ch32_rcc_ppre_div p \<noteq> 0"
proof -
  have "unat (p AND 0x7) < 8"
    using word_and_le1[of p "0x7"] by (simp add: word_le_nat_alt)
  then show ?thesis unfolding ch32_rcc_ppre_div_def by (intro nth_list_all[where P = "\<lambda>x. x \<noteq> 0"]) simp_all
qed

lemma hclk_le_sysclk: "ch32_rcc_get_hclk_hz m \<le> ch32_rcc_calc_sysclk m"
  by (simp add: ch32_rcc_get_hclk_hz_def Let_def word_le_nat_alt unat_div)

lemma pclk1_le_hclk: "ch32_rcc_get_pclk1_hz m \<le> ch32_rcc_get_hclk_hz m"
  by (simp add: ch32_rcc_get_pclk1_hz_def Let_def word_le_nat_alt unat_div)

end
