(* ===== verification/Ch32_Tim.thy ===== *)
theory Ch32_Tim
  imports Ch32_Rcc
begin

text \<open>
  The general-purpose and basic timers TIM2 to TIM7 (\<open>ch32-tim.c\<close>), instances 0 to 5. The counter
  advances lazily: \<open>cnt_base\<close> at \<open>epoch_ns\<close>, plus the ticks of the virtual clock since then.
\<close>

definition ch32_tim_irqn :: "nat list" where
  "ch32_tim_irqn = [44, 45, 46, 66, 70, 71]"

abbreviation tim_upd :: "nat \<Rightarrow> (tim_state \<Rightarrow> tim_state) \<Rightarrow> machine \<Rightarrow> machine" where
  "tim_upd i f \<equiv> m_tims_update (arr_upd i f)"

abbreviation "TIM_CEN \<equiv> (0::nat)"
abbreviation "TIM_UDIS \<equiv> (1::nat)"
abbreviation "TIM_URS \<equiv> (2::nat)"
abbreviation "TIM_OPM \<equiv> (3::nat)"
abbreviation "TIM_ARPE \<equiv> (7::nat)"
abbreviation "TIM_UIF \<equiv> (0::nat)"
abbreviation "TIM_UIE \<equiv> (0::nat)"

definition ch32_tim_is_gptm :: "nat \<Rightarrow> bool" where "ch32_tim_is_gptm idx \<longleftrightarrow> idx \<le> 3"
definition ch32_tim_is_bctm :: "nat \<Rightarrow> bool" where "ch32_tim_is_bctm idx \<longleftrightarrow> idx \<ge> 4"

section \<open>Counter\<close>

definition ch32_tim_cnt_hz :: "tim_state \<Rightarrow> machine \<Rightarrow> u32" where
  "ch32_tim_cnt_hz t m =
     (let dv = ucast (t_psc t) + 1 :: u32;
          hclk = ch32_rcc_get_hclk_hz m; pclk1 = ch32_rcc_get_pclk1_hz m;
          tim_clk = (if pclk1 = hclk then pclk1 else pclk1 * 2)
      in if dv \<noteq> 0 then tim_clk div dv else tim_clk)"

definition tim_reload :: "tim_state \<Rightarrow> u16" where
  "tim_reload t = (if t_atrlr t = 0 then 0xFFFF else t_atrlr t)"

definition ch32_tim_cnt_now_at :: "tim_state \<Rightarrow> u64 \<Rightarrow> machine \<Rightarrow> u16" where
  "ch32_tim_cnt_now_at t now0 m =
     (if \<not> bit (t_ctlr1 t) TIM_CEN then ucast (cnt_base t)
      else let hz = ch32_tim_cnt_hz t m in
        if hz = 0 then ucast (cnt_base t)
        else let now_ns = (if now0 = 0 then clock_ns m else now0) in
          if now_ns \<le> epoch_ns t then ucast (cnt_base t)
          else let elapsed_ns = now_ns - epoch_ns t;
                   ticks = muldiv64 m elapsed_ns hz 1000000000
               in ucast ((cnt_base t + ticks) mod (ucast (tim_reload t) + 1)))"

definition ch32_tim_cnt_now :: "tim_state \<Rightarrow> machine \<Rightarrow> u16" where
  "ch32_tim_cnt_now t m = ch32_tim_cnt_now_at t 0 m"

section \<open>Interrupt resync\<close>

definition tim_irq_on :: "nat \<Rightarrow> nat \<Rightarrow> machine \<Rightarrow> bool" where
  "tim_irq_on i n m \<longleftrightarrow>
     ienr_on n m \<and> bit (t_intfr (m_tims m ! i)) TIM_UIF \<and> bit (t_dmaintenr (m_tims m ! i)) TIM_UIE"

definition ch32_tim_meip_update :: "nat \<Rightarrow> nat \<Rightarrow> (machine \<Rightarrow> machine) \<Rightarrow> machine \<Rightarrow> machine" where
  "ch32_tim_meip_update i n r m =
     (if \<not> tim_irq_on i n m then
        cpu_irq (tim_upd i (t_irq_active_update (\<lambda>_. False))
          (if owner m = of_nat n then r (meip_disable (meip_release n m)) else m))
      else if t_irq_active (m_tims m ! i) then m
      else if owner m \<noteq> 0 \<and> owner m \<noteq> of_nat n then m
      else cpu_irq (meip_claim n (tim_upd i (t_irq_active_update (\<lambda>_. True)) m)))"

section \<open>Scheduling\<close>

definition tim_ticks_left :: "u16 \<Rightarrow> u16 \<Rightarrow> u32" where
  "tim_ticks_left reload cnt_now =
     (let ticks_left = ucast reload - ucast cnt_now + 1 :: u32
      in if ticks_left = 0 then ucast reload + 1 else ticks_left)"

definition ch32_tim_schedule_one :: "machine \<Rightarrow> tim_state \<Rightarrow> tim_state" where
  "ch32_tim_schedule_one m t =
     (if tim_timer t = Timer_null then t
      else if \<not> bit (t_ctlr1 t) TIM_CEN then tim_timer_update timer_del t
      else let hz = ch32_tim_cnt_hz t m in
        if hz = 0 then tim_timer_update timer_del t
        else let now_ns = clock_ns m;
                 ticks_left = tim_ticks_left (tim_reload t) (ch32_tim_cnt_now_at t now_ns m);
                 delay_ns = muldiv64 m (ucast ticks_left) 1000000000 hz
             in tim_timer_update (timer_mod_ns (now_ns + delay_ns)) t)"

definition ch32_tim_schedule :: "nat \<Rightarrow> machine \<Rightarrow> machine" where
  "ch32_tim_schedule i m = tim_upd i (ch32_tim_schedule_one m) m"

definition ch32_tim_tick :: "nat \<Rightarrow> (machine \<Rightarrow> machine) \<Rightarrow> machine \<Rightarrow> machine" where
  "ch32_tim_tick i r m =
     (let n = ch32_tim_irqn ! i; t = m_tims m ! i in
      if \<not> bit (t_ctlr1 t) TIM_CEN then m
      else
        let m1 = tim_upd i (\<lambda>t. t\<lparr>cnt_base := 0, epoch_ns := clock_ns m\<rparr>) m;
            m2 = (if \<not> bit (t_ctlr1 t) TIM_UDIS then
                    ch32_tim_meip_update i n r
                      (tim_upd i (t_intfr_update (\<lambda>w. w OR one_bit TIM_UIF)) m1)
                  else m1)
        in if bit (t_ctlr1 (m_tims m2 ! i)) TIM_OPM
           then tim_upd i (t_ctlr1_update (\<lambda>w. w AND NOT (one_bit TIM_CEN))) m2
           else
             let m3 = (if bit (t_ctlr1 (m_tims m2 ! i)) TIM_ARPE
                       then tim_upd i (\<lambda>t. t\<lparr>t_atrlr := t_atrlr_preload t\<rparr>) m2 else m2)
             in ch32_tim_schedule i m3)"

section \<open>MMIO handlers\<close>

definition tim_read_reg :: "nat \<Rightarrow> u32 \<Rightarrow> machine \<Rightarrow> u16" where
  "tim_read_reg i off m =
     (let t = m_tims m ! i; bctm = ch32_tim_is_bctm i in
      if off = 0x00 then t_ctlr1 t
      else if off = 0x04 then t_ctlr2 t
      else if off = 0x08 then t_smcfgr t
      else if off = 0x0C then t_dmaintenr t
      else if off = 0x10 then t_intfr t
      else if off = 0x14 then 0
      else if off = 0x18 then (if bctm then 0 else t_chctlr1 t)
      else if off = 0x1C then (if bctm then 0 else t_chctlr2 t)
      else if off = 0x20 then (if bctm then 0 else t_ccer t)
      else if off = 0x24 then ch32_tim_cnt_now t m
      else if off = 0x28 then t_psc t
      else if off = 0x2C then (if bit (t_ctlr1 t) TIM_ARPE then t_atrlr_preload t else t_atrlr t)
      else if off = 0x30 then 0
      else if off = 0x34 then (if bctm then 0 else t_ch1cvr t)
      else if off = 0x38 then (if bctm then 0 else t_ch2cvr t)
      else if off = 0x3C then (if bctm then 0 else t_ch3cvr t)
      else if off = 0x40 then (if bctm then 0 else t_ch4cvr t)
      else if off = 0x44 then 0
      else if off = 0x48 then t_dmacfgr t
      else if off = 0x4C then t_dmaadr t
      else if off = 0x50 then (if ch32_tim_is_gptm i then t_aux t else 0)
      else 0)"

definition ch32_tim_read :: "nat \<Rightarrow> u32 \<Rightarrow> nat \<Rightarrow> machine \<Rightarrow> u32" where
  "ch32_tim_read i addr sz m =
     (let v = tim_read_reg i (addr AND NOT 3) m in
      if sz = 4 then ucast v
      else if sz = 2 then (if addr AND 2 \<noteq> 0 then 0 else ucast v)
      else ucast (drop_bit (unat (addr AND 1) * 8) v) AND 0xff)"

text \<open>The 16-bit value a write stores; \<open>None\<close> for the padding half.\<close>

definition tim_write_value :: "nat \<Rightarrow> u32 \<Rightarrow> u32 \<Rightarrow> nat \<Rightarrow> machine \<Rightarrow> u16 option" where
  "tim_write_value i addr v sz m =
     (if sz = 4 then Some (ucast v)
      else if sz = 2 then (if addr AND 2 \<noteq> 0 then None else Some (ucast v))
      else
        let shift = unat (addr AND 1) * 8; roff = addr AND NOT 1;
            cur = ucast (ch32_tim_read i (roff AND NOT 3) 2 m) :: u16;
            cur1 = cur AND NOT (push_bit shift 0xff)
        in Some (cur1 OR push_bit shift (ucast (v AND 0xff))))"

definition tim_write_reg :: "nat \<Rightarrow> (machine \<Rightarrow> machine) \<Rightarrow> u32 \<Rightarrow> u16 \<Rightarrow> machine \<Rightarrow> machine" where
  "tim_write_reg i r off v m =
     (let n = ch32_tim_irqn ! i; t = m_tims m ! i; bctm = ch32_tim_is_bctm i;
          upd = (\<lambda>f. tim_upd i f m); cmp = (\<lambda>f. if \<not> bctm then tim_upd i f m else m) in
      if off = 0x00 then
        (let was_en = bit (t_ctlr1 t) TIM_CEN; now_en = bit v TIM_CEN;
             m1 = upd (t_ctlr1_update (\<lambda>_. v));
             m2 = (if \<not> was_en \<and> now_en
                   then tim_upd i (\<lambda>t. t\<lparr>cnt_base := 0, epoch_ns := clock_ns m\<rparr>) m1 else m1)
         in ch32_tim_schedule i m2)
      else if off = 0x04 then upd (t_ctlr2_update (\<lambda>_. v))
      else if off = 0x08 then upd (t_smcfgr_update (\<lambda>_. v))
      else if off = 0x0C then ch32_tim_meip_update i n r (upd (t_dmaintenr_update (\<lambda>_. v)))
      else if off = 0x10 then
        (let m1 = upd (t_intfr_update (\<lambda>w. w AND v));
             m2 = (if \<not> bit (t_intfr (m_tims m1 ! i)) TIM_UIF
                   then tim_upd i (t_irq_active_update (\<lambda>_. False)) m1 else m1)
         in ch32_tim_meip_update i n r m2)
      else if off = 0x14 then
        (if bit v 0 then
           let m1 = upd (\<lambda>t. t\<lparr>cnt_base := 0, epoch_ns := clock_ns m\<rparr>);
               m2 = (if bit (t_ctlr1 t) TIM_ARPE
                     then tim_upd i (\<lambda>t. t\<lparr>t_atrlr := t_atrlr_preload t\<rparr>) m1 else m1);
               m3 = (if \<not> bit (t_ctlr1 t) TIM_URS then
                       ch32_tim_meip_update i n r
                         (tim_upd i (t_intfr_update (\<lambda>w. w OR one_bit TIM_UIF)) m2)
                     else m2)
           in ch32_tim_schedule i m3
         else m)
      else if off = 0x18 then cmp (t_chctlr1_update (\<lambda>_. v))
      else if off = 0x1C then cmp (t_chctlr2_update (\<lambda>_. v))
      else if off = 0x20 then cmp (t_ccer_update (\<lambda>_. v))
      else if off = 0x24 then
        ch32_tim_schedule i (upd (\<lambda>t. t\<lparr>cnt_base := ucast v, epoch_ns := clock_ns m\<rparr>))
      else if off = 0x28 then
        (let m1 = upd (t_psc_update (\<lambda>_. v));
             m2 = tim_upd i (\<lambda>t. t\<lparr>cnt_base := ucast (ch32_tim_cnt_now t m1), epoch_ns := clock_ns m\<rparr>) m1
         in ch32_tim_schedule i m2)
      else if off = 0x2C then
        (if bit (t_ctlr1 t) TIM_ARPE then upd (t_atrlr_preload_update (\<lambda>_. v))
         else ch32_tim_schedule i (upd (\<lambda>t. t\<lparr>t_atrlr := v, t_atrlr_preload := v\<rparr>)))
      else if off = 0x34 then cmp (t_ch1cvr_update (\<lambda>_. v))
      else if off = 0x38 then cmp (t_ch2cvr_update (\<lambda>_. v))
      else if off = 0x3C then cmp (t_ch3cvr_update (\<lambda>_. v))
      else if off = 0x40 then cmp (t_ch4cvr_update (\<lambda>_. v))
      else if off = 0x48 then upd (t_dmacfgr_update (\<lambda>_. v))
      else if off = 0x4C then upd (t_dmaadr_update (\<lambda>_. v))
      else if off = 0x50 then (if ch32_tim_is_gptm i then upd (t_aux_update (\<lambda>_. v)) else m)
      else m)"

definition ch32_tim_write :: "nat \<Rightarrow> (machine \<Rightarrow> machine) \<Rightarrow> u32 \<Rightarrow> u32 \<Rightarrow> nat \<Rightarrow> machine \<Rightarrow> machine" where
  "ch32_tim_write i r addr v sz m =
     (case tim_write_value i addr v sz m of
        None \<Rightarrow> m
      | Some v16 \<Rightarrow> tim_write_reg i r (addr AND NOT 3) v16 m)"

section \<open>Reset, resync of all, clock change\<close>

definition ch32_tim_reset_one :: "tim_state \<Rightarrow> tim_state" where
  "ch32_tim_reset_one t = t\<lparr>
     tim_timer := timer_del (tim_timer t),
     t_ctlr1 := 0, t_ctlr2 := 0, t_smcfgr := 0, t_dmaintenr := 0, t_intfr := 0,
     t_chctlr1 := 0, t_chctlr2 := 0, t_ccer := 0, t_psc := 0,
     t_atrlr := 0xFFFF, t_atrlr_preload := 0xFFFF,
     t_ch1cvr := 0, t_ch2cvr := 0, t_ch3cvr := 0, t_ch4cvr := 0,
     t_dmacfgr := 0, t_dmaadr := 0, t_aux := 0,
     cnt_base := 0, epoch_ns := 0, t_irq_active := False\<rparr>"

definition ch32_tim_reset :: "(machine \<Rightarrow> machine) \<Rightarrow> machine \<Rightarrow> machine" where
  "ch32_tim_reset r m =
     fold (\<lambda>i m. ch32_tim_meip_update i (ch32_tim_irqn ! i) r (tim_upd i ch32_tim_reset_one m)) [0..<6] m"

definition ch32_tim_meip_resync_all :: "(machine \<Rightarrow> machine) \<Rightarrow> machine \<Rightarrow> machine" where
  "ch32_tim_meip_resync_all r m =
     fold (\<lambda>i. ch32_tim_meip_update i (ch32_tim_irqn ! i) r) [0..<6] m"

definition tim_clock_changed_one :: "u64 \<Rightarrow> nat \<Rightarrow> machine \<Rightarrow> machine" where
  "tim_clock_changed_one now_ns i m =
     (let t = m_tims m ! i in
      if \<not> bit (t_ctlr1 t) TIM_CEN then m
      else ch32_tim_schedule i
             (tim_upd i (\<lambda>t. t\<lparr>cnt_base := ucast (ch32_tim_cnt_now_at t now_ns m),
                               epoch_ns := now_ns\<rparr>) m))"

definition ch32_tim_rcc_clock_changed :: "machine \<Rightarrow> machine" where
  "ch32_tim_rcc_clock_changed m = fold (tim_clock_changed_one (clock_ns m)) [0..<6] m"

section \<open>The resync contract of each timer\<close>

lemma view_tim_active [frame_simps]:
  "meip_view (tim_upd i (t_irq_active_update (\<lambda>_. b)) m) = meip_view m"
  by (simp add: meip_view_def map_arr_upd_same)

lemma tim_irq_view: "meip_view m = meip_view m' \<Longrightarrow> tim_irq_on i n m = tim_irq_on i n m'"
proof -
  assume v: "meip_view m = meip_view m'"
  have tims: "map (t_irq_active_update (\<lambda>_. False)) (m_tims m) =
      map (t_irq_active_update (\<lambda>_. False)) (m_tims m')"
    using view_fields(12)[OF v] .
  have "t_intfr (m_tims m ! i) = t_intfr (m_tims m' ! i)"
    by (rule nth_map_cong[OF tims]) (drule arg_cong[where f = t_intfr], simp)
  moreover have "t_dmaintenr (m_tims m ! i) = t_dmaintenr (m_tims m' ! i)"
    by (rule nth_map_cong[OF tims]) (drule arg_cong[where f = t_dmaintenr], simp)
  ultimately show ?thesis using view_ienr_on[OF v, of n] by (simp add: tim_irq_on_def)
qed

lemma tim_releases:
  assumes "owner m = of_nat n" "\<not> tim_irq_on i n m"
  shows "\<exists>m0 f. owner m0 = 0 \<and> meip_view m0 = meip_view m \<and> out_of_fuel m0 = out_of_fuel m \<and>
    (\<forall>r. ch32_tim_meip_update i n r m = f (r m0)) \<and>
    (\<forall>x. meip_view (f x) = meip_view x \<and> owner (f x) = owner x \<and> out_of_fuel (f x) = out_of_fuel x)"
  using assms
  by (intro exI[of _ "meip_disable (meip_release n m)"]
      exI[of _ "\<lambda>x. cpu_irq (tim_upd i (t_irq_active_update (\<lambda>_. False)) x)"])
    (simp add: ch32_tim_meip_update_def frame_simps)

lemma tim_unit:
  assumes "(of_nat n :: u32) \<noteq> 0"
  shows "meip_unit (of_nat n) (tim_irq_on i n) (tim_irq_on i n) (ch32_tim_meip_update i n)"
  by (unfold_locales; (erule tim_irq_view | (erule (1) tim_releases)
      | auto simp: ch32_tim_meip_update_def frame_simps Let_def assms))

interpretation tim2: meip_unit "of_nat 44" "tim_irq_on 0 44" "tim_irq_on 0 44" "ch32_tim_meip_update 0 44"
  by (rule tim_unit) simp
interpretation tim3: meip_unit "of_nat 45" "tim_irq_on 1 45" "tim_irq_on 1 45" "ch32_tim_meip_update 1 45"
  by (rule tim_unit) simp
interpretation tim4: meip_unit "of_nat 46" "tim_irq_on 2 46" "tim_irq_on 2 46" "ch32_tim_meip_update 2 46"
  by (rule tim_unit) simp
interpretation tim5: meip_unit "of_nat 66" "tim_irq_on 3 66" "tim_irq_on 3 66" "ch32_tim_meip_update 3 66"
  by (rule tim_unit) simp
interpretation tim6: meip_unit "of_nat 70" "tim_irq_on 4 70" "tim_irq_on 4 70" "ch32_tim_meip_update 4 70"
  by (rule tim_unit) simp
interpretation tim7: meip_unit "of_nat 71" "tim_irq_on 5 71" "tim_irq_on 5 71" "ch32_tim_meip_update 5 71"
  by (rule tim_unit) simp

end
