(* ===== verification/Ch32_Eth10m.thy ===== *)
theory Ch32_Eth10m
  imports Ch32_Meip
begin

text \<open>
  The 10 Mbit Ethernet MAC of the CH32V20x (\<open>ch32-eth-10m.c\<close>): register bytes, the PHY behind the
  MII window, transmission, reception with a one-frame stash, the link timer and the interrupt.
  Guest memory is the address-space parameter, the size of the SRAM and the redelivery of queued
  packets are parameters; frames sent go to \<open>net_out\<close>. The stash is the list of its valid bytes.
\<close>

abbreviation "E10M_OFF_EIE \<equiv> (0x03::nat)"
abbreviation "E10M_OFF_EIR \<equiv> (0x04::nat)"
abbreviation "E10M_OFF_ESTAT \<equiv> (0x05::nat)"
abbreviation "E10M_OFF_ECON1 \<equiv> (0x07::nat)"
abbreviation "E10M_OFF_ETXST \<equiv> (0x08::nat)"
abbreviation "E10M_OFF_ETXLN \<equiv> (0x0A::nat)"
abbreviation "E10M_OFF_ERXST \<equiv> (0x0C::nat)"
abbreviation "E10M_OFF_ERXLN \<equiv> (0x0E::nat)"
abbreviation "E10M_OFF_MIRD \<equiv> (0x20::nat)"
abbreviation "E10M_OFF_MIREGADR \<equiv> (0x24::nat)"
abbreviation "E10M_OFF_MIWR \<equiv> (0x26::nat)"

definition E10M_EIR_RXIF :: u8 where "E10M_EIR_RXIF = 0x40"
definition E10M_EIR_LINKIF :: u8 where "E10M_EIR_LINKIF = 0x10"
definition E10M_EIR_TXIF :: u8 where "E10M_EIR_TXIF = 0x08"
definition E10M_EIR_TXERIF :: u8 where "E10M_EIR_TXERIF = 0x02"
definition E10M_ECON1_TXRTS :: u8 where "E10M_ECON1_TXRTS = 0x08"
definition E10M_ECON1_RXEN :: u8 where "E10M_ECON1_RXEN = 0x04"
definition E10M_PKT_MAX :: nat where "E10M_PKT_MAX = 1536"
definition CH32_SRAM_BASE :: u64 where "CH32_SRAM_BASE = 0x20000000"

abbreviation e10_upd :: "(eth10m_state \<Rightarrow> eth10m_state) \<Rightarrow> machine \<Rightarrow> machine" where
  "e10_upd f \<equiv> m_eth10m_update (map_option f)"

abbreviation e10 :: "machine \<Rightarrow> eth10m_state" where
  "e10 m \<equiv> the (m_eth10m m)"

definition lduw_regs :: "nat \<Rightarrow> u8 list \<Rightarrow> u16" where
  "lduw_regs k regs = ucast (regs ! k) OR push_bit 8 (ucast (regs ! (k + 1)))"

definition stw_regs :: "nat \<Rightarrow> u16 \<Rightarrow> u8 list \<Rightarrow> u8 list" where
  "stw_regs k v regs = regs[k := ucast v, k + 1 := ucast (drop_bit 8 v)]"

text \<open>\<open>rsz\<close> is the size of the machine's RAM, \<open>None\<close> without one.\<close>

definition eth_10m_span_in_sram :: "u64 option \<Rightarrow> u64 \<Rightarrow> u64 \<Rightarrow> bool" where
  "eth_10m_span_in_sram rsz p len =
     (if len = 0 then False
      else case rsz of None \<Rightarrow> False
        | Some sz \<Rightarrow>
            if p < CH32_SRAM_BASE then False
            else let off = p - CH32_SRAM_BASE in \<not> (off \<ge> sz \<or> len > sz - off))"

section \<open>Interrupt resync\<close>

definition eth_10m_meip_withdraw :: "(machine \<Rightarrow> machine) \<Rightarrow> nat \<Rightarrow> bool \<Rightarrow> machine \<Rightarrow> machine" where
  "eth_10m_meip_withdraw r n resync_others m =
     e10_upd (e10_irq_active_update (\<lambda>_. False))
       (if owner m = of_nat n then
          let m1 = meip_disable (meip_release n m) in if resync_others then r m1 else m1
        else m)"

definition eth_10m_meip_inject :: "nat \<Rightarrow> machine \<Rightarrow> machine" where
  "eth_10m_meip_inject n m =
     cpu_irq (meip_claim n (e10_upd (e10_irq_active_update (\<lambda>_. True)) m))"

definition eth10m_irq_on :: "machine \<Rightarrow> bool" where
  "eth10m_irq_on m \<longleftrightarrow> m_eth10m m \<noteq> None \<and> ienr_on CH32_ETH_10M_IRQ_N m \<and>
     (let eie = e10_regs (e10 m) ! E10M_OFF_EIE; eir = e10_regs (e10 m) ! E10M_OFF_EIR
      in bit eie 7 \<and> eie AND eir \<noteq> 0)"

definition ch32_eth_10m_meip_resync :: "(machine \<Rightarrow> machine) \<Rightarrow> machine \<Rightarrow> machine" where
  "ch32_eth_10m_meip_resync r m =
     (let n = CH32_ETH_10M_IRQ_N in
      case m_eth10m m of None \<Rightarrow> m
      | Some s \<Rightarrow>
          if \<not> eth10m_irq_on m then cpu_irq (eth_10m_meip_withdraw r n True m)
          else
            let isr_done = wch_vtf_in_isr (m_cpu m) = 0 \<and> owner m = of_nat n in
            if e10_irq_active s \<and> \<not> isr_done then m
            else
              let m1 = (if e10_irq_active s then eth_10m_meip_withdraw r n False m else m)
              in if owner m1 \<noteq> 0 \<and> owner m1 \<noteq> of_nat n then m1
                 else eth_10m_meip_inject n m1)"

definition eth_10m_update_irq :: "(machine \<Rightarrow> machine) \<Rightarrow> machine \<Rightarrow> machine" where
  "eth_10m_update_irq r m = ch32_eth_10m_meip_resync r m"

definition eth_10m_raise_eir :: "(machine \<Rightarrow> machine) \<Rightarrow> u8 \<Rightarrow> machine \<Rightarrow> machine" where
  "eth_10m_raise_eir r bits m =
     eth_10m_update_irq r (e10_upd (e10_regs_update (arr_upd E10M_OFF_EIR (\<lambda>b. b OR bits))) m)"

section \<open>PHY\<close>

definition eth_10m_phy_read :: "nat \<Rightarrow> machine \<Rightarrow> u16" where
  "eth_10m_phy_read reg m =
     (if reg \<ge> 32 then 0
      else if reg = 1 then
        (let up = sint (link_up_deadline_ns (e10 m)) \<le> sint (clock_ns m) in if up then 0x0004 OR 0x0020 else 0)
      else if reg = 5 then 0
      else e10_phy_regs (e10 m) ! reg)"

definition E10M_PHY_RESET_LINK_DELAY_NS :: u64 where "E10M_PHY_RESET_LINK_DELAY_NS = 300 * 1000000"
definition E10M_LINK_UP_DELAY_NS :: u64 where "E10M_LINK_UP_DELAY_NS = 200 * 1000000"
definition E10M_LINK_TIMER_SLACK_NS :: u64 where "E10M_LINK_TIMER_SLACK_NS = 10 * 1000000"

definition eth_10m_phy_write :: "nat \<Rightarrow> u16 \<Rightarrow> machine \<Rightarrow> machine" where
  "eth_10m_phy_write reg val m =
     (if reg \<ge> 32 then m
      else
        let m1 = e10_upd (e10_phy_regs_update (\<lambda>p. p[reg := val])) m in
        if reg = 0 \<and> val AND 0x8000 \<noteq> 0 then
          let deadline = clock_ns m + E10M_PHY_RESET_LINK_DELAY_NS
          in e10_upd (\<lambda>s. s\<lparr>e10_phy_regs := (e10_phy_regs s)[reg := 0x3100],
                            link_up_deadline_ns := deadline, link_announced := False,
                            link_timer := timer_mod_ns (deadline + E10M_LINK_TIMER_SLACK_NS)
                                            (link_timer s)\<rparr>) m1
        else m1)"

definition eth_10m_dma_addr :: "u64 \<Rightarrow> u64" where
  "eth_10m_dma_addr addr = (if addr < CH32_SRAM_BASE then CH32_SRAM_BASE + addr else addr)"

section \<open>Transmission and reception\<close>

text \<open>
  \<open>pread\<close> and \<open>pwrite\<close> are \<open>cpu_physical_memory_read\<close> and \<open>cpu_physical_memory_write\<close>, which
  report no result.
\<close>

type_synonym pmem_read = "u64 \<Rightarrow> nat \<Rightarrow> machine \<Rightarrow> u8 list"
type_synonym pmem_write = "u64 \<Rightarrow> u8 list \<Rightarrow> machine \<Rightarrow> machine"

definition eth_10m_do_tx ::
    "(machine \<Rightarrow> machine) \<Rightarrow> pmem_read \<Rightarrow> u64 option \<Rightarrow> machine \<Rightarrow> machine" where
  "eth_10m_do_tx r pread rsz m =
     (let regs = e10_regs (e10 m);
          tx_addr = eth_10m_dma_addr (ucast (lduw_regs E10M_OFF_ETXST regs));
          tx_len = unat (lduw_regs E10M_OFF_ETXLN regs);
          clear_txrts = e10_upd (e10_regs_update (arr_upd E10M_OFF_ECON1 (\<lambda>b. b AND NOT E10M_ECON1_TXRTS)))
      in if tx_len = 0 \<or> tx_len > E10M_PKT_MAX then
           eth_10m_raise_eir r E10M_EIR_TXERIF (clear_txrts m)
         else if \<not> eth_10m_span_in_sram rsz tx_addr (of_nat tx_len) then
           eth_10m_raise_eir r E10M_EIR_TXERIF (clear_txrts m)
         else
           let m1 = m\<lparr>net_out := net_out m @ [pread tx_addr tx_len m]\<rparr>
           in eth_10m_raise_eir r E10M_EIR_TXIF (clear_txrts m1))"

definition eth_10m_can_receive :: "machine \<Rightarrow> bool" where
  "eth_10m_can_receive m \<longleftrightarrow>
     e10_regs (e10 m) ! E10M_OFF_ECON1 AND E10M_ECON1_RXEN \<noteq> 0 \<and> e10_rx_stash (e10 m) = []"

definition eth_10m_receive ::
    "(machine \<Rightarrow> machine) \<Rightarrow> pmem_write \<Rightarrow> u64 option \<Rightarrow> u8 list \<Rightarrow> machine \<Rightarrow> nat \<times> machine" where
  "eth_10m_receive r pwrite rsz buf m =
     (if e10_regs (e10 m) ! E10M_OFF_ECON1 AND E10M_ECON1_RXEN = 0 then (length buf, m)
      else
        let frame = take E10M_PKT_MAX buf; sz = length frame;
            rx_addr = eth_10m_dma_addr (ucast (lduw_regs E10M_OFF_ERXST (e10_regs (e10 m))))
        in if \<not> eth_10m_span_in_sram rsz rx_addr (of_nat sz) then
             (sz, e10_upd (e10_rx_stash_update (\<lambda>_. frame)) m)
           else
             let m1 = pwrite rx_addr frame m;
                 m2 = e10_upd (e10_regs_update (stw_regs E10M_OFF_ERXLN (of_nat sz))) m1
             in (sz, eth_10m_raise_eir r E10M_EIR_RXIF m2))"

definition eth_10m_link_timer_cb :: "(machine \<Rightarrow> machine) \<Rightarrow> machine \<Rightarrow> machine" where
  "eth_10m_link_timer_cb r m =
     (if \<not> link_announced (e10 m) then
        eth_10m_raise_eir r E10M_EIR_LINKIF (e10_upd (link_announced_update (\<lambda>_. True)) m)
      else m)"

section \<open>MMIO handlers\<close>

definition eth_10m_mmio_read :: "nat \<Rightarrow> nat \<Rightarrow> machine \<Rightarrow> u64" where
  "eth_10m_mmio_read addr sz m =
     (if addr + sz > 0x30 then 0
      else
        let mird = eth_10m_phy_read (unat (e10_regs (e10 m) ! E10M_OFF_MIREGADR AND 0x1f)) m;
            byte = (\<lambda>off. if off = E10M_OFF_MIRD then ucast mird
                         else if off = E10M_OFF_MIRD + 1 then ucast (drop_bit 8 mird)
                         else e10_regs (e10 m) ! off) :: nat \<Rightarrow> u8
        in fold (\<lambda>i val. val OR push_bit (8 * i) (ucast (byte (addr + i)))) [0..<sz] 0)"

definition e10_write_byte ::
    "(machine \<Rightarrow> machine) \<Rightarrow> pmem_read \<Rightarrow> u64 option \<Rightarrow> (machine \<Rightarrow> machine) \<Rightarrow> nat \<Rightarrow> u8 \<Rightarrow> machine \<Rightarrow> machine" where
  "e10_write_byte r pread rsz flush off byte m =
     (if off = E10M_OFF_EIR then e10_upd (e10_regs_update (arr_upd off (\<lambda>b. b AND NOT byte))) m
      else if off = E10M_OFF_EIE then e10_upd (e10_regs_update (\<lambda>g. g[off := byte])) m
      else if off = E10M_OFF_ECON1 then
        (let prev = e10_regs (e10 m) ! off;
             m1 = e10_upd (e10_regs_update (\<lambda>g. g[off := byte])) m;
             m2 = (if prev AND E10M_ECON1_TXRTS = 0 \<and> byte AND E10M_ECON1_TXRTS \<noteq> 0
                   then eth_10m_do_tx r pread rsz m1 else m1)
         in if prev AND E10M_ECON1_RXEN = 0 \<and> byte AND E10M_ECON1_RXEN \<noteq> 0 then flush m2 else m2)
      else if off = E10M_OFF_ESTAT then m
      else e10_upd (e10_regs_update (\<lambda>g. g[off := byte])) m)"

definition eth_10m_mmio_write ::
    "(machine \<Rightarrow> machine) \<Rightarrow> pmem_read \<Rightarrow> pmem_write \<Rightarrow> u64 option \<Rightarrow> (machine \<Rightarrow> machine) \<Rightarrow>
     nat \<Rightarrow> u32 \<Rightarrow> nat \<Rightarrow> machine \<Rightarrow> machine" where
  "eth_10m_mmio_write r pread pwrite rsz flush addr val sz m =
     (if addr + sz > 0x30 then m
      else
        let m1 = fold (\<lambda>i. e10_write_byte r pread rsz flush (addr + i) (ucast (drop_bit (8 * i) val)))
                   [0..<sz] m
        in if addr = E10M_OFF_MIREGADR \<and> sz = 4 then
             (let phy_addr = val AND 0x1f; is_write = bit val 8; phy_val = ucast (drop_bit 16 val) :: u16
              in if is_write then eth_10m_phy_write (unat phy_addr) phy_val m1
                 else e10_upd (e10_regs_update (\<lambda>g. g[E10M_OFF_MIREGADR := ucast phy_addr])) m1)
           else if addr = E10M_OFF_MIWR \<and> sz = 2 then
             eth_10m_phy_write (unat (e10_regs (e10 m1) ! E10M_OFF_MIREGADR AND 0x1f)) (ucast val) m1
           else
             let m2 =
               (if addr \<le> E10M_OFF_ERXST \<and> addr + sz > E10M_OFF_ERXST then
                  let rx_phys = eth_10m_dma_addr (ucast (lduw_regs E10M_OFF_ERXST (e10_regs (e10 m1))));
                      stash = e10_rx_stash (e10 m1)
                  in if stash \<noteq> [] \<and> eth_10m_span_in_sram rsz rx_phys (of_nat (length stash)) then
                       let m2a = pwrite rx_phys stash m1;
                           m2b = e10_upd (\<lambda>s. s\<lparr>e10_regs := stw_regs E10M_OFF_ERXLN
                                                   (of_nat (length stash)) (e10_regs s),
                                               e10_rx_stash := []\<rparr>) m2a
                       in eth_10m_raise_eir r E10M_EIR_RXIF m2b
                     else m1
                else m1)
             in eth_10m_update_irq r m2)"

definition eth_10m_reset :: "(machine \<Rightarrow> machine) \<Rightarrow> machine \<Rightarrow> machine" where
  "eth_10m_reset r m =
     (let deadline = clock_ns m + E10M_LINK_UP_DELAY_NS in
      ch32_eth_10m_meip_resync r
        (e10_upd (\<lambda>s. s\<lparr>e10_regs := replicate 0x30 0,
                       e10_phy_regs := (replicate 32 0)[0 := 0x3100],
                       e10_rx_stash := [], e10_irq_active := False, link_announced := False,
                       link_up_deadline_ns := deadline,
                       link_timer := timer_mod_ns (deadline + E10M_LINK_TIMER_SLACK_NS)
                                       (link_timer s)\<rparr>) m))"

section \<open>The resync contract\<close>

lemma view_e10_active [frame_simps]:
  "meip_view (e10_upd (e10_irq_active_update (\<lambda>_. b)) m) = meip_view m"
  by (simp add: meip_view_def option.map_comp o_def)

lemma e10_view_cong:
  assumes "meip_view m = meip_view m'"
  shows "(m_eth10m m = None) = (m_eth10m m' = None)"
    "m_eth10m m \<noteq> None \<Longrightarrow> e10_regs (e10 m) = e10_regs (e10 m')"
proof -
  have v: "map_option (e10_irq_active_update (\<lambda>_. False)) (m_eth10m m) =
      map_option (e10_irq_active_update (\<lambda>_. False)) (m_eth10m m')"
    using view_fields(13)[OF assms] .
  show "(m_eth10m m = None) = (m_eth10m m' = None)" using v by (metis option.map_disc_iff)
  assume "m_eth10m m \<noteq> None"
  then obtain s s' where ss: "m_eth10m m = Some s" "m_eth10m m' = Some s'"
    "e10_irq_active_update (\<lambda>_. False) s = e10_irq_active_update (\<lambda>_. False) s'"
    using v by (cases "m_eth10m m"; cases "m_eth10m m'") auto
  have "e10_regs s = e10_regs s'" using arg_cong[OF ss(3), of e10_regs] by simp
  then show "e10_regs (e10 m) = e10_regs (e10 m')" using ss(1,2) by simp
qed

lemma eth10m_irq_view: "meip_view m = meip_view m' \<Longrightarrow> eth10m_irq_on m = eth10m_irq_on m'"
  using e10_view_cong[of m m'] view_ienr_on[of m m' CH32_ETH_10M_IRQ_N]
  by (auto simp: eth10m_irq_on_def Let_def)

definition eth10m_keep :: "machine \<Rightarrow> bool" where
  "eth10m_keep m \<longleftrightarrow> m_eth10m m = None \<or> eth10m_irq_on m"

lemma eth10m_keep_view: "meip_view m = meip_view m' \<Longrightarrow> eth10m_keep m = eth10m_keep m'"
  using eth10m_irq_view[of m m'] e10_view_cong(1)[of m m'] by (simp add: eth10m_keep_def)

lemma eth10m_releases:
  assumes "owner m = of_nat CH32_ETH_10M_IRQ_N" "\<not> eth10m_keep m"
  shows "\<exists>m0 f. owner m0 = 0 \<and> meip_view m0 = meip_view m \<and> out_of_fuel m0 = out_of_fuel m \<and>
    (\<forall>r. ch32_eth_10m_meip_resync r m = f (r m0)) \<and>
    (\<forall>x. meip_view (f x) = meip_view x \<and> owner (f x) = owner x \<and> out_of_fuel (f x) = out_of_fuel x)"
  using assms
  by (intro exI[of _ "meip_disable (meip_release CH32_ETH_10M_IRQ_N m)"]
      exI[of _ "\<lambda>x. cpu_irq (e10_upd (e10_irq_active_update (\<lambda>_. False)) x)"])
    (auto simp: ch32_eth_10m_meip_resync_def eth10m_keep_def eth_10m_meip_withdraw_def frame_simps Let_def)

lemma e10_view_owner [simp]:
  "owner (e10_upd f m) = owner m" "out_of_fuel (e10_upd f m) = out_of_fuel m"
  "owner (eth_10m_meip_inject n m) = of_nat n"
  "out_of_fuel (eth_10m_meip_inject n m) = out_of_fuel m"
  by (simp_all add: eth_10m_meip_inject_def)

lemma view_e10_inject [frame_simps]: "meip_view (eth_10m_meip_inject n m) = meip_view m"
  by (simp add: eth_10m_meip_inject_def frame_simps)

interpretation eth10m: meip_unit "of_nat CH32_ETH_10M_IRQ_N" eth10m_irq_on eth10m_keep
  ch32_eth_10m_meip_resync
  by (unfold_locales; (erule eth10m_irq_view | erule eth10m_keep_view | (erule (1) eth10m_releases)
      | (simp add: CH32_ETH_10M_IRQ_N_def; fail)
      | auto simp: ch32_eth_10m_meip_resync_def eth10m_keep_def eth_10m_meip_withdraw_def
          frame_simps Let_def CH32_ETH_10M_IRQ_N_def eth10m_irq_on_def split: option.splits))

end
