(* ===== verification/Ch32_Eth.thy ===== *)
theory Ch32_Eth
  imports Ch32_Meip
begin

text \<open>
  The interrupt side of the Ethernet MAC of the CH32V30x and CH32V31x (\<open>ch32-eth-dwmac.c\<close>): the
  DMA status and enable registers, raising of status bits, and the resync with the PFIC.
\<close>

definition CH32_ETH_DMASR_W :: nat where "CH32_ETH_DMASR_W = 0x1014 div 4"
definition CH32_ETH_DMAIER_W :: nat where "CH32_ETH_DMAIER_W = 0x101c div 4"
definition CH32_ETH_DMA_IT_NIS :: u32 where "CH32_ETH_DMA_IT_NIS = 0x10000"
definition CH32_ETH_DMA_IT_AIS :: u32 where "CH32_ETH_DMA_IT_AIS = 0x8000"

abbreviation eth_upd :: "(eth_state \<Rightarrow> eth_state) \<Rightarrow> machine \<Rightarrow> machine" where
  "eth_upd f \<equiv> m_eth_update (map_option f)"

abbreviation eth :: "machine \<Rightarrow> eth_state" where
  "eth m \<equiv> the (m_eth m)"

definition eth_irq_on :: "machine \<Rightarrow> bool" where
  "eth_irq_on m \<longleftrightarrow> m_eth m \<noteq> None \<and> ienr_on CH32_ETH_IRQ_N m \<and>
     mmio_w (eth m) ! CH32_ETH_DMAIER_W AND mmio_w (eth m) ! CH32_ETH_DMASR_W \<noteq> 0"

definition ch32_eth_meip_resync :: "(machine \<Rightarrow> machine) \<Rightarrow> machine \<Rightarrow> machine" where
  "ch32_eth_meip_resync r m =
     (let n = CH32_ETH_IRQ_N in
      case m_eth m of None \<Rightarrow> m
      | Some s \<Rightarrow>
          if \<not> eth_irq_on m then
            cpu_irq (eth_upd (eth_irq_active_update (\<lambda>_. False))
              (if owner m = of_nat n then r (meip_disable (meip_release n m)) else m))
          else if eth_irq_active s then m
          else if owner m \<noteq> 0 \<and> owner m \<noteq> of_nat n then m
          else cpu_irq (meip_claim n (eth_upd (eth_irq_active_update (\<lambda>_. True)) m)))"

definition ch32_eth_update_irq :: "(machine \<Rightarrow> machine) \<Rightarrow> machine \<Rightarrow> machine" where
  "ch32_eth_update_irq r m = ch32_eth_meip_resync r m"

definition ch32_eth_dmasr_raise :: "(machine \<Rightarrow> machine) \<Rightarrow> u32 \<Rightarrow> machine \<Rightarrow> machine" where
  "ch32_eth_dmasr_raise r bits m =
     ch32_eth_update_irq r
       (eth_upd (mmio_w_update (arr_upd CH32_ETH_DMASR_W
          (\<lambda>w. w OR (bits AND NOT (CH32_ETH_DMA_IT_NIS OR CH32_ETH_DMA_IT_AIS))))) m)"

section \<open>The resync contract\<close>

lemma view_eth_active [frame_simps]:
  "meip_view (eth_upd (eth_irq_active_update (\<lambda>_. b)) m) = meip_view m"
  by (simp add: meip_view_def option.map_comp o_def)

lemma eth_upd_owner [simp]: "owner (eth_upd f m) = owner m" "out_of_fuel (eth_upd f m) = out_of_fuel m"
  by simp_all

lemma eth_view_cong:
  assumes "meip_view m = meip_view m'"
  shows "(m_eth m = None) = (m_eth m' = None)"
    "m_eth m \<noteq> None \<Longrightarrow> mmio_w (eth m) = mmio_w (eth m')"
proof -
  have v: "map_option (eth_irq_active_update (\<lambda>_. False)) (m_eth m) =
      map_option (eth_irq_active_update (\<lambda>_. False)) (m_eth m')"
    using view_fields(14)[OF assms] .
  show "(m_eth m = None) = (m_eth m' = None)" using v by (metis option.map_disc_iff)
  assume "m_eth m \<noteq> None"
  then obtain s s' where ss: "m_eth m = Some s" "m_eth m' = Some s'"
    "eth_irq_active_update (\<lambda>_. False) s = eth_irq_active_update (\<lambda>_. False) s'"
    using v by (cases "m_eth m"; cases "m_eth m'") auto
  have "mmio_w s = mmio_w s'" using arg_cong[OF ss(3), of mmio_w] by simp
  then show "mmio_w (eth m) = mmio_w (eth m')" using ss(1,2) by simp
qed

lemma eth_irq_view: "meip_view m = meip_view m' \<Longrightarrow> eth_irq_on m = eth_irq_on m'"
  using eth_view_cong[of m m'] view_ienr_on[of m m' CH32_ETH_IRQ_N]
  by (auto simp: eth_irq_on_def)

definition eth_keep :: "machine \<Rightarrow> bool" where
  "eth_keep m \<longleftrightarrow> m_eth m = None \<or> eth_irq_on m"

lemma eth_keep_view: "meip_view m = meip_view m' \<Longrightarrow> eth_keep m = eth_keep m'"
  using eth_irq_view[of m m'] eth_view_cong(1)[of m m'] by (simp add: eth_keep_def)

lemma eth_releases:
  assumes "owner m = of_nat CH32_ETH_IRQ_N" "\<not> eth_keep m"
  shows "\<exists>m0 f. owner m0 = 0 \<and> meip_view m0 = meip_view m \<and> out_of_fuel m0 = out_of_fuel m \<and>
    (\<forall>r. ch32_eth_meip_resync r m = f (r m0)) \<and>
    (\<forall>x. meip_view (f x) = meip_view x \<and> owner (f x) = owner x \<and> out_of_fuel (f x) = out_of_fuel x)"
  using assms
  by (intro exI[of _ "meip_disable (meip_release CH32_ETH_IRQ_N m)"]
      exI[of _ "\<lambda>x. cpu_irq (eth_upd (eth_irq_active_update (\<lambda>_. False)) x)"])
    (auto simp: ch32_eth_meip_resync_def eth_keep_def frame_simps Let_def)

interpretation eth: meip_unit "of_nat CH32_ETH_IRQ_N" eth_irq_on eth_keep ch32_eth_meip_resync
  by (unfold_locales; (erule eth_irq_view | erule eth_keep_view | (erule (1) eth_releases)
      | (simp add: CH32_ETH_IRQ_N_def; fail)
      | auto simp: ch32_eth_meip_resync_def eth_keep_def frame_simps Let_def CH32_ETH_IRQ_N_def
          eth_irq_on_def split: option.splits))

end
