(* ===== verification/Ch32_UsbIrq.thy ===== *)
theory Ch32_UsbIrq
  imports Ch32_Meip
begin

text \<open>
  The interrupt side of the two USB host controllers (\<open>ch32-usb-hs-host.c\<close>,
  \<open>ch32-usb-fs-host.c\<close>): the resync of USBHS (interrupt 85) and USBFS (83).
\<close>

definition CH32_USBHS_NVIC_IRQ :: nat where "CH32_USBHS_NVIC_IRQ = 85"
definition CH32_USBFS_NVIC_IRQ :: nat where "CH32_USBFS_NVIC_IRQ = 83"

definition usbhs_line_on :: "machine \<Rightarrow> bool" where
  "usbhs_line_on m \<longleftrightarrow> bit (usbhs_reg m ! 0) 7 \<and> ienr_on CH32_USBHS_NVIC_IRQ m"

definition usbhs_need_mip :: "machine \<Rightarrow> bool" where
  "usbhs_need_mip m \<longleftrightarrow> (usbhs_reg m ! 0x0A AND usbhs_reg m ! 0x02) AND 3 \<noteq> 0"

definition usbfs_line_on :: "machine \<Rightarrow> bool" where
  "usbfs_line_on m \<longleftrightarrow> bit (usbfs_reg m ! 0) 7 \<and> ienr_on CH32_USBFS_NVIC_IRQ m"

definition usbfs_need_mip :: "machine \<Rightarrow> bool" where
  "usbfs_need_mip m \<longleftrightarrow> (usbfs_reg m ! 0x06 AND usbfs_reg m ! 0x02) AND 3 \<noteq> 0"

text \<open>\<open>env->mie |= MIP_MEIP\<close> without taking the slot.\<close>

definition meip_enable :: "machine \<Rightarrow> machine" where
  "meip_enable m = env_upd (\<lambda>e. e\<lparr>mie := mie e OR MIP_MEIP\<rparr>) m"

definition meip_take :: "nat \<Rightarrow> machine \<Rightarrow> machine" where
  "meip_take n m =
     env_upd (riscv_cpu_update_mip MIP_MEIP MIP_MEIP)
       (ch32_pfic_irq_active_set n (env_upd (\<lambda>e. e\<lparr>wch_evt_mcause_override := of_nat n\<rparr>) m))"

definition usb_meip_resync ::
    "nat \<Rightarrow> (machine \<Rightarrow> bool) \<Rightarrow> (machine \<Rightarrow> bool) \<Rightarrow> (machine \<Rightarrow> machine) \<Rightarrow> machine \<Rightarrow> machine" where
  "usb_meip_resync n line_on need_mip r m =
     (if \<not> line_on m then
        (let m1 = meip_disable m in cpu_irq (if owner m1 = of_nat n then meip_release n m1 else m1))
      else
        let m1 = meip_enable m in
        if need_mip m1 then
          if owner m1 \<noteq> 0 \<and> owner m1 \<noteq> of_nat n then m1 else cpu_irq (meip_take n m1)
        else if owner m1 = of_nat n then cpu_irq (r (meip_release n m1))
        else cpu_irq m1)"

definition ch32_usbhost_meip_resync :: "(machine \<Rightarrow> machine) \<Rightarrow> machine \<Rightarrow> machine" where
  "ch32_usbhost_meip_resync r m =
     (if \<not> usb_host_inited m then m
      else usb_meip_resync CH32_USBHS_NVIC_IRQ usbhs_line_on usbhs_need_mip r m)"

definition ch32_usbfs_host_meip_resync :: "(machine \<Rightarrow> machine) \<Rightarrow> machine \<Rightarrow> machine" where
  "ch32_usbfs_host_meip_resync r m =
     (if \<not> usbfs_host_inited m then m
      else usb_meip_resync CH32_USBFS_NVIC_IRQ usbfs_line_on usbfs_need_mip r m)"

section \<open>The resync contract\<close>

lemma view_meip_enable [frame_simps]:
  "meip_view (meip_enable m) = meip_view m" "meip_view (meip_take n m) = meip_view m"
  by (simp_all add: meip_enable_def meip_take_def frame_simps)

lemma meip_enable_owner [simp]:
  "owner (meip_enable m) = owner m" "out_of_fuel (meip_enable m) = out_of_fuel m"
  "owner (meip_take n m) = of_nat n" "out_of_fuel (meip_take n m) = out_of_fuel m"
  by (simp_all add: meip_enable_def meip_take_def)

definition usb_on :: "(machine \<Rightarrow> bool) \<Rightarrow> (machine \<Rightarrow> bool) \<Rightarrow> (machine \<Rightarrow> bool) \<Rightarrow> machine \<Rightarrow> bool" where
  "usb_on inited line_on need_mip m \<longleftrightarrow> inited m \<and> line_on m \<and> need_mip m"

definition usb_keep :: "(machine \<Rightarrow> bool) \<Rightarrow> (machine \<Rightarrow> bool) \<Rightarrow> (machine \<Rightarrow> bool) \<Rightarrow> machine \<Rightarrow> bool" where
  "usb_keep inited line_on need_mip m \<longleftrightarrow> \<not> inited m \<or> \<not> line_on m \<or> need_mip m"

text \<open>Both controllers are the same function of three predicates that only see the view.\<close>

lemma usb_prompt_unit:
  assumes n: "(of_nat n :: u32) \<noteq> 0"
    and v: "\<And>m m'. meip_view m = meip_view m' \<Longrightarrow> inited m = inited m'"
      "\<And>m m'. meip_view m = meip_view m' \<Longrightarrow> line_on m = line_on m'"
      "\<And>m m'. meip_view m = meip_view m' \<Longrightarrow> need m = need m'"
    and D: "\<And>r m. D r m = (if \<not> inited m then m else usb_meip_resync n line_on need r m)"
  shows "prompt_unit (of_nat n) (usb_on inited line_on need) (usb_keep inited line_on need) D"
proof -
  have en: "need (meip_enable m) = need m" for m by (rule v(3)) (simp add: frame_simps)
  have on: "usb_on inited line_on need m = usb_on inited line_on need m'"
    and keep: "usb_keep inited line_on need m = usb_keep inited line_on need m'"
    if "meip_view m = meip_view m'" for m m'
    using v(1)[OF that] v(2)[OF that] v(3)[OF that] by (simp_all add: usb_on_def usb_keep_def)
  have rel: "\<exists>m0 f. owner m0 = 0 \<and> meip_view m0 = meip_view m \<and> out_of_fuel m0 = out_of_fuel m \<and>
      (\<forall>r. D r m = f (r m0)) \<and>
      (\<forall>x. meip_view (f x) = meip_view x \<and> owner (f x) = owner x \<and> out_of_fuel (f x) = out_of_fuel x)"
    if "owner m = of_nat n" "\<not> usb_keep inited line_on need m" for m
    using that
    by (intro exI[of _ "meip_release n (meip_enable m)"] exI[of _ cpu_irq])
      (simp add: D usb_meip_resync_def usb_keep_def frame_simps Let_def en)
  show ?thesis
    by (unfold_locales; (erule on | erule keep | (erule (1) rel)
        | auto simp: D usb_meip_resync_def usb_on_def usb_keep_def frame_simps Let_def en n))
qed

abbreviation "usbhs_on \<equiv> usb_on usb_host_inited usbhs_line_on usbhs_need_mip"
abbreviation "usbhs_keep \<equiv> usb_keep usb_host_inited usbhs_line_on usbhs_need_mip"
abbreviation "usbfs_on \<equiv> usb_on usbfs_host_inited usbfs_line_on usbfs_need_mip"
abbreviation "usbfs_keep \<equiv> usb_keep usbfs_host_inited usbfs_line_on usbfs_need_mip"

lemma usb_line_view:
  assumes "meip_view m = meip_view m'"
  shows "usbhs_line_on m = usbhs_line_on m'" "usbfs_line_on m = usbfs_line_on m'"
    "usbhs_need_mip m = usbhs_need_mip m'" "usbfs_need_mip m = usbfs_need_mip m'"
    "usb_host_inited m = usb_host_inited m'" "usbfs_host_inited m = usbfs_host_inited m'"
  using view_fields(6-9)[OF assms] view_ienr_on[OF assms]
  by (simp_all add: usbhs_line_on_def usbfs_line_on_def usbhs_need_mip_def usbfs_need_mip_def)

interpretation usbhs: prompt_unit "of_nat CH32_USBHS_NVIC_IRQ" usbhs_on usbhs_keep
  ch32_usbhost_meip_resync
  by (rule usb_prompt_unit)
    (auto simp: CH32_USBHS_NVIC_IRQ_def ch32_usbhost_meip_resync_def dest: usb_line_view)

interpretation usbfs: prompt_unit "of_nat CH32_USBFS_NVIC_IRQ" usbfs_on usbfs_keep
  ch32_usbfs_host_meip_resync
  by (rule usb_prompt_unit)
    (auto simp: CH32_USBFS_NVIC_IRQ_def ch32_usbfs_host_meip_resync_def dest: usb_line_view)

end
