(* ===== verification/Ch32_Dma.thy ===== *)
theory Ch32_Dma
  imports Ch32_Meip
begin

text \<open>
  The two DMA controllers (\<open>ch32-dma.c\<close>): the transfer a channel runs at once when its enable bit
  is written, completion and error flags, interrupts with the software-pending fallback, and the
  MMIO handlers. Channel \<open>k\<close> of the code is index \<open>k - 1\<close>.
\<close>

definition dma1_ch_irq :: "nat list" where
  "dma1_ch_irq = [27, 28, 29, 30, 31, 32, 33]"

definition dma2_ch_irq :: "nat list" where
  "dma2_ch_irq = [72, 73, 74, 75, 76, 98, 99, 100, 101, 102, 103]"

abbreviation "DMA_EN \<equiv> (0::nat)"
abbreviation "DMA_TCIE \<equiv> (1::nat)"
abbreviation "DMA_TEIE \<equiv> (3::nat)"
abbreviation "DMA_DIR \<equiv> (4::nat)"
abbreviation "DMA_PINC \<equiv> (6::nat)"
abbreviation "DMA_MINC \<equiv> (7::nat)"

definition DMA_INTFR_GIF_BIT :: "nat \<Rightarrow> nat" where "DMA_INTFR_GIF_BIT ch = (ch - 1) * 4"
definition DMA_INTFR_TCIF_BIT :: "nat \<Rightarrow> nat" where "DMA_INTFR_TCIF_BIT ch = (ch - 1) * 4 + 1"
definition DMA_INTFR_TEIF_BIT :: "nat \<Rightarrow> nat" where "DMA_INTFR_TEIF_BIT ch = (ch - 1) * 4 + 3"

lemmas dma_bit_defs = DMA_INTFR_GIF_BIT_def DMA_INTFR_TCIF_BIT_def DMA_INTFR_TEIF_BIT_def

abbreviation intfr_upd :: "nat \<Rightarrow> (u32 \<Rightarrow> u32) \<Rightarrow> machine \<Rightarrow> machine" where
  "intfr_upd i f \<equiv> m_dma_update (dma_intfr_update (arr_upd i f))"

section \<open>Interrupts\<close>

definition ch32_dma_fire_irq :: "nat \<Rightarrow> machine \<Rightarrow> machine" where
  "ch32_dma_fire_irq irq_n m =
     (if \<not> ienr_on irq_n m then m
      else if owner m \<noteq> 0 then
        m_pfic_update (pfic_ipr_update (arr_upd (irq_n div 32) (\<lambda>w. w OR one_bit (irq_n mod 32)))) m
      else
        cpu_irq (env_upd (riscv_cpu_update_mip MIP_MEIP MIP_MEIP)
          (env_upd (\<lambda>e. e\<lparr>mie := mie e OR MIP_MEIP, wch_evt_mcause_override := of_nat irq_n\<rparr>) m)))"

text \<open>A channel: where it lives, its controller's flag register, its local number, its interrupt.\<close>

type_synonym dma_chan = "dma_ref \<times> nat \<times> nat \<times> nat"

definition dma_chans :: "dma_chan list" where
  "dma_chans =
     map (\<lambda>i. (Dma1 i, 0, i + 1, dma1_ch_irq ! i)) [0..<7] @
     map (\<lambda>i. (Dma2 i, 1, i + 1, dma2_ch_irq ! i)) [0..<7] @
     map (\<lambda>i. (Dma2 i, 2, i - 6, dma2_ch_irq ! i)) [7..<11]"

fun dma_chan_on :: "dma_chan \<Rightarrow> machine \<Rightarrow> bool" where
  "dma_chan_on (ref, k, ch_local, irq_n) m \<longleftrightarrow>
     bit (dma_cfgr (dma_get ref m)) DMA_TCIE \<and> bit (dma_intfr (m_dma m) ! k) (DMA_INTFR_TCIF_BIT ch_local)"

definition dma_chan_resync :: "dma_chan \<Rightarrow> (machine \<Rightarrow> machine) \<Rightarrow> machine \<Rightarrow> machine" where
  "dma_chan_resync c r m = (if dma_chan_on c m then ch32_dma_fire_irq (snd (snd (snd c))) m else m)"

definition ch32_dma_meip_resync :: "(machine \<Rightarrow> machine) \<Rightarrow> machine \<Rightarrow> machine" where
  "ch32_dma_meip_resync r m = fold (\<lambda>c. dma_chan_resync c r) dma_chans m"

section \<open>Transfers\<close>

definition dma_unit_size :: "u32 \<Rightarrow> nat" where
  "dma_unit_size size_field =
     (if size_field AND 3 = 1 then 2 else if size_field AND 3 = 2 then 4 else 1)"

text \<open>Between buffers of one, two and four bytes the C assignments extend with zeros or truncate.\<close>

definition dma_convert :: "nat \<Rightarrow> u8 list \<Rightarrow> u8 list" where
  "dma_convert sz bs = take sz (bs @ replicate 4 0)"

text \<open>
  The copy loop: \<open>n\<close> units left, source and destination. The flag tells whether it ran to the end
  (otherwise \<open>goto teif\<close>).
\<close>

fun dma_copy ::
    "as_read \<Rightarrow> as_write \<Rightarrow> bool \<Rightarrow> bool \<Rightarrow> nat \<Rightarrow> nat \<Rightarrow> nat \<Rightarrow> u32 \<Rightarrow> u32 \<Rightarrow> machine \<Rightarrow> bool \<times> machine" where
  "dma_copy asr asw sinc dinc ssz dsz 0 src dst m = (True, m)"
| "dma_copy asr asw sinc dinc ssz dsz (Suc n) src dst m =
     (case asr src ssz m of
        (None, m1) \<Rightarrow> (False, m1)
      | (Some bs, m1) \<Rightarrow>
          (case asw dst (dma_convert dsz bs) m1 of
             (False, m2) \<Rightarrow> (False, m2)
           | (True, m2) \<Rightarrow>
               dma_copy asr asw sinc dinc ssz dsz n
                 (if sinc then src + of_nat ssz else src)
                 (if dinc then dst + of_nat dsz else dst) m2))"

definition ch32_dma_exec :: "as_read \<Rightarrow> as_write \<Rightarrow> dma_chan \<Rightarrow> machine \<Rightarrow> machine" where
  "ch32_dma_exec asr asw c m =
     (let (ref, k, ch_local, irq_n) = c; ch = dma_get ref m;
          cfgr = dma_cfgr ch; cnt = unat (dma_cntr ch AND 0xFFFF);
          paddr = dma_paddr ch; maddr = dma_maddr ch;
          dir = bit cfgr DMA_DIR; pinc = bit cfgr DMA_PINC; minc = bit cfgr DMA_MINC;
          psize = dma_unit_size (drop_bit 8 cfgr AND 3); msize = dma_unit_size (drop_bit 10 cfgr AND 3);
          (ok, m1) = (if \<not> dir then dma_copy asr asw pinc minc psize msize cnt paddr maddr m
                      else dma_copy asr asw minc pinc msize psize cnt maddr paddr m);
          stop = dma_upd ref (\<lambda>c. c\<lparr>dma_cntr := 0, dma_cfgr := dma_cfgr c AND NOT (one_bit DMA_EN)\<rparr>) m1
      in if ok then
           let m2 = intfr_upd k (\<lambda>w. w OR (one_bit (DMA_INTFR_GIF_BIT ch_local) OR
                                         one_bit (DMA_INTFR_TCIF_BIT ch_local))) stop
           in if bit cfgr DMA_TCIE \<and> irq_n \<noteq> 0 then ch32_dma_fire_irq irq_n m2 else m2
         else
           let m2 = intfr_upd k (\<lambda>w. w OR (one_bit (DMA_INTFR_GIF_BIT ch_local) OR
                                         one_bit (DMA_INTFR_TEIF_BIT ch_local))) stop
           in if bit cfgr DMA_TEIE \<and> irq_n \<noteq> 0 then ch32_dma_fire_irq irq_n m2 else m2)"

section \<open>MMIO handlers\<close>

text \<open>The channel register an address selects, in the order the handlers test the ranges.\<close>

definition dma_decode :: "u32 \<Rightarrow> (dma_chan \<times> nat) option" where
  "dma_decode addr =
     (let a = unat addr in
      if a \<ge> 0x008 \<and> a < 0x008 + 7 * 0x14 then
        (let idx = (a - 0x008) div 0x14
         in Some ((Dma1 idx, 0, idx + 1, dma1_ch_irq ! idx), (a - 0x008) mod 0x14))
      else if a \<ge> 0x408 \<and> a < 0x408 + 7 * 0x14 then
        (let idx = (a - 0x408) div 0x14
         in Some ((Dma2 idx, 1, idx + 1, dma2_ch_irq ! idx), (a - 0x408) mod 0x14))
      else if a \<ge> 0x490 \<and> a < 0x490 + 4 * 0x10 then
        (let ch_n = (a - 0x490) div 0x10; idx = ch_n + 7
         in Some ((Dma2 idx, 2, ch_n + 1, dma2_ch_irq ! idx), (a - 0x490) mod 0x10))
      else None)"

definition ch32_dma_read :: "u32 \<Rightarrow> machine \<Rightarrow> u32" where
  "ch32_dma_read addr m =
     (if addr = 0x000 then dma_intfr (m_dma m) ! 0
      else if addr = 0x004 then 0
      else if addr = 0x400 then dma_intfr (m_dma m) ! 1
      else if addr = 0x404 then 0
      else case dma_decode addr of
        Some ((ref, _, _, _), roff) \<Rightarrow>
          let ch = dma_get ref m in
          if roff = 0 then dma_cfgr ch else if roff = 4 then dma_cntr ch
          else if roff = 8 then dma_paddr ch else if roff = 12 then dma_maddr ch else 0
      | None \<Rightarrow>
          if addr = 0x4D0 then dma_intfr (m_dma m) ! 2 else 0)"

text \<open>The local channel of controller \<open>k\<close> that the routing slot names.\<close>

definition dma_slot_channel :: "nat \<Rightarrow> nat \<Rightarrow> nat option" where
  "dma_slot_channel k ov =
     (if k = 0 then (if ov \<ge> 27 \<and> ov \<le> 33 then Some (ov - 26) else None)
      else if k = 1 then
        (if (ov \<ge> 72 \<and> ov \<le> 76) \<or> ov = 98 \<or> ov = 99
         then Some (if ov \<ge> 72 \<and> ov \<le> 76 then ov - 71 else ov - 92) else None)
      else (if ov \<ge> 100 \<and> ov \<le> 103 then Some (ov - 99) else None))"

definition dma_intfcr_write :: "nat \<Rightarrow> u32 \<Rightarrow> machine \<Rightarrow> machine" where
  "dma_intfcr_write k v m =
     (let m1 = intfr_upd k (\<lambda>w. w AND NOT v) m in
      case dma_slot_channel k (unat (owner m1)) of
        None \<Rightarrow> m1
      | Some ch_local \<Rightarrow>
          if \<not> bit (dma_intfr (m_dma m1) ! k) (DMA_INTFR_TCIF_BIT ch_local) then
            cpu_irq (env_upd (\<lambda>e. e\<lparr>wch_evt_mcause_override := 0\<rparr>) (meip_lower m1))
          else m1)"

definition ch32_dma_write :: "as_read \<Rightarrow> as_write \<Rightarrow> u32 \<Rightarrow> u32 \<Rightarrow> machine \<Rightarrow> machine" where
  "ch32_dma_write asr asw addr v m =
     (if addr = 0x000 then m
      else if addr = 0x004 then dma_intfcr_write 0 v m
      else if addr = 0x400 then m
      else if addr = 0x404 then dma_intfcr_write 1 v m
      else case dma_decode addr of
        Some ((ref, k, ch_local, irq_n), roff) \<Rightarrow>
          if roff = 0 then
            (let m1 = dma_upd ref (dma_cfgr_update (\<lambda>_. v)) m
             in if bit v DMA_EN then ch32_dma_exec asr asw (ref, k, ch_local, irq_n) m1 else m1)
          else if roff = 4 then dma_upd ref (dma_cntr_update (\<lambda>_. v AND 0xFFFF)) m
          else if roff = 8 then dma_upd ref (dma_paddr_update (\<lambda>_. v)) m
          else if roff = 12 then dma_upd ref (dma_maddr_update (\<lambda>_. v)) m
          else m
      | None \<Rightarrow>
          if addr = 0x4D0 then m
          else if addr = 0x4D4 then dma_intfcr_write 2 v m
          else m)"

definition dma_channel_zero :: dma_channel where
  "dma_channel_zero = \<lparr>dma_cfgr = 0, dma_cntr = 0, dma_paddr = 0, dma_maddr = 0\<rparr>"

definition ch32_dma_reset :: "machine \<Rightarrow> machine" where
  "ch32_dma_reset m =
     m\<lparr>m_dma := \<lparr>dma_intfr = replicate 3 0, dma_ch1 = replicate 7 dma_channel_zero,
                dma_ch2 = replicate 11 dma_channel_zero\<rparr>\<rparr>"

section \<open>The resync contract of each channel\<close>

definition dma_irq_on :: "dma_chan \<Rightarrow> machine \<Rightarrow> bool" where
  "dma_irq_on c m \<longleftrightarrow> ienr_on (snd (snd (snd c))) m \<and> dma_chan_on c m"

lemma dma_get_view: "meip_view m = meip_view m' \<Longrightarrow> dma_get ref m = dma_get ref m'"
  using view_fields(5)[of m m'] by (cases ref) simp_all

lemma dma_irq_view: "meip_view m = meip_view m' \<Longrightarrow> dma_irq_on c m = dma_irq_on c m'"
  using view_fields(5)[of m m'] dma_get_view[of m m'] view_ienr_on[of m m']
  by (cases c) (simp add: dma_irq_on_def)

lemma fire_irq_facts:
  "meip_view (ch32_dma_fire_irq n m) = meip_view m"
  "out_of_fuel (ch32_dma_fire_irq n m) = out_of_fuel m"
  "owner (ch32_dma_fire_irq n m) = (if ienr_on n m \<and> owner m = 0 then of_nat n else owner m)"
  by (auto simp: ch32_dma_fire_irq_def frame_simps view_env update_mip_view)
    (simp add: meip_view_def)

lemma dma_prompt_unit:
  assumes "(of_nat (snd (snd (snd c))) :: u32) \<noteq> 0"
  shows "prompt_unit (of_nat (snd (snd (snd c)))) (dma_irq_on c) (\<lambda>_. True) (dma_chan_resync c)"
  by (unfold_locales; (erule dma_irq_view
      | auto simp: dma_chan_resync_def dma_irq_on_def fire_irq_facts assms))

interpretation dma1_ch4: prompt_unit "of_nat 30" "dma_irq_on (Dma1 3, 0, 4, 30)" "\<lambda>_. True"
  "dma_chan_resync (Dma1 3, 0, 4, 30)"
  using dma_prompt_unit[of "(Dma1 3, 0, 4, 30)"] by simp
interpretation dma1_ch5: prompt_unit "of_nat 31" "dma_irq_on (Dma1 4, 0, 5, 31)" "\<lambda>_. True"
  "dma_chan_resync (Dma1 4, 0, 5, 31)"
  using dma_prompt_unit[of "(Dma1 4, 0, 5, 31)"] by simp

end
