(* ===== verification/Ch32_Stk.thy ===== *)
theory Ch32_Stk
  imports Ch32_Rcc
begin

text \<open>
  SysTick and the software interrupt of \<open>ch32-stk-pfic.c\<close>: the lazily computed 64-bit counter, the
  schedule of the next compare match, the tick, the MMIO handlers, the reaction to a clock change
  and the common reset of SysTick and PFIC.
\<close>

section \<open>Software interrupt 14\<close>

definition sw_irq_enabled :: "machine \<Rightarrow> bool" where
  "sw_irq_enabled m \<longleftrightarrow> bit (pfic_ienr (m_pfic m) ! 0) CH32_PFIC_SW_IRQ_BIT"

definition ch32_pfic_sw_irq_miesync :: "machine \<Rightarrow> machine" where
  "ch32_pfic_sw_irq_miesync m =
     cpu_irq
       (if sw_irq_enabled m then env_upd (\<lambda>e. e\<lparr>mie := mie e OR MIP_MSIP\<rparr>) m
        else env_upd (riscv_cpu_update_mip MIP_MSIP 0)
               (env_upd (\<lambda>e. e\<lparr>mie := mie e AND NOT MIP_MSIP\<rparr>) m))"

definition ch32_pfic_sw_irq_set_pending :: "machine \<Rightarrow> machine" where
  "ch32_pfic_sw_irq_set_pending m =
     (if \<not> sw_irq_enabled m then m
      else cpu_irq (env_upd (riscv_cpu_update_mip MIP_MSIP MIP_MSIP) m))"

section \<open>Counter\<close>

definition ch32_stk_hz :: "machine \<Rightarrow> u32" where
  "ch32_stk_hz m =
     (let hclk = ch32_rcc_get_hclk_hz m
      in if bit (stk_ctlr (m_stk m)) 2 then hclk else hclk div 8)"

definition ch32_stk_now_cnt :: "machine \<Rightarrow> u64" where
  "ch32_stk_now_cnt m =
     (let hz = ch32_stk_hz m in
      if hz = 0 then stk_cnt_at_epoch m
      else let ns = clock_ns m in
        if ns < stk_epoch_ns m then stk_cnt_at_epoch m
        else stk_cnt_at_epoch m + muldiv64 m (ns - stk_epoch_ns m) hz 1000000000)"

definition ch32_pfic_systick_enabled :: "machine \<Rightarrow> bool" where
  "ch32_pfic_systick_enabled m \<longleftrightarrow> bit (pfic_ienr (m_pfic m) ! 0) CH32_SYSTICK_NVIC_BIT"

definition ch32_stk_set_cnt :: "u64 \<Rightarrow> machine \<Rightarrow> machine" where
  "ch32_stk_set_cnt cnt m = m\<lparr>stk_epoch_ns := clock_ns m, stk_cnt_at_epoch := cnt\<rparr>"

definition ch32_stk_mtie_ensure :: "machine \<Rightarrow> machine" where
  "ch32_stk_mtie_ensure m = cpu_irq (env_upd (\<lambda>e. e\<lparr>mie := mie e OR MIP_MTIP\<rparr>) m)"

definition ch32_stk_clear_mtip :: "machine \<Rightarrow> machine" where
  "ch32_stk_clear_mtip m = env_upd (riscv_cpu_update_mip MIP_MTIP 0) m"

definition stk_cmp :: "stk_state \<Rightarrow> u64" where
  "stk_cmp s = push_bit 32 (ucast (stk_cmph s)) OR ucast (stk_cmpl s)"

definition stk_run :: "machine \<Rightarrow> bool" where
  "stk_run m \<longleftrightarrow> bit (stk_ctlr (m_stk m)) 0 \<and> stk_cmp (m_stk m) \<noteq> 0 \<and> ch32_stk_hz m \<noteq> 0"

definition stk_ticks_to_match :: "u64 \<Rightarrow> u64 \<Rightarrow> u64" where
  "stk_ticks_to_match c cmp = (let md = c mod cmp in if md = 0 then cmp else cmp - md)"

definition ch32_stk_schedule :: "machine \<Rightarrow> machine" where
  "ch32_stk_schedule m =
     (let hz = ch32_stk_hz m; cmp = stk_cmp (m_stk m) in
      if stk_timer m = Timer_null then m
      else if \<not> stk_run m then ch32_stk_clear_mtip (stk_timer_update timer_del m)
      else let now = clock_ns m;
               c = stk_cnt_at_epoch m + muldiv64 m (now - stk_epoch_ns m) hz 1000000000;
               ticks = stk_ticks_to_match c cmp;
               delay_ns = muldiv64 m ticks 1000000000 hz
           in stk_timer_update (timer_mod_ns (now + delay_ns)) m)"

definition ch32_stk_tick :: "machine \<Rightarrow> machine" where
  "ch32_stk_tick m =
     (let count_en = stk_run m;
          irq_en = count_en \<and> bit (stk_ctlr (m_stk m)) 1 \<and> ch32_pfic_systick_enabled m
      in if \<not> count_en then ch32_stk_schedule m
         else
           let m1 = m_stk_update (stk_sr_update (\<lambda>s. s OR 1)) m;
               m2 = (if irq_en then env_upd (riscv_cpu_update_mip MIP_MTIP MIP_MTIP)
                                      (ch32_stk_mtie_ensure m1)
                     else m1)
           in ch32_stk_schedule m2)"

section \<open>MMIO handlers\<close>

definition ch32_stk_read :: "u32 \<Rightarrow> nat \<Rightarrow> machine \<Rightarrow> u32" where
  "ch32_stk_read addr sz m =
     (let s = m_stk m; ticks = ch32_stk_now_cnt m;
          v = (if addr = 0x00 then Some (stk_ctlr s)
               else if addr = 0x04 then Some (stk_sr s)
               else if addr = 0x08 then Some (ucast ticks)
               else if addr = 0x0c then Some (ucast (drop_bit 32 ticks))
               else if addr = 0x10 then Some (stk_cmpl s)
               else if addr = 0x14 then Some (stk_cmph s)
               else None)
      in case v of None \<Rightarrow> 0
         | Some w \<Rightarrow> if sz = 1 then w AND 0xff else if sz = 2 then w AND 0xffff
                    else if sz = 4 then w else 0)"

definition ch32_stk_write :: "u32 \<Rightarrow> u32 \<Rightarrow> nat \<Rightarrow> machine \<Rightarrow> machine" where
  "ch32_stk_write addr v sz m =
     (if sz \<noteq> 4 then m
      else if addr = 0x00 then
        (let m1 = (if bit v 31 then ch32_pfic_sw_irq_set_pending m else m);
             m2 = m_stk_update (stk_ctlr_update (\<lambda>_. v AND NOT (one_bit 31))) m1;
             m3 = (if bit v 5 then
                     m_stk_update (stk_ctlr_update (\<lambda>c. c AND NOT (one_bit 5))) (ch32_stk_set_cnt 0 m2)
                   else m2)
         in ch32_stk_schedule m3)
      else if addr = 0x04 then
        (let m1 = m_stk_update (stk_sr_update (\<lambda>_. v)) m
         in ch32_stk_schedule (if v AND 1 = 0 then ch32_stk_clear_mtip m1 else m1))
      else if addr = 0x08 then ch32_stk_schedule (ch32_stk_set_cnt (ucast v) m)
      else if addr = 0x0c then
        ch32_stk_schedule
          (ch32_stk_set_cnt ((ch32_stk_now_cnt m AND 0xffffffff) OR push_bit 32 (ucast v)) m)
      else if addr = 0x10 then ch32_stk_schedule (m_stk_update (stk_cmpl_update (\<lambda>_. v)) m)
      else if addr = 0x14 then ch32_stk_schedule (m_stk_update (stk_cmph_update (\<lambda>_. v)) m)
      else m)"

section \<open>Reset and clock change\<close>

definition ch32_stk_pfic_reset :: "machine \<Rightarrow> machine" where
  "ch32_stk_pfic_reset m =
     cpu_irq
       (env_upd (\<lambda>e. e\<lparr>mie := mie e AND NOT (MIP_MTIP OR MIP_MSIP)\<rparr>)
         (env_upd (riscv_cpu_update_mip (MIP_MTIP OR MIP_MSIP) 0)
           (m\<lparr>stk_timer := timer_del (stk_timer m),
              m_stk := \<lparr>stk_ctlr = 0, stk_sr = 0, stk_cmpl = 0, stk_cmph = 0\<rparr>,
              stk_epoch_ns := clock_ns m, stk_cnt_at_epoch := 0,
              m_pfic := \<lparr>pfic_ienr = (replicate 8 0)[0 := one_bit 2 OR one_bit 3],
                         pfic_ipr = replicate 8 0, pfic_iactr = replicate 8 0,
                         pfic_iprior = replicate 256 0, pfic_ithresdr = 0, pfic_sctlr = 0,
                         pfic_vtfidr = replicate 4 0, pfic_vtfaddr = replicate 4 0\<rparr>\<rparr>)))"

definition ch32_stk_rcc_clock_changed :: "machine \<Rightarrow> machine" where
  "ch32_stk_rcc_clock_changed m =
     (let cnt = ch32_stk_now_cnt m in ch32_stk_schedule (ch32_stk_set_cnt cnt m))"

section \<open>Entries of the resync table\<close>

text \<open>Neither of the two takes the routing slot or asks for a rescan.\<close>

lemma env_owner_msip [simp]:
  "owner (ch32_pfic_sw_irq_miesync m) = owner m" "out_of_fuel (ch32_pfic_sw_irq_miesync m) = out_of_fuel m"
  "owner (ch32_stk_schedule m) = owner m" "out_of_fuel (ch32_stk_schedule m) = out_of_fuel m"
  by (simp_all add: ch32_pfic_sw_irq_miesync_def ch32_stk_schedule_def ch32_stk_clear_mtip_def Let_def)

lemma view_sw_stk [frame_simps]:
  "meip_view (ch32_pfic_sw_irq_miesync m) = meip_view m"
  "meip_view (ch32_stk_schedule m) = meip_view m"
proof -
  have t: "meip_view (stk_timer_update f x) = meip_view x" for f x by (simp add: meip_view_def)
  have *: "meip_view (env_upd (riscv_cpu_update_mip MIP_MSIP 0 \<circ> (\<lambda>e. e\<lparr>mie := h e\<rparr>)) x) = meip_view x"
    for h x by (simp add: view_env update_mip_view)
  show "meip_view (ch32_pfic_sw_irq_miesync m) = meip_view m"
    by (simp add: ch32_pfic_sw_irq_miesync_def frame_simps *)
  show "meip_view (ch32_stk_schedule m) = meip_view m"
    by (simp add: ch32_stk_schedule_def ch32_stk_clear_mtip_def frame_simps Let_def t)
qed

interpretation sw_irq: meip_unit "of_nat CH32_PFIC_SW_IRQ_BIT" "\<lambda>_. False" "\<lambda>_. True"
  "\<lambda>r. ch32_pfic_sw_irq_miesync"
  by unfold_locales (auto simp: frame_simps CH32_PFIC_SW_IRQ_BIT_def)

interpretation systick: meip_unit "of_nat CH32_SYSTICK_NVIC_BIT" "\<lambda>_. False" "\<lambda>_. True"
  "\<lambda>r. ch32_stk_schedule"
  by unfold_locales (auto simp: frame_simps CH32_SYSTICK_NVIC_BIT_def)

end
