(* ===== verification/Ch32_Resync.thy ===== *)
theory Ch32_Resync
  imports Ch32_Usart1 Ch32_Lite Ch32_Tim Ch32_Eth10m Ch32_Eth Ch32_UsbIrq Ch32_Dma Ch32_Stk
begin

text \<open>
  The rest of \<open>ch32-stk-pfic.c\<close>: the table of resync functions, the rescan of all of them, the
  injection of software-pended interrupts, the callback of \<open>mret\<close>, and the MMIO handlers of the
  PFIC. The resync functions call the rescan, which calls them: the C recursion is modelled with a
  bound of two, and the theory shows that it is the only solution of the recursion of the code.
\<close>

section \<open>The resync table\<close>

definition CH32_PFIC_SW_IRQ_MASK :: u32 where "CH32_PFIC_SW_IRQ_MASK = one_bit 14"
definition CH32_PFIC_STK_MASK :: u32 where "CH32_PFIC_STK_MASK = one_bit 12"
definition CH32_PFIC_USART1_MASK :: u32 where "CH32_PFIC_USART1_MASK = one_bit (53 mod 32)"
definition CH32_PFIC_USART23_MASK :: u32 where
  "CH32_PFIC_USART23_MASK = one_bit (54 mod 32) OR one_bit (55 mod 32)"
definition CH32_PFIC_UART48_MASK :: u32 where
  "CH32_PFIC_UART48_MASK = one_bit (68 mod 32) OR one_bit (69 mod 32) OR one_bit (87 mod 32) OR
     one_bit (88 mod 32) OR one_bit (89 mod 32)"
definition CH32_PFIC_ETH_MASK :: u32 where "CH32_PFIC_ETH_MASK = one_bit (77 mod 32)"
definition CH32_PFIC_ETH10M_MASK :: u32 where "CH32_PFIC_ETH10M_MASK = one_bit (61 mod 32)"
definition CH32_PFIC_TIM234_MASK :: u32 where
  "CH32_PFIC_TIM234_MASK = one_bit (44 mod 32) OR one_bit (45 mod 32) OR one_bit (46 mod 32)"
definition CH32_PFIC_TIM567_MASK :: u32 where
  "CH32_PFIC_TIM567_MASK = one_bit (66 mod 32) OR one_bit (70 mod 32) OR one_bit (71 mod 32)"
definition CH32_PFIC_USBHOST_MASK :: u32 where "CH32_PFIC_USBHOST_MASK = one_bit (85 mod 32)"
definition CH32_PFIC_USBFSHOST_MASK :: u32 where "CH32_PFIC_USBFSHOST_MASK = one_bit (83 mod 32)"
definition CH32_PFIC_DMA_WD0_MASK :: u32 where "CH32_PFIC_DMA_WD0_MASK = push_bit 27 0x1F"
definition CH32_PFIC_DMA_WD1_MASK :: u32 where "CH32_PFIC_DMA_WD1_MASK = 0x03"
definition CH32_PFIC_DMA_WD2_MASK :: u32 where "CH32_PFIC_DMA_WD2_MASK = push_bit 8 0x1F"
definition CH32_PFIC_DMA_WD3_MASK :: u32 where "CH32_PFIC_DMA_WD3_MASK = 0xFC"

lemmas pfic_mask_defs = CH32_PFIC_SW_IRQ_MASK_def CH32_PFIC_STK_MASK_def CH32_PFIC_USART1_MASK_def
  CH32_PFIC_USART23_MASK_def CH32_PFIC_UART48_MASK_def CH32_PFIC_ETH_MASK_def
  CH32_PFIC_ETH10M_MASK_def CH32_PFIC_TIM234_MASK_def CH32_PFIC_TIM567_MASK_def
  CH32_PFIC_USBHOST_MASK_def CH32_PFIC_USBFSHOST_MASK_def CH32_PFIC_DMA_WD0_MASK_def
  CH32_PFIC_DMA_WD1_MASK_def CH32_PFIC_DMA_WD2_MASK_def CH32_PFIC_DMA_WD3_MASK_def

type_synonym resync_fn = "(machine \<Rightarrow> machine) \<Rightarrow> machine \<Rightarrow> machine"

definition pfic_resync_table :: "(nat \<times> u32 \<times> resync_fn) list" where
  "pfic_resync_table = [
     (0, CH32_PFIC_SW_IRQ_MASK, \<lambda>r. ch32_pfic_sw_irq_miesync),
     (0, CH32_PFIC_STK_MASK, \<lambda>r. ch32_stk_schedule),
     (1, CH32_PFIC_USART1_MASK, ch32_usart1_meip_resync),
     (1, CH32_PFIC_USART23_MASK, ch32_usart_lite_meip_resync),
     (1, CH32_PFIC_TIM234_MASK, ch32_tim_meip_resync_all),
     (1, CH32_PFIC_ETH10M_MASK, ch32_eth_10m_meip_resync),
     (2, CH32_PFIC_UART48_MASK, ch32_usart_lite_meip_resync),
     (2, CH32_PFIC_ETH_MASK, ch32_eth_meip_resync),
     (2, CH32_PFIC_TIM567_MASK, ch32_tim_meip_resync_all),
     (2, CH32_PFIC_USBHOST_MASK, ch32_usbhost_meip_resync),
     (2, CH32_PFIC_USBFSHOST_MASK, ch32_usbfs_host_meip_resync),
     (0, CH32_PFIC_DMA_WD0_MASK, ch32_dma_meip_resync),
     (1, CH32_PFIC_DMA_WD1_MASK, ch32_dma_meip_resync),
     (2, CH32_PFIC_DMA_WD2_MASK, ch32_dma_meip_resync),
     (3, CH32_PFIC_DMA_WD3_MASK, ch32_dma_meip_resync)]"

text \<open>One pass over the table; \<open>r\<close> is the rescan the entries may ask for.\<close>

definition pfic_table_pass :: resync_fn where
  "pfic_table_pass r m = fold (\<lambda>(_, _, resync). resync r) pfic_resync_table m"

fun pfic_rescan :: "nat \<Rightarrow> machine \<Rightarrow> machine" where
  "pfic_rescan 0 m = m\<lparr>out_of_fuel := True\<rparr>"
| "pfic_rescan (Suc k) m = pfic_table_pass (pfic_rescan k) m"

definition ch32_pfic_resync_pending_meip :: "machine \<Rightarrow> machine" where
  "ch32_pfic_resync_pending_meip m = pfic_rescan 2 m"

definition ch32_pfic_resync_changed :: "nat \<Rightarrow> u32 \<Rightarrow> machine \<Rightarrow> machine" where
  "ch32_pfic_resync_changed wd changed m =
     fold (\<lambda>(ewd, mask, resync) m.
             if ewd = wd \<and> changed AND mask \<noteq> 0 then resync ch32_pfic_resync_pending_meip m else m)
       pfic_resync_table m"

section \<open>Software-pended interrupts\<close>

text \<open>\<open>__builtin_ctz\<close> on a word with a bit set.\<close>

definition ctz :: "u32 \<Rightarrow> nat" where
  "ctz w = length (takeWhile (\<lambda>i. \<not> bit w i) [0..<32])"

definition ch32_pfic_inject_meip_for_irq :: "nat \<Rightarrow> u32 \<Rightarrow> machine \<Rightarrow> machine" where
  "ch32_pfic_inject_meip_for_irq wd enabled m =
     (let b = ctz enabled; irq_n = wd * 32 + b in
      if owner m = 0 then
        cpu_irq (meip_claim irq_n
          (m_pfic_update (pfic_ipr_update (arr_upd wd (\<lambda>w. w AND NOT (one_bit b)))) m))
      else m)"

text \<open>The bits of each word that a table entry covers.\<close>

definition CH32_PFIC_RESYNC_MASK :: "nat \<Rightarrow> u32" where
  "CH32_PFIC_RESYNC_MASK wd =
     (if wd = 0 then one_bit CH32_PFIC_SW_IRQ_BIT OR one_bit CH32_SYSTICK_NVIC_BIT OR CH32_PFIC_DMA_WD0_MASK
      else if wd = 1 then CH32_PFIC_USART1_MASK OR CH32_PFIC_USART23_MASK OR CH32_PFIC_TIM234_MASK OR
        CH32_PFIC_ETH10M_MASK OR CH32_PFIC_DMA_WD1_MASK
      else if wd = 2 then CH32_PFIC_UART48_MASK OR CH32_PFIC_ETH_MASK OR CH32_PFIC_TIM567_MASK OR
        CH32_PFIC_USBHOST_MASK OR CH32_PFIC_USBFSHOST_MASK OR CH32_PFIC_DMA_WD2_MASK
      else if wd = 3 then CH32_PFIC_DMA_WD3_MASK
      else 0)"

definition software_pending :: "nat \<Rightarrow> machine \<Rightarrow> u32" where
  "software_pending wd m =
     pfic_ipr (m_pfic m) ! wd AND pfic_ienr (m_pfic m) ! wd AND NOT (CH32_PFIC_RESYNC_MASK wd)"

fun software_scan :: "nat list \<Rightarrow> machine \<Rightarrow> machine" where
  "software_scan [] m = m"
| "software_scan (wd # wds) m =
     (let ipr = software_pending wd m in
      if ipr \<noteq> 0 then ch32_pfic_inject_meip_for_irq wd ipr m else software_scan wds m)"

definition ch32_pfic_resync_software_pending :: "machine \<Rightarrow> machine" where
  "ch32_pfic_resync_software_pending m = (if owner m \<noteq> 0 then m else software_scan [0..<8] m)"

section \<open>The callback of \<open>mret\<close>\<close>

definition ch32_pfic_on_mret :: "u32 \<Rightarrow> machine \<Rightarrow> machine" where
  "ch32_pfic_on_mret irq_n m =
     cpu_irq (ch32_pfic_resync_software_pending (ch32_pfic_resync_pending_meip
       (meip_lower (env_upd (\<lambda>e. e\<lparr>wch_evt_mcause_override := 0\<rparr>)
         (ch32_pfic_irq_active_clear (unat irq_n) m)))))"

section \<open>The network\<close>

text \<open>The table flattened to single peripherals, in its order.\<close>

definition lite_units :: "resync_unit list" where
  "lite_units = map (\<lambda>i. (of_nat (lite_irq ! i), usart_lite_meip_one i (lite_irq ! i))) [0..<7]"

definition tim_units :: "resync_unit list" where
  "tim_units = map (\<lambda>i. (of_nat (ch32_tim_irqn ! i), ch32_tim_meip_update i (ch32_tim_irqn ! i))) [0..<6]"

definition dma_units :: "resync_unit list" where
  "dma_units = map (\<lambda>c. (of_nat (snd (snd (snd c))), dma_chan_resync c)) dma_chans"

definition pfic_units :: "resync_unit list" where
  "pfic_units =
     [(of_nat CH32_PFIC_SW_IRQ_BIT, \<lambda>r. ch32_pfic_sw_irq_miesync),
      (of_nat CH32_SYSTICK_NVIC_BIT, \<lambda>r. ch32_stk_schedule),
      (of_nat CH32_USART1_NVIC_IRQ, ch32_usart1_meip_resync)] @
     lite_units @ tim_units @ [(of_nat CH32_ETH_10M_IRQ_N, ch32_eth_10m_meip_resync)] @
     lite_units @ [(of_nat CH32_ETH_IRQ_N, ch32_eth_meip_resync)] @ tim_units @
     [(of_nat CH32_USBHS_NVIC_IRQ, ch32_usbhost_meip_resync),
      (of_nat CH32_USBFS_NVIC_IRQ, ch32_usbfs_host_meip_resync)] @
     dma_units @ dma_units @ dma_units @ dma_units"

lemma run_lite_units: "run_units lite_units r m = ch32_usart_lite_meip_resync r m"
  by (simp add: run_units_def lite_units_def ch32_usart_lite_meip_resync_def fold_map o_def)

lemma run_tim_units: "run_units tim_units r m = ch32_tim_meip_resync_all r m"
  by (simp add: run_units_def tim_units_def ch32_tim_meip_resync_all_def fold_map o_def)

lemma run_dma_units: "run_units dma_units r m = ch32_dma_meip_resync r m"
  by (simp add: run_units_def dma_units_def ch32_dma_meip_resync_def fold_map o_def)

lemma table_pass_units: "pfic_table_pass r m = run_units pfic_units r m"
  by (simp add: pfic_table_pass_def pfic_resync_table_def pfic_units_def run_lite_units
      run_tim_units run_dma_units)

lemma pfic_rescan_units: "pfic_rescan k m = bounded_rescan pfic_units k m"
proof (induction k arbitrary: m)
  case (Suc k)
  then have "pfic_rescan k = bounded_rescan pfic_units k" by (simp add: fun_eq_iff)
  then show ?case by (simp add: table_pass_units)
qed simp

lemma pending_meip_units: "ch32_pfic_resync_pending_meip m = bounded_rescan pfic_units 2 m"
  by (simp add: ch32_pfic_resync_pending_meip_def pfic_rescan_units)

text \<open>
  For each interrupt number of the table: when its peripheral asserts, and when, owning the slot,
  it keeps it.
\<close>

definition pfic_conds :: "(u32 \<times> (machine \<Rightarrow> bool) \<times> (machine \<Rightarrow> bool)) list" where
  "pfic_conds =
     [(of_nat CH32_PFIC_SW_IRQ_BIT, \<lambda>_. False, \<lambda>_. True),
      (of_nat CH32_SYSTICK_NVIC_BIT, \<lambda>_. False, \<lambda>_. True),
      (of_nat CH32_USART1_NVIC_IRQ, usart1_irq, usart1_keep),
      (of_nat CH32_ETH_10M_IRQ_N, eth10m_irq_on, eth10m_keep),
      (of_nat CH32_ETH_IRQ_N, eth_irq_on, eth_keep),
      (of_nat CH32_USBHS_NVIC_IRQ, usbhs_on, usbhs_keep),
      (of_nat CH32_USBFS_NVIC_IRQ, usbfs_on, usbfs_keep)] @
     map (\<lambda>i. (of_nat (lite_irq ! i), lite_irq_on i (lite_irq ! i), lite_keep i (lite_irq ! i))) [0..<7] @
     map (\<lambda>i. (of_nat (ch32_tim_irqn ! i), tim_irq_on i (ch32_tim_irqn ! i),
               tim_irq_on i (ch32_tim_irqn ! i))) [0..<6] @
     map (\<lambda>c. (of_nat (snd (snd (snd c))), dma_irq_on c, \<lambda>_. True)) dma_chans"

definition irq_asserted :: "u32 \<Rightarrow> machine \<Rightarrow> bool" where
  "irq_asserted n m = (case map_of pfic_conds n of None \<Rightarrow> False | Some (on, _) \<Rightarrow> on m)"

definition irq_kept :: "u32 \<Rightarrow> machine \<Rightarrow> bool" where
  "irq_kept n m = (case map_of pfic_conds n of None \<Rightarrow> True | Some (_, keep) \<Rightarrow> keep m)"

lemma upt_small: "[0..<7] = [0, 1, 2, 3, 4, 5, 6::nat]" "[0..<6] = [0, 1, 2, 3, 4, 5::nat]"
  "[7..<11] = [7, 8, 9, 10::nat]"
  by (simp_all add: upt_rec)

lemmas irq_tables = irq_number_defs CH32_USBHS_NVIC_IRQ_def CH32_USBFS_NVIC_IRQ_def lite_irq_def
  ch32_tim_irqn_def dma_chans_def dma1_ch_irq_def dma2_ch_irq_def

lemma conds_distinct: "distinct (map fst pfic_conds)"
  by (simp add: pfic_conds_def irq_tables upt_small)

lemma cond_lookup:
  assumes "(n, on, keep) \<in> set pfic_conds"
  shows "irq_asserted n = on" "irq_kept n = keep"
  using map_of_is_SomeI[OF conds_distinct assms] by (simp_all add: irq_asserted_def irq_kept_def fun_eq_iff)

lemma conds_members:
  "i < 7 \<Longrightarrow> (of_nat (lite_irq ! i), lite_irq_on i (lite_irq ! i), lite_keep i (lite_irq ! i)) \<in> set pfic_conds"
  "i < 6 \<Longrightarrow> (of_nat (ch32_tim_irqn ! i), tim_irq_on i (ch32_tim_irqn ! i), tim_irq_on i (ch32_tim_irqn ! i))
      \<in> set pfic_conds"
  "c \<in> set dma_chans \<Longrightarrow> (of_nat (snd (snd (snd c))), dma_irq_on c, \<lambda>_. True) \<in> set pfic_conds"
  by (force simp: pfic_conds_def)+

definition unit_known :: "resync_unit \<Rightarrow> bool" where
  "unit_known u \<longleftrightarrow> (\<exists>on keep. (fst u, on, keep) \<in> set pfic_conds \<and> meip_unit (fst u) on keep (snd u))"

lemma unit_knownI:
  "(N, on, keep) \<in> set pfic_conds \<Longrightarrow> meip_unit N on keep D \<Longrightarrow> unit_known (N, D)"
  by (auto simp: unit_known_def)

lemma lite_irq_nonzero: "i < 7 \<Longrightarrow> (of_nat (lite_irq ! i) :: u32) \<noteq> 0"
proof -
  have "list_all (\<lambda>n. (of_nat n :: u32) \<noteq> 0) lite_irq" by (simp add: lite_irq_def)
  then show "i < 7 \<Longrightarrow> (of_nat (lite_irq ! i) :: u32) \<noteq> 0" by (simp add: list_all_length lite_irq_def)
qed

lemma tim_irqn_nonzero: "i < 6 \<Longrightarrow> (of_nat (ch32_tim_irqn ! i) :: u32) \<noteq> 0"
proof -
  have "list_all (\<lambda>n. (of_nat n :: u32) \<noteq> 0) ch32_tim_irqn" by (simp add: ch32_tim_irqn_def)
  then show "i < 6 \<Longrightarrow> (of_nat (ch32_tim_irqn ! i) :: u32) \<noteq> 0"
    by (simp add: list_all_length ch32_tim_irqn_def)
qed

lemma lite_known: "u \<in> set lite_units \<Longrightarrow> unit_known u"
proof -
  assume "u \<in> set lite_units"
  then obtain i where i: "i < 7" "u = (of_nat (lite_irq ! i), usart_lite_meip_one i (lite_irq ! i))"
    by (auto simp: lite_units_def)
  then have "(of_nat (lite_irq ! i), lite_irq_on i (lite_irq ! i), lite_keep i (lite_irq ! i))
      \<in> set pfic_conds"
    by (force simp: pfic_conds_def)
  moreover have "(of_nat (lite_irq ! i) :: u32) \<noteq> 0" using i(1) by (rule lite_irq_nonzero)
  ultimately show ?thesis
    using unit_knownI prompt_unit.axioms(1)[OF lite_prompt_unit] i(2) by blast
qed

lemma tim_known: "u \<in> set tim_units \<Longrightarrow> unit_known u"
proof -
  assume "u \<in> set tim_units"
  then obtain i where i: "i < 6" "u = (of_nat (ch32_tim_irqn ! i), ch32_tim_meip_update i (ch32_tim_irqn ! i))"
    by (auto simp: tim_units_def)
  then have "(of_nat (ch32_tim_irqn ! i), tim_irq_on i (ch32_tim_irqn ! i), tim_irq_on i (ch32_tim_irqn ! i))
      \<in> set pfic_conds"
    by (force simp: pfic_conds_def)
  moreover have "(of_nat (ch32_tim_irqn ! i) :: u32) \<noteq> 0" using i(1) by (rule tim_irqn_nonzero)
  ultimately show ?thesis using unit_knownI tim_unit i(2) by blast
qed

lemma dma_chan_nonzero: "c \<in> set dma_chans \<Longrightarrow> (of_nat (snd (snd (snd c))) :: u32) \<noteq> 0"
proof -
  have "list_all (\<lambda>c. (of_nat (snd (snd (snd c))) :: u32) \<noteq> 0) dma_chans"
    by (simp add: irq_tables upt_small)
  then show "c \<in> set dma_chans \<Longrightarrow> (of_nat (snd (snd (snd c))) :: u32) \<noteq> 0"
    by (simp add: list_all_iff)
qed

lemma dma_known: "u \<in> set dma_units \<Longrightarrow> unit_known u"
proof -
  assume "u \<in> set dma_units"
  then obtain c where c: "c \<in> set dma_chans" "u = (of_nat (snd (snd (snd c))), dma_chan_resync c)"
    by (auto simp: dma_units_def)
  then have "(of_nat (snd (snd (snd c))), dma_irq_on c, \<lambda>_. True) \<in> set pfic_conds"
    by (force simp: pfic_conds_def)
  then show ?thesis
    using unit_knownI prompt_unit.axioms(1)[OF dma_prompt_unit[OF dma_chan_nonzero[OF c(1)]]] c(2)
    by blast
qed

lemma single_known:
  "unit_known (of_nat CH32_PFIC_SW_IRQ_BIT, \<lambda>r. ch32_pfic_sw_irq_miesync)"
  "unit_known (of_nat CH32_SYSTICK_NVIC_BIT, \<lambda>r. ch32_stk_schedule)"
  "unit_known (of_nat CH32_USART1_NVIC_IRQ, ch32_usart1_meip_resync)"
  "unit_known (of_nat CH32_ETH_10M_IRQ_N, ch32_eth_10m_meip_resync)"
  "unit_known (of_nat CH32_ETH_IRQ_N, ch32_eth_meip_resync)"
  "unit_known (of_nat CH32_USBHS_NVIC_IRQ, ch32_usbhost_meip_resync)"
  "unit_known (of_nat CH32_USBFS_NVIC_IRQ, ch32_usbfs_host_meip_resync)"
  by (rule unit_knownI[rotated], rule sw_irq.meip_unit_axioms systick.meip_unit_axioms
      usart1.meip_unit_axioms eth10m.meip_unit_axioms eth.meip_unit_axioms usbhs.meip_unit_axioms
      usbfs.meip_unit_axioms, simp add: pfic_conds_def)+

lemma units_known: "u \<in> set pfic_units \<Longrightarrow> unit_known u"
  unfolding pfic_units_def by (auto dest: lite_known tim_known dma_known simp: single_known)

lemma conds_view:
  assumes "(n, on, keep) \<in> set pfic_conds" "meip_view m = meip_view m'"
  shows "on m = on m'" "keep m = keep m'"
proof -
  note v = assms(2)
  have "list_all (\<lambda>(_, on, keep). on m = on m' \<and> keep m = keep m') pfic_conds"
    unfolding pfic_conds_def list_all_append list.pred_inject list.pred_map o_def prod.case
    by (intro conjI TrueI)
      (simp_all add: list_all_iff usart1_irq_view[OF v] usart1_keep_view[OF v] eth10m_irq_view[OF v]
        eth10m_keep_view[OF v] eth_irq_view[OF v] eth_keep_view[OF v] usbhs.on_view[OF v]
        usbhs.keep_view[OF v] usbfs.on_view[OF v] usbfs.keep_view[OF v] lite_irq_view[OF v]
        lite_keep_view[OF v] tim_irq_view[OF v] dma_irq_view[OF v])
  then show "on m = on m'" "keep m = keep m'" using assms(1) by (auto simp: list_all_iff)
qed

interpretation net: meip_network irq_asserted irq_kept pfic_units
proof (rule meip_network.intro)
  fix N D assume "(N, D) \<in> set pfic_units"
  then show "meip_unit N (irq_asserted N) (irq_kept N) D"
    using units_known cond_lookup by (fastforce simp: unit_known_def)
next
  fix m m' n assume v: "meip_view m = meip_view m'"
  show "irq_asserted n m = irq_asserted n m'"
    using conds_view(1)[OF map_of_SomeD v] by (auto simp: irq_asserted_def split: option.splits)
  show "irq_kept n m = irq_kept n m'"
    using conds_view(2)[OF map_of_SomeD v] by (auto simp: irq_kept_def split: option.splits)
qed

section \<open>What the rescan does\<close>

lemma pending_rec: "ch32_pfic_resync_pending_meip m = pfic_table_pass ch32_pfic_resync_pending_meip m"
proof -
  have "ch32_pfic_resync_pending_meip = bounded_rescan pfic_units 2"
    by (simp add: fun_eq_iff pending_meip_units)
  then show ?thesis using net.rescan_fixpoint[of m] by (simp add: table_pass_units)
qed

lemma pending_unique:
  assumes rec: "\<And>m. R m = pfic_table_pass R m"
  shows "R m = ch32_pfic_resync_pending_meip m"
proof -
  have "R x = bounded_rescan pfic_units (Suc 0) x" if "settled irq_kept x" for x
    using net.run_settled[OF subset_refl that, of R "bounded_rescan pfic_units 0"] rec[of x]
    by (simp add: table_pass_units)
  then have "run_units pfic_units R m = run_units pfic_units (bounded_rescan pfic_units (Suc 0)) m"
    by (intro net.run_cong[OF subset_refl])
  then show ?thesis using rec[of m]
    by (simp add: table_pass_units pending_meip_units numeral_2_eq_2)
qed

lemma pending_fuel [simp]: "out_of_fuel (ch32_pfic_resync_pending_meip m) = out_of_fuel m"
  by (simp add: pending_meip_units net.rescan_fuel)

lemma pending_view [frame_simps]: "meip_view (ch32_pfic_resync_pending_meip m) = meip_view m"
  by (simp add: pending_meip_units net.rescan_frame)

lemma pending_served:
  assumes "served irq_asserted m"
  shows "owner (ch32_pfic_resync_pending_meip m) = owner m"
  using net.run_served[OF subset_refl assms] by (simp add: pending_meip_units numeral_2_eq_2)

text \<open>
  The peripherals without a latch of their own: \<open>irq_active\<close> of the timers and of the Ethernet
  controllers may hold them back.
\<close>

definition prompt_irqs :: "nat list" where
  "prompt_irqs = [53, 85, 83] @ lite_irq @ map (\<lambda>c. snd (snd (snd c))) dma_chans"

lemma length_lite_irq: "length lite_irq = 7"
  by (simp add: lite_irq_def)

lemma prompt_units:
  assumes "n \<in> set prompt_irqs"
  shows "\<exists>D. (of_nat n, D) \<in> set pfic_units \<and>
    prompt_unit (of_nat n) (irq_asserted (of_nat n)) (irq_kept (of_nat n)) D"
proof -
  have *: "\<exists>D. (N, D) \<in> set pfic_units \<and> prompt_unit N (irq_asserted N) (irq_kept N) D"
    if "(N, D) \<in> set pfic_units" "(N, on, keep) \<in> set pfic_conds" "prompt_unit N on keep D"
    for N D on keep
    using that cond_lookup[OF that(2)] by auto
  have "n \<in> set lite_irq \<Longrightarrow> \<exists>i < 7. n = lite_irq ! i"
    using length_lite_irq by (metis in_set_conv_nth)
  then consider "n = CH32_USART1_NVIC_IRQ" | "n = CH32_USBHS_NVIC_IRQ" | "n = CH32_USBFS_NVIC_IRQ"
    | i where "i < 7" "n = lite_irq ! i" | c where "c \<in> set dma_chans" "n = snd (snd (snd c))"
    using assms unfolding prompt_irqs_def irq_number_defs CH32_USBHS_NVIC_IRQ_def
      CH32_USBFS_NVIC_IRQ_def set_append set_map by auto
  then show ?thesis
  proof cases
    case 1
    show ?thesis unfolding 1
      by (rule *[OF _ _ usart1.prompt_unit_axioms]) (simp_all add: pfic_units_def pfic_conds_def)
  next
    case 2
    show ?thesis unfolding 2
      by (rule *[OF _ _ usbhs.prompt_unit_axioms]) (simp_all add: pfic_units_def pfic_conds_def)
  next
    case 3
    show ?thesis unfolding 3
      by (rule *[OF _ _ usbfs.prompt_unit_axioms]) (simp_all add: pfic_units_def pfic_conds_def)
  next
    case (4 i)
    note P = lite_prompt_unit[OF lite_irq_nonzero[OF 4(1)], of i]
    show ?thesis unfolding 4(2)
      by (rule *[OF _ _ P]) (use 4(1) in \<open>force simp: pfic_units_def lite_units_def pfic_conds_def\<close>)+
  next
    case (5 c)
    note P = dma_prompt_unit[OF dma_chan_nonzero[OF 5(1)]]
    show ?thesis unfolding 5(2)
      by (rule *[OF _ _ P]) (use 5(1) in \<open>force simp: pfic_units_def dma_units_def pfic_conds_def\<close>)+
  qed
qed

lemma pending_wakes:
  assumes "owner m = 0" "n \<in> set prompt_irqs" "irq_asserted (of_nat n) m"
  shows "served irq_asserted (ch32_pfic_resync_pending_meip m)"
proof -
  obtain D where "(of_nat n, D) \<in> set pfic_units"
    "prompt_unit (of_nat n) (irq_asserted (of_nat n)) (irq_kept (of_nat n)) D"
    using prompt_units[OF assms(2)] by blast
  from net.run_wakes[OF subset_refl assms(1) this assms(3)] show ?thesis
    by (simp add: pending_meip_units numeral_2_eq_2)
qed

lemma pending_free:
  assumes "owner m = 0"
  shows "owner (ch32_pfic_resync_pending_meip m) = 0 \<or> served irq_asserted (ch32_pfic_resync_pending_meip m)"
  using net.run_free[OF subset_refl assms] by (simp add: pending_meip_units numeral_2_eq_2)

section \<open>MMIO handlers of the PFIC\<close>

definition CH32_PFIC_SCTLR_OFF :: u32 where "CH32_PFIC_SCTLR_OFF = 0xD10"
definition PFIC_SCTLR_RW :: u32 where
  "PFIC_SCTLR_RW = one_bit 4 OR one_bit 3 OR one_bit 2 OR one_bit 1"

text \<open>Bytes and half words of a word register at byte offset \<open>off\<close>.\<close>

definition sub_word :: "u32 \<Rightarrow> nat \<Rightarrow> nat \<Rightarrow> u32" where
  "sub_word v off sz =
     (if sz = 1 then drop_bit (8 * (off mod 4)) v AND 0xff
      else if sz = 2 then drop_bit (8 * (2 * (off div 2 mod 2))) v AND 0xffff
      else v)"

definition pfic_gisr :: "machine \<Rightarrow> u32" where
  "pfic_gisr m =
     (let p = m_pfic m;
          has_pending = list_ex (\<lambda>w. w \<noteq> 0) (take 8 (pfic_ipr p));
          has_active = list_ex (\<lambda>w. w \<noteq> 0) (take 8 (pfic_iactr p));
          nest = min 8 (unat (wch_vtf_in_isr (m_cpu m)));
          nest_mask = (if nest > 0 then push_bit nest 1 - 1 else 0)
      in (if has_pending then one_bit 9 else 0) OR (if has_active then one_bit 8 else 0) OR
         (nest_mask AND 0xFF))"

definition ch32_pfic_read :: "u32 \<Rightarrow> nat \<Rightarrow> machine \<Rightarrow> u32" where
  "ch32_pfic_read addr sz m =
     (let a = unat addr; p = m_pfic m in
      if a < 0x020 then sub_word (pfic_ienr p ! (a div 4)) a sz
      else if a < 0x040 then sub_word (pfic_ipr p ! ((a - 0x020) div 4)) (a - 0x020) sz
      else if a = 0x040 then pfic_ithresdr p
      else if a = 0x04C then pfic_gisr m
      else if a \<ge> 0x050 \<and> a \<le> 0x053 then sub_word (of_le_bytes (pfic_vtfidr p)) (a - 0x050) sz
      else if a \<ge> 0x060 \<and> a < 0x070 then pfic_vtfaddr p ! ((a - 0x060) div 4)
      else if a \<ge> 0x300 \<and> a < 0x320 then sub_word (pfic_iactr p ! ((a - 0x300) div 4)) (a - 0x300) sz
      else if a \<ge> 0x400 \<and> a < 0x500 then
        (let off = a - 0x400 in
         if sz = 1 then ucast (pfic_iprior p ! off)
         else if sz = 2 \<and> off + 1 < 256 then of_le_bytes [pfic_iprior p ! off, pfic_iprior p ! (off + 1)]
         else if sz = 4 \<and> off + 3 < 256 then
           of_le_bytes [pfic_iprior p ! off, pfic_iprior p ! (off + 1), pfic_iprior p ! (off + 2),
                        pfic_iprior p ! (off + 3)]
         else 0)
      else if addr = CH32_PFIC_SCTLR_OFF then pfic_sctlr p AND PFIC_SCTLR_RW
      else 0)"

abbreviation pfic_upd :: "(pfic_state \<Rightarrow> pfic_state) \<Rightarrow> machine \<Rightarrow> machine" where
  "pfic_upd \<equiv> m_pfic_update"

text \<open>Store the \<open>k\<close> low bytes of \<open>v\<close> at \<open>off\<close>.\<close>

definition store_bytes :: "nat \<Rightarrow> nat \<Rightarrow> u32 \<Rightarrow> u8 list \<Rightarrow> u8 list" where
  "store_bytes off k v bs = fold (\<lambda>i bs. bs[off + i := ucast (drop_bit (8 * i) v)]) [0..<k] bs"

definition pfic_ienr_write :: "nat \<Rightarrow> (u32 \<Rightarrow> u32) \<Rightarrow> machine \<Rightarrow> machine" where
  "pfic_ienr_write idx f m =
     (let old = pfic_ienr (m_pfic m) ! idx
      in ch32_pfic_resync_changed idx (f old XOR old) (pfic_upd (pfic_ienr_update (arr_upd idx f)) m))"

definition pfic_ipsr_write :: "nat \<Rightarrow> u32 \<Rightarrow> machine \<Rightarrow> machine" where
  "pfic_ipsr_write idx v m =
     (let m1 = pfic_upd (pfic_ipr_update (arr_upd idx (\<lambda>w. w OR v))) m;
          m2 = (if idx = 0 \<and> bit v CH32_PFIC_SW_IRQ_BIT then ch32_pfic_sw_irq_set_pending m1 else m1);
          en = pfic_ienr (m_pfic m2) ! idx AND v;
          enabled = (if idx = 0 then en AND NOT (one_bit CH32_PFIC_SW_IRQ_BIT) else en)
      in if enabled \<noteq> 0 then ch32_pfic_inject_meip_for_irq idx enabled m2 else m2)"

definition pfic_iprr_write :: "nat \<Rightarrow> u32 \<Rightarrow> machine \<Rightarrow> machine" where
  "pfic_iprr_write idx v m =
     (let m1 = pfic_upd (pfic_ipr_update (arr_upd idx (\<lambda>w. w AND NOT v))) m
      in if idx = 0 \<and> bit v CH32_PFIC_SW_IRQ_BIT
         then cpu_irq (env_upd (riscv_cpu_update_mip MIP_MSIP 0) m1) else m1)"

definition ch32_pfic_write :: "u32 \<Rightarrow> u32 \<Rightarrow> nat \<Rightarrow> machine \<Rightarrow> machine" where
  "ch32_pfic_write addr v sz m =
     (let a = unat addr; word_ok = (\<lambda>lo. lo \<le> a \<and> a < lo + 0x20 \<and> sz = 4 \<and> a mod 4 = 0) in
      if a = 0x040 \<and> sz = 4 then pfic_upd (pfic_ithresdr_update (\<lambda>_. v AND 0xFF)) m
      else if a = 0x048 then
        (if v AND 0xFFFF0000 = 0xBEEF0000 \<and> bit v 7 then m\<lparr>reset_requested := True\<rparr> else m)
      else if a \<ge> 0x050 \<and> a \<le> 0x053 then
        (let off = a - 0x050 in
         if sz = 1 then pfic_upd (pfic_vtfidr_update (store_bytes off 1 v)) m
         else if sz = 2 \<and> off \<le> 2 then pfic_upd (pfic_vtfidr_update (store_bytes off 2 v)) m
         else if sz = 4 \<and> off = 0 then pfic_upd (pfic_vtfidr_update (store_bytes 0 4 v)) m
         else m)
      else if a \<ge> 0x060 \<and> a < 0x070 \<and> sz = 4 then
        pfic_upd (pfic_vtfaddr_update (arr_upd ((a - 0x060) div 4) (\<lambda>_. v))) m
      else if word_ok 0x100 then pfic_ienr_write ((a - 0x100) div 4) (\<lambda>w. w OR v) m
      else if word_ok 0x180 then pfic_ienr_write ((a - 0x180) div 4) (\<lambda>w. w AND NOT v) m
      else if word_ok 0x200 then pfic_ipsr_write ((a - 0x200) div 4) v m
      else if word_ok 0x280 then pfic_iprr_write ((a - 0x280) div 4) v m
      else if a \<ge> 0x400 \<and> a < 0x500 then
        (let off = a - 0x400 in
         if sz = 1 then pfic_upd (pfic_iprior_update (store_bytes off 1 v)) m
         else if sz = 2 \<and> off + 1 < 256 then pfic_upd (pfic_iprior_update (store_bytes off 2 v)) m
         else if sz = 4 \<and> off + 3 < 256 then pfic_upd (pfic_iprior_update (store_bytes off 4 v)) m
         else m)
      else if addr = CH32_PFIC_SCTLR_OFF then
        (if bit v 31 then m\<lparr>reset_requested := True\<rparr>
         else pfic_upd (pfic_sctlr_update (\<lambda>_. v AND PFIC_SCTLR_RW)) m)
      else m)"

section \<open>Facts about the PFIC\<close>

lemma changed_view: "meip_view (ch32_pfic_resync_changed wd c m) = meip_view m"
proof -
  have "meip_view (fold (\<lambda>(ewd, mask, resync) m.
          if ewd = wd \<and> c AND mask \<noteq> 0 then resync ch32_pfic_resync_pending_meip m else m) es m) =
        meip_view m"
    if "\<forall>(ewd, mask, resync) \<in> set es. \<forall>m. meip_view (resync ch32_pfic_resync_pending_meip m) = meip_view m"
    for es
    using that by (induction es arbitrary: m) auto
  moreover have "\<forall>(ewd, mask, resync) \<in> set pfic_resync_table.
      \<forall>m. meip_view (resync ch32_pfic_resync_pending_meip m) = meip_view m"
  proof -
    note F = net.run_frame[where r = ch32_pfic_resync_pending_meip, OF _ pending_view]
    have "meip_view (ch32_usart_lite_meip_resync ch32_pfic_resync_pending_meip m) = meip_view m"
      "meip_view (ch32_tim_meip_resync_all ch32_pfic_resync_pending_meip m) = meip_view m"
      "meip_view (ch32_dma_meip_resync ch32_pfic_resync_pending_meip m) = meip_view m" for m
      using F[of lite_units m] F[of tim_units m] F[of dma_units m]
      by (simp_all add: run_lite_units run_tim_units run_dma_units) (auto simp: pfic_units_def)
    then show ?thesis
      by (simp add: pfic_resync_table_def frame_simps usart1.frame[OF pending_view]
          eth10m.frame[OF pending_view] eth.frame[OF pending_view] usbhs.frame[OF pending_view]
          usbfs.frame[OF pending_view])
  qed
  ultimately show ?thesis unfolding ch32_pfic_resync_changed_def .
qed

lemma ienr_write_value:
  assumes "idx < length (pfic_ienr (m_pfic m))"
  shows "pfic_ienr (m_pfic (pfic_ienr_write idx f m)) =
    (pfic_ienr (m_pfic m))[idx := f (pfic_ienr (m_pfic m) ! idx)]"
  using view_fields(1)[OF changed_view] assms
  by (simp add: pfic_ienr_write_def Let_def arr_upd_def)

lemma ctz_bit: "w \<noteq> 0 \<Longrightarrow> bit w (ctz w) \<and> ctz w < 32 \<and> (\<forall>i < ctz w. \<not> bit w i)" for w :: u32
proof -
  assume "w \<noteq> 0"
  then obtain i where "bit w i" by (auto simp: bit_eq_iff)
  with bit_imp_le_length[OF this] have i: "i < 32" "bit w i" by simp_all
  let ?P = "\<lambda>i. \<not> bit w i"
  have l: "ctz w < 32"
  proof (rule ccontr)
    assume "\<not> ctz w < 32"
    moreover have "length (takeWhile ?P [0..<32]) \<le> 32"
      using length_takeWhile_le[of ?P "[0..<32]"] by simp
    ultimately have "takeWhile ?P [0..<32] = [0..<32]"
      by (metis ctz_def length_upt diff_zero not_less takeWhile_eq_take take_all)
    then show False using i by (metis atLeastLessThan_iff le0 set_takeWhileD set_upt)
  qed
  then have "bit w (ctz w)"
    using nth_length_takeWhile[of ?P "[0..<32]"] by (simp add: ctz_def)
  moreover have "\<not> bit w i" if "i < ctz w" for i
  proof -
    have "takeWhile ?P [0..<32] ! i = i"
      using takeWhile_nth[of i ?P "[0..<32]"] that l by (simp add: ctz_def)
    then have "i \<in> set (takeWhile ?P [0..<32])" using that by (metis ctz_def nth_mem)
    then show ?thesis using set_takeWhileD by fastforce
  qed
  ultimately show ?thesis using l by blast
qed

lemma software_scan_cases:
  "(\<forall>wd \<in> set wds. software_pending wd m = 0) \<and> software_scan wds m = m \<or>
   (\<exists>i < length wds. software_pending (wds ! i) m \<noteq> 0 \<and> (\<forall>j < i. software_pending (wds ! j) m = 0) \<and>
      software_scan wds m =
        ch32_pfic_inject_meip_for_irq (wds ! i) (software_pending (wds ! i) m) m)"
proof (induction wds)
  case (Cons wd wds)
  show ?case
  proof (cases "software_pending wd m = 0")
    case True
    from Cons.IH show ?thesis
    proof
      assume "\<exists>i < length wds. software_pending (wds ! i) m \<noteq> 0 \<and>
        (\<forall>j < i. software_pending (wds ! j) m = 0) \<and> software_scan wds m =
          ch32_pfic_inject_meip_for_irq (wds ! i) (software_pending (wds ! i) m) m"
      then obtain i where "i < length wds" "software_pending (wds ! i) m \<noteq> 0"
        "\<forall>j < i. software_pending (wds ! j) m = 0" "software_scan wds m =
          ch32_pfic_inject_meip_for_irq (wds ! i) (software_pending (wds ! i) m) m"
        by blast
      then show ?thesis using True by (intro disjI2 exI[of _ "Suc i"]) (auto simp: nth_Cons split: nat.splits)
    qed (use True in simp)
  next
    case False
    then show ?thesis by (intro disjI2 exI[of _ 0]) simp
  qed
qed simp

lemma bit_MEIP [simp]: "bit MIP_MEIP n \<longleftrightarrow> n = 11"
  unfolding MIP_MEIP_def by (subst bit_push_bit_iff) (auto simp: bit_1_iff)

lemma raised_line: "irq_line (riscv_cpu_interrupt (riscv_cpu_update_mip MIP_MEIP MIP_MEIP e))"
  by (rule irq_line_of_mip) (simp add: or_eq_zero_iff, simp add: MIP_MEIP_def)

lemma inject_facts:
  assumes "owner m = 0" "en \<noteq> 0"
  shows "owner (ch32_pfic_inject_meip_for_irq wd en m) = of_nat (wd * 32 + ctz en)"
    "bit (mip (m_cpu (ch32_pfic_inject_meip_for_irq wd en m))) 11"
    "wd < length (pfic_ipr (m_pfic m)) \<Longrightarrow>
       \<not> bit (pfic_ipr (m_pfic (ch32_pfic_inject_meip_for_irq wd en m)) ! wd) (ctz en)"
    "wd < 8 \<Longrightarrow> wd < length (pfic_iactr (m_pfic m)) \<Longrightarrow>
       bit (pfic_iactr (m_pfic (ch32_pfic_inject_meip_for_irq wd en m)) ! wd) (ctz en)"
    "irq_line (m_cpu (ch32_pfic_inject_meip_for_irq wd en m))"
  using ctz_bit[OF assms(2)] assms(1)
  by (auto simp: ch32_pfic_inject_meip_for_irq_def Let_def meip_claim_def cpu_irq_def
      ch32_pfic_irq_active_set_def bit_simps raised_line)

text \<open>What the slot holds once the callback of \<open>mret\<close> has run.\<close>

definition software_irq :: "nat \<Rightarrow> machine \<Rightarrow> bool" where
  "software_irq n m \<longleftrightarrow> bit (software_pending (n div 32) m) (n mod 32)"

lemma software_irq_ctz:
  "software_pending wd m \<noteq> 0 \<Longrightarrow> software_irq (wd * 32 + ctz (software_pending wd m)) m"
  using ctz_bit[of "software_pending wd m"] by (simp add: software_irq_def)

lemma software_resync_cases:
  assumes "owner m = 0"
  shows "(\<forall>wd < 8. software_pending wd m = 0) \<and> ch32_pfic_resync_software_pending m = m \<or>
    (\<exists>wd < 8. software_pending wd m \<noteq> 0 \<and> (\<forall>k < wd. software_pending k m = 0) \<and>
       ch32_pfic_resync_software_pending m =
         ch32_pfic_inject_meip_for_irq wd (software_pending wd m) m)"
  using software_scan_cases[of "[0..<8]" m] assms
  by (auto simp: ch32_pfic_resync_software_pending_def)

definition mret_released :: "u32 \<Rightarrow> machine \<Rightarrow> machine" where
  "mret_released n m = meip_lower (env_upd (\<lambda>e. e\<lparr>wch_evt_mcause_override := 0\<rparr>)
     (ch32_pfic_irq_active_clear (unat n) m))"

lemma mret_released_facts [simp]:
  "owner (mret_released n m) = 0" "out_of_fuel (mret_released n m) = out_of_fuel m"
  "meip_view (mret_released n m) = meip_view m"
  by (simp_all add: mret_released_def frame_simps)

lemma on_mret_alt:
  "ch32_pfic_on_mret n m =
     cpu_irq (ch32_pfic_resync_software_pending (ch32_pfic_resync_pending_meip (mret_released n m)))"
  by (simp add: ch32_pfic_on_mret_def mret_released_def)

lemma inject_view: "meip_view (ch32_pfic_inject_meip_for_irq wd en m) = meip_view m"
proof -
  have "meip_view (m_pfic_update (pfic_ipr_update f) x) = meip_view x" for f x
    by (simp add: meip_view_def)
  then show ?thesis by (simp add: ch32_pfic_inject_meip_for_irq_def Let_def frame_simps)
qed

lemma inject_fuel [simp]: "out_of_fuel (ch32_pfic_inject_meip_for_irq wd en m) = out_of_fuel m"
  by (simp add: ch32_pfic_inject_meip_for_irq_def Let_def)

lemma software_resync_view:
  "meip_view (ch32_pfic_resync_software_pending m) = meip_view m"
  "out_of_fuel (ch32_pfic_resync_software_pending m) = out_of_fuel m"
proof -
  have "meip_view (software_scan wds m) = meip_view m \<and> out_of_fuel (software_scan wds m) = out_of_fuel m"
    for wds by (induction wds) (auto simp: Let_def inject_view)
  then show "meip_view (ch32_pfic_resync_software_pending m) = meip_view m"
    "out_of_fuel (ch32_pfic_resync_software_pending m) = out_of_fuel m"
    by (simp_all add: ch32_pfic_resync_software_pending_def)
qed

lemma on_mret_view: "meip_view (ch32_pfic_on_mret n m) = meip_view m"
  by (simp add: on_mret_alt frame_simps software_resync_view)

lemma on_mret_fuel: "out_of_fuel (ch32_pfic_on_mret n m) = out_of_fuel m"
  by (simp add: on_mret_alt software_resync_view)

lemma served_cpu_irq: "served irq_asserted (cpu_irq m) = served irq_asserted m"
  using net.On_view[of "cpu_irq m" m] by (simp add: served_def frame_simps)

lemma on_mret_wakes:
  assumes "k \<in> set prompt_irqs" "irq_asserted (of_nat k) m"
  shows "served irq_asserted (ch32_pfic_on_mret n m)"
proof -
  have "irq_asserted (of_nat k) (mret_released n m)"
    using assms(2) net.On_view[of "mret_released n m" m] by simp
  from pending_wakes[OF _ assms(1) this]
  have s: "served irq_asserted (ch32_pfic_resync_pending_meip (mret_released n m))" by simp
  then have "ch32_pfic_resync_software_pending (ch32_pfic_resync_pending_meip (mret_released n m)) =
      ch32_pfic_resync_pending_meip (mret_released n m)"
    by (simp add: ch32_pfic_resync_software_pending_def served_def)
  then show ?thesis using s by (simp add: on_mret_alt served_cpu_irq)
qed

lemma on_mret_owner:
  assumes "owner (ch32_pfic_on_mret n m) \<noteq> 0"
  shows "served irq_asserted (ch32_pfic_on_mret n m) \<or>
    (\<exists>k. owner (ch32_pfic_on_mret n m) = of_nat k \<and>
         software_irq k (ch32_pfic_resync_pending_meip (mret_released n m)))"
proof -
  let ?p = "ch32_pfic_resync_pending_meip (mret_released n m)"
  consider "served irq_asserted ?p" | "owner ?p = 0" using pending_free[of "mret_released n m"] by auto
  then show ?thesis
  proof cases
    case 1
    then have "ch32_pfic_resync_software_pending ?p = ?p"
      by (simp add: ch32_pfic_resync_software_pending_def served_def)
    then show ?thesis using 1 by (simp add: on_mret_alt served_cpu_irq)
  next
    case 2
    from software_resync_cases[OF this] show ?thesis
    proof
      assume "(\<forall>wd < 8. software_pending wd ?p = 0) \<and> ch32_pfic_resync_software_pending ?p = ?p"
      then show ?thesis using assms 2 by (simp add: on_mret_alt)
    next
      assume "\<exists>wd < 8. software_pending wd ?p \<noteq> 0 \<and> (\<forall>k < wd. software_pending k ?p = 0) \<and>
        ch32_pfic_resync_software_pending ?p = ch32_pfic_inject_meip_for_irq wd (software_pending wd ?p) ?p"
      then obtain wd where wd: "software_pending wd ?p \<noteq> 0"
        "ch32_pfic_resync_software_pending ?p = ch32_pfic_inject_meip_for_irq wd (software_pending wd ?p) ?p"
        by blast
      then have "owner (ch32_pfic_on_mret n m) = of_nat (wd * 32 + ctz (software_pending wd ?p))"
        using inject_facts(1)[OF 2 wd(1)] by (simp only: on_mret_alt owner_ops wd(2))
      then show ?thesis using software_irq_ctz[OF wd(1)] by blast
    qed
  qed
qed

end
