(* ===== verification/Ch32_RccIo.thy ===== *)
theory Ch32_RccIo
  imports Ch32_Resync
begin

text \<open>
  Writes to the RCC (\<open>ch32_rcc_write\<close>), which settle SysTick and the timers when the clock tree
  changes and reset the backup domain, and the backup domain itself (\<open>ch32-bkp.c\<close>).
\<close>

section \<open>Backup registers\<close>

definition ch32_bkp_reset :: "machine \<Rightarrow> machine" where
  "ch32_bkp_reset m = m\<lparr>bkp_datar := replicate 42 0, bkp_octlr := 0, bkp_tpcsr := 0\<rparr>"

definition ch32_bkp_addr_to_idx :: "u32 \<Rightarrow> nat option" where
  "ch32_bkp_addr_to_idx addr =
     (if addr \<ge> 0x04 \<and> addr \<le> 0x28 \<and> (addr - 4) AND 3 = 0 then Some (unat (addr - 4) div 4)
      else if addr \<ge> 0x40 \<and> addr \<le> 0xF0 \<and> (addr - 0x40) AND 3 = 0 then
        Some (10 + unat (addr - 0x40) div 4)
      else None)"

definition CH32_BKP_NREGS :: nat where "CH32_BKP_NREGS = 42"

text \<open>The guard both handlers put on the index.\<close>

definition bkp_idx :: "u32 \<Rightarrow> nat option" where
  "bkp_idx addr =
     (case ch32_bkp_addr_to_idx (addr AND NOT 3) of
        Some idx \<Rightarrow> if idx < CH32_BKP_NREGS then Some idx else None
      | None \<Rightarrow> None)"

definition ch32_bkp_read :: "u32 \<Rightarrow> nat \<Rightarrow> machine \<Rightarrow> u32" where
  "ch32_bkp_read addr sz m =
     (let a = addr AND NOT 3 in
      case bkp_idx addr of
        Some idx \<Rightarrow>
          let v = ucast (bkp_datar m ! idx) :: u32
          in if sz = 1 then drop_bit (unat (addr AND 3) * 8) v AND 0xff else v AND 0xffff
      | None \<Rightarrow>
          if a = 0x2c then bkp_octlr m else if a = 0x30 \<or> a = 0x34 then bkp_tpcsr m else 0)"

definition ch32_bkp_write :: "u32 \<Rightarrow> u32 \<Rightarrow> nat \<Rightarrow> machine \<Rightarrow> machine" where
  "ch32_bkp_write addr v sz m =
     (let a = addr AND NOT 3 in
      case bkp_idx addr of
        Some idx \<Rightarrow> m\<lparr>bkp_datar := (bkp_datar m)[idx := ucast (v AND 0xffff)]\<rparr>
      | None \<Rightarrow>
          if a = 0x2c then m\<lparr>bkp_octlr := v\<rparr>
          else if a = 0x30 \<or> a = 0x34 then m\<lparr>bkp_tpcsr := v\<rparr> else m)"

text \<open>The offset of backup register \<open>i\<close>: ten low ones, then the thirty-two high ones.\<close>

definition bkp_offset :: "nat \<Rightarrow> u32" where
  "bkp_offset i = (if i < 10 then of_nat (4 + 4 * i) else of_nat (0x40 + 4 * (i - 10)))"

lemma bkp_idx_offset:
  assumes "i < CH32_BKP_NREGS"
  shows "bkp_idx (bkp_offset i) = Some i"
proof -
  have "list_all (\<lambda>k. bkp_idx (bkp_offset k) = Some k) [0..<42]" by code_simp
  then show ?thesis using assms by (simp add: list_all_iff CH32_BKP_NREGS_def)
qed

text \<open>The backup data registers store what is written: a halfword written to one register is read back
  from it, the other registers keep their values, and setting the backup domain reset bit clears
  every one of them.\<close>

theorem bkp_registers_store:
  assumes "length (bkp_datar m) = CH32_BKP_NREGS" "i < CH32_BKP_NREGS" "j < CH32_BKP_NREGS"
  shows "ch32_bkp_read (bkp_offset j) 2 (ch32_bkp_write (bkp_offset i) v 2 m) =
      (if i = j then v AND 0xffff else ch32_bkp_read (bkp_offset j) 2 m) \<and>
    ch32_bkp_read (bkp_offset j) 2 (ch32_bkp_reset m) = 0"
proof -
  have "take_bit 16 (ucast (ucast (take_bit 16 v) :: u16) :: u32) = take_bit 16 v"
    by (rule bit_word_eqI) (auto simp: bit_simps)
  then show ?thesis
    using assms by (simp add: ch32_bkp_read_def ch32_bkp_write_def ch32_bkp_reset_def bkp_idx_offset Let_def
        CH32_BKP_NREGS_def and_ffff_take_bit)
qed

lemma bkp_registers_store_witness:
  "\<forall>m. ch32_bkp_read (bkp_offset 41) 2 (ch32_bkp_write (bkp_offset 41) 0x12345 2 (ch32_bkp_reset m)) = 0x2345"
proof
  fix m
  have "length (bkp_datar (ch32_bkp_reset m)) = CH32_BKP_NREGS"
    by (simp add: ch32_bkp_reset_def CH32_BKP_NREGS_def)
  from bkp_registers_store[OF this, of 41 41 "0x12345"]
  show "ch32_bkp_read (bkp_offset 41) 2 (ch32_bkp_write (bkp_offset 41) 0x12345 2 (ch32_bkp_reset m)) = 0x2345" by (simp add: CH32_BKP_NREGS_def)
qed

section \<open>RCC writes\<close>

definition rcc_ro_mask :: "u32 \<Rightarrow> u32" where
  "rcc_ro_mask aligned_addr =
     (if aligned_addr = 0 then RCC_RDY_MASK else if aligned_addr = 4 then RCC_SWS_MASK else 0)"

text \<open>The value a write stores: read-only bits cleared, the written bytes merged.\<close>

definition rcc_merge :: "u32 \<Rightarrow> u32 \<Rightarrow> nat \<Rightarrow> u32 \<Rightarrow> u32" where
  "rcc_merge addr val sz v =
     (let sh = unat (addr AND 3) * 8;
          mask = (if sz = 1 then push_bit sh 0xFF else push_bit sh 0xFFFF) :: u32;
          new_val = (if sz = 1 \<or> sz = 2 then (v AND NOT mask) OR (push_bit sh val AND mask) else val)
      in new_val AND NOT (rcc_ro_mask (addr AND NOT 3)))"

definition ch32_rcc_write :: "u32 \<Rightarrow> u32 \<Rightarrow> nat \<Rightarrow> machine \<Rightarrow> machine" where
  "ch32_rcc_write addr val sz m =
     (let aligned_addr = addr AND NOT 3 in
      if addr \<ge> 0x80 \<or> aligned_addr \<ge> 0x80 then m
      else if sz \<noteq> 1 \<and> sz \<noteq> 2 \<and> sz \<noteq> 4 then m
      else
        let v = rcc_words m ! (unat aligned_addr div 4) AND NOT (rcc_ro_mask aligned_addr);
            new_val = rcc_merge addr val sz v;
            m1 = m\<lparr>rcc_words := (rcc_words m)[unat aligned_addr div 4 := new_val]\<rparr>;
            m2 = (if aligned_addr = 4 \<and> (v XOR new_val) AND RCC_CFGR0_CLOCK_MASK \<noteq> 0
                  then ch32_tim_rcc_clock_changed (ch32_stk_rcc_clock_changed m1) else m1)
        in if aligned_addr = 0x20 \<and> bit new_val 16 then ch32_bkp_reset m2 else m2)"

end
