(* ===== verification/Ch32_Machine.thy ===== *)
theory Ch32_Machine
  imports Ch32_RccIo
begin

text \<open>
  The machine as a transition system: every MMIO handler, timer callback, backend callback and CPU
  event that takes part in the interrupt network is one step, and each resync runs with the rescan
  of \<open>Ch32_Resync\<close>. The theory states the invariant of reachable machines and shows that every
  step keeps it.
\<close>

named_theorems inv_simps
named_theorems inv_intros

section \<open>The external line has an owner\<close>

definition line_ok :: "machine \<Rightarrow> bool" where
  "line_ok m \<longleftrightarrow> (bit (mip (m_cpu m)) 11 \<longrightarrow> owner m \<noteq> 0)"

lemma line_ok_cpu: "m_cpu m = m_cpu m' \<Longrightarrow> line_ok m = line_ok m'"
  by (simp add: line_ok_def)

lemma line_update_mip:
  "bit (mip (riscv_cpu_update_mip MIP_MEIP MIP_MEIP e)) 11"
  "\<not> bit (mip (riscv_cpu_update_mip MIP_MEIP 0 e)) 11"
  "bit (mip (riscv_cpu_update_mip MIP_MSIP b e)) 11 = bit (mip e) 11"
  "bit (mip (riscv_cpu_update_mip MIP_MTIP b e)) 11 = bit (mip e) 11"
  "bit (mip (riscv_cpu_update_mip (MIP_MTIP OR MIP_MSIP) b e)) 11 = bit (mip e) 11"
proof -
  have s: "bit MIP_MSIP n \<longleftrightarrow> n = 3" "bit MIP_MTIP n \<longleftrightarrow> n = 7" for n
    by (unfold MIP_MSIP_def MIP_MTIP_def, (subst bit_push_bit_iff, simp add: bit_1_iff, arith)+)
  show "bit (mip (riscv_cpu_update_mip MIP_MEIP MIP_MEIP e)) 11"
    "\<not> bit (mip (riscv_cpu_update_mip MIP_MEIP 0 e)) 11"
    "bit (mip (riscv_cpu_update_mip MIP_MSIP b e)) 11 = bit (mip e) 11"
    "bit (mip (riscv_cpu_update_mip MIP_MTIP b e)) 11 = bit (mip e) 11"
    "bit (mip (riscv_cpu_update_mip (MIP_MTIP OR MIP_MSIP) b e)) 11 = bit (mip e) 11"
    by (simp_all add: mip_update_mip bit_simps s)
qed

lemma line_active [inv_simps]:
  "line_ok (ch32_pfic_irq_active_set n m) = line_ok m"
  "line_ok (ch32_pfic_irq_active_clear n m) = line_ok m"
  by (simp_all add: line_ok_def ch32_pfic_irq_active_set_def ch32_pfic_irq_active_clear_def Let_def)

lemma line_ops [inv_simps]:
  "line_ok (meip_claim n m) \<longleftrightarrow> (of_nat n :: u32) \<noteq> 0" "line_ok (meip_lower m)"
  "line_ok (meip_release n m)" "line_ok (meip_disable m) = line_ok m"
  "line_ok (cpu_irq m) = line_ok m" "line_ok (meip_enable m) = line_ok m"
  "line_ok (meip_take n m) \<longleftrightarrow> (of_nat n :: u32) \<noteq> 0"
  "line_ok (env_upd (riscv_cpu_update_mip MIP_MEIP MIP_MEIP) m) \<longleftrightarrow> owner m \<noteq> 0"
  "line_ok (env_upd (riscv_cpu_update_mip MIP_MSIP b) m) = line_ok m"
  "line_ok (env_upd (riscv_cpu_update_mip MIP_MTIP b) m) = line_ok m"
  "line_ok (env_upd (riscv_cpu_update_mip (MIP_MTIP OR MIP_MSIP) b) m) = line_ok m"
  "line_ok (env_upd (\<lambda>e. e\<lparr>mie := f e\<rparr>) m) = line_ok m"
  "line_ok (ch32_stk_clear_mtip m) = line_ok m"
  "line_ok (env_upd (riscv_cpu_update_mip MIP_MEIP MIP_MEIP \<circ>
     (\<lambda>e. e\<lparr>mie := f e, wch_evt_mcause_override := k\<rparr>)) m) \<longleftrightarrow> k \<noteq> 0"
  "line_ok (env_upd (riscv_cpu_update_mip MIP_MSIP b \<circ> (\<lambda>e. e\<lparr>mie := f e\<rparr>)) m) = line_ok m"
  by (simp_all add: line_ok_def meip_claim_def meip_lower_def meip_release_def meip_disable_def
      cpu_irq_def meip_enable_def meip_take_def ch32_stk_clear_mtip_def line_update_mip bit_simps
      ch32_pfic_irq_active_clear_def ch32_pfic_irq_active_set_def Let_def)

lemma line_frames [inv_simps]:
  "line_ok (m_pfic_update p m) = line_ok m" "line_ok (m_usart1_update u m) = line_ok m"
  "line_ok (m_lite_update l m) = line_ok m" "line_ok (m_tims_update t m) = line_ok m"
  "line_ok (m_dma_update d m) = line_ok m" "line_ok (m_eth10m_update e m) = line_ok m"
  "line_ok (m_eth_update h m) = line_ok m" "line_ok (m_stk_update s m) = line_ok m"
  "line_ok (stk_timer_update q m) = line_ok m"
  by (simp_all add: line_ok_def)

text \<open>A resync keeps the line owned if the rescan it may ask for does.\<close>

definition keeps_line :: "(machine \<Rightarrow> machine) \<Rightarrow> bool" where
  "keeps_line f \<longleftrightarrow> (\<forall>m. line_ok m \<longrightarrow> line_ok (f m))"

lemma keeps_lineD: "keeps_line f \<Longrightarrow> line_ok m \<Longrightarrow> line_ok (f m)"
  by (simp add: keeps_line_def)

lemma line_usart1: "keeps_line r \<Longrightarrow> keeps_line (ch32_usart1_meip_resync r)"
  by (auto simp: keeps_line_def ch32_usart1_meip_resync_def Let_def inv_simps CH32_USART1_NVIC_IRQ_def)

lemma line_lite: "(of_nat n :: u32) \<noteq> 0 \<Longrightarrow> keeps_line r \<Longrightarrow> keeps_line (usart_lite_meip_one i n r)"
  by (auto simp: keeps_line_def usart_lite_meip_one_def Let_def inv_simps)

lemma line_tim: "(of_nat n :: u32) \<noteq> 0 \<Longrightarrow> keeps_line r \<Longrightarrow> keeps_line (ch32_tim_meip_update i n r)"
  by (auto simp: keeps_line_def ch32_tim_meip_update_def Let_def inv_simps)

lemma line_e10: "keeps_line r \<Longrightarrow> keeps_line (ch32_eth_10m_meip_resync r)"
  by (auto simp: keeps_line_def ch32_eth_10m_meip_resync_def eth_10m_meip_withdraw_def
      eth_10m_meip_inject_def Let_def inv_simps CH32_ETH_10M_IRQ_N_def split: option.splits)

lemma line_eth: "keeps_line r \<Longrightarrow> keeps_line (ch32_eth_meip_resync r)"
  by (auto simp: keeps_line_def ch32_eth_meip_resync_def Let_def inv_simps CH32_ETH_IRQ_N_def
      split: option.splits)

lemma line_usb:
  "keeps_line r \<Longrightarrow> keeps_line (ch32_usbhost_meip_resync r)"
  "keeps_line r \<Longrightarrow> keeps_line (ch32_usbfs_host_meip_resync r)"
  by (auto simp: keeps_line_def ch32_usbhost_meip_resync_def ch32_usbfs_host_meip_resync_def
      usb_meip_resync_def Let_def inv_simps CH32_USBHS_NVIC_IRQ_def CH32_USBFS_NVIC_IRQ_def)

lemma line_fire: "(of_nat n :: u32) \<noteq> 0 \<Longrightarrow> keeps_line (ch32_dma_fire_irq n)"
  by (auto simp: keeps_line_def ch32_dma_fire_irq_def inv_simps)

lemma line_dma:
  "(of_nat (snd (snd (snd c))) :: u32) \<noteq> 0 \<Longrightarrow> keeps_line (dma_chan_resync c r)"
  using line_fire by (auto simp: keeps_line_def dma_chan_resync_def)

lemma line_sw_stk: "keeps_line ch32_pfic_sw_irq_miesync" "keeps_line ch32_stk_schedule"
  by (auto simp: keeps_line_def ch32_pfic_sw_irq_miesync_def ch32_stk_schedule_def Let_def inv_simps)

lemma line_run:
  assumes "list_all (\<lambda>u. keeps_line (snd u r)) us"
  shows "keeps_line (run_units us r)"
  using assms by (induction us) (auto simp: keeps_line_def)

lemma line_units:
  assumes r: "keeps_line r"
  shows "list_all (\<lambda>u. keeps_line (snd u r)) pfic_units"
proof -
  have "list_all (\<lambda>u. keeps_line (snd u r)) lite_units"
    using line_lite[OF lite_irq_nonzero r] by (auto simp: lite_units_def list_all_iff)
  moreover have "list_all (\<lambda>u. keeps_line (snd u r)) tim_units"
    using line_tim[OF tim_irqn_nonzero r] by (auto simp: tim_units_def list_all_iff)
  moreover have "list_all (\<lambda>u. keeps_line (snd u r)) dma_units"
    using line_dma[OF dma_chan_nonzero] by (auto simp: dma_units_def list_all_iff)
  ultimately show ?thesis
    using line_sw_stk line_usart1[OF r] line_e10[OF r] line_eth[OF r] line_usb[OF r]
    unfolding pfic_units_def list_all_append by simp
qed

lemma line_rescan: "keeps_line (bounded_rescan pfic_units k)"
proof (induction k)
  case 0
  then show ?case by (simp add: keeps_line_def line_ok_def)
next
  case (Suc k)
  from line_run[OF line_units[OF this]] show ?case by (simp add: keeps_line_def)
qed

lemma line_pending: "keeps_line ch32_pfic_resync_pending_meip"
proof -
  have "ch32_pfic_resync_pending_meip = bounded_rescan pfic_units 2"
    by (simp add: fun_eq_iff pending_meip_units)
  then show ?thesis by (rule ssubst) (rule line_rescan)
qed

section \<open>The invariant\<close>

text \<open>
  At most one VTF handler is active, no rescan ran out of its bound, a pending external interrupt
  has an owner, and the reserved interrupt 0 is not enabled.
\<close>

definition machine_inv :: "machine \<Rightarrow> bool" where
  "machine_inv m \<longleftrightarrow> wch_vtf_in_isr (m_cpu m) \<le> 1 \<and> \<not> out_of_fuel m \<and> line_ok m \<and> \<not> ienr_on 0 m"

abbreviation rescan :: "machine \<Rightarrow> machine" where
  "rescan \<equiv> ch32_pfic_resync_pending_meip"

text \<open>A resync function keeps the invariant: the contract of its unit does the work.\<close>

lemma inv_view:
  assumes "machine_inv m" "meip_view m' = meip_view m" "out_of_fuel m' = out_of_fuel m" "line_ok m'"
  shows "machine_inv m'"
  using assms view_fields(2)[OF assms(2)] view_ienr_on[OF assms(2)] by (simp add: machine_inv_def)

lemma inv_unit:
  assumes "(N, D) \<in> set pfic_units" "machine_inv m"
  shows "machine_inv (D rescan m)"
proof (rule inv_view[OF assms(2)])
  show "meip_view (D rescan m) = meip_view m"
    by (rule meip_unit.frame[OF net.units[OF assms(1)] pending_view])
  show "out_of_fuel (D rescan m) = out_of_fuel m"
    by (rule net.unit_fuel[OF assms(1)]) simp
  show "line_ok (D rescan m)"
    using line_units[OF line_pending] assms by (force simp: list_all_iff machine_inv_def keeps_line_def)
qed

lemma inv_run:
  "set us \<subseteq> set pfic_units \<Longrightarrow> machine_inv m \<Longrightarrow> machine_inv (run_units us rescan m)"
proof (induction us arbitrary: m)
  case (Cons u us)
  then show ?case using inv_unit[of "fst u" "snd u" m] by simp
qed simp

lemma inv_resync [inv_intros]:
  assumes "machine_inv m"
  shows "machine_inv (ch32_pfic_sw_irq_miesync m)" "machine_inv (ch32_stk_schedule m)"
    "machine_inv (ch32_usart1_meip_resync rescan m)" "machine_inv (ch32_usart_lite_meip_resync rescan m)"
    "machine_inv (ch32_tim_meip_resync_all rescan m)" "machine_inv (ch32_eth_10m_meip_resync rescan m)"
    "machine_inv (ch32_eth_meip_resync rescan m)" "machine_inv (ch32_usbhost_meip_resync rescan m)"
    "machine_inv (ch32_usbfs_host_meip_resync rescan m)" "machine_inv (ch32_dma_meip_resync rescan m)"
    "machine_inv (rescan m)"
proof -
  show "machine_inv (ch32_pfic_sw_irq_miesync m)" "machine_inv (ch32_stk_schedule m)"
    "machine_inv (ch32_usart1_meip_resync rescan m)" "machine_inv (ch32_eth_10m_meip_resync rescan m)"
    "machine_inv (ch32_eth_meip_resync rescan m)" "machine_inv (ch32_usbhost_meip_resync rescan m)"
    "machine_inv (ch32_usbfs_host_meip_resync rescan m)"
    by (rule inv_unit[OF _ assms, of "of_nat CH32_PFIC_SW_IRQ_BIT" "\<lambda>r. ch32_pfic_sw_irq_miesync"]
        inv_unit[OF _ assms, of "of_nat CH32_SYSTICK_NVIC_BIT" "\<lambda>r. ch32_stk_schedule"]
        inv_unit[OF _ assms, of "of_nat CH32_USART1_NVIC_IRQ" ch32_usart1_meip_resync]
        inv_unit[OF _ assms, of "of_nat CH32_ETH_10M_IRQ_N" ch32_eth_10m_meip_resync]
        inv_unit[OF _ assms, of "of_nat CH32_ETH_IRQ_N" ch32_eth_meip_resync]
        inv_unit[OF _ assms, of "of_nat CH32_USBHS_NVIC_IRQ" ch32_usbhost_meip_resync]
        inv_unit[OF _ assms, of "of_nat CH32_USBFS_NVIC_IRQ" ch32_usbfs_host_meip_resync],
        simp add: pfic_units_def)+
  show "machine_inv (ch32_usart_lite_meip_resync rescan m)"
    "machine_inv (ch32_tim_meip_resync_all rescan m)" "machine_inv (ch32_dma_meip_resync rescan m)"
    using inv_run[OF _ assms, of lite_units] inv_run[OF _ assms, of tim_units]
      inv_run[OF _ assms, of dma_units]
    by (simp_all add: run_lite_units run_tim_units run_dma_units) (auto simp: pfic_units_def)
  have "machine_inv (run_units pfic_units rescan m)" by (rule inv_run[OF subset_refl assms])
  then show "machine_inv (rescan m)" using pending_rec[of m] by (simp add: table_pass_units)
qed

lemma inv_tim_update [inv_intros]:
  assumes "i < 6" "machine_inv m"
  shows "machine_inv (ch32_tim_meip_update i (ch32_tim_irqn ! i) rescan m)"
  by (rule inv_unit[OF _ assms(2), of "of_nat (ch32_tim_irqn ! i)"])
    (use assms(1) in \<open>auto simp: pfic_units_def tim_units_def\<close>)

lemma inv_lite_one [inv_intros]:
  assumes "i < 7" "machine_inv m"
  shows "machine_inv (usart_lite_meip_one i (lite_irq ! i) rescan m)"
  by (rule inv_unit[OF _ assms(2), of "of_nat (lite_irq ! i)"])
    (use assms(1) in \<open>auto simp: pfic_units_def lite_units_def\<close>)

section \<open>Operations that only touch device state\<close>

lemma inv_cong:
  assumes "m_cpu m' = m_cpu m" "out_of_fuel m' = out_of_fuel m"
    "pfic_ienr (m_pfic m') ! 0 = pfic_ienr (m_pfic m) ! 0"
  shows "machine_inv m' = machine_inv m"
  using assms line_ok_cpu[OF assms(1)] by (simp add: machine_inv_def ienr_on_def)

lemma inv_frames [inv_simps]:
  "machine_inv (m_usart1_update u m) = machine_inv m" "machine_inv (m_lite_update l m) = machine_inv m"
  "machine_inv (m_tims_update t m) = machine_inv m" "machine_inv (m_dma_update d m) = machine_inv m"
  "machine_inv (m_eth10m_update e m) = machine_inv m" "machine_inv (m_eth_update h m) = machine_inv m"
  "machine_inv (m_stk_update s m) = machine_inv m" "machine_inv (stk_timer_update q m) = machine_inv m"
  "machine_inv (rcc_words_update w m) = machine_inv m" "machine_inv (clock_ns_update c m) = machine_inv m"
  "machine_inv (stk_epoch_ns_update c m) = machine_inv m"
  "machine_inv (stk_cnt_at_epoch_update c m) = machine_inv m"
  "machine_inv (bkp_datar_update bd m) = machine_inv m" "machine_inv (bkp_octlr_update bo m) = machine_inv m"
  "machine_inv (bkp_tpcsr_update bo m) = machine_inv m" "machine_inv (chr_out_update co m) = machine_inv m"
  "machine_inv (net_out_update no m) = machine_inv m" "machine_inv (m_ram_update mr m) = machine_inv m"
  "machine_inv (reset_requested_update rq m) = machine_inv m"
  "machine_inv (usbhs_reg_update ur m) = machine_inv m" "machine_inv (usbfs_reg_update ur m) = machine_inv m"
  "machine_inv (m_pfic_update (pfic_ipr_update p) m) = machine_inv m"
  "machine_inv (m_pfic_update (pfic_iactr_update p) m) = machine_inv m"
  "machine_inv (m_pfic_update (pfic_iprior_update ip) m) = machine_inv m"
  "machine_inv (m_pfic_update (pfic_ithresdr_update th) m) = machine_inv m"
  "machine_inv (m_pfic_update (pfic_sctlr_update th) m) = machine_inv m"
  "machine_inv (m_pfic_update (pfic_vtfidr_update ip) m) = machine_inv m"
  "machine_inv (m_pfic_update (pfic_vtfaddr_update p) m) = machine_inv m"
  by (rule inv_cong; simp)+

lemma inv_dma_upd [inv_simps]: "machine_inv (dma_upd ref f m) = machine_inv m"
  by (cases ref) (simp_all add: inv_simps)

lemma inv_stk_mip [inv_simps]:
  "machine_inv (ch32_stk_clear_mtip m) = machine_inv m"
  "machine_inv (cpu_irq m) = machine_inv m"
  "machine_inv (env_upd (riscv_cpu_update_mip MIP_MSIP b) m) = machine_inv m"
  "machine_inv (env_upd (riscv_cpu_update_mip MIP_MTIP b) m) = machine_inv m"
  "machine_inv (ch32_stk_mtie_ensure m) = machine_inv m"
  "machine_inv (env_upd (riscv_cpu_update_mip MIP_MTIP b \<circ> (\<lambda>e. e\<lparr>mie := f e\<rparr>)) m) = machine_inv m"
  by (simp_all add: machine_inv_def line_ok_def line_update_mip ch32_stk_clear_mtip_def cpu_irq_def
      ch32_stk_mtie_ensure_def ienr_on_def)

lemma line_of_inv: "machine_inv m \<Longrightarrow> line_ok m"
  by (simp add: machine_inv_def)

lemma inv_release [inv_intros]:
  "machine_inv m \<Longrightarrow> machine_inv (meip_release n m)" "machine_inv m \<Longrightarrow> machine_inv (meip_disable m)"
  by (rule inv_view, assumption, simp add: frame_simps, simp, simp add: inv_simps line_of_inv)+

text \<open>Handlers are nests of conditionals over the operations above.\<close>

lemma inv_if [inv_simps]:
  "machine_inv (if c then a else b) = (if c then machine_inv a else machine_inv b)"
  "machine_inv (snd (if c then p else q)) = (if c then machine_inv (snd p) else machine_inv (snd q))"
  by simp_all

lemma inv_sw_pending [inv_intros]: "machine_inv m \<Longrightarrow> machine_inv (ch32_pfic_sw_irq_set_pending m)"
  by (simp add: ch32_pfic_sw_irq_set_pending_def inv_simps)

subsection \<open>SysTick, clocks and backup registers\<close>

lemma inv_set_cnt [inv_simps]: "machine_inv (ch32_stk_set_cnt c m) = machine_inv m"
  unfolding ch32_stk_set_cnt_def by (rule inv_cong; simp)

lemma inv_stk_tick: "machine_inv m \<Longrightarrow> machine_inv (ch32_stk_tick m)"
  by (simp add: ch32_stk_tick_def Let_def inv_simps inv_intros cong: if_cong split del: if_split)

lemma inv_stk_write: "machine_inv m \<Longrightarrow> machine_inv (ch32_stk_write a v sz m)"
  by (simp add: ch32_stk_write_def Let_def inv_simps inv_intros cong: if_cong split del: if_split)

lemma inv_stk_clock [inv_intros]: "machine_inv m \<Longrightarrow> machine_inv (ch32_stk_rcc_clock_changed m)"
  by (auto simp: ch32_stk_rcc_clock_changed_def Let_def inv_simps intro!: inv_intros)

lemma inv_tim_schedule [inv_simps]: "machine_inv (ch32_tim_schedule i m) = machine_inv m"
  by (simp add: ch32_tim_schedule_def inv_simps)

lemma inv_fold:
  assumes "\<And>i m. i \<in> set is \<Longrightarrow> machine_inv m \<Longrightarrow> machine_inv (f i m)" "machine_inv m"
  shows "machine_inv (fold f is m)"
  using assms by (induction "is" arbitrary: m) auto

lemma inv_tim_clock [inv_intros]: "machine_inv m \<Longrightarrow> machine_inv (ch32_tim_rcc_clock_changed m)"
  unfolding ch32_tim_rcc_clock_changed_def
  by (rule inv_fold) (auto simp: tim_clock_changed_one_def Let_def inv_simps)

lemma inv_bkp [inv_simps]: "machine_inv (ch32_bkp_reset m) = machine_inv m"
  "machine_inv (ch32_bkp_write a v sz m) = machine_inv m"
  by (simp_all add: ch32_bkp_reset_def ch32_bkp_write_def Let_def inv_simps split: option.splits)

lemma inv_rcc_write: "machine_inv m \<Longrightarrow> machine_inv (ch32_rcc_write a v sz m)"
  by (simp add: ch32_rcc_write_def Let_def inv_simps inv_intros cong: if_cong split del: if_split)

subsection \<open>Timers\<close>

lemma inv_tim_tick: "i < 6 \<Longrightarrow> machine_inv m \<Longrightarrow> machine_inv (ch32_tim_tick i rescan m)"
  by (simp add: ch32_tim_tick_def Let_def inv_simps inv_intros cong: if_cong split del: if_split)

lemma inv_tim_write: "i < 6 \<Longrightarrow> machine_inv m \<Longrightarrow> machine_inv (ch32_tim_write i rescan a v sz m)"
  by (simp add: ch32_tim_write_def tim_write_reg_def Let_def inv_simps inv_intros
      cong: if_cong split del: if_split split: option.split)


subsection \<open>DMA and the address space\<close>

text \<open>
  What the model takes from outside: the address space, guest memory, the network queue, the
  character backend, the guest instruction fetch of vector tables, the epc mask, and the size of SRAM.
\<close>

record host =
  h_asr :: as_read
  h_asw :: as_write
  h_pread :: pmem_read
  h_pwrite :: pmem_write
  h_flush :: "machine \<Rightarrow> machine"
  h_sram :: "u64 option"
  h_chr :: "u8 list \<Rightarrow> u8 \<Rightarrow> bool"
  h_ldl :: "u64 \<Rightarrow> u32 option"
  h_xepc_mask :: u32

text \<open>
  The parts that may reach back into the machine keep the invariant: an access of the DMA engine
  ends in RAM or in one of the handlers below.
\<close>

definition host_ok :: "host \<Rightarrow> bool" where
  "host_ok h \<longleftrightarrow>
     (\<forall>a n m. machine_inv m \<longrightarrow> machine_inv (snd (h_asr h a n m))) \<and>
     (\<forall>a bs m. machine_inv m \<longrightarrow> machine_inv (snd (h_asw h a bs m))) \<and>
     (\<forall>a bs m. machine_inv m \<longrightarrow> machine_inv (h_pwrite h a bs m)) \<and>
     (\<forall>m. machine_inv m \<longrightarrow> machine_inv (h_flush h m))"

lemma host_okD [inv_intros]:
  assumes "host_ok h" "machine_inv m"
  shows "machine_inv (snd (h_asr h a n m))" "machine_inv (snd (h_asw h a bs m))"
    "machine_inv (h_pwrite h b bs m)" "machine_inv (h_flush h m)"
  using assms by (auto simp: host_ok_def)

lemma inv_dma_copy [inv_intros]:
  assumes h: "host_ok h" and m: "machine_inv m"
  shows "machine_inv (snd (dma_copy (h_asr h) (h_asw h) sinc dinc ssz dsz n src dst m))"
  using m
proof (induction n arbitrary: src dst m)
  case (Suc n)
  obtain ob m1 where 1: "h_asr h src ssz m = (ob, m1)" by fastforce
  have m1: "machine_inv m1" using host_okD(1)[OF h Suc.prems, of src ssz] 1 by simp
  show ?case
  proof (cases ob)
    case (Some bs)
    obtain b m2 where 2: "h_asw h dst (dma_convert dsz bs) m1 = (b, m2)" by fastforce
    have "machine_inv m2" using host_okD(2)[OF h m1, of dst] 2 by (metis snd_conv)
    then show ?thesis using Suc.IH 1 2 Some by (cases b) auto
  qed (use 1 m1 in simp)
qed simp

lemma inv_claim_meip [inv_intros]:
  assumes "machine_inv m" "(of_nat n :: u32) \<noteq> 0"
  shows "machine_inv (env_upd (riscv_cpu_update_mip MIP_MEIP MIP_MEIP \<circ>
     (\<lambda>e. e\<lparr>mie := f e, wch_evt_mcause_override := of_nat n\<rparr>)) m)"
    "machine_inv (meip_claim n m)"
proof -
  show "machine_inv (meip_claim n m)"
    using assms by (intro inv_view[OF assms(1)]) (simp_all add: frame_simps inv_simps)
  show "machine_inv (env_upd (riscv_cpu_update_mip MIP_MEIP MIP_MEIP \<circ>
     (\<lambda>e. e\<lparr>mie := f e, wch_evt_mcause_override := of_nat n\<rparr>)) m)"
    using assms by (intro inv_view[OF assms(1)]) (simp_all add: view_env update_mip_view inv_simps)
qed

lemma inv_fire [inv_intros]:
  "machine_inv m \<Longrightarrow> (of_nat n :: u32) \<noteq> 0 \<Longrightarrow> machine_inv (ch32_dma_fire_irq n m)"
  by (simp add: ch32_dma_fire_irq_def inv_simps inv_intros cong: if_cong split del: if_split)

lemma dma_decode_irq:
  assumes "dma_decode a = Some ((ref, k, ch, n), off)"
  shows "(of_nat n :: u32) \<noteq> 0"
proof -
  have 1: "list_all (\<lambda>n. (of_nat n :: u32) \<noteq> 0) dma1_ch_irq" "length dma1_ch_irq = 7"
    and 2: "list_all (\<lambda>n. (of_nat n :: u32) \<noteq> 0) dma2_ch_irq" "length dma2_ch_irq = 11"
    by (simp_all add: dma1_ch_irq_def dma2_ch_irq_def)
  have "i < 7 \<Longrightarrow> dma1_ch_irq ! i \<in> set dma1_ch_irq" "i < 11 \<Longrightarrow> dma2_ch_irq ! i \<in> set dma2_ch_irq" for i
    using 1(2) 2(2) by (simp_all add: nth_mem)
  then have "n \<in> set dma1_ch_irq \<or> n \<in> set dma2_ch_irq"
    using assms by (auto simp: dma_decode_def Let_def split: if_splits)
  then show ?thesis using 1(1) 2(1) by (auto simp: list_all_iff)
qed

lemma inv_dma_exec [inv_intros]:
  assumes "host_ok h" "machine_inv m" "(of_nat n :: u32) \<noteq> 0"
  shows "machine_inv (ch32_dma_exec (h_asr h) (h_asw h) (ref, k, ch, n) m)"
  using assms
  by (simp add: ch32_dma_exec_def Let_def split_beta inv_simps inv_intros cong: if_cong split del: if_split)

lemma inv_intfcr [inv_intros]: "machine_inv m \<Longrightarrow> machine_inv (dma_intfcr_write k v m)"
proof -
  have "machine_inv (env_upd (\<lambda>e. e\<lparr>wch_evt_mcause_override := 0\<rparr>) (meip_lower x))"
    if "machine_inv x" for x
    by (rule inv_view[OF that]) (simp_all add: frame_simps, simp add: line_ok_def meip_lower_def bit_simps)
  then show "machine_inv m \<Longrightarrow> machine_inv (dma_intfcr_write k v m)"
    by (auto simp: dma_intfcr_write_def Let_def inv_simps split: option.splits)
qed

lemma inv_dma_write: "host_ok h \<Longrightarrow> machine_inv m \<Longrightarrow> machine_inv (ch32_dma_write (h_asr h) (h_asw h) a v m)"
  using dma_decode_irq
  by (auto simp: ch32_dma_write_def Let_def inv_simps inv_intros split: option.split)


subsection \<open>Serial ports\<close>

lemma inv_write_byte [inv_intros]:
  "host_ok h \<Longrightarrow> machine_inv m \<Longrightarrow> machine_inv (ch32_dma_write_byte (h_asw h) ref b m)"
  by (simp add: ch32_dma_write_byte_def Let_def inv_simps inv_intros cong: if_cong split del: if_split)

lemma inv_finish [inv_intros]:
  "machine_inv m \<Longrightarrow> (of_nat n :: u32) \<noteq> 0 \<Longrightarrow> machine_inv (ch32_dma_finish_channel ref k c n m)"
  by (simp add: ch32_dma_finish_channel_def Let_def inv_simps inv_intros cong: if_cong split del: if_split)

lemma inv_rx_pump [inv_intros]:
  "host_ok h \<Longrightarrow> machine_inv m \<Longrightarrow> machine_inv (ch32_usart1_dma_rx_pump (h_asw h) m)"
  by (simp add: ch32_usart1_dma_rx_pump_def Let_def inv_simps inv_intros cong: if_cong split del: if_split)

lemma inv_rx_tick:
  "host_ok h \<Longrightarrow> machine_inv m \<Longrightarrow> machine_inv (ch32_usart1_rx_tick rescan (h_asw h) m)"
  by (simp add: ch32_usart1_rx_tick_def Let_def inv_simps inv_intros cong: if_cong split del: if_split)

lemma inv_usart1_receive: "machine_inv m \<Longrightarrow> machine_inv (ch32_usart1_receive bs m)"
  by (simp add: ch32_usart1_receive_def Let_def inv_simps cong: if_cong split del: if_split)

lemma inv_usart1_read: "machine_inv m \<Longrightarrow> machine_inv (snd (ch32_usart1_read rescan a sz m))"
  by (simp add: ch32_usart1_read_def Let_def split_beta inv_simps inv_intros cong: if_cong
      split del: if_split)

lemma inv_usart1_write: "machine_inv m \<Longrightarrow> machine_inv (ch32_usart1_write rescan a v m)"
  by (simp add: ch32_usart1_write_def Let_def inv_simps inv_intros cong: if_cong split del: if_split)

lemma inv_usart1_reset: "machine_inv m \<Longrightarrow> machine_inv (ch32_usart1_reset m)"
  by (simp add: ch32_usart1_reset_def Let_def inv_simps inv_intros cong: if_cong split del: if_split)

text \<open>The drain loop is a partial function: its fixed-point induction gives the invariant.\<close>

lemma inv_drain_loop:
  assumes "tx_drain_loop cw ch m = Some y"
  shows "machine_inv m \<longrightarrow> machine_inv (snd (snd y))"
  by (rule tx_drain_loop.raw_induct[OF _ assms, of "\<lambda>cw ch m y. machine_inv m \<longrightarrow> machine_inv (snd (snd y))"])
    (fastforce simp: Let_def inv_simps split: if_splits)

lemma inv_tx_drain:
  assumes "ch32_usart1_tx_drain rescan cw m = Some m'" "machine_inv m"
  shows "machine_inv m'"
proof -
  obtain c s m1 where d: "tx_drain_loop cw False m = Some (c, s, m1)"
    using assms(1) by (auto simp: ch32_usart1_tx_drain_def split: option.splits)
  have "machine_inv m1" using inv_drain_loop[OF d] assms(2) by simp
  then show ?thesis using assms(1) d
    by (auto simp: ch32_usart1_tx_drain_def Let_def inv_simps inv_intros split: if_splits)
qed

lemma inv_lite_finish [inv_intros]:
  "machine_inv m \<Longrightarrow> (of_nat (dma_rx_irq c) :: u32) \<noteq> 0 \<Longrightarrow>
     machine_inv (ch32_usart_lite_dma_rx_finish ref c m)"
  by (simp add: ch32_usart_lite_dma_rx_finish_def Let_def split_beta inv_intros)

lemma inv_lite_pump [inv_intros]:
  "host_ok h \<Longrightarrow> machine_inv m \<Longrightarrow> (of_nat (dma_rx_irq c) :: u32) \<noteq> 0 \<Longrightarrow>
     machine_inv (ch32_usart_lite_dma_rx_pump (h_asw h) i c m)"
  by (simp add: ch32_usart_lite_dma_rx_pump_def Let_def inv_simps inv_intros cong: if_cong
      split del: if_split split: option.split)

lemma lite_dma_irq: "i < 7 \<Longrightarrow> (of_nat (dma_rx_irq (lite_rx_dma ! i)) :: u32) \<noteq> 0"
proof -
  have "list_all (\<lambda>c. (of_nat (dma_rx_irq c) :: u32) \<noteq> 0) lite_rx_dma" by (simp add: lite_rx_dma_def)
  then show "i < 7 \<Longrightarrow> (of_nat (dma_rx_irq (lite_rx_dma ! i)) :: u32) \<noteq> 0"
    by (simp add: list_all_length lite_rx_dma_def)
qed

lemma inv_lite_push: "i < 7 \<Longrightarrow> machine_inv m \<Longrightarrow> machine_inv (ch32_usart_lite_push_rx_byte rescan i b m)"
  by (simp add: ch32_usart_lite_push_rx_byte_def Let_def inv_simps inv_intros cong: if_cong split del: if_split)

lemma inv_lite_read: "machine_inv m \<Longrightarrow> machine_inv (snd (ch32_usart_lite_read rescan i a sz m))"
  by (simp add: ch32_usart_lite_read_def Let_def split_beta inv_simps inv_intros cong: if_cong
      split del: if_split)

lemma inv_lite_write:
  "i < 7 \<Longrightarrow> host_ok h \<Longrightarrow> machine_inv m \<Longrightarrow>
     machine_inv (ch32_usart_lite_write rescan (h_asw h) i a v m)"
  by (simp add: ch32_usart_lite_write_def Let_def lite_dma_irq inv_simps inv_intros cong: if_cong
      split del: if_split)

subsection \<open>Ethernet and USB\<close>

lemma inv_e10_raise [inv_intros]:
  "machine_inv m \<Longrightarrow> machine_inv (eth_10m_raise_eir rescan b m)"
  "machine_inv m \<Longrightarrow> machine_inv (eth_10m_update_irq rescan m)"
  by (simp_all add: eth_10m_raise_eir_def eth_10m_update_irq_def inv_simps inv_intros)

lemma inv_e10_tx [inv_intros]: "machine_inv m \<Longrightarrow> machine_inv (eth_10m_do_tx rescan pr sz m)"
  by (simp add: eth_10m_do_tx_def Let_def inv_simps inv_intros cong: if_cong split del: if_split)

lemma inv_e10_receive:
  "host_ok h \<Longrightarrow> machine_inv m \<Longrightarrow> machine_inv (snd (eth_10m_receive rescan (h_pwrite h) sz bs m))"
  by (simp add: eth_10m_receive_def Let_def inv_simps inv_intros cong: if_cong split del: if_split)

lemma inv_e10_link: "machine_inv m \<Longrightarrow> machine_inv (eth_10m_link_timer_cb rescan m)"
  by (simp add: eth_10m_link_timer_cb_def inv_simps inv_intros cong: if_cong split del: if_split)

lemma inv_e10_byte [inv_intros]:
  "host_ok h \<Longrightarrow> machine_inv m \<Longrightarrow>
     machine_inv (e10_write_byte rescan (h_pread h) sz (h_flush h) off b m)"
  by (simp add: e10_write_byte_def Let_def inv_simps inv_intros cong: if_cong split del: if_split)

lemma inv_e10_phy [inv_intros]: "machine_inv m \<Longrightarrow> machine_inv (eth_10m_phy_write k v m)"
  by (simp add: eth_10m_phy_write_def Let_def inv_simps cong: if_cong split del: if_split)

lemma inv_e10_bytes [inv_intros]:
  "host_ok h \<Longrightarrow> machine_inv m \<Longrightarrow>
     machine_inv (fold (\<lambda>i. e10_write_byte rescan (h_pread h) sz (h_flush h) (a + i) (f i)) is m)"
  by (rule inv_fold) (auto intro: inv_intros)

lemma inv_e10_write:
  assumes "host_ok h" "machine_inv m"
  shows "machine_inv (eth_10m_mmio_write rescan (h_pread h) (h_pwrite h) (h_sram h) (h_flush h) a v sz m)"
  using assms
  by (simp add: eth_10m_mmio_write_def Let_def inv_simps inv_intros cong: if_cong split del: if_split)

lemma inv_eth_raise: "machine_inv m \<Longrightarrow> machine_inv (ch32_eth_dmasr_raise rescan b m)"
  by (simp add: ch32_eth_dmasr_raise_def ch32_eth_update_irq_def inv_simps inv_intros)

lemma inv_usb_regs:
  "machine_inv m \<Longrightarrow> machine_inv (ch32_usbhost_meip_resync rescan (usbhs_reg_update f m))"
  "machine_inv m \<Longrightarrow> machine_inv (ch32_usbfs_host_meip_resync rescan (usbfs_reg_update f m))"
  by (simp_all add: inv_simps inv_intros)

subsection \<open>PFIC\<close>

lemma inv_changed [inv_intros]: "machine_inv m \<Longrightarrow> machine_inv (ch32_pfic_resync_changed wd c m)"
proof -
  have "\<forall>(ewd, mask, D) \<in> set pfic_resync_table. \<forall>m. machine_inv m \<longrightarrow> machine_inv (D rescan m)"
    by (auto simp: pfic_resync_table_def intro: inv_intros)
  then show "machine_inv m \<Longrightarrow> machine_inv (ch32_pfic_resync_changed wd c m)"
    unfolding ch32_pfic_resync_changed_def by (intro inv_fold) (auto split: prod.splits)
qed

lemma inject_irq_nonzero:
  assumes "en \<noteq> 0" "en AND pfic_ienr (m_pfic m) ! wd = en" "wd < 8" "\<not> ienr_on 0 m"
  shows "(of_nat (wd * 32 + ctz en) :: u32) \<noteq> 0"
proof -
  note c = ctz_bit[OF assms(1)]
  have "bit (pfic_ienr (m_pfic m) ! wd) (ctz en)"
    using c assms(2) by (metis bit_and_iff)
  then have "wd * 32 + ctz en \<noteq> 0" using assms(4) by (cases wd; cases "ctz en") (auto simp: ienr_on_def)
  moreover have "wd * 32 + ctz en < 2 ^ 32" using c assms(3) by simp
  ultimately show ?thesis by (simp only: word_of_nat_eq_0_iff) (simp add: nat_dvd_not_less)
qed

lemma inv_inject:
  assumes "machine_inv m" "en \<noteq> 0" "en AND pfic_ienr (m_pfic m) ! wd = en" "wd < 8"
  shows "machine_inv (ch32_pfic_inject_meip_for_irq wd en m)"
proof -
  have "(of_nat (wd * 32 + ctz en) :: u32) \<noteq> 0"
    using inject_irq_nonzero[OF assms(2-4)] assms(1) by (simp add: machine_inv_def)
  then show ?thesis using assms(1) unfolding ch32_pfic_inject_meip_for_irq_def Let_def
    by (simp only: inv_simps inv_intros(2) if_True cong: if_cong split: if_split)
       (auto simp: inv_simps intro!: inv_claim_meip)
qed

lemma software_pending_ienr: "software_pending wd m AND pfic_ienr (m_pfic m) ! wd = software_pending wd m"
  by (simp add: software_pending_def bit_eq_iff bit_and_iff bit_not_iff) blast

lemma inv_software [inv_intros]: "machine_inv m \<Longrightarrow> machine_inv (ch32_pfic_resync_software_pending m)"
proof -
  have "machine_inv m \<Longrightarrow> set wds \<subseteq> {..<8} \<Longrightarrow> machine_inv (software_scan wds m)" for wds
    by (induction wds) (auto simp: Let_def inv_inject software_pending_ienr)
  moreover have "set [0..<8] \<subseteq> {..<8::nat}" by auto
  ultimately show "machine_inv m \<Longrightarrow> machine_inv (ch32_pfic_resync_software_pending m)"
    by (auto simp: ch32_pfic_resync_software_pending_def)
qed

lemma inv_ipsr [inv_intros]:
  assumes "machine_inv m" "idx < 8"
  shows "machine_inv (pfic_ipsr_write idx v m)"
proof -
  define m2 where "m2 = (let m1 = pfic_upd (pfic_ipr_update (arr_upd idx (\<lambda>w. w OR v))) m
    in if idx = 0 \<and> bit v CH32_PFIC_SW_IRQ_BIT then ch32_pfic_sw_irq_set_pending m1 else m1)"
  define enabled where "enabled = (let en = pfic_ienr (m_pfic m2) ! idx AND v
    in if idx = 0 then en AND NOT (one_bit CH32_PFIC_SW_IRQ_BIT) else en)"
  have m2: "machine_inv m2"
    using assms(1) by (simp add: m2_def Let_def inv_simps inv_intros cong: if_cong split del: if_split)
  have "enabled AND pfic_ienr (m_pfic m2) ! idx = enabled"
    by (auto simp: enabled_def Let_def bit_eq_iff bit_and_iff)
  then have "machine_inv (if enabled \<noteq> 0 then ch32_pfic_inject_meip_for_irq idx enabled m2 else m2)"
    using inv_inject[OF m2 _ _ assms(2)] m2 by simp
  then show ?thesis by (simp only: pfic_ipsr_write_def m2_def enabled_def Let_def)
qed

lemma inv_iprr [inv_intros]: "machine_inv m \<Longrightarrow> machine_inv (pfic_iprr_write idx v m)"
  by (simp add: pfic_iprr_write_def Let_def inv_simps cong: if_cong split del: if_split)

lemma inv_pfic_enable:
  assumes "machine_inv m" "\<not> ienr_on 0 (pfic_ienr_write idx f m)"
  shows "machine_inv (pfic_ienr_write idx f m)"
proof -
  let ?m1 = "pfic_upd (pfic_ienr_update (arr_upd idx f)) m"
  have "pfic_ienr (m_pfic (pfic_ienr_write idx f m)) = pfic_ienr (m_pfic ?m1)"
    using view_fields(1)[OF changed_view] by (simp add: pfic_ienr_write_def Let_def)
  then have "\<not> ienr_on 0 ?m1" using assms(2) by (simp add: ienr_on_def)
  moreover have "line_ok ?m1" using line_of_inv[OF assms(1)] by (simp add: inv_simps)
  ultimately have "machine_inv ?m1" using assms(1) by (simp add: machine_inv_def)
  then show ?thesis by (simp only: pfic_ienr_write_def Let_def inv_intros)
qed

lemma inv_pfic_write:
  assumes "machine_inv m" "\<not> ienr_on 0 (ch32_pfic_write a v sz m)"
  shows "machine_inv (ch32_pfic_write a v sz m)"
proof -
  let ?rng = "\<lambda>lo. lo \<le> unat a \<and> unat a < lo + 0x20 \<and> sz = 4 \<and> unat a mod 4 = 0"
  consider (ienr) "?rng 0x100" | (irer) "?rng 0x180" | (other) "\<not> ?rng 0x100" "\<not> ?rng 0x180" by blast
  then show ?thesis
  proof cases
    case ienr
    then have "ch32_pfic_write a v sz m = pfic_ienr_write ((unat a - 0x100) div 4) (\<lambda>w. w OR v) m"
      by (simp add: ch32_pfic_write_def Let_def)
    then show ?thesis using inv_pfic_enable assms by metis
  next
    case irer
    then have "ch32_pfic_write a v sz m = pfic_ienr_write ((unat a - 0x180) div 4) (\<lambda>w. w AND NOT v) m"
      by (simp add: ch32_pfic_write_def Let_def)
    then show ?thesis using inv_pfic_enable assms by metis
  next
    case other
    show ?thesis using assms(1) unfolding ch32_pfic_write_def Let_def if_not_P[OF other(1)] if_not_P[OF other(2)]
      by (simp add: inv_simps inv_intros cong: if_cong split del: if_split) (auto intro: inv_ipsr)
  qed
qed

subsection \<open>The CPU\<close>

lemma inv_cpu:
  assumes "machine_inv m" "bit (mip e) 11 = bit (mip (m_cpu m)) 11" "wch_evt_mcause_override e = owner m"
    "wch_vtf_in_isr e \<le> 1"
  shows "machine_inv (m\<lparr>m_cpu := e\<rparr>)"
  using assms by (simp add: machine_inv_def line_ok_def ienr_on_def)

lemma inv_env:
  assumes "machine_inv m" "bit (mip (f (m_cpu m))) 11 = bit (mip (m_cpu m)) 11"
    "wch_evt_mcause_override (f (m_cpu m)) = owner m" "wch_vtf_in_isr (f (m_cpu m)) \<le> 1"
  shows "machine_inv (env_upd f m)"
  using assms by (simp add: machine_inv_def line_ok_def ienr_on_def)

lemma inv_on_mret [inv_intros]: "machine_inv m \<Longrightarrow> machine_inv (ch32_pfic_on_mret n m)"
proof -
  assume m: "machine_inv m"
  have "machine_inv (mret_released n m)"
    by (rule inv_view[OF m]) (simp, simp, simp add: mret_released_def inv_simps)
  then show ?thesis by (simp add: on_mret_alt inv_simps inv_intros)
qed

lemma inv_mret_wch [inv_intros]:
  assumes "machine_inv m"
  shows "machine_inv (mret_wch (Some ch32_pfic_on_mret) m)"
proof -
  let ?m1 = "env_upd wch_qingke_hpe_mret_pop m"
  have m1: "machine_inv ?m1"
    by (rule inv_env[OF assms]) (use assms in \<open>simp_all add: machine_inv_def\<close>)
  have "machine_inv (env_upd wch_vtf_exit ?m1)"
    by (rule inv_env[OF m1]) (use m1 in \<open>simp_all add: machine_inv_def vtf_exit_le, simp_all add: wch_vtf_exit_def\<close>)
  then show ?thesis using m1 by (simp add: mret_wch_def Let_def inv_on_mret)
qed

lemma inv_mret:
  assumes "machine_inv m"
  shows "machine_inv (snd (helper_mret (Some ch32_pfic_on_mret) x m))"
proof -
  note m2 = inv_mret_wch[OF assms]
  have "machine_inv (env_upd (mret_restore p) (mret_wch (Some ch32_pfic_on_mret) m))" for p
    by (rule inv_env[OF m2]) (use m2 in \<open>simp_all add: mret_restore_def Let_def machine_inv_def riscv_cpu_set_mode_def\<close>)
  then show ?thesis using m2 by (simp add: helper_mret_def Let_def split: option.split)
qed

text \<open>A trap clears at most the software interrupt it takes.\<close>

lemma trap_vector_meip: "bit (mip (trap_vector ldl b c e)) 11 = bit (mip e) 11"
  by (simp add: trap_vector_def Let_def wch_vtf_enter_def line_update_mip)

lemma mmode_meip: "bit (mip (do_interrupt_mmode ldl b c t e)) 11 = bit (mip e) 11"
proof -
  have "mip (wch_qingke_hpe_push x) = mip x" "mip (riscv_cpu_set_mode p x) = mip x"
    "mip (wch_hpe_fix_fpu_on_entry x) = mip x" for x p
    by (simp_all add: wch_qingke_hpe_push_def riscv_cpu_set_mode_def wch_hpe_fix_fpu_on_entry_def)
  then show ?thesis by (simp add: do_interrupt_mmode_def Let_def trap_vector_meip)
qed

lemma trap_meip: "bit (mip (riscv_cpu_do_interrupt ldl b c t e)) 11 = bit (mip e) 11"
proof -
  have "mip (do_interrupt_smode b c t e) = mip e"
    by (simp add: do_interrupt_smode_def riscv_cpu_set_mode_def)
  then show ?thesis by (simp add: riscv_cpu_do_interrupt_def mmode_meip)
qed

lemma trap_owner:
  "wch_evt_mcause_override (riscv_cpu_do_interrupt ldl b c t e) = wch_evt_mcause_override e"
proof -
  have "wch_evt_mcause_override (do_interrupt_smode b c t e) = wch_evt_mcause_override e"
    by (simp add: do_interrupt_smode_def riscv_cpu_set_mode_def)
  moreover have "wch_evt_mcause_override (do_interrupt_mmode ldl b c t e) = wch_evt_mcause_override e"
    by (simp add: do_interrupt_mmode_def Let_def)
  ultimately show ?thesis by (simp add: riscv_cpu_do_interrupt_def)
qed

lemma sync_trap_in_isr:
  "wch_vtf_in_isr (riscv_cpu_do_interrupt ldl False c t e) = wch_vtf_in_isr e"
  by (simp add: riscv_cpu_do_interrupt_def do_interrupt_in_isr)

lemma inv_sync_trap:
  assumes "machine_inv m"
  shows "machine_inv (env_upd (riscv_cpu_do_interrupt ldl False c t) m)"
  by (rule inv_env[OF assms])
    (use assms in \<open>simp_all only: trap_meip trap_owner sync_trap_in_isr machine_inv_def\<close>)

lemma inv_exec_interrupt:
  assumes "machine_inv m"
  shows "machine_inv (env_upd (\<lambda>e. snd (riscv_cpu_exec_interrupt ldl (q e) e)) m)"
proof (rule inv_env[OF assms])
  let ?q = "q (m_cpu m)"
  show "bit (mip (snd (riscv_cpu_exec_interrupt ldl ?q (m_cpu m)))) 11 = bit (mip (m_cpu m)) 11"
    "wch_evt_mcause_override (snd (riscv_cpu_exec_interrupt ldl ?q (m_cpu m))) = owner m"
    by (simp_all add: riscv_cpu_exec_interrupt_def trap_meip trap_owner split: option.split)
  show "wch_vtf_in_isr (snd (riscv_cpu_exec_interrupt ldl ?q (m_cpu m))) \<le> 1"
    using assms exec_interrupt_in_isr[OF surjective_pairing] by (simp add: machine_inv_def)
qed

section \<open>Steps\<close>

text \<open>
  One rule per entry point of the emulator. \<open>cpu_insn\<close> stands for the instructions that do not
  reach the interrupt state; the guard of \<open>pfic_write\<close> excludes programs that enable interrupt 0,
  which the interrupt list of the chip reserves.
\<close>

inductive ch32_step :: "host \<Rightarrow> machine \<Rightarrow> machine \<Rightarrow> bool" for h where
  clock: "clock_ns m \<le> t \<Longrightarrow> ch32_step h m (m\<lparr>clock_ns := t\<rparr>)"
| pfic_write: "\<not> ienr_on 0 (ch32_pfic_write a v sz m) \<Longrightarrow> ch32_step h m (ch32_pfic_write a v sz m)"
| stk_write: "ch32_step h m (ch32_stk_write a v sz m)"
| stk_tick: "ch32_step h m (ch32_stk_tick m)"
| rcc_write: "ch32_step h m (ch32_rcc_write a v sz m)"
| bkp_write: "ch32_step h m (ch32_bkp_write a v sz m)"
| tim_write: "i < 6 \<Longrightarrow> ch32_step h m (ch32_tim_write i rescan a v sz m)"
| tim_tick: "i < 6 \<Longrightarrow> ch32_step h m (ch32_tim_tick i rescan m)"
| dma_write: "ch32_step h m (ch32_dma_write (h_asr h) (h_asw h) a v m)"
| usart1_read: "ch32_step h m (snd (ch32_usart1_read rescan a sz m))"
| usart1_write: "ch32_step h m (ch32_usart1_write rescan a v m)"
| usart1_receive: "ch32_step h m (ch32_usart1_receive bs m)"
| usart1_rx_tick: "ch32_step h m (ch32_usart1_rx_tick rescan (h_asw h) m)"
| usart1_tx_drain: "ch32_usart1_tx_drain rescan (h_chr h) m = Some m' \<Longrightarrow> ch32_step h m m'"
| usart1_reset: "ch32_step h m (ch32_usart1_reset m)"
| lite_read: "ch32_step h m (snd (ch32_usart_lite_read rescan i a sz m))"
| lite_write: "i < 7 \<Longrightarrow> ch32_step h m (ch32_usart_lite_write rescan (h_asw h) i a v m)"
| lite_push: "i < 7 \<Longrightarrow> ch32_step h m (ch32_usart_lite_push_rx_byte rescan i b m)"
| e10_write: "ch32_step h m
    (eth_10m_mmio_write rescan (h_pread h) (h_pwrite h) (h_sram h) (h_flush h) off v sz m)"
| e10_receive: "ch32_step h m (snd (eth_10m_receive rescan (h_pwrite h) (h_sram h) bs m))"
| e10_link: "ch32_step h m (eth_10m_link_timer_cb rescan m)"
| eth_raise: "ch32_step h m (ch32_eth_dmasr_raise rescan v m)"
| usbhs_regs: "ch32_step h m (ch32_usbhost_meip_resync rescan (usbhs_reg_update g m))"
| usbfs_regs: "ch32_step h m (ch32_usbfs_host_meip_resync rescan (usbfs_reg_update g m))"
| cpu_interrupt: "ch32_step h m
    (env_upd (\<lambda>e. snd (riscv_cpu_exec_interrupt (h_ldl h) (irq_line e) e)) m)"
| cpu_exception: "ch32_step h m (env_upd (riscv_cpu_do_interrupt (h_ldl h) False c t) m)"
| cpu_mret: "ch32_step h m (snd (helper_mret (Some ch32_pfic_on_mret) (h_xepc_mask h) m))"
| cpu_insn: "mip e = mip (m_cpu m) \<Longrightarrow> wch_evt_mcause_override e = owner m \<Longrightarrow>
    wch_vtf_in_isr e = wch_vtf_in_isr (m_cpu m) \<Longrightarrow> ch32_step h m (m\<lparr>m_cpu := e\<rparr>)"

inductive_cases ch32_stepE: "ch32_step h m m'"

lemma step_inv:
  assumes "ch32_step h m m'" "host_ok h" "machine_inv m"
  shows "machine_inv m'"
  using assms
proof (induction rule: ch32_step.induct)
  case (cpu_insn e m)
  then show ?case using inv_cpu[of m e] by (simp add: machine_inv_def)
qed (simp_all add: inv_pfic_write inv_stk_write inv_stk_tick inv_rcc_write inv_simps inv_tim_write
      inv_tim_tick inv_dma_write inv_usart1_read inv_usart1_write inv_usart1_receive inv_rx_tick
      inv_tx_drain inv_usart1_reset inv_lite_read inv_lite_write inv_lite_push inv_e10_write
      inv_e10_receive inv_e10_link inv_eth_raise inv_usb_regs inv_exec_interrupt inv_sync_trap inv_mret)

lemma reachable_inv:
  assumes "(ch32_step h)\<^sup>*\<^sup>* m m'" "host_ok h" "machine_inv m"
  shows "machine_inv m'"
  using assms(1) by induction (use assms(2,3) step_inv in blast)+

end
