(* ===== verification/Ch32_Line.thy ===== *)
theory Ch32_Line
  imports Ch32_Machine
begin

text \<open>
  From owning the slot to the CPU: a resync that claims the slot raises \<open>MIP_MEIP\<close>, and nobody
  lowers it while the owner asserts. So an asserting peripheral whose turn comes is pending at
  the core, not only recorded in the slot.
\<close>

definition meip_up :: "machine \<Rightarrow> bool" where
  "meip_up m \<longleftrightarrow> bit (mip (m_cpu m)) 11"

locale raising_unit = meip_unit +
  assumes claim_raises: "owner m = 0 \<Longrightarrow> owner (D r m) \<noteq> 0 \<Longrightarrow> meip_up (D r m)"
    and keeps_up: "meip_up m \<Longrightarrow> owner m \<noteq> 0 \<Longrightarrow> owner m \<noteq> N \<or> on m \<Longrightarrow> meip_up (D r m)"

lemma up_ops [inv_simps]:
  "meip_up (meip_claim n m)" "meip_up (meip_take n m)" "meip_up (meip_disable m) = meip_up m"
  "meip_up (cpu_irq m) = meip_up m" "meip_up (meip_enable m) = meip_up m"
  "meip_up (ch32_pfic_irq_active_set n m) = meip_up m"
  "meip_up (ch32_pfic_irq_active_clear n m) = meip_up m"
  "meip_up (m_pfic_update p m) = meip_up m" "meip_up (m_tims_update t m) = meip_up m"
  "meip_up (m_eth10m_update e m) = meip_up m" "meip_up (m_eth_update h m) = meip_up m"
  "meip_up (stk_timer_update q m) = meip_up m" "meip_up (ch32_stk_clear_mtip m) = meip_up m"
  "meip_up (env_upd (riscv_cpu_update_mip MIP_MSIP b) m) = meip_up m"
  "meip_up (env_upd (\<lambda>e. e\<lparr>mie := f e\<rparr>) m) = meip_up m"
  "meip_up (env_upd (riscv_cpu_update_mip MIP_MSIP b \<circ> (\<lambda>e. e\<lparr>mie := f e\<rparr>)) m) = meip_up m"
  "meip_up (env_upd (riscv_cpu_update_mip MIP_MEIP MIP_MEIP \<circ>
     (\<lambda>e. e\<lparr>mie := f e, wch_evt_mcause_override := k\<rparr>)) m)"
  by (simp_all add: meip_up_def meip_claim_def meip_take_def meip_disable_def cpu_irq_def
      meip_enable_def ch32_pfic_irq_active_set_def ch32_pfic_irq_active_clear_def
      ch32_stk_clear_mtip_def line_update_mip bit_simps Let_def)

lemma up_resyncs [inv_simps]:
  "meip_up (ch32_dma_fire_irq n m) \<longleftrightarrow> (ienr_on n m \<and> owner m = 0) \<or> meip_up m"
  "meip_up (ch32_pfic_sw_irq_miesync m) = meip_up m" "meip_up (ch32_stk_schedule m) = meip_up m"
  by (auto simp: ch32_dma_fire_irq_def ch32_pfic_sw_irq_miesync_def ch32_stk_schedule_def Let_def inv_simps)

lemma usb_need_enable [inv_simps]:
  "usbhs_need_mip (meip_enable m) = usbhs_need_mip m" "usbfs_need_mip (meip_enable m) = usbfs_need_mip m"
  by (simp_all add: usbhs_need_mip_def usbfs_need_mip_def meip_enable_def)

lemma raising_lite:
  "(of_nat n :: u32) \<noteq> 0 \<Longrightarrow> raising_unit (of_nat n) (lite_irq_on i n) (lite_keep i n) (usart_lite_meip_one i n)"
  by (intro raising_unit.intro prompt_unit.axioms(1) lite_prompt_unit raising_unit_axioms.intro)
    (auto simp: usart_lite_meip_one_def Let_def inv_simps)

lemma raising_tim:
  "(of_nat n :: u32) \<noteq> 0 \<Longrightarrow> raising_unit (of_nat n) (tim_irq_on i n) (tim_irq_on i n) (ch32_tim_meip_update i n)"
  by (intro raising_unit.intro tim_unit raising_unit_axioms.intro)
    (auto simp: ch32_tim_meip_update_def Let_def inv_simps)

lemma raising_dma:
  "(of_nat (snd (snd (snd c))) :: u32) \<noteq> 0 \<Longrightarrow>
     raising_unit (of_nat (snd (snd (snd c)))) (dma_irq_on c) (\<lambda>_. True) (dma_chan_resync c)"
  by (intro raising_unit.intro prompt_unit.axioms(1) dma_prompt_unit raising_unit_axioms.intro)
    (auto simp: dma_chan_resync_def fire_irq_facts inv_simps split: if_splits)

interpretation sw_irq: raising_unit "of_nat CH32_PFIC_SW_IRQ_BIT" "\<lambda>_. False" "\<lambda>_. True"
  "\<lambda>r. ch32_pfic_sw_irq_miesync"
  by unfold_locales (simp_all add: inv_simps)

interpretation systick: raising_unit "of_nat CH32_SYSTICK_NVIC_BIT" "\<lambda>_. False" "\<lambda>_. True"
  "\<lambda>r. ch32_stk_schedule"
  by unfold_locales (simp_all add: inv_simps)

interpretation usart1: raising_unit "of_nat CH32_USART1_NVIC_IRQ" usart1_irq usart1_keep
  ch32_usart1_meip_resync
  by unfold_locales (auto simp: ch32_usart1_meip_resync_def Let_def inv_simps CH32_USART1_NVIC_IRQ_def)

interpretation eth10m: raising_unit "of_nat CH32_ETH_10M_IRQ_N" eth10m_irq_on eth10m_keep
  ch32_eth_10m_meip_resync
  by unfold_locales (auto simp: ch32_eth_10m_meip_resync_def eth_10m_meip_withdraw_def
      eth_10m_meip_inject_def Let_def inv_simps CH32_ETH_10M_IRQ_N_def split: option.splits)

interpretation eth: raising_unit "of_nat CH32_ETH_IRQ_N" eth_irq_on eth_keep ch32_eth_meip_resync
  by unfold_locales (auto simp: ch32_eth_meip_resync_def Let_def inv_simps CH32_ETH_IRQ_N_def
      split: option.splits)

interpretation usbhs: raising_unit "of_nat CH32_USBHS_NVIC_IRQ" usbhs_on usbhs_keep
  ch32_usbhost_meip_resync
  by unfold_locales (auto simp: ch32_usbhost_meip_resync_def usb_meip_resync_def usb_on_def Let_def
      inv_simps CH32_USBHS_NVIC_IRQ_def CH32_USBFS_NVIC_IRQ_def)

interpretation usbfs: raising_unit "of_nat CH32_USBFS_NVIC_IRQ" usbfs_on usbfs_keep
  ch32_usbfs_host_meip_resync
  by unfold_locales (auto simp: ch32_usbfs_host_meip_resync_def usb_meip_resync_def usb_on_def Let_def
      inv_simps CH32_USBHS_NVIC_IRQ_def CH32_USBFS_NVIC_IRQ_def)


section \<open>The network\<close>

locale raising_network = meip_network +
  assumes raising: "(N, D) \<in> set us \<Longrightarrow> raising_unit N (On N) (Keep N) D"
begin

lemma run_keeps_up:
  assumes "set vs \<subseteq> set us" "served On m" "meip_up m"
  shows "meip_up (run_units vs r m)"
  using assms
proof (induction vs arbitrary: m)
  case (Cons u vs)
  have u: "(fst u, snd u) \<in> set us" using Cons.prems by simp
  have "owner m \<noteq> 0" "owner m \<noteq> fst u \<or> On (fst u) m"
    using Cons.prems(2) unfolding served_def by metis+
  then have "meip_up (snd u r m)" by (rule raising_unit.keeps_up[OF raising[OF u] Cons.prems(3)])
  then show ?case using Cons.IH unit_served(2)[OF u Cons.prems(2)] Cons.prems(1) by simp
qed simp

lemma run_raises:
  assumes "set vs \<subseteq> set us" "owner m = 0" "owner (run_units vs r m) \<noteq> 0"
  shows "meip_up (run_units vs r m)"
  using assms
proof (induction vs arbitrary: m)
  case (Cons u vs)
  have u: "(fst u, snd u) \<in> set us" using Cons.prems by simp
  show ?case
  proof (cases "owner (snd u r m) = 0")
    case True
    then show ?thesis using Cons.IH[OF _ True] Cons.prems by simp
  next
    case False
    have "served On (snd u r m)" using unit_claims[OF u Cons.prems(2), of r] False by blast
    moreover have "meip_up (snd u r m)"
      by (rule raising_unit.claim_raises[OF raising[OF u] Cons.prems(2)]) (rule False)
    ultimately show ?thesis using run_keeps_up[of vs "snd u r m" r] Cons.prems(1) by simp
  qed
qed simp

end

definition unit_raises :: "resync_unit \<Rightarrow> bool" where
  "unit_raises u \<longleftrightarrow>
     (\<exists>on keep. (fst u, on, keep) \<in> set pfic_conds \<and> raising_unit (fst u) on keep (snd u))"

lemma unit_raisesI:
  "(N, on, keep) \<in> set pfic_conds \<Longrightarrow> raising_unit N on keep D \<Longrightarrow> unit_raises (N, D)"
  by (auto simp: unit_raises_def)

lemma lite_raises: "i < 7 \<Longrightarrow> unit_raises (of_nat (lite_irq ! i), usart_lite_meip_one i (lite_irq ! i))"
  by (rule unit_raisesI[OF conds_members(1) raising_lite[OF lite_irq_nonzero]])

lemma tim_raises: "i < 6 \<Longrightarrow> unit_raises (of_nat (ch32_tim_irqn ! i), ch32_tim_meip_update i (ch32_tim_irqn ! i))"
  by (rule unit_raisesI[OF conds_members(2) raising_tim[OF tim_irqn_nonzero]])

lemma dma_raises: "c \<in> set dma_chans \<Longrightarrow> unit_raises (of_nat (snd (snd (snd c))), dma_chan_resync c)"
  by (rule unit_raisesI[OF conds_members(3) raising_dma[OF dma_chan_nonzero]])

lemma single_raises:
  "unit_raises (of_nat CH32_PFIC_SW_IRQ_BIT, \<lambda>r. ch32_pfic_sw_irq_miesync)"
  "unit_raises (of_nat CH32_SYSTICK_NVIC_BIT, \<lambda>r. ch32_stk_schedule)"
  "unit_raises (of_nat CH32_USART1_NVIC_IRQ, ch32_usart1_meip_resync)"
  "unit_raises (of_nat CH32_ETH_10M_IRQ_N, ch32_eth_10m_meip_resync)"
  "unit_raises (of_nat CH32_ETH_IRQ_N, ch32_eth_meip_resync)"
  "unit_raises (of_nat CH32_USBHS_NVIC_IRQ, ch32_usbhost_meip_resync)"
  "unit_raises (of_nat CH32_USBFS_NVIC_IRQ, ch32_usbfs_host_meip_resync)"
  by (rule unit_raisesI[rotated], rule sw_irq.raising_unit_axioms systick.raising_unit_axioms
      usart1.raising_unit_axioms eth10m.raising_unit_axioms eth.raising_unit_axioms
      usbhs.raising_unit_axioms usbfs.raising_unit_axioms, simp add: pfic_conds_def)+

lemma units_raise: "u \<in> set pfic_units \<Longrightarrow> unit_raises u"
  unfolding pfic_units_def lite_units_def tim_units_def dma_units_def
  by (auto intro: lite_raises tim_raises dma_raises simp: single_raises)

interpretation net: raising_network irq_asserted irq_kept pfic_units
proof (intro raising_network.intro net.meip_network_axioms raising_network_axioms.intro)
  fix N D assume "(N, D) \<in> set pfic_units"
  from units_raise[OF this] obtain on keep where
    c: "(N, on, keep) \<in> set pfic_conds" "raising_unit N on keep D" by (auto simp: unit_raises_def)
  then show "raising_unit N (irq_asserted N) (irq_kept N) D" using cond_lookup[OF c(1)] by simp
qed

text \<open>The peripheral in the slot asserts, and the core sees the line.\<close>

definition delivered :: "machine \<Rightarrow> bool" where
  "delivered m \<longleftrightarrow> served irq_asserted m \<and> meip_up m"

lemma pending_delivers:
  assumes "owner m = 0" "n \<in> set prompt_irqs" "irq_asserted (of_nat n) m"
  shows "delivered (rescan m)"
proof -
  have "served irq_asserted (rescan m)" by (rule pending_wakes[OF assms])
  moreover from this have "meip_up (rescan m)"
    using net.run_raises[OF subset_refl assms(1), of "bounded_rescan pfic_units 1"]
    by (simp add: pending_meip_units numeral_2_eq_2 served_def)
  ultimately show ?thesis by (simp add: delivered_def)
qed

lemma on_mret_delivers:
  assumes "k \<in> set prompt_irqs" "irq_asserted (of_nat k) m"
  shows "delivered (ch32_pfic_on_mret n m)"
proof -
  have "irq_asserted (of_nat k) (mret_released n m)"
    using assms(2) net.On_view[of "mret_released n m" m] by simp
  then have d: "delivered (rescan (mret_released n m))"
    by (intro pending_delivers[OF _ assms(1)]) simp_all
  then have "ch32_pfic_resync_software_pending (rescan (mret_released n m)) = rescan (mret_released n m)"
    by (simp add: ch32_pfic_resync_software_pending_def delivered_def served_def)
  then show ?thesis using d by (simp add: on_mret_alt delivered_def served_cpu_irq inv_simps)
qed

end
