(* ===== verification/Ch32_PowerOn.thy ===== *)
theory Ch32_PowerOn
  imports Ch32_Machine
begin

text \<open>
  A concrete machine: the zero-filled object of a CH32V30x board with all its timers created and a
  main memory cut down to 256 bytes so that terms evaluate, the
  multiply-divide service, and a host without devices on its address space. The properties are
  applied to machines built from it.
\<close>

definition cpu_zero :: cpu_state where
  "cpu_zero = \<lparr>cfg = \<lparr>ext_hpe = True, has_rvf = True, has_rvu = True, allow_16bit = True,
       cfg_pmp = True, pmp_num_rules = 0, priv_ge_1_12 = True\<rparr>,
     gpr = replicate 32 0, pc = 0, priv = 3,
     mstatus = \<lparr>ms_sie = False, ms_mie = False, ms_spie = False, ms_spp = 0, ms_mpie = False,
       ms_mpp = 0, ms_fs = 0, ms_mprv = False, ms_mpv = False, ms_mpelp = False\<rparr>,
     mie = 0, mip = 0, mideleg = 0, medeleg = 0, mvien = 0, mvip = 0, sie = 0, vstime_irq = False,
     mtvec = 3, mcause = 0, mepc = 0, mtval = 0, stvec = 0, scause = 0, sepc = 0, stval = 0,
     load_res = 0, irq_line = False, wch_hpe_depth = 0,
     wch_hpe_bank = replicate 8 (replicate 16 0), wch_hpe_sw_handler_skip = False,
     wch_vtf_in_isr = 0, wch_evt_mcause_override = 0, wch_intsyscr = 0\<rparr>"

definition usart1_zero :: usart1_state where
  "usart1_zero = \<lparr>u1_statr = 0, u1_brr = 0, u1_ctlr1 = 0, u1_ctlr2 = 0, u1_ctlr3 = 0, u1_gpr = 0,
     u1_ctlr4 = 0, rx_buf = replicate 64 0, rx_head = 0, rx_tail = 0, tx_buf = replicate 64 0,
     tx_head = 0, tx_tail = 0, tx_timer = Timer_idle, rx_timer = Timer_idle,
     rx_stage_buf = replicate 64 0, rx_stage_head = 0, rx_stage_tail = 0, u1_rx_pending = False,
     rdr = 0, tx_empty = True, tx_complete = True\<rparr>"

definition lite_zero :: lite_state where
  "lite_zero = \<lparr>l_statr = 0, l_brr = 0, l_ctlr1 = 0, l_ctlr2 = 0, l_ctlr3 = 0, l_gpr = 0,
     l_ctlr4 = 0, datar_last = 0, l_rx_pending = False, rx_fifo = replicate 8 0, rx_fifo_h = 0,
     rx_fifo_t = 0\<rparr>"

definition tim_zero :: tim_state where
  "tim_zero = \<lparr>tim_timer = Timer_idle, t_ctlr1 = 0, t_ctlr2 = 0, t_smcfgr = 0, t_dmaintenr = 0,
     t_intfr = 0, t_chctlr1 = 0, t_chctlr2 = 0, t_ccer = 0, t_psc = 0, t_atrlr = 0xFFFF,
     t_atrlr_preload = 0xFFFF, t_ch1cvr = 0, t_ch2cvr = 0, t_ch3cvr = 0, t_ch4cvr = 0,
     t_dmacfgr = 0, t_dmaadr = 0, t_aux = 0, cnt_base = 0, epoch_ns = 0, t_irq_active = False\<rparr>"

definition machine_zero :: machine where
  "machine_zero = \<lparr>m_cpu = cpu_zero,
     m_pfic = \<lparr>pfic_ienr = replicate 8 0, pfic_ipr = replicate 8 0, pfic_iactr = replicate 8 0,
       pfic_iprior = replicate 256 0, pfic_ithresdr = 0, pfic_sctlr = 0,
       pfic_vtfidr = replicate 4 0, pfic_vtfaddr = replicate 4 0\<rparr>,
     rcc_words = replicate 32 0, board_clocks = Some (8000000, 8000000),
     m_stk = \<lparr>stk_ctlr = 0, stk_sr = 0, stk_cmpl = 0, stk_cmph = 0\<rparr>,
     stk_timer = Timer_idle, stk_epoch_ns = 0, stk_cnt_at_epoch = 0,
     m_usart1 = usart1_zero, m_lite = replicate 7 lite_zero, m_tims = replicate 6 tim_zero,
     m_dma = \<lparr>dma_intfr = replicate 3 0, dma_ch1 = replicate 7 dma_channel_zero,
       dma_ch2 = replicate 11 dma_channel_zero\<rparr>,
     m_eth10m = None, m_eth = None, usbhs_reg = replicate 0x400 0, usbfs_reg = replicate 0x200 0,
     usb_host_inited = True, usbfs_host_inited = True, bkp_datar = replicate 42 0, bkp_octlr = 0,
     bkp_tpcsr = 0, m_ram = replicate 256 0, clock_ns = 0, muldiv64 = muldiv64_ref, chr_out = [], net_out = [],
     reset_requested = False, out_of_fuel = False\<rparr>"

definition bare_host :: host where
  "bare_host = \<lparr>h_asr = (\<lambda>a n m. (Some (replicate n 0), m)), h_asw = (\<lambda>a bs m. (True, m)),
     h_pread = (\<lambda>a n m. replicate n 0), h_pwrite = (\<lambda>a bs m. m), h_flush = (\<lambda>m. m),
     h_sram = Some 0x10000, h_chr = (\<lambda>out b. True), h_ldl = (\<lambda>a. Some 0), h_xepc_mask = 0xFFFFFFFE\<rparr>"

lemma bare_host_ok: "host_ok bare_host"
  by (simp add: host_ok_def bare_host_def)

lemma machine_zero_inv: "machine_inv machine_zero"
  by (simp add: machine_inv_def line_ok_def machine_zero_def cpu_zero_def ienr_on_def)

text \<open>USART1 enabled with a transmit-empty interrupt that is let through.\<close>

definition machine_txe :: machine where
  "machine_txe = machine_zero\<lparr>
     m_pfic := (m_pfic machine_zero)\<lparr>pfic_ienr := (replicate 8 0)[1 := one_bit 21]\<rparr>,
     m_usart1 := usart1_zero\<lparr>u1_ctlr1 := one_bit 13 OR one_bit 3 OR one_bit 7\<rparr>\<rparr>"

lemma machine_txe_irq: "usart1_irq machine_txe" "irq_asserted 53 machine_txe"
proof -
  show u: "usart1_irq machine_txe" by code_simp
  have "irq_asserted (of_nat CH32_USART1_NVIC_IRQ) = usart1_irq"
    by (rule cond_lookup(1)[of _ _ usart1_keep]) (simp add: pfic_conds_def)
  then show "irq_asserted 53 machine_txe" using u by (simp add: CH32_USART1_NVIC_IRQ_def)
qed

end
