(* ===== verification/Ch32_IrqProperties.thy ===== *)
theory Ch32_IrqProperties
  imports Ch32_Line Ch32_PowerOn
begin

text \<open>The properties of the interrupt network, the PFIC and the trap path.\<close>

section \<open>The machine\<close>



text \<open>C5. The rescan, which the resync functions of the table call and which calls them again, is
  well defined: the bounded rescan is the one and only function that solves the recursion of the
  code.\<close>

theorem rescan_unique_solution:
  "(\<forall>m. R m = pfic_table_pass R m) \<longleftrightarrow> R = ch32_pfic_resync_pending_meip"
proof
  assume rec: "\<forall>m. R m = pfic_table_pass R m"
  show "R = ch32_pfic_resync_pending_meip" by (rule ext) (rule pending_unique[OF rec[rule_format]])
next
  assume R: "R = ch32_pfic_resync_pending_meip"
  show "\<forall>m. R m = pfic_table_pass R m" unfolding R by (intro allI pending_rec)
qed



text \<open>C34. The slot is never taken from a peripheral that asserts: neither a rescan nor a write to an
  enable register, which resyncs every peripheral whose bit changed, moves it.\<close>

theorem slot_never_stolen:
  assumes "owner m \<noteq> 0" "irq_asserted (owner m) m"
  shows "owner (ch32_pfic_resync_pending_meip m) = owner m"
  using pending_served assms by (simp add: served_def)

lemma slot_never_stolen_witness:
  "owner (ch32_pfic_resync_pending_meip (meip_claim 53 machine_txe)) = 53"
proof -
  have "irq_asserted 53 (meip_claim 53 machine_txe) = irq_asserted 53 machine_txe"
    by (rule net.On_view) (simp add: frame_simps)
  then show ?thesis using slot_never_stolen[of "meip_claim 53 machine_txe"] machine_txe_irq(2) by simp
qed

text \<open>Nothing spurious is delivered: after the callback of \<open>mret\<close> an occupied slot names either
  a peripheral that asserts its interrupt or an interrupt that software had set pending and
  enabled.\<close>

theorem mret_delivers_only_requested:
  assumes "owner (ch32_pfic_on_mret n m) \<noteq> 0"
  shows "irq_asserted (owner (ch32_pfic_on_mret n m)) (ch32_pfic_on_mret n m) \<or>
    (\<exists>k. owner (ch32_pfic_on_mret n m) = of_nat k \<and>
         software_irq k (ch32_pfic_resync_pending_meip (mret_released n m)))"
  using on_mret_owner[OF assms] by (auto simp: served_def)

lemma mret_delivers_only_requested_witness:
  "irq_asserted (owner (ch32_pfic_on_mret 77 machine_txe)) (ch32_pfic_on_mret 77 machine_txe) \<or>
   (\<exists>k. owner (ch32_pfic_on_mret 77 machine_txe) = of_nat k \<and>
        software_irq k (ch32_pfic_resync_pending_meip (mret_released 77 machine_txe)))"
  using mret_delivers_only_requested[of 77 machine_txe]
    on_mret_wakes[of 53 machine_txe 77] machine_txe_irq(2)
  by (simp add: prompt_irqs_def served_def)

end
