(* ===== verification/Ch32_Flash.thy ===== *)
theory Ch32_Flash
  imports Ch32_Prelude
begin

text \<open>
  The flash controller (\<open>ch32-flash.c\<close>): unlock sequence, erase operations on the flash memory with
  the sector write protection, status flags, register handlers. The memory region is the list of
  its bytes, so \<open>memory_region_size\<close> is its length.
\<close>

record flash_state =
  flash_mem :: "u8 list"
  flash_reg_shadow :: "u32 list"
  flash_unlocked :: bool
  flash_key_step :: nat
  flash_ob_key_step :: nat
  flash_statr :: u32

definition CH32_FLASH_BASE :: nat where "CH32_FLASH_BASE = 0x08000000"
definition CH32_FLASH_KEY1 :: u32 where "CH32_FLASH_KEY1 = 0x45670123"
definition CH32_FLASH_KEY2 :: u32 where "CH32_FLASH_KEY2 = 0xCDEF89AB"

abbreviation "FLASH_BSY \<equiv> (one_bit 0 :: u32)"
abbreviation "FLASH_WRBSY \<equiv> (one_bit 1 :: u32)"
abbreviation "FLASH_WRPRTERR \<equiv> (one_bit 4 :: u32)"
abbreviation "FLASH_EOP \<equiv> (one_bit 5 :: u32)"
abbreviation "FLASH_EHMODS \<equiv> (one_bit 7 :: u32)"

definition CH32_FLASH_STATR_W1C_MASK :: u32 where
  "CH32_FLASH_STATR_W1C_MASK = FLASH_BSY OR FLASH_WRBSY OR FLASH_WRPRTERR OR FLASH_EOP OR FLASH_EHMODS"

text \<open>Bits of CTLR.\<close>

abbreviation "CTLR_PER \<equiv> (1::nat)"
abbreviation "CTLR_MER \<equiv> (2::nat)"
abbreviation "CTLR_OPTPG \<equiv> (4::nat)"
abbreviation "CTLR_OPTER \<equiv> (5::nat)"
abbreviation "CTLR_STRT \<equiv> (6::nat)"
abbreviation "CTLR_LOCK \<equiv> (7::nat)"
abbreviation "CTLR_OPTWRE \<equiv> (9::nat)"
abbreviation "CTLR_FLOCK \<equiv> (15::nat)"
abbreviation "CTLR_PAGE_ER \<equiv> (17::nat)"
abbreviation "CTLR_BER32 \<equiv> (18::nat)"
abbreviation "CTLR_PG_STRT \<equiv> (21::nat)"

section \<open>Erase operations\<close>

definition in_flash :: "flash_state \<Rightarrow> u32 \<Rightarrow> bool" where
  "in_flash s a \<longleftrightarrow> CH32_FLASH_BASE \<le> unat a \<and> unat a < CH32_FLASH_BASE + length (flash_mem s)"

definition sector_bit :: "nat \<Rightarrow> nat" where
  "sector_bit sec = (if sec \<ge> 31 then 31 else sec)"

definition ch32_flash_sector_wp :: "flash_state \<Rightarrow> u32 \<Rightarrow> bool" where
  "ch32_flash_sector_wp s flash_addr =
     (if \<not> in_flash s flash_addr then False
      else let sec = (unat flash_addr - CH32_FLASH_BASE) div 4096
           in bit (flash_reg_shadow s ! 8) (sector_bit sec))"

definition flash_ptr :: "nat \<Rightarrow> u32" where
  "flash_ptr off = of_nat (CH32_FLASH_BASE + off)"

definition ch32_flash_any_sector_wp :: "flash_state \<Rightarrow> bool" where
  "ch32_flash_any_sector_wp s =
     list_ex (\<lambda>k. ch32_flash_sector_wp s (flash_ptr (4096 * k)))
       [0..<(length (flash_mem s) + 4095) div 4096]"

definition ch32_flash_op_complete :: "bool \<Rightarrow> flash_state \<Rightarrow> flash_state" where
  "ch32_flash_op_complete wrprot_err s =
     (let st = flash_statr s AND NOT (FLASH_BSY OR FLASH_WRBSY);
          st' = (if wrprot_err then st OR FLASH_WRPRTERR else st)
      in s\<lparr>flash_statr := st' OR FLASH_EOP\<rparr>)"

definition mem_fill :: "nat \<Rightarrow> nat \<Rightarrow> u8 list \<Rightarrow> u8 list" where
  "mem_fill off n xs = take off xs @ replicate n 0xff @ drop (off + n) xs"

text \<open>The common body of the 4 KB and 256 B erase.\<close>

definition flash_erase_block :: "nat \<Rightarrow> u32 \<Rightarrow> flash_state \<Rightarrow> flash_state" where
  "flash_erase_block blk flash_addr s =
     (if \<not> in_flash s flash_addr then ch32_flash_op_complete False s
      else
        let off = (unat flash_addr - CH32_FLASH_BASE) div blk * blk in
        if off + blk > length (flash_mem s) then ch32_flash_op_complete False s
        else if ch32_flash_sector_wp s (flash_ptr off) then ch32_flash_op_complete True s
        else ch32_flash_op_complete False (s\<lparr>flash_mem := mem_fill off blk (flash_mem s)\<rparr>))"

definition ch32_flash_erase_4k :: "u32 \<Rightarrow> flash_state \<Rightarrow> flash_state" where
  "ch32_flash_erase_4k a s = flash_erase_block 4096 a s"

definition ch32_flash_erase_256 :: "u32 \<Rightarrow> flash_state \<Rightarrow> flash_state" where
  "ch32_flash_erase_256 a s = flash_erase_block 256 a s"

definition ch32_flash_erase_32k :: "u32 \<Rightarrow> flash_state \<Rightarrow> flash_state" where
  "ch32_flash_erase_32k flash_addr s =
     (if \<not> in_flash s flash_addr then ch32_flash_op_complete False s
      else
        let off = (unat flash_addr - CH32_FLASH_BASE) div 0x8000 * 0x8000;
            chunk = (if off + 0x8000 > length (flash_mem s) then length (flash_mem s) - off else 0x8000)
        in if list_ex (\<lambda>k. ch32_flash_sector_wp s (flash_ptr (off + 4096 * k))) [0..<(chunk + 4095) div 4096]
           then ch32_flash_op_complete True s
           else ch32_flash_op_complete False (s\<lparr>flash_mem := mem_fill off chunk (flash_mem s)\<rparr>))"

definition ch32_flash_mass_erase :: "flash_state \<Rightarrow> flash_state" where
  "ch32_flash_mass_erase s =
     (if ch32_flash_any_sector_wp s then ch32_flash_op_complete True s
      else ch32_flash_op_complete False
             (s\<lparr>flash_mem := mem_fill 0 (length (flash_mem s)) (flash_mem s)\<rparr>))"

section \<open>Keys and control\<close>

definition ch32_flash_key_write :: "u32 \<Rightarrow> flash_state \<Rightarrow> flash_state" where
  "ch32_flash_key_write v s =
     (if v = CH32_FLASH_KEY1 then s\<lparr>flash_key_step := 1\<rparr>
      else if flash_key_step s = 1 \<and> v = CH32_FLASH_KEY2 then
        s\<lparr>flash_unlocked := True,
          flash_reg_shadow := arr_upd 4 (\<lambda>w. w AND NOT (one_bit CTLR_LOCK OR one_bit CTLR_FLOCK))
                                (flash_reg_shadow s),
          flash_key_step := 0\<rparr>
      else s\<lparr>flash_key_step := 0\<rparr>)"

definition ch32_flash_obkey_write :: "u32 \<Rightarrow> flash_state \<Rightarrow> flash_state" where
  "ch32_flash_obkey_write v s =
     (if v = CH32_FLASH_KEY1 then s\<lparr>flash_ob_key_step := 1\<rparr>
      else if flash_ob_key_step s = 1 \<and> v = CH32_FLASH_KEY2 then
        s\<lparr>flash_reg_shadow := arr_upd 4 (\<lambda>w. w OR one_bit CTLR_OPTWRE) (flash_reg_shadow s),
          flash_ob_key_step := 0\<rparr>
      else s\<lparr>flash_ob_key_step := 0\<rparr>)"

text \<open>The operation a start bit selects, with the control bits it clears.\<close>

definition flash_start :: "u32 \<Rightarrow> flash_state \<Rightarrow> u32 \<times> flash_state" where
  "flash_start nw s =
     (let addr = flash_reg_shadow s ! 5; clr = (\<lambda>b. nw AND NOT (one_bit CTLR_STRT OR one_bit b)) in
      if bit nw CTLR_MER then (clr CTLR_MER, ch32_flash_mass_erase s)
      else if bit nw CTLR_OPTER then (clr CTLR_OPTER, ch32_flash_op_complete False s)
      else if bit nw CTLR_BER32 then (clr CTLR_BER32, ch32_flash_erase_32k addr s)
      else if bit nw CTLR_PER then (clr CTLR_PER, ch32_flash_erase_4k addr s)
      else if bit nw CTLR_PAGE_ER then (clr CTLR_PAGE_ER, ch32_flash_erase_256 addr s)
      else if bit nw CTLR_OPTPG then (clr CTLR_OPTPG, ch32_flash_op_complete False s)
      else (nw AND NOT (one_bit CTLR_STRT), ch32_flash_op_complete False s))"

definition ch32_flash_ctl_write :: "u32 \<Rightarrow> flash_state \<Rightarrow> flash_state" where
  "ch32_flash_ctl_write val s =
     (let (nw1, s1) = (if bit val CTLR_LOCK
                       then (val AND NOT (one_bit CTLR_OPTWRE), s\<lparr>flash_unlocked := False\<rparr>)
                       else (val, s));
          (nw2, s2) = (if flash_unlocked s1 \<and> bit nw1 CTLR_STRT then flash_start nw1 s1 else (nw1, s1));
          (nw3, s3) = (if bit nw2 CTLR_PG_STRT
                       then (nw2 AND NOT (one_bit CTLR_PG_STRT), ch32_flash_op_complete False s2)
                       else (nw2, s2))
      in s3\<lparr>flash_reg_shadow := (flash_reg_shadow s3)[4 := nw3]\<rparr>)"

section \<open>Register handlers\<close>

definition ch32_flashreg_read :: "u32 \<Rightarrow> nat \<Rightarrow> flash_state \<Rightarrow> u32" where
  "ch32_flashreg_read addr sz s =
     (if addr \<ge> 0x400 then 0
      else if sz \<noteq> 1 \<and> sz \<noteq> 2 \<and> sz \<noteq> 4 then 0
      else
        let v = (if addr = 0x04 then 0
                 else if addr = 0x0c then flash_statr s
                 else drop_bit (unat (addr AND 3) * 8) (flash_reg_shadow s ! (unat addr div 4)))
        in if sz = 4 then v else if sz = 2 then v AND 0xffff else v AND 0xff)"

definition ch32_flashreg_write :: "u32 \<Rightarrow> u32 \<Rightarrow> nat \<Rightarrow> flash_state \<Rightarrow> flash_state" where
  "ch32_flashreg_write addr val sz s =
     (if addr \<ge> 0x400 \<or> addr AND 3 \<noteq> 0 then s
      else if sz \<noteq> 4 then s
      else if addr = 0x04 then ch32_flash_key_write val s
      else if addr = 0x08 then ch32_flash_obkey_write val s
      else if addr = 0x0c then
        s\<lparr>flash_statr := flash_statr s AND NOT (val AND CH32_FLASH_STATR_W1C_MASK)\<rparr>
      else if addr = 0x10 then ch32_flash_ctl_write val s
      else if addr = 0x24 then ch32_flash_key_write val s
      else s\<lparr>flash_reg_shadow := (flash_reg_shadow s)[unat addr div 4 := val]\<rparr>)"

section \<open>Memory facts\<close>

lemma length_mem_fill [simp]: "off + n \<le> length xs \<Longrightarrow> length (mem_fill off n xs) = length xs"
  by (simp add: mem_fill_def)

lemma mem_fill_nth:
  assumes "off + n \<le> length xs" "i < length xs"
  shows "mem_fill off n xs ! i = (if off \<le> i \<and> i < off + n then 0xff else xs ! i)"
  using assms by (auto simp: mem_fill_def nth_append)

lemma op_complete_fields [simp]:
  "flash_mem (ch32_flash_op_complete e s) = flash_mem s"
  "flash_reg_shadow (ch32_flash_op_complete e s) = flash_reg_shadow s"
  "flash_unlocked (ch32_flash_op_complete e s) = flash_unlocked s"
  "flash_key_step (ch32_flash_op_complete e s) = flash_key_step s"
  by (simp_all add: ch32_flash_op_complete_def Let_def)

lemma op_complete_flags:
  "bit (flash_statr (ch32_flash_op_complete e s)) 5"
  "\<not> bit (flash_statr (ch32_flash_op_complete e s)) 0"
  "\<not> bit (flash_statr (ch32_flash_op_complete e s)) 1"
  "bit (flash_statr (ch32_flash_op_complete e s)) 4 \<longleftrightarrow> e \<or> bit (flash_statr s) 4"
  by (simp_all add: ch32_flash_op_complete_def Let_def bit_simps)

text \<open>The flash lies in the 32-bit address space.\<close>

definition flash_ok :: "flash_state \<Rightarrow> bool" where
  "flash_ok s \<longleftrightarrow> CH32_FLASH_BASE + length (flash_mem s) \<le> 2 ^ 32 \<and> length (flash_reg_shadow s) = 256"

lemma unat_flash_ptr: "flash_ok s \<Longrightarrow> i < length (flash_mem s) \<Longrightarrow> unat (flash_ptr i) = CH32_FLASH_BASE + i"
  unfolding flash_ok_def flash_ptr_def by (rule unat_of_nat_small) simp

lemma sector_wp_index:
  assumes "flash_ok s" "i < length (flash_mem s)"
  shows "ch32_flash_sector_wp s (flash_ptr i) = bit (flash_reg_shadow s ! 8) (sector_bit (i div 4096))"
  using unat_flash_ptr[OF assms] assms(2) by (simp add: ch32_flash_sector_wp_def in_flash_def)

definition wp_byte :: "flash_state \<Rightarrow> nat \<Rightarrow> bool" where
  "wp_byte s i \<longleftrightarrow> bit (flash_reg_shadow s ! 8) (sector_bit (i div 4096))"

text \<open>
  What one control operation may do to the memory: keep the length, and set bytes to \<open>0xff\<close>, none
  of them in a protected sector.
\<close>

definition erases :: "flash_state \<Rightarrow> flash_state \<Rightarrow> bool" where
  "erases s s' \<longleftrightarrow> length (flash_mem s') = length (flash_mem s) \<and>
     flash_reg_shadow s' = flash_reg_shadow s \<and>
     (\<forall>i < length (flash_mem s). flash_mem s' ! i = flash_mem s ! i \<or>
        (\<not> wp_byte s i \<and> flash_mem s' ! i = 0xff))"

lemma erases_refl: "flash_mem s' = flash_mem s \<Longrightarrow> flash_reg_shadow s' = flash_reg_shadow s \<Longrightarrow> erases s s'"
  by (simp add: erases_def)

lemma div_block_unique:
  fixes blk :: nat
  assumes "blk dvd 4096" "0 < blk" "a div blk * blk \<le> i" "i < a div blk * blk + blk"
  shows "i div 4096 = a div blk * blk div 4096"
proof -
  obtain q where q: "4096 = blk * q" using assms(1) unfolding dvd_def by blast
  have "i div blk = a div blk"
    using assms(2-4) by (intro div_nat_eqI) (simp_all add: mult.commute)
  then have "i div (blk * q) = a div blk * blk div (blk * q)" using assms(2) by (simp add: div_mult2_eq)
  then show ?thesis by (metis q)
qed

lemma erase_block_erases:
  assumes "flash_ok s" "blk dvd 4096" "0 < blk"
  shows "erases s (flash_erase_block blk a s)"
proof -
  let ?off = "(unat a - CH32_FLASH_BASE) div blk * blk"
  have "erases s (ch32_flash_op_complete False (s\<lparr>flash_mem := mem_fill ?off blk (flash_mem s)\<rparr>))"
    if "\<not> length (flash_mem s) < ?off + blk" "\<not> ch32_flash_sector_wp s (flash_ptr ?off)"
  proof -
    have "?off < length (flash_mem s)" using that(1) assms(3) by linarith
    then have "\<not> wp_byte s ?off" using that(2) sector_wp_index[OF assms(1)] by (simp add: wp_byte_def)
    then have "\<not> wp_byte s i" if "?off \<le> i" "i < ?off + blk" for i
      using div_block_unique[OF assms(2,3) that] by (simp add: wp_byte_def)
    then show ?thesis using that(1) by (auto simp: erases_def mem_fill_nth)
  qed
  then show ?thesis by (auto simp: flash_erase_block_def Let_def intro: erases_refl)
qed

lemma sectors_free:
  assumes "flash_ok s" "off + chunk \<le> length (flash_mem s)" "4096 dvd off"
    and "\<not> list_ex (\<lambda>k. ch32_flash_sector_wp s (flash_ptr (off + 4096 * k))) [0..<(chunk + 4095) div 4096]"
    and "off \<le> i" "i < off + chunk"
  shows "\<not> wp_byte s i"
proof -
  let ?k = "(i - off) div 4096"
  have "?k < (chunk + 4095) div 4096" using assms(5,6) by linarith
  then have "\<not> ch32_flash_sector_wp s (flash_ptr (off + 4096 * ?k))"
    using assms(4) by (auto simp: list_ex_iff)
  moreover have le: "off + 4096 * ?k \<le> i" using assms(5) by (metis add_le_cancel_left le_add_diff_inverse
      times_div_less_eq_dividend)
  moreover have "(off + 4096 * ?k) div 4096 = i div 4096"
  proof -
    obtain q where "off = 4096 * q" using assms(3) unfolding dvd_def by blast
    moreover from this assms(5) obtain j where "i = 4096 * q + j" by (metis le_iff_add)
    ultimately show ?thesis by simp
  qed
  ultimately show ?thesis
    using sector_wp_index[OF assms(1), of "off + 4096 * ?k"] assms(2,6) by (simp add: wp_byte_def)
qed

lemma erase_32k_erases:
  assumes "flash_ok s"
  shows "erases s (ch32_flash_erase_32k a s)"
proof -
  let ?off = "(unat a - CH32_FLASH_BASE) div 0x8000 * 0x8000"
  let ?n = "if length (flash_mem s) < ?off + 0x8000 then length (flash_mem s) - ?off else 0x8000"
  have d: "4096 dvd ?off" by (rule dvd_mult) simp
  have "erases s (ch32_flash_op_complete False (s\<lparr>flash_mem := mem_fill ?off ?n (flash_mem s)\<rparr>))"
    if "in_flash s a"
      "\<not> list_ex (\<lambda>k. ch32_flash_sector_wp s (flash_ptr (?off + 4096 * k))) [0..<(?n + 4095) div 4096]"
  proof -
    have "?off \<le> unat a - CH32_FLASH_BASE" by (rule div_times_less_eq_dividend)
    then have "?off < length (flash_mem s)" using that(1) unfolding in_flash_def by linarith
    then have b: "?off + ?n \<le> length (flash_mem s)" by simp
    show ?thesis using sectors_free[OF assms b d that(2)] b by (auto simp: erases_def mem_fill_nth)
  qed
  then show ?thesis unfolding ch32_flash_erase_32k_def Let_def by (auto intro: erases_refl)
qed

lemma mass_erase_erases:
  assumes "flash_ok s"
  shows "erases s (ch32_flash_mass_erase s)"
proof -
  have "\<not> wp_byte s i" if "\<not> ch32_flash_any_sector_wp s" "i < length (flash_mem s)" for i
    using sectors_free[OF assms, of 0 "length (flash_mem s)" i] that
    by (simp add: ch32_flash_any_sector_wp_def)
  then show ?thesis by (auto simp: ch32_flash_mass_erase_def erases_def mem_fill_nth)
qed

lemma start_erases:
  assumes "flash_ok s"
  shows "erases s (snd (flash_start nw s))"
  using erase_block_erases[OF assms] erase_32k_erases[OF assms] mass_erase_erases[OF assms]
  by (simp add: flash_start_def Let_def ch32_flash_erase_4k_def ch32_flash_erase_256_def erases_refl)

section \<open>What a register write may do\<close>

lemma start_locked_fields:
  "flash_unlocked (snd (flash_start nw s)) = flash_unlocked s"
  "flash_key_step (snd (flash_start nw s)) = flash_key_step s"
  by (simp_all add: flash_start_def Let_def ch32_flash_erase_4k_def ch32_flash_erase_256_def
      flash_erase_block_def ch32_flash_erase_32k_def ch32_flash_mass_erase_def)

lemma ctl_write_mem:
  "flash_mem (ch32_flash_ctl_write v s) =
     (if flash_unlocked s \<and> \<not> bit v CTLR_LOCK \<and> bit v CTLR_STRT
      then flash_mem (snd (flash_start v s)) else flash_mem s)"
  by (cases "bit v CTLR_LOCK"; cases "flash_unlocked s"; cases "bit v CTLR_STRT")
    (simp_all add: ch32_flash_ctl_write_def Let_def split_beta)

lemma ctl_write_keys:
  "flash_unlocked (ch32_flash_ctl_write v s) \<longleftrightarrow> flash_unlocked s \<and> \<not> bit v CTLR_LOCK"
  "flash_key_step (ch32_flash_ctl_write v s) = flash_key_step s"
  by (cases "bit v CTLR_LOCK"; cases "flash_unlocked s"; cases "bit v CTLR_STRT";
      simp add: ch32_flash_ctl_write_def Let_def split_beta start_locked_fields)+

lemma ctl_write_bytes:
  assumes "flash_ok s"
  shows "length (flash_mem (ch32_flash_ctl_write v s)) = length (flash_mem s)"
    "i < length (flash_mem s) \<Longrightarrow> flash_mem (ch32_flash_ctl_write v s) ! i \<noteq> flash_mem s ! i \<Longrightarrow>
      flash_unlocked s \<and> \<not> wp_byte s i \<and> flash_mem (ch32_flash_ctl_write v s) ! i = 0xff"
  using start_erases[OF assms, of v] by (auto simp: ctl_write_mem erases_def split: if_splits)

lemma ctl_write_shape: "length (flash_reg_shadow (ch32_flash_ctl_write v s)) = length (flash_reg_shadow s)"
proof -
  have "length (flash_reg_shadow (snd (flash_start nw x))) = length (flash_reg_shadow x)" for nw x
    by (simp add: flash_start_def Let_def ch32_flash_erase_4k_def ch32_flash_erase_256_def
        flash_erase_block_def ch32_flash_erase_32k_def ch32_flash_mass_erase_def)
  then show ?thesis
    by (cases "bit v CTLR_LOCK"; cases "flash_unlocked s"; cases "bit v CTLR_STRT")
      (simp_all add: ch32_flash_ctl_write_def Let_def split_beta)
qed

lemma key_write_mem [simp]:
  "flash_mem (ch32_flash_key_write v s) = flash_mem s" "flash_mem (ch32_flash_obkey_write v s) = flash_mem s"
  "length (flash_reg_shadow (ch32_flash_key_write v s)) = length (flash_reg_shadow s)"
  "length (flash_reg_shadow (ch32_flash_obkey_write v s)) = length (flash_reg_shadow s)"
  "flash_unlocked (ch32_flash_obkey_write v s) = flash_unlocked s"
  "flash_key_step (ch32_flash_obkey_write v s) = flash_key_step s"
  by (simp_all add: ch32_flash_key_write_def ch32_flash_obkey_write_def)

lemma write_ok: "flash_ok s \<Longrightarrow> flash_ok (ch32_flashreg_write a v sz s)"
  by (auto simp: ch32_flashreg_write_def flash_ok_def ctl_write_shape
      ctl_write_bytes(1)[unfolded flash_ok_def])

lemma write_mem_changes:
  assumes "flash_ok s" "i < length (flash_mem s)"
    "flash_mem (ch32_flashreg_write a v sz s) ! i \<noteq> flash_mem s ! i"
  shows "flash_unlocked s \<and> \<not> wp_byte s i \<and> flash_mem (ch32_flashreg_write a v sz s) ! i = 0xff"
proof -
  have "ch32_flashreg_write a v sz s = ch32_flash_ctl_write v s"
    using assms(3) by (auto simp: ch32_flashreg_write_def split: if_splits)
  then show ?thesis
    using ctl_write_bytes(2)[OF assms(1,2), of v] assms(3) by simp
qed

section \<open>The unlock sequence\<close>

type_synonym flash_access = "u32 \<times> u32 \<times> nat"

definition flash_run :: "flash_access list \<Rightarrow> flash_state \<Rightarrow> flash_state" where
  "flash_run ws s = fold (\<lambda>(a, v, sz). ch32_flashreg_write a v sz) ws s"

lemma flash_run_simps [simp]:
  "flash_run [] s = s" "flash_run (ws @ [w]) s = (case w of (a, v, sz) \<Rightarrow> ch32_flashreg_write a v sz (flash_run ws s))"
  by (simp_all add: flash_run_def split_beta)

fun key_access :: "flash_access \<Rightarrow> bool" where
  "key_access (a, v, sz) \<longleftrightarrow> sz = 4 \<and> (a = 0x04 \<or> a = 0x24)"

definition last_key_is :: "u32 \<Rightarrow> flash_access list \<Rightarrow> bool" where
  "last_key_is k ws \<longleftrightarrow> (\<exists>pre a mid. ws = pre @ [(a, k, 4)] @ mid \<and> key_access (a, k, 4) \<and>
     (\<forall>w \<in> set mid. \<not> key_access w))"

definition unlock_sequence :: "flash_access list \<Rightarrow> bool" where
  "unlock_sequence ws \<longleftrightarrow> (\<exists>pre a post. ws = pre @ [(a, CH32_FLASH_KEY2, 4)] @ post \<and>
     key_access (a, CH32_FLASH_KEY2, 4) \<and> last_key_is CH32_FLASH_KEY1 pre)"

lemma unlock_sequence_mono: "unlock_sequence ws \<Longrightarrow> unlock_sequence (ws @ [w])"
  unfolding unlock_sequence_def by (metis append.assoc)

lemma last_key_skip: "last_key_is k ws \<Longrightarrow> \<not> key_access w \<Longrightarrow> last_key_is k (ws @ [w])"
proof -
  assume "last_key_is k ws" "\<not> key_access w"
  then obtain pre a mid where "ws = pre @ [(a, k, 4)] @ mid" "key_access (a, k, 4)"
    "\<forall>w \<in> set (mid @ [w]). \<not> key_access w" by (auto simp: last_key_is_def)
  then show ?thesis unfolding last_key_is_def by (metis append.assoc)
qed

lemma last_key_here: "key_access (a, k, 4) \<Longrightarrow> last_key_is k (ws @ [(a, k, 4)])"
  unfolding last_key_is_def by (intro exI[of _ ws] exI[of _ a] exI[of _ "[]"]) simp

lemma unlock_here:
  "last_key_is CH32_FLASH_KEY1 ws \<Longrightarrow> key_access (a, CH32_FLASH_KEY2, 4) \<Longrightarrow>
     unlock_sequence (ws @ [(a, CH32_FLASH_KEY2, 4)])"
  unfolding unlock_sequence_def by (intro exI[of _ ws] exI[of _ a] exI[of _ "[]"]) simp

lemma write_step_cases:
  "ch32_flashreg_write a v sz s =
     (if key_access (a, v, sz) then ch32_flash_key_write v s else ch32_flashreg_write a v sz s)"
  by (auto simp: ch32_flashreg_write_def)

lemma nonkey_write:
  assumes "\<not> key_access (a, v, sz)"
  shows "flash_key_step (ch32_flashreg_write a v sz s) = flash_key_step s"
    "flash_unlocked (ch32_flashreg_write a v sz s) \<Longrightarrow> flash_unlocked s"
    "\<not> flash_unlocked s \<Longrightarrow> flash_mem (ch32_flashreg_write a v sz s) = flash_mem s"
  using assms by (auto simp: ch32_flashreg_write_def ctl_write_keys ctl_write_mem split: if_splits)

lemma run_tracks_keys:
  assumes "\<not> flash_unlocked s" "flash_key_step s = 0"
  shows "(flash_key_step (flash_run ws s) = 1 \<longrightarrow> last_key_is CH32_FLASH_KEY1 ws) \<and>
    (flash_unlocked (flash_run ws s) \<longrightarrow> unlock_sequence ws) \<and>
    (flash_mem (flash_run ws s) \<noteq> flash_mem s \<longrightarrow> unlock_sequence ws)"
proof (induction ws rule: rev_induct)
  case Nil
  then show ?case using assms by simp
next
  case (snoc w ws)
  obtain a v sz where w: "w = (a, v, sz)" by (cases w)
  let ?s = "flash_run ws s"
  show ?case
  proof (cases "key_access w")
    case True
    have sz: "sz = 4" "key_access (a, v, 4)" using True w by auto
    have st: "flash_run (ws @ [w]) s = ch32_flash_key_write v ?s"
      using True w write_step_cases[of a v sz ?s] by simp
    have "v = CH32_FLASH_KEY1 \<Longrightarrow> last_key_is CH32_FLASH_KEY1 (ws @ [w])"
      using last_key_here sz w by blast
    moreover have "flash_key_step ?s = 1 \<Longrightarrow> v = CH32_FLASH_KEY2 \<Longrightarrow> unlock_sequence (ws @ [w])"
      using unlock_here snoc.IH sz w by blast
    ultimately show ?thesis using st snoc.IH unlock_sequence_mono[of ws w]
      by (auto simp: ch32_flash_key_write_def)
  next
    case False
    then show ?thesis
      using snoc.IH nonkey_write[of a v sz ?s] last_key_skip[OF _ False] unlock_sequence_mono[of ws w] w
      by auto
  qed
qed


section \<open>Properties\<close>

text \<open>C29. The erase protection holds against every register access: whatever is written to the
  flash controller, a byte of the flash only changes if the controller is unlocked and the byte's
  sector is not write-protected, and then it becomes \<open>0xff\<close>.\<close>

theorem flash_write_changes_only_unprotected:
  assumes "flash_ok s" "i < length (flash_mem s)"
    "flash_mem (ch32_flashreg_write a v sz s) ! i \<noteq> flash_mem s ! i"
  shows "flash_unlocked s \<and> \<not> ch32_flash_sector_wp s (flash_ptr i) \<and>
    flash_mem (ch32_flashreg_write a v sz s) ! i = 0xff"
  using write_mem_changes[OF assms] sector_wp_index[OF assms(1,2)] by (simp add: wp_byte_def)

definition flash_sample :: flash_state where
  "flash_sample = \<lparr>flash_mem = replicate 4096 0, flash_reg_shadow = (replicate 256 0)[5 := 0x08000000],
     flash_unlocked = True, flash_key_step = 0, flash_ob_key_step = 0, flash_statr = 0\<rparr>"

lemma flash_sample_ok: "flash_ok flash_sample"
  by (simp add: flash_ok_def flash_sample_def CH32_FLASH_BASE_def)

lemma flash_sample_erase:
  "flash_mem (ch32_flashreg_write 0x10 0x42 4 flash_sample) = replicate 4096 0xff"
  by (simp add: ch32_flashreg_write_def ctl_write_mem flash_start_def ch32_flash_erase_4k_def
      flash_erase_block_def in_flash_def flash_sample_def ch32_flash_sector_wp_def
      flash_ptr_def CH32_FLASH_BASE_def sector_bit_def mem_fill_def Let_def)

lemma flash_write_changes_only_unprotected_witness:
  "flash_unlocked flash_sample \<and> \<not> ch32_flash_sector_wp flash_sample (flash_ptr 7) \<and>
   flash_mem (ch32_flashreg_write 0x10 0x42 4 flash_sample) ! 7 = 0xff"
  by (rule flash_write_changes_only_unprotected[OF flash_sample_ok])
    (simp add: flash_sample_def, subst flash_sample_erase, simp add: flash_sample_def)

text \<open>C33. The lock cannot be passed without the keys: from a locked controller, a sequence of
  register accesses that changes the flash contains KEY1 and then KEY2 as consecutive writes to
  the key registers.\<close>

theorem flash_erase_needs_keys:
  assumes "\<not> flash_unlocked s" "flash_key_step s = 0" "flash_mem (flash_run ws s) \<noteq> flash_mem s"
  shows "unlock_sequence ws"
  using run_tracks_keys[OF assms(1,2)] assms(3) by blast

definition flash_locked :: flash_state where
  "flash_locked = flash_sample\<lparr>flash_unlocked := False\<rparr>"

definition flash_session :: "flash_access list" where
  "flash_session = [(0x04, CH32_FLASH_KEY1, 4), (0x04, CH32_FLASH_KEY2, 4), (0x10, 0x42, 4)]"

lemma flash_session_erases: "flash_mem (flash_run flash_session flash_locked) = replicate 4096 0xff"
proof -
  have "ch32_flash_key_write CH32_FLASH_KEY2 (ch32_flash_key_write CH32_FLASH_KEY1 flash_locked) = flash_sample"
    by (simp add: ch32_flash_key_write_def flash_locked_def flash_sample_def CH32_FLASH_KEY1_def
        CH32_FLASH_KEY2_def arr_upd_def list_update_swap)
      (simp add: list_eq_iff_nth_eq nth_list_update)
  then have "flash_run flash_session flash_locked = ch32_flashreg_write 0x10 0x42 4 flash_sample"
    by (simp add: flash_run_def flash_session_def ch32_flashreg_write_def)
  then show ?thesis by (simp only: flash_sample_erase)
qed

lemma flash_erase_needs_keys_witness: "unlock_sequence flash_session"
proof (rule flash_erase_needs_keys[of flash_locked])
  have "(replicate 4096 (0xff::u8)) ! 0 \<noteq> replicate 4096 0 ! 0" by simp
  then show "flash_mem (flash_run flash_session flash_locked) \<noteq> flash_mem flash_locked"
    unfolding flash_session_erases by (metis flash_locked_def flash_sample_def flash_state.select_convs(1)
        flash_state.update_convs(3))
qed (simp_all add: flash_locked_def flash_sample_def)

end
