(* ===== verification/Ch32_Gpio.thy ===== *)
theory Ch32_Gpio
  imports Ch32_Prelude
begin

text \<open>
  GPIO ports, AFIO and the EXTI shadow (\<open>ch32-gpio-afio.c\<close>). A port is five registers; the input
  register is computed from the pin modes.
\<close>

record gpio_port =
  cfglr :: u32
  cfghr :: u32
  indr_in :: u32
  outdr :: u32
  lckr :: u32

record gpio_state =
  gpio_ports :: "gpio_port list"
  afio_ecr :: u32
  afio_pcfr1 :: u32
  afio_pcfr2 :: u32
  afio_exticr :: "u32 list"
  exti_shadow :: "u32 list"

definition CH32_GPIO_NPORTS :: nat where "CH32_GPIO_NPORTS = 8"

section \<open>Ports\<close>

text \<open>The mode nibble of pin \<open>i\<close>, and whether it drives the pin.\<close>

definition gpio_mode :: "gpio_port \<Rightarrow> nat \<Rightarrow> u32" where
  "gpio_mode p i =
     (if i < 8 then drop_bit (i * 4) (cfglr p) AND 0xf else drop_bit ((i - 8) * 4) (cfghr p) AND 0xf)"

definition gpio_is_output :: "gpio_port \<Rightarrow> nat \<Rightarrow> bool" where
  "gpio_is_output p i \<longleftrightarrow> gpio_mode p i AND 3 \<noteq> 0"

definition gpio_out_mask :: "gpio_port \<Rightarrow> u16" where
  "gpio_out_mask p = fold (\<lambda>i om. if gpio_is_output p i then om OR one_bit i else om) [0..<16] 0"

definition ch32_gpio_indr_value :: "gpio_port \<Rightarrow> u16" where
  "ch32_gpio_indr_value p =
     (let om = ucast (gpio_out_mask p) :: u32
      in ucast ((outdr p AND om) OR (indr_in p AND NOT om)))"

definition gpio_port_reset :: gpio_port where
  "gpio_port_reset = \<lparr>cfglr = 0x44444444, cfghr = 0x44444444, indr_in = 0xffff, outdr = 0, lckr = 0\<rparr>"

definition ch32_gpio_afio_reset :: "gpio_state \<Rightarrow> gpio_state" where
  "ch32_gpio_afio_reset s =
     \<lparr>gpio_ports = map (\<lambda>_. gpio_port_reset) (gpio_ports s), afio_ecr = 0, afio_pcfr1 = 0, afio_pcfr2 = 0,
      afio_exticr = map (\<lambda>_. 0) (afio_exticr s), exti_shadow = map (\<lambda>_. 0) (exti_shadow s)\<rparr>"

definition ch32_gpio_port_read :: "gpio_port \<Rightarrow> nat \<Rightarrow> u32" where
  "ch32_gpio_port_read p roff =
     (if roff = 0x00 then cfglr p
      else if roff = 0x04 then cfghr p
      else if roff = 0x08 then ucast (ch32_gpio_indr_value p)
      else if roff = 0x0c then outdr p AND 0xffff
      else if roff = 0x18 then lckr p
      else 0)"

definition ch32_gpio_port_write :: "nat \<Rightarrow> u32 \<Rightarrow> gpio_port \<Rightarrow> gpio_port" where
  "ch32_gpio_port_write roff v p =
     (if roff = 0x00 then p\<lparr>cfglr := v\<rparr>
      else if roff = 0x04 then p\<lparr>cfghr := v\<rparr>
      else if roff = 0x0c then p\<lparr>outdr := v AND 0xffff\<rparr>
      else if roff = 0x10 then
        p\<lparr>outdr := ucast (ucast ((outdr p OR (v AND 0xffff)) AND NOT (drop_bit 16 v AND 0xffff)) :: u16)\<rparr>
      else if roff = 0x14 then p\<lparr>outdr := outdr p AND NOT (v AND 0xffff)\<rparr>
      else if roff = 0x18 then p\<lparr>lckr := v\<rparr>
      else p)"

section \<open>MMIO handlers\<close>

definition ch32_gpio_read :: "nat \<Rightarrow> nat \<Rightarrow> gpio_state \<Rightarrow> u32" where
  "ch32_gpio_read addr sz s =
     (if addr < 0x800 then 0
      else
        let port = (addr - 0x800) div 0x400; roff = (addr - 0x800) mod 0x400 in
        if port \<ge> CH32_GPIO_NPORTS then 0
        else
          let w = ch32_gpio_port_read (gpio_ports s ! port) roff
          in if sz = 1 then drop_bit (roff mod 4 * 8) w AND 0xff
             else if sz = 2 then w AND 0xffff else w)"

definition ch32_gpio_write :: "nat \<Rightarrow> u32 \<Rightarrow> nat \<Rightarrow> gpio_state \<Rightarrow> gpio_state" where
  "ch32_gpio_write addr v sz s =
     (if addr < 0x800 then s
      else
        let port = (addr - 0x800) div 0x400; roff = (addr - 0x800) mod 0x400 in
        if port \<ge> CH32_GPIO_NPORTS then s
        else gpio_ports_update (arr_upd port (ch32_gpio_port_write roff v)) s)"

definition ch32_afio_exti_read :: "nat \<Rightarrow> nat \<Rightarrow> gpio_state \<Rightarrow> u32" where
  "ch32_afio_exti_read addr sz s =
     (if addr \<ge> 0x800 then 0
      else if addr < 0x400 then
        (let a = addr div 4 * 4;
             reg = (if a = 0 then Some (afio_ecr s)
                    else if a = 4 then Some (afio_pcfr1 s)
                    else if a = 8 then Some (afio_exticr s ! 0)
                    else if a = 0x0c then Some (afio_exticr s ! 1)
                    else if a = 0x10 then Some (afio_exticr s ! 2)
                    else if a = 0x14 then Some (afio_exticr s ! 3)
                    else if a = 0x1c then Some (afio_pcfr2 s)
                    else None)
         in case reg of None \<Rightarrow> 0
            | Some w \<Rightarrow> if sz = 1 then drop_bit (addr mod 4 * 8) w AND 0xff
                       else if sz = 2 then drop_bit (addr div 2 mod 2 * 16) w AND 0xffff
                       else w)
      else
        let e = addr - 0x400 in
        if e mod 4 \<noteq> 0 \<or> e \<ge> 0x400 then 0
        else let w = exti_shadow s ! (e div 4)
             in if sz = 1 then drop_bit (addr mod 4 * 8) w AND 0xff
                else if sz = 2 then w AND 0xffff else w)"

definition ch32_afio_exti_write :: "nat \<Rightarrow> u32 \<Rightarrow> nat \<Rightarrow> gpio_state \<Rightarrow> gpio_state" where
  "ch32_afio_exti_write addr v sz s =
     (if addr \<ge> 0x800 then s
      else if addr < 0x400 then
        (if sz = 4 \<and> addr mod 4 = 0 then
           if addr = 0 then s\<lparr>afio_ecr := v\<rparr>
           else if addr = 4 then s\<lparr>afio_pcfr1 := v\<rparr>
           else if addr = 8 then s\<lparr>afio_exticr := (afio_exticr s)[0 := v]\<rparr>
           else if addr = 0x0c then s\<lparr>afio_exticr := (afio_exticr s)[1 := v]\<rparr>
           else if addr = 0x10 then s\<lparr>afio_exticr := (afio_exticr s)[2 := v]\<rparr>
           else if addr = 0x14 then s\<lparr>afio_exticr := (afio_exticr s)[3 := v]\<rparr>
           else if addr = 0x1c then s\<lparr>afio_pcfr2 := v\<rparr>
           else s
         else s)
      else
        let e = addr - 0x400 in
        if e mod 4 \<noteq> 0 \<or> sz \<noteq> 4 then s
        else if e < 0x400 then s\<lparr>exti_shadow := (exti_shadow s)[e div 4 := v]\<rparr> else s)"

section \<open>Bits of a port\<close>

lemma bit_fold_or:
  fixes w0 :: "'a::len word"
  shows "bit (fold (\<lambda>i w. if P i then w OR one_bit i else w) is w0) n \<longleftrightarrow>
    bit w0 n \<or> (n \<in> set is \<and> P n \<and> n < LENGTH('a))"
proof (induction "is" arbitrary: w0)
  case (Cons j js)
  show ?case using Cons.IH[of "if P j then w0 OR one_bit j else w0"] bit_set_one_bit[of w0 j n]
    unfolding fold_simps by auto
qed simp

lemma bit_out_mask: "bit (gpio_out_mask p) i \<longleftrightarrow> i < 16 \<and> gpio_is_output p i"
  unfolding gpio_out_mask_def bit_fold_or by auto

lemma bit_indr:
  "i < 16 \<Longrightarrow> bit (ch32_gpio_indr_value p) i =
     (if gpio_is_output p i then bit (outdr p) i else bit (indr_in p) i)"
  by (simp add: ch32_gpio_indr_value_def Let_def bit_simps bit_out_mask)

lemma bit_0xffff: "bit (0xffff :: int) i \<longleftrightarrow> i < 16"
proof -
  have "(0xffff :: int) = mask 16" by (simp add: mask_eq_exp_minus_1)
  then show ?thesis by (simp only: bit_mask_iff) auto
qed

lemma bit_port_write_outdr:
  assumes "i < 16"
  shows "bit (outdr (ch32_gpio_port_write roff v p)) i =
    (if roff = 0x0c then bit v i
     else if roff = 0x10 then (bit (outdr p) i \<or> bit v i) \<and> \<not> bit v (i + 16)
     else if roff = 0x14 then bit (outdr p) i \<and> \<not> bit v i
     else bit (outdr p) i)"
  using assms by (simp add: ch32_gpio_port_write_def bit_simps bit_0xffff add.commute)

definition port_ok :: "gpio_port \<Rightarrow> bool" where
  "port_ok p \<longleftrightarrow> (\<forall>i \<ge> 16. \<not> bit (outdr p) i)"

lemma port_write_ok: "port_ok p \<Longrightarrow> port_ok (ch32_gpio_port_write roff v p)"
  by (auto simp: port_ok_def ch32_gpio_port_write_def bit_simps bit_0xffff dest: bit_imp_le_length)

section \<open>Properties\<close>

text \<open>A pin follows the set/reset register: after a write to BSHR, reading the input register
  gives for every output pin its old level set and then cleared by the two halves of the value,
  so that clearing wins when both are requested, and for every input pin the external level.\<close>

theorem gpio_bshr_pin:
  assumes "i < 16"
  shows "bit (ch32_gpio_port_read (ch32_gpio_port_write 0x10 v p) 0x08) i \<longleftrightarrow>
    (if gpio_is_output p i then (bit (outdr p) i \<or> bit v i) \<and> \<not> bit v (i + 16)
     else bit (indr_in p) i)"
proof -
  have "gpio_is_output (ch32_gpio_port_write 0x10 v p) i = gpio_is_output p i"
    "indr_in (ch32_gpio_port_write 0x10 v p) = indr_in p"
    by (simp_all add: gpio_is_output_def gpio_mode_def ch32_gpio_port_write_def)
  then show ?thesis
    using assms by (simp add: ch32_gpio_port_read_def bit_ucast_iff bit_indr bit_port_write_outdr)
qed

lemma gpio_bshr_pin_witness:
  "\<not> bit (ch32_gpio_port_read (ch32_gpio_port_write 0x10 0x00080008
      (gpio_port_reset\<lparr>cfglr := 0x3000, outdr := 8\<rparr>)) 0x08) 3"
proof -
  have "(3::nat) < 16" by simp
  from gpio_bshr_pin[OF this, where v = "0x00080008"
      and p = "gpio_port_reset\<lparr>cfglr := 0x3000, outdr := 8\<rparr>"]
  show ?thesis by (simp add: gpio_is_output_def gpio_mode_def)
qed

text \<open>
  A byte read at an odd offset does not see the register: the port read compares the unaligned
  offset with the register offsets and finds none.
\<close>

lemma gpio_unaligned_byte_reads_zero:
  assumes "roff mod 4 \<noteq> 0"
  shows "ch32_gpio_port_read p roff = 0"
  using assms by (auto simp: ch32_gpio_port_read_def)

end
