(* ===== verification/Ch32_Rtc.thy ===== *)
theory Ch32_Rtc
  imports Ch32_Prelude
begin

text \<open>
  The real-time clock (\<open>ch32-rtc.c\<close>): sixteen bit register shadows, and a seconds counter derived
  from the virtual clock. \<open>now\<close> is the value of \<open>qemu_clock_get_ns(QEMU_CLOCK_VIRTUAL)\<close> at the
  access.
\<close>

record rtc_state =
  rtc_hwords :: "u16 list"
  rtc_cnt_set :: bool
  rtc_cnt0 :: u32
  rtc_base_ns :: u64
  rtc_alr :: u32

definition CH32_RTC_SIZE :: nat where "CH32_RTC_SIZE = 0x80"

abbreviation "RTC_CTLRL_OFF \<equiv> (0x04 :: nat)"
abbreviation "RTC_CNTH_OFF \<equiv> (0x18 :: nat)"
abbreviation "RTC_CNTL_OFF \<equiv> (0x1C :: nat)"
abbreviation "RTC_ALRMH_OFF \<equiv> (0x20 :: nat)"
abbreviation "RTC_ALRML_OFF \<equiv> (0x24 :: nat)"

abbreviation "RTC_FLAG_RTOFF \<equiv> (0x0020 :: u16)"
abbreviation "RTC_FLAG_RSF \<equiv> (0x0008 :: u16)"
abbreviation "RTC_FLAG_SECF \<equiv> (0x0001 :: u16)"
abbreviation "RTC_FLAG_ALRF \<equiv> (0x0002 :: u16)"

section \<open>Counter and flags\<close>

definition ch32_rtc_current_cnt :: "u64 \<Rightarrow> rtc_state \<Rightarrow> u32" where
  "ch32_rtc_current_cnt now s =
     (if \<not> rtc_cnt_set s then 0
      else rtc_cnt0 s + ucast ((now - rtc_base_ns s) div 1000000000))"

definition ch32_rtc_read_ctlrl :: "u64 \<Rightarrow> rtc_state \<Rightarrow> u16" where
  "ch32_rtc_read_ctlrl now s =
     (let base = rtc_hwords s ! (RTC_CTLRL_OFF div 2) OR (RTC_FLAG_RTOFF OR RTC_FLAG_RSF) in
      if rtc_cnt_set s then
        (let cnt = ch32_rtc_current_cnt now s; base' = base OR RTC_FLAG_SECF in
         if rtc_alr s \<noteq> 0 \<and> cnt \<ge> rtc_alr s then base' OR RTC_FLAG_ALRF else base')
      else base)"

section \<open>MMIO handlers\<close>

text \<open>The sixteen bit value at an even offset, the way the halfword and byte reads see it.\<close>

definition rtc_halfword :: "u64 \<Rightarrow> nat \<Rightarrow> rtc_state \<Rightarrow> u16" where
  "rtc_halfword now a s =
     (if a = RTC_CTLRL_OFF then ch32_rtc_read_ctlrl now s
      else if rtc_cnt_set s \<and> a = RTC_CNTH_OFF then ucast (drop_bit 16 (ch32_rtc_current_cnt now s))
      else if rtc_cnt_set s \<and> a = RTC_CNTL_OFF then ucast (ch32_rtc_current_cnt now s AND 0xffff)
      else rtc_hwords s ! (a div 2))"

definition ch32_rtc_read :: "u64 \<Rightarrow> nat \<Rightarrow> nat \<Rightarrow> rtc_state \<Rightarrow> u32" where
  "ch32_rtc_read now addr sz s =
     (if addr \<ge> CH32_RTC_SIZE then 0
      else if sz = 2 \<and> even addr then ucast (rtc_halfword now addr s)
      else if sz = 1 then
        (let hv = rtc_halfword now (addr div 2 * 2) s
         in if odd addr then ucast (drop_bit 8 hv AND 0xff) else ucast (hv AND 0xff))
      else if sz = 4 \<and> addr mod 4 = 0 \<and> addr + 4 \<le> CH32_RTC_SIZE then
        (if addr \<noteq> RTC_CTLRL_OFF \<and> rtc_cnt_set s \<and> addr = RTC_CNTH_OFF then ch32_rtc_current_cnt now s
         else
           let lo = (if addr = RTC_CTLRL_OFF then ch32_rtc_read_ctlrl now s else rtc_hwords s ! (addr div 2));
               hi = rtc_hwords s ! (addr div 2 + 1)
           in ucast lo OR push_bit 16 (ucast hi))
      else 0)"

definition rtc_set_count :: "u64 \<Rightarrow> u16 \<Rightarrow> u16 \<Rightarrow> rtc_state \<Rightarrow> rtc_state" where
  "rtc_set_count now cnth cntl s =
     s\<lparr>rtc_base_ns := now, rtc_cnt0 := push_bit 16 (ucast cnth) OR ucast cntl, rtc_cnt_set := True\<rparr>"

definition rtc_write_half :: "u64 \<Rightarrow> nat \<Rightarrow> u32 \<Rightarrow> rtc_state \<Rightarrow> rtc_state" where
  "rtc_write_half now addr v s =
     (let s1 = s\<lparr>rtc_hwords := (rtc_hwords s)[addr div 2 := ucast v]\<rparr>;
          s2 = (if addr = RTC_CNTH_OFF \<or> addr = RTC_CNTL_OFF
                then rtc_set_count now (rtc_hwords s1 ! (RTC_CNTH_OFF div 2))
                       (rtc_hwords s1 ! (RTC_CNTL_OFF div 2)) s1
                else s1)
      in if addr = RTC_ALRMH_OFF \<or> addr = RTC_ALRML_OFF
         then s2\<lparr>rtc_alr := push_bit 16 (ucast (rtc_hwords s2 ! (RTC_ALRMH_OFF div 2))) OR
                            ucast (rtc_hwords s2 ! (RTC_ALRML_OFF div 2))\<rparr>
         else s2)"

definition rtc_write_byte :: "nat \<Rightarrow> u32 \<Rightarrow> rtc_state \<Rightarrow> rtc_state" where
  "rtc_write_byte addr v s =
     (let cur = rtc_hwords s ! (addr div 2)
      in s\<lparr>rtc_hwords := (rtc_hwords s)[addr div 2 :=
             (if odd addr then (cur AND 0x00ff) OR push_bit 8 (ucast v AND 0xff)
              else (cur AND 0xff00) OR (ucast v AND 0xff))]\<rparr>)"

definition rtc_write_word :: "u64 \<Rightarrow> nat \<Rightarrow> u32 \<Rightarrow> rtc_state \<Rightarrow> rtc_state" where
  "rtc_write_word now addr v s =
     (let s1 = s\<lparr>rtc_hwords := (rtc_hwords s)[addr div 2 := ucast v,
                                             addr div 2 + 1 := ucast (drop_bit 16 v)]\<rparr>;
          s2 = (if addr = RTC_CNTH_OFF then rtc_set_count now (ucast (drop_bit 16 v)) (ucast v) s1 else s1)
      in if addr = RTC_ALRMH_OFF
         then s2\<lparr>rtc_alr := push_bit 16 (ucast (ucast (drop_bit 16 v) :: u16)) OR ucast (ucast v :: u16)\<rparr>
         else s2)"

definition ch32_rtc_write :: "u64 \<Rightarrow> nat \<Rightarrow> u32 \<Rightarrow> nat \<Rightarrow> rtc_state \<Rightarrow> rtc_state" where
  "ch32_rtc_write now addr v sz s =
     (if addr \<ge> CH32_RTC_SIZE then s
      else if sz = 2 \<and> even addr then rtc_write_half now addr v s
      else if sz = 1 then rtc_write_byte addr v s
      else if sz = 4 \<and> addr mod 4 = 0 \<and> addr + 4 \<le> CH32_RTC_SIZE then rtc_write_word now addr v s
      else s)"

text \<open>The part of the machine reset that concerns the clock.\<close>

definition rtc_reset :: "u64 \<Rightarrow> rtc_state" where
  "rtc_reset now = \<lparr>rtc_hwords = replicate 64 0, rtc_cnt_set = False, rtc_cnt0 = 0, rtc_base_ns = now, rtc_alr = 0\<rparr>"

definition rtc_ok :: "rtc_state \<Rightarrow> bool" where
  "rtc_ok s \<longleftrightarrow> length (rtc_hwords s) = CH32_RTC_SIZE div 2"

lemma rtc_reset_ok: "rtc_ok (rtc_reset now)"
  by (simp add: rtc_ok_def rtc_reset_def CH32_RTC_SIZE_def)

lemma rtc_write_ok: "rtc_ok s \<Longrightarrow> rtc_ok (ch32_rtc_write now addr v sz s)"
  by (simp add: rtc_ok_def ch32_rtc_write_def rtc_write_half_def rtc_write_byte_def rtc_write_word_def
      rtc_set_count_def Let_def)

section \<open>Keeping time\<close>

lemma split_halves: "push_bit 16 (ucast (ucast (drop_bit 16 w) :: u16)) OR ucast (ucast w :: u16) = (w :: u32)"
  by (rule bit_word_eqI) (auto simp: bit_simps)

text \<open>The firmware's way to set the counter: the high half, then the low half.\<close>

definition rtc_set_counter :: "u64 \<Rightarrow> u64 \<Rightarrow> u32 \<Rightarrow> rtc_state \<Rightarrow> rtc_state" where
  "rtc_set_counter ta tb v s =
     ch32_rtc_write tb RTC_CNTL_OFF (v AND 0xffff) 2 (ch32_rtc_write ta RTC_CNTH_OFF (drop_bit 16 v) 2 s)"

definition rtc_get_counter :: "u64 \<Rightarrow> rtc_state \<Rightarrow> u32" where
  "rtc_get_counter now s =
     push_bit 16 (ch32_rtc_read now RTC_CNTH_OFF 2 s) OR ch32_rtc_read now RTC_CNTL_OFF 2 s"

lemma and_ffff_ucast: "(ucast (v AND 0xffff :: u32) :: u16) = ucast v"
proof -
  have "v AND 0xffff = take_bit 16 v" by (simp add: take_bit_eq_mask mask_eq_exp_minus_1)
  then show ?thesis by (auto intro!: bit_word_eqI simp: bit_simps)
qed

lemma rtc_counter_state:
  assumes "rtc_ok s"
  shows "rtc_cnt_set (rtc_set_counter ta tb v s)" "rtc_base_ns (rtc_set_counter ta tb v s) = tb"
    "rtc_cnt0 (rtc_set_counter ta tb v s) = v"
  using assms
  by (simp_all add: rtc_set_counter_def ch32_rtc_write_def CH32_RTC_SIZE_def rtc_write_half_def rtc_set_count_def
      Let_def rtc_ok_def and_ffff_ucast split_halves)

lemma rtc_get_counter_current:
  assumes "rtc_cnt_set s"
  shows "rtc_get_counter now s = ch32_rtc_current_cnt now s"
  using assms
  by (simp add: rtc_get_counter_def ch32_rtc_read_def CH32_RTC_SIZE_def rtc_halfword_def and_ffff_ucast split_halves)

text \<open>Setting the seconds counter by its two halfwords and reading it back later gives the value set
  plus the whole seconds of virtual time elapsed since the second write, modulo the 32 bit width,
  whatever the two halves held before.\<close>

theorem rtc_counts_seconds:
  assumes "rtc_ok s" "tb \<le> tc"
  shows "unat (rtc_get_counter tc (rtc_set_counter ta tb v s)) =
    (unat v + (unat tc - unat tb) div 10 ^ 9) mod 2 ^ 32"
proof -
  let ?s = "rtc_set_counter ta tb v s"
  have "rtc_get_counter tc ?s = v + ucast ((tc - tb) div 1000000000)"
    using rtc_counter_state[OF assms(1)] by (simp add: rtc_get_counter_current ch32_rtc_current_cnt_def)
  moreover have "unat ((tc - tb) div 1000000000) = (unat tc - unat tb) div 10 ^ 9"
    using assms(2) by (simp add: unat_div unat_sub)
  ultimately show ?thesis
    by (simp add: unat_word_ariths unsigned_ucast_eq take_bit_eq_mod mod_add_right_eq)
qed

lemma rtc_counts_seconds_witness:
  "unat (rtc_get_counter 5000000000 (rtc_set_counter 0 1000000000 0x0001ffff (rtc_reset 0))) = 0x00020003"
  using rtc_counts_seconds[where s = "rtc_reset 0" and ta = 0 and tb = 1000000000 and tc = 5000000000
      and v = "0x0001ffff"] rtc_reset_ok[of 0]
  by simp

text \<open>The alarm flag of CTLRL reads as one exactly when an alarm was configured and the running counter
  has reached it, or when software stored the bit itself; the second flag reads as one from the
  moment the counter runs.\<close>

theorem rtc_alarm_flag:
  assumes "rtc_cnt_set s"
  shows "(bit (ch32_rtc_read_ctlrl now s) 1 \<longleftrightarrow>
           bit (rtc_hwords s ! 2) 1 \<or> (rtc_alr s \<noteq> 0 \<and> rtc_alr s \<le> ch32_rtc_current_cnt now s)) \<and>
         bit (ch32_rtc_read_ctlrl now s) 0"
  using assms by (simp add: ch32_rtc_read_ctlrl_def Let_def bit_simps)

lemma rtc_alarm_flag_witness:
  "bit (ch32_rtc_read_ctlrl 5000000000 ((rtc_set_counter 0 0 7 (rtc_reset 0))\<lparr>rtc_alr := 9\<rparr>)) 1"
  using rtc_alarm_flag[where now = 5000000000 and s = "(rtc_set_counter 0 0 7 (rtc_reset 0))\<lparr>rtc_alr := 9\<rparr>"]
    rtc_counter_state[OF rtc_reset_ok, of 0 0 7 0]
  by (simp add: ch32_rtc_current_cnt_def)

end
