(* ===== verification/Ch32_Wdg.thy ===== *)
theory Ch32_Wdg
  imports Ch32_Prelude
begin

text \<open>
  The watchdogs: the independent one (\<open>ch32-iwdt.c\<close>) with its key register, prescaler, reload value and
  deadline timer, and the register shadow of the window watchdog (\<open>ch32-wwdg.c\<close>). \<open>now\<close> is the
  virtual clock at the access, \<open>md\<close> the host's \<open>muldiv64\<close>, whose second and third arguments are
  32 bit wide.
\<close>

section \<open>Independent watchdog\<close>

record iwdt_state =
  iwdt_pscr :: u32
  iwdt_rldr :: u32
  iwdt_statr :: u32
  iwdt_enabled :: bool
  iwdt_unlock :: bool
  iwdt_timer :: qtimer
  iwdt_flag_timer :: qtimer

abbreviation "IWDG_KEY_RELOAD \<equiv> (0xaaaa :: u32)"
abbreviation "IWDG_KEY_ENABLE \<equiv> (0xcccc :: u32)"
abbreviation "IWDG_KEY_UNLOCK \<equiv> (0x5555 :: u32)"
abbreviation "IWDG_FLAG_PVU \<equiv> (1 :: u32)"
abbreviation "IWDG_FLAG_RVU \<equiv> (2 :: u32)"

definition CH32_IWDG_SIZE :: nat where "CH32_IWDG_SIZE = 0x10"
definition CH32_IWDG_LSI_HZ :: u32 where "CH32_IWDG_LSI_HZ = 32000"
definition CH32_IWDG_QEMU_TIMEOUT_MULT :: u64 where "CH32_IWDG_QEMU_TIMEOUT_MULT = 24"

definition ch32_iwdt_prescale_div :: "u32 \<Rightarrow> u32" where
  "ch32_iwdt_prescale_div pscr =
     (let pr = unat (pscr AND 7) in push_bit (if pr > 6 then 6 else pr) 4)"

text \<open>The product \<open>div * 1000000000\<close> is formed in 64 bits and passed to a 32 bit parameter.\<close>

definition ch32_iwdt_timeout_ns :: "muldiv \<Rightarrow> iwdt_state \<Rightarrow> u64" where
  "ch32_iwdt_timeout_ns md s =
     (let dv = ch32_iwdt_prescale_div (iwdt_pscr s); rl = (iwdt_rldr s AND 0xfff) + 1
      in md (ucast rl) (ucast ((ucast dv :: u64) * 1000000000)) CH32_IWDG_LSI_HZ * CH32_IWDG_QEMU_TIMEOUT_MULT)"

definition ch32_iwdt_reload_timer :: "muldiv \<Rightarrow> u64 \<Rightarrow> iwdt_state \<Rightarrow> iwdt_state" where
  "ch32_iwdt_reload_timer md now s =
     (if iwdt_timer s = Timer_null \<or> \<not> iwdt_enabled s then s
      else let ns = ch32_iwdt_timeout_ns md s
           in s\<lparr>iwdt_timer := timer_mod_ns (now + (if ns \<noteq> 0 then ns else 1000)) (iwdt_timer s)\<rparr>)"

definition ch32_iwdt_flags_clear :: "iwdt_state \<Rightarrow> iwdt_state" where
  "ch32_iwdt_flags_clear s = s\<lparr>iwdt_statr := 0\<rparr>"

definition ch32_iwdt_arm_stat_clear :: "u64 \<Rightarrow> iwdt_state \<Rightarrow> iwdt_state" where
  "ch32_iwdt_arm_stat_clear now s =
     (let t = (if iwdt_flag_timer s = Timer_null then Timer_idle else iwdt_flag_timer s)
      in s\<lparr>iwdt_flag_timer := timer_mod_ns (now + 1000) t\<rparr>)"

definition ch32_iwdt_reset :: "iwdt_state \<Rightarrow> iwdt_state" where
  "ch32_iwdt_reset s =
     s\<lparr>iwdt_rldr := 0xfff, iwdt_pscr := 0, iwdt_enabled := False, iwdt_unlock := False, iwdt_statr := 0,
       iwdt_timer := timer_del (iwdt_timer s), iwdt_flag_timer := timer_del (iwdt_flag_timer s)\<rparr>"

definition ch32_iwdt_init_mr :: "iwdt_state \<Rightarrow> iwdt_state" where
  "ch32_iwdt_init_mr s =
     ch32_iwdt_reset (s\<lparr>iwdt_timer := (if iwdt_timer s = Timer_null then Timer_idle else iwdt_timer s)\<rparr>)"

definition ch32_iwdt_read :: "nat \<Rightarrow> nat \<Rightarrow> iwdt_state \<Rightarrow> u32" where
  "ch32_iwdt_read addr sz s =
     (if addr \<ge> CH32_IWDG_SIZE then 0
      else if addr = 0 then 0
      else if addr = 4 then iwdt_pscr s AND 7
      else if addr = 8 then
        (if sz = 1 then iwdt_rldr s AND 0xff
         else if sz = 2 then iwdt_rldr s AND 0xffff else iwdt_rldr s AND 0xfff)
      else if addr = 0x0c then iwdt_statr s
      else 0)"

definition iwdt_key_write :: "muldiv \<Rightarrow> u64 \<Rightarrow> u32 \<Rightarrow> nat \<Rightarrow> iwdt_state \<Rightarrow> iwdt_state" where
  "iwdt_key_write md now v sz s =
     (let w = (if sz = 1 then v AND 0xff else if sz = 2 then v AND 0xffff else v) in
      if w AND 0xffff = IWDG_KEY_UNLOCK then s\<lparr>iwdt_unlock := True\<rparr>
      else if w AND 0xffff = IWDG_KEY_RELOAD then ch32_iwdt_reload_timer md now s
      else if w AND 0xffff = IWDG_KEY_ENABLE then
        ch32_iwdt_reload_timer md now (s\<lparr>iwdt_enabled := True, iwdt_unlock := False\<rparr>)
      else s)"

definition ch32_iwdt_write :: "muldiv \<Rightarrow> u64 \<Rightarrow> nat \<Rightarrow> u32 \<Rightarrow> nat \<Rightarrow> iwdt_state \<Rightarrow> iwdt_state" where
  "ch32_iwdt_write md now addr v sz s =
     (if addr \<ge> CH32_IWDG_SIZE then s
      else if addr = 0 then iwdt_key_write md now v sz s
      else if addr = 4 then
        (if \<not> iwdt_unlock s \<or> iwdt_enabled s then s
         else ch32_iwdt_arm_stat_clear now
                (s\<lparr>iwdt_pscr := v AND 7, iwdt_statr := iwdt_statr s OR IWDG_FLAG_PVU\<rparr>))
      else if addr = 8 then
        (if \<not> iwdt_unlock s \<or> iwdt_enabled s then s
         else ch32_iwdt_arm_stat_clear now
                (s\<lparr>iwdt_rldr := v AND 0xfff, iwdt_statr := iwdt_statr s OR IWDG_FLAG_RVU\<rparr>))
      else s)"

section \<open>Window watchdog\<close>

record wwdg_state =
  wwdg_ctlr :: u32
  wwdg_cfgr :: u32
  wwdg_statr :: u32

definition ch32_wwdg_read :: "nat \<Rightarrow> nat \<Rightarrow> wwdg_state \<Rightarrow> u32" where
  "ch32_wwdg_read addr sz s =
     (let a = addr div 4 * 4 in
      if a \<notin> {0, 4, 8} then 0
      else let v = (if a = 0 then wwdg_ctlr s OR 0x40 else if a = 4 then wwdg_cfgr s else wwdg_statr s)
           in if sz = 1 then drop_bit (addr mod 4 * 8) v AND 0xff
              else if sz = 2 then v AND 0xffff else v)"

definition ch32_wwdg_write :: "nat \<Rightarrow> u32 \<Rightarrow> wwdg_state \<Rightarrow> wwdg_state" where
  "ch32_wwdg_write addr v s =
     (let a = addr div 4 * 4 in
      if a = 0 then s\<lparr>wwdg_ctlr := v AND 0x7f\<rparr>
      else if a = 4 then s\<lparr>wwdg_cfgr := v\<rparr>
      else if a = 8 then (if \<not> bit v 0 then s\<lparr>wwdg_statr := wwdg_statr s AND NOT 1\<rparr> else s)
      else s)"

text \<open>The shadow keeps the counter in seven bits, and the read shows bit 6 set.\<close>

lemma wwdg_ctlr_reads_back:
  "ch32_wwdg_read 0 4 (ch32_wwdg_write 0 v s) = (v AND 0x7f) OR 0x40"
  by (simp add: ch32_wwdg_read_def ch32_wwdg_write_def)

section \<open>What a running watchdog guarantees\<close>

lemma wdt_enabled_keeps_config:
  assumes "iwdt_enabled s"
  shows "iwdt_enabled (ch32_iwdt_write md now addr v sz s)"
    "iwdt_pscr (ch32_iwdt_write md now addr v sz s) = iwdt_pscr s"
    "iwdt_rldr (ch32_iwdt_write md now addr v sz s) = iwdt_rldr s"
  using assms
  by (simp_all add: ch32_iwdt_write_def iwdt_key_write_def ch32_iwdt_reload_timer_def Let_def)

lemma timeout_ns_depends:
  assumes "iwdt_pscr s' = iwdt_pscr s" "iwdt_rldr s' = iwdt_rldr s"
  shows "ch32_iwdt_timeout_ns md s' = ch32_iwdt_timeout_ns md s"
  using assms by (simp add: ch32_iwdt_timeout_ns_def)

text \<open>A sequence of register writes: clock, offset, value, size.\<close>

fun iwdt_writes :: "muldiv \<Rightarrow> (u64 \<times> nat \<times> u32 \<times> nat) list \<Rightarrow> iwdt_state \<Rightarrow> iwdt_state" where
  "iwdt_writes md [] s = s"
| "iwdt_writes md ((now, addr, v, sz) # ws) s = iwdt_writes md ws (ch32_iwdt_write md now addr v sz s)"

definition is_kick :: "u64 \<times> nat \<times> u32 \<times> nat \<Rightarrow> bool" where
  "is_kick w = (case w of (now, addr, v, sz) \<Rightarrow>
     addr = 0 \<and> (if sz = 1 then v AND 0xff else if sz = 2 then v AND 0xffff else v) AND 0xffff
                  \<in> {IWDG_KEY_RELOAD, IWDG_KEY_ENABLE})"

lemma write_keeps_deadline:
  assumes "iwdt_enabled s" "\<not> is_kick (now, addr, v, sz)"
  shows "iwdt_timer (ch32_iwdt_write md now addr v sz s) = iwdt_timer s"
proof (cases "addr = 0")
  case True
  define w where "w = (if sz = 1 then v AND 0xff else if sz = 2 then v AND 0xffff else v) AND 0xffff"
  have "w \<noteq> IWDG_KEY_RELOAD" "w \<noteq> IWDG_KEY_ENABLE"
    using assms(2) True by (simp_all add: is_kick_def w_def)
  then have "iwdt_timer (iwdt_key_write md now v sz s) = iwdt_timer s"
    unfolding iwdt_key_write_def Let_def w_def[symmetric] by simp
  then show ?thesis using True by (simp add: ch32_iwdt_write_def)
qed (use assms(1) in \<open>simp add: ch32_iwdt_write_def\<close>)

text \<open>Once the independent watchdog is enabled, no sequence of register writes stops it or changes its
  prescaler or reload value, and its deadline stays where the last reload put it unless one of the
  writes is the reload or the enable key.\<close>

theorem iwdt_cannot_be_stopped:
  assumes "iwdt_enabled s"
  shows "iwdt_enabled (iwdt_writes md ws s) \<and> iwdt_pscr (iwdt_writes md ws s) = iwdt_pscr s \<and>
    iwdt_rldr (iwdt_writes md ws s) = iwdt_rldr s \<and>
    (list_all (\<lambda>w. \<not> is_kick w) ws \<longrightarrow> iwdt_timer (iwdt_writes md ws s) = iwdt_timer s)"
  using assms
proof (induction ws arbitrary: s)
  case (Cons w ws)
  obtain now addr v sz where w: "w = (now, addr, v, sz)" by (cases w)
  let ?s = "ch32_iwdt_write md now addr v sz s"
  show ?case
    using Cons.IH[of ?s] wdt_enabled_keeps_config[OF Cons.prems, of md now addr v sz]
      write_keeps_deadline[OF Cons.prems, of now addr v sz md] by (simp add: w)
qed simp

definition iwdt_fresh :: iwdt_state where
  "iwdt_fresh = ch32_iwdt_init_mr \<lparr>iwdt_pscr = 0, iwdt_rldr = 0, iwdt_statr = 0, iwdt_enabled = False,
     iwdt_unlock = False, iwdt_timer = Timer_null, iwdt_flag_timer = Timer_null\<rparr>"

lemma iwdt_cannot_be_stopped_witness:
  "iwdt_rldr (iwdt_writes muldiv64_ref [(1, 0, 0x5555, 4), (2, 8, 0x10, 4), (3, 0, 0, 4)]
     (ch32_iwdt_write muldiv64_ref 0 0 0xcccc 4 iwdt_fresh)) = 0xfff"
  using iwdt_cannot_be_stopped[of "ch32_iwdt_write muldiv64_ref 0 0 0xcccc 4 iwdt_fresh" muldiv64_ref
      "[(1, 0, 0x5555, 4), (2, 8, 0x10, 4), (3, 0, 0, 4)]"]
  by (simp add: iwdt_fresh_def ch32_iwdt_init_mr_def ch32_iwdt_reset_def ch32_iwdt_write_def CH32_IWDG_SIZE_def
      iwdt_key_write_def ch32_iwdt_reload_timer_def Let_def)

section \<open>The timeout\<close>

lemma iwdt_rl_bound: "unat ((r AND 0xfff) + 1 :: u32) = unat (r AND 0xfff) + 1" "unat (r AND 0xfff :: u32) < 4096"
proof -
  have "r AND 0xfff = take_bit 12 r" by (simp add: take_bit_eq_mask mask_eq_exp_minus_1)
  then show *: "unat (r AND 0xfff) < 4096" by (simp only: unsigned_take_bit_eq) (simp add: take_bit_eq_mod)
  show "unat ((r AND 0xfff) + 1) = unat (r AND 0xfff) + 1"
    using * by (subst unat_plus_simple[THEN iffD1]) (auto simp: word_le_nat_alt unat_word_ariths)
qed

lemma iwdt_div_cases:
  "ch32_iwdt_prescale_div p = 4 * 2 ^ min 6 (unat (p AND 7))"
  by (simp add: ch32_iwdt_prescale_div_def Let_def push_bit_eq_mult min_def mult.commute)

lemma iwdt_div_unat: "unat (ch32_iwdt_prescale_div p) = 4 * 2 ^ min 6 (unat (p AND 7))"
proof -
  have "(4 :: nat) * 2 ^ min 6 k \<le> 4 * 2 ^ 6" for k :: nat
    by (intro mult_left_mono power_increasing) simp_all
  then have "(4 :: nat) * 2 ^ min 6 k < 2 ^ 32" for k :: nat by (rule le_less_trans) simp
  then show ?thesis
    using unat_of_nat_small[of "4 * 2 ^ min 6 (unat (p AND 7))", where 'a = 32] by (simp add: iwdt_div_cases)
qed

lemma iwdt_arg_unat:
  "unat (ucast ((ucast d :: u64) * 1000000000) :: u32) = unat d * 10 ^ 9 mod 2 ^ 32" for d :: u32
proof -
  have "unat ((ucast d :: u64) * 1000000000) = unat d * 10 ^ 9"
  proof -
    have "unat d < 2 ^ 32" using unsigned_less[of d] by simp
    then have "unat d * 10 ^ 9 < 2 ^ 64" by simp
    then show ?thesis by (simp add: unat_word_ariths unsigned_ucast_eq take_bit_eq_mod)
  qed
  then show ?thesis by (simp add: unsigned_ucast_eq take_bit_eq_mod)
qed

lemma iwdt_timeout_unat:
  assumes "muldiv64_ok md"
  shows "unat (ch32_iwdt_timeout_ns md s) =
    (unat (iwdt_rldr s AND 0xfff) + 1) * (unat (ch32_iwdt_prescale_div (iwdt_pscr s)) * 10 ^ 9 mod 2 ^ 32)
      div 32000 * 24"
proof -
  let ?rl = "unat (iwdt_rldr s AND 0xfff) + 1" and ?d = "unat (ch32_iwdt_prescale_div (iwdt_pscr s)) * 10 ^ 9 mod 2 ^ 32"
  have rl: "unat (ucast ((iwdt_rldr s AND 0xfff) + 1) :: u64) = ?rl"
    using iwdt_rl_bound[of "iwdt_rldr s"] by (simp add: unsigned_ucast_eq take_bit_eq_mod)
  have "?rl * ?d < 2 ^ 12 * 2 ^ 32 + 1"
    using iwdt_rl_bound(2)[of "iwdt_rldr s"] by (intro le_imp_less_Suc[unfolded Suc_eq_plus1] mult_mono) auto
  then have b: "?rl * ?d div 32000 < 2 ^ 32" by simp
  then have "unat (md (ucast ((iwdt_rldr s AND 0xfff) + 1))
      (ucast ((ucast (ch32_iwdt_prescale_div (iwdt_pscr s)) :: u64) * 1000000000)) CH32_IWDG_LSI_HZ) = ?rl * ?d div 32000"
    using muldiv64_unat_less[OF assms, of CH32_IWDG_LSI_HZ "ucast ((iwdt_rldr s AND 0xfff) + 1)"
        "ucast ((ucast (ch32_iwdt_prescale_div (iwdt_pscr s)) :: u64) * 1000000000)"]
    by (simp add: rl iwdt_arg_unat CH32_IWDG_LSI_HZ_def)
  then show ?thesis
    using b by (simp add: ch32_iwdt_timeout_ns_def Let_def unat_word_ariths CH32_IWDG_QEMU_TIMEOUT_MULT_def)
qed

text \<open>The timeout with the smallest prescaler is exact: reload plus one periods of 125 microseconds,
  stretched by 24.\<close>

lemma iwdt_timeout_div4:
  assumes "muldiv64_ok md" "iwdt_pscr s AND 7 = 0"
  shows "unat (ch32_iwdt_timeout_ns md s) = (unat (iwdt_rldr s AND 0xfff) + 1) * 125000 * 24"
  using assms by (simp add: iwdt_timeout_unat iwdt_div_unat)

text \<open>The prescaler does not scale the timeout: the product of the divider and one second in nanoseconds
  does not fit the 32 bit parameter of the scaling routine, so that for the same reload value every
  divider above the smallest one gives a shorter timeout than the smallest one does.\<close>

theorem iwdt_prescaler_truncates:
  assumes "muldiv64_ok md" "iwdt_rldr s' = iwdt_rldr s" "iwdt_pscr s AND 7 = 0" "iwdt_pscr s' AND 7 \<noteq> 0"
  shows "ch32_iwdt_timeout_ns md s' < ch32_iwdt_timeout_ns md s"
proof -
  let ?k = "min 6 (unat (iwdt_pscr s' AND 7))" and ?rl = "unat (iwdt_rldr s AND 0xfff) + 1"
  have "unat (iwdt_pscr s' AND 7) \<noteq> 0" using assms(4) by (simp add: unat_eq_0)
  then have "?k \<in> {1, 2, 3, 4, 5, 6}" by (auto simp: min_def)
  then have "4 * 2 ^ ?k * 10 ^ 9 mod 2 ^ 32 \<le> (3870457856 :: nat)" by auto
  then have "?rl * (4 * 2 ^ ?k * 10 ^ 9 mod 2 ^ 32) \<le> ?rl * 3870457856" by (rule mult_left_mono) simp
  then have "?rl * (4 * 2 ^ ?k * 10 ^ 9 mod 2 ^ 32) div 32000 < ?rl * 125000"
    by (intro div_less_iff_less_mult[THEN iffD2]) simp_all
  then show ?thesis
    using assms by (simp add: word_less_nat_alt iwdt_timeout_div4 iwdt_timeout_unat[of md s'] iwdt_div_unat)
qed

lemma iwdt_prescaler_truncates_witness:
  "ch32_iwdt_timeout_ns muldiv64_ref (iwdt_fresh\<lparr>iwdt_pscr := 6\<rparr>) < ch32_iwdt_timeout_ns muldiv64_ref iwdt_fresh"
  using iwdt_prescaler_truncates[OF muldiv64_ref_ok, of "iwdt_fresh\<lparr>iwdt_pscr := 6\<rparr>" iwdt_fresh]
  by (simp add: iwdt_fresh_def ch32_iwdt_init_mr_def ch32_iwdt_reset_def)

end
