(* ===== verification/Ch32_Crc.thy ===== *)
theory Ch32_Crc
  imports Ch32_Prelude
begin

text \<open>
  The CRC unit (\<open>ch32-crc.c\<close>): a bit serial CRC-32 over words, most significant bit first, without
  reflection or final exclusive or. The lemmas treat the word step as what it is, an invertible
  linear map of the accumulator, so that any corruption confined to one word changes the result.
\<close>

record crc_state =
  crc_dr :: u32
  crc_idr :: u8

definition crc_shift :: "u32 \<Rightarrow> u32" where
  "crc_shift crc = (if crc AND 0x80000000 \<noteq> 0 then push_bit 1 crc XOR 0x04C11DB7 else push_bit 1 crc)"

definition ch32_crc32_word :: "u32 \<Rightarrow> u32 \<Rightarrow> u32" where
  "ch32_crc32_word crc dat = (crc_shift ^^ 32) (crc XOR dat)"

definition ch32_crc_read :: "nat \<Rightarrow> crc_state \<Rightarrow> u32" where
  "ch32_crc_read addr s =
     (let a = addr div 4 * 4 in
      if a = 0 then crc_dr s else if a = 4 then ucast (crc_idr s) else 0)"

definition ch32_crc_write :: "nat \<Rightarrow> u32 \<Rightarrow> crc_state \<Rightarrow> crc_state" where
  "ch32_crc_write addr v s =
     (let a = addr div 4 * 4 in
      if a = 0 then s\<lparr>crc_dr := ch32_crc32_word (crc_dr s) v\<rparr>
      else if a = 4 then s\<lparr>crc_idr := ucast v\<rparr>
      else if a = 8 then (if bit v 0 then s\<lparr>crc_dr := 0xFFFFFFFF\<rparr> else s)
      else s)"

text \<open>A firmware run: reset, feed the words, read the result.\<close>

definition crc_feed :: "u32 list \<Rightarrow> crc_state \<Rightarrow> crc_state" where
  "crc_feed ws s = fold (ch32_crc_write 0) ws s"

definition crc_of :: "u32 list \<Rightarrow> crc_state \<Rightarrow> u32" where
  "crc_of ws s = ch32_crc_read 0 (crc_feed ws (ch32_crc_write 8 1 s))"

section \<open>The word step\<close>

lemma and_msb: "(crc AND 0x80000000 \<noteq> 0) = bit crc 31" for crc :: u32
  using and_exp_eq_0_iff_not_bit[of crc 31] by simp

lemma crc_shift_bit:
  "crc_shift x = push_bit 1 x XOR (if bit x 31 then 0x04C11DB7 else 0)"
  by (simp add: crc_shift_def and_msb)

lemma crc_shift_xor: "crc_shift (x XOR y) = crc_shift x XOR crc_shift y"
proof -
  have "push_bit 1 (x XOR y) = push_bit 1 x XOR push_bit 1 y" by (simp add: push_bit_xor)
  then show ?thesis
    by (cases "bit x 31"; cases "bit y 31") (simp_all add: crc_shift_bit bit_xor_iff ac_simps)
qed

lemma crc_shift_zero: "crc_shift x = 0 \<longleftrightarrow> x = 0"
proof
  assume z: "crc_shift x = 0"
  have "bit (push_bit 1 x) 0 = False" by (simp only: bit_push_bit_iff) simp
  then have "bit (crc_shift x) 0 = bit x 31"
    by (simp only: crc_shift_bit bit_xor_iff) simp
  then have msb: "\<not> bit x 31" using z by simp
  then have "push_bit 1 x = 0" using z by (simp add: crc_shift_bit)
  then have low: "\<not> bit x i" if "i < 31" for i
    using that bit_push_bit_iff[of 1 x "Suc i"] by simp
  show "x = 0"
  proof (rule bit_word_eqI)
    fix n assume "n < LENGTH(32)"
    then consider "n < 31" | "n = 31" by fastforce
    then show "bit x n = bit (0 :: u32) n" by cases (use low msb in simp_all)
  qed
qed (simp add: crc_shift_def)

lemma xor_right_cancel: "a XOR c = b XOR c \<longleftrightarrow> a = b" for a b c :: u32
  by (simp add: bit_eq_iff bit_xor_iff) blast

lemma xor_left_cancel: "c XOR a = c XOR b \<longleftrightarrow> a = b" for a b c :: u32
  by (simp add: bit_eq_iff bit_xor_iff) blast

lemma xor_zero_iff: "a XOR b = 0 \<longleftrightarrow> a = b" for a b :: u32
  using xor_right_cancel[of a b b] by simp

lemma crc_shifts_xor: "(crc_shift ^^ n) (x XOR y) = (crc_shift ^^ n) x XOR (crc_shift ^^ n) y"
  by (induction n) (simp_all add: crc_shift_xor)

lemma crc_shifts_zero: "(crc_shift ^^ n) x = 0 \<longleftrightarrow> x = 0"
  by (induction n) (simp_all add: crc_shift_zero)

lemma crc_word_inj: "ch32_crc32_word c x = ch32_crc32_word d y \<longleftrightarrow> c XOR x = d XOR y"
proof -
  have "ch32_crc32_word c x = ch32_crc32_word d y \<longleftrightarrow> ch32_crc32_word c x XOR ch32_crc32_word d y = 0"
    by (rule xor_zero_iff[symmetric])
  also have "\<dots> \<longleftrightarrow> (crc_shift ^^ 32) ((c XOR x) XOR (d XOR y)) = 0"
    by (simp only: ch32_crc32_word_def crc_shifts_xor)
  also have "\<dots> \<longleftrightarrow> (c XOR x) XOR (d XOR y) = 0" by (rule crc_shifts_zero)
  also have "\<dots> \<longleftrightarrow> c XOR x = d XOR y" by (rule xor_zero_iff)
  finally show ?thesis .
qed

section \<open>Streams\<close>

lemma crc_dr_feed: "crc_dr (crc_feed ws s) = fold (\<lambda>w c. ch32_crc32_word c w) ws (crc_dr s)"
  unfolding crc_feed_def
  by (induction ws arbitrary: s) (simp_all add: ch32_crc_write_def)

lemma crc_of_fold: "crc_of ws s = fold (\<lambda>w c. ch32_crc32_word c w) ws 0xFFFFFFFF"
  by (simp add: crc_of_def ch32_crc_read_def crc_dr_feed ch32_crc_write_def)

lemma crc_fold_inj:
  "fold (\<lambda>w c. ch32_crc32_word c w) ws c = fold (\<lambda>w c. ch32_crc32_word c w) ws d \<longleftrightarrow> c = d"
proof (induction ws arbitrary: c d)
  case (Cons w ws)
  show ?case by (simp add: Cons.IH crc_word_inj xor_right_cancel)
qed simp

text \<open>The CRC of a stream depends on the data alone, and replacing any one word of a stream by another
  one changes its CRC: a corruption confined to one word is always detected.\<close>

theorem crc_detects_word_error:
  assumes "w \<noteq> w'"
  shows "crc_of (pre @ w # post) s \<noteq> crc_of (pre @ w' # post) s'"
proof -
  have "ch32_crc32_word c w \<noteq> ch32_crc32_word c w'" for c
    using assms by (simp add: crc_word_inj xor_left_cancel)
  then show ?thesis by (simp add: crc_of_fold crc_fold_inj)
qed

lemma crc_detects_word_error_witness:
  "crc_of [1, 2, 3] \<lparr>crc_dr = 0, crc_idr = 0\<rparr> \<noteq> crc_of [1, 6, 3] \<lparr>crc_dr = 5, crc_idr = 0\<rparr>"
  using crc_detects_word_error[where w = 2 and w' = 6 and pre = "[1]" and post = "[3]"] by simp

text \<open>Feeding a word is linear in the accumulator and the data: the CRC of the bitwise sum of two
  equally long streams is the sum of their CRCs and of the CRC of the all zero stream.\<close>

theorem crc_linear:
  assumes "length xs = length ys"
  shows "crc_of (map2 (XOR) xs ys) s =
    crc_of xs s XOR crc_of ys s XOR crc_of (replicate (length xs) 0) s"
proof -
  have "fold (\<lambda>w c. ch32_crc32_word c w) (map2 (XOR) xs ys) (c XOR d XOR e) =
      fold (\<lambda>w c. ch32_crc32_word c w) xs c XOR fold (\<lambda>w c. ch32_crc32_word c w) ys d XOR
      fold (\<lambda>w c. ch32_crc32_word c w) (replicate (length xs) 0) e" for c d e
    using assms
  proof (induction xs ys arbitrary: c d e rule: list_induct2)
    case (Cons x xs y ys)
    have "ch32_crc32_word (c XOR d XOR e) (x XOR y) =
      ch32_crc32_word c x XOR ch32_crc32_word d y XOR ch32_crc32_word e 0"
      unfolding ch32_crc32_word_def crc_shifts_xor
      using crc_shifts_zero[of 32 0] by (simp add: ac_simps)
    then show ?case by (simp add: Cons.IH)
  qed simp
  from this[of "0xFFFFFFFF" "0xFFFFFFFF" "0xFFFFFFFF"] show ?thesis by (simp add: crc_of_fold)
qed

lemma crc_linear_witness:
  "crc_of [1 XOR 2] \<lparr>crc_dr = 0, crc_idr = 0\<rparr> =
   crc_of [1] \<lparr>crc_dr = 0, crc_idr = 0\<rparr> XOR crc_of [2] \<lparr>crc_dr = 0, crc_idr = 0\<rparr> XOR
   crc_of [0] \<lparr>crc_dr = 0, crc_idr = 0\<rparr>"
  using crc_linear[of "[1]" "[2]" "\<lparr>crc_dr = 0, crc_idr = 0\<rparr>"] by simp

end
