(* ===== verification/Ch32_Lanes.thy ===== *)
theory Ch32_Lanes
  imports Ch32_Prelude
begin

text \<open>
  The access pattern SPI and I2C share: sixteen bit registers on a four byte grid, accessed byte by
  byte, a byte write being a read of the register, a merge and a write of the register. The
  locale states what a register without side effects promises and derives what a halfword access
  does to it; the two components instantiate it.
\<close>

type_synonym 's rd_reg = "nat \<Rightarrow> 's \<Rightarrow> u16 \<times> 's"
type_synonym 's wr_reg = "nat \<Rightarrow> u16 \<Rightarrow> 's \<Rightarrow> 's"

definition lane_read_byte :: "'s rd_reg \<Rightarrow> nat \<Rightarrow> nat \<Rightarrow> 's \<Rightarrow> u8 \<times> 's" where
  "lane_read_byte rd lim a s =
     (if a < lim \<and> a mod 4 < 2
      then let (reg, s') = rd (a div 4 * 4) s in (ucast (drop_bit (8 * (a mod 4)) reg), s')
      else (0, s))"

fun lane_read :: "'s rd_reg \<Rightarrow> nat \<Rightarrow> nat \<Rightarrow> nat \<Rightarrow> 's \<Rightarrow> u32 \<times> 's" where
  "lane_read rd lim a 0 s = (0, s)"
| "lane_read rd lim a (Suc n) s =
     (let (b, s1) = lane_read_byte rd lim a s; (v, s2) = lane_read rd lim (a + 1) n s1
      in (ucast b OR push_bit 8 v, s2))"

definition lane_merge :: "nat \<Rightarrow> u8 \<Rightarrow> u16 \<Rightarrow> u16" where
  "lane_merge byte_in_reg new_byte old =
     (if byte_in_reg = 0 then (old AND 0xFF00) OR ucast new_byte
      else (old AND 0x00FF) OR push_bit 8 (ucast new_byte))"

definition lane_write_byte :: "'s rd_reg \<Rightarrow> 's wr_reg \<Rightarrow> nat \<Rightarrow> nat \<Rightarrow> u8 \<Rightarrow> 's \<Rightarrow> 's" where
  "lane_write_byte rd wr lim a b s =
     (if a < lim \<and> a mod 4 < 2
      then let (old, s') = rd (a div 4 * 4) s in wr (a div 4 * 4) (lane_merge (a mod 4) b old) s'
      else s)"

fun lane_write :: "'s rd_reg \<Rightarrow> 's wr_reg \<Rightarrow> nat \<Rightarrow> nat \<Rightarrow> u8 list \<Rightarrow> 's \<Rightarrow> 's" where
  "lane_write rd wr lim a [] s = s"
| "lane_write rd wr lim a (b # bs) s = lane_write rd wr lim (a + 1) bs (lane_write_byte rd wr lim a b s)"

section \<open>Merging the two lanes\<close>

lemma and_ff00: "(w AND 0xFF00 :: u16) = push_bit 8 (drop_bit 8 w)"
proof -
  have *: "(0xFF00 :: u16) = push_bit 8 (mask 8)" by (simp add: mask_eq_exp_minus_1 push_bit_eq_mult)
  show ?thesis unfolding * by (rule bit_word_eqI) (auto simp: bit_simps)
qed

lemma lane_merge_both:
  "lane_merge (Suc 0) (ucast (drop_bit 8 v)) (lane_merge 0 (ucast v) old) = v" for v old :: u16
  by (rule bit_word_eqI) (auto simp: lane_merge_def and_ff_take_bit and_ff00 bit_simps)

lemma lane_join: "(ucast (ucast (v :: u16) :: u8) :: u32) OR push_bit 8 (ucast (ucast (drop_bit 8 v) :: u8)) = ucast v"
proof (rule bit_word_eqI)
  fix n assume "n < LENGTH(32)"
  show "bit ((ucast (ucast v :: u8) :: u32) OR push_bit 8 (ucast (ucast (drop_bit 8 v) :: u8))) n =
      bit (ucast v :: u32) n"
    using bit_imp_le_length[of v n] by (auto simp: bit_simps)
qed

lemma le_bytes_half: "le_bytes 2 w = [ucast w, ucast (drop_bit 8 w)]"
  by (simp add: numeral_2_eq_2 le_bytes_Suc) (simp add: le_bytes_def)

section \<open>Registers without side effects\<close>

locale reg_port =
  fixes rd :: "nat \<Rightarrow> 's \<Rightarrow> u16 \<times> 's"
    and wr :: "nat \<Rightarrow> u16 \<Rightarrow> 's \<Rightarrow> 's"
    and lim :: nat
    and plain :: "nat set"
  assumes plain_grid: "r \<in> plain \<Longrightarrow> r mod 4 = 0 \<and> r + 1 < lim"
    and plain_read: "r \<in> plain \<Longrightarrow> snd (rd r s) = s"
    and plain_write: "r \<in> plain \<Longrightarrow> fst (rd r (wr r v s)) = v"
    and plain_frame: "r \<in> plain \<Longrightarrow> q \<in> plain \<Longrightarrow> q \<noteq> r \<Longrightarrow> fst (rd q (wr r v s)) = fst (rd q s)"
begin

lemma grid_div: "r \<in> plain \<Longrightarrow> r div 4 * 4 = r" "r \<in> plain \<Longrightarrow> Suc r div 4 * 4 = r" "r \<in> plain \<Longrightarrow> Suc r mod 4 = 1"
  using plain_grid[of r] by presburger+

lemma half_read:
  assumes "r \<in> plain"
  shows "lane_read rd lim r 2 s = (ucast (fst (rd r s)), s)"
proof -
  have "lane_read_byte rd lim r s = (ucast (fst (rd r s)), s)"
    "lane_read_byte rd lim (Suc r) s = (ucast (drop_bit 8 (fst (rd r s))), s)"
    using plain_grid[OF assms]
    by (simp_all add: lane_read_byte_def grid_div[OF assms] split_beta plain_read[OF assms])
  then show ?thesis by (simp add: numeral_2_eq_2 lane_join)
qed

lemma half_write:
  assumes "r \<in> plain"
  shows "lane_write rd wr lim r (le_bytes 2 (ucast v)) s =
    wr r (v :: u16) (wr r (lane_merge 0 (ucast v) (fst (rd r s))) s)"
proof -
  have "lane_write_byte rd wr lim r b t = wr r (lane_merge 0 b (fst (rd r t))) t" for b t
    using plain_grid[OF assms]
    by (simp add: lane_write_byte_def grid_div[OF assms] split_beta plain_read[OF assms])
  moreover have "lane_write_byte rd wr lim (Suc r) b t = wr r (lane_merge 1 b (fst (rd r t))) t" for b t
    using plain_grid[OF assms]
    by (simp add: lane_write_byte_def grid_div[OF assms] split_beta plain_read[OF assms])
  moreover have "ucast (ucast v :: u32) = (ucast v :: u8)"
    "ucast (drop_bit 8 (ucast v :: u32)) = (ucast (drop_bit 8 v) :: u8)" for v :: u16
    by (rule bit_word_eqI; auto simp: bit_simps)+
  ultimately show ?thesis
    by (simp add: le_bytes_half plain_write[OF assms] lane_merge_both)
qed

lemma half_write_read:
  assumes "r \<in> plain" "q \<in> plain"
  shows "fst (lane_read rd lim q 2 (lane_write rd wr lim r (le_bytes 2 (ucast (v :: u16))) s)) =
    (if q = r then ucast v else fst (lane_read rd lim q 2 s))"
  using assms by (simp add: half_write half_read plain_write plain_frame)

end

end
