(* ===== verification/Ch32_Spi.thy ===== *)
theory Ch32_Spi
  imports Ch32_Lanes
begin

text \<open>
  SPI (\<open>ch32-spi.c\<close>) as a loopback: what is written to the data register is what is received next.
\<close>

section \<open>SPI registers\<close>

record spi_state =
  sp_ctlr1 :: u16
  sp_ctlr2 :: u16
  sp_statr :: u16
  sp_datar :: u16
  sp_crcr :: u16
  sp_rcrcr :: u16
  sp_tcrcr :: u16
  sp_i2scfgr :: u16
  sp_i2spr :: u16
  sp_hscr :: u16
  rx_shadow :: u16
  rx_ne :: bool

definition CH32_SPI_REG_SIZE :: nat where "CH32_SPI_REG_SIZE = 0x28"

abbreviation "SPI_STATR_RXNE \<equiv> (0x0001 :: u16)"
abbreviation "SPI_STATR_TXE \<equiv> (0x0002 :: u16)"
abbreviation "SPI_STATR_BSY \<equiv> (0x0080 :: u16)"
abbreviation "SPI_CTLR1_SPE \<equiv> (6 :: nat)"

definition spi_statr_value :: "spi_state \<Rightarrow> u16" where
  "spi_statr_value sp =
     (let v = sp_statr sp OR SPI_STATR_TXE;
          v1 = (if rx_ne sp then v OR SPI_STATR_RXNE else v AND NOT SPI_STATR_RXNE)
      in if \<not> bit (sp_ctlr1 sp) SPI_CTLR1_SPE then v1 AND NOT SPI_STATR_BSY else v1)"

definition ch32_spi_read_reg :: "nat \<Rightarrow> spi_state \<Rightarrow> u16 \<times> spi_state" where
  "ch32_spi_read_reg off sp =
     (if off = 0x00 then (sp_ctlr1 sp, sp)
      else if off = 0x04 then (sp_ctlr2 sp, sp)
      else if off = 0x08 then (spi_statr_value sp, sp)
      else if off = 0x0C then
        (rx_shadow sp, sp\<lparr>rx_ne := False, sp_statr := sp_statr sp AND NOT SPI_STATR_RXNE\<rparr>)
      else if off = 0x10 then (sp_crcr sp, sp)
      else if off = 0x14 then (sp_rcrcr sp, sp)
      else if off = 0x18 then (sp_tcrcr sp, sp)
      else if off = 0x1C then (sp_i2scfgr sp, sp)
      else if off = 0x20 then (sp_i2spr sp, sp)
      else if off = 0x24 then (sp_hscr sp, sp)
      else (0, sp))"

definition ch32_spi_write_reg :: "nat \<Rightarrow> u16 \<Rightarrow> spi_state \<Rightarrow> spi_state" where
  "ch32_spi_write_reg off val sp =
     (if off = 0x00 then sp\<lparr>sp_ctlr1 := val\<rparr>
      else if off = 0x04 then sp\<lparr>sp_ctlr2 := val\<rparr>
      else if off = 0x08 then
        (if val AND SPI_STATR_RXNE = 0
         then sp\<lparr>rx_ne := False, sp_statr := sp_statr sp AND NOT SPI_STATR_RXNE\<rparr> else sp)
      else if off = 0x0C then
        sp\<lparr>sp_datar := val, rx_shadow := val, rx_ne := True, sp_statr := sp_statr sp OR SPI_STATR_RXNE\<rparr>
      else if off = 0x10 then sp\<lparr>sp_crcr := val\<rparr>
      else if off = 0x14 then sp\<lparr>sp_rcrcr := val\<rparr>
      else if off = 0x18 then sp\<lparr>sp_tcrcr := val\<rparr>
      else if off = 0x1C then sp\<lparr>sp_i2scfgr := val\<rparr>
      else if off = 0x20 then sp\<lparr>sp_i2spr := val\<rparr>
      else if off = 0x24 then sp\<lparr>sp_hscr := val\<rparr>
      else sp)"

definition ch32_spi_read :: "nat \<Rightarrow> nat \<Rightarrow> spi_state \<Rightarrow> u32 \<times> spi_state" where
  "ch32_spi_read addr sz sp = lane_read ch32_spi_read_reg CH32_SPI_REG_SIZE addr sz sp"

definition ch32_spi_write :: "nat \<Rightarrow> u32 \<Rightarrow> nat \<Rightarrow> spi_state \<Rightarrow> spi_state" where
  "ch32_spi_write addr v sz sp =
     lane_write ch32_spi_read_reg ch32_spi_write_reg CH32_SPI_REG_SIZE addr (le_bytes sz v) sp"

definition ch32_spi_reset :: "spi_state list \<Rightarrow> spi_state list" where
  "ch32_spi_reset sps = map (\<lambda>_. \<lparr>sp_ctlr1 = 0, sp_ctlr2 = 0, sp_statr = SPI_STATR_TXE, sp_datar = 0,
     sp_crcr = 7, sp_rcrcr = 0, sp_tcrcr = 0, sp_i2scfgr = 0, sp_i2spr = 0, sp_hscr = 0, rx_shadow = 0,
     rx_ne = False\<rparr>) sps"

definition spi_plain :: "nat set" where
  "spi_plain = {0x00, 0x04, 0x10, 0x14, 0x18, 0x1C, 0x20, 0x24}"

interpretation spi: reg_port ch32_spi_read_reg ch32_spi_write_reg CH32_SPI_REG_SIZE spi_plain
  by unfold_locales
    (unfold spi_plain_def, (elim insertE emptyE;
      simp add: ch32_spi_read_reg_def ch32_spi_write_reg_def CH32_SPI_REG_SIZE_def)+)

section \<open>Loopback\<close>

lemma spi_write_data:
  "ch32_spi_write 0x0C (ucast v) 2 sp =
     sp\<lparr>sp_datar := v, rx_shadow := v, rx_ne := True, sp_statr := sp_statr sp OR SPI_STATR_RXNE\<rparr>" for v :: u16
proof -
  have "ucast (ucast v :: u32) = (ucast v :: u8)"
    "ucast (drop_bit 8 (ucast v :: u32)) = (ucast (drop_bit 8 v) :: u8)"
    by (rule bit_word_eqI; auto simp: bit_simps)+
  moreover have "((w OR 1) AND NOT 1) OR 1 = w OR 1" "(w AND NOT 1) OR 1 = w OR 1" for w :: u16
    by (auto intro!: bit_word_eqI simp: bit_simps)
  ultimately show ?thesis
    using lane_merge_both[of v "rx_shadow sp"]
    by (simp add: ch32_spi_write_def le_bytes_half lane_write_byte_def CH32_SPI_REG_SIZE_def ch32_spi_read_reg_def
        ch32_spi_write_reg_def)
qed

lemma spi_read_data:
  "ch32_spi_read 0x0C 2 sp =
     (ucast (rx_shadow sp), sp\<lparr>rx_ne := False, sp_statr := sp_statr sp AND NOT SPI_STATR_RXNE\<rparr>)"
proof -
  have "ucast (ucast (rx_shadow sp) :: u8) OR push_bit 8 (ucast (ucast (drop_bit 8 (rx_shadow sp)) :: u8))
      = (ucast (rx_shadow sp) :: u32)" by (rule lane_join)
  then show ?thesis
    by (simp add: ch32_spi_read_def numeral_2_eq_2 lane_read_byte_def CH32_SPI_REG_SIZE_def ch32_spi_read_reg_def
        and_not_idem)
qed

lemma spi_statr_bits: "bit (spi_statr_value sp) 0 = rx_ne sp" "bit (spi_statr_value sp) (Suc 0)"
  by (auto simp: spi_statr_value_def Let_def bit_simps)

text \<open>A halfword written to the SPI data register is received back: the status shows it as received
  and the transmitter empty, reading the data register returns it, and afterwards the receive flag
  is clear.\<close>

theorem spi_loopback:
  "let sp1 = ch32_spi_write 0x0C (ucast v) 2 sp; (r, sp2) = ch32_spi_read 0x0C 2 sp1;
       st1 = fst (ch32_spi_read 0x08 2 sp1); st2 = fst (ch32_spi_read 0x08 2 sp2) in
     bit st1 0 \<and> bit st1 1 \<and> r = ucast v \<and> \<not> bit st2 0 \<and> bit st2 1" for v :: u16
proof -
  have "fst (ch32_spi_read 0x08 2 s) = ucast (spi_statr_value s)" for s
    by (simp add: ch32_spi_read_def numeral_2_eq_2 lane_read_byte_def CH32_SPI_REG_SIZE_def ch32_spi_read_reg_def lane_join)
  moreover have "bit (fst (ch32_spi_read 0x08 2 s)) i = bit (spi_statr_value s) i" if "i < 16" for s i
    using that calculation by (simp add: bit_simps)
  ultimately show ?thesis
    by (simp add: spi_write_data spi_read_data spi_statr_bits split_beta Let_def)
qed

end
