(* ===== verification/Ch32_I2c.thy ===== *)
theory Ch32_I2c
  imports Ch32_Lanes
begin

text \<open>
  I2C (\<open>ch32-i2c.c\<close>) as the master state machine the firmware polls: start, address, data, stop, each
  completing at once.
\<close>

record i2c_state =
  ip_ctlr1 :: u16
  ip_ctlr2 :: u16
  ip_oaddr1 :: u16
  ip_oaddr2 :: u16
  ip_datar :: u16
  ip_star1 :: u16
  ip_star2 :: u16
  ip_ckcfgr :: u16
  ip_rtr :: u16
  start_pending :: bool
  addr_pending :: bool
  stop_pending :: bool

definition CH32_I2C_REG_SIZE :: nat where "CH32_I2C_REG_SIZE = 0x24"

abbreviation "I2C_CTLR1_START \<equiv> (8 :: nat)"
abbreviation "I2C_CTLR1_STOP \<equiv> (9 :: nat)"
abbreviation "I2C_STAR1_SB \<equiv> (0x0001 :: u16)"
abbreviation "I2C_STAR1_ADDR \<equiv> (0x0002 :: u16)"
abbreviation "I2C_STAR1_BTF \<equiv> (0x0004 :: u16)"
abbreviation "I2C_STAR1_STOPF \<equiv> (0x0010 :: u16)"
abbreviation "I2C_STAR1_TXE \<equiv> (0x0080 :: u16)"
abbreviation "I2C_STAR2_MSL \<equiv> (0x0001 :: u16)"
abbreviation "I2C_STAR2_BUSY \<equiv> (0x0002 :: u16)"
abbreviation "I2C_STAR2_TRA \<equiv> (0x0004 :: u16)"

section \<open>Registers\<close>

definition ch32_i2c_read_reg :: "nat \<Rightarrow> i2c_state \<Rightarrow> u16 \<times> i2c_state" where
  "ch32_i2c_read_reg off ip =
     (if off = 0x00 then (ip_ctlr1 ip, ip)
      else if off = 0x04 then (ip_ctlr2 ip, ip)
      else if off = 0x08 then (ip_oaddr1 ip, ip)
      else if off = 0x0C then (ip_oaddr2 ip, ip)
      else if off = 0x10 then (ip_datar ip, ip)
      else if off = 0x14 then
        (if addr_pending ip \<and> \<not> stop_pending ip
         then ip_star1 ip OR (I2C_STAR1_TXE OR I2C_STAR1_BTF) else ip_star1 ip, ip)
      else if off = 0x18 then
        (ip_star2 ip, if ip_star1 ip AND I2C_STAR1_ADDR \<noteq> 0
                      then ip\<lparr>ip_star1 := ip_star1 ip AND NOT I2C_STAR1_ADDR\<rparr> else ip)
      else if off = 0x1C then (ip_ckcfgr ip, ip)
      else if off = 0x20 then (ip_rtr ip, ip)
      else (0, ip))"

text \<open>The three phases of \<open>ch32_i2c_update_state\<close>, each under its pending flag.\<close>

definition i2c_started :: "i2c_state \<Rightarrow> i2c_state" where
  "i2c_started ip =
     (if start_pending ip
      then ip\<lparr>ip_star1 := ip_star1 ip OR I2C_STAR1_SB,
              ip_star2 := ip_star2 ip OR (I2C_STAR2_BUSY OR I2C_STAR2_MSL)\<rparr> else ip)"

definition i2c_addressed :: "i2c_state \<Rightarrow> i2c_state" where
  "i2c_addressed ip =
     (if addr_pending ip
      then ip\<lparr>ip_star1 := (ip_star1 ip OR (I2C_STAR1_ADDR OR I2C_STAR1_TXE OR I2C_STAR1_BTF))
                           AND NOT I2C_STAR1_SB,
              ip_star2 := ip_star2 ip OR I2C_STAR2_TRA\<rparr> else ip)"

definition i2c_stopped :: "i2c_state \<Rightarrow> i2c_state" where
  "i2c_stopped ip =
     (if stop_pending ip
      then ip\<lparr>ip_star1 := (ip_star1 ip OR I2C_STAR1_STOPF)
                           AND NOT (I2C_STAR1_ADDR OR I2C_STAR1_SB OR I2C_STAR1_TXE OR I2C_STAR1_BTF),
              ip_star2 := ip_star2 ip AND NOT (I2C_STAR2_BUSY OR I2C_STAR2_MSL OR I2C_STAR2_TRA)\<rparr> else ip)"

definition ch32_i2c_update_state :: "i2c_state \<Rightarrow> i2c_state" where
  "ch32_i2c_update_state ip = i2c_stopped (i2c_addressed (i2c_started ip))"

definition i2c_ctlr1_write :: "u16 \<Rightarrow> i2c_state \<Rightarrow> i2c_state" where
  "i2c_ctlr1_write val ip =
     (let ip1 = (if bit val I2C_CTLR1_START
                 then ip\<lparr>start_pending := True, addr_pending := False, stop_pending := False\<rparr> else ip);
          ip2 = (if bit val I2C_CTLR1_STOP
                 then ip1\<lparr>stop_pending := True, start_pending := False, addr_pending := False\<rparr> else ip1)
      in ch32_i2c_update_state (ip2\<lparr>ip_ctlr1 := val\<rparr>))"

definition i2c_datar_write :: "u16 \<Rightarrow> i2c_state \<Rightarrow> i2c_state" where
  "i2c_datar_write val ip =
     (let ip1 = ip\<lparr>ip_datar := ucast (ucast val :: u8)\<rparr>
      in ch32_i2c_update_state
           (if start_pending ip1 then ip1\<lparr>start_pending := False, addr_pending := True\<rparr> else ip1))"

definition ch32_i2c_write_reg :: "nat \<Rightarrow> u16 \<Rightarrow> i2c_state \<Rightarrow> i2c_state" where
  "ch32_i2c_write_reg off val ip =
     (if off = 0x00 then i2c_ctlr1_write val ip
      else if off = 0x04 then ip\<lparr>ip_ctlr2 := val\<rparr>
      else if off = 0x08 then ip\<lparr>ip_oaddr1 := val\<rparr>
      else if off = 0x0C then ip\<lparr>ip_oaddr2 := val\<rparr>
      else if off = 0x10 then i2c_datar_write val ip
      else if off = 0x14 then ip\<lparr>ip_star1 := ip_star1 ip AND val\<rparr>
      else if off = 0x18 then ip\<lparr>ip_star2 := val\<rparr>
      else if off = 0x1C then ip\<lparr>ip_ckcfgr := val\<rparr>
      else if off = 0x20 then ip\<lparr>ip_rtr := val\<rparr>
      else ip)"

definition ch32_i2c_read :: "nat \<Rightarrow> nat \<Rightarrow> i2c_state \<Rightarrow> u32 \<times> i2c_state" where
  "ch32_i2c_read addr sz ip = lane_read ch32_i2c_read_reg CH32_I2C_REG_SIZE addr sz ip"

definition ch32_i2c_write :: "nat \<Rightarrow> u32 \<Rightarrow> nat \<Rightarrow> i2c_state \<Rightarrow> i2c_state" where
  "ch32_i2c_write addr v sz ip =
     lane_write ch32_i2c_read_reg ch32_i2c_write_reg CH32_I2C_REG_SIZE addr (le_bytes sz v) ip"

definition i2c_zero :: i2c_state where
  "i2c_zero = \<lparr>ip_ctlr1 = 0, ip_ctlr2 = 0, ip_oaddr1 = 0, ip_oaddr2 = 0, ip_datar = 0, ip_star1 = 0, ip_star2 = 0,
     ip_ckcfgr = 0, ip_rtr = 0, start_pending = False, addr_pending = False, stop_pending = False\<rparr>"

definition ch32_i2c_reset :: "i2c_state list \<Rightarrow> i2c_state list" where
  "ch32_i2c_reset ips = map (\<lambda>_. i2c_zero) ips"

definition i2c_plain :: "nat set" where
  "i2c_plain = {0x00, 0x04, 0x08, 0x0C, 0x1C, 0x20}"

lemma i2c_update_frame [simp]:
  "ip_ctlr1 (ch32_i2c_update_state ip) = ip_ctlr1 ip" "ip_ctlr2 (ch32_i2c_update_state ip) = ip_ctlr2 ip"
  "ip_oaddr1 (ch32_i2c_update_state ip) = ip_oaddr1 ip" "ip_oaddr2 (ch32_i2c_update_state ip) = ip_oaddr2 ip"
  "ip_datar (ch32_i2c_update_state ip) = ip_datar ip"
  "ip_ckcfgr (ch32_i2c_update_state ip) = ip_ckcfgr ip" "ip_rtr (ch32_i2c_update_state ip) = ip_rtr ip"
  "start_pending (ch32_i2c_update_state ip) = start_pending ip"
  "addr_pending (ch32_i2c_update_state ip) = addr_pending ip"
  "stop_pending (ch32_i2c_update_state ip) = stop_pending ip"
  by (simp_all add: ch32_i2c_update_state_def i2c_started_def i2c_addressed_def i2c_stopped_def)

interpretation i2c: reg_port ch32_i2c_read_reg ch32_i2c_write_reg CH32_I2C_REG_SIZE i2c_plain
  by unfold_locales
    (unfold i2c_plain_def, (elim insertE emptyE;
      simp add: ch32_i2c_read_reg_def ch32_i2c_write_reg_def CH32_I2C_REG_SIZE_def i2c_ctlr1_write_def Let_def)+)

section \<open>A transfer\<close>

text \<open>What the driver does: set a bit of CTLR1 by a halfword read, modify and write; write a byte of data.\<close>

definition i2c_set_ctlr1 :: "nat \<Rightarrow> i2c_state \<Rightarrow> i2c_state" where
  "i2c_set_ctlr1 b ip =
     (let (v, ip') = ch32_i2c_read 0x00 2 ip in ch32_i2c_write 0x00 (v OR one_bit b) 2 ip')"

definition i2c_send :: "u8 \<Rightarrow> i2c_state \<Rightarrow> i2c_state" where
  "i2c_send b ip = ch32_i2c_write 0x10 (ucast b) 2 ip"

definition i2c_star1 :: "i2c_state \<Rightarrow> u32" where
  "i2c_star1 ip = fst (ch32_i2c_read 0x14 2 ip)"

definition i2c_star2 :: "i2c_state \<Rightarrow> u32" where
  "i2c_star2 ip = fst (ch32_i2c_read 0x18 2 ip)"

lemma i2c_ctlr1_half_write:
  "ch32_i2c_write 0x00 (ucast v) 2 ip =
     i2c_ctlr1_write v (i2c_ctlr1_write (lane_merge 0 (ucast v) (ip_ctlr1 ip)) ip)" for v :: u16
  using i2c.half_write[of 0 v ip]
  by (simp add: i2c_plain_def ch32_i2c_write_def ch32_i2c_read_reg_def ch32_i2c_write_reg_def)

lemma i2c_set_ctlr1_eq:
  "i2c_set_ctlr1 b ip = i2c_ctlr1_write (ip_ctlr1 ip OR one_bit b)
     (i2c_ctlr1_write (lane_merge 0 (ucast (ip_ctlr1 ip OR one_bit b)) (ip_ctlr1 ip)) ip)" if "b < 16"
proof -
  have "ch32_i2c_read 0 2 ip = (ucast (ip_ctlr1 ip), ip)"
    using i2c.half_read[of 0 ip] by (simp add: i2c_plain_def ch32_i2c_read_def ch32_i2c_read_reg_def)
  moreover have "(ucast (ip_ctlr1 ip) :: u32) OR one_bit b = ucast (ip_ctlr1 ip OR one_bit b)"
    using that by (auto intro!: bit_word_eqI simp: bit_simps)
  ultimately show ?thesis by (simp add: i2c_set_ctlr1_def i2c_ctlr1_half_write)
qed

lemma i2c_star_values:
  "i2c_star1 ip = ucast (if addr_pending ip \<and> \<not> stop_pending ip
     then ip_star1 ip OR (I2C_STAR1_TXE OR I2C_STAR1_BTF) else ip_star1 ip)"
  "i2c_star2 ip = ucast (ip_star2 ip)"
  by (simp_all add: i2c_star1_def i2c_star2_def ch32_i2c_read_def numeral_2_eq_2 lane_read_byte_def
      CH32_I2C_REG_SIZE_def ch32_i2c_read_reg_def lane_join split_beta)

lemma bit_merge_low: "8 \<le> n \<Longrightarrow> bit (lane_merge 0 b w) n = bit w n"
  by (auto simp: lane_merge_def and_ff00 bit_simps dest: bit_imp_le_length)

lemma i2c_ctlr1_write_bits:
  "start_pending (i2c_ctlr1_write v ip) = (\<not> bit v I2C_CTLR1_STOP \<and> (bit v I2C_CTLR1_START \<or> start_pending ip))"
  "stop_pending (i2c_ctlr1_write v ip) = (bit v I2C_CTLR1_STOP \<or> (\<not> bit v I2C_CTLR1_START \<and> stop_pending ip))"
  "addr_pending (i2c_ctlr1_write v ip) =
     (\<not> bit v I2C_CTLR1_STOP \<and> \<not> bit v I2C_CTLR1_START \<and> addr_pending ip)"
  "ip_ctlr1 (i2c_ctlr1_write v ip) = v"
  by (auto simp: i2c_ctlr1_write_def Let_def)

lemma i2c_update_star_bits:
  "bit (ip_star1 (ch32_i2c_update_state ip)) 0 =
     (\<not> stop_pending ip \<and> \<not> addr_pending ip \<and> (start_pending ip \<or> bit (ip_star1 ip) 0))"
  "bit (ip_star1 (ch32_i2c_update_state ip)) (Suc 0) =
     (\<not> stop_pending ip \<and> (addr_pending ip \<or> bit (ip_star1 ip) (Suc 0)))"
  "bit (ip_star2 (ch32_i2c_update_state ip)) (Suc 0) =
     (\<not> stop_pending ip \<and> (start_pending ip \<or> bit (ip_star2 ip) (Suc 0)))"
  "bit (ip_star2 (ch32_i2c_update_state ip)) 2 =
     (\<not> stop_pending ip \<and> (addr_pending ip \<or> bit (ip_star2 ip) 2))"
  "bit (ip_star1 (ch32_i2c_update_state ip)) 4 = (stop_pending ip \<or> bit (ip_star1 ip) 4)"
  by (auto simp: ch32_i2c_update_state_def i2c_started_def i2c_addressed_def i2c_stopped_def bit_simps)

lemma i2c_ctlr1_star_bits:
  "bit (ip_star1 (i2c_ctlr1_write v ip)) 0 =
     (\<not> stop_pending (i2c_ctlr1_write v ip) \<and> \<not> addr_pending (i2c_ctlr1_write v ip) \<and>
      (start_pending (i2c_ctlr1_write v ip) \<or> bit (ip_star1 ip) 0))"
  "bit (ip_star2 (i2c_ctlr1_write v ip)) (Suc 0) =
     (\<not> stop_pending (i2c_ctlr1_write v ip) \<and>
      (start_pending (i2c_ctlr1_write v ip) \<or> bit (ip_star2 ip) (Suc 0)))"
  "bit (ip_star1 (i2c_ctlr1_write v ip)) 4 = (stop_pending (i2c_ctlr1_write v ip) \<or> bit (ip_star1 ip) 4)"
  by (auto simp: i2c_ctlr1_write_def Let_def i2c_update_star_bits)

lemma i2c_datar_write_bits:
  "start_pending (i2c_datar_write v ip) = False"
  "stop_pending (i2c_datar_write v ip) = stop_pending ip"
  "addr_pending (i2c_datar_write v ip) = (start_pending ip \<or> addr_pending ip)"
  "ip_ctlr1 (i2c_datar_write v ip) = ip_ctlr1 ip"
  by (auto simp: i2c_datar_write_def Let_def)

lemma i2c_datar_star_bits:
  "bit (ip_star1 (i2c_datar_write v ip)) 0 =
     (\<not> stop_pending ip \<and> \<not> start_pending ip \<and> \<not> addr_pending ip \<and> bit (ip_star1 ip) 0)"
  "bit (ip_star1 (i2c_datar_write v ip)) (Suc 0) =
     (\<not> stop_pending ip \<and> (start_pending ip \<or> addr_pending ip \<or> bit (ip_star1 ip) (Suc 0)))"
  "bit (ip_star2 (i2c_datar_write v ip)) 2 =
     (\<not> stop_pending ip \<and> (start_pending ip \<or> addr_pending ip \<or> bit (ip_star2 ip) 2))"
  by (auto simp: i2c_datar_write_def Let_def i2c_update_star_bits)

lemma i2c_send_eq: "\<exists>v1 v2. i2c_send b ip = i2c_datar_write v2 (i2c_datar_write v1 ip)"
  by (simp add: i2c_send_def ch32_i2c_write_def le_bytes_half lane_write_byte_def CH32_I2C_REG_SIZE_def
      ch32_i2c_read_reg_def ch32_i2c_write_reg_def) blast

text \<open>The first transfer: while neither start nor stop was ever requested, requesting a start shows the
  start condition and a busy bus, sending the address byte replaces the start condition by the
  address acknowledge in transmit mode, and requesting a stop shows the stop flag on an idle bus.\<close>

theorem i2c_first_transfer:
  assumes "\<not> bit (ip_ctlr1 ip) I2C_CTLR1_START" "\<not> bit (ip_ctlr1 ip) I2C_CTLR1_STOP"
  shows "let started = i2c_set_ctlr1 I2C_CTLR1_START ip; addressed = i2c_send b started;
      stopped = i2c_set_ctlr1 I2C_CTLR1_STOP addressed in
    bit (i2c_star1 started) 0 \<and> bit (i2c_star2 started) (Suc 0) \<and>
    \<not> bit (i2c_star1 addressed) 0 \<and> bit (i2c_star1 addressed) (Suc 0) \<and> bit (i2c_star2 addressed) 2 \<and>
    bit (i2c_star1 stopped) 4 \<and> \<not> bit (i2c_star2 stopped) (Suc 0)"
proof -
  obtain v w where send: "i2c_send b (i2c_set_ctlr1 I2C_CTLR1_START ip) =
      i2c_datar_write w (i2c_datar_write v (i2c_set_ctlr1 I2C_CTLR1_START ip))"
    using i2c_send_eq by blast
  show ?thesis
    using assms unfolding Let_def send
    by (simp add: i2c_set_ctlr1_eq i2c_star_values bit_simps i2c_ctlr1_star_bits i2c_ctlr1_write_bits
        bit_merge_low i2c_datar_write_bits i2c_datar_star_bits)
qed

lemma i2c_first_transfer_witness:
  "bit (i2c_star1 (i2c_set_ctlr1 I2C_CTLR1_START i2c_zero)) 0"
  using i2c_first_transfer[of i2c_zero] by (simp add: i2c_zero_def Let_def)

text \<open>The bits the driver sets in CTLR1 stay set, where the hardware clears them: after one stop, every
  later request of a start leaves the bus stopped, without a start condition.\<close>

theorem i2c_second_start_lost:
  assumes "bit (ip_ctlr1 ip) I2C_CTLR1_STOP"
  shows "let again = i2c_set_ctlr1 I2C_CTLR1_START ip in
    \<not> bit (i2c_star1 again) 0 \<and> \<not> bit (i2c_star2 again) (Suc 0) \<and> bit (ip_ctlr1 again) I2C_CTLR1_STOP"
  using assms
  by (simp add: Let_def i2c_set_ctlr1_eq i2c_star_values bit_simps i2c_ctlr1_star_bits i2c_ctlr1_write_bits
      bit_merge_low)

lemma i2c_second_start_lost_witness:
  "\<not> bit (i2c_star1 (i2c_set_ctlr1 I2C_CTLR1_START
      (i2c_set_ctlr1 I2C_CTLR1_STOP (i2c_set_ctlr1 I2C_CTLR1_START i2c_zero)))) 0"
proof -
  have "bit (ip_ctlr1 (i2c_set_ctlr1 I2C_CTLR1_STOP (i2c_set_ctlr1 I2C_CTLR1_START i2c_zero))) I2C_CTLR1_STOP"
    by (simp add: i2c_set_ctlr1_eq i2c_ctlr1_write_bits bit_simps)
  from i2c_second_start_lost[OF this] show ?thesis by (simp add: Let_def)
qed

end
