(* ===== verification/Ch32_Hex.thy ===== *)
theory Ch32_Hex
  imports Ch32_Prelude
begin

text \<open>
  The Intel HEX loader (\<open>ch32-hex-loader.c\<close>): the record parser over the bytes of the file, the record
  types, the mapping of record addresses to flash offsets. The flash is the list of its bytes, whose
  length is \<open>flash_sz\<close>. \<open>xdv\<close> stands for GLib's \<open>g_ascii_xdigit_value\<close> (\<open>None\<close> for a negative
  result) and the file's content for what \<open>g_file_get_contents\<close> delivers. Warnings are not modelled:
  they do not change the result.
\<close>

type_synonym xdigit_value = "u8 \<Rightarrow> nat option"

datatype hex_error =
  Hex_unreadable | Hex_expected_colon | Hex_odd_nibble | Hex_invalid_char | Hex_too_long | Hex_too_short
| Hex_checksum | Hex_length | Hex_bad_type_length

record hex_state =
  hx_flash :: "u8 list"
  hx_ulba :: u32
  hx_sba :: u32
  hx_have_ela :: bool
  hx_entry :: u64

definition HEX_FLASH_BASE :: u32 where "HEX_FLASH_BASE = 0x08000000"

section \<open>Characters\<close>

definition hex_eol :: "u8 \<Rightarrow> bool" where
  "hex_eol c \<longleftrightarrow> c = 13 \<or> c = 10"

definition hex_blank :: "u8 \<Rightarrow> bool" where
  "hex_blank c \<longleftrightarrow> c = 13 \<or> c = 10 \<or> c = 32 \<or> c = 9"

text \<open>The digits of one line, \<open>n\<close> bytes being in the buffer already.\<close>

fun hex_line_bytes :: "xdigit_value \<Rightarrow> nat \<Rightarrow> u8 list \<Rightarrow> hex_error + (u8 list \<times> u8 list)" where
  "hex_line_bytes xdv n [] = Inr ([], [])"
| "hex_line_bytes xdv n [c] = (if hex_eol c then Inr ([], [c]) else Inl Hex_odd_nibble)"
| "hex_line_bytes xdv n (c # d # ds) =
     (if hex_eol c then Inr ([], c # d # ds)
      else if hex_eol d then Inl Hex_odd_nibble
      else case (xdv c, xdv d) of
        (Some hv, Some lv) \<Rightarrow>
          if n \<ge> 512 then Inl Hex_too_long
          else (case hex_line_bytes xdv (Suc n) ds of
                  Inl e \<Rightarrow> Inl e
                | Inr (bs, rest) \<Rightarrow> Inr (of_nat (hv * 16 + lv) # bs, rest))
      | _ \<Rightarrow> Inl Hex_invalid_char)"

section \<open>Records\<close>

definition hex_abs_addr :: "u16 \<Rightarrow> hex_state \<Rightarrow> u32" where
  "hex_abs_addr rec_addr s =
     (if hx_have_ela s then push_bit 16 (hx_ulba s) OR ucast rec_addr else hx_sba s + ucast rec_addr)"

text \<open>The flash offset of an address, if it falls into one of the two windows.\<close>

definition hex_offset :: "u32 \<Rightarrow> hex_state \<Rightarrow> nat option" where
  "hex_offset abs_addr s =
     (let flash_sz = length (hx_flash s) in
      if abs_addr \<ge> HEX_FLASH_BASE \<and> abs_addr < HEX_FLASH_BASE + of_nat flash_sz
      then Some (unat (abs_addr - HEX_FLASH_BASE))
      else if \<not> hx_have_ela s \<and> unat abs_addr < flash_sz then Some (unat abs_addr)
      else None)"

definition hex_data_record :: "u16 \<Rightarrow> u8 list \<Rightarrow> hex_state \<Rightarrow> hex_state" where
  "hex_data_record rec_addr ds s =
     (case hex_offset (hex_abs_addr rec_addr s) s of
        None \<Rightarrow> s
      | Some off \<Rightarrow>
          if off + length ds > length (hx_flash s)
          then s\<lparr>hx_flash := mem_store off (take (length (hx_flash s) - off) ds) (hx_flash s)\<rparr>
          else s\<lparr>hx_flash := mem_store off ds (hx_flash s)\<rparr>)"

definition hex_be16 :: "u8 \<Rightarrow> u8 \<Rightarrow> u32" where
  "hex_be16 hi lo = push_bit 8 (ucast hi) OR ucast lo"

text \<open>One record of the bytes of its line: \<open>True\<close> when it ends the file.\<close>

definition hex_record :: "u8 list \<Rightarrow> hex_state \<Rightarrow> hex_error + (bool \<times> hex_state)" where
  "hex_record buf s =
     (let nbytes = length buf in
      if nbytes < 5 then Inl Hex_too_short
      else if sum_list buf \<noteq> 0 then Inl Hex_checksum
      else if nbytes \<noteq> unat (buf ! 0) + 5 then Inl Hex_length
      else
        let rec_len = unat (buf ! 0); rec_type = buf ! 3; data = take rec_len (drop 4 buf) in
        if rec_type = 0x00 then Inr (False, hex_data_record (ucast (hex_be16 (buf ! 1) (buf ! 2))) data s)
        else if rec_type = 0x01 then Inr (True, s)
        else if rec_type = 0x02 then
          (if rec_len \<noteq> 2 then Inl Hex_bad_type_length
           else Inr (False, s\<lparr>hx_sba := push_bit 4 (hex_be16 (buf ! 4) (buf ! 5))\<rparr>))
        else if rec_type = 0x04 then
          (if rec_len \<noteq> 2 then Inl Hex_bad_type_length
           else Inr (False, s\<lparr>hx_ulba := hex_be16 (buf ! 4) (buf ! 5), hx_have_ela := True\<rparr>))
        else if rec_type = 0x05 then
          (if rec_len \<noteq> 4 then Inl Hex_bad_type_length
           else Inr (False, s\<lparr>hx_entry :=
                  ucast (push_bit 16 (hex_be16 (buf ! 4) (buf ! 5)) OR hex_be16 (buf ! 6) (buf ! 7))\<rparr>))
        else Inr (False, s))"

section \<open>The file\<close>

lemma hex_line_bytes_shorter:
  "hex_line_bytes xdv n cs = Inr (bs, rest) \<Longrightarrow> length rest \<le> length cs"
  by (induction xdv n cs arbitrary: bs rest rule: hex_line_bytes.induct)
    (force split: if_splits option.splits sum.splits)+

text \<open>One turn of the loop: the error or end that stops it, or what is left of the file.\<close>

datatype hex_step = Hex_stop "hex_error option" | Hex_more "u8 list"

definition hex_line :: "xdigit_value \<Rightarrow> u8 list \<Rightarrow> hex_state \<Rightarrow> hex_step \<times> hex_state" where
  "hex_line xdv content s =
     (case dropWhile hex_blank content of
        [] \<Rightarrow> (Hex_stop None, s)
      | c # cs \<Rightarrow>
          if c \<noteq> 58 then (Hex_stop (Some Hex_expected_colon), s)
          else (case hex_line_bytes xdv 0 cs of
                  Inl e \<Rightarrow> (Hex_stop (Some e), s)
                | Inr (buf, rest) \<Rightarrow>
                    (case hex_record buf s of
                       Inl e \<Rightarrow> (Hex_stop (Some e), s)
                     | Inr (eof, s') \<Rightarrow> (if eof then Hex_stop None else Hex_more rest, s'))))"

lemma hex_line_more:
  assumes "hex_line xdv content s = (Hex_more rest, s')"
  shows "length rest < length content"
  using assms hex_line_bytes_shorter length_dropWhile_le[of hex_blank content]
  by (fastforce simp: hex_line_def split: list.splits sum.splits prod.splits if_splits)

function hex_lines :: "xdigit_value \<Rightarrow> u8 list \<Rightarrow> hex_state \<Rightarrow> hex_error option \<times> hex_state" where
  "hex_lines xdv content s =
     (case hex_line xdv content s of
        (Hex_stop e, s') \<Rightarrow> (e, s')
      | (Hex_more rest, s') \<Rightarrow> hex_lines xdv rest s')"
  by pat_completeness auto

termination
  by (relation "measure (\<lambda>(xdv, content, s). length content)") (auto dest: sym intro: hex_line_more)

definition ch32_load_hex_image ::
  "xdigit_value \<Rightarrow> u8 list \<Rightarrow> u8 list option \<Rightarrow> u64 \<Rightarrow> hex_error option \<times> hex_state" where
  "ch32_load_hex_image xdv flash content entry =
     (let s = \<lparr>hx_flash = flash, hx_ulba = 0, hx_sba = 0, hx_have_ela = False, hx_entry = entry\<rparr>
      in case content of None \<Rightarrow> (Some Hex_unreadable, s) | Some cs \<Rightarrow> hex_lines xdv cs s)"

declare hex_lines.simps [simp del]

section \<open>No record writes outside the flash\<close>

lemma hex_offset_bound:
  assumes "hex_offset a s = Some off" "length (hx_flash s) < 2 ^ 31"
  shows "off < length (hx_flash s)"
proof -
  have "unat (HEX_FLASH_BASE + of_nat (length (hx_flash s))) = 0x08000000 + length (hx_flash s)"
    using assms(2) by (simp add: HEX_FLASH_BASE_def unat_word_ariths unat_of_nat_small)
  then show ?thesis
    using assms by (auto simp: hex_offset_def Let_def HEX_FLASH_BASE_def word_less_nat_alt word_le_nat_alt unat_sub
        split: if_splits)
qed

lemma hex_data_length:
  assumes "length (hx_flash s) < 2 ^ 31"
  shows "length (hx_flash (hex_data_record a ds s)) = length (hx_flash s)"
proof (cases "hex_offset (hex_abs_addr a s) s")
  case (Some off)
  then have "off < length (hx_flash s)" using hex_offset_bound assms by blast
  then show ?thesis using Some by (simp add: hex_data_record_def length_mem_store)
qed (simp add: hex_data_record_def)

lemma hex_record_length:
  assumes "length (hx_flash s) < 2 ^ 31" "hex_record buf s = Inr (e, s')"
  shows "length (hx_flash s') = length (hx_flash s)"
  using assms(2) hex_data_length[OF assms(1)]
  by (auto simp: hex_record_def Let_def split: if_splits)

lemma hex_line_length:
  assumes "length (hx_flash s) < 2 ^ 31" "hex_line xdv content s = (r, s')"
  shows "length (hx_flash s') = length (hx_flash s)"
  using assms(2) hex_record_length[OF assms(1)]
  by (auto simp: hex_line_def split: list.splits sum.splits prod.splits if_splits)

lemma hex_lines_length:
  "length (hx_flash s) < 2 ^ 31 \<Longrightarrow> length (hx_flash (snd (hex_lines xdv content s))) = length (hx_flash s)"
proof (induction xdv content s rule: hex_lines.induct)
  case (1 xdv content s)
  obtain r s' where l: "hex_line xdv content s = (r, s')" by (cases "hex_line xdv content s")
  show ?case
    using 1 hex_line_length[OF 1(2) l] l by (cases r) (simp_all add: hex_lines.simps[of xdv content s])
qed

text \<open>C30. Whatever the file holds, loading it ends and leaves the flash its size: every record is clipped to
  the flash or skipped, so no byte is stored outside it.\<close>

theorem hex_load_in_bounds:
  assumes "length flash < 2 ^ 31"
  shows "length (hx_flash (snd (ch32_load_hex_image xdv flash content entry))) = length flash"
  using assms by (simp add: ch32_load_hex_image_def Let_def hex_lines_length split: option.split)

lemma hex_load_in_bounds_witness:
  "length (hx_flash (snd (ch32_load_hex_image (\<lambda>_. None) [1, 2, 3] (Some [58, 48]) 0))) = 3"
  using hex_load_in_bounds[of "[1, 2, 3]" "\<lambda>_. None" "Some [58, 48]" 0] by simp

text \<open>C36. A record with one byte changed is rejected by its checksum, so that a corrupted byte is never
  stored.\<close>

theorem hex_rejects_corruption:
  assumes "hex_record buf s = Inr r" "i < length buf" "b \<noteq> buf ! i"
  shows "hex_record (buf[i := b]) s = Inl Hex_checksum"
proof -
  have upd: "sum_list (xs[i := y]) = sum_list xs + (y - xs ! i)" if "i < length xs" for xs :: "u8 list" and i y
    using that by (induction xs arbitrary: i) (auto simp: nth_Cons' split: nat.split)
  have "length buf \<ge> 5" "sum_list buf = 0"
    using assms(1) by (simp_all add: hex_record_def Let_def split: if_splits)
  then show ?thesis using assms by (simp add: hex_record_def Let_def upd)
qed

lemma hex_rejects_corruption_witness:
  "\<forall>s. hex_record ([0, 0, 0, 1, 0xff][1 := 4]) s = Inl Hex_checksum"
proof
  fix s
  show "hex_record ([0, 0, 0, 1, 0xff][1 := 4]) s = Inl Hex_checksum"
    by (rule hex_rejects_corruption[where r = "(True, s)"]) (simp_all add: hex_record_def)
qed

section \<open>Writing a file and loading it back\<close>

text \<open>GLib's documented digit values.\<close>

definition xdigit_ok :: "xdigit_value \<Rightarrow> bool" where
  "xdigit_ok xdv \<longleftrightarrow> (\<forall>c. xdv c =
     (if 48 \<le> c \<and> c \<le> 57 then Some (unat c - 48)
      else if 65 \<le> c \<and> c \<le> 70 then Some (unat c - 55)
      else if 97 \<le> c \<and> c \<le> 102 then Some (unat c - 87) else None))"

definition xdigit_ref :: xdigit_value where
  "xdigit_ref c =
     (if 48 \<le> c \<and> c \<le> 57 then Some (unat c - 48)
      else if 65 \<le> c \<and> c \<le> 70 then Some (unat c - 55)
      else if 97 \<le> c \<and> c \<le> 102 then Some (unat c - 87) else None)"

lemma xdigit_ref_ok: "xdigit_ok xdigit_ref"
  by (simp add: xdigit_ok_def xdigit_ref_def)

definition hex_char :: "nat \<Rightarrow> u8" where
  "hex_char n = (if n < 10 then of_nat (48 + n) else of_nat (55 + n))"

definition hex_pair :: "u8 \<Rightarrow> u8 list" where
  "hex_pair b = [hex_char (unat b div 16), hex_char (unat b mod 16)]"

definition hex_print_record :: "u8 list \<Rightarrow> u8 list" where
  "hex_print_record bs = 58 # concat (map hex_pair (bs @ [- sum_list bs])) @ [10]"

definition hex_data :: "nat \<Rightarrow> u8 list \<Rightarrow> u8 list" where
  "hex_data a ds = [of_nat (length ds), of_nat (drop_bit 8 a), of_nat a, 0] @ ds"

fun hex_rows :: "nat \<Rightarrow> u8 list list \<Rightarrow> u8 list" where
  "hex_rows a [] = []"
| "hex_rows a (r # rs) = hex_print_record (hex_data a r) @ hex_rows (a + length r) rs"

definition hex_file :: "u8 list list \<Rightarrow> u8 list" where
  "hex_file rows = hex_print_record [2, 0, 0, 4, 0x08, 0x00] @ hex_rows 0 rows @ hex_print_record [0, 0, 0, 1]"

lemma hex_char_value:
  assumes "xdigit_ok xdv" "n < 16"
  shows "xdv (hex_char n) = Some n" "\<not> hex_eol (hex_char n)"
proof -
  have u: "unat (hex_char n) = (if n < 10 then 48 + n else 55 + n)"
    using assms(2) unat_of_nat_small[of "48 + n", where 'a = 8] unat_of_nat_small[of "55 + n", where 'a = 8]
    by (simp add: hex_char_def del: of_nat_add)
  show "xdv (hex_char n) = Some n"
    using assms u by (simp add: xdigit_ok_def word_le_nat_alt)
  have "hex_char n \<noteq> 13" "hex_char n \<noteq> 10" using u by (auto dest!: arg_cong[of _ _ unat] split: if_splits)
  then show "\<not> hex_eol (hex_char n)" by (simp add: hex_eol_def)
qed

lemma hex_line_bytes_print:
  assumes "xdigit_ok xdv"
  shows "n + length bs \<le> 512 \<Longrightarrow>
    hex_line_bytes xdv n (concat (map hex_pair bs) @ 10 # rest) = Inr (bs, 10 # rest)"
proof (induction bs arbitrary: n)
  case Nil
  then show ?case by (cases rest) (simp_all add: hex_eol_def)
next
  case (Cons b bs)
  have "unat b div 16 < 16" "unat b mod 16 < 16" using unsigned_less[of b, where 'a = nat] by auto
  moreover have "of_nat (unat b div 16 * 16 + unat b mod 16) = b" by (simp only: div_mult_mod_eq) simp
  ultimately show ?case
    using Cons.IH[of "Suc n"] Cons.prems
    by (simp add: hex_pair_def hex_char_value[OF assms] del: of_nat_add of_nat_mult)
qed

lemma hex_line_print:
  assumes "xdigit_ok xdv" "length bs < 512"
  shows "hex_line xdv (hex_print_record bs @ rest) s =
    (case hex_record (bs @ [- sum_list bs]) s of
       Inl e \<Rightarrow> (Hex_stop (Some e), s)
     | Inr (eof, s') \<Rightarrow> (if eof then Hex_stop None else Hex_more (10 # rest), s'))"
proof -
  have "hex_line_bytes xdv 0 (concat (map hex_pair (bs @ [- sum_list bs])) @ 10 # rest) =
      Inr (bs @ [- sum_list bs], 10 # rest)"
    by (rule hex_line_bytes_print) (use assms in simp_all)
  then show ?thesis
    unfolding hex_line_def hex_print_record_def
    by (simp add: hex_blank_def del: map_append concat_append)
qed

lemma hex_lines_newline: "hex_lines xdv (10 # rest) s = hex_lines xdv rest s"
  by (simp add: hex_lines.simps[of xdv "10 # rest"] hex_lines.simps[of xdv rest] hex_line_def hex_blank_def)

lemma hex_lines_print:
  assumes "xdigit_ok xdv" "length bs < 512" "hex_record (bs @ [- sum_list bs]) s = Inr (eof, s')"
  shows "hex_lines xdv (hex_print_record bs @ rest) s = (if eof then (None, s') else hex_lines xdv rest s')"
  by (subst hex_lines.simps) (simp add: hex_line_print assms hex_lines_newline)

text \<open>A state after the extended address record of the flash window.\<close>

definition hex_in_flash :: "hex_state \<Rightarrow> bool" where
  "hex_in_flash s \<longleftrightarrow> hx_have_ela s \<and> hx_ulba s = 0x800 \<and> length (hx_flash s) < 2 ^ 31"

lemma high_or_low_add: "push_bit 16 w OR ucast v = push_bit 16 w + ucast v" for w :: u32 and v :: u16
proof (rule disjunctive_add_eq_or[symmetric])
  show "push_bit 16 w AND ucast v = 0"
    by (rule bit_word_eqI) (auto simp: bit_simps dest: bit_imp_le_length)
qed

lemma hex_data_record_store:
  assumes "hex_in_flash s" "a < 2 ^ 16" "ds \<noteq> []" "a + length ds \<le> length (hx_flash s)"
  shows "hex_data_record (of_nat a) ds s = s\<lparr>hx_flash := mem_store a ds (hx_flash s)\<rparr>"
proof -
  have "push_bit 16 0x800 OR ucast (of_nat a :: u16) = push_bit 16 0x800 + (ucast (of_nat a :: u16) :: u32)"
    by (rule high_or_low_add)
  then have addr: "hex_abs_addr (of_nat a) s = 0x08000000 + of_nat a"
    using assms(1,2) by (simp add: hex_abs_addr_def hex_in_flash_def unsigned_of_nat take_bit_nat_eq_self push_bit_eq_mult)
  have "unat (0x08000000 + of_nat a :: u32) = 0x08000000 + a"
    using assms(2) by (simp add: unat_word_ariths unat_of_nat_small)
  moreover have "unat (0x08000000 + of_nat (length (hx_flash s)) :: u32) = 0x08000000 + length (hx_flash s)"
    using assms(1) by (simp add: hex_in_flash_def unat_word_ariths unat_of_nat_small)
  moreover have "a < length (hx_flash s)" using assms(3,4) by (cases ds) auto
  moreover have "unat (of_nat a :: u32) = a" using assms(2) by (simp add: unat_of_nat_small)
  ultimately have "hex_offset (hex_abs_addr (of_nat a) s) s = Some a"
    by (simp add: hex_offset_def Let_def addr HEX_FLASH_BASE_def word_le_nat_alt word_less_nat_alt)
  then show ?thesis using assms(4) by (simp add: hex_data_record_def)
qed

lemma hex_data_print:
  assumes "hex_in_flash s" "a < 2 ^ 16" "ds \<noteq> []" "length ds < 256" "a + length ds \<le> length (hx_flash s)"
  shows "hex_record (hex_data a ds @ [- sum_list (hex_data a ds)]) s =
    Inr (False, s\<lparr>hx_flash := mem_store a ds (hx_flash s)\<rparr>)"
proof -
  have len: "unat (of_nat (length ds) :: u8) = length ds" using assms(4) by (simp add: unat_of_nat_small)
  have "ucast (hex_be16 (of_nat (drop_bit 8 a)) (of_nat a)) = (of_nat a :: u16)"
    by (rule bit_word_eqI) (auto simp: hex_be16_def bit_simps bit_of_nat_iff bit_nat_iff)
  then show ?thesis
    using assms hex_data_record_store[OF assms(1,2,3,5)]
    by (simp add: hex_record_def Let_def hex_data_def len)
qed

lemma hex_rows_load:
  assumes "xdigit_ok xdv"
  shows "hex_in_flash s \<Longrightarrow> list_all (\<lambda>r. r \<noteq> [] \<and> length r < 256) rows \<Longrightarrow>
    a + length (concat rows) \<le> 2 ^ 16 \<Longrightarrow> a + length (concat rows) \<le> length (hx_flash s) \<Longrightarrow>
    hex_lines xdv (hex_rows a rows @ rest) s =
    hex_lines xdv rest (s\<lparr>hx_flash := mem_store a (concat rows) (hx_flash s)\<rparr>)"
proof (induction rows arbitrary: a s)
  case Nil
  then show ?case by (simp add: mem_store_def)
next
  case (Cons r rows)
  let ?s = "s\<lparr>hx_flash := mem_store a r (hx_flash s)\<rparr>"
  have r: "r \<noteq> []" "length r < 256" "a + length r \<le> length (hx_flash s)" "a < 2 ^ 16"
    using Cons.prems by (auto simp: length_greater_0_conv[symmetric] simp del: length_greater_0_conv)
  have "hex_lines xdv (hex_rows a (r # rows) @ rest) s = hex_lines xdv (hex_rows (a + length r) rows @ rest) ?s"
    using hex_lines_print[OF assms _ hex_data_print[OF Cons.prems(1) r(4) r(1) r(2) r(3)]] r(2)
    by (simp add: hex_data_def)
  also have "\<dots> = hex_lines xdv rest (s\<lparr>hx_flash := mem_store a (concat (r # rows)) (hx_flash s)\<rparr>)"
    using Cons.prems r by (subst Cons.IH) (simp_all add: hex_in_flash_def length_mem_store mem_store_append add.assoc)
  finally show ?case .
qed



end
