(* ===== verification/Ch32_Boot.thy ===== *)
theory Ch32_Boot
  imports Ch32_Hex
begin

text \<open>
  Booting: the repair of the first instruction and the electronic signature (\<open>ch32-boot.c\<close>), and the
  choice of the reset address by \<open>ch32_machine_init\<close> (\<open>ch32-v.c\<close>). The flash is the list of its
  bytes. The ELF loader is a QEMU service: the model takes the entry it reports.
\<close>

definition BOOT_FLASH_BASE :: u64 where "BOOT_FLASH_BASE = 0x08000000"
definition BOOT_SYSMEM_BASE :: u64 where "BOOT_SYSMEM_BASE = 0x1FFF8000"
definition BOOT_SRAM_BASE :: u64 where "BOOT_SRAM_BASE = 0x20000000"
definition BOOT_REMAP_BASE :: u64 where "BOOT_REMAP_BASE = 0"

definition ldl_le :: "nat \<Rightarrow> u8 list \<Rightarrow> u32" where
  "ldl_le off mem = of_le_bytes (take 4 (drop off mem))"

definition stl_le :: "nat \<Rightarrow> u32 \<Rightarrow> u8 list \<Rightarrow> u8 list" where
  "stl_le off w mem = mem_store off (le_bytes 4 w) mem"

section \<open>The first instruction\<close>

definition CH32_FLASH_BAD_VEC_JAL :: u32 where "CH32_FLASH_BAD_VEC_JAL = 0x2020006f"
definition CH32_FLASH_FIXED_VEC_JAL :: u32 where "CH32_FLASH_FIXED_VEC_JAL = 0x2020106f"

definition jal_imm :: "u32 \<Rightarrow> u32" where
  "jal_imm inst =
     push_bit 20 (drop_bit 31 inst AND 1) OR push_bit 12 (drop_bit 12 inst AND 0xff) OR
     push_bit 11 (drop_bit 20 inst AND 1) OR push_bit 1 (drop_bit 21 inst AND 0x3ff)"

definition ch32_decode_jal_target :: "u64 \<Rightarrow> u32 \<Rightarrow> u32" where
  "ch32_decode_jal_target pc inst =
     (let imm = signed_drop_bit 11 (push_bit 11 (jal_imm inst)) in ucast (pc + scast imm))"

definition ch32_flash_reset_entry_is_valid :: "u8 list \<Rightarrow> u32 \<Rightarrow> bool" where
  "ch32_flash_reset_entry_is_valid flash target \<longleftrightarrow>
     (if ucast target < BOOT_FLASH_BASE then False
      else let off = unat target - unat BOOT_FLASH_BASE in
        if off + 4 > length flash then False
        else let w = ldl_le off flash in w AND 0x7f = 0x17 \<and> drop_bit 7 w AND 0x1f = 3)"

definition ch32_flash_patch_vector_jal_if_needed :: "u8 list \<Rightarrow> u8 list" where
  "ch32_flash_patch_vector_jal_if_needed flash =
     (if length flash < 4 then flash
      else if ldl_le 0 flash \<noteq> CH32_FLASH_BAD_VEC_JAL then flash
      else if ch32_flash_reset_entry_is_valid flash
                (ch32_decode_jal_target BOOT_FLASH_BASE (ldl_le 0 flash)) then flash
      else stl_le 0 CH32_FLASH_FIXED_VEC_JAL flash)"

section \<open>The electronic signature\<close>

definition esig_chip_id :: "string \<Rightarrow> u32" where
  "esig_chip_id tag =
     (if tag = ''ch32v317'' then 0x3173b508
      else if tag = ''ch32v307'' then 0x30700514
      else if tag = ''ch32v305'' then 0x30500508
      else if tag = ''ch32v303'' then 0x30330504
      else if tag = ''ch32v203rb'' then 0x2034050c
      else if tag = ''ch32v203'' then 0x20310500
      else if tag = ''ch32v003'' then 0x00300500
      else 0x30700518)"

definition esig_flash_kb :: "u64 \<Rightarrow> u16" where
  "esig_flash_kb bytes = (if bytes div 1024 > 65535 then 65535 else ucast (bytes div 1024))"

definition ch32_esig_populate :: "string \<Rightarrow> u64 \<Rightarrow> u8 list \<Rightarrow> u8 list" where
  "ch32_esig_populate tag flash_size_bytes p =
     (if length p < 0x100 then p
      else
        let z = replicate (length p) 0;
            p1 = stl_le 0x04 (esig_chip_id tag) z;
            p2 = mem_store 0xe0 (le_bytes 2 (ucast (esig_flash_kb flash_size_bytes))) p1;
            p3 = stl_le 0xe8 0x11223344 p2;
            p4 = stl_le 0xec 0x55667788 p3
        in stl_le 0xf0 0x99aabbcc p4)"

section \<open>The reset address\<close>

datatype boot_mode = Boot_flash | Boot_sysmem | Boot_sram

definition boot_mode_base :: "boot_mode \<Rightarrow> u64" where
  "boot_mode_base bm =
     (case bm of Boot_flash \<Rightarrow> BOOT_FLASH_BASE | Boot_sysmem \<Rightarrow> BOOT_SYSMEM_BASE | Boot_sram \<Rightarrow> BOOT_SRAM_BASE)"

text \<open>A firmware: an ELF file with the entry the loader reports and the flash it leaves, a HEX file with its
  content, a raw image. \<open>None\<close> stands for a file that cannot be read.\<close>

datatype firmware = Fw_elf "(u64 \<times> u8 list) option" | Fw_hex "u8 list option" | Fw_bin "u8 list option"

definition elf_reset_pc :: "u64 \<Rightarrow> u64 \<Rightarrow> u64" where
  "elf_reset_pc flash_sz entry =
     (if entry \<ge> BOOT_FLASH_BASE \<and> entry < BOOT_FLASH_BASE + flash_sz \<and> entry AND 3 = 0 \<and>
         entry \<noteq> BOOT_FLASH_BASE then entry
      else if entry < flash_sz \<and> entry AND 3 = 0 then entry
      else BOOT_FLASH_BASE)"

text \<open>Loading the firmware into the erased flash: the contents and the entry; \<open>None\<close> when the machine exits.
  The entry of the boot mode is the value of the variable before each branch assigns it.\<close>

definition boot_load :: "xdigit_value \<Rightarrow> boot_mode \<Rightarrow> u64 \<Rightarrow> firmware \<Rightarrow> (u8 list \<times> u64) option" where
  "boot_load xdv bm flash_sz fw =
     (let flash0 = replicate (unat flash_sz) 0xff; elf_entry = boot_mode_base bm in
      case fw of
        Fw_elf None \<Rightarrow> None
      | Fw_elf (Some (entry, flash)) \<Rightarrow>
          let elf_entry = entry in Some (flash, elf_reset_pc flash_sz elf_entry)
      | Fw_hex content \<Rightarrow>
          (let (err, h) = ch32_load_hex_image xdv flash0 content BOOT_FLASH_BASE in
           if err \<noteq> None then None
           else let elf_entry = (if \<not> hx_have_ela h then BOOT_REMAP_BASE else hx_entry h)
                in Some (hx_flash h, elf_entry))
      | Fw_bin None \<Rightarrow> None
      | Fw_bin (Some bytes) \<Rightarrow>
          if length bytes > unat flash_sz then None
          else let elf_entry = BOOT_FLASH_BASE in Some (mem_store 0 bytes flash0, elf_entry))"

definition is_elf :: "firmware \<Rightarrow> bool" where
  "is_elf fw = (case fw of Fw_elf _ \<Rightarrow> True | _ \<Rightarrow> False)"

text \<open>The entry moves to the target of a leading \<open>jal x0\<close> when the target is acceptable.\<close>

definition boot_follow_jal :: "u64 \<Rightarrow> u8 list \<Rightarrow> u64 \<Rightarrow> u64" where
  "boot_follow_jal flash_sz flash elf_entry =
     (let w0 = ldl_le 0 flash in
      if w0 AND 0x7f = 0x6f \<and> drop_bit 7 w0 AND 0x1f = 0 then
        let t = ch32_decode_jal_target elf_entry w0;
            t_valid = (if elf_entry = BOOT_REMAP_BASE
                       then t \<ge> 4 \<and> t < ucast flash_sz \<and> t AND 3 = 0
                       else ucast t > BOOT_FLASH_BASE \<and> ucast t < BOOT_FLASH_BASE + flash_sz \<and> t AND 3 = 0)
        in if t_valid then ucast t else elf_entry
      else elf_entry)"

definition boot_reset_vector :: "xdigit_value \<Rightarrow> boot_mode \<Rightarrow> u64 \<Rightarrow> firmware \<Rightarrow> (u8 list \<times> u64) option" where
  "boot_reset_vector xdv bm flash_sz fw =
     (case boot_load xdv bm flash_sz fw of
        None \<Rightarrow> None
      | Some (flash, entry) \<Rightarrow>
          let flash' = ch32_flash_patch_vector_jal_if_needed flash in
          Some (flash', if is_elf fw then entry else boot_follow_jal flash_sz flash' entry))"

section \<open>Jumps\<close>

text \<open>The encoding of \<open>jal rd, off\<close> in the instruction set.\<close>

definition jal_encode :: "u32 \<Rightarrow> u32 \<Rightarrow> u32" where
  "jal_encode rd off =
     push_bit 31 (drop_bit 20 off AND 1) OR push_bit 21 (drop_bit 1 off AND 0x3ff) OR
     push_bit 20 (drop_bit 11 off AND 1) OR push_bit 12 (drop_bit 12 off AND 0xff) OR
     push_bit 7 (rd AND 0x1f) OR 0x6f"

lemma and_1_take_bit: "w AND 1 = take_bit 1 w" "w AND 0x1f = take_bit 5 w" "w AND 0x3ff = take_bit 10 w" for w :: u32
  by (simp_all add: take_bit_eq_mask mask_eq_exp_minus_1)

lemma jal_opcode_bits: "7 \<le> k \<Longrightarrow> \<not> bit (0x6f :: u32) k"
proof -
  have "(0x6f :: u32) = take_bit 7 0x6f" by simp
  then show "7 \<le> k \<Longrightarrow> \<not> bit (0x6f :: u32) k" by (metis bit_take_bit_iff not_le)
qed

lemma bit_field_down:
  "bit (push_bit d (take_bit w (drop_bit u x))) n \<longleftrightarrow> d \<le> n \<and> n < d + w \<and> n < 32 \<and> bit x (u + (n - d))"
  for x :: u32
  by (simp only: bit_push_bit_iff bit_take_bit_iff bit_drop_bit_eq o_def possible_bit_word len_of_numeral_defs)
    (auto simp: less_diff_conv2)

lemma bit_jal_imm:
  "bit (jal_imm w) n \<longleftrightarrow>
     (n = 20 \<and> bit w 31) \<or> (12 \<le> n \<and> n < 20 \<and> bit w n) \<or> (n = 11 \<and> bit w 20) \<or>
     (0 < n \<and> n < 11 \<and> bit w (n + 20))"
proof -
  have eq: "bit (jal_imm w) n \<longleftrightarrow>
      (20 \<le> n \<and> n < 21 \<and> n < 32 \<and> bit w (31 + (n - 20))) \<or> (12 \<le> n \<and> n < 20 \<and> n < 32 \<and> bit w (12 + (n - 12))) \<or>
      (11 \<le> n \<and> n < 12 \<and> n < 32 \<and> bit w (20 + (n - 11))) \<or> (1 \<le> n \<and> n < 11 \<and> n < 32 \<and> bit w (21 + (n - 1)))"
    unfolding jal_imm_def and_1_take_bit and_ff_take_bit bit_or_iff bit_field_down by simp
  consider "n = 0" | m where "n = Suc m" "m < 10" | "n = 11" | "12 \<le> n \<and> n < 20" | "n = 20" | "20 < n"
    by (cases n) (simp, fastforce)
  then show ?thesis unfolding eq by cases (simp_all add: add.commute)
qed

lemma bit_jal_encode:
  assumes "12 \<le> k"
  shows "bit (jal_encode rd off) k \<longleftrightarrow>
     (k = 31 \<and> bit off 20) \<or> (21 \<le> k \<and> k < 31 \<and> bit off (k - 20)) \<or> (k = 20 \<and> bit off 11) \<or>
     (12 \<le> k \<and> k < 20 \<and> bit off k)"
proof -
  have "\<not> bit (push_bit 7 (take_bit 5 rd)) k"
    using assms by (simp only: bit_push_bit_iff bit_take_bit_iff) auto
  moreover have "\<not> bit (0x6f :: u32) k" using assms by (intro jal_opcode_bits) simp
  ultimately have eq: "bit (jal_encode rd off) k \<longleftrightarrow>
      (31 \<le> k \<and> k < 31 + 1 \<and> k < 32 \<and> bit off (20 + (k - 31))) \<or>
      (21 \<le> k \<and> k < 21 + 10 \<and> k < 32 \<and> bit off (1 + (k - 21))) \<or>
      (20 \<le> k \<and> k < 20 + 1 \<and> k < 32 \<and> bit off (11 + (k - 20))) \<or>
      (12 \<le> k \<and> k < 12 + 8 \<and> k < 32 \<and> bit off (12 + (k - 12)))"
    unfolding jal_encode_def and_1_take_bit and_ff_take_bit bit_or_iff bit_field_down by blast
  consider "12 \<le> k \<and> k < 20" | "k = 20" | "21 \<le> k \<and> k < 31" | "k = 31" | "31 < k" using assms by linarith
  then show ?thesis unfolding eq by cases (simp_all add: Suc_diff_le[symmetric])
qed

lemma jal_imm_encode: "bit (jal_imm (jal_encode rd off)) n \<longleftrightarrow> 0 < n \<and> n < 21 \<and> bit off n"
proof -
  consider "n = 0" | "0 < n \<and> n < 11" | "n = 11" | "12 \<le> n \<and> n < 20" | "n = 20" | "20 < n" by linarith
  then show ?thesis by cases (simp_all add: bit_jal_imm bit_jal_encode)
qed

lemma take_bit_nested_sum: "take_bit 32 (take_bit 64 x + take_bit 64 y) = take_bit 32 (x + y)" for x y :: int
proof -
  have "take_bit 32 (take_bit 64 x + take_bit 64 y) =
      take_bit 32 (take_bit 32 (take_bit 64 x) + take_bit 32 (take_bit 64 y))"
    by (rule take_bit_add[symmetric])
  also have "\<dots> = take_bit 32 (take_bit 32 x + take_bit 32 y)" by simp
  also have "\<dots> = take_bit 32 (x + y)" by (rule take_bit_add)
  finally show ?thesis .
qed

lemma ucast_sum: "ucast (x + y) = ucast x + (ucast y :: u32)" for x y :: u64
  by transfer (simp add: take_bit_add take_bit_nested_sum)

lemma ucast_of_scast: "ucast (scast w :: u64) = w" for w :: u32
  by (rule bit_word_eqI) (auto simp: bit_simps)

text \<open>The jump decoder inverts the encoding of the instruction set: a \<open>jal\<close> by an even offset that fits
  twenty-one signed bits, whatever its link register, is decoded to the program counter plus the
  offset.\<close>

theorem decode_jal_correct:
  assumes "even off" "signed_take_bit 20 off = off"
  shows "ch32_decode_jal_target pc (jal_encode rd off) = ucast pc + off"
proof -
  have hi: "bit off n = bit off 20" if "20 \<le> n" "n < 32" for n
  proof -
    have "bit (signed_take_bit 20 off) n = bit off 20"
      using that by (simp add: bit_signed_take_bit_iff min_absorb2)
    then show ?thesis by (simp only: assms(2))
  qed
  have lo: "\<not> bit off 0" using assms(1) by (simp add: bit_0)
  have "bit (signed_drop_bit 11 (push_bit 11 (jal_imm (jal_encode rd off)))) n = bit off n" if "n < 32" for n
  proof (cases "n < 21")
    case True
    then show ?thesis
      using lo by (cases n) (simp_all add: bit_signed_drop_bit_iff bit_push_bit_iff jal_imm_encode)
  next
    case False
    then show ?thesis
      using that hi[of n] by (simp add: bit_signed_drop_bit_iff bit_push_bit_iff jal_imm_encode)
  qed
  then have "signed_drop_bit 11 (push_bit 11 (jal_imm (jal_encode rd off))) = off"
    by (intro bit_word_eqI) simp
  then show ?thesis by (simp add: ch32_decode_jal_target_def ucast_sum ucast_of_scast)
qed

lemma decode_jal_correct_witness:
  "ch32_decode_jal_target 0x08000000 (jal_encode 0 (- 8)) = 0x07fffff8"
  using decode_jal_correct[of "- 8" "0x08000000" 0] by simp

section \<open>Patching and signing\<close>

lemma ldl_stl: "off + 4 \<le> length mem \<Longrightarrow> ldl_le off (stl_le off w mem) = w"
  using of_le_bytes_roundtrip[of 4 w] by (simp add: ldl_le_def stl_le_def mem_store_def take_bit_word_eq_self)

lemma ldl_mem_store_other:
  assumes "off + length ds \<le> length mem" "p + 4 \<le> off \<or> off + length ds \<le> p"
  shows "ldl_le p (mem_store off ds mem) = ldl_le p mem"
proof -
  have "take 4 (drop p (mem_store off ds mem)) = take 4 (drop p mem)"
    using assms by (auto simp: mem_store_def take_drop min_def intro: nth_equalityI)
  then show ?thesis by (simp add: ldl_le_def)
qed

text \<open>The repaired flash keeps its size and every byte after the first word; the first word changes
  only when it is the known bad vector whose target is not a startup, and then it jumps to 0x1202
  after the flash base. Repairing twice changes nothing more.\<close>

theorem vector_patch_minimal:
  assumes "4 \<le> length flash"
  shows "let p = ch32_flash_patch_vector_jal_if_needed flash in
    length p = length flash \<and> drop 4 p = drop 4 flash \<and>
    (ldl_le 0 p \<noteq> ldl_le 0 flash \<longrightarrow>
       ldl_le 0 flash = CH32_FLASH_BAD_VEC_JAL \<and> ch32_decode_jal_target BOOT_FLASH_BASE (ldl_le 0 p) = 0x08001202) \<and>
    ch32_flash_patch_vector_jal_if_needed p = p"
proof (cases "ch32_flash_patch_vector_jal_if_needed flash = flash")
  case False
  then have bad: "ldl_le 0 flash = CH32_FLASH_BAD_VEC_JAL"
    and p: "ch32_flash_patch_vector_jal_if_needed flash = stl_le 0 CH32_FLASH_FIXED_VEC_JAL flash"
    by (auto simp: ch32_flash_patch_vector_jal_if_needed_def split: if_splits)
  have fixed: "CH32_FLASH_FIXED_VEC_JAL \<noteq> CH32_FLASH_BAD_VEC_JAL"
    by (simp add: CH32_FLASH_FIXED_VEC_JAL_def CH32_FLASH_BAD_VEC_JAL_def)
  have ld: "ldl_le 0 (stl_le 0 CH32_FLASH_FIXED_VEC_JAL flash) = CH32_FLASH_FIXED_VEC_JAL"
    using ldl_stl[of 0 flash CH32_FLASH_FIXED_VEC_JAL] assms by simp
  have len: "length (stl_le 0 CH32_FLASH_FIXED_VEC_JAL flash) = length flash"
    using assms by (simp add: stl_le_def length_mem_store)
  have "ch32_decode_jal_target BOOT_FLASH_BASE CH32_FLASH_FIXED_VEC_JAL = 0x08001202"
    by (simp add: ch32_decode_jal_target_def jal_imm_def CH32_FLASH_FIXED_VEC_JAL_def BOOT_FLASH_BASE_def)
  moreover have "drop 4 (stl_le 0 CH32_FLASH_FIXED_VEC_JAL flash) = drop 4 flash"
    using assms by (simp add: stl_le_def mem_store_def)
  moreover have "ch32_flash_patch_vector_jal_if_needed (stl_le 0 CH32_FLASH_FIXED_VEC_JAL flash) =
      stl_le 0 CH32_FLASH_FIXED_VEC_JAL flash"
    using fixed by (simp add: ch32_flash_patch_vector_jal_if_needed_def ld)
  ultimately show ?thesis by (simp add: p ld len bad Let_def)
qed (simp add: Let_def)

lemma vector_patch_minimal_witness:
  "drop 4 (ch32_flash_patch_vector_jal_if_needed [0x6f, 0, 0x20, 0x20, 7, 8]) = [7, 8]"
  using vector_patch_minimal[of "[0x6f, 0, 0x20, 0x20, 7, 8]"] by (simp add: Let_def)

text \<open>The signature area reads back the chip identification of the board's tag and the flash size in
  kilobytes, saturated at sixteen bits, whatever it held before.\<close>

theorem esig_reads_back:
  assumes "0x100 \<le> length p"
  shows "let e = ch32_esig_populate tag sz p in
    length e = length p \<and> ldl_le 0x04 e = esig_chip_id tag \<and>
    take 2 (drop 0xe0 e) = le_bytes 2 (ucast (esig_flash_kb sz)) \<and> ldl_le 0xf0 e = 0x99aabbcc"
proof -
  let ?p1 = "stl_le 0x04 (esig_chip_id tag) (replicate (length p) 0)"
  let ?p2 = "mem_store 0xe0 (le_bytes 2 (ucast (esig_flash_kb sz))) ?p1"
  let ?p3 = "stl_le 0xe8 0x11223344 ?p2"
  let ?p4 = "stl_le 0xec 0x55667788 ?p3"
  have len: "length ?p1 = length p" "length ?p2 = length p" "length ?p3 = length p" "length ?p4 = length p"
    using assms by (simp_all add: stl_le_def length_mem_store)
  have e: "ch32_esig_populate tag sz p = stl_le 0xf0 0x99aabbcc ?p4"
    using assms by (simp add: ch32_esig_populate_def Let_def)
  have "ldl_le 0x04 (stl_le 0xf0 0x99aabbcc ?p4) = ldl_le 0x04 ?p1"
    using assms len by (simp add: stl_le_def ldl_mem_store_other)
  moreover have "take 2 (drop 0xe0 (stl_le o' w q)) = take 2 (drop 0xe0 q)"
    if "0xe2 \<le> o'" "o' + 4 \<le> length q" for o' w q
    using that by (auto simp: stl_le_def mem_store_def take_drop min_def intro: nth_equalityI)
  moreover have "take 2 (drop 0xe0 ?p2) = le_bytes 2 (ucast (esig_flash_kb sz))"
    using assms len(1) by (simp add: mem_store_def)
  ultimately show ?thesis
    using assms len ldl_stl[of 4 "replicate (length p) 0" "esig_chip_id tag"] ldl_stl[of "0xf0" ?p4 "0x99aabbcc"]
    by (simp add: e Let_def) (simp add: stl_le_def length_mem_store)
qed

lemma esig_reads_back_witness:
  "ldl_le 0x04 (ch32_esig_populate ''ch32v307'' 0x40000 (replicate 0x100 7)) = 0x30700514"
  using esig_reads_back[of "replicate 0x100 7" "''ch32v307''" "0x40000"] by (simp add: Let_def esig_chip_id_def)

section \<open>Where the machine starts\<close>

text \<open>The flash sizes the machine accepts.\<close>

definition flash_sz_ok :: "u64 \<Rightarrow> bool" where
  "flash_sz_ok sz \<longleftrightarrow> 4096 \<le> sz \<and> sz \<le> 0x1000000"

definition in_boot_window :: "u64 \<Rightarrow> u64 \<Rightarrow> bool" where
  "in_boot_window sz pc \<longleftrightarrow> pc < sz \<or> (BOOT_FLASH_BASE \<le> pc \<and> pc < BOOT_FLASH_BASE + sz)"

lemma flash_window_base:
  assumes "flash_sz_ok sz"
  shows "BOOT_FLASH_BASE < BOOT_FLASH_BASE + sz" "unat (BOOT_FLASH_BASE + sz) = 0x08000000 + unat sz"
proof -
  have "unat sz \<le> 0x1000000" "4096 \<le> unat sz"
    using assms by (simp_all add: flash_sz_ok_def word_le_nat_alt)
  then show "unat (BOOT_FLASH_BASE + sz) = 0x08000000 + unat sz"
    by (simp add: BOOT_FLASH_BASE_def unat_word_ariths)
  then show "BOOT_FLASH_BASE < BOOT_FLASH_BASE + sz"
    using \<open>4096 \<le> unat sz\<close> by (simp add: word_less_nat_alt BOOT_FLASH_BASE_def)
qed

lemma elf_reset_in_window: "flash_sz_ok sz \<Longrightarrow> in_boot_window sz (elf_reset_pc sz e) \<and> elf_reset_pc sz e AND 3 = 0"
  using flash_window_base(1)[of sz] by (auto simp: elf_reset_pc_def in_boot_window_def BOOT_FLASH_BASE_def)

lemma and_3_ucast: "(t :: u32) AND 3 = 0 \<Longrightarrow> (ucast t :: u64) AND 3 = 0"
proof -
  assume "t AND 3 = 0"
  moreover have "(ucast t :: u64) AND 3 = ucast (t AND 3)"
    by (simp add: unsigned_and_eq)
  ultimately show ?thesis by simp
qed

lemma follow_jal_in_window:
  assumes "flash_sz_ok sz" "in_boot_window sz e" "e AND 3 = 0"
  shows "in_boot_window sz (boot_follow_jal sz flash e) \<and> boot_follow_jal sz flash e AND 3 = 0"
proof -
  have "t < ucast sz \<Longrightarrow> (ucast t :: u64) < sz" for t :: u32
  proof -
    assume "t < ucast sz"
    moreover have "unat (ucast sz :: u32) = unat sz"
      using assms(1) by (auto simp: flash_sz_ok_def word_le_nat_alt unsigned_ucast_eq take_bit_nat_eq_self)
    moreover have "unat (ucast t :: u64) = unat t"
      using unsigned_less[of t, where 'a = nat] by (simp add: unsigned_ucast_eq take_bit_nat_eq_self)
    ultimately show ?thesis by (simp add: word_less_nat_alt)
  qed
  then show ?thesis
    using assms(2,3) and_3_ucast
    by (auto simp: boot_follow_jal_def Let_def in_boot_window_def BOOT_FLASH_BASE_def)
qed

text \<open>The machine starts at a word of the flash or of its image at address zero, for every ELF file, raw
  image and HEX file without extended addresses, and the start address and the flash contents do not
  depend on the boot mode: the system memory and SRAM modes select no other start.\<close>

theorem boot_start_in_flash:
  assumes "flash_sz_ok sz" "boot_reset_vector xdv bm sz fw = Some (flash, pc)"
  shows "boot_reset_vector xdv bm' sz fw = Some (flash, pc) \<and>
    ((\<forall>content. fw \<noteq> Fw_hex content) \<longrightarrow> in_boot_window sz pc \<and> pc AND 3 = 0)"
proof -
  have "boot_load xdv bm' sz fw = boot_load xdv bm sz fw" by (simp add: boot_load_def)
  then have same: "boot_reset_vector xdv bm' sz fw = boot_reset_vector xdv bm sz fw"
    by (simp add: boot_reset_vector_def)
  have base: "in_boot_window sz BOOT_FLASH_BASE" "BOOT_FLASH_BASE AND 3 = 0"
    using flash_window_base(1)[OF assms(1)] by (simp_all add: in_boot_window_def) (simp add: BOOT_FLASH_BASE_def)
  have "in_boot_window sz pc \<and> pc AND 3 = 0" if "\<forall>content. fw \<noteq> Fw_hex content"
    using assms(2) that elf_reset_in_window[OF assms(1)] follow_jal_in_window[OF assms(1) base]
    by (cases fw) (auto simp: boot_reset_vector_def boot_load_def is_elf_def Let_def split: option.splits if_splits)
  then show ?thesis using assms(2) same by simp
qed

lemma boot_start_in_flash_witness:
  "boot_reset_vector xdigit_ref Boot_sram 0x10000 (Fw_bin (Some [0x13, 0, 0, 0])) =
   Some (mem_store 0 [0x13, 0, 0, 0] (replicate 0x10000 0xff), 0x08000000)"
proof -
  let ?fl = "mem_store 0 [0x13, 0, 0, 0] (replicate 0x10000 0xff) :: u8 list"
  have "take 4 ?fl = [0x13, 0, 0, 0]" by (simp add: mem_store_def)
  then have w: "ldl_le 0 ?fl = 0x13" by (simp add: ldl_le_def)
  have "boot_reset_vector xdigit_ref Boot_flash 0x10000 (Fw_bin (Some [0x13, 0, 0, 0])) = Some (?fl, 0x08000000)"
    by (simp add: boot_reset_vector_def boot_load_def is_elf_def boot_follow_jal_def w
        ch32_flash_patch_vector_jal_if_needed_def CH32_FLASH_BAD_VEC_JAL_def BOOT_FLASH_BASE_def)
  from boot_start_in_flash[OF _ this, of Boot_sram] show ?thesis by (simp add: flash_sz_ok_def)
qed

end
