(* ===== verification/Ch32_Boards.thy ===== *)
theory Ch32_Boards
  imports Ch32_Boot
begin

text \<open>
  The board descriptors (\<open>ch32-boards.c\<close>) and the QingKe processor models
  (\<open>wch-qingke-cpu.c.inc\<close>), as tables. A processor model keeps the fields the definitions set: the
  extension letters of \<open>misa\<close>, the number of protected memory regions, the WCH extensions and the
  identification registers.
\<close>

section \<open>Processors\<close>

datatype qingke = V5F | V4F | V4J | V4C | V4B | V4A | V3V | V3F | V3C | V3B | V3A | V2C | V2A | Base32

record cpu_def =
  misa_ext :: string
  pmp_regions :: nat
  ext_zcf :: bool
  ext_b_group :: bool
  ext_zmmul :: bool
  ext_xw :: bool
  ext_xwchmcpy :: bool
  ext_hpe :: bool
  marchid :: u64
  mimpid :: u64
  mvendorid :: u64

definition WCH_QINGKE_MARCHID :: "nat \<Rightarrow> nat \<Rightarrow> u64" where
  "WCH_QINGKE_MARCHID series version =
     0xDC68D800 OR push_bit 5 (of_nat series) OR (of_nat version AND 0x1F)"

definition WCH_QINGKE_MIMPID :: u64 where "WCH_QINGKE_MIMPID = 0xDC688001"
definition WCH_QINGKE_MVENDORID :: u64 where "WCH_QINGKE_MVENDORID = 0"

text \<open>\<open>WCH_QINGKE_BASE_CFG\<close> with \<open>WCH_QINGKE_IDS\<close>: the digit of the series and the number of the version
  letter.\<close>

definition qingke_base :: "string \<Rightarrow> nat \<Rightarrow> nat \<Rightarrow> cpu_def" where
  "qingke_base misa series version =
     \<lparr>misa_ext = misa, pmp_regions = 4, ext_zcf = False, ext_b_group = False, ext_zmmul = False,
      ext_xw = False, ext_xwchmcpy = False, ext_hpe = False,
      marchid = WCH_QINGKE_MARCHID series version, mimpid = WCH_QINGKE_MIMPID, mvendorid = WCH_QINGKE_MVENDORID\<rparr>"

definition cpu_type_info :: "qingke \<Rightarrow> cpu_def option" where
  "cpu_type_info c = (case c of
     V4F \<Rightarrow> Some ((qingke_base ''IMAFCU'' 4 6)\<lparr>ext_zcf := True, ext_xw := True, ext_hpe := True\<rparr>)
   | V4A \<Rightarrow> Some ((qingke_base ''IMACU'' 4 1)\<lparr>ext_hpe := True\<rparr>)
   | V4B \<Rightarrow> Some ((qingke_base ''IMACU'' 4 2)\<lparr>pmp_regions := 0, ext_xw := True, ext_hpe := True\<rparr>)
   | V4C \<Rightarrow> Some ((qingke_base ''IMACU'' 4 3)\<lparr>ext_xw := True, ext_hpe := True\<rparr>)
   | V4J \<Rightarrow> Some ((qingke_base ''IMACU'' 4 10)\<lparr>ext_xw := True, ext_hpe := True\<rparr>)
   | V3A \<Rightarrow> Some ((qingke_base ''IMACU'' 3 1)\<lparr>pmp_regions := 0, ext_hpe := True\<rparr>)
   | V3B \<Rightarrow> Some ((qingke_base ''IMCBU'' 3 2)\<lparr>ext_b_group := True, pmp_regions := 0, ext_xw := True,
       ext_xwchmcpy := True, ext_hpe := True\<rparr>)
   | V3C \<Rightarrow> Some ((qingke_base ''IMCBU'' 3 3)\<lparr>ext_b_group := True, ext_xw := True,
       ext_xwchmcpy := True, ext_hpe := True\<rparr>)
   | V3F \<Rightarrow> Some ((qingke_base ''IMAFCBU'' 3 6)\<lparr>ext_zcf := True, ext_b_group := True, ext_xw := True,
       ext_xwchmcpy := True, ext_hpe := True\<rparr>)
   | V3V \<Rightarrow> Some ((qingke_base ''IMACBU'' 3 22)\<lparr>ext_b_group := True, ext_xw := True,
       ext_xwchmcpy := True, ext_hpe := True\<rparr>)
   | V2A \<Rightarrow> Some ((qingke_base ''EC'' 2 1)\<lparr>ext_xw := True, ext_hpe := True\<rparr>)
   | V2C \<Rightarrow> Some ((qingke_base ''EC'' 2 3)\<lparr>ext_zmmul := True, ext_xw := True, ext_hpe := True\<rparr>)
   | V5F \<Rightarrow> Some ((qingke_base ''IMAFCBU'' 5 6)\<lparr>ext_zcf := True, ext_b_group := True, ext_xw := True,
       ext_hpe := True\<rparr>)
   | Base32 \<Rightarrow> None)"

section \<open>Boards\<close>

record board_desc =
  tag :: string
  flash_size :: u64
  default_ram_size :: u64
  default_cpu_type :: qingke
  valid_cpu_types :: "qingke list"
  default_nic :: "string option"
  hsi_hz :: u32
  hse_hz :: u32

definition ch32_cpus_all :: "qingke list" where
  "ch32_cpus_all = [V5F, V4F, V4J, V4C, V4B, V4A, V3V, V3F, V3C, V3B, V3A, V2C, V2A, Base32]"

definition ch32_cpus_v3_line :: "qingke list" where
  "ch32_cpus_v3_line = [V3A, V2A, Base32]"

definition ch32_cpus_v2_line :: "qingke list" where
  "ch32_cpus_v2_line = [V2C, V2A, Base32]"

definition KiB :: u64 where "KiB = 1024"

definition ch32_board_ch32v317 :: board_desc where
  "ch32_board_ch32v317 = \<lparr>tag = ''ch32v317'', flash_size = 480 * KiB, default_ram_size = 192 * KiB,
     default_cpu_type = V4F, valid_cpu_types = ch32_cpus_all, default_nic = Some ''ch32-eth-dwmac'',
     hsi_hz = 8000000, hse_hz = 8000000\<rparr>"

definition ch32_board_ch32v307 :: board_desc where
  "ch32_board_ch32v307 = \<lparr>tag = ''ch32v307'', flash_size = 256 * KiB, default_ram_size = 64 * KiB,
     default_cpu_type = V4F, valid_cpu_types = ch32_cpus_all, default_nic = Some ''ch32-eth-dwmac-10m'',
     hsi_hz = 8000000, hse_hz = 8000000\<rparr>"

definition ch32_board_ch32v305 :: board_desc where
  "ch32_board_ch32v305 = \<lparr>tag = ''ch32v305'', flash_size = 288 * KiB, default_ram_size = 64 * KiB,
     default_cpu_type = V4F, valid_cpu_types = ch32_cpus_all, default_nic = Some ''ch32-eth-dwmac'',
     hsi_hz = 8000000, hse_hz = 8000000\<rparr>"

definition ch32_board_ch32v303 :: board_desc where
  "ch32_board_ch32v303 = \<lparr>tag = ''ch32v303'', flash_size = 256 * KiB, default_ram_size = 64 * KiB,
     default_cpu_type = V4F, valid_cpu_types = ch32_cpus_all, default_nic = Some ''ch32-eth-dwmac'',
     hsi_hz = 8000000, hse_hz = 8000000\<rparr>"

definition ch32_board_ch32v203 :: board_desc where
  "ch32_board_ch32v203 = \<lparr>tag = ''ch32v203'', flash_size = 256 * KiB, default_ram_size = 64 * KiB,
     default_cpu_type = V4B, valid_cpu_types = ch32_cpus_all, default_nic = None,
     hsi_hz = 8000000, hse_hz = 8000000\<rparr>"

definition ch32_board_ch32v203rb :: board_desc where
  "ch32_board_ch32v203rb = \<lparr>tag = ''ch32v203rb'', flash_size = 256 * KiB, default_ram_size = 64 * KiB,
     default_cpu_type = V4B, valid_cpu_types = ch32_cpus_all, default_nic = Some ''ch32-eth-10m'',
     hsi_hz = 8000000, hse_hz = 8000000\<rparr>"

definition ch32_board_ch32v103 :: board_desc where
  "ch32_board_ch32v103 = \<lparr>tag = ''ch32v103'', flash_size = 64 * KiB, default_ram_size = 20 * KiB,
     default_cpu_type = V3A, valid_cpu_types = ch32_cpus_v3_line, default_nic = None,
     hsi_hz = 8000000, hse_hz = 8000000\<rparr>"

definition ch32_board_ch32v003 :: board_desc where
  "ch32_board_ch32v003 = \<lparr>tag = ''ch32v003'', flash_size = 16 * KiB, default_ram_size = 2 * KiB,
     default_cpu_type = V2C, valid_cpu_types = ch32_cpus_v2_line, default_nic = None,
     hsi_hz = 24000000, hse_hz = 24000000\<rparr>"

definition ch32_board_ch32h417 :: board_desc where
  "ch32_board_ch32h417 = \<lparr>tag = ''ch32h417'', flash_size = 896 * KiB, default_ram_size = 768 * KiB,
     default_cpu_type = V5F, valid_cpu_types = ch32_cpus_all, default_nic = None,
     hsi_hz = 8000000, hse_hz = 8000000\<rparr>"

definition ch32_board_ch32v407 :: board_desc where
  "ch32_board_ch32v407 = \<lparr>tag = ''ch32v407'', flash_size = 992 * KiB, default_ram_size = 200 * KiB,
     default_cpu_type = V3V, valid_cpu_types = ch32_cpus_all, default_nic = None,
     hsi_hz = 20000000, hse_hz = 8000000\<rparr>"

definition ch32_boards :: "board_desc list" where
  "ch32_boards = [ch32_board_ch32v317, ch32_board_ch32v307, ch32_board_ch32v305, ch32_board_ch32v303,
     ch32_board_ch32v203, ch32_board_ch32v203rb, ch32_board_ch32v103, ch32_board_ch32v003,
     ch32_board_ch32h417, ch32_board_ch32v407]"

lemmas board_defs =
  ch32_boards_def ch32_board_ch32v317_def ch32_board_ch32v307_def ch32_board_ch32v305_def
  ch32_board_ch32v303_def ch32_board_ch32v203_def ch32_board_ch32v203rb_def ch32_board_ch32v103_def
  ch32_board_ch32v003_def ch32_board_ch32h417_def ch32_board_ch32v407_def

lemmas cpu_table =
  cpu_type_info_def qingke_base_def WCH_QINGKE_MARCHID_def WCH_QINGKE_MIMPID_def WCH_QINGKE_MVENDORID_def

section \<open>Consistency of the tables\<close>


text \<open>The identification registers: the documented values of the manual.\<close>

lemma marchid_table:
  "map_option marchid (cpu_type_info c) = (case c of
     V5F \<Rightarrow> Some 0xDC68D8A6 | V4F \<Rightarrow> Some 0xDC68D886 | V4J \<Rightarrow> Some 0xDC68D88A | V4C \<Rightarrow> Some 0xDC68D883
   | V4B \<Rightarrow> Some 0xDC68D882 | V4A \<Rightarrow> Some 0xDC68D881 | V3V \<Rightarrow> Some 0xDC68D876 | V3F \<Rightarrow> Some 0xDC68D866
   | V3C \<Rightarrow> Some 0xDC68D863 | V3B \<Rightarrow> Some 0xDC68D862 | V3A \<Rightarrow> Some 0xDC68D861 | V2C \<Rightarrow> Some 0xDC68D843
   | V2A \<Rightarrow> Some 0xDC68D841 | Base32 \<Rightarrow> None)"
  by (cases c) (simp_all add: cpu_table push_bit_eq_mult)

text \<open>The architecture identification distinguishes the processor models, and encodes series and version
  in its two five bit fields.\<close>

theorem marchid_injective:
  assumes "cpu_type_info c = Some a" "cpu_type_info d = Some b" "marchid a = marchid b"
  shows "c = d"
proof -
  have "map_option marchid (cpu_type_info c) = Some (marchid a)" "map_option marchid (cpu_type_info d) = Some (marchid a)"
    using assms by simp_all
  then show ?thesis by (cases c; cases d; simp add: marchid_table)
qed

lemma marchid_injective_witness:
  "marchid (the (cpu_type_info V3V)) \<noteq> marchid (the (cpu_type_info V4F))"
  using marchid_injective[of V3V "the (cpu_type_info V3V)" V4F "the (cpu_type_info V4F)"]
  by (auto simp: cpu_type_info_def)

text \<open>The signature tells the boards of the table apart from one another only where the tag has an entry:
  three boards of other series report the identification of a CH32V30x with revision 0x18.\<close>

theorem unknown_boards_report_v30x:
  "map (esig_chip_id \<circ> tag) [ch32_board_ch32v103, ch32_board_ch32h417, ch32_board_ch32v407] =
     replicate 3 0x30700518 \<and>
   distinct (map (esig_chip_id \<circ> tag) [ch32_board_ch32v317, ch32_board_ch32v307, ch32_board_ch32v305,
     ch32_board_ch32v303, ch32_board_ch32v203, ch32_board_ch32v203rb, ch32_board_ch32v003, ch32_board_ch32v103])"
  by (simp add: board_defs esig_chip_id_def numeral_3_eq_3)

end
