(* ===== verification/Ch32_Misc.thy ===== *)
theory Ch32_Misc
  imports Ch32_Prelude
begin

text \<open>
  The small register blocks: the random number generator (\<open>ch32-rng.c\<close>), power control
  (\<open>ch32-pwr.c\<close>), the polled ADC (\<open>ch32-adc.c\<close>) and the SDIO command path (\<open>ch32-sdio.c\<close>).
\<close>

section \<open>Random numbers\<close>

record rng_state =
  rng_ctlr :: u32
  rng_seq :: u32

definition CH32_RNG_SIZE :: nat where "CH32_RNG_SIZE = 0x10"

text \<open>\<open>clk\<close> is the virtual clock, \<open>rnd\<close> what GLib's \<open>g_random_int\<close> returns at this read.\<close>

definition ch32_rng_read :: "u64 \<Rightarrow> u32 \<Rightarrow> nat \<Rightarrow> rng_state \<Rightarrow> u32 \<times> rng_state" where
  "ch32_rng_read clk rnd addr s =
     (if addr \<ge> CH32_RNG_SIZE then (0, s)
      else if addr = 0 then (rng_ctlr s, s)
      else if addr = 4 then (if bit (rng_ctlr s) 2 then 1 else 0, s)
      else if addr = 8 then
        (let x = ucast (drop_bit 17 clk) XOR rnd XOR rng_seq s
         in (if x \<noteq> 0 then x else 0xA5A5A5A5, s\<lparr>rng_seq := rng_seq s + 1\<rparr>))
      else (0, s))"

definition ch32_rng_write :: "nat \<Rightarrow> u32 \<Rightarrow> rng_state \<Rightarrow> rng_state" where
  "ch32_rng_write addr v s =
     (if addr \<ge> CH32_RNG_SIZE then s else if addr = 0 then s\<lparr>rng_ctlr := v\<rparr> else s)"

text \<open>A number read from the generator is never zero, and two consecutive reads at the same clock with
  the same host randomness differ as long as neither fell on the replaced zero.\<close>

theorem rng_reads_differ:
  assumes "ch32_rng_read clk rnd 8 s = (x, s1)" "ch32_rng_read clk rnd 8 s1 = (y, s2)"
  shows "x \<noteq> 0 \<and> y \<noteq> 0 \<and> (x \<noteq> 0xA5A5A5A5 \<longrightarrow> y \<noteq> 0xA5A5A5A5 \<longrightarrow> x \<noteq> y)"
proof -
  have xc: "a XOR c = a XOR d \<longleftrightarrow> c = d" for a c d :: u32
    by (simp add: bit_eq_iff bit_xor_iff) blast
  have "ucast (drop_bit 17 clk) XOR rnd XOR rng_seq s \<noteq> ucast (drop_bit 17 clk) XOR rnd XOR (rng_seq s + 1)"
    by (simp add: xc)
  then show ?thesis using assms by (auto simp: ch32_rng_read_def CH32_RNG_SIZE_def Let_def split: if_splits)
qed

lemma rng_reads_differ_witness:
  "let (x, s1) = ch32_rng_read 0 5 8 \<lparr>rng_ctlr = 4, rng_seq = 0\<rparr> in x \<noteq> fst (ch32_rng_read 0 5 8 s1)"
  using rng_reads_differ[of 0 5 "\<lparr>rng_ctlr = 4, rng_seq = 0\<rparr>" 5 "\<lparr>rng_ctlr = 4, rng_seq = 1\<rparr>" 4
      "\<lparr>rng_ctlr = 4, rng_seq = 2\<rparr>"]
  by (simp add: ch32_rng_read_def CH32_RNG_SIZE_def)

section \<open>Power control\<close>

record pwr_state =
  pwr_ctlr :: u32
  pwr_csr :: u32

definition ch32_pwr_read :: "nat \<Rightarrow> nat \<Rightarrow> pwr_state \<Rightarrow> u32" where
  "ch32_pwr_read addr sz s =
     (let a = addr div 4 * 4; v = (if a = 0 then pwr_ctlr s else if a = 4 then pwr_csr s else 0)
      in if sz = 1 then drop_bit (addr mod 4 * 8) v AND 0xff
         else if sz = 2 then v AND 0xffff else v)"

definition ch32_pwr_write :: "nat \<Rightarrow> u32 \<Rightarrow> pwr_state \<Rightarrow> pwr_state" where
  "ch32_pwr_write addr v s =
     (let a = addr div 4 * 4 in
      if a = 0 then s\<lparr>pwr_ctlr := v\<rparr> else if a = 4 then s\<lparr>pwr_csr := v\<rparr> else s)"

section \<open>ADC\<close>

definition CH32_ADC_FLAG_EOC :: u32 where "CH32_ADC_FLAG_EOC = 0x02"

definition ch32_adc_evt_read :: "nat \<Rightarrow> u32" where
  "ch32_adc_evt_read addr = (if addr = 0 then CH32_ADC_FLAG_EOC else if addr = 0x4c then 0x123 else 0)"

section \<open>SDIO\<close>

record sdio_state =
  sdio_reg :: "u32 list"
  sdio_sta :: u32

definition CH32_SDIO_SIZE :: nat where "CH32_SDIO_SIZE = 0x400"

abbreviation "SDIO_REG_CMD \<equiv> (3 :: nat)"
abbreviation "SDIO_REG_RESPCMD \<equiv> (4 :: nat)"
abbreviation "SDIO_STA_CMDREND \<equiv> (6 :: nat)"
abbreviation "SDIO_STA_CMDSENT \<equiv> (7 :: nat)"
abbreviation "SDIO_CMD_CPSMEN \<equiv> (10 :: nat)"

definition ch32_sdio_read :: "nat \<Rightarrow> nat \<Rightarrow> sdio_state \<Rightarrow> u32" where
  "ch32_sdio_read addr sz s =
     (if addr \<ge> CH32_SDIO_SIZE then 0
      else
        let a = addr div 4 * 4; idx = addr div 4 in
        if a \<noteq> 0x34 \<and> a \<noteq> 0x14 \<and> idx \<ge> 20 then 0
        else
          let v = (if a = 0x34 then sdio_sta s else if a = 0x14 then 0x00FF8000 else sdio_reg s ! idx)
          in if sz = 1 then drop_bit (addr mod 4 * 8) v AND 0xff
             else if sz = 2 then v AND 0xffff else v)"

definition sdio_command :: "u32 \<Rightarrow> sdio_state \<Rightarrow> sdio_state" where
  "sdio_command v s =
     (let s1 = s\<lparr>sdio_reg := (sdio_reg s)[SDIO_REG_CMD := v AND NOT (one_bit SDIO_CMD_CPSMEN)]\<rparr> in
      if bit v SDIO_CMD_CPSMEN then
        (let cmd_idx = v AND 0x3f; s2 = s1\<lparr>sdio_sta := sdio_sta s1 OR one_bit SDIO_STA_CMDSENT\<rparr> in
         if cmd_idx \<noteq> 0
         then s2\<lparr>sdio_sta := sdio_sta s2 OR one_bit SDIO_STA_CMDREND,
                 sdio_reg := (sdio_reg s2)[SDIO_REG_RESPCMD := cmd_idx]\<rparr>
         else s2)
      else s1)"

definition ch32_sdio_write :: "nat \<Rightarrow> u32 \<Rightarrow> sdio_state \<Rightarrow> sdio_state" where
  "ch32_sdio_write addr v s =
     (if addr \<ge> CH32_SDIO_SIZE then s
      else
        let a = addr div 4 * 4; idx = addr div 4 in
        if a = 0x38 then s\<lparr>sdio_sta := sdio_sta s AND NOT v\<rparr>
        else if a = 0x0c then sdio_command v s
        else if idx < 20 then s\<lparr>sdio_reg := (sdio_reg s)[idx := v]\<rparr>
        else s)"

lemma sdio_command_flags:
  "bit (sdio_sta (sdio_command v s)) k \<longleftrightarrow>
     bit (sdio_sta s) k \<or> (bit v SDIO_CMD_CPSMEN \<and> (k = SDIO_STA_CMDSENT \<or> (k = SDIO_STA_CMDREND \<and> v AND 0x3f \<noteq> 0)))"
  by (auto simp: sdio_command_def Let_def bit_set_one_bit simp del: push_bit_of_1)

text \<open>The driver's poll loop ends: after a command is issued with the command path enabled the status
  register shows it sent, and shows the response exactly when the command has one (or an earlier
  response was not cleared); clearing the flags with ICR removes exactly the flags written.\<close>

theorem sdio_command_completes:
  assumes "bit v SDIO_CMD_CPSMEN"
  shows "let st = ch32_sdio_read 0x34 4 (ch32_sdio_write 0x0c v s);
      cl = ch32_sdio_read 0x34 4 (ch32_sdio_write 0x38 w (ch32_sdio_write 0x0c v s)) in
    bit st SDIO_STA_CMDSENT \<and>
    (bit st SDIO_STA_CMDREND \<longleftrightarrow> v AND 0x3f \<noteq> 0 \<or> bit (sdio_sta s) SDIO_STA_CMDREND) \<and>
    cl = st AND NOT w"
  using assms
  by (auto simp: Let_def ch32_sdio_read_def ch32_sdio_write_def CH32_SDIO_SIZE_def sdio_command_flags)

lemma sdio_command_completes_witness:
  "bit (ch32_sdio_read 0x34 4 (ch32_sdio_write 0x0c 0x440 \<lparr>sdio_reg = replicate 20 0, sdio_sta = 0\<rparr>)) SDIO_STA_CMDSENT"
  using sdio_command_completes[of "0x440" "\<lparr>sdio_reg = replicate 20 0, sdio_sta = 0\<rparr>" 0]
  by (simp add: Let_def bit_numeral_rec)

end
