(* ===== verification/Ch32_Xw.thy ===== *)
theory Ch32_Xw
  imports Ch32_Prelude
begin

text \<open>
  The WCH instruction extensions of the translator (\<open>trans_rvwch.c.inc\<close>, \<open>translate.c\<close>): the decoders
  of the XW compressed byte and halfword accesses, which look at the standard compressed and full
  instruction words first, and the block copy \<open>mcpy\<close>. A decoded instruction is the load or store the
  translator emits, with the register numbers and the offset.
\<close>

datatype mem_width = MO_UB | MO_UW

datatype xw_insn =
    Xw_load (xw_rd: u32) (xw_base: u32) (xw_imm: u32) mem_width
  | Xw_store (xw_rs2: u32) (xw_base: u32) (xw_imm: u32) mem_width

record xw_cfg =
  cfg_xw :: bool
  cfg_xwchmcpy :: bool
  cfg_zca :: bool
  cfg_zcmp :: bool
  cfg_zcmt :: bool
  has_rvc :: bool
  has_rvd :: bool

text \<open>\<open>extract32\<close> of the bit field \<open>len\<close> wide at \<open>start\<close>, of a sixteen bit instruction.\<close>

definition extract32 :: "u16 \<Rightarrow> nat \<Rightarrow> nat \<Rightarrow> u32" where
  "extract32 insn start len = ucast (take_bit len (drop_bit start insn))"

section \<open>Compressed accesses\<close>

definition xw_uimm5 :: "u16 \<Rightarrow> u32" where
  "xw_uimm5 insn = extract32 insn 12 1 OR push_bit 1 (extract32 insn 5 2) OR push_bit 3 (extract32 insn 10 2)"

definition xw_creg1 :: "u16 \<Rightarrow> u32" where "xw_creg1 insn = 8 + extract32 insn 7 3"
definition xw_creg2 :: "u16 \<Rightarrow> u32" where "xw_creg2 insn = 8 + extract32 insn 2 3"

definition xw_sp_half :: "u16 \<Rightarrow> u32" where
  "xw_sp_half insn = push_bit 1 (extract32 insn 8 3) OR push_bit 4 (extract32 insn 7 1)"

definition xw_stack :: "u16 \<Rightarrow> xw_insn option" where
  "xw_stack insn =
     (if take_bit 5 (drop_bit 11 insn) \<noteq> 0x10 \<or> insn AND 0x1800 \<noteq> 0 then None
      else
        let sel = take_bit 2 (drop_bit 5 insn) in
        if sel = 0 then Some (Xw_load (xw_creg2 insn) 2 (extract32 insn 7 4) MO_UB)
        else if sel = 1 then Some (Xw_load (xw_creg2 insn) 2 (xw_sp_half insn) MO_UW)
        else if sel = 2 then Some (Xw_store (xw_creg2 insn) 2 (extract32 insn 7 4) MO_UB)
        else Some (Xw_store (xw_creg2 insn) 2 (xw_sp_half insn) MO_UW))"

definition decode_wch_xw16 :: "xw_cfg \<Rightarrow> u16 \<Rightarrow> xw_insn option" where
  "decode_wch_xw16 ctx insn =
     (if \<not> cfg_xw ctx \<or> \<not> has_rvc ctx then None
      else if insn AND 3 \<noteq> 0 then None
      else
        let op = insn AND 0xe003 in
        if op = 0x2000 then Some (Xw_load (xw_creg2 insn) (xw_creg1 insn) (xw_uimm5 insn) MO_UB)
        else if op = 0xa000 then Some (Xw_store (xw_creg2 insn) (xw_creg1 insn) (xw_uimm5 insn) MO_UB)
        else if op = 0x8000 then xw_stack insn
        else None)"

definition xw_half_imm :: "u16 \<Rightarrow> u32" where
  "xw_half_imm insn = push_bit 3 (extract32 insn 10 3) OR push_bit 1 (extract32 insn 5 2)"

definition decode_wch_xw16_quad2 :: "xw_cfg \<Rightarrow> u16 \<Rightarrow> xw_insn option" where
  "decode_wch_xw16_quad2 ctx insn =
     (if \<not> cfg_xw ctx \<or> \<not> has_rvc ctx then None
      else if insn AND 3 \<noteq> 2 then None
      else if has_rvd ctx then None
      else
        let op = take_bit 3 (drop_bit 13 insn) in
        if op = 1 then Some (Xw_load (xw_creg2 insn) (xw_creg1 insn) (xw_half_imm insn) MO_UW)
        else if op = 5 then
          (let t = take_bit 3 (drop_bit 10 insn) in
           if (cfg_zcmp ctx \<or> cfg_zcmt ctx) \<and> t \<in> {0, 3, 6, 7} then None
           else Some (Xw_store (xw_creg2 insn) (xw_creg1 insn) (xw_half_imm insn) MO_UW))
        else None)"

text \<open>The dispatch of a compressed word: the XW decoders first, then the standard decoder \<open>insn16\<close>, which
  is generated code. \<open>None\<close> is the illegal instruction exception.\<close>

definition decode_opc16 :: "xw_cfg \<Rightarrow> (u16 \<Rightarrow> 'a option) \<Rightarrow> u16 \<Rightarrow> (xw_insn + 'a) option" where
  "decode_opc16 ctx insn16 opcode =
     (if has_rvc ctx \<or> cfg_zca ctx then
        (case (if cfg_xw ctx
               then (case decode_wch_xw16 ctx opcode of
                       Some x \<Rightarrow> Some x
                     | None \<Rightarrow> decode_wch_xw16_quad2 ctx opcode)
               else None) of
           Some x \<Rightarrow> Some (Inl x)
         | None \<Rightarrow> map_option Inr (insn16 opcode))
      else None)"

section \<open>Block copy\<close>

text \<open>The fields \<open>(rs1, rs2, rs3)\<close> of an \<open>mcpy\<close> word: source end, source start, destination start.\<close>

definition mcpy_fields :: "xw_cfg \<Rightarrow> u32 \<Rightarrow> (nat \<times> nat \<times> nat) option" where
  "mcpy_fields ctx insn =
     (if \<not> cfg_xwchmcpy ctx then None
      else if insn AND 0x7f \<noteq> 0x0f \<or> take_bit 3 (drop_bit 12 insn) \<noteq> 7 \<or>
              take_bit 5 (drop_bit 7 insn) \<noteq> 0 \<or> take_bit 2 (drop_bit 25 insn) \<noteq> 0 then None
      else Some (unat (take_bit 5 (drop_bit 15 insn)), unat (take_bit 5 (drop_bit 20 insn)),
                 unat (take_bit 5 (drop_bit 27 insn))))"

lemma unat_plus_one: "src < send \<Longrightarrow> unat (src + 1) = unat src + 1" for src send :: u32
proof -
  assume "src < send"
  then have "unat src + 1 < 2 ^ 32" using unsigned_less[of send, where 'a = nat] by (simp add: word_less_nat_alt)
  then show ?thesis by (simp add: unat_word_ariths)
qed

text \<open>The emitted loop over a memory that does not fault: source end, source, destination, memory.\<close>

function mcpy_loop :: "u32 \<Rightarrow> u32 \<Rightarrow> u32 \<Rightarrow> (u32 \<Rightarrow> u8) \<Rightarrow> u32 \<times> u32 \<times> (u32 \<Rightarrow> u8)" where
  "mcpy_loop send src dst mem =
     (if src \<ge> send then (src, dst, mem)
      else mcpy_loop send (src + 1) (dst + 1) (mem(dst := mem src)))"
  by pat_completeness auto

termination
  by (relation "measure (\<lambda>(send, src, dst, mem). unat send - unat src)")
    (auto simp: unat_plus_one word_less_nat_alt not_le)

declare mcpy_loop.simps [simp del]

text \<open>Registers: x0 reads zero and is never written. The translator writes the source register, then the
  destination register.\<close>

definition set_gpr :: "nat \<Rightarrow> u32 \<Rightarrow> (nat \<Rightarrow> u32) \<Rightarrow> nat \<Rightarrow> u32" where
  "set_gpr r v gpr = (if r = 0 then gpr else gpr(r := v))"

definition get_gpr :: "(nat \<Rightarrow> u32) \<Rightarrow> nat \<Rightarrow> u32" where
  "get_gpr gpr r = (if r = 0 then 0 else gpr r)"

definition decode_wch_mcpy32 ::
  "xw_cfg \<Rightarrow> u32 \<Rightarrow> (nat \<Rightarrow> u32) \<Rightarrow> (u32 \<Rightarrow> u8) \<Rightarrow> ((nat \<Rightarrow> u32) \<times> (u32 \<Rightarrow> u8)) option" where
  "decode_wch_mcpy32 ctx insn gpr mem =
     (case mcpy_fields ctx insn of
        None \<Rightarrow> None
      | Some (rs1, rs2, rs3) \<Rightarrow>
          let (src, dst, mem') = mcpy_loop (get_gpr gpr rs1) (get_gpr gpr rs2) (get_gpr gpr rs3) mem
          in Some (set_gpr rs3 dst (set_gpr rs2 src gpr), mem'))"

section \<open>Encoding and decoding\<close>

text \<open>The assembler's encodings of a byte access with offset \<open>imm\<close> between compressed registers.\<close>

definition xw_encode_byte :: "u16 \<Rightarrow> u32 \<Rightarrow> u32 \<Rightarrow> u32 \<Rightarrow> u16" where
  "xw_encode_byte opc rd rs1 imm =
     opc OR push_bit 12 (take_bit 1 (ucast imm)) OR push_bit 5 (take_bit 2 (drop_bit 1 (ucast imm))) OR
     push_bit 10 (take_bit 2 (drop_bit 3 (ucast imm))) OR push_bit 7 (take_bit 3 (ucast (rs1 - 8))) OR
     push_bit 2 (take_bit 3 (ucast (rd - 8)))"

lemma bit_extract:
  "bit (push_bit d (extract32 i s l)) n \<longleftrightarrow> d \<le> n \<and> n < d + l \<and> n < 32 \<and> bit i (s + (n - d))"
  unfolding extract32_def
  by (simp only: bit_push_bit_iff bit_unsigned_iff bit_take_bit_iff bit_drop_bit_eq o_def possible_bit_word
      len_of_numeral_defs) (auto simp: less_diff_conv2 dest: bit_imp_le_length)

lemma bit_extract0: "bit (extract32 i s l) n \<longleftrightarrow> n < l \<and> n < 32 \<and> bit i (s + n)"
  using bit_extract[of 0 i s l n] by simp

lemma bit_insert:
  "bit (push_bit d (take_bit l (drop_bit u (ucast x :: u16)))) n \<longleftrightarrow>
     d \<le> n \<and> n < d + l \<and> n < 16 \<and> u + (n - d) < 16 \<and> bit x (u + (n - d))" for x :: u32
  by (simp only: bit_push_bit_iff bit_unsigned_iff bit_take_bit_iff bit_drop_bit_eq o_def possible_bit_word
      len_of_numeral_defs) (auto simp: less_diff_conv2)

lemma bit_insert0:
  "bit (push_bit d (take_bit l (ucast x :: u16))) n \<longleftrightarrow>
     d \<le> n \<and> n < d + l \<and> n < 16 \<and> bit x (n - d)" for x :: u32
  using bit_insert[of d l 0 x n] by auto

lemma small_no_high_bits:
  fixes x :: u32
  assumes "unat x < 2 ^ k" "k \<le> n"
  shows "\<not> bit x n"
proof -
  have "take_bit k (unat x) = unat x" using assms(1) by (rule take_bit_nat_eq_self)
  then have "\<not> bit (unat x) n" using assms(2) by (metis bit_take_bit_iff not_le)
  then show ?thesis using bit_imp_le_length[of x n] by (auto simp: bit_unsigned_iff)
qed

lemma bit_xw_encode:
  assumes "12 < k \<or> \<not> bit opc k"
  shows "bit (xw_encode_byte opc rd rs1 imm) k \<longleftrightarrow> (12 < k \<and> bit opc k) \<or>
     (k = 12 \<and> bit imm 0) \<or> (k = 5 \<and> bit imm 1) \<or> (k = 6 \<and> bit imm 2) \<or> (k = 10 \<and> bit imm 3) \<or>
     (k = 11 \<and> bit imm 4) \<or> (7 \<le> k \<and> k < 10 \<and> bit (rs1 - 8) (k - 7)) \<or>
     (2 \<le> k \<and> k < 5 \<and> bit (rd - 8) (k - 2))"
proof -
  have f1: "bit (push_bit 12 (take_bit 1 (ucast imm :: u16))) k \<longleftrightarrow> 12 \<le> k \<and> k < 13 \<and> bit imm (k - 12)"
    unfolding bit_insert0 by auto
  have f2: "bit (push_bit 5 (take_bit 2 (drop_bit 1 (ucast imm :: u16)))) k \<longleftrightarrow> 5 \<le> k \<and> k < 7 \<and> bit imm (1 + (k - 5))"
    unfolding bit_insert by auto
  have f3: "bit (push_bit 10 (take_bit 2 (drop_bit 3 (ucast imm :: u16)))) k \<longleftrightarrow> 10 \<le> k \<and> k < 12 \<and> bit imm (3 + (k - 10))"
    unfolding bit_insert by auto
  have f4: "bit (push_bit 7 (take_bit 3 (ucast (rs1 - 8) :: u16))) k \<longleftrightarrow> 7 \<le> k \<and> k < 10 \<and> bit (rs1 - 8) (k - 7)"
    unfolding bit_insert0 by auto
  have f5: "bit (push_bit 2 (take_bit 3 (ucast (rd - 8) :: u16))) k \<longleftrightarrow> 2 \<le> k \<and> k < 5 \<and> bit (rd - 8) (k - 2)"
    unfolding bit_insert0 by auto
  have eq: "bit (xw_encode_byte opc rd rs1 imm) k \<longleftrightarrow> (12 < k \<and> bit opc k) \<or>
      (12 \<le> k \<and> k < 13 \<and> bit imm (k - 12)) \<or> (5 \<le> k \<and> k < 7 \<and> bit imm (1 + (k - 5))) \<or>
      (10 \<le> k \<and> k < 12 \<and> bit imm (3 + (k - 10))) \<or> (7 \<le> k \<and> k < 10 \<and> bit (rs1 - 8) (k - 7)) \<or>
      (2 \<le> k \<and> k < 5 \<and> bit (rd - 8) (k - 2))"
    unfolding xw_encode_byte_def bit_or_iff f1 f2 f3 f4 f5 using assms by blast
  consider "k < 5" | "k = 5" | "k = 6" | "7 \<le> k \<and> k < 10" | "k = 10" | "k = 11" | "k = 12" | "12 < k" by linarith
  then show ?thesis unfolding eq by cases (simp_all add: numeral_2_eq_2)
qed

lemma xw_uimm5_bits:
  "bit (xw_uimm5 insn) n \<longleftrightarrow> (n = 0 \<and> bit insn 12) \<or> (n = 1 \<and> bit insn 5) \<or> (n = 2 \<and> bit insn 6) \<or>
     (n = 3 \<and> bit insn 10) \<or> (n = 4 \<and> bit insn 11)"
proof -
  have eq: "bit (xw_uimm5 insn) n \<longleftrightarrow> (n < 1 \<and> n < 32 \<and> bit insn (12 + n)) \<or>
      (1 \<le> n \<and> n < 1 + 2 \<and> n < 32 \<and> bit insn (5 + (n - 1))) \<or> (3 \<le> n \<and> n < 3 + 2 \<and> n < 32 \<and> bit insn (10 + (n - 3)))"
    unfolding xw_uimm5_def bit_or_iff bit_extract bit_extract0 by blast
  consider "n = 0" | "n = 1" | "n = 2" | "n = 3" | "n = 4" | "4 < n" by linarith
  then show ?thesis unfolding eq by cases simp_all
qed

text \<open>The operation codes of \<open>c.lbu\<close> and \<open>c.sb\<close> in the XW slots.\<close>

definition xw_byte_opc :: "u16 \<Rightarrow> bool" where
  "xw_byte_opc opc \<longleftrightarrow> opc = 0x2000 \<or> opc = 0xa000"

lemma xw_opc_low: "xw_byte_opc opc \<Longrightarrow> k \<le> 12 \<Longrightarrow> \<not> bit opc k"
proof -
  assume opc: "xw_byte_opc opc" and k: "k \<le> 12"
  have z: "take_bit 13 opc = 0" using opc by (auto simp: xw_byte_opc_def)
  have "\<not> bit (take_bit 13 opc) k" unfolding z by simp
  then show "\<not> bit opc k" using k by (simp only: bit_take_bit_iff) simp
qed

lemma xw_encode_uimm5:
  assumes "xw_byte_opc opc" "unat imm < 32"
  shows "xw_uimm5 (xw_encode_byte opc rd rs1 imm) = imm"
proof (rule bit_word_eqI)
  fix n
  have op: "12 < k \<or> \<not> bit opc k" for k using xw_opc_low[OF assms(1)] by (meson not_le)
  have "bit (xw_uimm5 (xw_encode_byte opc rd rs1 imm)) n \<longleftrightarrow> n < 5 \<and> bit imm n"
    unfolding xw_uimm5_bits bit_xw_encode[OF op] by (auto simp: less_Suc_eq numeral_eq_Suc)
  then show "bit (xw_uimm5 (xw_encode_byte opc rd rs1 imm)) n = bit imm n"
    using small_no_high_bits[of imm 5 n] assms(2) by auto
qed

lemma xw_encode_regs:
  assumes "xw_byte_opc opc" "8 \<le> rd" "unat rd < 16" "8 \<le> rs1" "unat rs1 < 16"
  shows "xw_creg1 (xw_encode_byte opc rd rs1 imm) = rs1" "xw_creg2 (xw_encode_byte opc rd rs1 imm) = rd"
proof -
  have op: "12 < k \<or> \<not> bit opc k" for k using xw_opc_low[OF assms(1)] by (meson not_le)
  have low: "\<not> bit (r - 8) n" if "8 \<le> r" "unat r < 16" "3 \<le> n" for r :: u32 and n
    using that by (intro small_no_high_bits[of _ 3]) (auto simp: unat_sub)
  have "extract32 (xw_encode_byte opc rd rs1 imm) 7 3 = rs1 - 8"
  proof (rule bit_word_eqI)
    fix n
    show "bit (extract32 (xw_encode_byte opc rd rs1 imm) 7 3) n = bit (rs1 - 8) n"
      unfolding bit_extract0 bit_xw_encode[OF op] using low[OF assms(4,5), of n] by (cases "n < 3") auto
  qed
  then show "xw_creg1 (xw_encode_byte opc rd rs1 imm) = rs1" by (simp add: xw_creg1_def)
  have "extract32 (xw_encode_byte opc rd rs1 imm) 2 3 = rd - 8"
  proof (rule bit_word_eqI)
    fix n
    show "bit (extract32 (xw_encode_byte opc rd rs1 imm) 2 3) n = bit (rd - 8) n"
      unfolding bit_extract0 bit_xw_encode[OF op] using low[OF assms(2,3), of n] by (cases "n < 3") auto
  qed
  then show "xw_creg2 (xw_encode_byte opc rd rs1 imm) = rd" by (simp add: xw_creg2_def)
qed

lemma xw_encode_op:
  assumes "xw_byte_opc opc"
  shows "xw_encode_byte opc rd rs1 imm AND 3 = 0" "xw_encode_byte opc rd rs1 imm AND 0xe003 = opc"
proof -
  let ?e = "xw_encode_byte opc rd rs1 imm"
  have op: "12 < k \<or> \<not> bit opc k" for k using xw_opc_low[OF assms] by (meson not_le)
  have hi: "bit ?e k = bit opc k" if "12 < k" for k
    using that unfolding bit_xw_encode[OF op] by simp
  have lo: "\<not> bit ?e k" if "k < 2" for k
    using that unfolding bit_xw_encode[OF op] by auto
  have "?e AND 3 = take_bit 2 ?e" by (simp add: take_bit_eq_mask mask_eq_exp_minus_1)
  also have "\<dots> = 0" using lo by (intro bit_word_eqI) (auto simp: bit_take_bit_iff)
  finally show "?e AND 3 = 0" .
  have "?e AND 0xe003 = ?e AND (push_bit 13 7 OR 3)" by (simp add: push_bit_eq_mult)
  also have "\<dots> = (?e AND push_bit 13 7) OR (?e AND 3)" by (simp only: bit.conj_disj_distrib)
  also have "\<dots> = opc AND push_bit 13 7"
    unfolding \<open>?e AND 3 = 0\<close> or.right_neutral
    by (rule bit_word_eqI) (simp only: bit_and_iff bit_push_bit_iff, auto simp: hi)
  also have "\<dots> = opc" using assms by (auto simp: xw_byte_opc_def)
  finally show "?e AND 0xe003 = opc" .
qed

text \<open>The XW decoder inverts the assembler's encoding of the byte accesses: for every pair of compressed
  registers and every five bit offset the slot of \<open>c.fld\<close> decodes to the byte load and that of
  \<open>c.fsd\<close> to the byte store, whether or not the core has the double precision extension.\<close>

theorem xw_decodes_encoding:
  assumes "cfg_xw ctx" "has_rvc ctx" "8 \<le> rd" "unat rd < 16" "8 \<le> rs1" "unat rs1 < 16" "unat imm < 32"
  shows "decode_wch_xw16 ctx (xw_encode_byte 0x2000 rd rs1 imm) = Some (Xw_load rd rs1 imm MO_UB) \<and>
    decode_wch_xw16 ctx (xw_encode_byte 0xa000 rd rs1 imm) = Some (Xw_store rd rs1 imm MO_UB)"
proof -
  have op: "xw_byte_opc 0x2000" "xw_byte_opc 0xa000" by (simp_all add: xw_byte_opc_def)
  show ?thesis
    using assms by (simp add: decode_wch_xw16_def Let_def xw_encode_op op xw_encode_uimm5 xw_encode_regs)
qed

definition xw_core :: xw_cfg where
  "xw_core = \<lparr>cfg_xw = True, cfg_xwchmcpy = True, cfg_zca = True, cfg_zcmp = False, cfg_zcmt = False,
     has_rvc = True, has_rvd = False\<rparr>"

lemma xw_decodes_encoding_witness:
  "decode_wch_xw16 xw_core (xw_encode_byte 0x2000 9 15 31) = Some (Xw_load 9 15 31 MO_UB)"
  using xw_decodes_encoding[of xw_core 9 15 31] by (simp add: xw_core_def)

section \<open>Operands\<close>

lemma extract_bound: "unat (extract32 i s l) < 2 ^ l" if "l \<le> 16"
proof -
  have "unat (take_bit l (drop_bit s i)) < 2 ^ l"
    by (simp only: unsigned_take_bit_eq) (simp add: take_bit_eq_mod)
  then show ?thesis
    using that unsigned_less[of "take_bit l (drop_bit s i)", where 'a = nat]
    by (simp only: extract32_def unsigned_ucast_eq) (simp add: take_bit_nat_eq_self)
qed

text \<open>A register of the upper half of the compressed bank, a base register, an offset the width can reach.\<close>

definition xw_operands_ok :: "u32 \<Rightarrow> u32 \<Rightarrow> u32 \<Rightarrow> mem_width \<Rightarrow> bool" where
  "xw_operands_ok r b i w \<longleftrightarrow>
     8 \<le> r \<and> r < 16 \<and> (b = 2 \<or> (8 \<le> b \<and> b < 16)) \<and>
     (case w of MO_UB \<Rightarrow> unat i < 32 | MO_UW \<Rightarrow> unat i < 64 \<and> even i)"

lemma creg_bound: "8 \<le> 8 + extract32 i s 3 \<and> 8 + extract32 i s 3 < 16"
proof -
  have "unat (extract32 i s 3) < 8" using extract_bound[of 3 i s] by simp
  then show ?thesis by (simp add: word_le_nat_alt word_less_nat_alt unat_word_ariths)
qed

lemma imm_bound:
  fixes w :: u32
  assumes "\<And>n. k \<le> n \<Longrightarrow> \<not> bit w n" "k \<le> 32"
  shows "unat w < 2 ^ k"
proof -
  have "w = take_bit k w"
    by (rule bit_word_eqI) (use assms(1) not_le in \<open>auto simp: bit_take_bit_iff\<close>)
  then have "unat w = take_bit k (unat w)" using unsigned_take_bit_eq[of k w] by metis
  then show ?thesis by (metis take_bit_nat_less_exp)
qed

lemma xw_imm_bounds:
  "unat (xw_uimm5 insn) < 32" "unat (extract32 insn 7 4) < 32"
  "unat (xw_sp_half insn) < 64" "even (xw_sp_half insn)"
  "unat (xw_half_imm insn) < 64" "even (xw_half_imm insn)"
proof -
  show "unat (xw_uimm5 insn) < 32"
    using imm_bound[of 5 "xw_uimm5 insn"] by (simp add: xw_uimm5_bits)
  show "unat (extract32 insn 7 4) < 32" using extract_bound[of 4 insn 7] by simp
  have "\<not> bit (xw_sp_half insn) n" if "6 \<le> n" for n
    using that unfolding xw_sp_half_def bit_or_iff bit_extract by simp
  then show "unat (xw_sp_half insn) < 64" using imm_bound[of 6 "xw_sp_half insn"] by simp
  have "\<not> bit (xw_half_imm insn) n" if "6 \<le> n" for n
    using that unfolding xw_half_imm_def bit_or_iff bit_extract by simp
  then show "unat (xw_half_imm insn) < 64" using imm_bound[of 6 "xw_half_imm insn"] by simp
  have "\<not> bit (xw_sp_half insn) 0" unfolding xw_sp_half_def bit_or_iff bit_extract by simp
  then show "even (xw_sp_half insn)" by (simp add: bit_0)
  have "\<not> bit (xw_half_imm insn) 0" unfolding xw_half_imm_def bit_or_iff bit_extract by simp
  then show "even (xw_half_imm insn)" by (simp add: bit_0)
qed



section \<open>The block copy copies\<close>

lemma mcpy_regs:
  "src \<le> send \<Longrightarrow> fst (mcpy_loop send src dst mem) = send \<and>
     fst (snd (mcpy_loop send src dst mem)) = dst + (send - src)"
proof (induction send src dst mem rule: mcpy_loop.induct)
  case (1 send src dst mem)
  show ?case
  proof (cases "src \<ge> send")
    case False
    then have "src + 1 \<le> send" using unat_plus_one[of src send] by (simp add: word_le_nat_alt not_le word_less_nat_alt)
    then show ?thesis using 1 False by (simp add: mcpy_loop.simps[of send src] fun_upd_def algebra_simps)
  qed (use 1 in \<open>auto simp: mcpy_loop.simps\<close>)
qed

lemma mcpy_frame:
  "(\<And>k. k < unat send - unat src \<Longrightarrow> a \<noteq> dst + of_nat k) \<Longrightarrow> snd (snd (mcpy_loop send src dst mem)) a = mem a"
proof (induction send src dst mem rule: mcpy_loop.induct)
  case (1 send src dst mem)
  show ?case
  proof (cases "src \<ge> send")
    case False
    then have n: "unat send - unat src = Suc (unat send - unat (src + 1))"
      using unat_plus_one[of src send] by (simp add: word_less_nat_alt not_le)
    have "a \<noteq> dst" using 1(2)[of 0] n by simp
    moreover have "a \<noteq> dst + 1 + of_nat k" if "k < unat send - unat (src + 1)" for k
      using 1(2)[of "Suc k"] that n by (simp add: ac_simps)
    ultimately show ?thesis using 1(1)[OF False] False by (simp add: mcpy_loop.simps[of send src] fun_upd_def)
  qed (simp add: mcpy_loop.simps[of send src])
qed

lemma mcpy_copies:
  "(\<And>j k. j < k \<Longrightarrow> k < unat send - unat src \<Longrightarrow> dst + of_nat j \<noteq> src + of_nat k) \<Longrightarrow>
   k < unat send - unat src \<Longrightarrow>
   snd (snd (mcpy_loop send src dst mem)) (dst + of_nat k) = mem (src + of_nat k)"
proof (induction send src dst mem arbitrary: k rule: mcpy_loop.induct)
  case (1 send src dst mem)
  have False: "\<not> send \<le> src" using 1(3) by (simp add: word_le_nat_alt)
  then have n: "unat send - unat src = Suc (unat send - unat (src + 1))"
    using unat_plus_one[of src send] by (simp add: word_less_nat_alt not_le)
  have step: "mcpy_loop send src dst mem = mcpy_loop send (src + 1) (dst + 1) (mem(dst := mem src))"
    using False by (simp add: mcpy_loop.simps[of send src])
  show ?case
  proof (cases k)
    case 0
    have "dst \<noteq> dst + 1 + of_nat j" if "j < unat send - unat (src + 1)" for j
    proof
      assume "dst = dst + 1 + of_nat j"
      then have "(of_nat (Suc j) :: u32) = 0" by (simp add: add.assoc)
      moreover have "Suc j < 2 ^ 32" using that n unsigned_less[of send, where 'a = nat] by simp
      ultimately show False using unat_of_nat_small[of "Suc j", where 'a = 32] by simp
    qed
    then show ?thesis
      using mcpy_frame[of send "src + 1" dst "dst + 1" "mem(dst := mem src)"] 0 step by simp
  next
    case (Suc i)
    have IH: "snd (snd (mcpy_loop send (src + 1) (dst + 1) (mem(dst := mem src)))) (dst + 1 + of_nat i) =
        (mem(dst := mem src)) (src + 1 + of_nat i)"
    proof (rule 1(1)[OF False])
      show "i < unat send - unat (src + 1)" using 1(3) Suc n by simp
      show "dst + 1 + of_nat j \<noteq> src + 1 + of_nat l" if "j < l" "l < unat send - unat (src + 1)" for j l
        using 1(2)[of "Suc j" "Suc l"] that n by (simp add: ac_simps)
    qed
    have "dst \<noteq> src + of_nat k" using 1(2)[of 0 k] 1(3) Suc by simp
    then show ?thesis using IH step Suc by (simp add: ac_simps)
  qed
qed

text \<open>C35. The block copy instruction is a memory copy: with source and destination in distinct registers
  other than x0 it copies the bytes from the source start up to the source end to the destination,
  leaves every other byte of memory alone, and leaves the two registers at the ends, provided no byte
  it stores lies in the part of the source it has still to read.\<close>

theorem mcpy_is_memcpy:
  assumes "mcpy_fields ctx insn = Some (rs1, rs2, rs3)" "rs2 \<noteq> 0" "rs3 \<noteq> 0" "rs2 \<noteq> rs3"
    "get_gpr gpr rs2 \<le> get_gpr gpr rs1" "n = unat (get_gpr gpr rs1) - unat (get_gpr gpr rs2)"
    "\<And>j k. j < k \<Longrightarrow> k < n \<Longrightarrow> get_gpr gpr rs3 + of_nat j \<noteq> get_gpr gpr rs2 + of_nat k"
  shows "\<exists>gpr' mem'. decode_wch_mcpy32 ctx insn gpr mem = Some (gpr', mem') \<and>
    (\<forall>k < n. mem' (get_gpr gpr rs3 + of_nat k) = mem (get_gpr gpr rs2 + of_nat k)) \<and>
    (\<forall>a. (\<forall>k < n. a \<noteq> get_gpr gpr rs3 + of_nat k) \<longrightarrow> mem' a = mem a) \<and>
    gpr' rs2 = get_gpr gpr rs1 \<and> gpr' rs3 = get_gpr gpr rs3 + (get_gpr gpr rs1 - get_gpr gpr rs2)"
proof -
  let ?r = "mcpy_loop (get_gpr gpr rs1) (get_gpr gpr rs2) (get_gpr gpr rs3) mem"
  have dec: "decode_wch_mcpy32 ctx insn gpr mem =
      Some (set_gpr rs3 (fst (snd ?r)) (set_gpr rs2 (fst ?r) gpr), snd (snd ?r))"
    by (simp add: decode_wch_mcpy32_def assms(1) split_beta)
  have "snd (snd ?r) (get_gpr gpr rs3 + of_nat k) = mem (get_gpr gpr rs2 + of_nat k)" if "k < n" for k
    using mcpy_copies[of "get_gpr gpr rs1" "get_gpr gpr rs2" "get_gpr gpr rs3" k mem] assms(6,7) that by blast
  moreover have "snd (snd ?r) a = mem a" if "\<forall>k < n. a \<noteq> get_gpr gpr rs3 + of_nat k" for a
    using mcpy_frame[of "get_gpr gpr rs1" "get_gpr gpr rs2" a "get_gpr gpr rs3" mem] assms(6) that by blast
  ultimately show ?thesis
    using mcpy_regs[OF assms(5), of "get_gpr gpr rs3" mem] assms(2-4) by (simp add: dec set_gpr_def)
qed

lemma mcpy_is_memcpy_witness:
  "\<exists>gpr' mem'. decode_wch_mcpy32 xw_core 0x30A5F00F ((\<lambda>_. 0)(11 := 103, 10 := 100, 6 := 200)) (\<lambda>a. ucast a)
      = Some (gpr', mem') \<and> mem' 202 = 102 \<and> gpr' 6 = 203"
proof -
  let ?g = "(\<lambda>_. 0 :: u32)(11 := 103, 10 := 100, 6 := 200)"
  have f: "mcpy_fields xw_core 0x30A5F00F = Some (11, 10, 6)"
    by (simp add: mcpy_fields_def xw_core_def)
  have "200 + of_nat j \<noteq> (100 + of_nat k :: u32)" if "j < k" "k < 3" for j k :: nat
  proof -
    have "k = 1 \<or> k = 2" "j = 0 \<or> j = 1" using that by auto
    then show ?thesis by auto
  qed
  then obtain gpr' mem' where r: "decode_wch_mcpy32 xw_core 0x30A5F00F ?g (\<lambda>a. ucast a) = Some (gpr', mem')"
    and m: "\<And>k. k < 3 \<Longrightarrow> mem' (200 + of_nat k) = ucast (100 + of_nat k :: u32)" and g: "gpr' 6 = 203"
    using mcpy_is_memcpy[OF f, of ?g 3 "\<lambda>a. ucast a"] by (auto simp: get_gpr_def)
  from m[of 2] have "mem' 202 = 102" by simp
  then show ?thesis using r g by blast
qed

end
