(* ===== verification/Ch32_EthMac.thy ===== *)
theory Ch32_EthMac
  imports Ch32_Eth
begin

text \<open>
  The Ethernet MAC of the CH32V30x and CH32V31x (\<open>ch32-eth-dwmac.c\<close>) behind its interrupt side: the
  three PHY models and the MDIO access, the descriptor rings of the DMA engine with checksum
  offload, the receive stash, the bottom half, the poll timer and the register handlers. The DMA
  descriptors and buffers are read and written through the address space; what the network core does
  when the device asks it to redeliver queued packets, and the checksum library, are parameters.
\<close>

abbreviation "ETH_MACMIIAR \<equiv> (4::nat)"
abbreviation "ETH_MACMIIDR \<equiv> (5::nat)"
abbreviation "ETH_DMARDLAR \<equiv> (0x403::nat)"
abbreviation "ETH_DMATDLAR \<equiv> (0x404::nat)"
abbreviation "ETH_DMAOMR \<equiv> (0x406::nat)"
abbreviation "DMAOMR_SR \<equiv> (1::nat)"
abbreviation "DMAOMR_ST \<equiv> (13::nat)"
abbreviation "DMA_OWN \<equiv> (31::nat)"

definition CH32_ETH_RAM_BASE :: u64 where "CH32_ETH_RAM_BASE = 0x20000000"
definition CH32_ETH_DMASR_TBUS :: u32 where "CH32_ETH_DMASR_TBUS = 0x20"
definition CH32_ETH_DMASR_RBUS :: u32 where "CH32_ETH_DMASR_RBUS = 0x80"
definition CH32_ETH_DMASR_W1C_MASK :: u32 where "CH32_ETH_DMASR_W1C_MASK = 0x807fffff"
definition CH32_ETH_DMA_IT_R :: u32 where "CH32_ETH_DMA_IT_R = 0x40"
definition CH32_ETH_DMA_IT_T :: u32 where "CH32_ETH_DMA_IT_T = 0x01"
definition CH32_ETH_DMA_IT_PHYLINK :: u32 where "CH32_ETH_DMA_IT_PHYLINK = 0x80000000"
definition CH32_ETH_DMASR_NIS_SRC :: u32 where
  "CH32_ETH_DMASR_NIS_SRC = CH32_ETH_DMA_IT_R OR CH32_ETH_DMA_IT_T OR CH32_ETH_DMA_IT_PHYLINK"
definition CH32_ETH_DMASR_AIS_SRC :: u32 where
  "CH32_ETH_DMASR_AIS_SRC = CH32_ETH_DMASR_RBUS OR CH32_ETH_DMASR_TBUS"
definition CH32_ETH_DMASR_TPS_M :: u32 where "CH32_ETH_DMASR_TPS_M = 0x00700000"
definition CH32_ETH_DMASR_RPS_M :: u32 where "CH32_ETH_DMASR_RPS_M = 0x000E0000"
definition CH32_ETH_DMASR_TPS_FETCH :: u32 where "CH32_ETH_DMASR_TPS_FETCH = 0x00100000"
definition CH32_ETH_DMASR_RPS_WAIT :: u32 where "CH32_ETH_DMASR_RPS_WAIT = 0x00060000"
definition CH32_ETH_DMATX_CIC_M :: u32 where "CH32_ETH_DMATX_CIC_M = 0x00C00000"
definition CH32_ETH_DMATX_CIC_IP :: u32 where "CH32_ETH_DMATX_CIC_IP = 0x00400000"
definition CH32_ETH_DMATX_CIC_SEG :: u32 where "CH32_ETH_DMATX_CIC_SEG = 0x00800000"
definition CH32_ETH_DMATX_CIC_ALL :: u32 where "CH32_ETH_DMATX_CIC_ALL = 0x00C00000"
definition CH32_ETH_MAX_RING :: nat where "CH32_ETH_MAX_RING = 16"
definition CH32_ETH_PKT_MAX :: nat where "CH32_ETH_PKT_MAX = 2048"
definition CH32_ETH_MMIO_SIZE :: nat where "CH32_ETH_MMIO_SIZE = 0x1800"
definition CH32_ETH_POLL_FAST_NS :: u64 where "CH32_ETH_POLL_FAST_NS = 10 * 1000 * 1000"
definition CH32_ETH_POLL_SLOW_NS :: u64 where "CH32_ETH_POLL_SLOW_NS = 100 * 1000 * 1000"
definition CH32_ETH_POLL_IDLE_THR :: nat where "CH32_ETH_POLL_IDLE_THR = 4"

lemmas eth_it_defs = CH32_ETH_DMASR_TBUS_def CH32_ETH_DMASR_RBUS_def CH32_ETH_DMA_IT_R_def
  CH32_ETH_DMA_IT_T_def CH32_ETH_DMA_IT_PHYLINK_def

section \<open>The main memory window\<close>

text \<open>\<open>rsz\<close> is the size of the machine's RAM, \<open>None\<close> without one.\<close>

definition ch32_eth_span_in_main_sram :: "u64 option \<Rightarrow> u32 \<Rightarrow> nat \<Rightarrow> bool" where
  "ch32_eth_span_in_main_sram rsz p len =
     (if len = 0 then False
      else case rsz of None \<Rightarrow> False
        | Some sz \<Rightarrow>
            if ucast p < CH32_ETH_RAM_BASE then False
            else let off = ucast p - CH32_ETH_RAM_BASE in \<not> (off > sz \<or> of_nat len > sz - off))"

definition ch32_eth_ptr_in_main_sram :: "u64 option \<Rightarrow> u32 \<Rightarrow> bool" where
  "ch32_eth_ptr_in_main_sram rsz p = ch32_eth_span_in_main_sram rsz p 1"

section \<open>PHY models\<close>

definition ch32_eth_is_phy10m_path :: "eth_state \<Rightarrow> bool" where
  "ch32_eth_is_phy10m_path s \<longleftrightarrow> the_phy_variant s = CH32_ETH_PHY_PHY10M"

definition ch32_eth_is_rtl8211f_path :: "eth_state \<Rightarrow> bool" where
  "ch32_eth_is_rtl8211f_path s \<longleftrightarrow> the_phy_variant s = CH32_ETH_PHY_RTL8211F"

fun ch32_eth_phy_bcr_reset :: "phy_variant \<Rightarrow> u16" where
  "ch32_eth_phy_bcr_reset CH32_ETH_PHY_PHY10M = 0x1000"
| "ch32_eth_phy_bcr_reset CH32_ETH_PHY_RTL8211F = 0x1140"
| "ch32_eth_phy_bcr_reset CH32_ETH_PHY_CH182 = 0x3100"

definition ch32_eth_phy_read_rtl8211f :: "u64 \<Rightarrow> eth_state \<Rightarrow> nat \<Rightarrow> u16" where
  "ch32_eth_phy_read_rtl8211f now s reg =
     (let link_up = now \<ge> phy_link_up_deadline_ns s in
      if rtl8211f_page s = 0x0d04 \<and> (reg = 0x10 \<or> reg = 0x11) then phy_reg s ! reg
      else if reg = 0x00 then phy_bcr s
      else if reg = 0x01 then (if link_up then phy_bsr s OR 0x0024 else phy_bsr s)
      else if reg = 0x02 then 0x001c
      else if reg = 0x03 then 0xc916
      else if reg = 0x04 then (if phy_reg s ! 4 \<noteq> 0 then phy_reg s ! 4 else 0x01e1)
      else if reg = 0x05 then (if link_up then 0x45e1 else 0)
      else if reg = 0x06 then 0x0007
      else if reg = 0x09 then (if phy_reg s ! 9 \<noteq> 0 then phy_reg s ! 9 else 0x0200)
      else if reg = 0x0a then (if link_up then 0x7c00 else 0)
      else if reg = 0x0d then rtl8211f_mmd_ctrl s
      else if reg = 0x0e then 0
      else if reg = 0x0f then 0x3000
      else if reg = 0x11 then (if link_up then 0x002c else 0)
      else if reg = 0x1a then phy_reg s ! 0x1a
      else if reg = 0x1f then rtl8211f_page s
      else if reg < 32 then phy_reg s ! reg else 0)"

definition ch32_eth_phy_write_rtl8211f :: "u64 \<Rightarrow> nat \<Rightarrow> u16 \<Rightarrow> eth_state \<Rightarrow> eth_state" where
  "ch32_eth_phy_write_rtl8211f now reg v s =
     (let s1 = (if reg < 32 then s\<lparr>phy_reg := (phy_reg s)[reg := v]\<rparr> else s) in
      if rtl8211f_page s1 = 0x0d04 \<and> (reg = 0x10 \<or> reg = 0x11) then s1
      else if reg = 0x00 then
        (let s2 = s1\<lparr>phy_bcr := v\<rparr> in
         if bit v 15 then
           s2\<lparr>phy_bcr := 0x1140, phy_link_up_deadline_ns := now + 300 * 1000000,
              phy_link_irq_injected := False, rtl8211f_page := 0\<rparr>
         else s2)
      else if reg = 0x0d then s1\<lparr>rtl8211f_mmd_ctrl := v\<rparr>
      else if reg = 0x0e then s1\<lparr>rtl8211f_mmd_addr := v\<rparr>
      else if reg = 0x1f then s1\<lparr>rtl8211f_page := v\<rparr>
      else s1)"

definition ch32_eth_phy_write :: "u64 \<Rightarrow> nat \<Rightarrow> u16 \<Rightarrow> eth_state \<Rightarrow> eth_state" where
  "ch32_eth_phy_write now reg v s =
     (if ch32_eth_is_rtl8211f_path s then ch32_eth_phy_write_rtl8211f now reg v s
      else
        let s1 = (if reg < 32 then s\<lparr>phy_reg := (phy_reg s)[reg := v]\<rparr> else s) in
        if reg = 0 then
          (let s2 = s1\<lparr>phy_bcr := v\<rparr> in
           if bit v 15 then
             s2\<lparr>phy_bcr := ch32_eth_phy_bcr_reset (the_phy_variant s2),
                phy_link_up_deadline_ns := now + 300 * 1000000, phy_link_irq_injected := False\<rparr>
           else s2)
        else s1)"

definition ch32_eth_phy_read :: "u64 \<Rightarrow> eth_state \<Rightarrow> nat \<Rightarrow> u16" where
  "ch32_eth_phy_read now s reg =
     (if ch32_eth_is_rtl8211f_path s then ch32_eth_phy_read_rtl8211f now s reg
      else
        let p10 = ch32_eth_is_phy10m_path s in
        if reg = 0 then phy_bcr s
        else if reg = 1 then
          (if now < phy_link_up_deadline_ns s then phy_bsr s else phy_bsr s OR 0x0024)
        else if reg = 2 then (if p10 then 0 else 0x7371)
        else if reg = 3 then (if p10 then 0 else 0x9011)
        else if reg = 5 then (if p10 then 0 else if phy_reg s ! 5 \<noteq> 0 then phy_reg s ! 5 else 0x05e1)
        else if reg = 0x19 then
          (if \<not> p10 \<and> phy_reg s ! 0x1f = 99 then 0x0002 else phy_reg s ! reg)
        else if reg = 0x10 then (if p10 then phy_reg s ! reg else phy_reg s ! reg OR one_bit 9)
        else if reg < 32 then phy_reg s ! reg else 0)"

text \<open>The two register pointers of the code are the words MACMIIAR and MACMIIDR of the register file.\<close>

definition ch32_eth_mdio_run :: "u64 \<Rightarrow> eth_state \<Rightarrow> eth_state" where
  "ch32_eth_mdio_run now s =
     (let ar = mmio_w s ! ETH_MACMIIAR;
          pa = drop_bit 11 ar AND 0x1f; ra = unat (drop_bit 6 ar AND 0x1f); is_write = bit ar 1;
          clear_mb = mmio_w_update (arr_upd ETH_MACMIIAR (\<lambda>w. w AND NOT 1))
      in if pa \<noteq> 1 then
           clear_mb (if is_write then s else s\<lparr>mmio_w := (mmio_w s)[ETH_MACMIIDR := 0xffff]\<rparr>)
         else if is_write then
           clear_mb (ch32_eth_phy_write now ra (ucast (mmio_w s ! ETH_MACMIIDR AND 0xffff)) s)
         else clear_mb (s\<lparr>mmio_w := (mmio_w s)[ETH_MACMIIDR := ucast (ch32_eth_phy_read now s ra)]\<rparr>))"

section \<open>Transmit checksum offload\<close>

text \<open>
  The checksum functions of \<open>net/checksum.h\<close> and the header accessors of \<open>net/eth.h\<close>: version and
  header length of an IPv4 header, its total length and protocol fields, the in-place checksum of
  the chosen protocol, the partial sum over some bytes and its final complement.
\<close>

datatype csum_flag = CSUM_IP | CSUM_TCP | CSUM_UDP

record net_lib =
  ip_header_version :: "u8 list \<Rightarrow> nat"
  ip_hdr_get_len :: "u8 list \<Rightarrow> nat"
  ip_total_len :: "u8 list \<Rightarrow> nat"
  ip_protocol :: "u8 list \<Rightarrow> nat"
  net_checksum_calculate :: "csum_flag \<Rightarrow> u8 list \<Rightarrow> u8 list"
  net_checksum_add :: "u8 list \<Rightarrow> u32"
  net_checksum_finish :: "u32 \<Rightarrow> u16"

abbreviation "ETH_HEADER \<equiv> (14::nat)"
abbreviation "IP_HEADER \<equiv> (20::nat)"

definition eth_icmp_checksum :: "net_lib \<Rightarrow> nat \<Rightarrow> nat \<Rightarrow> u8 list \<Rightarrow> u8 list" where
  "eth_icmp_checksum lib l4 l4_len pkt =
     (let pkt1 = pkt[l4 + 2 := 0, l4 + 3 := 0];
          csum = net_checksum_add lib (take l4_len (drop l4 pkt1));
          fin = net_checksum_finish lib csum
      in pkt1[l4 + 2 := ucast (drop_bit 8 fin), l4 + 3 := ucast fin])"

definition ch32_eth_tx_coe :: "net_lib \<Rightarrow> u32 \<Rightarrow> u8 list \<Rightarrow> u8 list" where
  "ch32_eth_tx_coe lib td0 pkt =
     (let cic = td0 AND CH32_ETH_DMATX_CIC_M; len = length pkt in
      if cic = 0 then pkt
      else if len < ETH_HEADER + IP_HEADER + 8 then pkt
      else
        let iph = drop ETH_HEADER pkt in
        if ip_header_version lib iph \<noteq> 4 then pkt
        else
          let iph_len = ip_hdr_get_len lib iph in
          if iph_len < IP_HEADER \<or> ETH_HEADER + iph_len > len then pkt
          else
            let pkt1 = (if cic \<ge> CH32_ETH_DMATX_CIC_IP then net_checksum_calculate lib CSUM_IP pkt else pkt) in
            if cic \<ge> CH32_ETH_DMATX_CIC_SEG then
              (let iph1 = drop ETH_HEADER pkt1; l4 = ETH_HEADER + iph_len;
                   total = ip_total_len lib iph1; proto = ip_protocol lib iph1 in
               if total < iph_len + 8 then pkt1
               else if ETH_HEADER + total > len then pkt1
               else if proto = 6 then net_checksum_calculate lib CSUM_TCP pkt1
               else if proto = 17 then net_checksum_calculate lib CSUM_UDP pkt1
               else if proto = 1 \<and> cic = CH32_ETH_DMATX_CIC_ALL
                 then eth_icmp_checksum lib l4 (total - iph_len) pkt1
               else pkt1)
            else pkt1)"

section \<open>Descriptors\<close>

text \<open>
  What the device needs of the host: the address space, the size of the RAM, whether the network
  backend is connected, the checksum library and the redelivery of queued packets, which
  \<open>ch32_eth_rx_resume\<close> asks the network core for.
\<close>

record eth_host =
  eh_read :: as_read
  eh_write :: as_write
  eh_ram :: "u64 option"
  eh_peer :: bool
  eh_lib :: net_lib
  eh_flush :: "machine \<Rightarrow> machine"

definition ch32_eth_desc_read :: "as_read \<Rightarrow> u32 \<Rightarrow> machine \<Rightarrow> (u32 \<times> u32 \<times> u32 \<times> u32) \<times> machine" where
  "ch32_eth_desc_read rd da m =
     (case rd da 16 m of
        (None, m1) \<Rightarrow> ((0, 0, 0, 0), m1)
      | (Some buf, m1) \<Rightarrow>
          ((of_le_bytes (take 4 buf), of_le_bytes (take 4 (drop 4 buf)),
            of_le_bytes (take 4 (drop 8 buf)), of_le_bytes (take 4 (drop 12 buf))), m1))"

definition ch32_eth_desc_write_status :: "as_write \<Rightarrow> u32 \<Rightarrow> u32 \<Rightarrow> machine \<Rightarrow> machine" where
  "ch32_eth_desc_write_status wr da st m = snd (wr da (le_bytes 4 st) m)"

definition eth_next_desc :: "u64 option \<Rightarrow> u32 \<Rightarrow> u32 \<Rightarrow> u32" where
  "eth_next_desc rsz base d3 = (if ch32_eth_ptr_in_main_sram rsz d3 then d3 else base)"

section \<open>Transmission\<close>

fun eth_tx_loop :: "(machine \<Rightarrow> machine) \<Rightarrow> eth_host \<Rightarrow> u32 \<Rightarrow> nat \<Rightarrow> machine \<Rightarrow> machine" where
  "eth_tx_loop r h base 0 m = m"
| "eth_tx_loop r h base (Suc n) m =
     (let da = tx_cur_desc (eth m) in
      if \<not> ch32_eth_ptr_in_main_sram (eh_ram h) da then eth_upd (tx_cur_desc_update (\<lambda>_. base)) m
      else
        let ((td0, td1, td2, td3), m1) = ch32_eth_desc_read (eh_read h) da m in
        if \<not> bit td0 DMA_OWN then m1
        else
          let len = unat (td1 AND 0x1fff);
              done = ch32_eth_desc_write_status (eh_write h) da (td0 AND NOT (one_bit DMA_OWN));
              advance = eth_upd (tx_cur_desc_update (\<lambda>_. eth_next_desc (eh_ram h) base td3))
          in if len = 0 \<or> len > CH32_ETH_PKT_MAX then eth_tx_loop r h base n (advance (done m1))
             else if \<not> ch32_eth_span_in_main_sram (eh_ram h) td2 len then
               advance (ch32_eth_dmasr_raise r CH32_ETH_DMASR_TBUS (done m1))
             else case eh_read h td2 len m1 of
               (None, m2) \<Rightarrow> advance (done m2)
             | (Some pkt, m2) \<Rightarrow>
                 let m3 = m2\<lparr>net_out := net_out m2 @ [ch32_eth_tx_coe (eh_lib h) td0 pkt]\<rparr>
                 in eth_tx_loop r h base n
                      (advance (ch32_eth_dmasr_raise r CH32_ETH_DMA_IT_T (done m3))))"

definition ch32_eth_process_tx :: "(machine \<Rightarrow> machine) \<Rightarrow> eth_host \<Rightarrow> machine \<Rightarrow> machine" where
  "ch32_eth_process_tx r h m =
     (let base = mmio_w (eth m) ! ETH_DMATDLAR in
      if \<not> bit (mmio_w (eth m) ! ETH_DMAOMR) DMAOMR_ST then m
      else if \<not> eh_peer h then m
      else if \<not> ch32_eth_ptr_in_main_sram (eh_ram h) base then m
      else
        let m1 = (if tx_cur_desc (eth m) = 0 then eth_upd (tx_cur_desc_update (\<lambda>_. base)) m else m)
        in eth_tx_loop r h base CH32_ETH_MAX_RING m1)"

section \<open>Reception\<close>

definition ch32_eth_rx_resume :: "eth_host \<Rightarrow> machine \<Rightarrow> machine" where
  "ch32_eth_rx_resume h m = eh_flush h m"

abbreviation eth_drop_stash :: "machine \<Rightarrow> machine" where
  "eth_drop_stash \<equiv> eth_upd (rx_stash_update (\<lambda>_. []))"

text \<open>The status word of a delivered frame: its length with the checksum, first, last and type bits.\<close>

definition eth_rx_status :: "nat \<Rightarrow> u32" where
  "eth_rx_status len = (push_bit 16 (of_nat len + 4) OR 0x200 OR 0x100 OR 0x20) AND NOT (one_bit DMA_OWN)"

fun eth_rx_loop :: "(machine \<Rightarrow> machine) \<Rightarrow> eth_host \<Rightarrow> u32 \<Rightarrow> nat \<Rightarrow> machine \<Rightarrow> machine" where
  "eth_rx_loop r h base 0 m =
     ch32_eth_rx_resume h (eth_drop_stash (ch32_eth_dmasr_raise r CH32_ETH_DMASR_RBUS m))"
| "eth_rx_loop r h base (Suc n) m =
     (let da = rx_cur_desc (eth m) in
      if \<not> ch32_eth_ptr_in_main_sram (eh_ram h) da then
        ch32_eth_rx_resume h (eth_drop_stash (ch32_eth_dmasr_raise r CH32_ETH_DMASR_RBUS
          (eth_upd (rx_cur_desc_update (\<lambda>_. base)) m)))
      else
        let ((rd0, rd1, rd2, rd3), m1) = ch32_eth_desc_read (eh_read h) da m;
            advance = eth_upd (rx_cur_desc_update (\<lambda>_. eth_next_desc (eh_ram h) base rd3));
            stash = rx_stash (eth m1)
        in if \<not> bit rd0 DMA_OWN then eth_rx_loop r h base n (advance m1)
           else if \<not> ch32_eth_span_in_main_sram (eh_ram h) rd2 (length stash) then
             eth_drop_stash (ch32_eth_dmasr_raise r CH32_ETH_DMASR_RBUS (advance m1))
           else case eh_write h rd2 stash m1 of
             (False, m2) \<Rightarrow>
               ch32_eth_rx_resume h (eth_drop_stash (ch32_eth_dmasr_raise r CH32_ETH_DMASR_RBUS m2))
           | (True, m2) \<Rightarrow>
               eth_drop_stash (advance (ch32_eth_dmasr_raise r CH32_ETH_DMA_IT_R
                 (ch32_eth_desc_write_status (eh_write h) da (eth_rx_status (length stash)) m2))))"

definition ch32_eth_deliver_rx_stash :: "(machine \<Rightarrow> machine) \<Rightarrow> eth_host \<Rightarrow> machine \<Rightarrow> machine" where
  "ch32_eth_deliver_rx_stash r h m =
     (let base = mmio_w (eth m) ! ETH_DMARDLAR in
      if rx_stash (eth m) = [] then m
      else if \<not> bit (mmio_w (eth m) ! ETH_DMAOMR) DMAOMR_SR then ch32_eth_rx_resume h (eth_drop_stash m)
      else if \<not> ch32_eth_ptr_in_main_sram (eh_ram h) base then ch32_eth_rx_resume h (eth_drop_stash m)
      else
        let m1 = (if rx_cur_desc (eth m) = 0 then eth_upd (rx_cur_desc_update (\<lambda>_. base)) m else m)
        in eth_rx_loop r h base CH32_ETH_MAX_RING m1)"

text \<open>The receive callback: the result is the number of bytes taken, \<open>- 1\<close> for a frame it cannot hold.\<close>

definition ch32_eth_net_receive :: "u8 list \<Rightarrow> machine \<Rightarrow> int \<times> machine" where
  "ch32_eth_net_receive buf m =
     (let sz = length buf in
      if sz = 0 \<or> sz > CH32_ETH_PKT_MAX then (- 1, m)
      else if \<not> bit (mmio_w (eth m) ! ETH_DMAOMR) DMAOMR_SR then (int sz, m)
      else if mmio_w (eth m) ! ETH_DMARDLAR = 0 then (int sz, m)
      else if rx_stash (eth m) \<noteq> [] then (0, m)
      else (int sz, eth_upd (\<lambda>s. s\<lparr>rx_stash := buf, bh_scheduled := True\<rparr>) m))"

definition ch32_eth_net_can_receive :: "eth_state \<Rightarrow> bool" where
  "ch32_eth_net_can_receive s \<longleftrightarrow> rx_stash s = []"

section \<open>Bottom half and poll timer\<close>

text \<open>QEMU clears the scheduled flag of a bottom half before it calls it.\<close>

definition ch32_eth_bh :: "(machine \<Rightarrow> machine) \<Rightarrow> eth_host \<Rightarrow> machine \<Rightarrow> machine" where
  "ch32_eth_bh r h m0 =
     (let m = eth_upd (bh_scheduled_update (\<lambda>_. False)) m0;
          dmasr_before = mmio_w (eth m) ! CH32_ETH_DMASR_W;
          m1 = ch32_eth_process_tx r h m;
          tx_had_work = (mmio_w (eth m1) ! CH32_ETH_DMASR_W AND CH32_ETH_DMA_IT_T \<noteq> 0 \<and>
                         dmasr_before AND CH32_ETH_DMA_IT_T = 0);
          stash_before = rx_stash (eth m1);
          m2 = ch32_eth_deliver_rx_stash r h m1;
          rx_had_work = (stash_before \<noteq> [] \<and> rx_stash (eth m2) = []);
          m3 = (if rx_had_work then ch32_eth_rx_resume h m2 else m2);
          m4 = (if tx_had_work \<or> rx_had_work then eth_upd (poll_idle_count_update (\<lambda>_. 0)) m3
                else if poll_idle_count (eth m3) < CH32_ETH_POLL_IDLE_THR + 1
                then eth_upd (poll_idle_count_update Suc) m3 else m3)
      in ch32_eth_update_irq r m4)"

definition ch32_eth_poll_tick :: "(machine \<Rightarrow> machine) \<Rightarrow> machine \<Rightarrow> machine" where
  "ch32_eth_poll_tick r m =
     (let omr = mmio_w (eth m) ! ETH_DMAOMR; now = clock_ns m;
          m1 = (if ch32_eth_is_phy10m_path (eth m) \<and> \<not> phy_link_irq_injected (eth m) \<and>
                   now \<ge> phy_link_up_deadline_ns (eth m)
                then ch32_eth_dmasr_raise r CH32_ETH_DMA_IT_PHYLINK
                       (eth_upd (phy_link_irq_injected_update (\<lambda>_. True)) m)
                else m)
      in if \<not> bit omr DMAOMR_ST \<and> \<not> bit omr DMAOMR_SR then
           (if ch32_eth_is_phy10m_path (eth m1)
            then eth_upd (eth_poll_update (timer_mod_ns (now + CH32_ETH_POLL_FAST_NS))) m1
            else eth_upd (\<lambda>s. s\<lparr>poll_active := False, poll_idle_count := 0\<rparr>) m1)
         else
           let interval = (if poll_idle_count (eth m1) \<ge> CH32_ETH_POLL_IDLE_THR
                           then CH32_ETH_POLL_SLOW_NS else CH32_ETH_POLL_FAST_NS)
           in eth_upd (\<lambda>s. s\<lparr>bh_scheduled := True,
                            eth_poll := timer_mod_ns (now + interval) (eth_poll s)\<rparr>) m1)"

definition ch32_eth_poll_arm :: "u64 \<Rightarrow> eth_state \<Rightarrow> eth_state" where
  "ch32_eth_poll_arm now s =
     (if poll_active s then s
      else s\<lparr>poll_active := True, poll_idle_count := 0,
             eth_poll := timer_mod_ns (now + CH32_ETH_POLL_FAST_NS) (eth_poll s)\<rparr>)"

section \<open>Register handlers\<close>

definition ch32_eth_dmasr_read :: "eth_state \<Rightarrow> u32" where
  "ch32_eth_dmasr_read s =
     (let v = mmio_w s ! CH32_ETH_DMASR_W; omr = mmio_w s ! ETH_DMAOMR;
          v1 = (if v AND CH32_ETH_DMASR_NIS_SRC \<noteq> 0 then v OR CH32_ETH_DMA_IT_NIS
                else v AND NOT CH32_ETH_DMA_IT_NIS);
          v2 = (if v1 AND CH32_ETH_DMASR_AIS_SRC \<noteq> 0 then v1 OR CH32_ETH_DMA_IT_AIS
                else v1 AND NOT CH32_ETH_DMA_IT_AIS);
          v3 = v2 AND NOT CH32_ETH_DMASR_TPS_M;
          v4 = (if bit omr DMAOMR_ST then v3 OR CH32_ETH_DMASR_TPS_FETCH else v3);
          v5 = v4 AND NOT CH32_ETH_DMASR_RPS_M
      in if bit omr DMAOMR_SR then v5 OR CH32_ETH_DMASR_RPS_WAIT else v5)"

definition ch32_eth_mmio_read_word :: "nat \<Rightarrow> eth_state \<Rightarrow> u32" where
  "ch32_eth_mmio_read_word addr s =
     (if addr \<ge> CH32_ETH_MMIO_SIZE \<or> addr mod 4 \<noteq> 0 then 0
      else if addr = 0x1014 then ch32_eth_dmasr_read s
      else mmio_w s ! (addr div 4))"

definition ch32_eth_mmio_read :: "nat \<Rightarrow> nat \<Rightarrow> eth_state \<Rightarrow> u32" where
  "ch32_eth_mmio_read addr sz s =
     (if addr + sz > CH32_ETH_MMIO_SIZE \<or> addr mod sz \<noteq> 0 then 0
      else
        let w = ch32_eth_mmio_read_word (addr div 4 * 4) s in
        if sz = 4 then w
        else if sz = 2 then drop_bit (addr mod 4 div 2 * 16) w AND 0xffff
        else drop_bit (addr mod 4 * 8) w AND 0xff)"

definition eth_set_word :: "nat \<Rightarrow> u32 \<Rightarrow> machine \<Rightarrow> machine" where
  "eth_set_word wi v = eth_upd (mmio_w_update (\<lambda>w. w[wi := v]))"

definition eth_dmaomr_write :: "eth_host \<Rightarrow> u32 \<Rightarrow> machine \<Rightarrow> machine" where
  "eth_dmaomr_write h val m =
     (let v = val AND NOT (one_bit 20); m1 = eth_set_word ETH_DMAOMR v m in
      if bit v DMAOMR_ST \<or> bit v DMAOMR_SR
      then ch32_eth_rx_resume h (eth_upd (ch32_eth_poll_arm (clock_ns m1)) m1)
      else if \<not> ch32_eth_is_phy10m_path (eth m1)
      then eth_upd (\<lambda>s. s\<lparr>eth_poll := timer_del (eth_poll s), poll_active := False\<rparr>) m1
      else m1)"

definition ch32_eth_mmio_write_word ::
    "(machine \<Rightarrow> machine) \<Rightarrow> eth_host \<Rightarrow> nat \<Rightarrow> u32 \<Rightarrow> machine \<Rightarrow> machine" where
  "ch32_eth_mmio_write_word r h addr val m =
     (let wi = addr div 4 in
      if addr \<ge> CH32_ETH_MMIO_SIZE \<or> addr mod 4 \<noteq> 0 then m
      else if addr = 0x010 then
        (let m1 = eth_set_word wi val m
         in if bit val 0 then eth_upd (ch32_eth_mdio_run (clock_ns m1)) m1 else m1)
      else if addr = 0x1000 then eth_set_word wi (if bit val 0 then val AND NOT 1 else val) m
      else if addr = 0x100 then eth_set_word wi (val AND NOT 1) m
      else if addr = 0x1014 then
        ch32_eth_update_irq r
          (eth_upd (mmio_w_update (arr_upd wi (\<lambda>w. w AND NOT (val AND CH32_ETH_DMASR_W1C_MASK)))) m)
      else if addr = 0x1004 \<or> addr = 0x1008 then
        eth_upd (bh_scheduled_update (\<lambda>_. True)) (eth_set_word wi val m)
      else if addr = 0x1018 then eth_dmaomr_write h val m
      else eth_set_word wi val m)"

definition ch32_eth_mmio_write ::
    "(machine \<Rightarrow> machine) \<Rightarrow> eth_host \<Rightarrow> nat \<Rightarrow> u32 \<Rightarrow> nat \<Rightarrow> machine \<Rightarrow> machine" where
  "ch32_eth_mmio_write r h addr val sz m =
     (let waddr = addr div 4 * 4; cur = mmio_w (eth m) ! (addr div 4) in
      if addr + sz > CH32_ETH_MMIO_SIZE \<or> addr mod sz \<noteq> 0 then m
      else if sz = 4 then ch32_eth_mmio_write_word r h addr val m
      else if sz = 2 then
        (let sh = addr mod 4 div 2 * 16
         in ch32_eth_mmio_write_word r h waddr
              ((cur AND NOT (push_bit sh 0xffff)) OR push_bit sh (val AND 0xffff)) m)
      else
        (let sh = addr mod 4 * 8
         in ch32_eth_mmio_write_word r h waddr
              ((cur AND NOT (push_bit sh 0xff)) OR push_bit sh (val AND 0xff)) m))"

section \<open>Reset and realize\<close>

definition eth_reset_state :: "u64 \<Rightarrow> eth_state \<Rightarrow> eth_state" where
  "eth_reset_state now s = s\<lparr>
     eth_poll := timer_del (eth_poll s), poll_active := False, bh_scheduled := False,
     mmio_w := replicate (CH32_ETH_MMIO_SIZE div 4) 0, phy_reg := replicate 32 0,
     phy_bcr := ch32_eth_phy_bcr_reset (the_phy_variant s), phy_bsr := 0x7809,
     rx_stash := [], eth_irq_active := False, phy_link_up_deadline_ns := now + 500 * 1000000,
     phy_link_irq_injected := False, rtl8211f_page := 0, rtl8211f_mmd_ctrl := 0,
     rtl8211f_mmd_addr := 0, tx_cur_desc := 0, rx_cur_desc := 0\<rparr>"

definition eth_poll_10m :: "u64 \<Rightarrow> eth_state \<Rightarrow> eth_state" where
  "eth_poll_10m now s =
     (if ch32_eth_is_phy10m_path s
      then s\<lparr>poll_active := True, eth_poll := timer_mod_ns (now + CH32_ETH_POLL_FAST_NS) (eth_poll s)\<rparr>
      else s)"

definition ch32_eth_reset :: "(machine \<Rightarrow> machine) \<Rightarrow> eth_host \<Rightarrow> machine \<Rightarrow> machine" where
  "ch32_eth_reset r h m =
     (let m1 = ch32_eth_rx_resume h (eth_upd (eth_reset_state (clock_ns m)) m)
      in ch32_eth_meip_resync r (eth_upd (eth_poll_10m (clock_ns m1)) m1))"

text \<open>The \<open>phy-model\<close> property; the error is the refusal to realize the device.\<close>

definition eth_phy_model :: "string option \<Rightarrow> phy_variant option" where
  "eth_phy_model pm =
     (case pm of
        Some v \<Rightarrow>
          if v = ''rtl8211f'' then Some CH32_ETH_PHY_RTL8211F
          else if v = ''phy10m'' then Some CH32_ETH_PHY_PHY10M
          else if v = ''ch182'' then Some CH32_ETH_PHY_CH182
          else None
      | None \<Rightarrow> Some CH32_ETH_PHY_CH182)"

definition ch32_eth_realize :: "u64 \<Rightarrow> string option \<Rightarrow> eth_state \<Rightarrow> eth_state option" where
  "ch32_eth_realize now pm s =
     (case eth_phy_model pm of
        None \<Rightarrow> None
      | Some v \<Rightarrow>
          Some (eth_poll_10m now
            (s\<lparr>the_phy_variant := v, phy_bsr := 0x7809, phy_bcr := ch32_eth_phy_bcr_reset v,
               phy_link_up_deadline_ns := now + 500 * 1000000\<rparr>)))"

end
