(* ===== verification/Ch32_Ram.thy ===== *)
theory Ch32_Ram
  imports Ch32_PowerOn
begin

text \<open>
  The main memory behind the address space of the DMA engines: what it means for an address space to
  be backed by the array \<open>m_ram\<close> at 0x20000000, and the words and areas of it.
\<close>

section \<open>Guest memory\<close>

definition ram_off :: "u32 \<Rightarrow> nat" where
  "ram_off a = unat a - 0x20000000"

definition ram_span :: "u8 list \<Rightarrow> u32 \<Rightarrow> nat \<Rightarrow> bool" where
  "ram_span ram a n \<longleftrightarrow> 0x20000000 \<le> unat a \<and> 0 < n \<and> ram_off a + n \<le> length ram"

text \<open>An address space whose main memory is the array \<open>m_ram\<close>.\<close>

definition ram_backed :: "as_read \<Rightarrow> as_write \<Rightarrow> bool" where
  "ram_backed rd wr \<longleftrightarrow>
     (\<forall>a n m. ram_span (m_ram m) a n \<longrightarrow> rd a n m = (Some (take n (drop (ram_off a) (m_ram m))), m)) \<and>
     (\<forall>a bs m. ram_span (m_ram m) a (length bs) \<longrightarrow>
        wr a bs m = (True, m\<lparr>m_ram := mem_store (ram_off a) bs (m_ram m)\<rparr>))"

definition ram_read :: as_read where
  "ram_read a n m =
     (if ram_span (m_ram m) a n then Some (take n (drop (ram_off a) (m_ram m))) else None, m)"

definition ram_write :: as_write where
  "ram_write a bs m =
     (if ram_span (m_ram m) a (length bs) then (True, m\<lparr>m_ram := mem_store (ram_off a) bs (m_ram m)\<rparr>)
      else (False, m))"

lemma ram_backed_model: "ram_backed ram_read ram_write"
  by (simp add: ram_backed_def ram_read_def ram_write_def)

lemma ram_backedD:
  assumes "ram_backed rd wr"
  shows "ram_span (m_ram m) a n \<Longrightarrow> rd a n m = (Some (take n (drop (ram_off a) (m_ram m))), m)"
    "ram_span (m_ram m) a (length bs) \<Longrightarrow>
     wr a bs m = (True, m\<lparr>m_ram := mem_store (ram_off a) bs (m_ram m)\<rparr>)"
  using assms by (simp_all add: ram_backed_def)

definition ram_word :: "u8 list \<Rightarrow> nat \<Rightarrow> u32" where
  "ram_word ram k = of_le_bytes (take 4 (drop k ram))"

text \<open>Two areas of the memory that do not meet.\<close>

definition apart :: "nat \<times> nat \<Rightarrow> nat \<times> nat \<Rightarrow> bool" where
  "apart x y \<longleftrightarrow> fst x + snd x \<le> fst y \<or> fst y + snd y \<le> fst x"

lemma apart_sym: "apart x y = apart y x"
  by (auto simp: apart_def)

lemma store_word_apart:
  assumes "ram_span ram a 4" "apart (ram_off a, 4) (k, n)"
  shows "take n (drop k (mem_store (ram_off a) (le_bytes 4 w) ram)) = take n (drop k ram)"
  using assms by (intro mem_store_elsewhere) (auto simp: ram_span_def apart_def)

lemma ram_word_store:
  assumes "ram_span ram a 4"
  shows "ram_word (mem_store (ram_off a) (le_bytes 4 w) ram) (ram_off a) = w"
  using assms mem_store_hit[of "ram_off a" "le_bytes 4 w" ram]
  by (simp add: ram_word_def ram_span_def of_le_bytes_roundtrip take_bit_word_eq_self)

lemma ram_word_apart:
  "ram_span ram a 4 \<Longrightarrow> apart (ram_off a, 4) (k, 4) \<Longrightarrow>
   ram_word (mem_store (ram_off a) (le_bytes 4 w) ram) k = ram_word ram k"
  by (simp add: ram_word_def store_word_apart)


end
