(* ===== verification/Ch32_EthRing.thy ===== *)
theory Ch32_EthRing
  imports Ch32_EthMac Ch32_Ram
begin

text \<open>
  What the Ethernet MAC promises a driver whose descriptor rings live in the main memory: queued
  frames leave in order and come back with the ownership bit cleared, a stashed frame lands in the
  buffer of the descriptor under the cursor, reception never gets stuck, and the management interface
  stores what is written to a PHY register.
\<close>

section \<open>The memory check\<close>

text \<open>The check of the code against the size of the machine's memory.\<close>

definition ram_sized :: "u64 option \<Rightarrow> u8 list \<Rightarrow> bool" where
  "ram_sized rsz ram \<longleftrightarrow> rsz = Some (of_nat (length ram)) \<and> length ram < 2 ^ 32"

lemma span_in_main_sram:
  assumes "ram_sized rsz ram" "n < 2 ^ 32"
  shows "ch32_eth_span_in_main_sram rsz a n \<longleftrightarrow> ram_span ram a n"
proof -
  have sz: "rsz = Some (of_nat (length ram))" and len: "unat (of_nat (length ram) :: u64) = length ram"
    using assms(1) by (auto simp: ram_sized_def unat_of_nat_small)
  have n: "unat (of_nat n :: u64) = n" using assms(2) by (simp add: unat_of_nat_small)
  have "unat a < 2 ^ 64" using unsigned_less[of a, where 'a = nat] by simp
  then have a: "unat (ucast a :: u64) = unat a" by (simp add: unsigned_ucast_eq take_bit_nat_eq_self)
  have base: "unat CH32_ETH_RAM_BASE = 0x20000000" by (simp add: CH32_ETH_RAM_BASE_def)
  show ?thesis
  proof (cases "0x20000000 \<le> unat a")
    case True
    then have ge: "\<not> ucast a < CH32_ETH_RAM_BASE" and off: "unat (ucast a - CH32_ETH_RAM_BASE) = ram_off a"
      using a base by (simp_all add: word_less_nat_alt unat_sub word_le_nat_alt ram_off_def)
    show ?thesis
    proof (cases "ram_off a \<le> length ram")
      case True
      then have "unat (of_nat (length ram) - (ucast a - CH32_ETH_RAM_BASE) :: u64) = length ram - ram_off a"
        using off len by (simp add: unat_sub word_le_nat_alt)
      then show ?thesis using ge off len n True \<open>0x20000000 \<le> unat a\<close>
        by (auto simp: ch32_eth_span_in_main_sram_def sz Let_def word_less_nat_alt ram_span_def)
    next
      case False
      then show ?thesis using ge off len
        by (auto simp: ch32_eth_span_in_main_sram_def sz Let_def word_less_nat_alt ram_span_def)
    qed
  next
    case False
    then show ?thesis using a base
      by (auto simp: ch32_eth_span_in_main_sram_def sz word_less_nat_alt ram_span_def)
  qed
qed

lemma ptr_in_main_sram:
  assumes "ram_sized rsz ram" "ram_span ram a n"
  shows "ch32_eth_ptr_in_main_sram rsz a"
proof -
  have "ram_span ram a 1" using assms(2) by (auto simp: ram_span_def)
  then show ?thesis using span_in_main_sram[OF assms(1), of 1 a] by (simp add: ch32_eth_ptr_in_main_sram_def)
qed

lemma desc_read_ram:
  assumes "ram_backed rd wr" "ram_span (m_ram m) da 16"
  shows "ch32_eth_desc_read rd da m =
    ((ram_word (m_ram m) (ram_off da), ram_word (m_ram m) (ram_off da + 4),
      ram_word (m_ram m) (ram_off da + 8), ram_word (m_ram m) (ram_off da + 12)), m)"
  by (simp add: ch32_eth_desc_read_def ram_backedD(1)[OF assms] ram_word_def drop_take add.commute)

lemma desc_write_ram:
  assumes "ram_backed rd wr" "ram_span (m_ram m) da 16"
  shows "ch32_eth_desc_write_status wr da w m =
    m\<lparr>m_ram := mem_store (ram_off da) (le_bytes 4 w) (m_ram m)\<rparr>"
proof -
  have "ram_span (m_ram m) da (length (le_bytes 4 w))" using assms(2) by (auto simp: ram_span_def)
  from ram_backedD(2)[OF assms(1) this] show ?thesis by (simp add: ch32_eth_desc_write_status_def)
qed

section \<open>What raising a status bit leaves alone\<close>

definition has_eth :: "machine \<Rightarrow> bool" where
  "has_eth m \<longleftrightarrow> m_eth m \<noteq> None"

lemma has_eth_some [simp]: "has_eth m \<Longrightarrow> (m_eth m = None) = False"
  by (simp add: has_eth_def)

declare option.map_sel [simp]

lemma has_eth_frame [simp]:
  "has_eth (eth_upd f m) = has_eth m" "has_eth (m_ram_update g m) = has_eth m"
  "has_eth (net_out_update k m) = has_eth m" "has_eth (m_eth_update (map_option f \<circ> map_option f2) m) = has_eth m"
  by (simp_all add: has_eth_def)

lemma eth_resync_frame [simp]:
  "m_ram (ch32_eth_meip_resync rescan m) = m_ram m" "net_out (ch32_eth_meip_resync rescan m) = net_out m"
  "clock_ns (ch32_eth_meip_resync rescan m) = clock_ns m"
  "has_eth (ch32_eth_meip_resync rescan m) = has_eth m"
proof -
  have v: "meip_view (ch32_eth_meip_resync rescan m) = meip_view m"
    by (rule eth.frame) (rule pending_view)
  show "m_ram (ch32_eth_meip_resync rescan m) = m_ram m" "net_out (ch32_eth_meip_resync rescan m) = net_out m"
    "clock_ns (ch32_eth_meip_resync rescan m) = clock_ns m"
    using arg_cong[OF v, of m_ram] arg_cong[OF v, of net_out] arg_cong[OF v, of clock_ns]
    by (simp_all add: meip_view_def)
  show "has_eth (ch32_eth_meip_resync rescan m) = has_eth m"
    using view_fields(14)[OF v] unfolding has_eth_def by (metis option.map_disc_iff)
qed

lemma eth_resync_core:
  "eth_irq_active_update (\<lambda>_. False) (eth (ch32_eth_meip_resync rescan m)) =
   eth_irq_active_update (\<lambda>_. False) (eth m)"
proof (cases "m_eth m")
  case None
  then show ?thesis by (simp add: ch32_eth_meip_resync_def)
next
  case (Some s)
  have v: "meip_view (ch32_eth_meip_resync rescan m) = meip_view m"
    by (rule eth.frame) (rule pending_view)
  show ?thesis using view_fields(14)[OF v] Some by (cases "m_eth (ch32_eth_meip_resync rescan m)") auto
qed

lemma eth_resync_fields [simp]:
  "mmio_w (eth (ch32_eth_meip_resync rescan m)) = mmio_w (eth m)"
  "rx_stash (eth (ch32_eth_meip_resync rescan m)) = rx_stash (eth m)"
  "tx_cur_desc (eth (ch32_eth_meip_resync rescan m)) = tx_cur_desc (eth m)"
  "rx_cur_desc (eth (ch32_eth_meip_resync rescan m)) = rx_cur_desc (eth m)"
  "bh_scheduled (eth (ch32_eth_meip_resync rescan m)) = bh_scheduled (eth m)"
  using arg_cong[OF eth_resync_core[of m], of mmio_w] arg_cong[OF eth_resync_core[of m], of rx_stash]
    arg_cong[OF eth_resync_core[of m], of tx_cur_desc] arg_cong[OF eth_resync_core[of m], of rx_cur_desc]
    arg_cong[OF eth_resync_core[of m], of bh_scheduled]
  by simp_all

lemma dmasr_raise_fields [simp]:
  assumes "has_eth m"
  shows "rx_stash (eth (ch32_eth_dmasr_raise rescan b m)) = rx_stash (eth m)"
    "tx_cur_desc (eth (ch32_eth_dmasr_raise rescan b m)) = tx_cur_desc (eth m)"
    "rx_cur_desc (eth (ch32_eth_dmasr_raise rescan b m)) = rx_cur_desc (eth m)"
    "bh_scheduled (eth (ch32_eth_dmasr_raise rescan b m)) = bh_scheduled (eth m)"
    "mmio_w (eth (ch32_eth_dmasr_raise rescan b m)) = arr_upd CH32_ETH_DMASR_W
       (\<lambda>w. w OR (b AND NOT (CH32_ETH_DMA_IT_NIS OR CH32_ETH_DMA_IT_AIS))) (mmio_w (eth m))"
  using assms by (simp_all add: ch32_eth_dmasr_raise_def ch32_eth_update_irq_def)

lemma dmasr_raise_frame [simp]:
  "has_eth (ch32_eth_dmasr_raise rescan b m) = has_eth m"
  "m_ram (ch32_eth_dmasr_raise rescan b m) = m_ram m" "net_out (ch32_eth_dmasr_raise rescan b m) = net_out m"
  by (simp_all add: ch32_eth_dmasr_raise_def ch32_eth_update_irq_def)


section \<open>Transmission\<close>

text \<open>
  A chain of frames the driver has queued, as seen from the descriptor \<open>da\<close>: each item is a
  descriptor, the address of its buffer and the frame in it.
\<close>

type_synonym tx_item = "u32 \<times> u32 \<times> u8 list"

definition tx_ready :: "u8 list \<Rightarrow> tx_item \<Rightarrow> bool" where
  "tx_ready ram item =
     (let (da, buf, pkt) = item in
      ram_span ram da 16 \<and> bit (ram_word ram (ram_off da)) DMA_OWN \<and>
      unat (ram_word ram (ram_off da + 4) AND 0x1fff) = length pkt \<and> length pkt \<le> CH32_ETH_PKT_MAX \<and>
      ram_word ram (ram_off da + 8) = buf \<and> ram_span ram buf (length pkt) \<and>
      take (length pkt) (drop (ram_off buf) ram) = pkt)"

definition tx_after :: "u64 option \<Rightarrow> u32 \<Rightarrow> u8 list \<Rightarrow> u32 \<Rightarrow> u32" where
  "tx_after rsz base ram da = eth_next_desc rsz base (ram_word ram (ram_off da + 12))"

fun tx_queued :: "u64 option \<Rightarrow> u32 \<Rightarrow> u8 list \<Rightarrow> u32 \<Rightarrow> tx_item list \<Rightarrow> bool" where
  "tx_queued rsz base ram da [] \<longleftrightarrow> ram_span ram da 16"
| "tx_queued rsz base ram da (item # items) \<longleftrightarrow>
     da = fst item \<and> tx_ready ram item \<and> tx_queued rsz base ram (tx_after rsz base ram da) items"

fun tx_end :: "u64 option \<Rightarrow> u32 \<Rightarrow> u8 list \<Rightarrow> u32 \<Rightarrow> tx_item list \<Rightarrow> u32" where
  "tx_end rsz base ram da [] = da"
| "tx_end rsz base ram da (item # items) = tx_end rsz base ram (tx_after rsz base ram da) items"

text \<open>No descriptor overlaps another one or a buffer that is sent after it.\<close>

fun tx_areas :: "tx_item list \<Rightarrow> (nat \<times> nat) list" where
  "tx_areas [] = []"
| "tx_areas ((da, buf, pkt) # items) = (ram_off da, 16) # (ram_off buf, length pkt) # tx_areas items"

fun tx_separate :: "tx_item list \<Rightarrow> bool" where
  "tx_separate [] \<longleftrightarrow> True"
| "tx_separate ((da, buf, pkt) # items) \<longleftrightarrow>
     list_all (apart (ram_off da, 16)) (tx_areas items) \<and> tx_separate items"

definition tx_release :: "u32 \<Rightarrow> u8 list \<Rightarrow> u8 list" where
  "tx_release da ram =
     mem_store (ram_off da) (le_bytes 4 (ram_word ram (ram_off da) AND NOT (one_bit DMA_OWN))) ram"

lemma apart_shrink:
  "apart (a, n) (b, k) \<Longrightarrow> n' \<le> n \<Longrightarrow> i + k' \<le> k \<Longrightarrow> apart (a, n') (b + i, k')"
  by (auto simp: apart_def)

lemma tx_release_word:
  assumes "ram_span ram d 16" "apart (ram_off d, 16) (ram_off da, 16)" "i + 4 \<le> 16"
  shows "ram_word (tx_release d ram) (ram_off da + i) = ram_word ram (ram_off da + i)"
  unfolding tx_release_def
proof (rule ram_word_apart)
  show "ram_span ram d 4" using assms(1) by (auto simp: ram_span_def)
  show "apart (ram_off d, 4) (ram_off da + i, 4)" using apart_shrink[OF assms(2), of 4 i 4] assms(3) by simp
qed

lemma tx_release_span [simp]:
  "ram_span ram d 16 \<Longrightarrow> ram_span (tx_release d ram) a n = ram_span ram a n"
  "ram_span ram d 16 \<Longrightarrow> length (tx_release d ram) = length ram"
  by (simp_all add: tx_release_def ram_span_def length_mem_store)

lemma tx_release_ready:
  assumes "ram_span ram d 16" "tx_ready ram (da, buf, pkt)"
    "apart (ram_off d, 16) (ram_off da, 16)" "apart (ram_off d, 16) (ram_off buf, length pkt)"
  shows "tx_ready (tx_release d ram) (da, buf, pkt)"
proof -
  note w = tx_release_word[OF assms(1,3)]
  have "ram_span ram d 4" "apart (ram_off d, 4) (ram_off buf, length pkt)"
    using assms(1) apart_shrink[OF assms(4), of 4 0 "length pkt"] by (auto simp: ram_span_def)
  from store_word_apart[OF this] have "take (length pkt) (drop (ram_off buf) (tx_release d ram)) =
      take (length pkt) (drop (ram_off buf) ram)"
    by (simp add: tx_release_def)
  then show ?thesis using assms(1,2) w[of 0] w[of 4] w[of 8] by (simp add: tx_ready_def)
qed

lemma tx_release_queued:
  assumes "ram_span ram d 16" "tx_queued rsz base ram da items"
    "list_all (apart (ram_off d, 16)) (tx_areas items)"
  shows "tx_queued rsz base (tx_release d ram) da items \<and>
    tx_end rsz base (tx_release d ram) da items = tx_end rsz base ram da items"
  using assms(2,3)
proof (induction items arbitrary: da)
  case Nil
  then show ?case using assms(1) by simp
next
  case (Cons item items)
  obtain a buf pkt where i: "item = (a, buf, pkt)" by (cases item) auto
  have da: "da = a" using Cons.prems(1) i by simp
  have w: "ram_word (tx_release d ram) (ram_off da + 12) = ram_word ram (ram_off da + 12)"
    using Cons.prems(2) i da by (intro tx_release_word[OF assms(1)]) simp_all
  then have n: "tx_after rsz base (tx_release d ram) da = tx_after rsz base ram da"
    by (simp add: tx_after_def)
  have "tx_ready (tx_release d ram) item"
    using Cons.prems i by (auto intro: tx_release_ready[OF assms(1)])
  then show ?case using Cons.IH[of "tx_after rsz base ram da"] Cons.prems i da n by simp
qed


text \<open>One iteration over a ready descriptor.\<close>

lemma tx_loop_step:
  assumes m: "has_eth m" "ram_backed (eh_read h) (eh_write h)" "ram_sized (eh_ram h) (m_ram m)"
    and q: "tx_ready (m_ram m) (da, buf, pkt)" "tx_cur_desc (eth m) = da"
  shows "\<exists>m1. eth_tx_loop rescan h base (Suc n) m = eth_tx_loop rescan h base n m1 \<and> has_eth m1 \<and>
    tx_cur_desc (eth m1) = tx_after (eh_ram h) base (m_ram m) da \<and> m_ram m1 = tx_release da (m_ram m) \<and>
    net_out m1 = net_out m @ [ch32_eth_tx_coe (eh_lib h) (ram_word (m_ram m) (ram_off da)) pkt]"
proof -
  let ?ram = "m_ram m"
  have sp: "ram_span ?ram da 16" and buf: "ram_span ?ram buf (length pkt)"
    and r: "bit (ram_word ?ram (ram_off da)) DMA_OWN" "unat (ram_word ?ram (ram_off da + 4) AND 0x1fff) = length pkt"
      "length pkt \<le> CH32_ETH_PKT_MAX" "ram_word ?ram (ram_off da + 8) = buf"
      "take (length pkt) (drop (ram_off buf) ?ram) = pkt"
    using q(1) by (simp_all add: tx_ready_def)
  have len: "0 < length pkt" "length pkt < 2 ^ 32"
    using buf r(3) by (simp_all add: ram_span_def CH32_ETH_PKT_MAX_def)
  define w where "w = ram_word ?ram (ram_off da)"
  let ?sent = "m\<lparr>net_out := net_out m @ [ch32_eth_tx_coe (eh_lib h) w pkt]\<rparr>"
  let ?done = "?sent\<lparr>m_ram := tx_release da ?ram\<rparr>"
  let ?m1 = "eth_upd (tx_cur_desc_update (\<lambda>_. tx_after (eh_ram h) base ?ram da))
    (ch32_eth_dmasr_raise rescan CH32_ETH_DMA_IT_T ?done)"
  have wr: "ch32_eth_desc_write_status (eh_write h) da (w AND NOT (one_bit DMA_OWN)) ?sent = ?done"
    using desc_write_ram[OF m(2), of ?sent da] sp by (simp add: tx_release_def w_def)
  have "eth_tx_loop rescan h base (Suc n) m = eth_tx_loop rescan h base n ?m1"
    using ptr_in_main_sram[OF m(3) sp] q(2) r desc_read_ram[OF m(2) sp] len(1) ram_backedD(1)[OF m(2) buf]
      span_in_main_sram[OF m(3) len(2), of buf] buf wr
    by (simp add: w_def tx_after_def)
  then show ?thesis using m(1) by (intro exI[of _ ?m1]) (simp add: w_def)
qed

lemma tx_loop_stops:
  assumes m: "has_eth m" "ram_backed (eh_read h) (eh_write h)" "ram_sized (eh_ram h) (m_ram m)"
    and q: "ram_span (m_ram m) da 16" "\<not> bit (ram_word (m_ram m) (ram_off da)) DMA_OWN" "tx_cur_desc (eth m) = da"
  shows "eth_tx_loop rescan h base n m = m"
  using ptr_in_main_sram[OF m(3) q(1)] q(2,3) desc_read_ram[OF m(2) q(1)] by (cases n) simp_all

fun tx_ram :: "tx_item list \<Rightarrow> u8 list \<Rightarrow> u8 list" where
  "tx_ram [] ram = ram"
| "tx_ram (item # items) ram = tx_ram items (tx_release (fst item) ram)"

fun tx_frames :: "net_lib \<Rightarrow> u8 list \<Rightarrow> tx_item list \<Rightarrow> u8 list list" where
  "tx_frames lib ram [] = []"
| "tx_frames lib ram ((da, buf, pkt) # items) =
     ch32_eth_tx_coe lib (ram_word ram (ram_off da)) pkt # tx_frames lib ram items"

lemma tx_frames_release:
  assumes "ram_span ram d 16" "list_all (apart (ram_off d, 16)) (tx_areas items)"
  shows "tx_frames lib (tx_release d ram) items = tx_frames lib ram items"
  using assms(2)
proof (induction items)
  case (Cons item items)
  then show ?case using tx_release_word[OF assms(1), of "fst item" 0] by (cases item) simp
qed simp

lemma tx_loop_sends:
  assumes m: "has_eth m" "ram_backed (eh_read h) (eh_write h)" "ram_sized (eh_ram h) (m_ram m)"
    and q: "tx_cur_desc (eth m) = da" "tx_queued (eh_ram h) base (m_ram m) da items"
      "tx_separate items"
      "\<not> bit (ram_word (tx_ram items (m_ram m)) (ram_off (tx_end (eh_ram h) base (m_ram m) da items))) DMA_OWN"
    and n: "length items \<le> n"
  shows "\<exists>m1. eth_tx_loop rescan h base n m = m1 \<and> has_eth m1 \<and> m_ram m1 = tx_ram items (m_ram m) \<and>
    tx_cur_desc (eth m1) = tx_end (eh_ram h) base (m_ram m) da items \<and>
    net_out m1 = net_out m @ tx_frames (eh_lib h) (m_ram m) items"
  using assms(1,3-)
proof (induction items arbitrary: m da n)
  case Nil
  then show ?case using tx_loop_stops[OF Nil.prems(1) m(2) Nil.prems(2), of da] by simp
next
  case (Cons item items)
  obtain a buf pkt where i: "item = (a, buf, pkt)" by (cases item) auto
  have da: "da = a" using Cons.prems(4) i by simp
  let ?ram = "m_ram m" and ?r = "eh_ram h"
  let ?nx = "tx_after ?r base ?ram da"
  let ?stop = "tx_end ?r base ?ram ?nx items"
  have ready: "tx_ready ?ram (da, buf, pkt)" and sp: "ram_span ?ram da 16"
    using Cons.prems(4) i da by (simp_all add: tx_ready_def)
  obtain k where k: "n = Suc k" "length items \<le> k" using Cons.prems(7) by (cases n) auto
  obtain m1 where m1: "eth_tx_loop rescan h base n m = eth_tx_loop rescan h base k m1" "has_eth m1"
    "tx_cur_desc (eth m1) = ?nx" "m_ram m1 = tx_release da ?ram"
    "net_out m1 = net_out m @ [ch32_eth_tx_coe (eh_lib h) (ram_word ?ram (ram_off da)) pkt]"
    using tx_loop_step[OF Cons.prems(1) m(2) Cons.prems(2) ready Cons.prems(3), of base k] k(1) by auto
  have ap: "list_all (apart (ram_off da, 16)) (tx_areas items)" "tx_separate items"
    using Cons.prems(5) i da by simp_all
  have Q: "tx_queued ?r base (m_ram m1) ?nx items" "tx_end ?r base (m_ram m1) ?nx items = ?stop"
    using tx_release_queued[OF sp _ ap(1), of ?r base ?nx] Cons.prems(4) unfolding m1(4) by auto
  have sized: "ram_sized ?r (m_ram m1)"
    using Cons.prems(2) sp by (simp add: ram_sized_def m1(4))
  have own: "\<not> bit (ram_word (tx_ram items (m_ram m1)) (ram_off ?stop)) DMA_OWN"
    using Cons.prems(6) i da by (simp add: m1(4))
  show ?case
    using Cons.IH[OF m1(2) sized m1(3) Q(1) ap(2) _ k(2)] own m1 Q(2) i da
      tx_frames_release[OF sp ap(1), of "eh_lib h"]
    by simp
qed


lemma tx_ram_apart:
  assumes "list_all (\<lambda>i. ram_span ram (fst i) 16) items" "list_all (apart (ram_off d, 16)) (tx_areas items)"
  shows "ram_word (tx_ram items ram) (ram_off d) = ram_word ram (ram_off d)"
  using assms
proof (induction items arbitrary: ram)
  case (Cons item items)
  have "apart (ram_off (fst item), 16) (ram_off d, 16)"
    using Cons.prems(2) apart_sym[of "(ram_off d, 16)" "(ram_off (fst item), 16)"] by (cases item) simp
  then have "ram_word (tx_release (fst item) ram) (ram_off d + 0) = ram_word ram (ram_off d + 0)"
    using Cons.prems(1) by (intro tx_release_word) simp_all
  then show ?case using Cons by (cases item) (simp add: list_all_iff)
qed simp

lemma tx_ram_released:
  assumes "list_all (\<lambda>i. ram_span ram (fst i) 16) items" "tx_separate items" "item \<in> set items"
  shows "ram_word (tx_ram items ram) (ram_off (fst item)) =
    ram_word ram (ram_off (fst item)) AND NOT (one_bit DMA_OWN)"
  using assms
proof (induction items arbitrary: ram)
  case (Cons i items)
  obtain a buf pkt where i: "i = (a, buf, pkt)" by (cases i) auto
  have sp: "ram_span ram a 16" using Cons.prems(1) i by simp
  have all: "list_all (\<lambda>j. ram_span (tx_release a ram) (fst j) 16) items"
    using Cons.prems(1) i sp by (simp add: list_all_iff)
  show ?case
  proof (cases "item = i")
    case True
    have "ram_span ram a 4" using sp by (auto simp: ram_span_def)
    then show ?thesis using tx_ram_apart[OF all, of a] Cons.prems(2) True i
      by (simp add: tx_release_def ram_word_store)
  next
    case False
    then have mem: "item \<in> set items" using Cons.prems(3) by simp
    then have "(ram_off (fst item), 16) \<in> set (tx_areas items)" by (induction items) auto
    then have "ram_word (tx_release a ram) (ram_off (fst item) + 0) = ram_word ram (ram_off (fst item) + 0)"
      using Cons.prems(2) i by (intro tx_release_word[OF sp]) (auto simp: list_all_iff)
    then show ?thesis using Cons.IH[OF all _ mem] Cons.prems(2) i by simp
  qed
qed simp

lemma tx_ram_other:
  assumes "list_all (\<lambda>i. ram_span ram (fst i) 16) items" "k < length ram"
    "list_all (\<lambda>i. k < ram_off (fst i) \<or> ram_off (fst i) + 4 \<le> k) items"
  shows "tx_ram items ram ! k = ram ! k"
  using assms
proof (induction items arbitrary: ram)
  case (Cons item items)
  have sp: "ram_span ram (fst item) 16" using Cons.prems(1) by simp
  then have "tx_release (fst item) ram ! k = ram ! k"
    using Cons.prems(2,3) unfolding tx_release_def
    by (intro mem_store_outside) (auto simp: ram_span_def)
  moreover have "list_all (\<lambda>j. ram_span (tx_release (fst item) ram) (fst j) 16) items"
    using Cons.prems(1) sp by (simp add: list_all_iff)
  ultimately show ?case using Cons.IH[of "tx_release (fst item) ram"] Cons.prems(2,3) sp by simp
qed simp

lemma tx_queued_spans: "tx_queued rsz base ram da items \<Longrightarrow> list_all (\<lambda>i. ram_span ram (fst i) 16) items"
  by (induction items arbitrary: da) (auto simp: tx_ready_def)

text \<open>The descriptor the engine looks at first.\<close>

definition tx_first :: "eth_state \<Rightarrow> u32" where
  "tx_first s = (if tx_cur_desc s = 0 then mmio_w s ! ETH_DMATDLAR else tx_cur_desc s)"

text \<open>C6. The transmit engine sends exactly the frames of the chain the driver has queued, in the order
  of the chain and after checksum offload; it returns each of their descriptors with only the
  ownership bit cleared, changes no other byte of the memory and stops at the descriptor behind them.
  The rings and buffers are in the main memory, no descriptor overlaps another or a buffer sent
  later, and the chain has at most sixteen frames.\<close>

theorem tx_ring_sends_in_order:
  assumes "has_eth m" "ram_backed (eh_read h) (eh_write h)" "ram_sized (eh_ram h) (m_ram m)" "eh_peer h"
    and "bit (mmio_w (eth m) ! ETH_DMAOMR) DMAOMR_ST"
    and "ram_span (m_ram m) (mmio_w (eth m) ! ETH_DMATDLAR) 16"
    and "tx_queued (eh_ram h) (mmio_w (eth m) ! ETH_DMATDLAR) (m_ram m) (tx_first (eth m)) items"
    and "tx_separate items" "length items \<le> CH32_ETH_MAX_RING"
    and "stop = tx_end (eh_ram h) (mmio_w (eth m) ! ETH_DMATDLAR) (m_ram m) (tx_first (eth m)) items"
    and "\<not> bit (ram_word (tx_ram items (m_ram m)) (ram_off stop)) DMA_OWN"
    and "m' = ch32_eth_process_tx rescan h m"
  shows "net_out m' = net_out m @ tx_frames (eh_lib h) (m_ram m) items \<and> tx_cur_desc (eth m') = stop \<and>
    (\<forall>item \<in> set items. ram_word (m_ram m') (ram_off (fst item)) =
       ram_word (m_ram m) (ram_off (fst item)) AND NOT (one_bit DMA_OWN)) \<and>
    (\<forall>k < length (m_ram m). list_all (\<lambda>i. k < ram_off (fst i) \<or> ram_off (fst i) + 4 \<le> k) items \<longrightarrow>
       m_ram m' ! k = m_ram m ! k)"
proof -
  let ?base = "mmio_w (eth m) ! ETH_DMATDLAR"
  let ?m = "if tx_cur_desc (eth m) = 0 then eth_upd (tx_cur_desc_update (\<lambda>_. ?base)) m else m"
  have M: "has_eth ?m" "m_ram ?m = m_ram m" "net_out ?m = net_out m" "tx_cur_desc (eth ?m) = tx_first (eth m)"
    using assms(1) by (simp_all add: tx_first_def)
  obtain m1 where m1: "eth_tx_loop rescan h ?base CH32_ETH_MAX_RING ?m = m1" "has_eth m1"
    "m_ram m1 = tx_ram items (m_ram m)" "tx_cur_desc (eth m1) = stop"
    "net_out m1 = net_out m @ tx_frames (eh_lib h) (m_ram m) items"
    using tx_loop_sends[OF M(1) assms(2) _ M(4), of ?base items CH32_ETH_MAX_RING] assms(3,7-11) M(2,3) by auto
  have "m' = m1"
    using assms(4,5,12) ptr_in_main_sram[OF assms(3,6)] m1(1) by (simp add: ch32_eth_process_tx_def Let_def)
  then show ?thesis
    using m1 tx_ram_released[OF tx_queued_spans[OF assms(7)] assms(8)]
      tx_ram_other[OF tx_queued_spans[OF assms(7)]] by simp
qed


text \<open>A driver with one queued frame of two bytes and a free descriptor behind it.\<close>

definition eth_zero :: eth_state where
  "eth_zero = \<lparr>eth_poll = Timer_idle, poll_active = False, bh_scheduled = False, poll_idle_count = 0,
     mmio_w = replicate 1536 0, phy_reg = replicate 32 0, phy_bcr = 0x3100, phy_bsr = 0x7809,
     rx_stash = [], tx_cur_desc = 0, rx_cur_desc = 0, eth_irq_active = False,
     phy_link_up_deadline_ns = 0, phy_link_irq_injected = False, the_phy_variant = CH32_ETH_PHY_CH182,
     rtl8211f_page = 0, rtl8211f_mmd_ctrl = 0, rtl8211f_mmd_addr = 0\<rparr>"

definition eth_sample_ram :: "u8 list" where
  "eth_sample_ram =
     [0, 0, 0, 0x80, 2, 0, 0, 0, 0x40, 0, 0, 0x20, 0x10, 0, 0, 0x20,
      0, 0, 0, 0, 0, 0, 0, 0, 0, 0, 0, 0, 0, 0, 0, 0] @ replicate 32 0 @ [7, 9, 0, 0]"

definition eth_sample :: machine where
  "eth_sample = machine_zero\<lparr>
     m_eth := Some (eth_zero\<lparr>mmio_w := (replicate 1536 0)
       [ETH_DMATDLAR := 0x20000000, ETH_DMARDLAR := 0x20000000,
        ETH_DMAOMR := one_bit DMAOMR_ST OR one_bit DMAOMR_SR], rx_stash := [1, 2, 3]\<rparr>),
     m_ram := eth_sample_ram\<rparr>"

definition eth_sample_host :: eth_host where
  "eth_sample_host = \<lparr>eh_read = ram_read, eh_write = ram_write, eh_ram = Some 68, eh_peer = True,
     eh_lib = \<lparr>ip_header_version = (\<lambda>_. 4), ip_hdr_get_len = (\<lambda>_. 20), ip_total_len = length,
       ip_protocol = (\<lambda>_. 0), net_checksum_calculate = (\<lambda>_ p. p), net_checksum_add = (\<lambda>_. 0),
       net_checksum_finish = ucast\<rparr>, eh_flush = (\<lambda>m. m)\<rparr>"

lemma eth_sample_facts:
  "has_eth eth_sample" "ram_backed (eh_read eth_sample_host) (eh_write eth_sample_host)"
  "ram_sized (eh_ram eth_sample_host) (m_ram eth_sample)" "eh_peer eth_sample_host"
  "m_ram eth_sample = eth_sample_ram" "net_out eth_sample = []" "length (mmio_w (eth eth_sample)) = 1536"
  "mmio_w (eth eth_sample) ! ETH_DMATDLAR = 0x20000000" "mmio_w (eth eth_sample) ! ETH_DMARDLAR = 0x20000000"
  "mmio_w (eth eth_sample) ! ETH_DMAOMR = one_bit DMAOMR_ST OR one_bit DMAOMR_SR"
  "tx_cur_desc (eth eth_sample) = 0" "rx_cur_desc (eth eth_sample) = 0" "rx_stash (eth eth_sample) = [1, 2, 3]"
  by (simp_all add: has_eth_def eth_sample_def eth_sample_host_def ram_backed_model ram_sized_def
      eth_sample_ram_def machine_zero_def eth_zero_def)

theorem tx_ring_sends_in_order_witness:
  "net_out (ch32_eth_process_tx rescan eth_sample_host eth_sample) = [[7, 9]] \<and>
   tx_cur_desc (eth (ch32_eth_process_tx rescan eth_sample_host eth_sample)) = 0x20000010"
proof -
  let ?items = "[(0x20000000, 0x20000040, [7, 9])] :: tx_item list" and ?b = "0x20000000 :: u32"
  have first: "tx_first (eth eth_sample) = ?b" by (simp add: tx_first_def eth_sample_facts)
  have st: "bit (mmio_w (eth eth_sample) ! ETH_DMAOMR) DMAOMR_ST"
    by (simp add: eth_sample_facts bit_or_iff)
  note E = eth_sample_ram_def ram_span_def ram_off_def ram_word_def tx_ready_def tx_after_def
    CH32_ETH_PKT_MAX_def eth_next_desc_def ch32_eth_ptr_in_main_sram_def ch32_eth_span_in_main_sram_def
    CH32_ETH_RAM_BASE_def
  have g1: "ram_span eth_sample_ram ?b 16" by (simp add: E)
  have g2: "tx_queued (Some 68) ?b eth_sample_ram ?b ?items" by (simp add: E)
  have g3: "tx_separate ?items" by simp
  have g4: "tx_end (Some 68) ?b eth_sample_ram ?b ?items = 0x20000010" by (simp add: E)
  have g5: "\<not> bit (ram_word (tx_ram ?items eth_sample_ram) (ram_off 0x20000010)) DMA_OWN"
    by (simp add: E tx_release_def mem_store_def)
  have g6: "tx_frames (eh_lib eth_sample_host) eth_sample_ram ?items = [[7, 9]]"
    by (simp add: E ch32_eth_tx_coe_def CH32_ETH_DMATX_CIC_M_def)
  note g = g1 g2 g3 g4 g5 g6
  have h: "eh_ram eth_sample_host = Some 68" "ram_sized (Some 68) eth_sample_ram"
    by (simp_all add: eth_sample_host_def ram_sized_def eth_sample_ram_def)
  show ?thesis
    using tx_ring_sends_in_order[of eth_sample eth_sample_host ?items "0x20000010"
        "ch32_eth_process_tx rescan eth_sample_host eth_sample"] g st
    by (simp add: eth_sample_facts first h CH32_ETH_MAX_RING_def)
qed


section \<open>Reception\<close>

text \<open>Descriptors of the driver that the cursor passes over on its way to \<open>da\<close>.\<close>

fun rx_skips :: "u64 option \<Rightarrow> u32 \<Rightarrow> u8 list \<Rightarrow> u32 \<Rightarrow> u32 list \<Rightarrow> u32 \<Rightarrow> bool" where
  "rx_skips rsz base ram a [] da \<longleftrightarrow> a = da"
| "rx_skips rsz base ram a (d # ds) da \<longleftrightarrow>
     a = d \<and> ram_span ram d 16 \<and> \<not> bit (ram_word ram (ram_off d)) DMA_OWN \<and>
     rx_skips rsz base ram (tx_after rsz base ram d) ds da"

lemma rx_loop_skips:
  assumes "has_eth m" "ram_backed (eh_read h) (eh_write h)" "ram_sized (eh_ram h) (m_ram m)"
    and "rx_skips (eh_ram h) base (m_ram m) (rx_cur_desc (eth m)) ds da"
  shows "\<exists>m1. eth_rx_loop r h base (length ds + n) m = eth_rx_loop r h base n m1 \<and> has_eth m1 \<and>
    rx_cur_desc (eth m1) = da \<and> m_ram m1 = m_ram m \<and> rx_stash (eth m1) = rx_stash (eth m) \<and>
    mmio_w (eth m1) = mmio_w (eth m)"
  using assms(1,3,4)
proof (induction ds arbitrary: m)
  case (Cons d ds)
  let ?m = "eth_upd (rx_cur_desc_update (\<lambda>_. tx_after (eh_ram h) base (m_ram m) d)) m"
  have d: "rx_cur_desc (eth m) = d" "ram_span (m_ram m) d 16" "\<not> bit (ram_word (m_ram m) (ram_off d)) DMA_OWN"
    using Cons.prems(3) by simp_all
  have "eth_rx_loop r h base (length (d # ds) + n) m = eth_rx_loop r h base (length ds + n) ?m"
    using ptr_in_main_sram[OF Cons.prems(2) d(2)] desc_read_ram[OF assms(2) d(2)] d by (simp add: tx_after_def)
  moreover have "has_eth ?m" "m_ram ?m = m_ram m" "rx_cur_desc (eth ?m) = tx_after (eh_ram h) base (m_ram m) d"
    "rx_stash (eth ?m) = rx_stash (eth m)" "mmio_w (eth ?m) = mmio_w (eth m)"
    using Cons.prems(1) by simp_all
  ultimately show ?case using Cons.IH[of ?m] Cons.prems(2,3) by simp
qed (auto intro: exI)

lemma eth_rx_status_fields:
  assumes "n \<le> CH32_ETH_PKT_MAX"
  shows "unat (drop_bit 16 (eth_rx_status n) AND 0x3fff) = n + 4" "\<not> bit (eth_rx_status n) DMA_OWN"
proof -
  have n: "unat (of_nat n + 4 :: u32) = n + 4"
    using assms unat_of_nat_small[of "n + 4", where 'a = 32] by (simp add: CH32_ETH_PKT_MAX_def)
  have "unat (take_bit 14 (of_nat n + 4 :: u32)) = unat (of_nat n + 4 :: u32)"
    using assms by (simp add: unsigned_take_bit_eq n take_bit_nat_eq_self CH32_ETH_PKT_MAX_def)
  then have small: "take_bit 14 (of_nat n + 4 :: u32) = of_nat n + 4" by (simp only: word_unat_eq_iff)
  have mask: "(0x3fff :: u32) = mask 14" by (simp add: mask_eq_exp_minus_1)
  have "drop_bit 16 (eth_rx_status n) = drop_bit 16 (push_bit 16 (of_nat n + 4)) AND mask 15"
    unfolding eth_rx_status_def drop_bit_and drop_bit_or by (simp add: mask_eq_exp_minus_1)
  then have "drop_bit 16 (eth_rx_status n) AND mask 14 = take_bit 14 (of_nat n + 4)"
    unfolding take_bit_eq_mask by (intro bit_word_eqI) (auto simp: bit_simps)
  then show "unat (drop_bit 16 (eth_rx_status n) AND 0x3fff) = n + 4"
    using n by (simp only: mask small)
  show "\<not> bit (eth_rx_status n) DMA_OWN"
    by (simp add: eth_rx_status_def bit_simps)
qed


definition rx_first :: "eth_state \<Rightarrow> u32" where
  "rx_first s = (if rx_cur_desc s = 0 then mmio_w s ! ETH_DMARDLAR else rx_cur_desc s)"

lemma rx_loop_delivers:
  assumes m: "has_eth m" "ram_backed (eh_read h) (eh_write h)" "ram_sized (eh_ram h) (m_ram m)"
    and f: "rx_stash (eth m) = frame" "frame \<noteq> []" "length frame \<le> CH32_ETH_PKT_MAX"
    and d: "rx_cur_desc (eth m) = da" "ram_span (m_ram m) da 16" "bit (ram_word (m_ram m) (ram_off da)) DMA_OWN"
      "ram_word (m_ram m) (ram_off da + 8) = buf" "ram_span (m_ram m) buf (length frame)"
  shows "\<exists>m1. eth_rx_loop rescan h base (Suc n) m = m1 \<and>
    m_ram m1 = mem_store (ram_off da) (le_bytes 4 (eth_rx_status (length frame)))
                 (mem_store (ram_off buf) frame (m_ram m)) \<and>
    rx_stash (eth m1) = [] \<and> rx_cur_desc (eth m1) = tx_after (eh_ram h) base (m_ram m) da \<and>
    mmio_w (eth m1) = arr_upd CH32_ETH_DMASR_W
       (\<lambda>w. w OR (CH32_ETH_DMA_IT_R AND NOT (CH32_ETH_DMA_IT_NIS OR CH32_ETH_DMA_IT_AIS))) (mmio_w (eth m))"
proof -
  have len: "length frame < 2 ^ 32" using f(3) by (simp add: CH32_ETH_PKT_MAX_def)
  let ?m2 = "m\<lparr>m_ram := mem_store (ram_off buf) frame (m_ram m)\<rparr>"
  have sp: "ram_span (m_ram ?m2) da 16"
    using d(2,5) by (simp add: ram_span_def length_mem_store)
  show ?thesis
    using ptr_in_main_sram[OF m(3) d(2)] desc_read_ram[OF m(2) d(2)] span_in_main_sram[OF m(3) len, of buf]
      ram_backedD(2)[OF m(2), of m buf frame] desc_write_ram[OF m(2) sp, of "eth_rx_status (length frame)"] d f m(1)
    by (simp add: tx_after_def)
qed




section \<open>Reception does not get stuck\<close>

definition eth_ok :: "machine \<Rightarrow> bool" where
  "eth_ok m \<longleftrightarrow> has_eth m \<and> length (rx_stash (eth m)) \<le> CH32_ETH_PKT_MAX \<and>
     (rx_stash (eth m) = [] \<or> bh_scheduled (eth m))"

text \<open>
  The network core redelivers frames it has queued through the receive callback, and an access of
  the engine that passed the check for the main memory does not reach the device itself.
\<close>

definition eth_host_ok :: "eth_host \<Rightarrow> bool" where
  "eth_host_ok h \<longleftrightarrow>
     (\<forall>m. \<exists>fs. eh_flush h m = fold (\<lambda>f m. snd (ch32_eth_net_receive f m)) fs m) \<and>
     (\<forall>a n m. ch32_eth_ptr_in_main_sram (eh_ram h) a \<longrightarrow> m_eth (snd (eh_read h a n m)) = m_eth m) \<and>
     (\<forall>a bs m. ch32_eth_ptr_in_main_sram (eh_ram h) a \<longrightarrow> m_eth (snd (eh_write h a bs m)) = m_eth m)"

inductive eth_step :: "eth_host \<Rightarrow> machine \<Rightarrow> machine \<Rightarrow> bool" for h where
  receive: "eth_step h m (snd (ch32_eth_net_receive f m))"
| bottom_half: "bh_scheduled (eth m) \<Longrightarrow> eth_step h m (ch32_eth_bh rescan h m)"
| poll: "eth_step h m (ch32_eth_poll_tick rescan m)"
| mmio_write: "eth_step h m (ch32_eth_mmio_write rescan h a v sz m)"
| dev_reset: "eth_step h m (ch32_eth_reset rescan h m)"
| clock: "clock_ns m \<le> t \<Longrightarrow> eth_step h m (m\<lparr>clock_ns := t\<rparr>)"

lemma eth_upd_ok:
  assumes "eth_ok m" "\<And>s. rx_stash (f s) = rx_stash s" "\<And>s. bh_scheduled s \<Longrightarrow> bh_scheduled (f s)"
  shows "eth_ok (eth_upd f m)"
  using assms by (auto simp: eth_ok_def)

lemma eth_drop_ok: "has_eth m \<Longrightarrow> eth_ok (eth_drop_stash m)"
  by (simp add: eth_ok_def)

lemma eth_drop_after_ok: "has_eth m \<Longrightarrow> eth_ok (m_eth_update (map_option (rx_stash_update (\<lambda>_. [])) \<circ> map_option f) m)"
  by (auto simp: eth_ok_def has_eth_def)

lemma eth_resync_ok: "eth_ok (ch32_eth_meip_resync rescan m) = eth_ok m"
  by (simp add: eth_ok_def)

lemma eth_raise_ok: "eth_ok m \<Longrightarrow> eth_ok (ch32_eth_dmasr_raise rescan b m)"
  by (simp add: eth_ok_def)

lemma eth_receive_ok: "eth_ok m \<Longrightarrow> eth_ok (snd (ch32_eth_net_receive f m))"
  by (auto simp: ch32_eth_net_receive_def eth_ok_def Let_def)

lemma eth_resume_ok:
  assumes "eth_host_ok h" "eth_ok m"
  shows "eth_ok (ch32_eth_rx_resume h m)"
proof -
  have "eth_ok (fold (\<lambda>f m. snd (ch32_eth_net_receive f m)) fs m)" for fs
    using assms(2) by (induction fs arbitrary: m) (simp_all add: eth_receive_ok)
  then show ?thesis using assms(1) unfolding ch32_eth_rx_resume_def eth_host_ok_def by metis
qed

lemma span_ptr_in_main_sram:
  assumes "ch32_eth_span_in_main_sram rsz a n" "n \<le> CH32_ETH_PKT_MAX"
  shows "ch32_eth_ptr_in_main_sram rsz a"
proof -
  have n: "n \<noteq> 0" using assms(1) by (simp add: ch32_eth_span_in_main_sram_def split: if_splits)
  have "(1 :: u64) \<le> of_nat n"
    using n assms(2) unat_of_nat_small[of n, where 'a = 64] by (simp add: word_le_nat_alt CH32_ETH_PKT_MAX_def)
  moreover from this have "(0 :: u64) < of_nat n" by (simp add: word_le_nat_alt word_less_nat_alt)
  ultimately show ?thesis
    using assms(1) by (auto simp: ch32_eth_ptr_in_main_sram_def ch32_eth_span_in_main_sram_def Let_def
        split: option.splits if_splits)
qed

text \<open>The transmit side keeps stash and bottom half as they are.\<close>

definition eth_same :: "machine \<Rightarrow> machine \<Rightarrow> bool" where
  "eth_same m m' \<longleftrightarrow> has_eth m' = has_eth m \<and> (has_eth m \<longrightarrow>
     rx_stash (eth m') = rx_stash (eth m) \<and> bh_scheduled (eth m') = bh_scheduled (eth m))"

lemma eth_same_trans: "eth_same m m' \<Longrightarrow> eth_same m' m'' \<Longrightarrow> eth_same m m''"
  by (simp add: eth_same_def)

lemma eth_same_ok: "eth_same m m' \<Longrightarrow> eth_ok m \<Longrightarrow> eth_ok m'"
  by (auto simp: eth_same_def eth_ok_def)

lemma eth_same_io:
  assumes "eth_host_ok h" "ch32_eth_ptr_in_main_sram (eh_ram h) a"
  shows "eth_same m (snd (eh_read h a n m))" "eth_same m (snd (eh_write h a bs m))"
    "eth_same m (snd (ch32_eth_desc_read (eh_read h) a m))"
    "eth_same m (ch32_eth_desc_write_status (eh_write h) a w m)"
proof -
  have eq: "m_eth m' = m_eth m \<Longrightarrow> eth_same m m'" for m' by (simp add: eth_same_def has_eth_def)
  have d: "snd (ch32_eth_desc_read (eh_read h) a m) = snd (eh_read h a 16 m)"
    by (simp add: ch32_eth_desc_read_def split: prod.splits option.splits)
  show "eth_same m (snd (eh_read h a n m))" "eth_same m (snd (eh_write h a bs m))"
    "eth_same m (snd (ch32_eth_desc_read (eh_read h) a m))"
    "eth_same m (ch32_eth_desc_write_status (eh_write h) a w m)"
    using assms by (intro eq; simp add: eth_host_ok_def d ch32_eth_desc_write_status_def)+
qed

lemma eth_same_upd:
  assumes "\<And>s. rx_stash (f s) = rx_stash s" "\<And>s. bh_scheduled (f s) = bh_scheduled s"
  shows "eth_same m (eth_upd f m)"
  using assms by (simp add: eth_same_def)

lemma eth_same_raise: "eth_same m (ch32_eth_dmasr_raise rescan b m)"
  by (simp add: eth_same_def)


lemma eth_same_net_out: "eth_same m m' \<Longrightarrow> eth_same m (m'\<lparr>net_out := x\<rparr>)"
  by (simp add: eth_same_def)

lemma eth_tx_loop_same:
  assumes "eth_host_ok h"
  shows "eth_same m (eth_tx_loop rescan h base n m)"
proof (induction n arbitrary: m)
  case 0
  then show ?case by (simp add: eth_same_def)
next
  case (Suc n)
  let ?da = "tx_cur_desc (eth m)"
  let ?adv = "\<lambda>d m. eth_upd (tx_cur_desc_update (\<lambda>_. eth_next_desc (eh_ram h) base d)) m"
  have up: "eth_same m (?adv d m)" "eth_same m (eth_upd (tx_cur_desc_update (\<lambda>_. base)) m)" for d m
    by (rule eth_same_upd; simp)+
  show ?case
  proof (cases "ch32_eth_ptr_in_main_sram (eh_ram h) ?da")
    case False
    then show ?thesis using up(2) by simp
  next
    case True
    note io = eth_same_io[OF assms True]
    obtain td0 td1 td2 td3 m1 where r: "ch32_eth_desc_read (eh_read h) ?da m = ((td0, td1, td2, td3), m1)"
      by (metis prod.exhaust)
    have s1: "eth_same m m1" using io(3)[of m] r by simp
    let ?w = "\<lambda>st x. ch32_eth_desc_write_status (eh_write h) ?da st x"
    let ?len = "unat (td1 AND 0x1fff)"
    have w: "eth_same m x \<Longrightarrow> eth_same m (?w st x)" for x st using eth_same_trans io(4) by blast
    have a: "eth_same m x \<Longrightarrow> eth_same m (?adv d x)" for x d using eth_same_trans up(1) by blast
    have ra: "eth_same m x \<Longrightarrow> eth_same m (ch32_eth_dmasr_raise rescan b x)" for x b
      using eth_same_trans eth_same_raise by blast
    have rec: "eth_same m x \<Longrightarrow> eth_same m (eth_tx_loop rescan h base n x)" for x
      using eth_same_trans Suc.IH by blast
    have rd: "eth_same m (snd (eh_read h td2 ?len m1))"
      if "ch32_eth_span_in_main_sram (eh_ram h) td2 ?len" "?len \<le> CH32_ETH_PKT_MAX"
      using eth_same_trans[OF s1] eth_same_io(1)[OF assms span_ptr_in_main_sram[OF that]] .
    show ?thesis
      using True r s1 rd
      by (auto simp: Let_def not_less
          intro!: rec a ra w eth_same_net_out split: prod.splits option.splits)
  qed
qed

lemma eth_process_tx_same:
  assumes "eth_host_ok h"
  shows "eth_same m (ch32_eth_process_tx rescan h m)"
  using eth_same_trans[OF eth_same_upd eth_tx_loop_same[OF assms], of "tx_cur_desc_update (\<lambda>_. b)" m for b]
    eth_tx_loop_same[OF assms, of m]
  by (auto simp: ch32_eth_process_tx_def Let_def eth_same_def)


text \<open>Delivery leaves the stash free or refilled with the bottom half scheduled again.\<close>

definition eth_pre :: "machine \<Rightarrow> bool" where
  "eth_pre m \<longleftrightarrow> has_eth m \<and> length (rx_stash (eth m)) \<le> CH32_ETH_PKT_MAX"

lemma eth_ok_pre: "eth_ok m \<Longrightarrow> eth_pre m"
  by (simp add: eth_ok_def eth_pre_def)

lemma eth_rx_loop_ok:
  assumes h: "eth_host_ok h" and m: "eth_pre m"
  shows "eth_ok (eth_rx_loop rescan h base n m)"
  using m
proof (induction n arbitrary: m)
  case 0
  then show ?case by (auto intro!: eth_resume_ok[OF h] eth_drop_ok simp: eth_pre_def)
next
  case (Suc n)
  let ?da = "rx_cur_desc (eth m)"
  have H: "has_eth m" "length (rx_stash (eth m)) \<le> CH32_ETH_PKT_MAX" using Suc.prems by (simp_all add: eth_pre_def)
  show ?case
  proof (cases "ch32_eth_ptr_in_main_sram (eh_ram h) ?da")
    case False
    then show ?thesis using H by (auto intro!: eth_resume_ok[OF h] eth_drop_ok)
  next
    case True
    note io = eth_same_io[OF h True]
    obtain rd0 rd1 rd2 rd3 m1 where r: "ch32_eth_desc_read (eh_read h) ?da m = ((rd0, rd1, rd2, rd3), m1)"
      by (metis prod.exhaust)
    have s1: "eth_same m m1" using io(3)[of m] r by simp
    have H1: "has_eth m1" "rx_stash (eth m1) = rx_stash (eth m)"
      using s1 H(1) by (simp_all add: eth_same_def)
    let ?adv = "eth_upd (rx_cur_desc_update (\<lambda>_. eth_next_desc (eh_ram h) base rd3))"
    have adv: "eth_pre (?adv m1)" using H1 H(2) by (simp add: eth_pre_def)
    have wr: "has_eth (snd (eh_write h rd2 (rx_stash (eth m)) m1))"
      if "ch32_eth_span_in_main_sram (eh_ram h) rd2 (length (rx_stash (eth m)))"
      using eth_same_io(2)[OF h span_ptr_in_main_sram[OF that], of m1] H(2) H1 by (simp add: eth_same_def)
    have st: "has_eth x \<Longrightarrow> has_eth (ch32_eth_desc_write_status (eh_write h) ?da w x)" for x w
      using io(4)[of x w] by (simp add: eth_same_def)
    show ?thesis
      using True r H1 wr st Suc.IH[OF adv]
      by (auto simp: Let_def intro!: eth_resume_ok[OF h] eth_drop_ok eth_drop_after_ok
          split: prod.splits bool.splits)
  qed
qed

lemma eth_deliver_ok:
  assumes h: "eth_host_ok h" and m: "eth_pre m"
  shows "eth_ok (ch32_eth_deliver_rx_stash rescan h m)"
proof (cases "rx_stash (eth m) = []")
  case True
  then show ?thesis using m by (simp add: ch32_eth_deliver_rx_stash_def Let_def eth_ok_def eth_pre_def)
next
  case False
  have "eth_pre (eth_upd (rx_cur_desc_update (\<lambda>_. b)) m)" for b using m by (simp add: eth_pre_def)
  moreover have "has_eth m" using m by (simp add: eth_pre_def)
  ultimately show ?thesis
    using m False eth_rx_loop_ok[OF h] by (auto simp: ch32_eth_deliver_rx_stash_def Let_def
        intro!: eth_resume_ok[OF h] eth_drop_ok)
qed

lemma eth_upd_ok_iff:
  assumes "\<And>s. rx_stash (f s) = rx_stash s" "\<And>s. bh_scheduled (f s) = bh_scheduled s"
  shows "eth_ok (eth_upd f m) = eth_ok m"
  using assms by (auto simp: eth_ok_def)

lemma eth_bh_ok:
  assumes h: "eth_host_ok h" and m: "eth_pre m"
  shows "eth_ok (ch32_eth_bh rescan h m)"
proof -
  let ?m = "eth_upd (bh_scheduled_update (\<lambda>_. False)) m"
  have "eth_pre ?m" using m by (simp add: eth_pre_def)
  then have "eth_pre (ch32_eth_process_tx rescan h ?m)"
    using eth_process_tx_same[OF h, of ?m] m by (simp add: eth_pre_def eth_same_def)
  from eth_deliver_ok[OF h this]
  have d: "eth_ok (ch32_eth_deliver_rx_stash rescan h (ch32_eth_process_tx rescan h ?m))" .
  have pc: "eth_ok x \<Longrightarrow> eth_ok (eth_upd (poll_idle_count_update f) x)" for f x
    by (rule eth_upd_ok) simp_all
  show ?thesis
    unfolding ch32_eth_bh_def ch32_eth_update_irq_def Let_def eth_resync_ok
    by (auto intro!: pc eth_resume_ok[OF h] d)
qed

lemma mdio_run_keeps:
  "rx_stash (ch32_eth_mdio_run t s) = rx_stash s" "bh_scheduled (ch32_eth_mdio_run t s) = bh_scheduled s"
  by (simp_all add: ch32_eth_mdio_run_def ch32_eth_phy_write_def ch32_eth_phy_write_rtl8211f_def Let_def)

lemma eth_mmio_write_word_ok:
  assumes h: "eth_host_ok h" and m: "eth_ok m"
  shows "eth_ok (ch32_eth_mmio_write_word rescan h a v m)"
proof -
  have w: "eth_ok x \<Longrightarrow> eth_ok (eth_upd (mmio_w_update f) x)" for f x by (rule eth_upd_ok) simp_all
  have sw: "eth_ok x \<Longrightarrow> eth_ok (eth_set_word i u x)" for i u x by (simp add: eth_set_word_def w)
  have md: "eth_ok x \<Longrightarrow> eth_ok (eth_upd (ch32_eth_mdio_run t) x)" for t x
    by (rule eth_upd_ok) (simp_all add: mdio_run_keeps)
  have bh: "eth_ok x \<Longrightarrow> eth_ok (eth_upd (bh_scheduled_update (\<lambda>_. True)) x)" for x by (rule eth_upd_ok) simp_all
  have pa: "eth_ok x \<Longrightarrow> eth_ok (eth_upd (ch32_eth_poll_arm t) x)" for t x
    by (rule eth_upd_ok) (simp_all add: ch32_eth_poll_arm_def)
  have pd: "eth_ok x \<Longrightarrow> eth_ok (eth_upd (\<lambda>s. s\<lparr>eth_poll := timer_del (eth_poll s), poll_active := False\<rparr>) x)" for x
    by (rule eth_upd_ok) simp_all
  show ?thesis
    unfolding ch32_eth_mmio_write_word_def eth_dmaomr_write_def ch32_eth_update_irq_def Let_def
    by (simp add: eth_resync_ok m w sw md bh pa pd eth_resume_ok[OF h])
qed

lemma eth_mmio_write_ok:
  "eth_host_ok h \<Longrightarrow> eth_ok m \<Longrightarrow> eth_ok (ch32_eth_mmio_write rescan h a v sz m)"
  by (simp add: ch32_eth_mmio_write_def Let_def eth_mmio_write_word_ok)

lemma eth_poll_tick_ok:
  assumes m: "eth_ok m"
  shows "eth_ok (ch32_eth_poll_tick rescan m)"
proof -
  have i: "eth_ok x \<Longrightarrow> eth_ok (eth_upd (phy_link_irq_injected_update f) x)" for f x by (rule eth_upd_ok) simp_all
  have p: "eth_ok x \<Longrightarrow> eth_ok (eth_upd (eth_poll_update f) x)" for f x by (rule eth_upd_ok) simp_all
  have q: "eth_ok x \<Longrightarrow> eth_ok (eth_upd (\<lambda>s. s\<lparr>poll_active := False, poll_idle_count := 0\<rparr>) x)" for x
    by (rule eth_upd_ok) simp_all
  have b: "eth_ok x \<Longrightarrow> eth_ok (eth_upd (\<lambda>s. s\<lparr>bh_scheduled := True, eth_poll := timer_mod_ns t (eth_poll s)\<rparr>) x)"
    for t x by (rule eth_upd_ok) simp_all
  show ?thesis
    unfolding ch32_eth_poll_tick_def Let_def by (simp add: m i p q b eth_raise_ok)
qed

lemma eth_reset_ok:
  assumes h: "eth_host_ok h" and m: "has_eth m"
  shows "eth_ok (ch32_eth_reset rescan h m)"
proof -
  have "eth_ok (eth_upd (eth_reset_state t) m)" for t using m by (simp add: eth_ok_def eth_reset_state_def)
  moreover have "eth_ok x \<Longrightarrow> eth_ok (eth_upd (eth_poll_10m t) x)" for t x
    by (rule eth_upd_ok) (simp_all add: eth_poll_10m_def)
  ultimately show ?thesis
    unfolding ch32_eth_reset_def Let_def eth_resync_ok by (simp add: eth_resume_ok[OF h])
qed

text \<open>C8. Reception never gets stuck. In every state reachable from a reset by received frames, bottom
  halves, poll ticks, register writes of any width, resets and the passing of time, either the
  device can take the next frame or its bottom half is scheduled, and the stash never exceeds its
  array. The network core redelivers queued frames through the receive callback at any point the
  code asks for it, and memory accesses behind the check for the main memory do not reach the device.\<close>

theorem eth_reception_not_stuck:
  assumes "eth_host_ok h" "has_eth m" "(eth_step h)\<^sup>*\<^sup>* (ch32_eth_reset rescan h m) m'"
  shows "(ch32_eth_net_can_receive (eth m') \<or> bh_scheduled (eth m')) \<and>
    length (rx_stash (eth m')) \<le> CH32_ETH_PKT_MAX"
proof -
  have "eth_ok m'"
    using assms(3)
  proof (induction rule: rtranclp_induct)
    case base
    then show ?case by (rule eth_reset_ok[OF assms(1,2)])
  next
    case (step y z)
    from step.hyps(2) step.IH show ?case
    proof cases
      case (clock t)
      then show ?thesis using step.IH by (simp add: eth_ok_def has_eth_def)
    qed (auto intro: eth_receive_ok eth_bh_ok[OF assms(1) eth_ok_pre] eth_poll_tick_ok
        eth_mmio_write_ok[OF assms(1)] eth_reset_ok[OF assms(1)] simp: eth_ok_pre[unfolded eth_pre_def])
  qed
  then show ?thesis by (auto simp: eth_ok_def ch32_eth_net_can_receive_def)
qed


lemma eth_sample_host_ok: "eth_host_ok eth_sample_host"
proof -
  have "\<exists>fs. (m :: machine) = fold (\<lambda>f m. snd (ch32_eth_net_receive f m)) fs m" for m
    by (rule exI[of _ "[]"]) simp
  then show ?thesis
    by (simp add: eth_host_ok_def eth_sample_host_def ram_read_def ram_write_def)
qed

theorem eth_reception_not_stuck_witness:
  "\<forall>f. let m' = snd (ch32_eth_net_receive f (ch32_eth_mmio_write rescan eth_sample_host 0x1018 2 4
     (ch32_eth_reset rescan eth_sample_host eth_sample)))
   in ch32_eth_net_can_receive (eth m') \<or> bh_scheduled (eth m')"
proof -
  let ?h = eth_sample_host and ?m = "ch32_eth_reset rescan eth_sample_host eth_sample"
  have "(eth_step ?h)\<^sup>*\<^sup>* ?m (snd (ch32_eth_net_receive f (ch32_eth_mmio_write rescan ?h 0x1018 2 4 ?m)))" for f
    by (rule rtranclp.rtrancl_into_rtrancl[OF r_into_rtranclp]) (rule eth_step.intros)+
  from eth_reception_not_stuck[OF eth_sample_host_ok eth_sample_facts(1) this] show ?thesis
    by (auto simp: Let_def)
qed

section \<open>Management interface\<close>

definition mii_cmd :: "nat \<Rightarrow> bool \<Rightarrow> u32" where
  "mii_cmd r wr = push_bit 11 1 OR push_bit 6 (of_nat r) OR (if wr then 2 else 0) OR 1"

lemma mii_cmd_fields:
  assumes "r < 32"
  shows "drop_bit 11 (mii_cmd r w) AND 0x1f = 1" "unat (drop_bit 6 (mii_cmd r w) AND 0x1f) = r"
    "bit (mii_cmd r w) 1 = w" "bit (mii_cmd r w) 0"
proof -
  have lo: "n < 5" if "bit r n" for n
  proof -
    have "take_bit 5 r = r" using assms by (simp add: take_bit_nat_eq_self_iff)
    then show ?thesis using that by (metis bit_take_bit_iff)
  qed
  have m: "(0x1f :: u32) = mask 5" by (simp add: mask_eq_exp_minus_1)
  have two: "(if w then 2 else 0 :: u32) = (if w then push_bit 1 1 else 0)" by simp
  have b: "bit (mii_cmd r w) n \<longleftrightarrow> n = 11 \<or> (6 \<le> n \<and> n < 32 \<and> bit r (n - 6)) \<or> (w \<and> n = 1) \<or> n = 0" for n
    unfolding mii_cmd_def two
    by (cases w; simp only: if_True if_False bit_or_iff bit_push_bit_iff bit_1_iff bit_0_eq)
      (auto simp: bit_simps)
  show "drop_bit 11 (mii_cmd r w) AND 0x1f = 1"
    unfolding m by (rule bit_word_eqI) (auto simp: bit_simps b dest: lo)
  have "drop_bit 6 (mii_cmd r w) AND 0x1f = of_nat r"
    unfolding m by (rule bit_word_eqI) (auto simp: bit_simps b dest: lo)
  then show "unat (drop_bit 6 (mii_cmd r w) AND 0x1f) = r"
    using assms by (simp add: unat_of_nat_small)
  show "bit (mii_cmd r w) 1 = w" "bit (mii_cmd r w) 0" by (simp_all add: b)
qed

lemma mii_data_write:
  assumes "has_eth m"
  shows "eth (ch32_eth_mmio_write r h 0x14 v 4 m) = mmio_w_update (\<lambda>w. w[ETH_MACMIIDR := v]) (eth m)"
    "has_eth (ch32_eth_mmio_write r h 0x14 v 4 m)" "clock_ns (ch32_eth_mmio_write r h 0x14 v 4 m) = clock_ns m"
  using assms
  by (simp_all add: ch32_eth_mmio_write_def ch32_eth_mmio_write_word_def eth_set_word_def Let_def
      CH32_ETH_MMIO_SIZE_def)

lemma mii_cmd_write:
  assumes "has_eth m" "bit c 0"
  shows "eth (ch32_eth_mmio_write r h 0x10 c 4 m) =
      ch32_eth_mdio_run (clock_ns m) (mmio_w_update (\<lambda>w. w[ETH_MACMIIAR := c]) (eth m))"
    "has_eth (ch32_eth_mmio_write r h 0x10 c 4 m)" "clock_ns (ch32_eth_mmio_write r h 0x10 c 4 m) = clock_ns m"
  using assms
  by (simp_all add: ch32_eth_mmio_write_def ch32_eth_mmio_write_word_def eth_set_word_def Let_def
      CH32_ETH_MMIO_SIZE_def)

text \<open>The registers whose reads the CH182 model does not compute.\<close>

definition ch182_plain :: "nat \<Rightarrow> bool" where
  "ch182_plain r \<longleftrightarrow> r < 32 \<and> r \<notin> set [0, 1, 2, 3, 5, 0x10, 0x19]"

text \<open>A value written to a plain register of the CH182 PHY through the management interface is read
  back through it, and each access leaves the busy bit clear.\<close>

theorem mdio_write_read:
  assumes "has_eth m" "length (mmio_w (eth m)) = CH32_ETH_MMIO_SIZE div 4" "length (phy_reg (eth m)) = 32"
    and "the_phy_variant (eth m) = CH32_ETH_PHY_CH182" "ch182_plain r"
    and "m1 = ch32_eth_mmio_write rescan h 0x10 (mii_cmd r True) 4 (ch32_eth_mmio_write rescan h 0x14 v 4 m)"
    and "m2 = ch32_eth_mmio_write rescan h 0x10 (mii_cmd r False) 4 m1"
  shows "ch32_eth_mmio_read 0x14 4 (eth m2) = v AND 0xffff \<and> \<not> bit (ch32_eth_mmio_read 0x10 4 (eth m1)) 0 \<and>
    \<not> bit (ch32_eth_mmio_read 0x10 4 (eth m2)) 0"
proof -
  have r: "r < 32" using assms(5) by (simp add: ch182_plain_def)
  note F = mii_cmd_fields[OF r]
  have v: "ucast (ucast (v AND 0xffff) :: u16) = v AND 0xffff"
    unfolding and_ffff_take_bit by (rule bit_word_eqI) (auto simp: bit_simps)
  let ?s = "eth m" and ?t = "clock_ns m" and ?pv = "ucast (v AND 0xffff) :: u16"
  let ?m0 = "ch32_eth_mmio_write rescan h 0x14 v 4 m"
  have len: "length (mmio_w ?s) = 1536" using assms(2) by (simp add: CH32_ETH_MMIO_SIZE_def)
  note D = mii_data_write[OF assms(1), of rescan h v]
  note W = mii_cmd_write[OF D(2) F(4)[of True], of rescan h, folded assms(6)]
  note R = mii_cmd_write[OF W(2) F(4)[of False], of rescan h, folded assms(7)]
  let ?w = "(mmio_w ?s)[ETH_MACMIIDR := v, ETH_MACMIIAR := mii_cmd r True]"
  have run1: "eth m1 = ?s\<lparr>mmio_w := arr_upd ETH_MACMIIAR (\<lambda>w. w AND NOT 1) ?w, phy_reg := (phy_reg ?s)[r := ?pv]\<rparr>"
    unfolding W(1) D(1)
    using F(1-3) r assms(4,5) len
    by (simp add: ch32_eth_mdio_run_def ch32_eth_phy_write_def ch32_eth_is_rtl8211f_path_def ch182_plain_def Let_def)
  have rd: "ch32_eth_phy_read ?t s r = phy_reg s ! r" if "the_phy_variant s = CH32_ETH_PHY_CH182" for s
    using that assms(5) r
    by (simp add: ch32_eth_phy_read_def ch32_eth_is_rtl8211f_path_def ch32_eth_is_phy10m_path_def ch182_plain_def)
  have run2: "mmio_w (eth m2) = arr_upd ETH_MACMIIAR (\<lambda>w. w AND NOT 1)
      ((mmio_w (eth m1))[ETH_MACMIIAR := mii_cmd r False, ETH_MACMIIDR := ucast ?pv])"
    unfolding R(1) W(3) D(3)
    using F(1-3) r assms(3,4) len
    by (simp add: ch32_eth_mdio_run_def rd run1 Let_def)
  show ?thesis
    using len v
    by (simp add: ch32_eth_mmio_read_def ch32_eth_mmio_read_word_def Let_def CH32_ETH_MMIO_SIZE_def run1 run2 bit_simps)
qed

theorem mdio_write_read_witness:
  "ch32_eth_mmio_read 0x14 4 (eth (ch32_eth_mmio_write rescan eth_sample_host 0x10 (mii_cmd 4 False) 4
     (ch32_eth_mmio_write rescan eth_sample_host 0x10 (mii_cmd 4 True) 4
       (ch32_eth_mmio_write rescan eth_sample_host 0x14 0x11e1 4 eth_sample)))) = 0x11e1"
proof -
  have "length (phy_reg (eth eth_sample)) = 32" "the_phy_variant (eth eth_sample) = CH32_ETH_PHY_CH182"
    "ch182_plain 4"
    by (simp_all add: eth_sample_def eth_zero_def ch182_plain_def)
  from mdio_write_read[OF eth_sample_facts(1) _ this refl refl, of eth_sample_host "0x11e1"] show ?thesis
    by (simp add: eth_sample_facts CH32_ETH_MMIO_SIZE_def)
qed

section \<open>Narrow acknowledgements\<close>

text \<open>A single byte written to the DMA status register acknowledges more than that byte: the handler
  merges it with the current flags and writes the word back, so every flag of the other three bytes
  that is up is cleared as well.\<close>

theorem dmasr_byte_write_clears_others:
  assumes "has_eth m" "length (mmio_w (eth m)) = CH32_ETH_MMIO_SIZE div 4"
  shows "mmio_w (eth (ch32_eth_mmio_write rescan h 0x1014 v 1 m)) ! CH32_ETH_DMASR_W AND 0x807fff00 = 0"
proof -
  let ?w = "mmio_w (eth m) ! CH32_ETH_DMASR_W"
  let ?v = "(?w AND NOT 0xff) OR (v AND 0xff)"
  have "(?w AND NOT (?v AND 0x807fffff)) AND 0x807fff00 = 0"
  proof (rule bit_word_eqI)
    fix n
    have "(0x807fff00 :: u32) = 0x807fffff AND NOT 0xff" by simp
    then have "bit (0x807fff00 :: u32) n \<longleftrightarrow> n < 32 \<and> bit (0x807fffff :: u32) n \<and> \<not> bit (0xff :: u32) n"
      by (simp only: bit_and_iff bit_not_iff) (auto dest: bit_imp_le_length)
    then show "bit ((?w AND NOT (?v AND 0x807fffff)) AND 0x807fff00) n = bit 0 n"
      by (auto simp: bit_simps)
  qed
  then show ?thesis
    using assms
    by (simp add: ch32_eth_mmio_write_def ch32_eth_mmio_write_word_def ch32_eth_update_irq_def Let_def
        CH32_ETH_MMIO_SIZE_def CH32_ETH_DMASR_W_def CH32_ETH_DMASR_W1C_MASK_def)
qed

theorem dmasr_byte_write_clears_others_witness:
  "mmio_w (eth (ch32_eth_mmio_write rescan eth_sample_host 0x1014 0 1 eth_sample)) ! CH32_ETH_DMASR_W
     AND 0x807fff00 = 0"
  by (rule dmasr_byte_write_clears_others) (simp_all add: eth_sample_facts CH32_ETH_MMIO_SIZE_def)

end
