(* ===== verification/Ch32_Serial.thy ===== *)
theory Ch32_Serial
  imports Ch32_PowerOn
begin

text \<open>
  What the serial ports promise. USART1 is a transmit queue, a receive queue and a staging queue of
  at most 63 bytes each in front of a character backend; the theory states that machine without
  ring indices, pending flags or a data register (\<open>uart_spec\<close>) and shows that the code refines it,
  whatever the guest and the backend do, as long as the receive DMA is off.
\<close>

section \<open>The invariant of USART1\<close>

abbreviation "rx_queue u \<equiv> ring_list 64 (rx_buf u) (rx_head u) (rx_tail u)"
abbreviation "tx_queue u \<equiv> ring_list 64 (tx_buf u) (tx_head u) (tx_tail u)"
abbreviation "stage_queue u \<equiv> ring_list 64 (rx_stage_buf u) (rx_stage_head u) (rx_stage_tail u)"

definition usart1_rings_ok :: "usart1_state \<Rightarrow> bool" where
  "usart1_rings_ok u \<longleftrightarrow> ring_ok 64 (rx_buf u) (rx_head u) (rx_tail u) \<and>
     ring_ok 64 (tx_buf u) (tx_head u) (tx_tail u) \<and>
     ring_ok 64 (rx_stage_buf u) (rx_stage_head u) (rx_stage_tail u)"

text \<open>The status bits that \<open>ch32_usart1_statr_hw\<close> does not derive.\<close>

definition statr_other :: "u16 \<Rightarrow> u16" where
  "statr_other s = s AND NOT (STATR_RXNE OR STATR_TXE OR STATR_TC)"

definition usart1_ok :: "usart1_state \<Rightarrow> bool" where
  "usart1_ok u \<longleftrightarrow> usart1_rings_ok u \<and>
     (u1_rx_pending u \<longleftrightarrow> rx_head u \<noteq> rx_tail u) \<and>
     (u1_rx_pending u \<longrightarrow> rdr u = rx_buf u ! rx_head u) \<and>
     (tx_empty u \<longleftrightarrow> tx_head u = tx_tail u) \<and> tx_complete u = tx_empty u \<and>
     statr_other (u1_statr u) = 0 \<and>
     \<not> bit (u1_ctlr3 u) CTLR3_DMAR"

section \<open>The queue machine\<close>

record uart_spec =
  q_tx :: "u8 list"
  q_rx :: "u8 list"
  q_stage :: "u8 list"
  q_out :: "u8 list"
  q_reg :: "u32 \<Rightarrow> u32"

datatype usart_event =
    Uart_write u32 u32
  | Uart_read u32 nat
  | Uart_receive "u8 list"
  | Uart_rx_tick
  | Uart_tx_tick

definition uart_cfg_reg :: "u32 \<Rightarrow> bool" where
  "uart_cfg_reg a \<longleftrightarrow> a \<in> set [0x08, 0x0c, 0x10, 0x14, 0x18, 0x1c]"

fun spec_drain :: "(u8 list \<Rightarrow> u8 \<Rightarrow> bool) \<Rightarrow> u8 list \<Rightarrow> u8 list \<Rightarrow> u8 list \<times> u8 list" where
  "spec_drain chr out [] = (out, [])"
| "spec_drain chr out (b # q) = (if chr out b then spec_drain chr (out @ [b]) q else (out, b # q))"

definition spec_status :: "uart_spec \<Rightarrow> u16" where
  "spec_status s =
     (let ue = bit (q_reg s 0x0c) CTLR1_UE; te = bit (q_reg s 0x0c) CTLR1_TE
      in (if q_rx s \<noteq> [] then STATR_RXNE else 0) OR
         (if \<not> ue \<or> te \<and> q_tx s = [] then STATR_TXE OR STATR_TC else 0))"

fun spec_step :: "(u8 list \<Rightarrow> u8 \<Rightarrow> bool) \<Rightarrow> usart_event \<Rightarrow> uart_spec \<Rightarrow> u32 option \<times> uart_spec" where
  "spec_step chr (Uart_write a v) s =
     (None,
      if a = 0x04 then
        if \<not> bit (q_reg s 0x0c) CTLR1_UE then s\<lparr>q_out := q_out s @ [ucast (v AND 0xff)]\<rparr>
        else if length (q_tx s) < 63 then s\<lparr>q_tx := q_tx s @ [ucast (v AND 0xff)]\<rparr>
        else s
      else if uart_cfg_reg a then s\<lparr>q_reg := (q_reg s)(a := v)\<rparr>
      else s)"
| "spec_step chr (Uart_read a sz) s =
     (if a = 0x00 then
        (Some (if sz = 1 then ucast (spec_status s AND 0xff) else ucast (spec_status s)), s)
      else if a = 0x04 then
        (case q_rx s of [] \<Rightarrow> (Some 0, s) | b # q \<Rightarrow> (Some (ucast b), s\<lparr>q_rx := q\<rparr>))
      else (Some (if uart_cfg_reg a then q_reg s a else 0), s))"
| "spec_step chr (Uart_receive bs) s =
     (None,
      if bit (q_reg s 0x0c) CTLR1_UE \<and> bit (q_reg s 0x0c) CTLR1_RE
      then s\<lparr>q_stage := q_stage s @ take (63 - length (q_stage s)) bs\<rparr> else s)"
| "spec_step chr Uart_rx_tick s =
     (None,
      if q_stage s \<noteq> [] \<and> length (q_rx s) < 63
      then s\<lparr>q_rx := q_rx s @ [hd (q_stage s)], q_stage := tl (q_stage s)\<rparr> else s)"
| "spec_step chr Uart_tx_tick s =
     (let (out, rest) = spec_drain chr (q_out s) (q_tx s) in (None, s\<lparr>q_out := out, q_tx := rest\<rparr>))"

fun spec_run :: "(u8 list \<Rightarrow> u8 \<Rightarrow> bool) \<Rightarrow> usart_event list \<Rightarrow> uart_spec \<Rightarrow> u32 option list \<times> uart_spec" where
  "spec_run chr [] s = ([], s)"
| "spec_run chr (e # es) s =
     (let (v, s1) = spec_step chr e s; (vs, s2) = spec_run chr es s1 in (v # vs, s2))"

section \<open>The code as such a machine\<close>

fun usart1_step ::
    "as_write \<Rightarrow> (u8 list \<Rightarrow> u8 \<Rightarrow> bool) \<Rightarrow> usart_event \<Rightarrow> machine \<Rightarrow> (u32 option \<times> machine) option" where
  "usart1_step asw chr (Uart_write a v) m = Some (None, ch32_usart1_write rescan a v m)"
| "usart1_step asw chr (Uart_read a sz) m =
     (let (v, m1) = ch32_usart1_read rescan a sz m in Some (Some v, m1))"
| "usart1_step asw chr (Uart_receive bs) m = Some (None, ch32_usart1_receive bs m)"
| "usart1_step asw chr Uart_rx_tick m = Some (None, ch32_usart1_rx_tick rescan asw m)"
| "usart1_step asw chr Uart_tx_tick m = map_option (Pair None) (ch32_usart1_tx_drain rescan chr m)"

fun usart1_run ::
    "as_write \<Rightarrow> (u8 list \<Rightarrow> u8 \<Rightarrow> bool) \<Rightarrow> usart_event list \<Rightarrow> machine \<Rightarrow> (u32 option list \<times> machine) option" where
  "usart1_run asw chr [] m = Some ([], m)"
| "usart1_run asw chr (e # es) m =
     (case usart1_step asw chr e m of None \<Rightarrow> None
      | Some (v, m1) \<Rightarrow> map_option (\<lambda>(vs, m2). (v # vs, m2)) (usart1_run asw chr es m1))"

definition uart_reg :: "usart1_state \<Rightarrow> u32 \<Rightarrow> u32" where
  "uart_reg u a =
     (if a = 0x08 then u1_brr u else if a = 0x0c then u1_ctlr1 u else if a = 0x10 then u1_ctlr2 u
      else if a = 0x14 then u1_ctlr3 u else if a = 0x18 then u1_gpr u
      else if a = 0x1c then u1_ctlr4 u else 0)"

definition uart_abs :: "machine \<Rightarrow> uart_spec" where
  "uart_abs m =
     (let u = m_usart1 m
      in \<lparr>q_tx = tx_queue u, q_rx = rx_queue u, q_stage = stage_queue u, q_out = chr_out m,
          q_reg = uart_reg u\<rparr>)"

text \<open>The guest leaves the receive DMA of USART1 off.\<close>

fun no_rx_dma :: "usart_event \<Rightarrow> bool" where
  "no_rx_dma (Uart_write a v) \<longleftrightarrow> \<not> (a = 0x14 \<and> bit v CTLR3_DMAR)"
| "no_rx_dma _ \<longleftrightarrow> True"

section \<open>The rings\<close>

lemma rings_okD:
  assumes "usart1_rings_ok u"
  shows "ring_ok 64 (rx_buf u) (rx_head u) (rx_tail u)" "ring_ok 64 (tx_buf u) (tx_head u) (tx_tail u)"
    "ring_ok 64 (rx_stage_buf u) (rx_stage_head u) (rx_stage_tail u)"
  using assms by (simp_all add: usart1_rings_ok_def)

lemma usart1_okD:
  assumes "usart1_ok u"
  shows "usart1_rings_ok u" "u1_rx_pending u \<longleftrightarrow> rx_queue u \<noteq> []"
    "tx_empty u \<longleftrightarrow> tx_queue u = []" "tx_complete u \<longleftrightarrow> tx_queue u = []"
    "statr_other (u1_statr u) = 0" "\<not> bit (u1_ctlr3 u) CTLR3_DMAR"
    "rx_queue u \<noteq> [] \<Longrightarrow> rdr u = hd (rx_queue u)"
  using assms rxring.queue_empty[of u] txring.queue_empty[of u] rxring.queue_pop[of u]
  by (auto simp: usart1_ok_def dest: rings_okD)


lemma usart1_ok_queues:
  "usart1_ok u \<longleftrightarrow> usart1_rings_ok u \<and> (u1_rx_pending u \<longleftrightarrow> rx_queue u \<noteq> []) \<and>
     (u1_rx_pending u \<longrightarrow> rdr u = hd (rx_queue u)) \<and> (tx_empty u \<longleftrightarrow> tx_queue u = []) \<and>
     tx_complete u = tx_empty u \<and> statr_other (u1_statr u) = 0 \<and>
     \<not> bit (u1_ctlr3 u) CTLR3_DMAR"
  using rxring.queue_empty[of u] txring.queue_empty[of u] rxring.queue_pop[of u]
  by (auto simp: usart1_ok_def dest: rings_okD)

lemma rx_take_head_queues:
  assumes "usart1_rings_ok u" "rx_queue u \<noteq> []"
  shows "rx_queue (rx_take_head u) = tl (rx_queue u)" "tx_queue (rx_take_head u) = tx_queue u"
    "stage_queue (rx_take_head u) = stage_queue u" "usart1_rings_ok (rx_take_head u)"
    "u1_rx_pending (rx_take_head u) \<longleftrightarrow> tl (rx_queue u) \<noteq> []"
    "tl (rx_queue u) \<noteq> [] \<Longrightarrow> rdr (rx_take_head u) = hd (tl (rx_queue u))"
proof -
  note R = rings_okD[OF assms(1)]
  have ne: "rx_head u \<noteq> rx_tail u" using assms(2) rxring.queue_empty[OF R(1)] by simp
  have q: "tl (rx_queue u) = rx_queue (rx_pop u)" using rxring.queue_pop[OF R(1) ne] by simp
  have v: "ring_ok 64 (rx_buf (rx_pop u)) (rx_head (rx_pop u)) (rx_tail (rx_pop u))"
    by (rule rxring.valid_pop[OF R(1)])
  note e = rxring.queue_empty[OF v]
  show "rx_queue (rx_take_head u) = tl (rx_queue u)"
    unfolding q by (simp add: rx_take_head_def Let_def)
  show "tx_queue (rx_take_head u) = tx_queue u" "stage_queue (rx_take_head u) = stage_queue u"
    by (simp_all add: rx_take_head_def Let_def rx_pop_def)
  show "usart1_rings_ok (rx_take_head u)"
    using R v by (simp add: usart1_rings_ok_def rx_take_head_def Let_def rx_pop_def)
  show "u1_rx_pending (rx_take_head u) \<longleftrightarrow> tl (rx_queue u) \<noteq> []"
    unfolding q using e by (simp add: rx_take_head_def Let_def ch32_rxfifo_empty_def)
  show "rdr (rx_take_head u) = hd (tl (rx_queue u))" if "tl (rx_queue u) \<noteq> []"
    using that e rxring.queue_pop[OF v] unfolding q
    by (simp add: rx_take_head_def Let_def ch32_rxfifo_empty_def)
qed

lemma rx_feed_byte_queues:
  assumes "usart1_rings_ok u" "stage_queue u \<noteq> []" "length (rx_queue u) < 63"
  shows "rx_queue (rx_feed_byte u) = rx_queue u @ [hd (stage_queue u)]"
    "tx_queue (rx_feed_byte u) = tx_queue u" "stage_queue (rx_feed_byte u) = tl (stage_queue u)"
    "usart1_rings_ok (rx_feed_byte u)" "u1_rx_pending (rx_feed_byte u)"
    "rdr (rx_feed_byte u) = hd (rx_queue (rx_feed_byte u))"
proof -
  note R = rings_okD[OF assms(1)]
  let ?c = "rx_stage_buf u ! rx_stage_head u" and ?p = "rx_stage_pop u"
  have ne: "rx_stage_head u \<noteq> rx_stage_tail u" using assms(2) stagering.queue_empty[OF R(3)] by simp
  note sq = stagering.queue_pop[OF R(3) ne]
  have same: "rx_buf ?p = rx_buf u" "rx_head ?p = rx_head u" "rx_tail ?p = rx_tail u"
    by (simp_all add: rx_stage_pop_def)
  have nf: "(rx_tail ?p + 1) mod 64 \<noteq> rx_head ?p"
    using rxring.queue_full[OF R(1)] assms(3) by (simp add: same)
  have Rp: "ring_ok 64 (rx_buf ?p) (rx_head ?p) (rx_tail ?p)" using R(1) by (simp add: same)
  note rq = rxring.queue_push[OF Rp nf, of ?c] and rv = rxring.valid_push[OF Rp, of ?c]
  have f: "rx_buf (rx_feed_byte u) = rx_buf (rx_push ?c ?p)" "rx_head (rx_feed_byte u) = rx_head (rx_push ?c ?p)"
    "rx_tail (rx_feed_byte u) = rx_tail (rx_push ?c ?p)" "tx_buf (rx_feed_byte u) = tx_buf u"
    "tx_head (rx_feed_byte u) = tx_head u" "tx_tail (rx_feed_byte u) = tx_tail u"
    "rx_stage_buf (rx_feed_byte u) = rx_stage_buf ?p" "rx_stage_head (rx_feed_byte u) = rx_stage_head ?p"
    "rx_stage_tail (rx_feed_byte u) = rx_stage_tail ?p"
    by (simp_all add: rx_feed_byte_def Let_def rx_push_def rx_stage_pop_def)
  show *: "rx_queue (rx_feed_byte u) = rx_queue u @ [hd (stage_queue u)]"
    using rq sq by (simp add: f same)
  show "tx_queue (rx_feed_byte u) = tx_queue u" by (simp add: f)
  show "stage_queue (rx_feed_byte u) = tl (stage_queue u)" using sq by (simp add: f)
  show ok: "usart1_rings_ok (rx_feed_byte u)"
    using rv R(2) stagering.valid_pop[OF R(3)] by (simp add: usart1_rings_ok_def f)
  show "u1_rx_pending (rx_feed_byte u)" by (simp add: rx_feed_byte_def Let_def)
  have "rx_head (rx_feed_byte u) \<noteq> rx_tail (rx_feed_byte u)"
    using rxring.queue_empty[OF rings_okD(1)[OF ok]] * by simp
  from rxring.queue_pop[OF rings_okD(1)[OF ok] this]
  show "rdr (rx_feed_byte u) = hd (rx_queue (rx_feed_byte u))"
    by (simp add: rx_feed_byte_def Let_def)
qed

lemma rx_stage_fill_queues:
  assumes "usart1_rings_ok u"
  shows "stage_queue (rx_stage_fill bs u) = stage_queue u @ take (63 - length (stage_queue u)) bs \<and>
    usart1_rings_ok (rx_stage_fill bs u)"
  using assms
proof (induction bs arbitrary: u)
  case (Cons b bs)
  note R = rings_okD[OF Cons.prems]
  note full = stagering.queue_full[OF R(3)]
  show ?case
  proof (cases "length (stage_queue u) = 63")
    case True
    then show ?thesis using full Cons.prems by simp
  next
    case False
    then have nf: "(rx_stage_tail u + 1) mod 64 \<noteq> rx_stage_head u" using full by simp
    have len: "length (stage_queue u) < 63" using stagering.queue_capacity[OF R(3)] False by simp
    have ok: "usart1_rings_ok (rx_stage_push b u)"
      using R stagering.valid_push[OF R(3), of b] by (simp add: usart1_rings_ok_def rx_stage_push_def)
    show ?thesis using nf len Cons.IH[OF ok] stagering.queue_push[OF R(3) nf, of b]
      by (simp add: Suc_diff_Suc take_Cons')
  qed
qed simp

lemma rx_stage_fill_other [simp]:
  "rx_buf (rx_stage_fill bs u) = rx_buf u" "rx_head (rx_stage_fill bs u) = rx_head u"
  "rx_tail (rx_stage_fill bs u) = rx_tail u" "tx_buf (rx_stage_fill bs u) = tx_buf u"
  "tx_head (rx_stage_fill bs u) = tx_head u" "tx_tail (rx_stage_fill bs u) = tx_tail u"
  "u1_rx_pending (rx_stage_fill bs u) = u1_rx_pending u" "rdr (rx_stage_fill bs u) = rdr u"
  "tx_empty (rx_stage_fill bs u) = tx_empty u" "tx_complete (rx_stage_fill bs u) = tx_complete u"
  "u1_statr (rx_stage_fill bs u) = u1_statr u" "uart_reg (rx_stage_fill bs u) = uart_reg u"
  "u1_ctlr3 (rx_stage_fill bs u) = u1_ctlr3 u"
  by (induction bs arbitrary: u) (simp_all add: Let_def rx_stage_push_def uart_reg_def fun_eq_iff)

section \<open>The transmit drain\<close>

text \<open>The drain loop ends and sends what the backend takes, in order.\<close>

lemma tx_drain_loop_queues:
  assumes "usart1_rings_ok (m_usart1 m)"
  shows "\<exists>m1. tx_drain_loop chr changed m =
      Some (changed \<or> snd (spec_drain chr (chr_out m) (tx_queue (m_usart1 m))) \<noteq> tx_queue (m_usart1 m),
            tx_queue (m_usart1 m1) \<noteq> [], m1) \<and>
    spec_drain chr (chr_out m) (tx_queue (m_usart1 m)) = (chr_out m1, tx_queue (m_usart1 m1)) \<and>
    usart1_rings_ok (m_usart1 m1) \<and>
    (\<exists>h t. m1 = uart_upd (\<lambda>u. u\<lparr>tx_head := h, tx_timer := t\<rparr>) (m\<lparr>chr_out := chr_out m1\<rparr>))"
  using assms
proof (induction "tx_queue (m_usart1 m)" arbitrary: m changed)
  case Nil
  have "tx_head (m_usart1 m) = tx_tail (m_usart1 m)"
    using txring.queue_empty[OF rings_okD(2)[OF Nil.prems]] Nil.hyps by simp
  then have "tx_drain_loop chr changed m = Some (changed, False, m)"
    by (subst tx_drain_loop.simps) (simp add: ch32_txfifo_empty_def)
  moreover have "m = uart_upd (\<lambda>u. u\<lparr>tx_head := tx_head (m_usart1 m), tx_timer := tx_timer (m_usart1 m)\<rparr>)
      (m\<lparr>chr_out := chr_out m\<rparr>)"
    by (cases m) simp
  moreover have "spec_drain chr (chr_out m) (tx_queue (m_usart1 m)) = (chr_out m, tx_queue (m_usart1 m))"
    "tx_queue (m_usart1 m) = []"
    by (simp_all flip: Nil.hyps)
  ultimately show ?case using Nil.prems by (intro exI[of _ m] conjI) (simp, blast+)
next
  case (Cons b q)
  let ?u = "m_usart1 m"
  note R = rings_okD[OF Cons.prems]
  have ne: "tx_head ?u \<noteq> tx_tail ?u" using txring.queue_empty[OF R(2)] by (metis Cons.hyps(2) list.distinct(1))
  note pop = txring.queue_pop[OF R(2) ne]
  have b: "tx_buf ?u ! tx_head ?u = b" and q: "q = tx_queue (tx_pop ?u)"
    using pop[folded Cons.hyps(2)] by simp_all
  show ?case
  proof (cases "chr (chr_out m) b")
    case False
    let ?m = "uart_upd (tx_timer_update (timer_mod_ns (clock_ns m + CH32_USART1_TX_DRAIN_NS))) m"
    have "tx_drain_loop chr changed m = Some (changed, True, ?m)"
      using ne b False by (subst tx_drain_loop.simps) (simp add: ch32_txfifo_empty_def)
    moreover have "?m = uart_upd (\<lambda>u. u\<lparr>tx_head := tx_head ?u,
        tx_timer := timer_mod_ns (clock_ns m + CH32_USART1_TX_DRAIN_NS) (tx_timer ?u)\<rparr>) (m\<lparr>chr_out := chr_out ?m\<rparr>)"
      by (cases m) simp
    moreover have "spec_drain chr (chr_out m) (tx_queue ?u) = (chr_out ?m, tx_queue (m_usart1 ?m))"
      "tx_queue (m_usart1 ?m) \<noteq> []" "snd (spec_drain chr (chr_out m) (tx_queue ?u)) = tx_queue ?u"
      using False by (simp_all flip: Cons.hyps(2))
    moreover have "usart1_rings_ok (m_usart1 ?m)" using Cons.prems by (simp add: usart1_rings_ok_def)
    ultimately show ?thesis by (intro exI[of _ ?m] conjI) (simp, blast+)
  next
    case True
    let ?m = "uart_upd tx_pop (m\<lparr>chr_out := chr_out m @ [b]\<rparr>)"
    have step: "tx_drain_loop chr changed m = tx_drain_loop chr True ?m"
      using ne b True by (subst tx_drain_loop.simps) (simp add: ch32_txfifo_empty_def)
    have ok: "usart1_rings_ok (m_usart1 ?m)"
      using R txring.valid_pop[OF R(2)] by (simp add: usart1_rings_ok_def tx_pop_def)
    have tl: "q = tx_queue (m_usart1 ?m)" using q by simp
    from Cons.hyps(1)[OF tl ok, of True] obtain m1 h t where
      I: "tx_drain_loop chr True ?m = Some (True, tx_queue (m_usart1 m1) \<noteq> [], m1)"
        "spec_drain chr (chr_out ?m) q = (chr_out m1, tx_queue (m_usart1 m1))"
        "usart1_rings_ok (m_usart1 m1)"
        "m1 = uart_upd (\<lambda>u. u\<lparr>tx_head := h, tx_timer := t\<rparr>) (?m\<lparr>chr_out := chr_out m1\<rparr>)"
      unfolding tl[symmetric] by auto
    have sp: "spec_drain chr (chr_out m) (b # q) = (chr_out m1, tx_queue (m_usart1 m1))"
      using True I(2) by simp
    have len: "length (snd (spec_drain chr out xs)) \<le> length xs" for out xs
      by (induction xs arbitrary: out) (auto intro: le_SucI)
    have "snd (spec_drain chr (chr_out m) (b # q)) \<noteq> b # q"
      using True len[of "chr_out m @ [b]" q] by (auto dest: arg_cong[of _ _ length])
    moreover have "m1 = uart_upd (\<lambda>u. u\<lparr>tx_head := h, tx_timer := t\<rparr>) (m\<lparr>chr_out := chr_out m1\<rparr>)"
      using I(4) by (cases m) (simp add: tx_pop_def)
    ultimately show ?thesis using I(1,3) sp step unfolding Cons.hyps(2)[symmetric]
      by (intro exI[of _ m1] conjI) (simp, blast+)
  qed
qed


section \<open>Each event refines the queue machine\<close>

lemma view_serial:
  assumes "meip_view m = meip_view m'"
  shows "chr_out m = chr_out m'" "clock_ns m = clock_ns m'"
  using arg_cong[OF assms, of chr_out] arg_cong[OF assms, of clock_ns] by (simp_all add: meip_view_def)

lemma usart1_resync_frame [simp]:
  "m_usart1 (ch32_usart1_meip_resync rescan m) = m_usart1 m"
  "chr_out (ch32_usart1_meip_resync rescan m) = chr_out m"
  using view_fields(3)[OF usart1.frame[of rescan m]] view_serial(1)[OF usart1.frame[of rescan m]]
  by (simp_all add: pending_view)

definition uart_refines :: "u32 option \<times> uart_spec \<Rightarrow> (u32 option \<times> machine) option \<Rightarrow> bool" where
  "uart_refines s c \<longleftrightarrow> (\<exists>v m. c = Some (v, m) \<and> usart1_ok (m_usart1 m) \<and> s = (v, uart_abs m))"

lemma uart_refinesI: "usart1_ok (m_usart1 m) \<Longrightarrow> s = (v, uart_abs m) \<Longrightarrow> uart_refines s (Some (v, m))"
  by (simp add: uart_refines_def)

lemma uart_abs_eq:
  "uart_abs m = \<lparr>q_tx = tx_queue (m_usart1 m), q_rx = rx_queue (m_usart1 m),
     q_stage = stage_queue (m_usart1 m), q_out = chr_out m, q_reg = uart_reg (m_usart1 m)\<rparr>"
  by (simp add: uart_abs_def Let_def)

lemma uart_reg_ctlr1 [simp]: "uart_reg u 0x0c = u1_ctlr1 u"
  by (simp add: uart_reg_def)

lemma statr_other_clear:
  assumes "statr_other s = 0"
  shows "statr_other (s AND k) = 0"
proof -
  have "statr_other (s AND k) = statr_other s AND k"
    unfolding statr_other_def by (simp only: and.assoc and.commute[of k])
  then show ?thesis using assms by simp
qed

lemma take_bit_ucast_byte [simp]: "take_bit 8 (ucast (b :: u8) :: u32) = ucast b"
  by (rule bit_word_eqI) (auto simp: bit_simps dest: bit_imp_le_length)

lemma uart_reg_frame [simp]:
  "uart_reg (u1_statr_update f u) = uart_reg u" "uart_reg (tx_empty_update g u) = uart_reg u"
  "uart_reg (tx_complete_update g u) = uart_reg u" "uart_reg (tx_head_update h u) = uart_reg u"
  "uart_reg (tx_timer_update t u) = uart_reg u" "uart_reg (rx_timer_update t u) = uart_reg u"
  "uart_reg (tx_push ch u) = uart_reg u" "uart_reg (rx_take_head u) = uart_reg u"
  "uart_reg (rx_feed_byte u) = uart_reg u"
  by (simp_all add: uart_reg_def fun_eq_iff tx_push_def rx_take_head_def rx_feed_byte_def rx_pop_def
      rx_push_def rx_stage_pop_def Let_def)

lemma statr_hw_status:
  assumes "usart1_ok (m_usart1 m)"
  shows "ch32_usart1_statr_hw (m_usart1 m) = spec_status (uart_abs m)"
proof -
  note I = usart1_okD[OF assms]
  have e: "ch32_rxfifo_empty (m_usart1 m) \<longleftrightarrow> rx_queue (m_usart1 m) = []"
    using rxring.queue_empty[OF rings_okD(1)[OF I(1)]] by (simp add: ch32_rxfifo_empty_def)
  show ?thesis using I(5)[unfolded statr_other_def]
    by (auto simp: ch32_usart1_statr_hw_def spec_status_def uart_abs_eq Let_def e I(3,4) or.assoc)
qed

lemma uart_read_refines:
  assumes ok: "usart1_ok (m_usart1 m)"
  shows "uart_refines (spec_step chr (Uart_read a sz) (uart_abs m)) (usart1_step asw chr (Uart_read a sz) m)"
proof -
  let ?u = "m_usart1 m"
  note I = usart1_okD[OF ok]
  consider (st) "a = 0x00" | (dt) "a = 0x04" | (other) "a \<noteq> 0x00" "a \<noteq> 0x04" by blast
  then show ?thesis
  proof cases
    case st
    then show ?thesis using ok by (simp add: ch32_usart1_read_def Let_def statr_hw_status uart_refinesI)
  next
    case other
    then have "ch32_usart1_read rescan a sz m = (if uart_cfg_reg a then uart_reg ?u a else 0, m)"
      by (auto simp: ch32_usart1_read_def uart_cfg_reg_def uart_reg_def Let_def)
    then show ?thesis using ok other by (simp add: uart_refinesI uart_abs_eq)
  next
    case dt
    show ?thesis
    proof (cases "rx_queue ?u")
      case Nil
      then show ?thesis using ok dt I(2)
        by (auto intro!: uart_refinesI simp: ch32_usart1_read_def Let_def uart_abs_eq)
    next
      case (Cons b q)
      note T = rx_take_head_queues[OF I(1)]
      have ne: "rx_queue ?u \<noteq> []" using Cons by simp
      let ?u1 = "(rx_take_head ?u)\<lparr>u1_statr := u1_statr ?u AND NOT STATR_RXNE AND NOT STATR_ORE\<rparr>"
      have keep: "tx_empty (rx_take_head ?u) = tx_empty ?u"
        "tx_complete (rx_take_head ?u) = tx_complete ?u" "u1_ctlr3 (rx_take_head ?u) = u1_ctlr3 ?u"
        by (simp_all add: rx_take_head_def Let_def rx_pop_def uart_reg_def fun_eq_iff)
      have "usart1_ok ?u1"
        using T[OF ne] I(3-6) statr_other_clear[OF I(5)]
        by (simp add: usart1_ok_queues usart1_rings_ok_def keep)
      then show ?thesis using dt Cons T(1-3)[OF ne] I(2) I(7)[OF ne]
        by (auto intro!: uart_refinesI simp: ch32_usart1_read_def Let_def uart_abs_eq and_ff_take_bit)
    qed
  qed
qed


lemma tx_push_queues:
  assumes "usart1_rings_ok u" "length (tx_queue u) < 63"
  shows "tx_queue (tx_push ch u) = tx_queue u @ [ch]" "usart1_rings_ok (tx_push ch u)"
    "rx_queue (tx_push ch u) = rx_queue u" "stage_queue (tx_push ch u) = stage_queue u"
proof -
  note R = rings_okD[OF assms(1)]
  have nf: "(tx_tail u + 1) mod 64 \<noteq> tx_head u" using txring.queue_full[OF R(2)] assms(2) by simp
  show "tx_queue (tx_push ch u) = tx_queue u @ [ch]" by (rule txring.queue_push[OF R(2) nf])
  show "usart1_rings_ok (tx_push ch u)"
    using R txring.valid_push[OF R(2), of ch] by (simp add: usart1_rings_ok_def tx_push_def)
  show "rx_queue (tx_push ch u) = rx_queue u" "stage_queue (tx_push ch u) = stage_queue u"
    by (simp_all add: tx_push_def)
qed

lemma usart1_ok_data_write:
  assumes ok: "usart1_ok u" and full: "length (tx_queue u) < 63"
  shows "usart1_ok ((tx_push ch u)\<lparr>tx_empty := False, tx_complete := False\<rparr>)"
  using usart1_okD[OF ok] ok tx_push_queues[OF usart1_okD(1)[OF ok] full, of ch]
  by (simp add: usart1_ok_queues usart1_rings_ok_def tx_push_def)

lemma usart1_ok_frame:
  assumes "usart1_ok u"
  shows "usart1_ok (u1_statr_update (\<lambda>s. s AND k) u)" "usart1_ok (tx_timer_update f u)"
    "usart1_ok (rx_timer_update f u)"
  using assms statr_other_clear[of "u1_statr u" k] by (auto simp: usart1_ok_def usart1_rings_ok_def)

lemma usart1_ok_cfg:
  assumes "usart1_ok u"
  shows "usart1_ok (u\<lparr>u1_brr := v\<rparr>)" "usart1_ok (u\<lparr>u1_ctlr1 := v\<rparr>)" "usart1_ok (u\<lparr>u1_ctlr2 := v\<rparr>)"
    "\<not> bit v CTLR3_DMAR \<Longrightarrow> usart1_ok (u\<lparr>u1_ctlr3 := v\<rparr>)" "usart1_ok (u\<lparr>u1_gpr := v\<rparr>)"
    "usart1_ok (u\<lparr>u1_ctlr4 := v\<rparr>)"
  using assms by (simp_all add: usart1_ok_def usart1_rings_ok_def)

lemma uart_reg_cfg [simp]:
  "uart_reg (u\<lparr>u1_brr := v\<rparr>) = (uart_reg u)(0x08 := v)" "uart_reg (u\<lparr>u1_ctlr1 := v\<rparr>) = (uart_reg u)(0x0c := v)"
  "uart_reg (u\<lparr>u1_ctlr2 := v\<rparr>) = (uart_reg u)(0x10 := v)" "uart_reg (u\<lparr>u1_ctlr3 := v\<rparr>) = (uart_reg u)(0x14 := v)"
  "uart_reg (u\<lparr>u1_gpr := v\<rparr>) = (uart_reg u)(0x18 := v)" "uart_reg (u\<lparr>u1_ctlr4 := v\<rparr>) = (uart_reg u)(0x1c := v)"
  by (simp_all add: uart_reg_def fun_eq_iff)

lemma uart_data_write_refines:
  assumes ok: "usart1_ok (m_usart1 m)"
  shows "uart_refines (spec_step chr (Uart_write 0x04 v) (uart_abs m)) (usart1_step asw chr (Uart_write 0x04 v) m)"
proof -
  let ?u = "m_usart1 m" and ?ch = "ucast (v AND 0xff) :: u8"
  note I = usart1_okD[OF ok]
  have full: "ch32_txfifo_full ?u \<longleftrightarrow> \<not> length (tx_queue ?u) < 63"
    using txring.queue_full[OF rings_okD(2)[OF I(1)]] txring.queue_capacity[OF rings_okD(2)[OF I(1)]]
    by (auto simp: ch32_txfifo_full_def)
  consider (off) "\<not> bit (u1_ctlr1 ?u) CTLR1_UE"
    | (room) "bit (u1_ctlr1 ?u) CTLR1_UE" "length (tx_queue ?u) < 63"
    | (full) "bit (u1_ctlr1 ?u) CTLR1_UE" "\<not> length (tx_queue ?u) < 63" by blast
  then show ?thesis
  proof cases
    case off
    then show ?thesis using ok by (auto intro!: uart_refinesI simp: ch32_usart1_write_def Let_def uart_abs_eq)
  next
    case room
    let ?p = "(tx_push ?ch ?u)\<lparr>tx_empty := False, tx_complete := False\<rparr>"
    note P = usart1_ok_data_write[OF ok room(2), of ?ch] tx_push_queues[OF I(1) room(2), of ?ch]
    note Q = usart1_ok_frame(1)[OF P(1), of "NOT STATR_TC"]
    show ?thesis using room P(2-5) full Q usart1_ok_frame(2)[OF Q]
      by (auto intro!: uart_refinesI simp: ch32_usart1_write_def Let_def uart_abs_eq)
  next
    case no_room: full
    note Q = usart1_ok_frame(1)[OF ok, of "NOT STATR_TC"]
    show ?thesis using no_room full Q usart1_ok_frame(2)[OF Q]
      by (auto intro!: uart_refinesI simp: ch32_usart1_write_def Let_def uart_abs_eq)
  qed
qed

lemma uart_write_refines:
  assumes ok: "usart1_ok (m_usart1 m)" and dma: "no_rx_dma (Uart_write a v)"
  shows "uart_refines (spec_step chr (Uart_write a v) (uart_abs m)) (usart1_step asw chr (Uart_write a v) m)"
proof (cases "a = 0x04")
  case True
  then show ?thesis using uart_data_write_refines[OF ok] by simp
next
  case False
  then show ?thesis
    using usart1_ok_cfg[OF ok, of v] usart1_ok_frame(1)[OF ok, of "NOT (NOT (ucast v) AND STATR_W0C_MASK)"] dma ok
    by (auto intro!: uart_refinesI simp: ch32_usart1_write_def uart_cfg_reg_def Let_def uart_abs_eq)
qed

lemma uart_receive_refines:
  assumes ok: "usart1_ok (m_usart1 m)"
  shows "uart_refines (spec_step chr (Uart_receive bs) (uart_abs m)) (usart1_step asw chr (Uart_receive bs) m)"
proof -
  let ?u = "m_usart1 m"
  note I = usart1_okD[OF ok] and F = rx_stage_fill_queues[OF usart1_okD(1)[OF ok], of bs]
  have K: "usart1_ok (rx_stage_fill bs ?u)"
    using ok F by (simp add: usart1_ok_queues)
  show ?thesis using ok K usart1_ok_frame(3)[OF K] F
    by (auto intro!: uart_refinesI simp: ch32_usart1_receive_def ch32_usart1_rx_enabled_def Let_def uart_abs_eq)
qed

lemma uart_rx_tick_refines:
  assumes ok: "usart1_ok (m_usart1 m)"
  shows "uart_refines (spec_step chr Uart_rx_tick (uart_abs m)) (usart1_step asw chr Uart_rx_tick m)"
proof -
  let ?u = "m_usart1 m"
  note I = usart1_okD[OF ok] and R = rings_okD[OF usart1_okD(1)[OF ok]]
  have empty: "rx_stage_head ?u = rx_stage_tail ?u \<longleftrightarrow> stage_queue ?u = []"
    using stagering.queue_empty[OF R(3)] by simp
  have full: "ch32_rxfifo_full ?u \<longleftrightarrow> \<not> length (rx_queue ?u) < 63"
    using rxring.queue_full[OF R(1)] rxring.queue_capacity[OF R(1)] by (auto simp: ch32_rxfifo_full_def)
  show ?thesis
  proof (cases "stage_queue ?u \<noteq> [] \<and> length (rx_queue ?u) < 63")
    case False
    then show ?thesis using ok empty full usart1_ok_frame(3)[OF ok]
      by (auto intro!: uart_refinesI simp: ch32_usart1_rx_tick_def Let_def uart_abs_eq)
  next
    case True
    note F = rx_feed_byte_queues[OF I(1) conjunct1[OF True] conjunct2[OF True]]
    have dm: "u1_ctlr3 (rx_feed_byte ?u) = u1_ctlr3 ?u" "tx_empty (rx_feed_byte ?u) = tx_empty ?u"
      "tx_complete (rx_feed_byte ?u) = tx_complete ?u" "u1_statr (rx_feed_byte ?u) = u1_statr ?u"
      by (simp_all add: rx_feed_byte_def rx_push_def rx_stage_pop_def Let_def)
    have K: "usart1_ok (rx_feed_byte ?u)"
      using F ok I(6) by (simp add: usart1_ok_queues dm)
    show ?thesis using True empty full K usart1_ok_frame(3)[OF K] F(1-3) I(6)
      by (auto intro!: uart_refinesI simp: ch32_usart1_rx_tick_def Let_def uart_abs_eq dm)
  qed
qed


lemma uart_tx_tick_refines:
  assumes ok: "usart1_ok (m_usart1 m)"
  shows "uart_refines (spec_step chr Uart_tx_tick (uart_abs m)) (usart1_step asw chr Uart_tx_tick m)"
proof -
  let ?u = "m_usart1 m"
  note I = usart1_okD[OF ok]
  obtain changed m1 h t where L: "tx_drain_loop chr False m = Some (changed, tx_queue (m_usart1 m1) \<noteq> [], m1)"
    "changed \<longleftrightarrow> tx_queue (m_usart1 m1) \<noteq> tx_queue ?u"
    "spec_drain chr (chr_out m) (tx_queue ?u) = (chr_out m1, tx_queue (m_usart1 m1))"
    "usart1_rings_ok (m_usart1 m1)"
    "m1 = uart_upd (\<lambda>u. u\<lparr>tx_head := h, tx_timer := t\<rparr>) (m\<lparr>chr_out := chr_out m1\<rparr>)"
    using tx_drain_loop_queues[OF I(1), of chr False] by auto
  define u1 where "u1 = ?u\<lparr>tx_head := h, tx_timer := t\<rparr>"
  have u1: "m_usart1 m1 = u1" unfolding u1_def by (subst L(5)) simp
  have same: "rx_queue u1 = rx_queue ?u" "stage_queue u1 = stage_queue ?u" "uart_reg u1 = uart_reg ?u"
    by (simp_all add: u1_def)
  have rings: "usart1_rings_ok u1" using L(4) by (simp add: u1)
  have fin: "usart1_ok (u1\<lparr>tx_empty := True, tx_complete := True\<rparr>)" if "tx_queue u1 = []"
    using ok rings that by (simp add: usart1_ok_queues usart1_rings_ok_def u1_def)
  have part: "usart1_ok u1" if "tx_queue u1 \<noteq> [] \<or> tx_queue u1 = tx_queue ?u"
  proof -
    have ne: "tx_queue u1 \<noteq> [] \<Longrightarrow> tx_queue ?u \<noteq> []"
      using L(3) by (auto simp: u1)
    then have "tx_queue u1 = [] \<longleftrightarrow> tx_queue ?u = []" using that by auto
    moreover have "tx_empty u1 = tx_empty ?u" "tx_complete u1 = tx_complete ?u" by (simp_all add: u1_def)
    ultimately show ?thesis using ok rings by (simp add: usart1_ok_queues) (simp add: u1_def)
  qed
  have spec: "spec_step chr Uart_tx_tick (uart_abs m) = (None, uart_abs m1)"
    using L(3) by (simp add: uart_abs_eq u1 same)
  show ?thesis
  proof (cases "tx_queue u1 = [] \<and> (changed \<or> \<not> tx_empty u1)")
    case True
    let ?m = "uart_upd (\<lambda>u. u\<lparr>tx_empty := True, tx_complete := True\<rparr>) m1"
    have "usart1_step asw chr Uart_tx_tick m = Some (None, ch32_usart1_meip_resync rescan ?m)"
      using True by (simp add: ch32_usart1_tx_drain_def L(1) u1)
    moreover have "uart_abs ?m = uart_abs m1" by (simp add: uart_abs_eq u1)
    ultimately show ?thesis using fin True spec by (auto intro!: uart_refinesI simp: uart_abs_eq u1)
  next
    case False
    have "usart1_step asw chr Uart_tx_tick m =
        Some (None, if changed then ch32_usart1_meip_resync rescan m1 else m1)"
      using False by (auto simp: ch32_usart1_tx_drain_def L(1) u1)
    moreover have "tx_queue u1 \<noteq> [] \<or> tx_queue u1 = tx_queue ?u" using False L(2) by (auto simp: u1)
    ultimately show ?thesis using part spec by (auto intro!: uart_refinesI simp: uart_abs_eq u1)
  qed
qed

lemma uart_step_refines:
  assumes "usart1_ok (m_usart1 m)" "no_rx_dma e"
  shows "uart_refines (spec_step chr e (uart_abs m)) (usart1_step asw chr e m)"
  using assms uart_write_refines uart_read_refines uart_receive_refines uart_rx_tick_refines
    uart_tx_tick_refines
  by (cases e) blast+

lemma uart_run_refines:
  assumes "usart1_ok (m_usart1 m)" "list_all no_rx_dma es"
  shows "map_option (\<lambda>(vs, m'). (vs, uart_abs m')) (usart1_run asw chr es m) =
    Some (spec_run chr es (uart_abs m))"
  using assms
proof (induction es arbitrary: m)
  case (Cons e es)
  from uart_step_refines[of m e chr asw] Cons.prems obtain v m1 where
    "usart1_step asw chr e m = Some (v, m1)" "usart1_ok (m_usart1 m1)"
    "spec_step chr e (uart_abs m) = (v, uart_abs m1)"
    by (auto simp: uart_refines_def)
  moreover from Cons.IH[of m1] this Cons.prems obtain vs m2 where
    "usart1_run asw chr es m1 = Some (vs, m2)" "spec_run chr es (uart_abs m1) = (vs, uart_abs m2)"
    by (auto simp: map_option_case split: option.splits)
  ultimately show ?case by simp
qed simp

section \<open>From reset\<close>

definition spec_reset :: "u8 list \<Rightarrow> uart_spec" where
  "spec_reset out = \<lparr>q_tx = [], q_rx = [], q_stage = [], q_out = out, q_reg = (\<lambda>_. 0)\<rparr>"

lemma usart1_reset_usart: "m_usart1 (ch32_usart1_reset m) = usart1_reset_regs (m_usart1 m)"
  "chr_out (ch32_usart1_reset m) = chr_out m"
  by (simp_all add: ch32_usart1_reset_def Let_def cpu_irq_def meip_disable_def meip_release_def
      meip_lower_def ch32_pfic_irq_active_clear_def)

lemma usart1_reset_ok: "usart1_ok (m_usart1 (ch32_usart1_reset m))"
  by (simp add: usart1_reset_usart usart1_reset_regs_def usart1_ok_def usart1_rings_ok_def ring_ok_def
      statr_other_def statr_defs)

lemma usart1_reset_abs: "uart_abs (ch32_usart1_reset m) = spec_reset (chr_out m)"
  by (simp add: uart_abs_eq usart1_reset_usart usart1_reset_regs_def spec_reset_def ring_list_def
      ring_used_def uart_reg_def fun_eq_iff)




section \<open>The light ports\<close>

abbreviation "lite_queue u \<equiv> ring_list 8 (rx_fifo u) (unat (rx_fifo_h u)) (unat (rx_fifo_t u))"
abbreviation "lite_valid u \<equiv> ring_ok 8 (rx_fifo u) (unat (rx_fifo_h u)) (unat (rx_fifo_t u))"

lemma lite_resync_frame [simp]: "m_lite (ch32_usart_lite_meip_resync rescan m) = m_lite m"
proof -
  have one: "m_lite (usart_lite_meip_one i n rescan m) = m_lite m" for i n m
    using pending_view by (simp add: usart_lite_meip_one_def cpu_irq_def meip_claim_def meip_lower_def
        meip_release_def ch32_pfic_irq_active_set_def ch32_pfic_irq_active_clear_def Let_def
        view_fields(4)[OF pending_view])
  show ?thesis
    unfolding ch32_usart_lite_meip_resync_def
    by (rule fold_invariant[where Q = "\<lambda>_. True" and P = "\<lambda>x. m_lite x = m_lite m"]) (simp_all add: one)
qed

fun lite_read_data :: "nat \<Rightarrow> nat \<Rightarrow> machine \<Rightarrow> u32 list \<times> machine" where
  "lite_read_data i 0 m = ([], m)"
| "lite_read_data i (Suc n) m =
     (let (v, m1) = ch32_usart_lite_read rescan i 0x04 4 m; (vs, m2) = lite_read_data i n m1
      in (v # vs, m2))"

lemma lite_push_queue:
  fixes b :: u8
  assumes "i < 7" "i < length (m_lite m)" "lite_valid (m_lite m ! i)" "length (lite_queue (m_lite m ! i)) < 7"
  defines "m' \<equiv> ch32_usart_lite_push_rx_byte rescan i b m"
  shows "lite_queue (m_lite m' ! i) = lite_queue (m_lite m ! i) @ [b]" "lite_valid (m_lite m' ! i)"
    "length (m_lite m') = length (m_lite m)"
proof -
  let ?u = "m_lite m ! i"
  have nf: "(unat (rx_fifo_t ?u) + 1) mod 8 \<noteq> unat (rx_fifo_h ?u)"
    using litering.queue_full[OF assms(3)] assms(4) by simp
  have m': "m_lite m' = arr_upd i (lite_rxfifo_push b) (m_lite m)"
    using assms(1) nf by (simp add: m'_def ch32_usart_lite_push_rx_byte_def lite_rxfifo_full_def)
  show "lite_queue (m_lite m' ! i) = lite_queue ?u @ [b]" "lite_valid (m_lite m' ! i)"
    "length (m_lite m') = length (m_lite m)"
    using litering.queue_push[OF assms(3) nf, of b] litering.valid_push[OF assms(3), of b] assms(2)
    by (simp_all add: m')
qed

lemma lite_read_queue:
  assumes "i < length (m_lite m)" "lite_valid (m_lite m ! i)" "lite_queue (m_lite m ! i) = b # q"
  shows "\<exists>m'. ch32_usart_lite_read rescan i 0x04 4 m = (ucast b, m') \<and>
    lite_queue (m_lite m' ! i) = q \<and> lite_valid (m_lite m' ! i) \<and> length (m_lite m') = length (m_lite m)"
proof -
  let ?u = "m_lite m ! i"
  have ne: "unat (rx_fifo_h ?u) \<noteq> unat (rx_fifo_t ?u)"
    using litering.queue_empty[OF assms(2)] assms(3) by simp
  note pop = litering.queue_pop[OF assms(2) ne]
  have "fst (lite_rxfifo_pop ?u) = b" "lite_queue (snd (lite_rxfifo_pop ?u)) = q"
    using pop assms(3) by (simp_all add: lite_rxfifo_pop_def)
  moreover have "lite_valid (snd (lite_rxfifo_pop ?u))" by (rule litering.valid_pop[OF assms(2)])
  moreover have "\<not> lite_rxfifo_empty ?u" using ne by (auto simp: lite_rxfifo_empty_def)
  ultimately show ?thesis using assms(1)
    by (cases "lite_rxfifo_pop ?u") (simp add: ch32_usart_lite_read_def Let_def)
qed

lemma lite_push_all:
  assumes "i < 7" "i < length (m_lite m)" "lite_valid (m_lite m ! i)"
    "length (lite_queue (m_lite m ! i)) + length bs \<le> 7"
  defines "m' \<equiv> fold (ch32_usart_lite_push_rx_byte rescan i) bs m"
  shows "lite_queue (m_lite m' ! i) = lite_queue (m_lite m ! i) @ bs \<and> lite_valid (m_lite m' ! i) \<and>
    length (m_lite m') = length (m_lite m)"
  using assms(2-4) unfolding m'_def
proof (induction bs arbitrary: m)
  case (Cons b bs)
  have "length (lite_queue (m_lite m ! i)) < 7" using Cons.prems(3) by simp
  note P = lite_push_queue[OF assms(1) Cons.prems(1,2) this, of b]
  show ?case using Cons.IH[of "ch32_usart_lite_push_rx_byte rescan i b m"] P Cons.prems by simp
qed simp

lemma lite_read_all:
  assumes "i < length (m_lite m)" "lite_valid (m_lite m ! i)" "n \<le> length (lite_queue (m_lite m ! i))"
  shows "fst (lite_read_data i n m) = map ucast (take n (lite_queue (m_lite m ! i)))"
  using assms
proof (induction n arbitrary: m)
  case (Suc n)
  then obtain b q where q: "lite_queue (m_lite m ! i) = b # q" by (cases "lite_queue (m_lite m ! i)") auto
  from lite_read_queue[OF Suc.prems(1,2) q] obtain m' where m':
    "ch32_usart_lite_read rescan i 0x04 4 m = (ucast b, m')" "lite_queue (m_lite m' ! i) = q"
    "lite_valid (m_lite m' ! i)" "length (m_lite m') = length (m_lite m)" by blast
  show ?case using Suc.IH[of m'] Suc.prems m' q by (simp add: case_prod_unfold)
qed simp

text \<open>What a light port receives after a reset, up to the seven bytes its FIFO holds, the guest
  reads from the data register in the same order.\<close>

theorem lite_receive_in_order:
  assumes "i < 7" "length (m_lite m) = 7" "length bs \<le> 7"
  shows "fst (lite_read_data i (length bs)
    (fold (ch32_usart_lite_push_rx_byte rescan i) bs (ch32_usart_lite_reset m))) = map ucast bs"
proof -
  let ?m = "ch32_usart_lite_reset m"
  have r: "lite_valid (m_lite ?m ! i)" "lite_queue (m_lite ?m ! i) = []" "length (m_lite ?m) = 7"
    using assms(1,2)
    by (simp_all add: ch32_usart_lite_reset_def lite_reset_one_def ring_ok_def ring_list_def ring_used_def)
  note P = lite_push_all[OF assms(1) _ r(1), of bs]
  show ?thesis
    using P r assms lite_read_all[of i "fold (ch32_usart_lite_push_rx_byte rescan i) bs ?m" "length bs"]
    by simp
qed

theorem lite_receive_in_order_witness:
  "fst (lite_read_data 2 3 (fold (ch32_usart_lite_push_rx_byte rescan 2) [10, 20, 30]
     (ch32_usart_lite_reset machine_zero))) = [10, 20, 30]"
  using lite_receive_in_order[of 2 machine_zero "[10, 20, 30]"] by (simp add: machine_zero_def numeral_3_eq_3)

end
