(* ===== verification/Ch32_Traps.thy ===== *)
theory Ch32_Traps
  imports Ch32_PowerOn
begin

text \<open>
  The composition of interrupt acceptance, a handler and \<open>mret\<close> on a QingKe core: what the code the
  interrupt hit sees afterwards. A handler may change the registers, the memory and every device; it
  leaves the trap state of the CPU alone. Further interrupts cannot nest in VTF mode.
\<close>

section \<open>A hardware-stacked interrupt\<close>

definition isr_frame :: "cpu_state \<Rightarrow> cpu_state \<Rightarrow> bool" where
  "isr_frame e e' \<longleftrightarrow> cfg e' = cfg e \<and> mtvec e' = mtvec e \<and> priv e' = priv e \<and>
     mstatus e' = mstatus e \<and> mepc e' = mepc e \<and> wch_hpe_depth e' = wch_hpe_depth e \<and>
     wch_hpe_bank e' = wch_hpe_bank e \<and> wch_hpe_sw_handler_skip e' = wch_hpe_sw_handler_skip e \<and>
     wch_vtf_in_isr e' = wch_vtf_in_isr e \<and> length (gpr e') = 32"

lemma view_cpu:
  assumes "meip_view m = meip_view m'"
  shows "gpr (m_cpu m) = gpr (m_cpu m')" "priv (m_cpu m) = priv (m_cpu m')"
    "mstatus (m_cpu m) = mstatus (m_cpu m')" "mepc (m_cpu m) = mepc (m_cpu m')" "cfg (m_cpu m) = cfg (m_cpu m')"
    "wch_hpe_depth (m_cpu m) = wch_hpe_depth (m_cpu m')" "wch_vtf_in_isr (m_cpu m) = wch_vtf_in_isr (m_cpu m')"
    "wch_hpe_sw_handler_skip (m_cpu m) = wch_hpe_sw_handler_skip (m_cpu m')"
  using arg_cong[OF assms, of "\<lambda>m. gpr (m_cpu m)"] arg_cong[OF assms, of "\<lambda>m. priv (m_cpu m)"]
      arg_cong[OF assms, of "\<lambda>m. mstatus (m_cpu m)"] arg_cong[OF assms, of "\<lambda>m. mepc (m_cpu m)"]
      arg_cong[OF assms, of "\<lambda>m. cfg (m_cpu m)"] arg_cong[OF assms, of "\<lambda>m. wch_hpe_depth (m_cpu m)"]
      arg_cong[OF assms, of "\<lambda>m. wch_vtf_in_isr (m_cpu m)"]
      arg_cong[OF assms, of "\<lambda>m. wch_hpe_sw_handler_skip (m_cpu m)"]
    by (simp_all add: meip_view_def)

lemma entry_fields:
  fixes ldl :: "u64 \<Rightarrow> u32 option"
  assumes "wch_is_vtf_mode e" "\<not> wch_hpe_sw_handler_skip e" "c \<noteq> IRQ_M_SOFT" "unat (wch_hpe_depth e) < 8"
  defines "e1 \<equiv> do_interrupt_mmode ldl True c 0 e"
  shows "cfg e1 = cfg e" "mtvec e1 = mtvec e" "priv e1 = PRV_M" "mepc e1 = pc e" "gpr e1 = gpr e"
    "ms_mpp (mstatus e1) = priv e" "ms_mpie (mstatus e1) = ms_mie (mstatus e)"
    "\<not> wch_hpe_sw_handler_skip e1" "wch_vtf_in_isr e1 = wch_vtf_in_isr e + 1"
    "unat (wch_hpe_depth e1) = Suc (unat (wch_hpe_depth e))"
    "wch_hpe_bank e1 = (wch_hpe_bank e)[unat (wch_hpe_depth e) := map (\<lambda>r. gpr e ! r) wch_hpe_regmap]"
proof -
  have x: "ext_hpe (cfg e)" using assms(1) by (simp add: wch_is_vtf_mode_def)
  let ?f = "wch_hpe_fix_fpu_on_entry (e\<lparr>mstatus := trap_mstatus e\<rparr>)"
  have v: "wch_is_vtf_mode (?f\<lparr>mcause := mc, mepc := pc ?f, mtval := 0\<rparr>)" for mc
    using assms(1) by (simp add: wch_is_vtf_mode_def)
  show "cfg e1 = cfg e" "mtvec e1 = mtvec e" "priv e1 = PRV_M" "mepc e1 = pc e" "gpr e1 = gpr e"
    "ms_mpp (mstatus e1) = priv e" "ms_mpie (mstatus e1) = ms_mie (mstatus e)"
    "\<not> wch_hpe_sw_handler_skip e1" "wch_vtf_in_isr e1 = wch_vtf_in_isr e + 1"
    "unat (wch_hpe_depth e1) = Suc (unat (wch_hpe_depth e))"
    "wch_hpe_bank e1 = (wch_hpe_bank e)[unat (wch_hpe_depth e) := map (\<lambda>r. gpr e ! r) wch_hpe_regmap]"
    using x assms(1-4) v
    by (simp_all add: e1_def do_interrupt_mmode_def Let_def trap_vector_skip trap_vector_in_isr push_fields
        trap_mstatus_def)
qed

text \<open>C3. An interrupt in VTF mode is transparent to the code it hits. If the core accepts an interrupt
  that the hardware stacks (any but the software one), and a handler that leaves the trap state alone
  ends with \<open>mret\<close>, then the core is back at the interrupted address and privilege with interrupts
  enabled as before, the sixteen caller-saved registers hold what they held, the others what the
  handler left in them, and the register bank and the nesting counter are as before.\<close>

theorem vtf_interrupt_roundtrip:
  assumes "cpu_shape (m_cpu m)" "wch_is_vtf_mode (m_cpu m)" "\<not> wch_hpe_sw_handler_skip (m_cpu m)"
    and "unat (wch_hpe_depth (m_cpu m)) < 8"
    and "riscv_cpu_exec_interrupt ldl True (m_cpu m) = (True, e1)"
    and "riscv_cpu_local_irq_pending (m_cpu m) = Some c" "c \<noteq> IRQ_M_SOFT"
    and "\<not> trap_to_smode True c (m_cpu m)"
    and "isr_frame e1 (m_cpu mh)"
    and "allow_16bit (cfg (m_cpu m)) \<or> (pc (m_cpu m) AND msk) AND 3 = 0"
    and "helper_mret (Some ch32_pfic_on_mret) msk mh = (r, m')"
  shows "r = Inr (pc (m_cpu m) AND msk) \<and> priv (m_cpu m') = priv (m_cpu m) \<and>
    ms_mie (mstatus (m_cpu m')) = ms_mie (mstatus (m_cpu m)) \<and>
    (\<forall>x \<in> set wch_hpe_regmap. gpr (m_cpu m') ! x = gpr (m_cpu m) ! x) \<and>
    (\<forall>x. x \<notin> set wch_hpe_regmap \<longrightarrow> gpr (m_cpu m') ! x = gpr (m_cpu mh) ! x) \<and>
    wch_hpe_depth (m_cpu m') = wch_hpe_depth (m_cpu m) \<and>
    wch_vtf_in_isr (m_cpu m') = wch_vtf_in_isr (m_cpu m)"
proof -
  let ?e = "m_cpu m" and ?h = "m_cpu mh"
  have e1: "e1 = do_interrupt_mmode ldl True c 0 ?e"
    using assms(5,6,8) by (auto simp: riscv_cpu_exec_interrupt_def riscv_cpu_do_interrupt_def split: if_splits)
  note E = entry_fields[OF assms(2,3,7,4), of ldl, folded e1]
  have H: "cfg ?h = cfg ?e" "mtvec ?h = mtvec ?e" "priv ?h = PRV_M" "mstatus ?h = mstatus e1" "mepc ?h = pc ?e"
    "unat (wch_hpe_depth ?h) = Suc (unat (wch_hpe_depth ?e))" "wch_hpe_bank ?h = wch_hpe_bank e1"
    "\<not> wch_hpe_sw_handler_skip ?h" "wch_vtf_in_isr ?h = wch_vtf_in_isr ?e + 1" "length (gpr ?h) = 32"
    using assms(9) E by (simp_all add: isr_frame_def)
  have x: "ext_hpe (cfg ?h)" using assms(2) H(1) by (simp add: wch_is_vtf_mode_def)
  have nz: "wch_hpe_depth ?h \<noteq> 0" using H(6) by (metis unat_0 nat.distinct(1))
  note P = pop_fields[OF x nz H(8)]
  let ?p = "wch_qingke_hpe_mret_pop ?h"
  have depth: "wch_hpe_depth ?p = wch_hpe_depth ?e" using P(1) H(6) by (simp add: word_unat_eq_iff)
  have frame: "wch_hpe_bank ?h ! unat (wch_hpe_depth ?e) = map (\<lambda>r. gpr ?e ! r) wch_hpe_regmap"
    using E(11) H(7) assms(1,4) by (simp add: cpu_shape_def)
  have g: "gpr ?p = hpe_restore (map (\<lambda>r. gpr ?e ! r) wch_hpe_regmap) (gpr ?h)"
    using P(3) frame H(6) by simp
  let ?m1 = "env_upd wch_qingke_hpe_mret_pop mh"
  let ?m2 = "env_upd wch_vtf_exit ?m1"
  have vtf: "wch_is_vtf_mode ?p" using assms(2) H(1,2) by (simp add: wch_is_vtf_mode_def)
  have exit_in: "wch_vtf_in_isr (wch_vtf_exit ?p) = wch_vtf_in_isr ?e"
  proof -
    have "wch_vtf_in_isr ?e = 0"
      using assms(2,5,6) by (auto simp: riscv_cpu_exec_interrupt_def wch_vtf_irq_blocked_def word_gt_0 split: if_splits)
    then show ?thesis using H(9) by (simp add: wch_vtf_exit_def)
  qed
  have ex: "gpr (wch_vtf_exit ?p) = gpr ?p" "wch_hpe_depth (wch_vtf_exit ?p) = wch_hpe_depth ?p"
    "priv (wch_vtf_exit ?p) = PRV_M" "mstatus (wch_vtf_exit ?p) = mstatus e1" "mepc (wch_vtf_exit ?p) = pc ?e"
    "cfg (wch_vtf_exit ?p) = cfg ?e"
    using H by (simp_all add: wch_vtf_exit_def)
  let ?m3 = "mret_wch (Some ch32_pfic_on_mret) mh"
  have "meip_view ?m3 = meip_view ?m2"
    using H(8) vtf by (simp add: mret_wch_def Let_def on_mret_view)
  note V = view_cpu[OF this]
  have R: "gpr (m_cpu ?m3) = gpr ?p" "priv (m_cpu ?m3) = PRV_M" "mstatus (m_cpu ?m3) = mstatus e1"
    "mepc (m_cpu ?m3) = pc ?e" "cfg (m_cpu ?m3) = cfg ?e" "wch_hpe_depth (m_cpu ?m3) = wch_hpe_depth ?e"
    "wch_vtf_in_isr (m_cpu ?m3) = wch_vtf_in_isr ?e"
    using V ex exit_in depth by simp_all
  have ok: "check_ret_from_m_mode (pc ?e AND msk) (priv ?e) (m_cpu ?m3) = None"
    using assms(10) x H(1) by (simp add: check_ret_from_m_mode_def R)
  have m': "r = Inr (pc ?e AND msk)" "m' = env_upd (mret_restore (priv ?e)) ?m3"
    using assms(11) ok by (simp_all add: helper_mret_def Let_def R E(6))
  show ?thesis
    using E(7) hpe_restore_frame[OF H(10)] hpe_restore_other
    by (simp add: m' R g mret_restore_def mret_mstatus_def Let_def riscv_cpu_set_mode_def)
qed


text \<open>A core in VTF mode with the external line up.\<close>

definition machine_vtf :: machine where
  "machine_vtf = machine_zero\<lparr>m_cpu := (m_cpu machine_zero)\<lparr>
     cfg := (cfg (m_cpu machine_zero))\<lparr>ext_hpe := True, allow_16bit := True\<rparr>, mtvec := 3, pc := 0x100,
     priv := 3, mstatus := (mstatus (m_cpu machine_zero))\<lparr>ms_mie := True\<rparr>, mie := MIP_MEIP, mip := MIP_MEIP,
     wch_evt_mcause_override := 53, gpr := map of_nat [0..<32]\<rparr>\<rparr>"

definition isr_sample :: machine where
  "isr_sample = machine_vtf\<lparr>m_cpu := (snd (riscv_cpu_exec_interrupt (\<lambda>a. Some 0x200) True (m_cpu machine_vtf)))
     \<lparr>gpr := replicate 32 0\<rparr>\<rparr>"

theorem vtf_interrupt_roundtrip_witness:
  "fst (helper_mret (Some ch32_pfic_on_mret) (- 2) isr_sample) = Inr 0x100 \<and>
   gpr (m_cpu (snd (helper_mret (Some ch32_pfic_on_mret) (- 2) isr_sample))) ! 10 = 10 \<and>
   gpr (m_cpu (snd (helper_mret (Some ch32_pfic_on_mret) (- 2) isr_sample))) ! 2 = 0"
proof -
  let ?e = "m_cpu machine_vtf"
  let ?ldl = "\<lambda>a :: u64. Some (0x200 :: u32)"
  have g: "cpu_shape ?e" "wch_is_vtf_mode ?e" "\<not> wch_hpe_sw_handler_skip ?e" "unat (wch_hpe_depth ?e) < 8"
    "allow_16bit (cfg ?e)" "pc ?e AND - 2 = 0x100" "gpr ?e ! 10 = 10" "length (gpr ?e) = 32"
    by (simp_all add: cpu_shape_def machine_vtf_def machine_zero_def cpu_zero_def wch_is_vtf_mode_def)
  have p: "riscv_cpu_local_irq_pending ?e = Some 11" by code_simp
  have s: "\<not> trap_to_smode True 11 ?e" by code_simp
  have "fst (riscv_cpu_exec_interrupt ?ldl True ?e)"
    using p g(3) by (simp add: riscv_cpu_exec_interrupt_def wch_vtf_irq_blocked_def wch_sw_handler_irq_blocked_def
        machine_vtf_def machine_zero_def cpu_zero_def)
  then obtain e1 where e1: "riscv_cpu_exec_interrupt ?ldl True ?e = (True, e1)"
    by (cases "riscv_cpu_exec_interrupt ?ldl True ?e") simp
  have h: "isr_frame e1 (m_cpu isr_sample)" "gpr (m_cpu isr_sample) ! 2 = 0"
    by (simp_all add: isr_frame_def isr_sample_def e1)
  obtain r m' where r: "helper_mret (Some ch32_pfic_on_mret) (- 2) isr_sample = (r, m')"
    by (cases "helper_mret (Some ch32_pfic_on_mret) (- 2) isr_sample")
  show ?thesis
    using vtf_interrupt_roundtrip[OF g(1-4) e1 p _ s h(1) disjI1[OF g(5)] r] g(6,7) h(2) r
    by (simp add: IRQ_M_SOFT_def wch_hpe_regmap_def)
qed


section \<open>An illegal return\<close>

text \<open>C39. \<open>mret\<close> executed in user mode raises the illegal-instruction exception, but only after it has
  popped a frame of the register bank and overwritten the caller-saved registers with it: the
  privilege check comes after the pop.\<close>

theorem illegal_mret_pops_bank:
  assumes "priv (m_cpu m) = PRV_U" "wch_is_vtf_mode (m_cpu m)" "\<not> wch_hpe_sw_handler_skip (m_cpu m)"
    and "wch_hpe_depth (m_cpu m) \<noteq> 0" "helper_mret (Some ch32_pfic_on_mret) msk m = (r, m')"
  shows "r = Inl RISCV_EXCP_ILLEGAL_INST \<and>
    unat (wch_hpe_depth (m_cpu m')) = unat (wch_hpe_depth (m_cpu m)) - 1 \<and>
    gpr (m_cpu m') = hpe_restore (wch_hpe_bank (m_cpu m) ! (unat (wch_hpe_depth (m_cpu m)) - 1)) (gpr (m_cpu m))"
proof -
  let ?e = "m_cpu m" and ?p = "wch_qingke_hpe_mret_pop (m_cpu m)"
  let ?m3 = "mret_wch (Some ch32_pfic_on_mret) m"
  have x: "ext_hpe (cfg ?e)" using assms(2) by (simp add: wch_is_vtf_mode_def)
  note P = pop_fields[OF x assms(4,3)]
  have vtf: "wch_is_vtf_mode ?p" using assms(2) by (simp add: wch_is_vtf_mode_def)
  have "meip_view ?m3 = meip_view (env_upd wch_vtf_exit (env_upd wch_qingke_hpe_mret_pop m))"
    using assms(3) vtf by (simp add: mret_wch_def Let_def on_mret_view)
  note V = view_cpu[OF this]
  have "priv (m_cpu ?m3) = PRV_U" using V(2) assms(1) by (simp add: wch_vtf_exit_def)
  then have "check_ret_from_m_mode a b (m_cpu ?m3) = Some RISCV_EXCP_ILLEGAL_INST" for a b
    by (simp add: check_ret_from_m_mode_def prv_defs)
  then have "r = Inl RISCV_EXCP_ILLEGAL_INST" "m' = ?m3"
    using assms(5) by (simp_all add: helper_mret_def Let_def)
  then show ?thesis using V(1,6) P(1,3) by (simp add: wch_vtf_exit_def)
qed

theorem illegal_mret_pops_bank_witness:
  "fst (helper_mret (Some ch32_pfic_on_mret) 0 (machine_vtf\<lparr>m_cpu := (m_cpu machine_vtf)\<lparr>priv := PRV_U, wch_hpe_depth := 1\<rparr>\<rparr>)) =
     Inl RISCV_EXCP_ILLEGAL_INST"
proof -
  let ?m = "machine_vtf\<lparr>m_cpu := (m_cpu machine_vtf)\<lparr>priv := PRV_U, wch_hpe_depth := 1\<rparr>\<rparr>"
  have g: "priv (m_cpu ?m) = PRV_U" "wch_is_vtf_mode (m_cpu ?m)" "\<not> wch_hpe_sw_handler_skip (m_cpu ?m)"
    "wch_hpe_depth (m_cpu ?m) \<noteq> 0"
    by (simp_all add: machine_vtf_def machine_zero_def cpu_zero_def wch_is_vtf_mode_def)
  show ?thesis
    using illegal_mret_pops_bank[OF g, of 0] by (cases "helper_mret (Some ch32_pfic_on_mret) 0 ?m") simp
qed

end
