(* ===== verification/Ch32_DmaCopy.thy ===== *)
theory Ch32_DmaCopy
  imports Ch32_Ram
begin

text \<open>
  What a DMA transfer does to the memory: a block between two incrementing buffers of the main memory
  arrives unchanged, and the channel reports completion.
\<close>

lemma convert_same: "length bs = n \<Longrightarrow> dma_convert n bs = bs"
  by (simp add: dma_convert_def)

lemma addr_plus:
  assumes "unat a + k < 2 ^ 32"
  shows "unat (a + of_nat k :: u32) = unat a + k"
  using assms by (simp add: unat_word_ariths unat_of_nat_small)

lemma dma_copy_block:
  assumes "ram_backed asr asw" "0 < sz" "length (m_ram m) < 0xE0000000"
    and "0x20000000 \<le> unat src" "ram_off src + n * sz \<le> length (m_ram m)"
    and "0x20000000 \<le> unat dst" "ram_off dst + n * sz \<le> length (m_ram m)"
    and "apart (ram_off src, n * sz) (ram_off dst, n * sz)"
  shows "dma_copy asr asw True True sz sz n src dst m =
    (True, m\<lparr>m_ram := mem_store (ram_off dst) (take (n * sz) (drop (ram_off src) (m_ram m))) (m_ram m)\<rparr>)"
  using assms(3-)
proof (induction n arbitrary: src dst m)
  case 0
  then show ?case by (simp add: mem_store_def)
next
  case (Suc n)
  let ?ram = "m_ram m" and ?s = "ram_off src" and ?d = "ram_off dst"
  let ?bs = "take sz (drop ?s ?ram)"
  let ?ram1 = "mem_store ?d ?bs ?ram" and ?src = "src + of_nat sz" and ?dst = "dst + of_nat sz"
  have sp: "ram_span ?ram src sz" "ram_span ?ram dst sz"
    using Suc.prems assms(2) by (simp_all add: ram_span_def)
  have len: "length ?bs = sz" using Suc.prems by simp
  have off: "unat ?src = unat src + sz" "unat ?dst = unat dst + sz"
    using Suc.prems by (auto intro!: addr_plus simp: ram_off_def)
  then have o: "ram_off ?src = ?s + sz" "ram_off ?dst = ?d + sz"
    using Suc.prems(2,4) by (simp_all add: ram_off_def)
  have l1: "length ?ram1 = length ?ram" using len Suc.prems by (intro length_mem_store) simp
  have step: "dma_copy asr asw True True sz sz (Suc n) src dst m =
      dma_copy asr asw True True sz sz n ?src ?dst (m\<lparr>m_ram := ?ram1\<rparr>)"
    using ram_backedD(1)[OF assms(1) sp(1)] ram_backedD(2)[OF assms(1), of m dst ?bs] sp(2) len
    by (simp add: convert_same)
  have rest: "take (n * sz) (drop (?s + sz) ?ram1) = take (n * sz) (drop (?s + sz) ?ram)"
    using Suc.prems len by (intro mem_store_elsewhere) (auto simp: apart_def)
  have "dma_copy asr asw True True sz sz n ?src ?dst (m\<lparr>m_ram := ?ram1\<rparr>) =
      (True, m\<lparr>m_ram := mem_store (?d + sz) (take (n * sz) (drop (?s + sz) ?ram1)) ?ram1\<rparr>)"
    using Suc.IH[of "m\<lparr>m_ram := ?ram1\<rparr>" ?src ?dst] Suc.prems off o l1 by (auto simp: apart_def)
  also have "mem_store (?d + sz) (take (n * sz) (drop (?s + sz) ?ram1)) ?ram1 =
      mem_store ?d (?bs @ take (n * sz) (drop (?s + sz) ?ram)) ?ram"
    using mem_store_append[of ?d ?bs "take (n * sz) (drop (?s + sz) ?ram)" ?ram] len rest Suc.prems by simp
  also have "?bs @ take (n * sz) (drop (?s + sz) ?ram) = take (Suc n * sz) (drop ?s ?ram)"
    by (simp add: take_add drop_drop add.commute)
  finally show ?case using step by simp
qed


section \<open>The channel\<close>

definition dma_ok :: "dma_state \<Rightarrow> bool" where
  "dma_ok d \<longleftrightarrow> length (dma_intfr d) = 3 \<and> length (dma_ch1 d) = 7 \<and> length (dma_ch2 d) = 11"

fun dma_ref_ok :: "dma_ref \<Rightarrow> bool" where
  "dma_ref_ok (Dma1 i) \<longleftrightarrow> i < 7"
| "dma_ref_ok (Dma2 i) \<longleftrightarrow> i < 11"

lemma dma_get_upd:
  assumes "dma_ok (m_dma m)" "dma_ref_ok ref"
  shows "dma_get ref (dma_upd ref f m) = f (dma_get ref m)" "dma_ok (m_dma (dma_upd ref f m))"
    "m_ram (dma_upd ref f m) = m_ram m" "dma_intfr (m_dma (dma_upd ref f m)) = dma_intfr (m_dma m)"
  using assms by (cases ref; simp add: dma_ok_def)+

lemma dma_get_ram [simp]: "dma_get ref (m_ram_update g m) = dma_get ref m"
  by (cases ref) simp_all

lemma fire_irq_frame [simp]:
  "m_ram (ch32_dma_fire_irq n m) = m_ram m" "m_dma (ch32_dma_fire_irq n m) = m_dma m"
  "dma_get ref (ch32_dma_fire_irq n m) = dma_get ref m"
  by (cases ref; simp add: ch32_dma_fire_irq_def cpu_irq_def)+

lemma dma_get_intfr [simp]: "dma_get ref (intfr_upd k f m) = dma_get ref m"
  by (cases ref) simp_all

lemma decode_ref:
  assumes "dma_decode addr = Some ((ref, k, ch_local, irq_n), roff)"
  shows "dma_ref_ok ref" "k < 3"
  using assms by (auto simp: dma_decode_def Let_def split: if_splits)

text \<open>Source and destination of the programmed transfer.\<close>

definition dma_src :: "u32 \<Rightarrow> dma_channel \<Rightarrow> u32" where
  "dma_src v c = (if bit v DMA_DIR then dma_maddr c else dma_paddr c)"

definition dma_dst :: "u32 \<Rightarrow> dma_channel \<Rightarrow> u32" where
  "dma_dst v c = (if bit v DMA_DIR then dma_paddr c else dma_maddr c)"

text \<open>C32. Enabling a DMA channel programmed with two incrementing buffers and one unit size copies the
  block: the destination holds the source, no other byte of the memory changes, the channel is
  disabled with its counter at zero, and its transfer-complete flag is up. The buffers are disjoint
  areas of the main memory.\<close>

theorem dma_block_copied:
  assumes "ram_backed asr asw" "dma_ok (m_dma m)" "length (m_ram m) < 0xE0000000"
    and "addr \<noteq> 0" "addr \<noteq> 4" "addr \<noteq> 0x400" "addr \<noteq> 0x404"
    and "dma_decode addr = Some ((ref, k, ch_local, irq_n), 0)" "bit v DMA_EN"
    and "bit v DMA_PINC" "bit v DMA_MINC" "drop_bit 8 v AND 3 = drop_bit 10 v AND 3"
    and "n = unat (dma_cntr (dma_get ref m) AND 0xFFFF) * dma_unit_size (drop_bit 8 v AND 3)"
    and "src = dma_src v (dma_get ref m)" "dst = dma_dst v (dma_get ref m)"
    and "0x20000000 \<le> unat src" "ram_off src + n \<le> length (m_ram m)"
    and "0x20000000 \<le> unat dst" "ram_off dst + n \<le> length (m_ram m)"
    and "apart (ram_off src, n) (ram_off dst, n)"
    and "m' = ch32_dma_write asr asw addr v m"
  shows "take n (drop (ram_off dst) (m_ram m')) = take n (drop (ram_off src) (m_ram m)) \<and>
    (\<forall>i < length (m_ram m). i < ram_off dst \<or> ram_off dst + n \<le> i \<longrightarrow> m_ram m' ! i = m_ram m ! i) \<and>
    dma_cntr (dma_get ref m') = 0 \<and> \<not> bit (dma_cfgr (dma_get ref m')) DMA_EN \<and>
    bit (dma_intfr (m_dma m') ! k) (DMA_INTFR_TCIF_BIT ch_local)"
proof -
  let ?m1 = "dma_upd ref (dma_cfgr_update (\<lambda>_. v)) m"
  let ?sz = "dma_unit_size (drop_bit 8 v AND 3)" and ?cnt = "unat (dma_cntr (dma_get ref m) AND 0xFFFF)"
  let ?ram = "mem_store (ram_off dst) (take n (drop (ram_off src) (m_ram m))) (m_ram m)"
  have R: "dma_ref_ok ref" "k < 3" by (rule decode_ref[OF assms(8)])+
  note U = dma_get_upd[OF assms(2) R(1), of "dma_cfgr_update (\<lambda>_. v)"]
  have n: "n = ?cnt * ?sz" "0 < ?sz" using assms(13) by (simp_all add: dma_unit_size_def)
  have "dma_copy asr asw True True ?sz ?sz ?cnt src dst ?m1 =
      (True, ?m1\<lparr>m_ram := mem_store (ram_off dst) (take (?cnt * ?sz) (drop (ram_off src) (m_ram ?m1))) (m_ram ?m1)\<rparr>)"
    using assms(3,16-20) by (intro dma_copy_block[OF assms(1) n(2)]) (simp_all add: U n(1))
  then have copy: "dma_copy asr asw True True ?sz ?sz ?cnt src dst ?m1 = (True, ?m1\<lparr>m_ram := ?ram\<rparr>)"
    by (simp add: U n(1))
  let ?m2 = "?m1\<lparr>m_ram := ?ram\<rparr>"
  let ?m3 = "dma_upd ref (\<lambda>c. c\<lparr>dma_cntr := 0, dma_cfgr := dma_cfgr c AND NOT (one_bit DMA_EN)\<rparr>) ?m2"
  let ?m4 = "intfr_upd k (\<lambda>w. w OR (one_bit (DMA_INTFR_GIF_BIT ch_local) OR one_bit (DMA_INTFR_TCIF_BIT ch_local))) ?m3"
  have ok2: "dma_ok (m_dma ?m2)" using U(2) by simp
  note S = dma_get_upd[OF ok2 R(1), of "\<lambda>c. c\<lparr>dma_cntr := 0, dma_cfgr := dma_cfgr c AND NOT (one_bit DMA_EN)\<rparr>"]
  have run: "m' = (if bit v DMA_TCIE \<and> irq_n \<noteq> 0 then ch32_dma_fire_irq irq_n ?m4 else ?m4)"
    using assms(4-12,14,15,21) copy
    by (simp add: ch32_dma_write_def ch32_dma_exec_def Let_def U(1) dma_src_def dma_dst_def split: if_splits)
  have ram: "m_ram m' = ?ram" using S(3) by (simp add: run)
  have get: "dma_get ref m' = dma_get ref ?m3" by (simp add: run)
  have ch: "ch_local \<le> 7" using assms(8) by (auto simp: dma_decode_def Let_def split: if_splits)
  then have arith: "(ch_local - Suc 0) * 4 < 31" "ch_local - Suc 0 < 8" by simp_all
  have fl: "dma_intfr (m_dma m') = arr_upd k (\<lambda>w. w OR (one_bit (DMA_INTFR_GIF_BIT ch_local) OR
      one_bit (DMA_INTFR_TCIF_BIT ch_local))) (dma_intfr (m_dma m))"
    using S(4) U(4) by (simp add: run)
  have bit: "bit (dma_intfr (m_dma m') ! k) (DMA_INTFR_TCIF_BIT ch_local)"
    using R(2) assms(2) ch arith unfolding fl by (simp add: dma_ok_def bit_or_iff bit_push_bit_iff dma_bit_defs bit_simps)
  have hit: "take n (drop (ram_off dst) ?ram) = take n (drop (ram_off src) (m_ram m))"
    using mem_store_hit[of "ram_off dst" "take n (drop (ram_off src) (m_ram m))" "m_ram m"] assms(17,19) by simp
  have other: "?ram ! i = m_ram m ! i" if "i < length (m_ram m)" "i < ram_off dst \<or> ram_off dst + n \<le> i" for i
    using that assms(17,19) by (intro mem_store_outside) auto
  have "\<not> bit (dma_cfgr (dma_get ref m')) DMA_EN" "dma_cntr (dma_get ref m') = 0"
    unfolding get S(1) by (simp_all add: bit_simps)
  then show ?thesis using hit other bit by (simp add: ram)
qed


text \<open>Channel 1 of DMA1 set up to copy two halfwords.\<close>

definition dma_sample :: machine where
  "dma_sample = machine_zero\<lparr>
     m_dma := (m_dma machine_zero)\<lparr>dma_ch1 := (replicate 7 dma_channel_zero)
       [0 := \<lparr>dma_cfgr = 0, dma_cntr = 2, dma_paddr = 0x20000000, dma_maddr = 0x20000008\<rparr>]\<rparr>,
     m_ram := [1, 2, 3, 4, 5, 6, 7, 8, 0, 0, 0, 0]\<rparr>"

theorem dma_block_copied_witness:
  "take 4 (drop 8 (m_ram (ch32_dma_write ram_read ram_write 8 0x5c1 dma_sample))) = [1, 2, 3, 4] \<and>
   bit (dma_intfr (m_dma (ch32_dma_write ram_read ram_write 8 0x5c1 dma_sample)) ! 0) 1"
proof -
  have g: "dma_ok (m_dma dma_sample)" "m_ram dma_sample = [1, 2, 3, 4, 5, 6, 7, 8, 0, 0, 0, 0]"
    "dma_decode 8 = Some ((Dma1 0, 0, 1, 27), 0)"
    "dma_get (Dma1 0) dma_sample = \<lparr>dma_cfgr = 0, dma_cntr = 2, dma_paddr = 0x20000000, dma_maddr = 0x20000008\<rparr>"
    by (simp_all add: dma_sample_def machine_zero_def dma_ok_def dma_decode_def dma1_ch_irq_def)
  have v: "bit (0x5c1 :: u32) DMA_EN" "bit (0x5c1 :: u32) DMA_PINC" "bit (0x5c1 :: u32) DMA_MINC"
    "\<not> bit (0x5c1 :: u32) DMA_DIR" "drop_bit 8 (0x5c1 :: u32) AND 3 = 1" "drop_bit 10 (0x5c1 :: u32) AND 3 = 1"
    by simp_all
  let ?c = "\<lparr>dma_cfgr = 0, dma_cntr = 2, dma_paddr = 0x20000000, dma_maddr = 0x20000008\<rparr> :: dma_channel"
  have n: "4 = unat (dma_cntr (dma_get (Dma1 0) dma_sample) AND 0xFFFF) * dma_unit_size (drop_bit 8 0x5c1 AND 3)"
    unfolding g(4) v(5) by (simp add: dma_unit_size_def)
  have a: "0x20000000 = dma_src 0x5c1 (dma_get (Dma1 0) dma_sample)" "0x20000008 = dma_dst 0x5c1 (dma_get (Dma1 0) dma_sample)"
    unfolding g(4) using v(4) by (simp_all add: dma_src_def dma_dst_def)
  have l: "length (m_ram dma_sample) = 12" "ram_off 0x20000000 = 0" "ram_off 0x20000008 = 8"
    by (simp_all add: g(2) ram_off_def)
  obtain m' where m': "ch32_dma_write ram_read ram_write 8 0x5c1 dma_sample = m'" by blast
  have "take 4 (drop 8 (m_ram m')) = take 4 (drop 0 (m_ram dma_sample)) \<and>
      bit (dma_intfr (m_dma m') ! 0) (DMA_INTFR_TCIF_BIT 1)"
    using dma_block_copied[OF ram_backed_model g(1) _ _ _ _ _ g(3) v(1-3) _ n a _ _ _ _ _ m'[symmetric]]
    by (simp add: l v(5,6) apart_def)
  then show ?thesis by (simp add: g(2) m' dma_bit_defs)
qed

section \<open>A channel that cannot be programmed\<close>

text \<open>The configuration register of DMA2 channel 8 is shadowed: its address falls into the range the
  handlers test for channels 1 to 7, where it selects no register. A write to it does nothing, a read
  gives zero, and no other address selects it, so the channel can never be enabled.\<close>

theorem dma2_channel8_unreachable:
  "ch32_dma_write asr asw 0x490 v m = m \<and> ch32_dma_read 0x490 m = 0 \<and>
   (\<forall>addr k ch_local irq_n. dma_decode addr \<noteq> Some ((Dma2 7, k, ch_local, irq_n), 0))"
proof -
  have "dma_decode 0x490 = Some ((Dma2 6, 1, 7, 99), 16)"
    by (simp add: dma_decode_def dma2_ch_irq_def)
  then have "ch32_dma_write asr asw 0x490 v m = m" "ch32_dma_read 0x490 m = 0"
    by (simp_all add: ch32_dma_write_def ch32_dma_read_def)
  moreover have "dma_decode addr \<noteq> Some ((Dma2 7, k, ch_local, irq_n), 0)" for addr k ch_local irq_n
  proof -
    have "a < 0x494" if "(a - 0x490) div 0x10 = 0" "(a - 0x490) mod 0x10 = 0" for a :: nat
      using that by presburger
    moreover have "(a - 0x408) div 0x14 < 7" if "a < 0x494" for a :: nat using that by simp
    ultimately show ?thesis by (auto simp: dma_decode_def Let_def split: if_splits)
  qed
  ultimately show ?thesis by blast
qed

end
