(* ===== verification/Ch32_Usb.thy ===== *)
theory Ch32_Usb
  imports Ch32_Machine
begin

text \<open>
  The two USB hosts as the guest sees them: the register handlers of \<open>ch32-usb.c\<close> and the bridge from
  a write of the endpoint register to a packet of QEMU's USB core, \<open>ch32-usb-hs-host.c\<close> (USBHS) and
  \<open>ch32-usb-fs-host.c\<close> (USBFS). The USB core and the devices behind the root port are a parameter.
\<close>

section \<open>The USB core\<close>

datatype usb_token = USB_TOKEN_SETUP | USB_TOKEN_IN | USB_TOKEN_OUT

datatype usb_ret = USB_RET_SUCCESS | USB_RET_NODEV | USB_RET_NAK | USB_RET_STALL
  | USB_RET_BABBLE | USB_RET_IOERROR | USB_RET_ASYNC | USB_RET_REMOVE_FROM_QUEUE

datatype usb_dev_speed = USB_SPEED_LOW | USB_SPEED_FULL | USB_SPEED_HIGH | USB_SPEED_SUPER

text \<open>
  The services of \<open>hw/usb\<close> the hosts call, over a state \<open>'d\<close> of the devices behind one root port.
  \<open>usb_handle_packet\<close> takes device, token, endpoint, the bytes sent and the room for an answer and
  returns status, \<open>actual_length\<close> and what the buffer holds; \<open>USB_RET_ASYNC\<close> means that the packet is
  in flight. The services do not call back into the port.
\<close>

record 'd usb_core =
  usb_find_device :: "u8 \<Rightarrow> 'd \<Rightarrow> nat option"
  usb_attached :: "nat \<Rightarrow> 'd \<Rightarrow> bool"
  usb_speed :: "nat \<Rightarrow> 'd \<Rightarrow> usb_dev_speed"
  usb_handle_packet :: "nat \<Rightarrow> usb_token \<Rightarrow> nat \<Rightarrow> u8 list \<Rightarrow> nat \<Rightarrow> 'd \<Rightarrow> usb_ret \<times> int \<times> u8 list \<times> 'd"
  usb_cancel :: "'d \<Rightarrow> 'd"
  usb_device_reset :: "nat \<Rightarrow> 'd \<Rightarrow> 'd"

text \<open>The fields of \<open>USBPacket\<close> in use; \<open>pkt_inflight\<close> is \<open>usb_packet_is_inflight\<close>.\<close>

record usb_packet =
  pkt_inflight :: bool
  pkt_pid :: usb_token
  pkt_status :: usb_ret
  pkt_actual_length :: int
  pkt_iov :: "u8 list"

record 'd usb_port =
  rhport_dev :: "nat option"
  usb_bus :: 'd
  the_pkt :: usb_packet
  pkt_inited :: bool
  last_host_ctrl :: u8

text \<open>
  The machine with both root ports; \<open>core_asserted\<close> records that an assertion of the core on the
  state of a packet failed.
\<close>

record 'd usb_machine =
  um :: machine
  hs_port :: "'d usb_port"
  fs_port :: "'d usb_port"
  core_asserted :: bool

text \<open>\<open>usb_cancel_packet\<close>, \<open>usb_packet_cleanup\<close>, \<open>usb_packet_setup\<close> with the assertions the code relies on.\<close>

definition port_cancel :: "'d usb_core \<Rightarrow> 'd usb_port \<Rightarrow> 'd usb_port" where
  "port_cancel c p = p\<lparr>usb_bus := usb_cancel c (usb_bus p),
     the_pkt := (the_pkt p)\<lparr>pkt_inflight := False, pkt_status := USB_RET_REMOVE_FROM_QUEUE\<rparr>\<rparr>"

definition port_fail :: "usb_ret \<Rightarrow> 'd usb_port \<Rightarrow> 'd usb_port" where
  "port_fail st p = p\<lparr>the_pkt := (the_pkt p)\<lparr>pkt_status := st\<rparr>\<rparr>"

definition port_submit ::
    "'d usb_core \<Rightarrow> nat \<Rightarrow> usb_token \<Rightarrow> nat \<Rightarrow> u8 list \<Rightarrow> nat \<Rightarrow> 'd usb_port \<Rightarrow> 'd usb_port" where
  "port_submit c dev token epnum bs room p =
     (case usb_handle_packet c dev token epnum bs room (usb_bus p) of
        (st, len, buf, d) \<Rightarrow>
          p\<lparr>usb_bus := d, the_pkt := \<lparr>pkt_inflight = (st = USB_RET_ASYNC), pkt_pid = token,
                                    pkt_status = st, pkt_actual_length = len, pkt_iov = buf\<rparr>\<rparr>)"

definition assert_idle :: "('d usb_machine \<Rightarrow> 'd usb_port) \<Rightarrow> 'd usb_machine \<Rightarrow> 'd usb_machine" where
  "assert_idle port u = (if pkt_inflight (the_pkt (port u)) then u\<lparr>core_asserted := True\<rparr> else u)"

section \<open>Register file access\<close>

definition ld16_at :: "nat \<Rightarrow> u8 list \<Rightarrow> u16" where
  "ld16_at off r = ucast (of_le_bytes (take 2 (drop off r)))"

definition ld32_at :: "nat \<Rightarrow> u8 list \<Rightarrow> u32" where
  "ld32_at off r = of_le_bytes (take 4 (drop off r))"

definition st16_at :: "nat \<Rightarrow> u16 \<Rightarrow> u8 list \<Rightarrow> u8 list" where
  "st16_at off v r = r[off := ucast v, Suc off := ucast (drop_bit 8 v)]"

abbreviation hs_regs :: "'d usb_machine \<Rightarrow> u8 list" where
  "hs_regs u \<equiv> usbhs_reg (um u)"

abbreviation fs_regs :: "'d usb_machine \<Rightarrow> u8 list" where
  "fs_regs u \<equiv> usbfs_reg (um u)"

abbreviation hs_upd :: "(u8 list \<Rightarrow> u8 list) \<Rightarrow> 'd usb_machine \<Rightarrow> 'd usb_machine" where
  "hs_upd f \<equiv> um_update (usbhs_reg_update f)"

abbreviation fs_upd :: "(u8 list \<Rightarrow> u8 list) \<Rightarrow> 'd usb_machine \<Rightarrow> 'd usb_machine" where
  "fs_upd f \<equiv> um_update (usbfs_reg_update f)"

text \<open>The window a transfer may touch: up to 4096 bytes inside the main memory of size \<open>ram_sz\<close>.\<close>

definition CH32_SRAM_BASE :: nat where "CH32_SRAM_BASE = 0x20000000"

definition ch32_usbhs_dma_ok :: "nat \<Rightarrow> u32 \<Rightarrow> nat \<Rightarrow> bool" where
  "ch32_usbhs_dma_ok ram_sz gpa len \<longleftrightarrow>
     \<not> len > 4096 \<and>
     (len = 0 \<or> \<not> (unat gpa < CH32_SRAM_BASE \<or> unat gpa + len > CH32_SRAM_BASE + ram_sz))"

definition ch32_usbfs_dma_ok :: "nat \<Rightarrow> u32 \<Rightarrow> nat \<Rightarrow> bool" where
  "ch32_usbfs_dma_ok ram_sz gpa len \<longleftrightarrow>
     \<not> len > 4096 \<and>
     (len = 0 \<or> \<not> (unat gpa < CH32_SRAM_BASE \<or> unat gpa + len > CH32_SRAM_BASE + ram_sz))"

definition ch32_usbhs_pid4_to_token :: "u8 \<Rightarrow> usb_token option" where
  "ch32_usbhs_pid4_to_token pid4 =
     (if pid4 AND 0xf = 0xd then Some USB_TOKEN_SETUP
      else if pid4 AND 0xf = 0x9 then Some USB_TOKEN_IN
      else if pid4 AND 0xf = 0x1 then Some USB_TOKEN_OUT
      else None)"

definition ch32_usbfs_pid4_to_token :: "u8 \<Rightarrow> usb_token option" where
  "ch32_usbfs_pid4_to_token pid4 =
     (if pid4 AND 0xf = 0xd then Some USB_TOKEN_SETUP
      else if pid4 AND 0xf = 0x9 then Some USB_TOKEN_IN
      else if pid4 AND 0xf = 0x1 then Some USB_TOKEN_OUT
      else None)"

fun ch32_usbhost_int_st_token_field :: "usb_token \<Rightarrow> u8" where
  "ch32_usbhost_int_st_token_field USB_TOKEN_SETUP = 0x30"
| "ch32_usbhost_int_st_token_field USB_TOKEN_IN = 0x20"
| "ch32_usbhost_int_st_token_field USB_TOKEN_OUT = 0x00"

fun ch32_usbfs_int_st_token :: "usb_token \<Rightarrow> u8" where
  "ch32_usbfs_int_st_token USB_TOKEN_SETUP = 0x30"
| "ch32_usbfs_int_st_token USB_TOKEN_IN = 0x20"
| "ch32_usbfs_int_st_token USB_TOKEN_OUT = 0x00"

section \<open>High-speed host\<close>

definition usbhs_resync :: "(machine \<Rightarrow> machine) \<Rightarrow> 'd usb_machine \<Rightarrow> 'd usb_machine" where
  "usbhs_resync r = um_update (ch32_usbhost_meip_resync r)"

definition ch32_usbhost_raise_transfer :: "(machine \<Rightarrow> machine) \<Rightarrow> 'd usb_machine \<Rightarrow> 'd usb_machine" where
  "ch32_usbhost_raise_transfer r u = usbhs_resync r (hs_upd (arr_upd 0x0A (\<lambda>b. b OR 2)) u)"

definition ch32_usbhost_raise_detect :: "(machine \<Rightarrow> machine) \<Rightarrow> 'd usb_machine \<Rightarrow> 'd usb_machine" where
  "ch32_usbhost_raise_detect r u = usbhs_resync r (hs_upd (arr_upd 0x0A (\<lambda>b. b OR 1)) u)"

definition usbhs_int_st :: "u8 \<Rightarrow> usb_token \<Rightarrow> usb_ret \<Rightarrow> u8" where
  "usbhs_int_st rx_ctrl token st =
     (let tok = ch32_usbhost_int_st_token_field token in
      if st = USB_RET_SUCCESS then
        (if token = USB_TOKEN_IN
         then tok OR 0x40 OR (if rx_ctrl AND 0x18 = 0x08 then 0x0b else 0x03)
         else tok OR 0x02)
      else if st = USB_RET_NAK then tok OR 0x0a OR 0x80
      else if st = USB_RET_STALL then tok OR 0x0e
      else tok)"

definition ch32_usbhost_apply_packet_result ::
    "(machine \<Rightarrow> machine) \<Rightarrow> usb_token \<Rightarrow> usb_ret \<Rightarrow> int \<Rightarrow> 'd usb_machine \<Rightarrow> 'd usb_machine" where
  "ch32_usbhost_apply_packet_result r token st actual_in u =
     (let ist = usbhs_int_st (hs_regs u ! 0xE3) token st;
          rxlen = (if st = USB_RET_SUCCESS \<and> token = USB_TOKEN_IN then word_of_int actual_in else 0)
      in ch32_usbhost_raise_transfer r (hs_upd (\<lambda>g. st16_at 0x0C rxlen (g[0x0B := ist])) u))"

text \<open>The bytes of an answer to the receive buffer; an error is left in the packet's status.\<close>

definition ch32_usbhost_copy_in_to_guest :: "as_write \<Rightarrow> 'd usb_machine \<Rightarrow> 'd usb_machine" where
  "ch32_usbhost_copy_in_to_guest asw u =
     (let p = the_pkt (hs_port u); len = nat (pkt_actual_length p);
          rxdma = ld32_at 0x24 (hs_regs u); tmp = take 4096 (pkt_iov p) in
      if pkt_actual_length p \<le> 0 \<or> pkt_pid p \<noteq> USB_TOKEN_IN then u
      else if \<not> ch32_usbhs_dma_ok (length (m_ram (um u))) rxdma len \<or> length tmp < len
      then hs_port_update (port_fail USB_RET_IOERROR) u
      else case asw rxdma (take len tmp) (um u) of
        (ok, m') \<Rightarrow>
          let u' = u\<lparr>um := m'\<rparr>
          in if ok then u' else hs_port_update (port_fail USB_RET_IOERROR) u')"

definition ch32_usbhs_speed_from_dev :: "'d usb_core \<Rightarrow> nat option \<Rightarrow> 'd \<Rightarrow> u8" where
  "ch32_usbhs_speed_from_dev c dev d =
     (case dev of
        None \<Rightarrow> 0
      | Some i \<Rightarrow> if usb_speed c i d = USB_SPEED_HIGH then 1
                  else if usb_speed c i d = USB_SPEED_LOW then 2 else 0)"

definition ch32_usb_rh_attach ::
    "(machine \<Rightarrow> machine) \<Rightarrow> 'd usb_core \<Rightarrow> 'd usb_machine \<Rightarrow> 'd usb_machine" where
  "ch32_usb_rh_attach r c u =
     ch32_usbhost_raise_detect r
       (hs_upd (\<lambda>g. (arr_upd 9 (\<lambda>b. b OR 2) g)
                      [8 := ch32_usbhs_speed_from_dev c (rhport_dev (hs_port u)) (usb_bus (hs_port u))]) u)"

definition ch32_usb_rh_detach :: "(machine \<Rightarrow> machine) \<Rightarrow> 'd usb_machine \<Rightarrow> 'd usb_machine" where
  "ch32_usb_rh_detach r u =
     ch32_usbhost_raise_detect r (hs_upd (\<lambda>g. (arr_upd 9 (\<lambda>b. b AND NOT 2) g)[8 := 0]) u)"

text \<open>
  The completion callback of an asynchronous packet. By then the buffer that \<open>pkt_iov\<close> names, a local
  array of \<open>ch32_usbhost_ep_pid_write\<close>, is out of scope; the model reads the bytes the core reports.
\<close>

definition ch32_usb_rh_complete ::
    "(machine \<Rightarrow> machine) \<Rightarrow> as_write \<Rightarrow> usb_packet \<Rightarrow> 'd usb_machine \<Rightarrow> 'd usb_machine" where
  "ch32_usb_rh_complete r asw p u =
     (let u0 = hs_port_update (\<lambda>q. q\<lparr>the_pkt := p\<rparr>) u;
          u1 = (if pkt_pid p = USB_TOKEN_IN \<and> pkt_status p = USB_RET_SUCCESS
                then ch32_usbhost_copy_in_to_guest asw u0 else u0);
          q = the_pkt (hs_port u1)
      in assert_idle hs_port
           (ch32_usbhost_apply_packet_result r (pkt_pid q) (pkt_status q) (pkt_actual_length q) u1))"

definition ch32_usbhost_resync_root_mmio ::
    "(machine \<Rightarrow> machine) \<Rightarrow> 'd usb_core \<Rightarrow> 'd usb_machine \<Rightarrow> 'd usb_machine" where
  "ch32_usbhost_resync_root_mmio r c u =
     (let d = usb_bus (hs_port u) in
      case rhport_dev (hs_port u) of
        Some i \<Rightarrow>
          if usb_host_inited (um u) \<and> usb_attached c i d then
            usbhs_resync r
              (hs_upd (\<lambda>g. arr_upd 0x0A (\<lambda>b. b OR 1)
                             ((arr_upd 9 (\<lambda>b. b OR 2) g)[8 := ch32_usbhs_speed_from_dev c (Some i) d])) u)
          else u
      | None \<Rightarrow> u)"

definition ch32_usbhost_machine_init :: "'d usb_machine \<Rightarrow> 'd usb_machine" where
  "ch32_usbhost_machine_init u =
     (if usb_host_inited (um u) then u
      else hs_port_update (pkt_inited_update (\<lambda>_. True)) (um_update (usb_host_inited_update (\<lambda>_. True)) u))"

definition ch32_usbhost_machine_finalize :: "'d usb_machine \<Rightarrow> 'd usb_machine" where
  "ch32_usbhost_machine_finalize u =
     (let u1 = (if pkt_inited (hs_port u)
                then hs_port_update (pkt_inited_update (\<lambda>_. False)) (assert_idle hs_port u) else u)
      in um_update (usb_host_inited_update (\<lambda>_. False)) u1)"

definition ch32_usbhost_host_ctrl_write :: "'d usb_core \<Rightarrow> u8 \<Rightarrow> 'd usb_machine \<Rightarrow> 'd usb_machine" where
  "ch32_usbhost_host_ctrl_write c v u =
     (let prev = last_host_ctrl (hs_port u);
          u1 = hs_port_update (last_host_ctrl_update (\<lambda>_. v)) u
      in case rhport_dev (hs_port u) of
           Some i \<Rightarrow>
             if usb_host_inited (um u) \<and> bit v 0 \<and> \<not> bit prev 0
             then hs_port_update (usb_bus_update (usb_device_reset c i)) u1 else u1
         | None \<Rightarrow> u1)"

text \<open>
  One transaction. \<open>usbhs_transfer\<close> is the \<open>switch\<close> over the token: the packet it leaves holds either
  the error of a refused buffer or the answer of the device.
\<close>

definition usbhs_send ::
    "'d usb_core \<Rightarrow> as_read \<Rightarrow> nat \<Rightarrow> usb_token \<Rightarrow> nat \<Rightarrow> u32 \<Rightarrow> nat \<Rightarrow> 'd usb_machine \<Rightarrow> 'd usb_machine" where
  "usbhs_send c asr dev token epnum txdma n u =
     (case asr txdma n (um u) of
        (bs, m') \<Rightarrow>
          let u' = u\<lparr>um := m'\<rparr>
          in case bs of
               None \<Rightarrow> hs_port_update (port_fail USB_RET_IOERROR) u'
             | Some buf \<Rightarrow> hs_port_update (port_submit c dev token epnum buf n) (assert_idle hs_port u'))"

definition usbhs_transfer ::
    "'d usb_core \<Rightarrow> as_read \<Rightarrow> as_write \<Rightarrow> nat \<Rightarrow> usb_token \<Rightarrow> nat \<Rightarrow> 'd usb_machine \<Rightarrow> 'd usb_machine" where
  "usbhs_transfer c asr asw dev token epnum u =
     (let g = hs_regs u; ram_sz = length (m_ram (um u));
          txdma = ld32_at 0x64 g; fail = hs_port_update (port_fail USB_RET_IOERROR) u in
      case token of
        USB_TOKEN_SETUP \<Rightarrow>
          if \<not> ch32_usbhs_dma_ok ram_sz txdma 8 then fail
          else usbhs_send c asr dev token epnum txdma 8 u
      | USB_TOKEN_OUT \<Rightarrow>
          let txlen = (if bit (g ! 0xE6) 6 then 0 else unat (ld16_at 0xE4 g)) in
          if txlen > 2048 \<or> \<not> ch32_usbhs_dma_ok ram_sz txdma txlen then fail
          else usbhs_send c asr dev token epnum txdma txlen u
      | USB_TOKEN_IN \<Rightarrow>
          let rxmax = unat (ld16_at 0xA0 g);
              want0 = (if rxmax \<noteq> 0 then rxmax else 2048);
              want1 = (if bit (g ! 0xE3) 6 then 0 else want0);
              want = (if want1 > 2048 then 2048 else want1);
              u1 = hs_port_update (port_submit c dev token epnum [] want) (assert_idle hs_port u);
              p = the_pkt (hs_port u1)
          in if pkt_status p = USB_RET_SUCCESS \<and> pkt_actual_length p > 0
             then ch32_usbhost_copy_in_to_guest asw u1 else u1)"

definition usbhs_finish ::
    "(machine \<Rightarrow> machine) \<Rightarrow> usb_token \<Rightarrow> 'd usb_machine \<Rightarrow> 'd usb_machine" where
  "usbhs_finish r token u =
     (let p = the_pkt (hs_port u) in
      if pkt_status p = USB_RET_ASYNC then u
      else assert_idle hs_port
             (ch32_usbhost_apply_packet_result r token (pkt_status p) (pkt_actual_length p) u))"

definition ch32_usbhost_ep_pid_write ::
    "(machine \<Rightarrow> machine) \<Rightarrow> 'd usb_core \<Rightarrow> as_read \<Rightarrow> as_write \<Rightarrow> u8 \<Rightarrow> 'd usb_machine \<Rightarrow> 'd usb_machine" where
  "ch32_usbhost_ep_pid_write r c asr asw ep_pid u =
     (let devadr = hs_regs u ! 0x03; epnum = unat (ep_pid AND 0xf); d = usb_bus (hs_port u) in
      if \<not> usb_host_inited (um u) then u
      else if \<not> bit (hs_regs u ! 0) 7 then u
      else case ch32_usbhs_pid4_to_token (drop_bit 4 ep_pid) of
        None \<Rightarrow> ch32_usbhost_apply_packet_result r USB_TOKEN_OUT USB_RET_STALL 0 u
      | Some token \<Rightarrow>
          case usb_find_device c devadr d of
            None \<Rightarrow> ch32_usbhost_apply_packet_result r token USB_RET_NODEV 0 u
          | Some dev \<Rightarrow>
              if \<not> usb_attached c dev d
              then ch32_usbhost_apply_packet_result r token USB_RET_NODEV 0 u
              else
                let busy = pkt_inflight (the_pkt (hs_port u));
                    u1 = (if busy then hs_port_update (port_cancel c) u else u)
                in if busy \<and> epnum \<noteq> 0
                   then ch32_usbhost_apply_packet_result r token USB_RET_NAK 0 u1
                   else usbhs_finish r token (usbhs_transfer c asr asw dev token epnum u1))"

section \<open>High-speed register handlers\<close>

text \<open>The 16-bit frame number, computed from the virtual clock when one of its bytes is read.\<close>

definition usbhs_frame_no :: "u64 \<Rightarrow> u16" where
  "usbhs_frame_no ns =
     (let us = ns div 1000; micro = ucast (us div 125) :: u16;
          frame = micro AND 0x7ff; uframe = drop_bit 11 micro AND 0x7
      in push_bit 11 uframe OR frame)"

definition ch32_usbhs_read_byte :: "nat \<Rightarrow> 'd usb_machine \<Rightarrow> u8 \<times> 'd usb_machine" where
  "ch32_usbhs_read_byte addr u =
     (if addr \<ge> 0x400 then (0, u)
      else if addr = 9 then (hs_regs u ! addr OR 0x20, u)
      else let u' = (if addr = 4 \<or> addr = 5
                     then hs_upd (st16_at 4 (usbhs_frame_no (clock_ns (um u)))) u else u)
           in (hs_regs u' ! addr, u'))"

fun usbhs_read_bytes :: "nat \<Rightarrow> nat \<Rightarrow> 'd usb_machine \<Rightarrow> u32 \<times> 'd usb_machine" where
  "usbhs_read_bytes addr 0 u = (0, u)"
| "usbhs_read_bytes addr (Suc n) u =
     (let (v, u1) = usbhs_read_bytes addr n u; (b, u2) = ch32_usbhs_read_byte (addr + n) u1
      in (v OR push_bit (8 * n) (ucast b), u2))"

definition ch32_usbhs_read :: "nat \<Rightarrow> nat \<Rightarrow> 'd usb_machine \<Rightarrow> u32 \<times> 'd usb_machine" where
  "ch32_usbhs_read addr sz u = usbhs_read_bytes addr sz u"

definition ch32_usbhs_write_byte ::
    "(machine \<Rightarrow> machine) \<Rightarrow> 'd usb_core \<Rightarrow> nat \<Rightarrow> u8 \<Rightarrow> 'd usb_machine \<Rightarrow> 'd usb_machine" where
  "ch32_usbhs_write_byte r c addr v u =
     (if addr \<ge> 0x400 then u
      else if addr = 10 then usbhs_resync r (hs_upd (arr_upd 10 (\<lambda>b. b AND NOT (v AND 0x7f))) u)
      else
        let u1 = hs_upd (\<lambda>g. g[addr := v]) u in
        if addr = 0 then
          usbhs_resync r
            (if bit v 1 then hs_upd (\<lambda>g. g[10 := 0, 11 := 0]) u1
             else if bit v 2 then hs_upd (arr_upd 10 (\<lambda>b. b AND NOT 0x7f)) u1
             else u1)
        else if addr = 2 then usbhs_resync r (ch32_usbhost_resync_root_mmio r c u1)
        else u1)"

definition ch32_usbhs_write ::
    "(machine \<Rightarrow> machine) \<Rightarrow> 'd usb_core \<Rightarrow> as_read \<Rightarrow> as_write \<Rightarrow> nat \<Rightarrow> u32 \<Rightarrow> nat \<Rightarrow>
     'd usb_machine \<Rightarrow> 'd usb_machine" where
  "ch32_usbhs_write r c asr asw addr val sz u =
     (let u1 = fold (\<lambda>i. ch32_usbhs_write_byte r c (addr + i) (ucast (drop_bit (8 * i) val))) [0..<sz] u;
          u2 = (if addr \<le> 224 \<and> addr + sz > 224 \<and> hs_regs u1 ! 224 \<noteq> 0
                then ch32_usbhost_ep_pid_write r c asr asw (hs_regs u1 ! 224) u1 else u1)
      in if addr \<le> 1 \<and> addr + sz > 1 then ch32_usbhost_host_ctrl_write c (hs_regs u2 ! 1) u2 else u2)"

section \<open>Full-speed host\<close>

definition usbfs_resync :: "(machine \<Rightarrow> machine) \<Rightarrow> 'd usb_machine \<Rightarrow> 'd usb_machine" where
  "usbfs_resync r = um_update (ch32_usbfs_host_meip_resync r)"

definition ch32_usbfs_host_raise_transfer :: "(machine \<Rightarrow> machine) \<Rightarrow> 'd usb_machine \<Rightarrow> 'd usb_machine" where
  "ch32_usbfs_host_raise_transfer r u = usbfs_resync r (fs_upd (arr_upd 0x06 (\<lambda>b. b OR 2)) u)"

definition ch32_usbfs_host_raise_detect :: "(machine \<Rightarrow> machine) \<Rightarrow> 'd usb_machine \<Rightarrow> 'd usb_machine" where
  "ch32_usbfs_host_raise_detect r u = usbfs_resync r (fs_upd (arr_upd 0x06 (\<lambda>b. b OR 1)) u)"

definition usbfs_int_st :: "u8 \<Rightarrow> usb_token \<Rightarrow> usb_ret \<Rightarrow> u8" where
  "usbfs_int_st rx_ctrl token st =
     (let tok = ch32_usbfs_int_st_token token in
      if st = USB_RET_SUCCESS then
        (if token = USB_TOKEN_IN
         then tok OR 0x40 OR (if bit rx_ctrl 2 then 0x0b else 0x03)
         else tok OR 0x02)
      else if st = USB_RET_NAK then tok OR 0x0a OR 0x80
      else if st = USB_RET_STALL then tok OR 0x0e
      else tok)"

definition ch32_usbfs_apply_pkt_result ::
    "(machine \<Rightarrow> machine) \<Rightarrow> usb_token \<Rightarrow> usb_ret \<Rightarrow> int \<Rightarrow> 'd usb_machine \<Rightarrow> 'd usb_machine" where
  "ch32_usbfs_apply_pkt_result r token st actual_in u =
     (let ist = usbfs_int_st (fs_regs u ! 0x37) token st;
          rxlen = (if st = USB_RET_SUCCESS \<and> token = USB_TOKEN_IN then word_of_int actual_in else 0)
      in ch32_usbfs_host_raise_transfer r (fs_upd (\<lambda>g. st16_at 0x08 rxlen (g[0x07 := ist])) u))"

definition ch32_usbfs_copy_in_to_guest :: "as_write \<Rightarrow> 'd usb_machine \<Rightarrow> 'd usb_machine" where
  "ch32_usbfs_copy_in_to_guest asw u =
     (let p = the_pkt (fs_port u); len = nat (pkt_actual_length p);
          rxdma = ld32_at 0x18 (fs_regs u); tmp = take 4096 (pkt_iov p) in
      if pkt_actual_length p \<le> 0 \<or> pkt_pid p \<noteq> USB_TOKEN_IN then u
      else if \<not> ch32_usbfs_dma_ok (length (m_ram (um u))) rxdma len \<or> length tmp < len
      then fs_port_update (port_fail USB_RET_IOERROR) u
      else case asw rxdma (take len tmp) (um u) of
        (ok, m') \<Rightarrow>
          let u' = u\<lparr>um := m'\<rparr>
          in if ok then u' else fs_port_update (port_fail USB_RET_IOERROR) u')"

definition ch32_usbfs_rh_attach :: "(machine \<Rightarrow> machine) \<Rightarrow> 'd usb_machine \<Rightarrow> 'd usb_machine" where
  "ch32_usbfs_rh_attach r u = ch32_usbfs_host_raise_detect r (fs_upd (arr_upd 0x05 (\<lambda>b. b OR 1)) u)"

definition ch32_usbfs_rh_detach :: "(machine \<Rightarrow> machine) \<Rightarrow> 'd usb_machine \<Rightarrow> 'd usb_machine" where
  "ch32_usbfs_rh_detach r u = ch32_usbfs_host_raise_detect r (fs_upd (arr_upd 0x05 (\<lambda>b. b AND NOT 1)) u)"

definition ch32_usbfs_rh_complete ::
    "(machine \<Rightarrow> machine) \<Rightarrow> as_write \<Rightarrow> usb_packet \<Rightarrow> 'd usb_machine \<Rightarrow> 'd usb_machine" where
  "ch32_usbfs_rh_complete r asw p u =
     (let u0 = fs_port_update (\<lambda>q. q\<lparr>the_pkt := p\<rparr>) u;
          u1 = (if pkt_pid p = USB_TOKEN_IN \<and> pkt_status p = USB_RET_SUCCESS
                then ch32_usbfs_copy_in_to_guest asw u0 else u0);
          q = the_pkt (fs_port u1)
      in assert_idle fs_port
           (ch32_usbfs_apply_pkt_result r (pkt_pid q) (pkt_status q) (pkt_actual_length q) u1))"

definition ch32_usbfs_host_resync_root_mmio ::
    "(machine \<Rightarrow> machine) \<Rightarrow> 'd usb_core \<Rightarrow> 'd usb_machine \<Rightarrow> 'd usb_machine" where
  "ch32_usbfs_host_resync_root_mmio r c u =
     (case rhport_dev (fs_port u) of
        Some i \<Rightarrow>
          if usbfs_host_inited (um u) \<and> usb_attached c i (usb_bus (fs_port u)) then
            usbfs_resync r (fs_upd (\<lambda>g. arr_upd 0x06 (\<lambda>b. b OR 1) (arr_upd 0x05 (\<lambda>b. b OR 1) g)) u)
          else u
      | None \<Rightarrow> u)"

definition ch32_usbfs_host_machine_init :: "'d usb_machine \<Rightarrow> 'd usb_machine" where
  "ch32_usbfs_host_machine_init u =
     (if usbfs_host_inited (um u) then u
      else fs_port_update (pkt_inited_update (\<lambda>_. True)) (um_update (usbfs_host_inited_update (\<lambda>_. True)) u))"

definition ch32_usbfs_host_machine_finalize :: "'d usb_machine \<Rightarrow> 'd usb_machine" where
  "ch32_usbfs_host_machine_finalize u =
     (let u1 = (if pkt_inited (fs_port u)
                then fs_port_update (pkt_inited_update (\<lambda>_. False)) (assert_idle fs_port u) else u)
      in um_update (usbfs_host_inited_update (\<lambda>_. False)) u1)"

definition ch32_usbfs_host_ctrl_write :: "'d usb_core \<Rightarrow> u8 \<Rightarrow> 'd usb_machine \<Rightarrow> 'd usb_machine" where
  "ch32_usbfs_host_ctrl_write c v u =
     (let prev = last_host_ctrl (fs_port u);
          u1 = fs_port_update (last_host_ctrl_update (\<lambda>_. v)) u
      in case rhport_dev (fs_port u) of
           Some i \<Rightarrow>
             if usbfs_host_inited (um u) \<and> bit v 1 \<and> \<not> bit prev 1
             then fs_port_update (usb_bus_update (usb_device_reset c i)) u1 else u1
         | None \<Rightarrow> u1)"

definition usbfs_send ::
    "'d usb_core \<Rightarrow> as_read \<Rightarrow> nat \<Rightarrow> usb_token \<Rightarrow> nat \<Rightarrow> u32 \<Rightarrow> nat \<Rightarrow> 'd usb_machine \<Rightarrow> 'd usb_machine" where
  "usbfs_send c asr dev token epnum txdma n u =
     (case asr txdma n (um u) of
        (bs, m') \<Rightarrow>
          let u' = u\<lparr>um := m'\<rparr>
          in case bs of
               None \<Rightarrow> fs_port_update (port_fail USB_RET_IOERROR) u'
             | Some buf \<Rightarrow> fs_port_update (port_submit c dev token epnum buf n) (assert_idle fs_port u'))"

definition usbfs_transfer ::
    "'d usb_core \<Rightarrow> as_read \<Rightarrow> as_write \<Rightarrow> nat \<Rightarrow> usb_token \<Rightarrow> nat \<Rightarrow> 'd usb_machine \<Rightarrow> 'd usb_machine" where
  "usbfs_transfer c asr asw dev token epnum u =
     (let g = fs_regs u; ram_sz = length (m_ram (um u));
          txdma = ld32_at 0x1C g; txlen = unat (ld16_at 0x38 g);
          fail = fs_port_update (port_fail USB_RET_IOERROR) u in
      case token of
        USB_TOKEN_SETUP \<Rightarrow>
          if \<not> ch32_usbfs_dma_ok ram_sz txdma 8 then fail
          else usbfs_send c asr dev token epnum txdma 8 u
      | USB_TOKEN_OUT \<Rightarrow>
          if txlen > 512 \<or> \<not> ch32_usbfs_dma_ok ram_sz txdma txlen then fail
          else usbfs_send c asr dev token epnum txdma txlen u
      | USB_TOKEN_IN \<Rightarrow>
          let u1 = fs_port_update (port_submit c dev token epnum [] 512) (assert_idle fs_port u);
              p = the_pkt (fs_port u1)
          in if pkt_status p = USB_RET_SUCCESS \<and> pkt_actual_length p > 0
             then ch32_usbfs_copy_in_to_guest asw u1 else u1)"

definition usbfs_finish ::
    "(machine \<Rightarrow> machine) \<Rightarrow> usb_token \<Rightarrow> 'd usb_machine \<Rightarrow> 'd usb_machine" where
  "usbfs_finish r token u =
     (let p = the_pkt (fs_port u) in
      if pkt_status p = USB_RET_ASYNC then u
      else assert_idle fs_port
             (ch32_usbfs_apply_pkt_result r token (pkt_status p) (pkt_actual_length p) u))"

definition ch32_usbfs_host_ep_pid_write ::
    "(machine \<Rightarrow> machine) \<Rightarrow> 'd usb_core \<Rightarrow> as_read \<Rightarrow> as_write \<Rightarrow> u8 \<Rightarrow> 'd usb_machine \<Rightarrow> 'd usb_machine" where
  "ch32_usbfs_host_ep_pid_write r c asr asw ep_pid u =
     (let devadr = fs_regs u ! 0x03; epnum = unat (ep_pid AND 0xf); d = usb_bus (fs_port u) in
      if \<not> usbfs_host_inited (um u) then u
      else case ch32_usbfs_pid4_to_token (drop_bit 4 ep_pid) of
        None \<Rightarrow> ch32_usbfs_apply_pkt_result r USB_TOKEN_OUT USB_RET_STALL 0 u
      | Some token \<Rightarrow>
          case usb_find_device c devadr d of
            None \<Rightarrow> ch32_usbfs_apply_pkt_result r token USB_RET_NODEV 0 u
          | Some dev \<Rightarrow>
              if \<not> usb_attached c dev d
              then ch32_usbfs_apply_pkt_result r token USB_RET_NODEV 0 u
              else
                let busy = pkt_inflight (the_pkt (fs_port u));
                    u1 = (if busy then fs_port_update (port_cancel c) u else u)
                in if busy \<and> epnum \<noteq> 0
                   then ch32_usbfs_apply_pkt_result r token USB_RET_NAK 0 u1
                   else usbfs_finish r token (usbfs_transfer c asr asw dev token epnum u1))"

section \<open>Full-speed register handlers\<close>

definition ch32_usbfs_read_byte :: "nat \<Rightarrow> 'd usb_machine \<Rightarrow> u8" where
  "ch32_usbfs_read_byte addr u =
     (if addr \<ge> 0x200 then 0
      else if addr = 0x05 then fs_regs u ! addr OR 0x20
      else fs_regs u ! addr)"

definition ch32_usbfs_read :: "nat \<Rightarrow> nat \<Rightarrow> 'd usb_machine \<Rightarrow> u32" where
  "ch32_usbfs_read addr sz u =
     (if addr \<ge> 0x8000 then 0
      else fold (\<lambda>i v. v OR push_bit (8 * i)
                   (ucast (if addr + i < 0x200 then ch32_usbfs_read_byte (addr + i) u else 0))) [0..<sz] 0)"

definition ch32_usbfs_write_byte ::
    "(machine \<Rightarrow> machine) \<Rightarrow> 'd usb_core \<Rightarrow> nat \<Rightarrow> u8 \<Rightarrow> 'd usb_machine \<Rightarrow> 'd usb_machine" where
  "ch32_usbfs_write_byte r c addr v u =
     (if addr \<ge> 0x200 then u
      else if addr = 0x06 then usbfs_resync r (fs_upd (arr_upd 0x06 (\<lambda>b. b AND NOT (v AND 0x1f))) u)
      else
        let u1 = fs_upd (\<lambda>g. g[addr := v]) u in
        if addr = 0x00 then
          usbfs_resync r
            (if bit v 1 then fs_upd (\<lambda>g. g[0x06 := 0, 0x07 := 0]) u1
             else if bit v 2 then fs_upd (arr_upd 0x06 (\<lambda>b. b AND NOT 0x1f)) u1
             else u1)
        else if addr = 0x02 then usbfs_resync r (ch32_usbfs_host_resync_root_mmio r c u1)
        else u1)"

definition ch32_usbfs_write ::
    "(machine \<Rightarrow> machine) \<Rightarrow> 'd usb_core \<Rightarrow> as_read \<Rightarrow> as_write \<Rightarrow> nat \<Rightarrow> u32 \<Rightarrow> nat \<Rightarrow>
     'd usb_machine \<Rightarrow> 'd usb_machine" where
  "ch32_usbfs_write r c asr asw addr val sz u =
     (if addr \<ge> 0x8000 then u
      else
        let wr = (\<lambda>i u. if addr + i < 0x200
                        then ch32_usbfs_write_byte r c (addr + i) (ucast (drop_bit (8 * i) val)) u else u);
            u1 = fold wr [0..<sz] u;
            u2 = (if addr \<le> 0x34 \<and> addr + sz > 0x34 \<and> fs_regs u1 ! 0x34 \<noteq> 0 \<and> bit (fs_regs u1 ! 0) 7
                  then ch32_usbfs_host_ep_pid_write r c asr asw (fs_regs u1 ! 0x34) u1 else u1)
        in if addr \<le> 1 \<and> addr + sz > 1 \<and> bit (fs_regs u2 ! 0) 7
           then ch32_usbfs_host_ctrl_write c (fs_regs u2 ! 1) u2 else u2)"

section \<open>Reset\<close>

definition port_reset :: "'d usb_core \<Rightarrow> 'd usb_port \<Rightarrow> 'd usb_port" where
  "port_reset c p =
     (let p1 = (if pkt_inited p \<and> pkt_inflight (the_pkt p) then port_cancel c p else p)
      in case rhport_dev p1 of
           Some i \<Rightarrow> if usb_attached c i (usb_bus p1) then usb_bus_update (usb_device_reset c i) p1 else p1
         | None \<Rightarrow> p1)"

definition ch32_usb_reset_defaults ::
    "(machine \<Rightarrow> machine) \<Rightarrow> 'd usb_core \<Rightarrow> 'd usb_core \<Rightarrow> 'd usb_machine \<Rightarrow> 'd usb_machine" where
  "ch32_usb_reset_defaults r ch cf u =
     (let u1 = (if usb_host_inited (um u) then hs_port_update (port_reset ch) u else u);
          u2 = (if usbfs_host_inited (um u1) then fs_port_update (port_reset cf) u1 else u1);
          u3 = fs_upd (\<lambda>_. replicate 0x200 0) (hs_upd (\<lambda>_. replicate 0x400 0) u2);
          u4 = fs_port_update (last_host_ctrl_update (\<lambda>_. 0)) (hs_port_update (last_host_ctrl_update (\<lambda>_. 0)) u3)
      in ch32_usbfs_host_resync_root_mmio r cf (ch32_usbhost_resync_root_mmio r ch u4))"

end
