(* ===== verification/Ch32_UsbXfer.thy ===== *)
theory Ch32_UsbXfer
  imports Ch32_Usb Ch32_Ram Ch32_Line
begin

text \<open>
  What the USB hosts promise: no sequence of guest accesses and device events violates an assertion of
  the USB core or the interrupt invariant, every transaction is reported, data goes to and comes from
  the buffers the registers name, and the two hosts do the same thing.
\<close>

section \<open>Frames\<close>

lemma usb_view_fields:
  assumes "meip_view m = meip_view m'"
  shows "m_ram m = m_ram m'" "clock_ns m = clock_ns m'" "chr_out m = chr_out m'"
  using arg_cong[OF assms, of m_ram] arg_cong[OF assms, of clock_ns] arg_cong[OF assms, of chr_out]
  by (simp_all add: meip_view_def)

lemma usb_resync_frame [simp]:
  "hs_regs (usbhs_resync rescan u) = hs_regs u" "fs_regs (usbhs_resync rescan u) = fs_regs u"
  "m_ram (um (usbhs_resync rescan u)) = m_ram (um u)"
  "usb_host_inited (um (usbhs_resync rescan u)) = usb_host_inited (um u)"
  "hs_regs (usbfs_resync rescan u) = hs_regs u" "fs_regs (usbfs_resync rescan u) = fs_regs u"
  "m_ram (um (usbfs_resync rescan u)) = m_ram (um u)"
  "usbfs_host_inited (um (usbfs_resync rescan u)) = usbfs_host_inited (um u)"
proof -
  have h: "meip_view (um (usbhs_resync rescan u)) = meip_view (um u)"
    by (simp add: usbhs_resync_def usbhs.frame[OF pending_view])
  have f: "meip_view (um (usbfs_resync rescan u)) = meip_view (um u)"
    by (simp add: usbfs_resync_def usbfs.frame[OF pending_view])
  show "hs_regs (usbhs_resync rescan u) = hs_regs u" "fs_regs (usbhs_resync rescan u) = fs_regs u"
    "m_ram (um (usbhs_resync rescan u)) = m_ram (um u)"
    "usb_host_inited (um (usbhs_resync rescan u)) = usb_host_inited (um u)"
    using view_fields(6,7,8)[OF h] usb_view_fields(1)[OF h] by auto
  show "hs_regs (usbfs_resync rescan u) = hs_regs u" "fs_regs (usbfs_resync rescan u) = fs_regs u"
    "m_ram (um (usbfs_resync rescan u)) = m_ram (um u)"
    "usbfs_host_inited (um (usbfs_resync rescan u)) = usbfs_host_inited (um u)"
    using view_fields(6,7,9)[OF f] usb_view_fields(1)[OF f] by auto
qed

lemma usb_resync_ports [simp]:
  "hs_port (usbhs_resync r u) = hs_port u" "fs_port (usbhs_resync r u) = fs_port u"
  "core_asserted (usbhs_resync r u) = core_asserted u"
  "hs_port (usbfs_resync r u) = hs_port u" "fs_port (usbfs_resync r u) = fs_port u"
  "core_asserted (usbfs_resync r u) = core_asserted u"
  by (simp_all add: usbhs_resync_def usbfs_resync_def)

lemma assert_idle_simps [simp]:
  "um (assert_idle port u) = um u" "hs_port (assert_idle port u) = hs_port u"
  "fs_port (assert_idle port u) = fs_port u"
  by (simp_all add: assert_idle_def)

lemma port_ops_simps [simp]:
  "pkt_inflight (the_pkt (port_fail st p)) = pkt_inflight (the_pkt p)"
  "pkt_status (the_pkt (port_fail st p)) = st" "usb_bus (port_fail st p) = usb_bus p"
  "\<not> pkt_inflight (the_pkt (port_cancel c p))" "usb_bus (port_cancel c p) = usb_cancel c (usb_bus p)"
  by (simp_all add: port_fail_def port_cancel_def)

section \<open>No assertion of the core fails\<close>

text \<open>Whether the packet of a port is in flight, and the flag, through the operations.\<close>

abbreviation "hs_busy u \<equiv> pkt_inflight (the_pkt (hs_port u))"
abbreviation "fs_busy u \<equiv> pkt_inflight (the_pkt (fs_port u))"

lemma assert_idle_flag [simp]:
  "core_asserted (assert_idle port u) \<longleftrightarrow> core_asserted u \<or> pkt_inflight (the_pkt (port u))"
  by (simp add: assert_idle_def)

definition usb_inv :: "'d usb_machine \<Rightarrow> bool" where
  "usb_inv u \<longleftrightarrow> machine_inv (um u) \<and> \<not> core_asserted u"

lemma usb_inv_um: "usb_inv u \<Longrightarrow> machine_inv (f (um u)) \<Longrightarrow> usb_inv (um_update f u)"
  by (simp add: usb_inv_def)

lemma usb_inv_ports [simp]:
  "usb_inv (hs_port_update f u) = usb_inv u" "usb_inv (fs_port_update f u) = usb_inv u"
  by (simp_all add: usb_inv_def)

lemma machine_inv_usb_regs [simp]:
  "machine_inv (usbhs_reg_update f m) = machine_inv m" "machine_inv (usbfs_reg_update f m) = machine_inv m"
  by (rule inv_cong; simp)+

lemma usb_inv_regs [simp]:
  "usb_inv (hs_upd f u) = usb_inv u" "usb_inv (fs_upd f u) = usb_inv u"
  "usb_inv (um_update (usbhs_reg_update f \<circ> usbhs_reg_update g) u) = usb_inv u"
  "usb_inv (um_update (usbfs_reg_update f \<circ> usbfs_reg_update g) u) = usb_inv u"
  "usb_inv (um_update (usbfs_reg_update f \<circ> usbhs_reg_update g) u) = usb_inv u"
  by (simp_all add: usb_inv_def)

lemma usb_inv_assert [simp]:
  "usb_inv (assert_idle port u) \<longleftrightarrow> usb_inv u \<and> \<not> pkt_inflight (the_pkt (port u))"
  by (auto simp: usb_inv_def)

lemma usb_inv_resync:
  "usb_inv u \<Longrightarrow> usb_inv (usbhs_resync rescan u)" "usb_inv u \<Longrightarrow> usb_inv (usbfs_resync rescan u)"
  by (simp_all add: usbhs_resync_def usbfs_resync_def usb_inv_um usb_inv_def inv_resync)

lemma usb_inv_results:
  "usb_inv u \<Longrightarrow> usb_inv (ch32_usbhost_apply_packet_result rescan t st n u)"
  "usb_inv u \<Longrightarrow> usb_inv (ch32_usbfs_apply_pkt_result rescan t st n u)"
  by (simp_all add: ch32_usbhost_apply_packet_result_def ch32_usbfs_apply_pkt_result_def Let_def
      ch32_usbhost_raise_transfer_def ch32_usbfs_host_raise_transfer_def usb_inv_resync)

lemma result_ports [simp]:
  "hs_port (ch32_usbhost_apply_packet_result r t st n u) = hs_port u"
  "fs_port (ch32_usbfs_apply_pkt_result r t st n u) = fs_port u"
  by (simp_all add: ch32_usbhost_apply_packet_result_def ch32_usbfs_apply_pkt_result_def Let_def
      ch32_usbhost_raise_transfer_def ch32_usbfs_host_raise_transfer_def)

lemma usb_inv_space:
  assumes "host_ok h" "usb_inv u"
  shows "h_asr h a n (um u) = (bs, m') \<Longrightarrow> usb_inv (u\<lparr>um := m'\<rparr>)"
    "h_asw h a cs (um u) = (ok, m') \<Longrightarrow> usb_inv (u\<lparr>um := m'\<rparr>)"
  using host_okD(1)[OF assms(1), of "um u" a n] host_okD(2)[OF assms(1), of "um u" a cs] assms(2)
  by (simp_all add: usb_inv_def)

lemma usb_inv_copy_in:
  assumes "host_ok h" "usb_inv u"
  shows "usb_inv (ch32_usbhost_copy_in_to_guest (h_asw h) u)"
    "usb_inv (ch32_usbfs_copy_in_to_guest (h_asw h) u)"
  using assms usb_inv_space(2)[OF assms]
  by (auto simp: ch32_usbhost_copy_in_to_guest_def ch32_usbfs_copy_in_to_guest_def Let_def split: prod.split)

lemma copy_in_busy [simp]:
  "hs_busy (ch32_usbhost_copy_in_to_guest asw u) = hs_busy u"
  "fs_busy (ch32_usbfs_copy_in_to_guest asw u) = fs_busy u"
  by (simp_all add: ch32_usbhost_copy_in_to_guest_def ch32_usbfs_copy_in_to_guest_def Let_def split: prod.split)

text \<open>After a submission the packet is in flight exactly when its status says so.\<close>

definition pkt_settled :: "'d usb_port \<Rightarrow> bool" where
  "pkt_settled p \<longleftrightarrow> (pkt_inflight (the_pkt p) \<longrightarrow> pkt_status (the_pkt p) = USB_RET_ASYNC)"

lemma settled_simps [simp]:
  "\<not> pkt_inflight (the_pkt p) \<Longrightarrow> pkt_settled (port_fail st p)"
  "pkt_settled (port_submit c dev t e bs n p)"
  by (auto simp: pkt_settled_def port_submit_def port_fail_def split: prod.split)

lemma usbhs_transfer_inv:
  assumes h: "host_ok h" and u: "usb_inv u" and idle: "\<not> hs_busy u"
  shows "usb_inv (usbhs_transfer c (h_asr h) (h_asw h) dev t e u)"
    "pkt_settled (hs_port (usbhs_transfer c (h_asr h) (h_asw h) dev t e u))"
proof -
  let ?in = "\<lambda>n. hs_port_update (port_submit c dev t e [] n) (assert_idle hs_port u)"
  have s: "usb_inv (usbhs_send c (h_asr h) dev t e a n u)"
    "pkt_settled (hs_port (usbhs_send c (h_asr h) dev t e a n u))" for a n
    using usb_inv_space(1)[OF h u] idle
    by (auto simp: usbhs_send_def Let_def split: prod.split option.split)
  have i: "usb_inv (?in n)" for n using u idle by simp
  have "pkt_settled (hs_port (ch32_usbhost_copy_in_to_guest asw v))"
    if "pkt_settled (hs_port v)" "pkt_status (the_pkt (hs_port v)) = USB_RET_SUCCESS" for asw and v :: "'a usb_machine"
    using that by (simp add: pkt_settled_def)
  then show "usb_inv (usbhs_transfer c (h_asr h) (h_asw h) dev t e u)"
    "pkt_settled (hs_port (usbhs_transfer c (h_asr h) (h_asw h) dev t e u))"
    using s i u idle by (cases t; simp add: usbhs_transfer_def Let_def usb_inv_copy_in[OF h])+
qed

lemma usbfs_transfer_inv:
  assumes h: "host_ok h" and u: "usb_inv u" and idle: "\<not> fs_busy u"
  shows "usb_inv (usbfs_transfer c (h_asr h) (h_asw h) dev t e u)"
    "pkt_settled (fs_port (usbfs_transfer c (h_asr h) (h_asw h) dev t e u))"
proof -
  let ?in = "\<lambda>n. fs_port_update (port_submit c dev t e [] n) (assert_idle fs_port u)"
  have s: "usb_inv (usbfs_send c (h_asr h) dev t e a n u)"
    "pkt_settled (fs_port (usbfs_send c (h_asr h) dev t e a n u))" for a n
    using usb_inv_space(1)[OF h u] idle
    by (auto simp: usbfs_send_def Let_def split: prod.split option.split)
  have i: "usb_inv (?in n)" for n using u idle by simp
  have "pkt_settled (fs_port (ch32_usbfs_copy_in_to_guest asw v))"
    if "pkt_settled (fs_port v)" "pkt_status (the_pkt (fs_port v)) = USB_RET_SUCCESS" for asw and v :: "'a usb_machine"
    using that by (simp add: pkt_settled_def)
  then show "usb_inv (usbfs_transfer c (h_asr h) (h_asw h) dev t e u)"
    "pkt_settled (fs_port (usbfs_transfer c (h_asr h) (h_asw h) dev t e u))"
    using s i u idle by (cases t; simp add: usbfs_transfer_def Let_def usb_inv_copy_in[OF h])+
qed

lemma usb_finish_inv:
  "usb_inv u \<Longrightarrow> pkt_settled (hs_port u) \<Longrightarrow> usb_inv (usbhs_finish rescan t u)"
  "usb_inv u \<Longrightarrow> pkt_settled (fs_port u) \<Longrightarrow> usb_inv (usbfs_finish rescan t u)"
  by (auto simp: usbhs_finish_def usbfs_finish_def Let_def usb_inv_results pkt_settled_def)

lemma usb_ep_pid_inv:
  assumes h: "host_ok h" and u: "usb_inv u"
  shows "usb_inv (ch32_usbhost_ep_pid_write rescan c (h_asr h) (h_asw h) e u)"
    "usb_inv (ch32_usbfs_host_ep_pid_write rescan c (h_asr h) (h_asw h) e u)"
proof -
  let ?h = "if hs_busy u then hs_port_update (port_cancel c) u else u"
  let ?f = "if fs_busy u then fs_port_update (port_cancel c) u else u"
  have "usb_inv ?h" "\<not> hs_busy ?h" "usb_inv ?f" "\<not> fs_busy ?f" using u by simp_all
  note H = usbhs_transfer_inv[OF h this(1,2)] and F = usbfs_transfer_inv[OF h this(3,4)]
  show "usb_inv (ch32_usbhost_ep_pid_write rescan c (h_asr h) (h_asw h) e u)"
    using u usb_finish_inv(1)[OF H] unfolding ch32_usbhost_ep_pid_write_def Let_def
    by (cases "hs_busy u") (simp_all add: usb_inv_results split: option.split)
  show "usb_inv (ch32_usbfs_host_ep_pid_write rescan c (h_asr h) (h_asw h) e u)"
    using u usb_finish_inv(2)[OF F] unfolding ch32_usbfs_host_ep_pid_write_def Let_def
    by (cases "fs_busy u") (simp_all add: usb_inv_results split: option.split)
qed

lemma usb_root_inv:
  "usb_inv u \<Longrightarrow> usb_inv (ch32_usbhost_resync_root_mmio rescan c u)"
  "usb_inv u \<Longrightarrow> usb_inv (ch32_usbfs_host_resync_root_mmio rescan c u)"
  by (simp_all add: ch32_usbhost_resync_root_mmio_def ch32_usbfs_host_resync_root_mmio_def Let_def
      usb_inv_resync split: option.split)

lemma usb_ctrl_inv:
  "usb_inv (ch32_usbhost_host_ctrl_write c v u) = usb_inv u"
  "usb_inv (ch32_usbfs_host_ctrl_write c v u) = usb_inv u"
  by (simp_all add: ch32_usbhost_host_ctrl_write_def ch32_usbfs_host_ctrl_write_def Let_def split: option.split)

lemma usb_byte_inv:
  "usb_inv u \<Longrightarrow> usb_inv (ch32_usbhs_write_byte rescan c a v u)"
  "usb_inv u \<Longrightarrow> usb_inv (ch32_usbfs_write_byte rescan c a v u)"
  by (simp_all add: ch32_usbhs_write_byte_def ch32_usbfs_write_byte_def Let_def usb_inv_resync usb_root_inv)

lemma fold_inv: "(\<And>x s. P s \<Longrightarrow> P (f x s)) \<Longrightarrow> P s \<Longrightarrow> P (fold f xs s)"
  by (induction xs arbitrary: s) auto

lemma usb_write_inv:
  assumes h: "host_ok h" and u: "usb_inv u"
  shows "usb_inv (ch32_usbhs_write rescan c (h_asr h) (h_asw h) a v sz u)"
    "usb_inv (ch32_usbfs_write rescan c (h_asr h) (h_asw h) a v sz u)"
proof -
  have "usb_inv (fold (\<lambda>i. ch32_usbhs_write_byte rescan c (a + i) (ucast (drop_bit (8 * i) v))) [0..<sz] u)"
    by (rule fold_inv[where P = usb_inv]) (simp_all add: usb_byte_inv u)
  from usb_ep_pid_inv(1)[OF h this] this
  show "usb_inv (ch32_usbhs_write rescan c (h_asr h) (h_asw h) a v sz u)"
    by (simp add: ch32_usbhs_write_def Let_def usb_ctrl_inv)
  have "usb_inv (fold (\<lambda>i u. if a + i < 0x200
      then ch32_usbfs_write_byte rescan c (a + i) (ucast (drop_bit (8 * i) v)) u else u) [0..<sz] u)"
    by (rule fold_inv[where P = usb_inv]) (simp_all add: usb_byte_inv u)
  from usb_ep_pid_inv(2)[OF h this] this u
  show "usb_inv (ch32_usbfs_write rescan c (h_asr h) (h_asw h) a v sz u)"
    by (simp add: ch32_usbfs_write_def Let_def usb_ctrl_inv)
qed

lemma usb_read_inv: "usb_inv (snd (ch32_usbhs_read a n u)) = usb_inv u"
proof -
  have "usb_inv (snd (ch32_usbhs_read_byte a u)) = usb_inv u" for a and u :: "'a usb_machine"
    by (simp add: ch32_usbhs_read_byte_def Let_def)
  then show ?thesis unfolding ch32_usbhs_read_def
    by (induction n arbitrary: u) (auto simp: split_beta Let_def)
qed

lemma usb_complete_inv:
  assumes h: "host_ok h" and u: "usb_inv u" and p: "\<not> pkt_inflight p"
  shows "usb_inv (ch32_usb_rh_complete rescan (h_asw h) p u)"
    "usb_inv (ch32_usbfs_rh_complete rescan (h_asw h) p u)"
  using u p by (simp_all add: ch32_usb_rh_complete_def ch32_usbfs_rh_complete_def Let_def
      usb_inv_results usb_inv_copy_in[OF h])

lemma usb_attach_inv:
  "usb_inv u \<Longrightarrow> usb_inv (ch32_usb_rh_attach rescan c u)" "usb_inv u \<Longrightarrow> usb_inv (ch32_usb_rh_detach rescan u)"
  "usb_inv u \<Longrightarrow> usb_inv (ch32_usbfs_rh_attach rescan u)" "usb_inv u \<Longrightarrow> usb_inv (ch32_usbfs_rh_detach rescan u)"
  by (simp_all add: ch32_usb_rh_attach_def ch32_usb_rh_detach_def ch32_usbfs_rh_attach_def
      ch32_usbfs_rh_detach_def ch32_usbhost_raise_detect_def ch32_usbfs_host_raise_detect_def usb_inv_resync)

lemma usb_reset_inv: "usb_inv u \<Longrightarrow> usb_inv (ch32_usb_reset_defaults rescan ch cf u)"
  unfolding ch32_usb_reset_defaults_def Let_def by (intro usb_root_inv) simp

text \<open>
  One rule per entry point: register accesses, events of the bus (devices come and go, change their
  state, complete a packet), the reset, and any step of the rest of the machine.
\<close>

inductive usb_step :: "host \<Rightarrow> 'd usb_core \<Rightarrow> 'd usb_core \<Rightarrow> 'd usb_machine \<Rightarrow> 'd usb_machine \<Rightarrow> bool"
  for h ch cf where
  usbhs_write: "usb_step h ch cf u (ch32_usbhs_write rescan ch (h_asr h) (h_asw h) a v sz u)"
| usbhs_read: "usb_step h ch cf u (snd (ch32_usbhs_read a sz u))"
| usbfs_write: "usb_step h ch cf u (ch32_usbfs_write rescan cf (h_asr h) (h_asw h) a v sz u)"
| usbhs_attach: "usb_step h ch cf u
    (ch32_usb_rh_attach rescan ch (hs_port_update (\<lambda>p. p\<lparr>rhport_dev := Some i, usb_bus := d\<rparr>) u))"
| usbhs_detach: "usb_step h ch cf u
    (hs_port_update (\<lambda>p. p\<lparr>rhport_dev := None, usb_bus := d\<rparr>) (ch32_usb_rh_detach rescan u))"
| usbfs_attach: "usb_step h ch cf u
    (ch32_usbfs_rh_attach rescan (fs_port_update (\<lambda>p. p\<lparr>rhport_dev := Some i, usb_bus := d\<rparr>) u))"
| usbfs_detach: "usb_step h ch cf u
    (fs_port_update (\<lambda>p. p\<lparr>rhport_dev := None, usb_bus := d\<rparr>) (ch32_usbfs_rh_detach rescan u))"
| usbhs_device: "usb_step h ch cf u (hs_port_update (usb_bus_update f) u)"
| usbfs_device: "usb_step h ch cf u (fs_port_update (usb_bus_update f) u)"
| usbhs_complete: "\<not> pkt_inflight p \<Longrightarrow> usb_step h ch cf u (ch32_usb_rh_complete rescan (h_asw h) p u)"
| usbfs_complete: "\<not> pkt_inflight p \<Longrightarrow> usb_step h ch cf u (ch32_usbfs_rh_complete rescan (h_asw h) p u)"
| usb_reset: "usb_step h ch cf u (ch32_usb_reset_defaults rescan ch cf u)"
| rest_of_machine: "ch32_step h (um u) m \<Longrightarrow> usb_step h ch cf u (u\<lparr>um := m\<rparr>)"

inductive_cases usb_stepE: "usb_step h ch cf u u'"

lemma usb_step_inv: "usb_step h ch cf u u' \<Longrightarrow> host_ok h \<Longrightarrow> usb_inv u \<Longrightarrow> usb_inv u'"
proof (induction rule: usb_step.induct)
  case (rest_of_machine u m)
  then show ?case using step_inv[of h "um u" m] by (simp add: usb_inv_def)
qed (simp_all add: usb_write_inv usb_read_inv usb_attach_inv usb_complete_inv usb_reset_inv)

text \<open>C9. The USB hosts keep the rules of the USB core. In every state reachable by register accesses of
  any size and order, devices that attach, detach and complete packets, guest resets and all other
  events of the machine, no packet was set up or released while in flight, and the interrupt invariant
  of the machine holds.
\<close>

theorem usb_core_never_asserts:
  assumes "(usb_step h ch cf)\<^sup>*\<^sup>* u u'" "host_ok h" "machine_inv (um u)" "\<not> core_asserted u"
  shows "\<not> core_asserted u' \<and> machine_inv (um u')"
proof -
  have "usb_inv u" using assms(3,4) by (simp add: usb_inv_def)
  with assms(1) have "usb_inv u'" by induction (use usb_step_inv assms(2) in blast)+
  then show ?thesis by (simp add: usb_inv_def)
qed

section \<open>The transaction\<close>

text \<open>
  The address space as the hosts use it, and the core's promise about answers: they fit the room.
\<close>

definition usb_space :: "as_read \<Rightarrow> as_write \<Rightarrow> bool" where
  "usb_space asr asw \<longleftrightarrow> ram_backed asr asw \<and> (\<forall>a m. asr a 0 m = (Some [], m))"

definition usb_core_ok :: "'d usb_core \<Rightarrow> bool" where
  "usb_core_ok c \<longleftrightarrow> (\<forall>dev t e bs n d st len buf d'.
     usb_handle_packet c dev t e bs n d = (st, len, buf, d') \<longrightarrow> length buf = n \<and> len \<le> int n)"

text \<open>
  The specification: look the device up, hand it the bytes, and store an answer in the receive buffer
  if it lies in the memory. The result is the status, the received length, memory and devices.
\<close>

definition usb_store_answer ::
    "usb_token \<Rightarrow> u32 \<Rightarrow> u8 list \<Rightarrow> usb_ret \<times> int \<times> u8 list \<times> 'd \<Rightarrow> usb_ret \<times> u16 \<times> u8 list \<times> 'd" where
  "usb_store_answer t rxdma ram ans =
     (case ans of (st, len, buf, d) \<Rightarrow>
        if t = USB_TOKEN_IN \<and> st = USB_RET_SUCCESS then
          if len \<le> 0 then (st, word_of_int len, ram, d)
          else if ram_span ram rxdma (nat len)
          then (st, word_of_int len, mem_store (ram_off rxdma) (take (nat len) buf) ram, d)
          else (USB_RET_IOERROR, 0, ram, d)
        else (st, 0, ram, d))"

definition usb_transact ::
    "'d usb_core \<Rightarrow> u8 \<Rightarrow> usb_token \<Rightarrow> nat \<Rightarrow> u8 list option \<Rightarrow> nat \<Rightarrow> u32 \<Rightarrow> u8 list \<Rightarrow> 'd \<Rightarrow>
     usb_ret \<times> u16 \<times> u8 list \<times> 'd" where
  "usb_transact c addr t e send room rxdma ram d =
     (case usb_find_device c addr d of
        None \<Rightarrow> (USB_RET_NODEV, 0, ram, d)
      | Some dev \<Rightarrow>
          if \<not> usb_attached c dev d then (USB_RET_NODEV, 0, ram, d)
          else case send of
            None \<Rightarrow> (USB_RET_IOERROR, 0, ram, d)
          | Some bs \<Rightarrow> usb_store_answer t rxdma ram (usb_handle_packet c dev t e bs room d))"

text \<open>What the registers of each host ask for, and the image a result leaves in them.\<close>

definition mem_bytes :: "u8 list \<Rightarrow> u32 \<Rightarrow> nat \<Rightarrow> u8 list option" where
  "mem_bytes ram a n =
     (if n = 0 then Some [] else if ram_span ram a n then Some (take n (drop (ram_off a) ram)) else None)"

definition hs_txlen :: "u8 list \<Rightarrow> nat" where
  "hs_txlen g = (if bit (g ! 0xE6) 6 then 0 else unat (ld16_at 0xE4 g))"

definition hs_room :: "u8 list \<Rightarrow> usb_token \<Rightarrow> nat" where
  "hs_room g t =
     (case t of USB_TOKEN_SETUP \<Rightarrow> 8 | USB_TOKEN_OUT \<Rightarrow> hs_txlen g
      | USB_TOKEN_IN \<Rightarrow> if bit (g ! 0xE3) 6 then 0
          else if ld16_at 0xA0 g = 0 then 2048 else min 2048 (unat (ld16_at 0xA0 g)))"

definition hs_send :: "u8 list \<Rightarrow> u8 list \<Rightarrow> usb_token \<Rightarrow> u8 list option" where
  "hs_send ram g t =
     (if t = USB_TOKEN_IN then Some []
      else if hs_room g t > 2048 then None else mem_bytes ram (ld32_at 0x64 g) (hs_room g t))"

definition hs_result :: "u8 list \<Rightarrow> usb_token \<Rightarrow> usb_ret \<Rightarrow> u16 \<Rightarrow> u8 list" where
  "hs_result g t st n = arr_upd 0x0A (\<lambda>b. b OR 2) (st16_at 0x0C n (g[0x0B := usbhs_int_st (g ! 0xE3) t st]))"

definition fs_room :: "u8 list \<Rightarrow> usb_token \<Rightarrow> nat" where
  "fs_room g t =
     (case t of USB_TOKEN_SETUP \<Rightarrow> 8 | USB_TOKEN_OUT \<Rightarrow> unat (ld16_at 0x38 g) | USB_TOKEN_IN \<Rightarrow> 512)"

definition fs_send :: "u8 list \<Rightarrow> u8 list \<Rightarrow> usb_token \<Rightarrow> u8 list option" where
  "fs_send ram g t =
     (if t = USB_TOKEN_IN then Some []
      else if fs_room g t > 512 then None else mem_bytes ram (ld32_at 0x1C g) (fs_room g t))"

definition fs_result :: "u8 list \<Rightarrow> usb_token \<Rightarrow> usb_ret \<Rightarrow> u16 \<Rightarrow> u8 list" where
  "fs_result g t st n = arr_upd 0x06 (\<lambda>b. b OR 2) (st16_at 0x08 n (g[0x07 := usbfs_int_st (g ! 0x37) t st]))"

lemma dma_ok_span:
  "ch32_usbhs_dma_ok (length ram) a n \<longleftrightarrow> n \<le> 4096 \<and> (n = 0 \<or> ram_span ram a n)"
  "ch32_usbfs_dma_ok (length ram) a n \<longleftrightarrow> n \<le> 4096 \<and> (n = 0 \<or> ram_span ram a n)"
  by (auto simp: ch32_usbhs_dma_ok_def ch32_usbfs_dma_ok_def ram_span_def ram_off_def CH32_SRAM_BASE_def)

lemma usb_spaceD:
  assumes "usb_space asr asw" "mem_bytes (m_ram m) a n = Some bs"
  shows "asr a n m = (Some bs, m)"
  using assms ram_backedD(1)[of asr asw m a n] by (auto simp: usb_space_def mem_bytes_def split: if_splits)

lemma hs_regs_result [simp]:
  "hs_regs (ch32_usbhost_apply_packet_result rescan t st n u) =
     hs_result (hs_regs u) t st (if st = USB_RET_SUCCESS \<and> t = USB_TOKEN_IN then word_of_int n else 0)"
  "m_ram (um (ch32_usbhost_apply_packet_result rescan t st n u)) = m_ram (um u)"
  by (simp_all add: ch32_usbhost_apply_packet_result_def ch32_usbhost_raise_transfer_def Let_def hs_result_def)

lemma fs_regs_result [simp]:
  "fs_regs (ch32_usbfs_apply_pkt_result rescan t st n u) =
     fs_result (fs_regs u) t st (if st = USB_RET_SUCCESS \<and> t = USB_TOKEN_IN then word_of_int n else 0)"
  "m_ram (um (ch32_usbfs_apply_pkt_result rescan t st n u)) = m_ram (um u)"
  by (simp_all add: ch32_usbfs_apply_pkt_result_def ch32_usbfs_host_raise_transfer_def Let_def fs_result_def)

text \<open>The transfer as the submission of what the registers ask for, then the store.\<close>

definition hs_store :: "as_write \<Rightarrow> usb_token \<Rightarrow> 'd usb_machine \<Rightarrow> 'd usb_machine" where
  "hs_store asw t u =
     (let p = the_pkt (hs_port u) in
      if t = USB_TOKEN_IN \<and> pkt_status p = USB_RET_SUCCESS \<and> pkt_actual_length p > 0
      then ch32_usbhost_copy_in_to_guest asw u else u)"

definition fs_store :: "as_write \<Rightarrow> usb_token \<Rightarrow> 'd usb_machine \<Rightarrow> 'd usb_machine" where
  "fs_store asw t u =
     (let p = the_pkt (fs_port u) in
      if t = USB_TOKEN_IN \<and> pkt_status p = USB_RET_SUCCESS \<and> pkt_actual_length p > 0
      then ch32_usbfs_copy_in_to_guest asw u else u)"

lemma usbhs_transfer_eq:
  assumes "usb_space asr asw" "\<not> hs_busy u"
  shows "usbhs_transfer c asr asw dev t e u =
    (case hs_send (m_ram (um u)) (hs_regs u) t of
       None \<Rightarrow> hs_port_update (port_fail USB_RET_IOERROR) u
     | Some bs \<Rightarrow> hs_store asw t (hs_port_update (port_submit c dev t e bs (hs_room (hs_regs u) t)) u))"
proof -
  have idle: "assert_idle hs_port u = u" using assms(2) by (simp add: assert_idle_def)
  have same: "u\<lparr>um := um u\<rparr> = u" by simp
  have send: "usbhs_send c asr dev t e a n u = hs_port_update (port_submit c dev t e bs n) u"
    if "mem_bytes (m_ram (um u)) a n = Some bs" for a n t bs
    by (simp only: usbhs_send_def usb_spaceD[OF assms(1) that] Let_def split_conv option.case same idle)
  have ok: "ch32_usbhs_dma_ok (length (m_ram (um u))) a n \<longleftrightarrow> mem_bytes (m_ram (um u)) a n \<noteq> None"
    if "n \<le> 4096" for a n
    using that by (simp add: dma_ok_span mem_bytes_def)
  show ?thesis
  proof (cases t)
    case USB_TOKEN_SETUP
    have tr: "usbhs_transfer c asr asw dev t e u =
        (if \<not> ch32_usbhs_dma_ok (length (m_ram (um u))) (ld32_at 0x64 (hs_regs u)) 8
         then hs_port_update (port_fail USB_RET_IOERROR) u
         else usbhs_send c asr dev t e (ld32_at 0x64 (hs_regs u)) 8 u)"
      by (simp only: USB_TOKEN_SETUP usbhs_transfer_def Let_def usb_token.case)
    have req: "hs_room (hs_regs u) t = 8"
      "hs_send (m_ram (um u)) (hs_regs u) t = mem_bytes (m_ram (um u)) (ld32_at 0x64 (hs_regs u)) 8"
      by (simp_all add: USB_TOKEN_SETUP hs_send_def hs_room_def)
    have st: "hs_store asw t v = v" for v :: "'a usb_machine" by (simp add: hs_store_def USB_TOKEN_SETUP)
    show ?thesis
      by (cases "mem_bytes (m_ram (um u)) (ld32_at 0x64 (hs_regs u)) 8")
        (simp_all add: tr req ok send st)
  next
    case USB_TOKEN_IN
    have want: "(let w0 = (if unat (ld16_at 0xA0 (hs_regs u)) \<noteq> 0 then unat (ld16_at 0xA0 (hs_regs u)) else 2048);
        w1 = (if bit (hs_regs u ! 0xE3) 6 then 0 else w0) in if w1 > 2048 then 2048 else w1) = hs_room (hs_regs u) t"
      by (cases "ld16_at 0xA0 (hs_regs u) = 0") (simp_all add: USB_TOKEN_IN hs_room_def Let_def unat_eq_0)
    show ?thesis
      unfolding usbhs_transfer_def hs_store_def hs_send_def Let_def idle want[symmetric, unfolded Let_def]
      by (simp only: USB_TOKEN_IN usb_token.case option.case refl if_True simp_thms)
  next
    case USB_TOKEN_OUT
    let ?n = "hs_txlen (hs_regs u)"
    have tr: "usbhs_transfer c asr asw dev t e u =
        (if ?n > 2048 \<or> \<not> ch32_usbhs_dma_ok (length (m_ram (um u))) (ld32_at 0x64 (hs_regs u)) ?n
         then hs_port_update (port_fail USB_RET_IOERROR) u
         else usbhs_send c asr dev t e (ld32_at 0x64 (hs_regs u)) ?n u)"
      by (simp only: USB_TOKEN_OUT usbhs_transfer_def hs_txlen_def Let_def usb_token.case)
    have req: "hs_room (hs_regs u) t = ?n"
      "hs_send (m_ram (um u)) (hs_regs u) t =
         (if ?n > 2048 then None else mem_bytes (m_ram (um u)) (ld32_at 0x64 (hs_regs u)) ?n)"
      by (simp_all add: USB_TOKEN_OUT hs_send_def hs_room_def)
    have st: "hs_store asw t v = v" for v :: "'a usb_machine" by (simp add: hs_store_def USB_TOKEN_OUT)
    show ?thesis
    proof (cases "?n > 2048")
      case True
      then show ?thesis by (simp add: tr req)
    next
      case False
      then have le: "?n \<le> 4096" by simp
      show ?thesis
      proof (cases "mem_bytes (m_ram (um u)) (ld32_at 0x64 (hs_regs u)) ?n")
        case None
        then show ?thesis using False by (simp add: tr req ok[OF le])
      next
        case (Some bs)
        from send[OF Some, of t] show ?thesis using False Some by (simp add: tr req ok[OF le] st)
      qed
    qed
  qed
qed

lemma usbfs_transfer_eq:
  assumes "usb_space asr asw" "\<not> fs_busy u"
  shows "usbfs_transfer c asr asw dev t e u =
    (case fs_send (m_ram (um u)) (fs_regs u) t of
       None \<Rightarrow> fs_port_update (port_fail USB_RET_IOERROR) u
     | Some bs \<Rightarrow> fs_store asw t (fs_port_update (port_submit c dev t e bs (fs_room (fs_regs u) t)) u))"
proof -
  have idle: "assert_idle fs_port u = u" using assms(2) by (simp add: assert_idle_def)
  have same: "u\<lparr>um := um u\<rparr> = u" by simp
  have send: "usbfs_send c asr dev t e a n u = fs_port_update (port_submit c dev t e bs n) u"
    if "mem_bytes (m_ram (um u)) a n = Some bs" for a n t bs
    by (simp only: usbfs_send_def usb_spaceD[OF assms(1) that] Let_def split_conv option.case same idle)
  have ok: "ch32_usbfs_dma_ok (length (m_ram (um u))) a n \<longleftrightarrow> mem_bytes (m_ram (um u)) a n \<noteq> None"
    if "n \<le> 4096" for a n
    using that by (simp add: dma_ok_span mem_bytes_def)
  show ?thesis
  proof (cases t)
    case USB_TOKEN_SETUP
    have tr: "usbfs_transfer c asr asw dev t e u =
        (if \<not> ch32_usbfs_dma_ok (length (m_ram (um u))) (ld32_at 0x1C (fs_regs u)) 8
         then fs_port_update (port_fail USB_RET_IOERROR) u
         else usbfs_send c asr dev t e (ld32_at 0x1C (fs_regs u)) 8 u)"
      by (simp only: USB_TOKEN_SETUP usbfs_transfer_def Let_def usb_token.case)
    have req: "fs_room (fs_regs u) t = 8"
      "fs_send (m_ram (um u)) (fs_regs u) t = mem_bytes (m_ram (um u)) (ld32_at 0x1C (fs_regs u)) 8"
      by (simp_all add: USB_TOKEN_SETUP fs_send_def fs_room_def)
    have st: "fs_store asw t v = v" for v :: "'a usb_machine" by (simp add: fs_store_def USB_TOKEN_SETUP)
    show ?thesis
      by (cases "mem_bytes (m_ram (um u)) (ld32_at 0x1C (fs_regs u)) 8")
        (simp_all add: tr req ok send st)
  next
    case USB_TOKEN_IN
    then show ?thesis by (simp add: usbfs_transfer_def fs_send_def fs_room_def fs_store_def Let_def idle)
  next
    case USB_TOKEN_OUT
    let ?n = "unat (ld16_at 0x38 (fs_regs u))"
    have tr: "usbfs_transfer c asr asw dev t e u =
        (if ?n > 512 \<or> \<not> ch32_usbfs_dma_ok (length (m_ram (um u))) (ld32_at 0x1C (fs_regs u)) ?n
         then fs_port_update (port_fail USB_RET_IOERROR) u
         else usbfs_send c asr dev t e (ld32_at 0x1C (fs_regs u)) ?n u)"
      by (simp only: USB_TOKEN_OUT usbfs_transfer_def Let_def usb_token.case)
    have req: "fs_room (fs_regs u) t = ?n"
      "fs_send (m_ram (um u)) (fs_regs u) t =
         (if ?n > 512 then None else mem_bytes (m_ram (um u)) (ld32_at 0x1C (fs_regs u)) ?n)"
      by (simp_all add: USB_TOKEN_OUT fs_send_def fs_room_def)
    have st: "fs_store asw t v = v" for v :: "'a usb_machine" by (simp add: fs_store_def USB_TOKEN_OUT)
    show ?thesis
    proof (cases "?n > 512")
      case True
      then show ?thesis by (simp add: tr req)
    next
      case False
      then have le: "?n \<le> 4096" by simp
      show ?thesis
      proof (cases "mem_bytes (m_ram (um u)) (ld32_at 0x1C (fs_regs u)) ?n")
        case None
        then show ?thesis using False by (simp add: tr req ok[OF le])
      next
        case (Some bs)
        from send[OF Some, of t] show ?thesis using False Some by (simp add: tr req ok[OF le] st)
      qed
    qed
  qed
qed

text \<open>The store against the specification.\<close>

lemma hs_room_le: "hs_send ram g t \<noteq> None \<Longrightarrow> hs_room g t \<le> 2048"
  by (cases t) (auto simp: hs_send_def hs_room_def split: if_splits)

lemma fs_room_le: "fs_send ram g t \<noteq> None \<Longrightarrow> fs_room g t \<le> 512"
  by (cases t) (auto simp: fs_send_def fs_room_def split: if_splits)

lemma hs_store_result:
  assumes sp: "usb_space asr asw" and c: "usb_core_ok c" and n: "n \<le> 4096"
    and h: "usb_handle_packet c dev t e bs n (usb_bus (hs_port u)) = (st0, len0, buf, d0)"
    and r: "usb_store_answer t (ld32_at 0x24 (hs_regs u)) (m_ram (um u)) (st0, len0, buf, d0) = (st, rxlen, ram, d)"
  shows "let u' = hs_store asw t (hs_port_update (port_submit c dev t e bs n) u); p = the_pkt (hs_port u') in
    um u' = (um u)\<lparr>m_ram := ram\<rparr> \<and> usb_bus (hs_port u') = d \<and> pkt_status p = st \<and>
    (pkt_inflight p \<longleftrightarrow> st = USB_RET_ASYNC) \<and>
    rxlen = (if st = USB_RET_SUCCESS \<and> t = USB_TOKEN_IN then word_of_int (pkt_actual_length p) else 0)"
proof -
  have buf: "length buf = n" "len0 \<le> int n" using c h unfolding usb_core_ok_def by blast+
  have wr: "asw a cs (um u) = (True, (um u)\<lparr>m_ram := mem_store (ram_off a) cs (m_ram (um u))\<rparr>)"
    if "ram_span (m_ram (um u)) a (length cs)" for a cs
    using sp ram_backedD(2)[of asr asw "um u" a cs] that by (simp add: usb_space_def)
  have tk: "take (nat len0) (take 4096 buf) = take (nat len0) buf" "length (take (nat len0) buf) = nat len0"
    using buf n by (auto simp: min_def)
  let ?u = "hs_port_update (port_submit c dev t e bs n) u"
  have sub: "the_pkt (port_submit c dev t e bs n (hs_port u)) = \<lparr>pkt_inflight = (st0 = USB_RET_ASYNC), pkt_pid = t, pkt_status = st0,
      pkt_actual_length = len0, pkt_iov = buf\<rparr>" "usb_bus (port_submit c dev t e bs n (hs_port u)) = d0" "um ?u = um u"
    by (simp_all add: port_submit_def h)
  have sub': "the_pkt (hs_port ?u) = \<lparr>pkt_inflight = (st0 = USB_RET_ASYNC), pkt_pid = t, pkt_status = st0,
      pkt_actual_length = len0, pkt_iov = buf\<rparr>" "usb_bus (hs_port ?u) = d0" by (simp_all add: sub)
  show ?thesis
  proof (cases "t = USB_TOKEN_IN \<and> st0 = USB_RET_SUCCESS \<and> 0 < len0")
    case False
    then have F: "hs_store asw t ?u = ?u" by (auto simp: hs_store_def Let_def sub)
    show ?thesis using r False unfolding Let_def F sub' sub(3)
      by (auto simp: usb_store_answer_def split: if_splits)
  next
    case True
    then have S: "hs_store asw t ?u = ch32_usbhost_copy_in_to_guest asw ?u" unfolding hs_store_def Let_def sub' by simp
    note sb = sub[unfolded conjunct1[OF True]]
    have ok: "\<not> len0 \<le> 0" "nat len0 \<le> 4096" "\<not> length (take 4096 buf) < nat len0"
      using True buf n by auto
    show ?thesis
    proof (cases "ram_span (m_ram (um u)) (ld32_at 0x24 (hs_regs u)) (nat len0)")
      case True
      then show ?thesis using r ok \<open>t = USB_TOKEN_IN \<and> st0 = USB_RET_SUCCESS \<and> 0 < len0\<close>
        unfolding S ch32_usbhost_copy_in_to_guest_def Let_def sub'
        by (simp add: wr tk sb dma_ok_span usb_store_answer_def)
    next
      case False
      then show ?thesis using r ok \<open>t = USB_TOKEN_IN \<and> st0 = USB_RET_SUCCESS \<and> 0 < len0\<close>
        unfolding S ch32_usbhost_copy_in_to_guest_def Let_def sub'
        by (simp add: sb dma_ok_span usb_store_answer_def)
    qed
  qed
qed

lemma fs_store_result:
  assumes sp: "usb_space asr asw" and c: "usb_core_ok c" and n: "n \<le> 4096"
    and h: "usb_handle_packet c dev t e bs n (usb_bus (fs_port u)) = (st0, len0, buf, d0)"
    and r: "usb_store_answer t (ld32_at 0x18 (fs_regs u)) (m_ram (um u)) (st0, len0, buf, d0) = (st, rxlen, ram, d)"
  shows "let u' = fs_store asw t (fs_port_update (port_submit c dev t e bs n) u); p = the_pkt (fs_port u') in
    um u' = (um u)\<lparr>m_ram := ram\<rparr> \<and> usb_bus (fs_port u') = d \<and> pkt_status p = st \<and>
    (pkt_inflight p \<longleftrightarrow> st = USB_RET_ASYNC) \<and>
    rxlen = (if st = USB_RET_SUCCESS \<and> t = USB_TOKEN_IN then word_of_int (pkt_actual_length p) else 0)"
proof -
  have buf: "length buf = n" "len0 \<le> int n" using c h unfolding usb_core_ok_def by blast+
  have wr: "asw a cs (um u) = (True, (um u)\<lparr>m_ram := mem_store (ram_off a) cs (m_ram (um u))\<rparr>)"
    if "ram_span (m_ram (um u)) a (length cs)" for a cs
    using sp ram_backedD(2)[of asr asw "um u" a cs] that by (simp add: usb_space_def)
  have tk: "take (nat len0) (take 4096 buf) = take (nat len0) buf" "length (take (nat len0) buf) = nat len0"
    using buf n by (auto simp: min_def)
  let ?u = "fs_port_update (port_submit c dev t e bs n) u"
  have sub: "the_pkt (port_submit c dev t e bs n (fs_port u)) = \<lparr>pkt_inflight = (st0 = USB_RET_ASYNC), pkt_pid = t, pkt_status = st0,
      pkt_actual_length = len0, pkt_iov = buf\<rparr>" "usb_bus (port_submit c dev t e bs n (fs_port u)) = d0" "um ?u = um u"
    by (simp_all add: port_submit_def h)
  have sub': "the_pkt (fs_port ?u) = \<lparr>pkt_inflight = (st0 = USB_RET_ASYNC), pkt_pid = t, pkt_status = st0,
      pkt_actual_length = len0, pkt_iov = buf\<rparr>" "usb_bus (fs_port ?u) = d0" by (simp_all add: sub)
  show ?thesis
  proof (cases "t = USB_TOKEN_IN \<and> st0 = USB_RET_SUCCESS \<and> 0 < len0")
    case False
    then have F: "fs_store asw t ?u = ?u" by (auto simp: fs_store_def Let_def sub)
    show ?thesis using r False unfolding Let_def F sub' sub(3)
      by (auto simp: usb_store_answer_def split: if_splits)
  next
    case True
    then have S: "fs_store asw t ?u = ch32_usbfs_copy_in_to_guest asw ?u" unfolding fs_store_def Let_def sub' by simp
    note sb = sub[unfolded conjunct1[OF True]]
    have ok: "\<not> len0 \<le> 0" "nat len0 \<le> 4096" "\<not> length (take 4096 buf) < nat len0"
      using True buf n by auto
    show ?thesis
    proof (cases "ram_span (m_ram (um u)) (ld32_at 0x18 (fs_regs u)) (nat len0)")
      case True
      then show ?thesis using r ok \<open>t = USB_TOKEN_IN \<and> st0 = USB_RET_SUCCESS \<and> 0 < len0\<close>
        unfolding S ch32_usbfs_copy_in_to_guest_def Let_def sub'
        by (simp add: wr tk sb dma_ok_span usb_store_answer_def)
    next
      case False
      then show ?thesis using r ok \<open>t = USB_TOKEN_IN \<and> st0 = USB_RET_SUCCESS \<and> 0 < len0\<close>
        unfolding S ch32_usbfs_copy_in_to_guest_def Let_def sub'
        by (simp add: sb dma_ok_span usb_store_answer_def)
    qed
  qed
qed

lemma finish_hs:
  "pkt_status (the_pkt (hs_port v)) = st \<Longrightarrow> usbhs_finish r t v =
   (if st = USB_RET_ASYNC then v
    else assert_idle hs_port
           (ch32_usbhost_apply_packet_result r t st (pkt_actual_length (the_pkt (hs_port v))) v))"
  by (simp add: usbhs_finish_def Let_def)

lemma finish_fs:
  "pkt_status (the_pkt (fs_port v)) = st \<Longrightarrow> usbfs_finish r t v =
   (if st = USB_RET_ASYNC then v
    else assert_idle fs_port
           (ch32_usbfs_apply_pkt_result r t st (pkt_actual_length (the_pkt (fs_port v))) v))"
  by (simp add: usbfs_finish_def Let_def)

definition hs_transact ::
    "'d usb_core \<Rightarrow> nat \<Rightarrow> usb_token \<Rightarrow> 'd usb_machine \<Rightarrow> usb_ret \<times> u16 \<times> u8 list \<times> 'd" where
  "hs_transact c e t u =
     usb_transact c (hs_regs u ! 3) t e (hs_send (m_ram (um u)) (hs_regs u) t) (hs_room (hs_regs u) t)
       (ld32_at 0x24 (hs_regs u)) (m_ram (um u)) (usb_bus (hs_port u))"

definition fs_transact ::
    "'d usb_core \<Rightarrow> nat \<Rightarrow> usb_token \<Rightarrow> 'd usb_machine \<Rightarrow> usb_ret \<times> u16 \<times> u8 list \<times> 'd" where
  "fs_transact c e t u =
     usb_transact c (fs_regs u ! 3) t e (fs_send (m_ram (um u)) (fs_regs u) t) (fs_room (fs_regs u) t)
       (ld32_at 0x18 (fs_regs u)) (m_ram (um u)) (usb_bus (fs_port u))"

definition hs_done :: "'d usb_machine \<Rightarrow> usb_token \<Rightarrow> usb_ret \<times> u16 \<times> u8 list \<times> 'd \<Rightarrow> 'd usb_machine \<Rightarrow> bool" where
  "hs_done u t out u' \<longleftrightarrow> (case out of (st, n, ram, d) \<Rightarrow>
     m_ram (um u') = ram \<and> usb_bus (hs_port u') = d \<and> (hs_busy u' \<longleftrightarrow> st = USB_RET_ASYNC) \<and>
     hs_regs u' = (if st = USB_RET_ASYNC then hs_regs u else hs_result (hs_regs u) t st n))"

definition fs_done :: "'d usb_machine \<Rightarrow> usb_token \<Rightarrow> usb_ret \<times> u16 \<times> u8 list \<times> 'd \<Rightarrow> 'd usb_machine \<Rightarrow> bool" where
  "fs_done u t out u' \<longleftrightarrow> (case out of (st, n, ram, d) \<Rightarrow>
     m_ram (um u') = ram \<and> usb_bus (fs_port u') = d \<and> (fs_busy u' \<longleftrightarrow> st = USB_RET_ASYNC) \<and>
     fs_regs u' = (if st = USB_RET_ASYNC then fs_regs u else fs_result (fs_regs u) t st n))"

lemma usbhs_transact:
  assumes sp: "usb_space asr asw" and c: "usb_core_ok c" and idle: "\<not> hs_busy u"
    and on: "usb_host_inited (um u)" "bit (hs_regs u ! 0) 7"
    and t: "ch32_usbhs_pid4_to_token (drop_bit 4 e) = Some t"
  shows "hs_done u t (hs_transact c (unat (e AND 0xf)) t u) (ch32_usbhost_ep_pid_write rescan c asr asw e u)"
proof -
  let ?e = "unat (e AND 0xf)" and ?d = "usb_bus (hs_port u)" and ?w = "ch32_usbhost_ep_pid_write rescan c asr asw e u"
  let ?send = "hs_send (m_ram (um u)) (hs_regs u) t" and ?n = "hs_room (hs_regs u) t"
  show ?thesis
  proof (cases "usb_find_device c (hs_regs u ! 3) ?d")
    case None
    then have "?w = ch32_usbhost_apply_packet_result rescan t USB_RET_NODEV 0 u"
      using on t by (simp add: ch32_usbhost_ep_pid_write_def Let_def)
    then show ?thesis using None idle by (simp add: hs_done_def hs_transact_def usb_transact_def)
  next
    case dev: (Some dev)
    show ?thesis
    proof (cases "usb_attached c dev ?d")
      case False
      then have "?w = ch32_usbhost_apply_packet_result rescan t USB_RET_NODEV 0 u"
        using on t dev by (simp add: ch32_usbhost_ep_pid_write_def Let_def)
      then show ?thesis using dev False idle by (simp add: hs_done_def hs_transact_def usb_transact_def)
    next
      case True
      have w: "?w = usbhs_finish rescan t (usbhs_transfer c asr asw dev t ?e u)"
        using on t dev True idle by (simp add: ch32_usbhost_ep_pid_write_def Let_def)
      show ?thesis
      proof (cases ?send)
        case None
        then have "?w = usbhs_finish rescan t (hs_port_update (port_fail USB_RET_IOERROR) u)"
          by (simp add: w usbhs_transfer_eq[OF sp idle])
        then show ?thesis using dev True None idle
          by (simp add: finish_hs[OF refl] hs_done_def hs_transact_def usb_transact_def)
      next
        case (Some bs)
        obtain st0 len0 buf d0 where h: "usb_handle_packet c dev t ?e bs ?n ?d = (st0, len0, buf, d0)"
          using prod_cases4 by blast
        obtain st n ram d where r: "usb_store_answer t (ld32_at 0x24 (hs_regs u)) (m_ram (um u)) (st0, len0, buf, d0) = (st, n, ram, d)"
          using prod_cases4 by blast
        let ?v = "hs_store asw t (hs_port_update (port_submit c dev t ?e bs ?n) u)"
        have le: "?n \<le> 4096" using hs_room_le[of "m_ram (um u)" "hs_regs u" t] Some by simp
        note v = hs_store_result[OF sp c le h r, unfolded Let_def]
        have w': "?w = usbhs_finish rescan t ?v" by (simp add: w usbhs_transfer_eq[OF sp idle] Some)
        have out: "hs_transact c ?e t u = (st, n, ram, d)"
          using dev True Some h r by (simp add: hs_transact_def usb_transact_def)
        from v have "pkt_status (the_pkt (hs_port ?v)) = st" by blast
        from finish_hs[OF this] v show ?thesis
          unfolding hs_done_def out prod.case w' by simp
      qed
    qed
  qed
qed

lemma usbfs_transact:
  assumes sp: "usb_space asr asw" and c: "usb_core_ok c" and idle: "\<not> fs_busy u"
    and on: "usbfs_host_inited (um u)"
    and t: "ch32_usbfs_pid4_to_token (drop_bit 4 e) = Some t"
  shows "fs_done u t (fs_transact c (unat (e AND 0xf)) t u) (ch32_usbfs_host_ep_pid_write rescan c asr asw e u)"
proof -
  let ?e = "unat (e AND 0xf)" and ?d = "usb_bus (fs_port u)" and ?w = "ch32_usbfs_host_ep_pid_write rescan c asr asw e u"
  let ?send = "fs_send (m_ram (um u)) (fs_regs u) t" and ?n = "fs_room (fs_regs u) t"
  show ?thesis
  proof (cases "usb_find_device c (fs_regs u ! 3) ?d")
    case None
    then have "?w = ch32_usbfs_apply_pkt_result rescan t USB_RET_NODEV 0 u"
      using on t by (simp add: ch32_usbfs_host_ep_pid_write_def Let_def)
    then show ?thesis using None idle by (simp add: fs_done_def fs_transact_def usb_transact_def)
  next
    case dev: (Some dev)
    show ?thesis
    proof (cases "usb_attached c dev ?d")
      case False
      then have "?w = ch32_usbfs_apply_pkt_result rescan t USB_RET_NODEV 0 u"
        using on t dev by (simp add: ch32_usbfs_host_ep_pid_write_def Let_def)
      then show ?thesis using dev False idle by (simp add: fs_done_def fs_transact_def usb_transact_def)
    next
      case True
      have w: "?w = usbfs_finish rescan t (usbfs_transfer c asr asw dev t ?e u)"
        using on t dev True idle by (simp add: ch32_usbfs_host_ep_pid_write_def Let_def)
      show ?thesis
      proof (cases ?send)
        case None
        then have "?w = usbfs_finish rescan t (fs_port_update (port_fail USB_RET_IOERROR) u)"
          by (simp add: w usbfs_transfer_eq[OF sp idle])
        then show ?thesis using dev True None idle
          by (simp add: finish_fs[OF refl] fs_done_def fs_transact_def usb_transact_def)
      next
        case (Some bs)
        obtain st0 len0 buf d0 where h: "usb_handle_packet c dev t ?e bs ?n ?d = (st0, len0, buf, d0)"
          using prod_cases4 by blast
        obtain st n ram d where r: "usb_store_answer t (ld32_at 0x18 (fs_regs u)) (m_ram (um u)) (st0, len0, buf, d0) = (st, n, ram, d)"
          using prod_cases4 by blast
        let ?v = "fs_store asw t (fs_port_update (port_submit c dev t ?e bs ?n) u)"
        have le: "?n \<le> 4096" using fs_room_le[of "m_ram (um u)" "fs_regs u" t] Some by simp
        note v = fs_store_result[OF sp c le h r, unfolded Let_def]
        have w': "?w = usbfs_finish rescan t ?v" by (simp add: w usbfs_transfer_eq[OF sp idle] Some)
        have out: "fs_transact c ?e t u = (st, n, ram, d)"
          using dev True Some h r by (simp add: fs_transact_def usb_transact_def)
        from v have "pkt_status (the_pkt (fs_port ?v)) = st" by blast
        from finish_fs[OF this] v show ?thesis
          unfolding fs_done_def out prod.case w' by simp
      qed
    qed
  qed
qed

section \<open>Every transaction is reported\<close>

lemma length_hs_result [simp]: "length (hs_result g t st n) = length g"
  by (simp add: hs_result_def st16_at_def)

lemma hs_result_reported: "length g = 0x400 \<Longrightarrow> bit (hs_result g t st n ! 0x0A) (Suc 0)"
  by (simp add: hs_result_def st16_at_def bit_simps)

definition hs_reported :: "'d usb_machine \<Rightarrow> bool" where
  "hs_reported u \<longleftrightarrow> hs_busy u \<or> bit (hs_regs u ! 0x0A) 1"

lemma result_reported: "length (hs_regs u) = 0x400 \<Longrightarrow> hs_reported (ch32_usbhost_apply_packet_result rescan t st n u)"
  by (simp add: hs_reported_def hs_result_reported)

lemma finish_reported:
  assumes "length (hs_regs v) = 0x400" "pkt_status (the_pkt (hs_port v)) = USB_RET_ASYNC \<longrightarrow> hs_busy v"
  shows "hs_reported (usbhs_finish rescan t v)"
  using assms result_reported[OF assms(1)] by (auto simp: finish_hs[OF refl] hs_reported_def)

lemma transfer_reported:
  assumes "usb_space asr asw" "usb_core_ok c" "\<not> hs_busy u" "length (hs_regs u) = 0x400"
  shows "hs_reported (usbhs_finish rescan t (usbhs_transfer c asr asw dev t e u))"
proof (cases "hs_send (m_ram (um u)) (hs_regs u) t")
  case None
  then show ?thesis
    unfolding usbhs_transfer_eq[OF assms(1,3)] by (auto intro!: finish_reported simp: assms)
next
  case (Some bs)
  let ?n = "hs_room (hs_regs u) t"
  obtain st0 len0 buf d0 where h: "usb_handle_packet c dev t e bs ?n (usb_bus (hs_port u)) = (st0, len0, buf, d0)"
    using prod_cases4 by blast
  obtain st n ram d where r: "usb_store_answer t (ld32_at 0x24 (hs_regs u)) (m_ram (um u)) (st0, len0, buf, d0) = (st, n, ram, d)"
    using prod_cases4 by blast
  have le: "?n \<le> 4096" using hs_room_le[of "m_ram (um u)" "hs_regs u" t] Some by simp
  note v = hs_store_result[OF assms(1,2) le h r, unfolded Let_def]
  show ?thesis
    unfolding usbhs_transfer_eq[OF assms(1,3)] Some option.case
    by (rule finish_reported) (use v assms(4) in simp_all)
qed

lemma ucast8_back: "ucast (ucast e :: u32) = e" for e :: u8
  by (rule bit_word_eqI) (simp add: bit_simps)

lemma cancel_frame [simp]:
  "hs_regs (hs_port_update f u) = hs_regs u" "m_ram (um (hs_port_update f u)) = m_ram (um u)"
  by simp_all

lemma ep_pid_reported:
  assumes sp: "usb_space asr asw" "usb_core_ok c"
    and on: "usb_host_inited (um u)" "bit (hs_regs u ! 0) 7" "length (hs_regs u) = 0x400"
  shows "hs_reported (ch32_usbhost_ep_pid_write rescan c asr asw e u)"
proof -
  let ?u = "if hs_busy u then hs_port_update (port_cancel c) u else u"
  have u: "\<not> hs_busy ?u" "length (hs_regs ?u) = 0x400" using on by simp_all
  note tr = transfer_reported[OF sp u] and rr = result_reported[OF on(3)] result_reported[OF u(2)]
  show ?thesis using on tr rr unfolding ch32_usbhost_ep_pid_write_def Let_def
    by (cases "hs_busy u") (simp_all split: option.split)
qed


section \<open>The two hosts agree\<close>

definition fs_hs_same_request :: "usb_token \<Rightarrow> 'd usb_machine \<Rightarrow> bool" where
  "fs_hs_same_request t u \<longleftrightarrow>
     hs_regs u ! 3 = fs_regs u ! 3 \<and> hs_room (hs_regs u) t = fs_room (fs_regs u) t \<and>
     ld32_at 0x24 (hs_regs u) = ld32_at 0x18 (fs_regs u) \<and> ld32_at 0x64 (hs_regs u) = ld32_at 0x1C (fs_regs u) \<and>
     (hs_regs u ! 0xE3 AND 0x18 = 0x08) = bit (fs_regs u ! 0x37) 2 \<and>
     usb_bus (hs_port u) = usb_bus (fs_port u)"

lemma int_st_agree:
  assumes "(rx AND 0x18 = 0x08) = bit rx' 2"
  shows "usbhs_int_st rx t st = usbfs_int_st rx' t st"
  using assms by (cases t) (simp_all add: usbhs_int_st_def usbfs_int_st_def Let_def)

text \<open>C11. The full-speed and the high-speed host are the same function. When their registers describe the
  same request and the same devices are attached, one PID written to either leaves the same memory and
  the same devices, is in flight in both or in neither, and reports the same status and length.
\<close>

theorem usb_hosts_agree:
  assumes "usb_space asr asw" "usb_core_ok c" "\<not> hs_busy u" "\<not> fs_busy u"
    and "usb_host_inited (um u)" "usbfs_host_inited (um u)" "bit (hs_regs u ! 0) 7"
    and "length (hs_regs u) = 0x400" "length (fs_regs u) = 0x200"
    and "ch32_usbhs_pid4_to_token (drop_bit 4 e) = Some t" "fs_hs_same_request t u"
    and "t = USB_TOKEN_IN \<or> fs_room (fs_regs u) t \<le> 512"
  defines "h \<equiv> ch32_usbhost_ep_pid_write rescan c asr asw e u"
    and "f \<equiv> ch32_usbfs_host_ep_pid_write rescan c asr asw e u"
  shows "m_ram (um h) = m_ram (um f) \<and> usb_bus (hs_port h) = usb_bus (fs_port f) \<and>
    hs_busy h = fs_busy f \<and>
    (\<not> hs_busy h \<longrightarrow> hs_regs h ! 0x0B = fs_regs f ! 0x07 \<and>
       take 2 (drop 0x0C (hs_regs h)) = take 2 (drop 0x08 (fs_regs f)))"
proof -
  let ?e = "unat (e AND 0xf)"
  have t': "ch32_usbfs_pid4_to_token (drop_bit 4 e) = Some t"
    using assms(10) by (simp add: ch32_usbhs_pid4_to_token_def ch32_usbfs_pid4_to_token_def)
  note H = usbhs_transact[OF assms(1,2,3,5,7,10), folded h_def]
    and F = usbfs_transact[OF assms(1,2,4,6) t', folded f_def]
  have same: "hs_regs u ! 3 = fs_regs u ! 3" "hs_room (hs_regs u) t = fs_room (fs_regs u) t"
    "ld32_at 0x24 (hs_regs u) = ld32_at 0x18 (fs_regs u)" "ld32_at 0x64 (hs_regs u) = ld32_at 0x1C (fs_regs u)"
    "(hs_regs u ! 0xE3 AND 0x18 = 0x08) = bit (fs_regs u ! 0x37) 2" "usb_bus (hs_port u) = usb_bus (fs_port u)"
    using assms(11) by (simp_all add: fs_hs_same_request_def)
  have "hs_send (m_ram (um u)) (hs_regs u) t = fs_send (m_ram (um u)) (fs_regs u) t"
    using same assms(12) by (auto simp: hs_send_def fs_send_def)
  then have out: "hs_transact c ?e t u = fs_transact c ?e t u"
    using same by (simp add: hs_transact_def fs_transact_def)
  obtain st n ram d where o: "fs_transact c ?e t u = (st, n, ram, d)" using prod_cases4 by blast
  have st: "usbhs_int_st (hs_regs u ! 0xE3) t st = usbfs_int_st (fs_regs u ! 0x37) t st"
    by (rule int_st_agree[OF same(5)])
  have two: "take 2 (drop k (xs :: u8 list)) = [xs ! k, xs ! Suc k]" if "k + 1 < length xs" for k xs
    using that by (simp add: numeral_2_eq_2 take_Suc_conv_app_nth Cons_nth_drop_Suc[symmetric])
  show ?thesis
    using H F assms(8,9) unfolding out o hs_done_def fs_done_def prod.case
    by (auto simp: hs_result_def fs_result_def st16_at_def st two)
qed

section \<open>An answer arrives in memory\<close>

lemma ld16_st16:
  assumes "off + 2 \<le> length g"
  shows "ld16_at off (st16_at off v g) = v"
proof -
  have two: "take 2 (drop off (st16_at off v g)) = [ucast v, ucast (drop_bit 8 v)]"
  proof (rule nth_equalityI)
    fix i assume "i < length (take 2 (drop off (st16_at off v g)))"
    then have "i = 0 \<or> i = 1" by auto
    then show "take 2 (drop off (st16_at off v g)) ! i = [ucast v, ucast (drop_bit 8 v)] ! i"
      using assms by (auto simp: st16_at_def)
  qed (use assms in \<open>simp add: st16_at_def\<close>)
  show ?thesis unfolding ld16_at_def two
    by (rule bit_word_eqI) (auto simp: bit_simps)
qed

text \<open>C12. An answer of a device arrives in memory. An IN transaction of the high-speed host that succeeds
  with some bytes stores exactly these bytes at the receive address and changes nothing else in the
  memory; the length register holds their number and the status register the token, the toggle the
  driver expected and the flag that it matched.
\<close>

theorem usb_in_answer_delivered:
  assumes "usb_space asr asw" "usb_core_ok c" "\<not> hs_busy u"
    and "usb_host_inited (um u)" "bit (hs_regs u ! 0) 7" "length (hs_regs u) = 0x400"
    and "ch32_usbhs_pid4_to_token (drop_bit 4 e) = Some USB_TOKEN_IN"
    and "usb_find_device c (hs_regs u ! 3) (usb_bus (hs_port u)) = Some dev" "usb_attached c dev (usb_bus (hs_port u))"
    and "usb_handle_packet c dev USB_TOKEN_IN (unat (e AND 0xf)) [] (hs_room (hs_regs u) USB_TOKEN_IN)
           (usb_bus (hs_port u)) = (USB_RET_SUCCESS, len, buf, d)"
    and "0 < len" "ram_span (m_ram (um u)) (ld32_at 0x24 (hs_regs u)) (nat len)"
  defines "u' \<equiv> ch32_usbhost_ep_pid_write rescan c asr asw e u"
  shows "m_ram (um u') = mem_store (ram_off (ld32_at 0x24 (hs_regs u))) (take (nat len) buf) (m_ram (um u)) \<and>
    unat (ld16_at 0x0C (hs_regs u')) = nat len \<and>
    hs_regs u' ! 0x0B = 0x60 OR (if hs_regs u ! 0xE3 AND 0x18 = 0x08 then 0x0b else 0x03) \<and>
    usb_bus (hs_port u') = d \<and> \<not> hs_busy u'"
proof -
  note T = usbhs_transact[OF assms(1-5,7), folded u'_def]
  have send: "hs_send (m_ram (um u)) (hs_regs u) USB_TOKEN_IN = Some []" by (simp add: hs_send_def)
  have out: "hs_transact c (unat (e AND 0xf)) USB_TOKEN_IN u =
      (USB_RET_SUCCESS, word_of_int len,
       mem_store (ram_off (ld32_at 0x24 (hs_regs u))) (take (nat len) buf) (m_ram (um u)), d)"
    using assms(8-12) by (simp add: hs_transact_def usb_transact_def send usb_store_answer_def)
  have "len \<le> int (hs_room (hs_regs u) USB_TOKEN_IN)"
    using assms(2,10) unfolding usb_core_ok_def by blast
  moreover have "hs_room (hs_regs u) USB_TOKEN_IN \<le> 2048" using hs_room_le[of "m_ram (um u)" "hs_regs u" USB_TOKEN_IN] send by simp
  ultimately have len: "unat (word_of_int len :: u16) = nat len"
    using assms(11) by (simp add: unat_eq_nat_uint uint_word_of_int)
  have R: "hs_regs u' = hs_result (hs_regs u) USB_TOKEN_IN USB_RET_SUCCESS (word_of_int len)"
    using T by (simp add: out hs_done_def)
  have "ld16_at 0x0C (hs_regs u') = word_of_int len"
  proof -
    let ?g = "(hs_regs u)[0x0B := usbhs_int_st (hs_regs u ! 0xE3) USB_TOKEN_IN USB_RET_SUCCESS]"
    have "take 2 (drop 0x0C (hs_regs u')) = take 2 (drop 0x0C (st16_at 0x0C (word_of_int len) ?g))"
      unfolding R hs_result_def arr_upd_def by (simp add: drop_update_cancel)
    then show ?thesis using ld16_st16[of "0x0C" ?g "word_of_int len"] assms(6) by (simp add: ld16_at_def)
  qed
  moreover have "hs_regs u' ! 0x0B = 0x60 OR (if hs_regs u ! 0xE3 AND 0x18 = 0x08 then 0x0b else 0x03)"
    unfolding R hs_result_def st16_at_def using assms(6) by (simp add: usbhs_int_st_def)
  ultimately show ?thesis using T len by (simp add: out hs_done_def)
qed

section \<open>The frame counter\<close>

text \<open>The frame number register counts microframes: two bytes read from it are the number of 125
  microsecond periods of the virtual clock modulo \<open>2 ^ 14\<close>. (The comment in the code promises a frame
  number that advances every eighth microframe, with the microframe in the upper bits.)
\<close>

theorem usb_frame_counts_microframes:
  assumes "length (hs_regs u) = 0x400"
  shows "unat (fst (ch32_usbhs_read 4 2 u)) = unat (clock_ns (um u)) div 125000 mod 2 ^ 14"
proof -
  let ?u0 = "hs_upd (st16_at 4 (usbhs_frame_no (clock_ns (um u)))) u" and ?v = "usbhs_frame_no (clock_ns (um u))"
  have m: "w AND 0x7ff = take_bit 11 w" "w AND 0x7 = take_bit 3 w" for w :: u16
    by (simp_all add: take_bit_eq_mask mask_eq_exp_minus_1)
  have fno: "?v = take_bit 14 (ucast (clock_ns (um u) div 1000 div 125))"
    unfolding usbhs_frame_no_def Let_def m by (rule bit_word_eqI) (auto simp: bit_simps)
  have r4: "ch32_usbhs_read_byte 4 u = (ucast ?v, ?u0)"
    using assms by (simp add: ch32_usbhs_read_byte_def Let_def st16_at_def)
  have r5: "fst (ch32_usbhs_read_byte 5 ?u0) = ucast (drop_bit 8 ?v)"
    using assms by (simp add: ch32_usbhs_read_byte_def Let_def st16_at_def)
  have "fst (ch32_usbhs_read 4 2 u) = ucast (ucast ?v :: u8) OR push_bit 8 (ucast (ucast (drop_bit 8 ?v) :: u8))"
    using r4 r5 by (simp add: ch32_usbhs_read_def numeral_2_eq_2 split_beta Let_def)
  also have "\<dots> = ucast ?v" by (rule bit_word_eqI) (auto simp: bit_simps dest: bit_imp_le_length)
  finally have "unat (fst (ch32_usbhs_read 4 2 u)) = unat (ucast ?v :: u32)" by simp
  also have "\<dots> = unat ?v" by (simp add: unsigned_ucast_eq take_bit_nat_eq_self less_trans[OF unsigned_less])
  also have "\<dots> = unat (clock_ns (um u)) div 1000 div 125 mod 2 ^ 14"
  proof -
    have "unat ?v = take_bit 14 (unat (clock_ns (um u) div 1000 div 125))"
      unfolding fno by (simp add: unsigned_take_bit_eq unsigned_ucast_eq)
    then show ?thesis by (simp add: take_bit_eq_mod unat_div_distrib)
  qed
  also have "\<dots> = unat (clock_ns (um u)) div 125000 mod 2 ^ 14" by (simp add: div_mult2_eq[symmetric])
  finally show ?thesis .
qed

section \<open>Witnesses\<close>

text \<open>A device that stores what it receives and answers with it, at address 5 behind both ports.\<close>

definition echo_core :: "u8 list usb_core" where
  "echo_core = \<lparr>usb_find_device = (\<lambda>a d. if a = 5 then Some 0 else None), usb_attached = (\<lambda>i d. True),
     usb_speed = (\<lambda>i d. USB_SPEED_FULL),
     usb_handle_packet = (\<lambda>i t e bs n d.
       if t = USB_TOKEN_IN then (USB_RET_SUCCESS, int (min n (length d)), take n (d @ replicate n 0), d)
       else (USB_RET_SUCCESS, int (min n (length bs)), take n (bs @ replicate n 0), bs)),
     usb_cancel = id, usb_device_reset = (\<lambda>i d. [])\<rparr>"

definition echo_port :: "u8 list usb_port" where
  "echo_port = \<lparr>rhport_dev = Some 0, usb_bus = [0xca, 0xfe, 0x42],
     the_pkt = \<lparr>pkt_inflight = False, pkt_pid = USB_TOKEN_SETUP, pkt_status = USB_RET_SUCCESS,
       pkt_actual_length = 0, pkt_iov = []\<rparr>, pkt_inited = True, last_host_ctrl = 0\<rparr>"

text \<open>Both hosts in host mode, with transmit and receive buffers at 0x20000010 and 0x20000020.\<close>

definition usb_sample :: "u8 list usb_machine" where
  "usb_sample = \<lparr>um = machine_zero\<lparr>
       usbhs_reg := (replicate 0x400 0)[0 := 0x80, 3 := 5, 0x24 := 0x20, 0x27 := 0x20, 0x64 := 0x10,
         0x67 := 0x20, 0xA0 := 0x00, 0xA1 := 0x02, 0xE4 := 4],
       usbfs_reg := (replicate 0x200 0)[0 := 0x80, 3 := 5, 0x18 := 0x20, 0x1B := 0x20, 0x1C := 0x10,
         0x1F := 0x20, 0x38 := 4]\<rparr>,
     hs_port = echo_port, fs_port = echo_port, core_asserted = False\<rparr>"

definition usb_read :: as_read where
  "usb_read a n m = (if n = 0 then (Some [], m) else ram_read a n m)"

lemma usb_space_model: "usb_space usb_read ram_write"
  using ram_backed_model by (auto simp: usb_space_def usb_read_def ram_backed_def ram_span_def)

lemma echo_core_ok: "usb_core_ok echo_core"
  by (auto simp: usb_core_ok_def echo_core_def split: if_splits)

lemma usb_sample_facts:
  "usb_host_inited (um usb_sample)" "usbfs_host_inited (um usb_sample)"
  "\<not> hs_busy usb_sample" "\<not> fs_busy usb_sample" "\<not> core_asserted usb_sample"
  "machine_inv (um usb_sample)" "length (hs_regs usb_sample) = 0x400" "length (fs_regs usb_sample) = 0x200"
  by (simp_all add: usb_sample_def echo_port_def inv_cong[of _ machine_zero] machine_zero_inv)
    (simp_all add: machine_zero_def)

lemma usb_sample_bits: "bit (hs_regs usb_sample ! 0) 7"
  by (simp add: usb_sample_def bit_numeral_rec)

lemma usb_sample_request:
  "ld32_at 0x24 (hs_regs usb_sample) = 0x20000020" "ld32_at 0x64 (hs_regs usb_sample) = 0x20000010"
  "ld16_at 0xA0 (hs_regs usb_sample) = 512" "hs_regs usb_sample ! 0xE3 = 0" "hs_regs usb_sample ! 3 = 5"
  "ld32_at 0x18 (fs_regs usb_sample) = 0x20000020" "ld32_at 0x1C (fs_regs usb_sample) = 0x20000010"
  "fs_regs usb_sample ! 0x37 = 0" "fs_regs usb_sample ! 3 = 5"
  by code_simp+

theorem usb_core_never_asserts_witness:
  "\<not> core_asserted (ch32_usbhs_write rescan echo_core (h_asr bare_host) (h_asw bare_host) 0xE0 0x91 1 usb_sample) \<and>
   machine_inv (um (ch32_usbhs_write rescan echo_core (h_asr bare_host) (h_asw bare_host) 0xE0 0x91 1 usb_sample))"
  by (rule usb_core_never_asserts[of bare_host echo_core echo_core usb_sample])
    (auto intro: r_into_rtranclp usbhs_write bare_host_ok usb_sample_facts simp: usb_sample_facts)


theorem usb_hosts_agree_witness:
  "m_ram (um (ch32_usbhost_ep_pid_write rescan echo_core usb_read ram_write 0x91 usb_sample)) =
   m_ram (um (ch32_usbfs_host_ep_pid_write rescan echo_core usb_read ram_write 0x91 usb_sample))"
proof -
  have t: "ch32_usbhs_pid4_to_token (drop_bit 4 0x91) = Some USB_TOKEN_IN" by code_simp
  have "fs_hs_same_request USB_TOKEN_IN usb_sample"
    unfolding fs_hs_same_request_def hs_room_def fs_room_def
    by (simp add: usb_sample_request) (simp add: usb_sample_def)
  from usb_hosts_agree[OF usb_space_model echo_core_ok usb_sample_facts(3,4,1,2) usb_sample_bits
      usb_sample_facts(7,8) t this] show ?thesis by simp
qed

theorem usb_in_answer_delivered_witness:
  "m_ram (um (ch32_usbhost_ep_pid_write rescan echo_core usb_read ram_write 0x91 usb_sample)) =
   mem_store 0x20 [0xca, 0xfe, 0x42] (replicate 256 0)"
proof -
  have t: "ch32_usbhs_pid4_to_token (drop_bit 4 0x91) = Some USB_TOKEN_IN" by code_simp
  have room: "hs_room (hs_regs usb_sample) USB_TOKEN_IN = 512" by (simp add: hs_room_def usb_sample_request)
  have port: "hs_port usb_sample = echo_port" "m_ram (um usb_sample) = replicate 256 0"
    by (simp_all add: usb_sample_def machine_zero_def)
  have find: "usb_find_device echo_core (hs_regs usb_sample ! 3) (usb_bus (hs_port usb_sample)) = Some 0"
    "usb_attached echo_core 0 (usb_bus (hs_port usb_sample))"
    by (simp_all add: echo_core_def usb_sample_request)
  have ans: "usb_handle_packet echo_core 0 USB_TOKEN_IN (unat ((0x91 :: u8) AND 0xf)) []
      (hs_room (hs_regs usb_sample) USB_TOKEN_IN) (usb_bus (hs_port usb_sample)) =
      (USB_RET_SUCCESS, 3, [0xca, 0xfe, 0x42] @ replicate 509 0, [0xca, 0xfe, 0x42])"
    unfolding room port by (simp add: echo_core_def echo_port_def)
  have span: "ram_span (m_ram (um usb_sample)) (ld32_at 0x24 (hs_regs usb_sample)) (nat 3)"
    by (simp add: port usb_sample_request ram_span_def ram_off_def)
  from usb_in_answer_delivered[OF usb_space_model echo_core_ok usb_sample_facts(3,1) usb_sample_bits
      usb_sample_facts(7) t find ans _ span]
  show ?thesis by (simp add: usb_sample_request port ram_off_def)
qed

theorem usb_frame_counts_microframes_witness:
  "unat (fst (ch32_usbhs_read 4 2 usb_sample)) = 0"
  using usb_frame_counts_microframes[OF usb_sample_facts(7)] by (simp add: usb_sample_def machine_zero_def)

end
