(* ===== verification/Ch32_Reset.thy ===== *)
theory Ch32_Reset
  imports Ch32_UsbXfer Ch32_EthMac Ch32_Flash Ch32_Gpio Ch32_Rtc Ch32_Wdg Ch32_Crc Ch32_Spi Ch32_I2c
    Ch32_Misc Ch32_Boot Ch32_EthRing
begin

text \<open>
  The whole board and its reset (\<open>ch32-v.c\<close>). One record gathers the machine of the interrupt network
  with the two USB ports and the peripherals that have records of their own; \<open>ch32_machine_reset\<close>
  composes the reset functions of all of them in the order of the code.
\<close>

section \<open>The board\<close>

record 'd board =
  usbm :: "'d usb_machine"
  flash :: flash_state
  iwdt :: iwdt_state
  wwdg :: wwdg_state
  crc :: crc_state
  rng :: rng_state
  pwr :: pwr_state
  sdio :: sdio_state
  rtc :: rtc_state
  gpio :: gpio_state
  spi :: "spi_state list"
  i2c :: "i2c_state list"
  ahb_misc_ram :: "u8 list"

abbreviation bm :: "'d board \<Rightarrow> machine" where
  "bm s \<equiv> um (usbm s)"

abbreviation bm_upd :: "(machine \<Rightarrow> machine) \<Rightarrow> 'd board \<Rightarrow> 'd board" where
  "bm_upd f \<equiv> usbm_update (um_update f)"

definition CH32_AHB_MISC_SIZE :: nat where "CH32_AHB_MISC_SIZE = 0x1000"
definition CH32_EXTEN_CTR_OFF :: nat where "CH32_EXTEN_CTR_OFF = 0x800"
definition CH32_EXTEN_CTR2_OFF :: nat where "CH32_EXTEN_CTR2_OFF = 0x808"
definition CH32_EXTEN_CTR_RESET :: u32 where "CH32_EXTEN_CTR_RESET = 0x00000A40"
definition CH32_EXTEN_CTR2_RESET :: u32 where "CH32_EXTEN_CTR2_RESET = 0"

lemmas exten_defs = CH32_AHB_MISC_SIZE_def CH32_EXTEN_CTR_OFF_def CH32_EXTEN_CTR2_OFF_def
  CH32_EXTEN_CTR_RESET_def CH32_EXTEN_CTR2_RESET_def

section \<open>Reset\<close>

definition ch32_ahb_misc_reset_defaults ::
    "(machine \<Rightarrow> machine) \<Rightarrow> 'd usb_core \<Rightarrow> 'd usb_core \<Rightarrow> 'd board \<Rightarrow> 'd board" where
  "ch32_ahb_misc_reset_defaults r ch cf s =
     (if CH32_AHB_MISC_SIZE < CH32_EXTEN_CTR2_OFF + 4 then s
      else usbm_update (ch32_usb_reset_defaults r ch cf)
             (s\<lparr>ahb_misc_ram := stl_le CH32_EXTEN_CTR2_OFF CH32_EXTEN_CTR2_RESET
                                (stl_le CH32_EXTEN_CTR_OFF CH32_EXTEN_CTR_RESET (ahb_misc_ram s))\<rparr>))"

text \<open>The state without registers of a region of its own; the clock of the RTC starts at the virtual clock.\<close>

definition ch32_soft_state_reset :: "'d board \<Rightarrow> 'd board" where
  "ch32_soft_state_reset s =
     (let s1 = bm_upd (rcc_words_update (\<lambda>_. (replicate 32 0)[0 := 1])) s;
          s2 = s1\<lparr>flash := (flash s1)\<lparr>flash_reg_shadow := (replicate 256 0)[4 := 0x80],
                    flash_unlocked := False, flash_key_step := 0, flash_ob_key_step := 0,
                    flash_statr := 0\<rparr>\<rparr>;
          s3 = s2\<lparr>rng := \<lparr>rng_ctlr = 0, rng_seq = 0\<rparr>, crc := \<lparr>crc_dr = 0xFFFFFFFF, crc_idr = 0\<rparr>,
                  wwdg := \<lparr>wwdg_ctlr = 0x7f, wwdg_cfgr = 0x7f, wwdg_statr = 0\<rparr>,
                  pwr := \<lparr>pwr_ctlr = 0, pwr_csr = 0\<rparr>\<rparr>;
          s4 = bm_upd ch32_bkp_reset s3
      in s4\<lparr>sdio := \<lparr>sdio_reg = replicate 20 0, sdio_sta = 0\<rparr>, rtc := rtc_reset (clock_ns (bm s4))\<rparr>)"

text \<open>
  \<open>hold\<close> is the hold phase of the generic CPU class, \<open>eh\<close> the services of the Ethernet device. The two
  Ethernet devices are reset only where the board has them.
\<close>

definition ch32_machine_reset ::
    "(machine \<Rightarrow> machine) \<Rightarrow> 'd usb_core \<Rightarrow> 'd usb_core \<Rightarrow> eth_host \<Rightarrow> (cpu_state \<Rightarrow> cpu_state) \<Rightarrow> u32 \<Rightarrow>
     'd board \<Rightarrow> 'd board" where
  "ch32_machine_reset r ch cf eh hold resetvec s =
     (let s1 = bm_upd ch32_stk_pfic_reset s;
          s2 = iwdt_update ch32_iwdt_reset s1;
          s3 = ch32_soft_state_reset s2;
          s4 = gpio_update ch32_gpio_afio_reset s3;
          s5 = bm_upd ch32_dma_reset s4;
          s6 = bm_upd ch32_usart_lite_reset s5;
          s7 = bm_upd (ch32_usart_lite_meip_resync r) s6;
          s8 = bm_upd ch32_usart1_reset s7;
          s9 = ch32_ahb_misc_reset_defaults r ch cf s8;
          s10 = i2c_update ch32_i2c_reset (spi_update ch32_spi_reset s9);
          s11 = bm_upd (env_upd (riscv_cpu_reset_hold hold resetvec)) s10;
          s12 = (if m_eth (bm s11) \<noteq> None then bm_upd (ch32_eth_reset r eh) s11 else s11);
          s13 = (if m_eth10m (bm s12) \<noteq> None then bm_upd (eth_10m_reset r) s12 else s12)
      in bm_upd (ch32_tim_reset r) s13)"

section \<open>What the resyncs of a reset leave alone\<close>

text \<open>No maskable interrupt is enabled; numbers 2 and 3 cannot be switched off.\<close>

definition irqs_off :: "machine \<Rightarrow> bool" where
  "irqs_off m \<longleftrightarrow> (\<forall>n<256. 3 < n \<longrightarrow> \<not> ienr_on n m)"

lemma irqs_off_view: "meip_view m = meip_view m' \<Longrightarrow> irqs_off m = irqs_off m'"
  using view_ienr_on[of m m'] by (simp add: irqs_off_def)

lemma irqs_off_ienr: "irqs_off m \<Longrightarrow> 3 < n \<Longrightarrow> n < 256 \<Longrightarrow> \<not> ienr_on n m"
  by (simp add: irqs_off_def)

lemma irqs_off_reset:
  assumes "pfic_ienr (m_pfic m) = (replicate 8 0)[0 := one_bit 2 OR one_bit 3]"
  shows "irqs_off m"
  unfolding irqs_off_def
proof (intro allI impI)
  fix n :: nat assume n: "n < 256" "3 < n"
  show "\<not> ienr_on n m"
  proof (cases "n < 32")
    case True
    moreover have "\<not> bit (12 :: u32) n" using n bit_take_bit_iff[of 4 "12 :: u32" n] by simp
    ultimately show ?thesis using assms by (simp add: ienr_on_def)
  next
    case False
    then have "n div 32 < 8" "n div 32 \<noteq> 0" using n by auto
    then show ?thesis using assms by (simp add: ienr_on_def)
  qed
qed

lemma view_rest:
  assumes "meip_view m = meip_view m'"
  shows "m_pfic m\<lparr>pfic_ipr := [], pfic_iactr := []\<rparr> = m_pfic m'\<lparr>pfic_ipr := [], pfic_iactr := []\<rparr>"
    "bkp_datar m = bkp_datar m'" "m_ram m = m_ram m'" "clock_ns m = clock_ns m'"
    "(m_cpu m)\<lparr>mie := 0, mip := 0, irq_line := False, wch_evt_mcause_override := 0\<rparr> =
     (m_cpu m')\<lparr>mie := 0, mip := 0, irq_line := False, wch_evt_mcause_override := 0\<rparr>"
  using arg_cong[OF assms, of m_pfic] arg_cong[OF assms, of bkp_datar] arg_cong[OF assms, of m_ram]
    arg_cong[OF assms, of clock_ns] arg_cong[OF assms, of m_cpu]
  by (simp_all add: meip_view_def)

lemma lite_resync_view: "meip_view (ch32_usart_lite_meip_resync rescan m) = meip_view m"
proof -
  have *: "meip_view (fold (\<lambda>i. usart_lite_meip_one i (lite_irq ! i) rescan) is m) = meip_view m"
    if "set is \<subseteq> {..<7}" for "is"
    using that
  proof (induction "is" arbitrary: m)
    case (Cons i js)
    have "meip_view (usart_lite_meip_one i (lite_irq ! i) rescan m) = meip_view m"
      by (rule meip_unit.frame[OF prompt_unit.axioms(1)[OF lite_prompt_unit[OF lite_irq_nonzero]] pending_view])
        (use Cons.prems in simp)
    then show ?case using Cons by simp
  qed simp
  show ?thesis unfolding ch32_usart_lite_meip_resync_def by (rule *) auto
qed

lemma usart1_reset_view: "meip_view (ch32_usart1_reset m) = meip_view (uart_upd usart1_reset_regs m)"
  by (simp add: ch32_usart1_reset_def Let_def frame_simps)

text \<open>No peripheral asserts a line that is not enabled.\<close>

lemma irqs_off_conds:
  assumes q: "irqs_off m"
  shows "i < 7 \<Longrightarrow> \<not> lite_irq_on i (lite_irq ! i) m" "i < 6 \<Longrightarrow> \<not> tim_irq_on i (ch32_tim_irqn ! i) m"
    "\<not> eth_irq_on m" "\<not> eth10m_irq_on m" "\<not> usbhs_on m" "\<not> usbfs_on m"
proof -
  note off = irqs_off_ienr[OF q]
  have l: "3 < lite_irq ! i \<and> lite_irq ! i < 256" if "i < 7"
    using that nth_mem[of i lite_irq] by (auto simp: lite_irq_def)
  have t: "3 < ch32_tim_irqn ! i \<and> ch32_tim_irqn ! i < 256" if "i < 6"
    using that nth_mem[of i ch32_tim_irqn] by (auto simp: ch32_tim_irqn_def)
  show "i < 7 \<Longrightarrow> \<not> lite_irq_on i (lite_irq ! i) m" using off[of "lite_irq ! i"] l by (simp add: lite_irq_on_def)
  show "i < 6 \<Longrightarrow> \<not> tim_irq_on i (ch32_tim_irqn ! i) m"
    using off[of "ch32_tim_irqn ! i"] t by (simp add: tim_irq_on_def)
  show "\<not> eth_irq_on m" using off[of CH32_ETH_IRQ_N] by (simp add: eth_irq_on_def CH32_ETH_IRQ_N_def)
  show "\<not> eth10m_irq_on m" using off[of CH32_ETH_10M_IRQ_N] by (simp add: eth10m_irq_on_def CH32_ETH_10M_IRQ_N_def)
  show "\<not> usbhs_on m" "\<not> usbfs_on m"
    using off[of CH32_USBHS_NVIC_IRQ] off[of CH32_USBFS_NVIC_IRQ]
    by (simp_all add: usb_on_def usbhs_line_on_def usbfs_line_on_def CH32_USBHS_NVIC_IRQ_def CH32_USBFS_NVIC_IRQ_def)
qed

text \<open>
  With the lines disabled the resyncs of a reset keep the pending bit of the external line, unless the
  peripheral owns the slot, and a free slot stays free.
\<close>

lemma off_keeps_line:
  assumes q: "irqs_off m" and o: "owner m \<noteq> of_nat N"
  shows "i < 7 \<Longrightarrow> N = lite_irq ! i \<Longrightarrow> meip_up (usart_lite_meip_one i N r m) = meip_up m \<and>
      owner (usart_lite_meip_one i N r m) = owner m"
    "i < 6 \<Longrightarrow> N = ch32_tim_irqn ! i \<Longrightarrow> meip_up (ch32_tim_meip_update i N r m) = meip_up m \<and>
      owner (ch32_tim_meip_update i N r m) = owner m"
    "N = CH32_ETH_IRQ_N \<Longrightarrow> meip_up (ch32_eth_meip_resync r m) = meip_up m \<and>
      owner (ch32_eth_meip_resync r m) = owner m"
    "N = CH32_ETH_10M_IRQ_N \<Longrightarrow> meip_up (ch32_eth_10m_meip_resync r m) = meip_up m \<and>
      owner (ch32_eth_10m_meip_resync r m) = owner m"
    "N = CH32_USBHS_NVIC_IRQ \<Longrightarrow> meip_up (ch32_usbhost_meip_resync r m) = meip_up m \<and>
      owner (ch32_usbhost_meip_resync r m) = owner m"
    "N = CH32_USBFS_NVIC_IRQ \<Longrightarrow> meip_up (ch32_usbfs_host_meip_resync r m) = meip_up m \<and>
      owner (ch32_usbfs_host_meip_resync r m) = owner m"
proof -
  note c = irqs_off_conds[OF q]
  have e: "meip_up (cpu_irq x) = meip_up x" "meip_up (meip_disable x) = meip_up x" for x
    by (simp_all add: inv_simps)
  show "i < 7 \<Longrightarrow> N = lite_irq ! i \<Longrightarrow> meip_up (usart_lite_meip_one i N r m) = meip_up m \<and>
      owner (usart_lite_meip_one i N r m) = owner m"
    using c(1)[of i] o by (simp add: usart_lite_meip_one_def e)
  show "i < 6 \<Longrightarrow> N = ch32_tim_irqn ! i \<Longrightarrow> meip_up (ch32_tim_meip_update i N r m) = meip_up m \<and>
      owner (ch32_tim_meip_update i N r m) = owner m"
    using c(2)[of i] o by (simp add: ch32_tim_meip_update_def e inv_simps)
  show "N = CH32_ETH_IRQ_N \<Longrightarrow> meip_up (ch32_eth_meip_resync r m) = meip_up m \<and>
      owner (ch32_eth_meip_resync r m) = owner m"
    using c(3) o by (simp add: ch32_eth_meip_resync_def e inv_simps split: option.split)
  show "N = CH32_ETH_10M_IRQ_N \<Longrightarrow> meip_up (ch32_eth_10m_meip_resync r m) = meip_up m \<and>
      owner (ch32_eth_10m_meip_resync r m) = owner m"
    using c(4) o by (simp add: ch32_eth_10m_meip_resync_def eth_10m_meip_withdraw_def e inv_simps split: option.split)
  have l: "\<not> usbhs_line_on m" "\<not> usbfs_line_on m"
    using irqs_off_ienr[OF q, of CH32_USBHS_NVIC_IRQ] irqs_off_ienr[OF q, of CH32_USBFS_NVIC_IRQ]
    by (simp_all add: usbhs_line_on_def usbfs_line_on_def CH32_USBHS_NVIC_IRQ_def CH32_USBFS_NVIC_IRQ_def)
  show "N = CH32_USBHS_NVIC_IRQ \<Longrightarrow> meip_up (ch32_usbhost_meip_resync r m) = meip_up m \<and>
      owner (ch32_usbhost_meip_resync r m) = owner m"
    using l o by (simp add: ch32_usbhost_meip_resync_def usb_meip_resync_def Let_def e)
  show "N = CH32_USBFS_NVIC_IRQ \<Longrightarrow> meip_up (ch32_usbfs_host_meip_resync r m) = meip_up m \<and>
      owner (ch32_usbfs_host_meip_resync r m) = owner m"
    using l o by (simp add: ch32_usbfs_host_meip_resync_def usb_meip_resync_def Let_def e)
qed

section \<open>The stages of a reset\<close>

text \<open>The part of the machine that the stages after the serial ports keep.\<close>

definition reset_view where
  "reset_view m = ((m_pfic m)\<lparr>pfic_ipr := [], pfic_iactr := []\<rparr>, m_stk m, rcc_words m, m_usart1 m, m_lite m,
     m_dma m, bkp_datar m, m_ram m, clock_ns m)"

definition core_view :: "machine \<Rightarrow> cpu_state" where
  "core_view m = (m_cpu m)\<lparr>mie := 0, mip := 0, irq_line := False, wch_evt_mcause_override := 0\<rparr>"

lemma reset_view_of_view: "meip_view m = meip_view m' \<Longrightarrow> reset_view m = reset_view m'"
  using view_fields(3,4,5,10,11)[of m m'] view_rest[of m m'] by (simp add: reset_view_def)

lemma core_view_of_view: "meip_view m = meip_view m' \<Longrightarrow> core_view m = core_view m'"
  using view_rest(5)[of m m'] by (simp add: core_view_def)

lemma reset_view_frames [simp]:
  "reset_view (m_cpu_update f m) = reset_view m" "reset_view (m_tims_update t m) = reset_view m"
  "reset_view (m_eth_update e m) = reset_view m" "reset_view (m_eth10m_update d m) = reset_view m"
  "reset_view (usbhs_reg_update g m) = reset_view m" "reset_view (usbfs_reg_update g m) = reset_view m"
  "core_view (m_tims_update t m) = core_view m" "core_view (m_eth_update e m) = core_view m"
  "core_view (m_eth10m_update d m) = core_view m"
  by (simp_all add: reset_view_def core_view_def)

lemma irqs_off_reset_view: "reset_view m = reset_view m' \<Longrightarrow> irqs_off m = irqs_off m'"
proof -
  assume "reset_view m = reset_view m'"
  then have "pfic_ienr ((m_pfic m)\<lparr>pfic_ipr := [], pfic_iactr := []\<rparr>) =
      pfic_ienr ((m_pfic m')\<lparr>pfic_ipr := [], pfic_iactr := []\<rparr>)"
    unfolding reset_view_def by (metis prod.inject)
  then show ?thesis by (simp add: irqs_off_def ienr_on_def)
qed

lemma usb_reset_reset_view: "reset_view (um (ch32_usb_reset_defaults rescan ch cf u)) = reset_view (um u)"
proof -
  have hs: "reset_view (um (usbhs_resync rescan u)) = reset_view (um u)" for u :: "'a usb_machine"
    by (rule reset_view_of_view) (simp add: usbhs_resync_def usbhs.frame[OF pending_view])
  have fs: "reset_view (um (usbfs_resync rescan u)) = reset_view (um u)" for u :: "'a usb_machine"
    by (rule reset_view_of_view) (simp add: usbfs_resync_def usbfs.frame[OF pending_view])
  have "reset_view (um (ch32_usbhost_resync_root_mmio rescan c u)) = reset_view (um u)"
    "reset_view (um (ch32_usbfs_host_resync_root_mmio rescan c u)) = reset_view (um u)"
    for c and u :: "'a usb_machine"
    by (simp_all add: ch32_usbhost_resync_root_mmio_def ch32_usbfs_host_resync_root_mmio_def Let_def hs fs
        split: option.split)
  then show ?thesis by (simp add: ch32_usb_reset_defaults_def Let_def)
qed

text \<open>The bus has no packet for a controller whose registers have just been cleared.\<close>

lemma eth_reset_resume:
  assumes "eth_host_ok h" "m_eth m \<noteq> None"
  shows "ch32_eth_rx_resume h (eth_upd (eth_reset_state now) m) = eth_upd (eth_reset_state now) m"
proof -
  let ?m = "eth_upd (eth_reset_state now) m"
  obtain fs where f: "eh_flush h ?m = fold (\<lambda>f m. snd (ch32_eth_net_receive f m)) fs ?m"
    using assms(1) unfolding eth_host_ok_def by blast
  have "snd (ch32_eth_net_receive f ?m) = ?m" for f
    using assms(2) by (auto simp: ch32_eth_net_receive_def Let_def eth_reset_state_def CH32_ETH_MMIO_SIZE_def)
  then have "fold (\<lambda>f m. snd (ch32_eth_net_receive f m)) fs ?m = ?m" by (induction fs) simp_all
  then show ?thesis using f by (simp add: ch32_eth_rx_resume_def)
qed

lemma eth_reset_eq:
  assumes "eth_host_ok h" "m_eth m \<noteq> None"
  shows "ch32_eth_reset r h m =
    ch32_eth_meip_resync r (eth_upd (eth_poll_10m (clock_ns m)) (eth_upd (eth_reset_state (clock_ns m)) m))"
  using eth_reset_resume[OF assms, of "clock_ns m"] by (simp add: ch32_eth_reset_def Let_def)

definition eth_silent :: "eth_state \<Rightarrow> bool" where
  "eth_silent e \<longleftrightarrow> mmio_w e = replicate (CH32_ETH_MMIO_SIZE div 4) 0 \<and> rx_stash e = [] \<and>
     tx_cur_desc e = 0 \<and> rx_cur_desc e = 0"

definition tim_stopped :: "tim_state \<Rightarrow> bool" where
  "tim_stopped t \<longleftrightarrow> t_ctlr1 t = 0 \<and> t_dmaintenr t = 0 \<and> t_intfr t = 0 \<and> \<not> timer_pending (tim_timer t)"

lemma silent_view:
  assumes "meip_view m = meip_view m'"
  shows "pred_option eth_silent (m_eth m) = pred_option eth_silent (m_eth m')"
    "i < length (m_tims m) \<Longrightarrow> tim_stopped (m_tims m ! i) = tim_stopped (m_tims m' ! i)"
    "length (m_tims m) = length (m_tims m')"
proof -
  have e: "eth_silent (eth_irq_active_update (\<lambda>_. False) s) = eth_silent s" for s by (simp add: eth_silent_def)
  show "pred_option eth_silent (m_eth m) = pred_option eth_silent (m_eth m')"
    using arg_cong[OF view_fields(14)[OF assms], of "pred_option eth_silent"] e
    by (simp add: option.pred_map o_def)
  have t: "tim_stopped (t_irq_active_update (\<lambda>_. False) s) = tim_stopped s" for s by (simp add: tim_stopped_def)
  show l: "length (m_tims m) = length (m_tims m')"
    using arg_cong[OF view_fields(12)[OF assms], of length] by simp
  show "i < length (m_tims m) \<Longrightarrow> tim_stopped (m_tims m ! i) = tim_stopped (m_tims m' ! i)"
    using arg_cong[OF view_fields(12)[OF assms], of "\<lambda>xs. xs ! i"] t l by (metis nth_map)
qed

text \<open>The tail of the reset, from the core on.\<close>

lemma eth_reset_stage:
  assumes h: "eth_host_ok h" and e: "m_eth m \<noteq> None"
  shows "reset_view (ch32_eth_reset rescan h m) = reset_view m"
    "core_view (ch32_eth_reset rescan h m) = core_view m"
    "pred_option eth_silent (m_eth (ch32_eth_reset rescan h m))"
    "length (m_tims (ch32_eth_reset rescan h m)) = length (m_tims m)"
    "irqs_off m \<Longrightarrow> owner m = 0 \<Longrightarrow> owner (ch32_eth_reset rescan h m) = 0 \<and>
       meip_up (ch32_eth_reset rescan h m) = meip_up m"
proof -
  let ?m = "eth_upd (eth_poll_10m (clock_ns m)) (eth_upd (eth_reset_state (clock_ns m)) m)"
  note eq = eth_reset_eq[OF assms, of rescan]
  have v: "meip_view (ch32_eth_meip_resync rescan ?m) = meip_view ?m" by (rule eth.frame) (rule pending_view)
  show "reset_view (ch32_eth_reset rescan h m) = reset_view m"
    unfolding eq using reset_view_of_view[OF v] by simp
  show "core_view (ch32_eth_reset rescan h m) = core_view m"
    unfolding eq using core_view_of_view[OF v] by simp
  show "length (m_tims (ch32_eth_reset rescan h m)) = length (m_tims m)"
    unfolding eq using silent_view(3)[OF v] by simp
  show "pred_option eth_silent (m_eth (ch32_eth_reset rescan h m))"
    unfolding eq silent_view(1)[OF v] using e
    by (auto simp: eth_silent_def eth_reset_state_def eth_poll_10m_def)
  show "owner (ch32_eth_reset rescan h m) = 0 \<and> meip_up (ch32_eth_reset rescan h m) = meip_up m"
    if q: "irqs_off m" and o: "owner m = 0"
  proof -
    have "irqs_off ?m" using q irqs_off_reset_view[of ?m m] by simp
    from off_keeps_line(3)[OF this, of CH32_ETH_IRQ_N rescan] o show ?thesis
      unfolding eq by (simp add: CH32_ETH_IRQ_N_def inv_simps)
  qed
qed

lemma e10_reset_stage:
  shows "reset_view (eth_10m_reset rescan m) = reset_view m" "core_view (eth_10m_reset rescan m) = core_view m"
    "pred_option eth_silent (m_eth (eth_10m_reset rescan m)) = pred_option eth_silent (m_eth m)"
    "length (m_tims (eth_10m_reset rescan m)) = length (m_tims m)"
    "irqs_off m \<Longrightarrow> owner m = 0 \<Longrightarrow> owner (eth_10m_reset rescan m) = 0 \<and>
       meip_up (eth_10m_reset rescan m) = meip_up m"
proof -
  obtain f where eq: "eth_10m_reset rescan m = ch32_eth_10m_meip_resync rescan (e10_upd f m)"
    by (simp add: eth_10m_reset_def Let_def)
  have v: "meip_view (ch32_eth_10m_meip_resync rescan (e10_upd f m)) = meip_view (e10_upd f m)"
    by (rule eth10m.frame) (rule pending_view)
  show "reset_view (eth_10m_reset rescan m) = reset_view m" unfolding eq using reset_view_of_view[OF v] by simp
  show "core_view (eth_10m_reset rescan m) = core_view m" unfolding eq using core_view_of_view[OF v] by simp
  show "pred_option eth_silent (m_eth (eth_10m_reset rescan m)) = pred_option eth_silent (m_eth m)"
    unfolding eq silent_view(1)[OF v] by simp
  show "length (m_tims (eth_10m_reset rescan m)) = length (m_tims m)" unfolding eq silent_view(3)[OF v] by simp
  show "owner (eth_10m_reset rescan m) = 0 \<and> meip_up (eth_10m_reset rescan m) = meip_up m"
    if q: "irqs_off m" and o: "owner m = 0"
  proof -
    have "irqs_off (e10_upd f m)" using q irqs_off_reset_view[of "e10_upd f m" m] by simp
    from off_keeps_line(4)[OF this, of CH32_ETH_10M_IRQ_N rescan] o show ?thesis
      unfolding eq by (simp add: CH32_ETH_10M_IRQ_N_def inv_simps)
  qed
qed

lemma tim_reset_step:
  fixes m :: machine
  assumes i: "i < 6"
  defines "m' \<equiv> ch32_tim_meip_update i (ch32_tim_irqn ! i) rescan (tim_upd i ch32_tim_reset_one m)"
  shows "reset_view m' = reset_view m" "core_view m' = core_view m"
    "pred_option eth_silent (m_eth m') = pred_option eth_silent (m_eth m)" "length (m_tims m') = length (m_tims m)"
    "j < length (m_tims m) \<Longrightarrow> tim_stopped (m_tims m' ! j) \<longleftrightarrow> j = i \<or> tim_stopped (m_tims m ! j)"
    "irqs_off m \<Longrightarrow> owner m = 0 \<Longrightarrow> owner m' = 0 \<and> meip_up m' = meip_up m"
proof -
  let ?m = "tim_upd i ch32_tim_reset_one m"
  have v: "meip_view m' = meip_view ?m"
    unfolding m'_def by (rule meip_unit.frame[OF tim_unit[OF tim_irqn_nonzero[OF i]] pending_view])
  show "reset_view m' = reset_view m" using reset_view_of_view[OF v] by simp
  show "core_view m' = core_view m" using core_view_of_view[OF v] by simp
  show "pred_option eth_silent (m_eth m') = pred_option eth_silent (m_eth m)" using silent_view(1)[OF v] by simp
  show l: "length (m_tims m') = length (m_tims m)" using silent_view(3)[OF v] by simp
  have s: "tim_stopped (ch32_tim_reset_one t)" for t
    by (cases "tim_timer t") (simp_all add: tim_stopped_def ch32_tim_reset_one_def)
  show "tim_stopped (m_tims m' ! j) \<longleftrightarrow> j = i \<or> tim_stopped (m_tims m ! j)" if "j < length (m_tims m)"
    using silent_view(2)[OF v, of j] that l s by (cases "j = i") simp_all
  show "owner m' = 0 \<and> meip_up m' = meip_up m" if q: "irqs_off m" and o: "owner m = 0"
  proof -
    have "irqs_off ?m" using q irqs_off_reset_view[of ?m m] by simp
    from off_keeps_line(2)[OF this _ i, of "ch32_tim_irqn ! i" rescan] o tim_irqn_nonzero[OF i] show ?thesis
      unfolding m'_def by (simp add: inv_simps)
  qed
qed

lemma tim_reset_stage:
  shows "reset_view (ch32_tim_reset rescan m) = reset_view m" "core_view (ch32_tim_reset rescan m) = core_view m"
    "length (m_tims (ch32_tim_reset rescan m)) = length (m_tims m)"
    "pred_option eth_silent (m_eth (ch32_tim_reset rescan m)) = pred_option eth_silent (m_eth m)"
    "j < length (m_tims m) \<Longrightarrow> j < 6 \<Longrightarrow> tim_stopped (m_tims (ch32_tim_reset rescan m) ! j)"
    "irqs_off m \<Longrightarrow> owner m = 0 \<Longrightarrow> owner (ch32_tim_reset rescan m) = 0 \<and>
       meip_up (ch32_tim_reset rescan m) = meip_up m"
proof -
  let ?f = "\<lambda>i m. ch32_tim_meip_update i (ch32_tim_irqn ! i) rescan (tim_upd i ch32_tim_reset_one m)"
  have *: "reset_view (fold ?f [0..<k] m) = reset_view m \<and> core_view (fold ?f [0..<k] m) = core_view m \<and>
      pred_option eth_silent (m_eth (fold ?f [0..<k] m)) = pred_option eth_silent (m_eth m) \<and>
      length (m_tims (fold ?f [0..<k] m)) = length (m_tims m) \<and>
      (\<forall>j < length (m_tims m). j < k \<longrightarrow> tim_stopped (m_tims (fold ?f [0..<k] m) ! j)) \<and>
      (irqs_off m \<longrightarrow> owner m = 0 \<longrightarrow> owner (fold ?f [0..<k] m) = 0 \<and> meip_up (fold ?f [0..<k] m) = meip_up m)"
    if "k \<le> 6" for k
    using that
  proof (induction k)
    case (Suc k)
    then have k: "k < 6" by simp
    let ?x = "fold ?f [0..<k] m"
    note IH = Suc.IH[OF less_imp_le[OF k]] and S = tim_reset_step[OF k, where m = ?x]
    have "irqs_off m \<Longrightarrow> irqs_off ?x" using IH irqs_off_reset_view[of ?x m] by blast
    then show ?case using IH S by (simp add: less_Suc_eq)
  qed simp
  from *[of 6] show "reset_view (ch32_tim_reset rescan m) = reset_view m"
    "core_view (ch32_tim_reset rescan m) = core_view m"
    "length (m_tims (ch32_tim_reset rescan m)) = length (m_tims m)"
    "pred_option eth_silent (m_eth (ch32_tim_reset rescan m)) = pred_option eth_silent (m_eth m)"
    "j < length (m_tims m) \<Longrightarrow> j < 6 \<Longrightarrow> tim_stopped (m_tims (ch32_tim_reset rescan m) ! j)"
    "irqs_off m \<Longrightarrow> owner m = 0 \<Longrightarrow> owner (ch32_tim_reset rescan m) = 0 \<and>
       meip_up (ch32_tim_reset rescan m) = meip_up m"
    unfolding ch32_tim_reset_def by blast+
qed

text \<open>The head of the reset, up to USART1, and the USB hosts.\<close>

definition reset_head :: "machine \<Rightarrow> machine" where
  "reset_head m =
     ch32_usart1_reset (ch32_usart_lite_meip_resync rescan (ch32_usart_lite_reset (ch32_dma_reset
       (ch32_bkp_reset (rcc_words_update (\<lambda>_. (replicate 32 0)[0 := 1]) (ch32_stk_pfic_reset m))))))"

lemma reset_head_view:
  "reset_view (reset_head m) =
    (\<lparr>pfic_ienr = (replicate 8 0)[0 := one_bit 2 OR one_bit 3], pfic_ipr = [], pfic_iactr = [],
      pfic_iprior = replicate 256 0, pfic_ithresdr = 0, pfic_sctlr = 0, pfic_vtfidr = replicate 4 0,
      pfic_vtfaddr = replicate 4 0\<rparr>,
     \<lparr>stk_ctlr = 0, stk_sr = 0, stk_cmpl = 0, stk_cmph = 0\<rparr>, (replicate 32 0)[0 := 1],
     usart1_reset_regs (m_usart1 m), map lite_reset_one (m_lite m),
     \<lparr>dma_intfr = replicate 3 0, dma_ch1 = replicate 7 dma_channel_zero,
      dma_ch2 = replicate 11 dma_channel_zero\<rparr>, replicate 42 0, m_ram m, clock_ns m)"
proof -
  have u: "reset_view (ch32_usart1_reset x) = reset_view (uart_upd usart1_reset_regs x)" for x
    by (rule reset_view_of_view[OF usart1_reset_view])
  have l: "reset_view (ch32_usart_lite_meip_resync rescan x) = reset_view x" for x
    by (rule reset_view_of_view[OF lite_resync_view])
  have c: "reset_view x = reset_view y \<Longrightarrow> reset_view (uart_upd f x) = reset_view (uart_upd f y)" for f x y
    by (simp add: reset_view_def)
  show ?thesis
    unfolding reset_head_def u
    by (simp add: c[OF l] ch32_usart_lite_reset_def ch32_dma_reset_def ch32_bkp_reset_def)
      (simp add: reset_view_def ch32_stk_pfic_reset_def cpu_irq_def)
qed

lemma reset_head_line:
  assumes "\<forall>i<7. owner m \<noteq> of_nat (lite_irq ! i)" "owner m \<noteq> of_nat CH32_USART1_NVIC_IRQ"
  shows "owner (reset_head m) = owner m \<and> meip_up (reset_head m) = meip_up m"
proof -
  let ?a = "ch32_usart_lite_reset (ch32_dma_reset (ch32_bkp_reset (rcc_words_update
    (\<lambda>_. (replicate 32 0)[0 := 1]) (ch32_stk_pfic_reset m))))"
  have a: "irqs_off ?a" "owner ?a = owner m" "meip_up ?a = meip_up m"
    by (rule irqs_off_reset)
      (simp_all add: meip_up_def ch32_usart_lite_reset_def ch32_dma_reset_def ch32_bkp_reset_def
        ch32_stk_pfic_reset_def cpu_irq_def riscv_cpu_update_mip_def riscv_cpu_interrupt_def Let_def
        MIP_MTIP_def MIP_MSIP_def bit_simps)
  have l: "owner (fold (\<lambda>i. usart_lite_meip_one i (lite_irq ! i) rescan) js x) = owner m \<and>
      meip_up (fold (\<lambda>i. usart_lite_meip_one i (lite_irq ! i) rescan) js x) = meip_up m"
    if "set js \<subseteq> {..<7}" "irqs_off x" "owner x = owner m" "meip_up x = meip_up m" for js x
    using that
  proof (induction js arbitrary: x)
    case (Cons j js)
    let ?y = "usart_lite_meip_one j (lite_irq ! j) rescan x"
    have j: "j < 7" using Cons.prems by simp
    have "meip_view ?y = meip_view x"
      by (rule meip_unit.frame[OF prompt_unit.axioms(1)[OF lite_prompt_unit[OF lite_irq_nonzero[OF j]]] pending_view])
    then have "irqs_off ?y" using Cons.prems irqs_off_view by blast
    moreover have "meip_up ?y = meip_up x \<and> owner ?y = owner x"
      by (rule off_keeps_line(1)[OF Cons.prems(2) _ j refl]) (use assms(1) j Cons.prems(3) in simp)
    ultimately show ?case using Cons.IH[of ?y] Cons.prems by simp
  qed simp
  have "set [0..<7] \<subseteq> {..<7::nat}" by auto
  from l[OF this a] have b: "owner (ch32_usart_lite_meip_resync rescan ?a) = owner m"
    "meip_up (ch32_usart_lite_meip_resync rescan ?a) = meip_up m"
    by (simp_all only: ch32_usart_lite_meip_resync_def)
  have "meip_up (uart_upd f x) = meip_up x" for f x by (simp add: meip_up_def)
  then show ?thesis using b assms(2) by (simp add: reset_head_def ch32_usart1_reset_def)
qed

lemma usb_reset_line:
  fixes ch cf :: "'d usb_core" and u :: "'d usb_machine"
  assumes q: "irqs_off (um u)"
    and o: "owner (um u) \<noteq> of_nat CH32_USBHS_NVIC_IRQ" "owner (um u) \<noteq> of_nat CH32_USBFS_NVIC_IRQ"
  defines "u' \<equiv> ch32_usb_reset_defaults rescan ch cf u"
  shows "owner (um u') = owner (um u) \<and> meip_up (um u') = meip_up (um u)"
proof -
  have hs: "owner (um (usbhs_resync rescan v)) = owner (um v) \<and> meip_up (um (usbhs_resync rescan v)) = meip_up (um v)"
    if "irqs_off (um v)" "owner (um v) = owner (um u)" for v :: "'d usb_machine"
    using off_keeps_line(5)[OF that(1) _ refl] that(2) o by (simp add: usbhs_resync_def)
  have fs: "owner (um (usbfs_resync rescan v)) = owner (um v) \<and> meip_up (um (usbfs_resync rescan v)) = meip_up (um v)"
    if "irqs_off (um v)" "owner (um v) = owner (um u)" for v :: "'d usb_machine"
    using off_keeps_line(6)[OF that(1) _ refl] that(2) o by (simp add: usbfs_resync_def)
  have up: "meip_up (usbhs_reg_update g m) = meip_up m" "meip_up (usbfs_reg_update g m) = meip_up m"
    "irqs_off (usbhs_reg_update g m) = irqs_off m" "irqs_off (usbfs_reg_update g m) = irqs_off m" for g m
    by (simp_all add: meip_up_def irqs_off_def ienr_on_def)
  let ?v = "ch32_usbhost_resync_root_mmio rescan ch"
  have 1: "owner (um (?v v)) = owner (um u) \<and> meip_up (um (?v v)) = meip_up (um v)"
    if "irqs_off (um v)" "owner (um v) = owner (um u)" for v
    using that hs by (simp add: ch32_usbhost_resync_root_mmio_def Let_def up split: option.split)
  have 2: "owner (um (ch32_usbfs_host_resync_root_mmio rescan cf v)) = owner (um u) \<and>
      meip_up (um (ch32_usbfs_host_resync_root_mmio rescan cf v)) = meip_up (um v)"
    if "irqs_off (um v)" "owner (um v) = owner (um u)" for v
    using that fs by (simp add: ch32_usbfs_host_resync_root_mmio_def Let_def up split: option.split)
  have 3: "irqs_off (um (?v v)) = irqs_off (um v)" for v
  proof (rule irqs_off_reset_view)
    have hs: "reset_view (um (usbhs_resync rescan w)) = reset_view (um w)" for w :: "'d usb_machine"
      by (rule reset_view_of_view) (simp add: usbhs_resync_def usbhs.frame[OF pending_view])
    show "reset_view (um (?v v)) = reset_view (um v)"
      by (simp add: ch32_usbhost_resync_root_mmio_def Let_def hs split: option.split)
  qed
  show ?thesis
    unfolding u'_def ch32_usb_reset_defaults_def Let_def
    using q 1 2 3 by (simp add: up)
qed

text \<open>The stages from the core on, and the reset of the machine as the composition.\<close>

definition reset_tail :: "eth_host \<Rightarrow> machine \<Rightarrow> machine" where
  "reset_tail h m =
     (let m1 = (if m_eth m \<noteq> None then ch32_eth_reset rescan h m else m);
          m2 = (if m_eth10m m1 \<noteq> None then eth_10m_reset rescan m1 else m1)
      in ch32_tim_reset rescan m2)"

lemma reset_tail_facts:
  assumes h: "eth_host_ok h"
  shows "reset_view (reset_tail h m) = reset_view m" "core_view (reset_tail h m) = core_view m"
    "pred_option eth_silent (m_eth (reset_tail h m))"
    "j < length (m_tims (reset_tail h m)) \<Longrightarrow> j < 6 \<Longrightarrow> tim_stopped (m_tims (reset_tail h m) ! j)"
    "irqs_off m \<Longrightarrow> owner m = 0 \<Longrightarrow> owner (reset_tail h m) = 0 \<and> meip_up (reset_tail h m) = meip_up m"
proof -
  let ?a = "if m_eth m \<noteq> None then ch32_eth_reset rescan h m else m"
  let ?b = "if m_eth10m ?a \<noteq> None then eth_10m_reset rescan ?a else ?a"
  have eq: "reset_tail h m = ch32_tim_reset rescan ?b" unfolding reset_tail_def Let_def by simp
  have a: "reset_view ?a = reset_view m" "core_view ?a = core_view m" "pred_option eth_silent (m_eth ?a)"
    "length (m_tims ?a) = length (m_tims m)"
    using eth_reset_stage[OF h, of m] by (cases "m_eth m = None"; simp)+
  have b: "reset_view ?b = reset_view ?a" "core_view ?b = core_view ?a"
    "pred_option eth_silent (m_eth ?b) = pred_option eth_silent (m_eth ?a)" "length (m_tims ?b) = length (m_tims ?a)"
    using e10_reset_stage[of ?a] by (cases "m_eth10m ?a = None"; simp only: if_True if_False simp_thms)+
  note t = tim_reset_stage[where m = ?b]
  show "reset_view (reset_tail h m) = reset_view m" unfolding eq using t(1) a(1) b(1) by (simp only:)
  show "core_view (reset_tail h m) = core_view m" unfolding eq using t(2) a(2) b(2) by (simp only:)
  show "pred_option eth_silent (m_eth (reset_tail h m))" unfolding eq using t(4) a(3) b(3) by (simp only:)
  show "tim_stopped (m_tims (reset_tail h m) ! j)" if "j < length (m_tims (reset_tail h m))" "j < 6"
    using that unfolding eq t(3) by (rule t(5))
  show "owner (reset_tail h m) = 0 \<and> meip_up (reset_tail h m) = meip_up m" if q: "irqs_off m" and o: "owner m = 0"
  proof -
    have qa: "irqs_off ?a" "irqs_off ?b" using q irqs_off_reset_view a(1) b(1) by metis+
    have oa: "owner ?a = 0 \<and> meip_up ?a = meip_up m"
      using eth_reset_stage(5)[OF h _ q o] o by (cases "m_eth m = None") simp_all
    have ob: "owner ?b = 0 \<and> meip_up ?b = meip_up ?a"
      using e10_reset_stage(5)[OF qa(1)] oa by (cases "m_eth10m ?a = None") (simp_all only: if_True if_False simp_thms)
    show ?thesis unfolding eq using tim_reset_stage(6)[OF qa(2)] oa ob by metis
  qed
qed

lemma bm_stages:
  "bm (bm_upd f s) = f (bm s)" "bm (iwdt_update g s) = bm s" "bm (gpio_update a s) = bm s"
  "bm (i2c_update b s) = bm s" "bm (spi_update c s) = bm s"
  "usbm (ch32_soft_state_reset s) = um_update (ch32_bkp_reset \<circ> rcc_words_update (\<lambda>_. (replicate 32 0)[0 := 1])) (usbm s)"
  "usbm (ch32_ahb_misc_reset_defaults r ch cf s) = ch32_usb_reset_defaults r ch cf (usbm s)"
  by (simp_all add: ch32_soft_state_reset_def ch32_ahb_misc_reset_defaults_def exten_defs Let_def comp_def)

lemma bm_tail:
  fixes s :: "'d board" and eh :: eth_host
  defines "t \<equiv> if m_eth (bm s) \<noteq> None then bm_upd (ch32_eth_reset rescan eh) s else s"
  shows "bm (bm_upd (ch32_tim_reset rescan)
      (if m_eth10m (bm t) \<noteq> None then bm_upd (eth_10m_reset rescan) t else t)) = reset_tail eh (bm s)"
proof -
  have t: "bm t = (if m_eth (bm s) \<noteq> None then ch32_eth_reset rescan eh (bm s) else bm s)"
    by (simp add: t_def)
  have "bm (if m_eth10m (bm t) \<noteq> None then bm_upd (eth_10m_reset rescan) t else t) =
      (if m_eth10m (bm t) \<noteq> None then eth_10m_reset rescan (bm t) else bm t)" by simp
  then show ?thesis unfolding reset_tail_def Let_def t[symmetric] by simp
qed

lemma machine_reset_eq:
  "bm (ch32_machine_reset rescan ch cf eh hold v s) =
     reset_tail eh (env_upd (riscv_cpu_reset_hold hold v)
       (um (ch32_usb_reset_defaults rescan ch cf ((usbm s)\<lparr>um := reset_head (bm s)\<rparr>))))"
proof -
  let ?s9 = "ch32_ahb_misc_reset_defaults rescan ch cf (bm_upd ch32_usart1_reset
    (bm_upd (ch32_usart_lite_meip_resync rescan) (bm_upd ch32_usart_lite_reset (bm_upd ch32_dma_reset
      (gpio_update ch32_gpio_afio_reset (ch32_soft_state_reset (iwdt_update ch32_iwdt_reset
        (bm_upd ch32_stk_pfic_reset s))))))))"
  let ?s11 = "bm_upd (env_upd (riscv_cpu_reset_hold hold v)) (i2c_update ch32_i2c_reset (spi_update ch32_spi_reset ?s9))"
  have "usbm ?s9 = ch32_usb_reset_defaults rescan ch cf ((usbm s)\<lparr>um := reset_head (bm s)\<rparr>)"
    by (cases "usbm s") (simp add: bm_stages reset_head_def comp_def)
  then have "bm ?s11 = env_upd (riscv_cpu_reset_hold hold v)
      (um (ch32_usb_reset_defaults rescan ch cf ((usbm s)\<lparr>um := reset_head (bm s)\<rparr>)))"
    by (simp only: bm_stages)
  moreover have "bm (ch32_machine_reset rescan ch cf eh hold v s) = reset_tail eh (bm ?s11)"
    unfolding ch32_machine_reset_def Let_def by (rule bm_tail)
  ultimately show ?thesis by (simp only:)
qed

section \<open>The state after a reset\<close>

text \<open>QEMU's generic CPU class clears the interrupt request in its hold phase and nothing the model keeps.\<close>

definition generic_hold :: "(cpu_state \<Rightarrow> cpu_state) \<Rightarrow> bool" where
  "generic_hold hold \<longleftrightarrow> (\<forall>e. hold e = e\<lparr>irq_line := False\<rparr>)"

lemma reset_core_line:
  assumes "generic_hold hold"
  shows "owner (env_upd (riscv_cpu_reset_hold hold v) m) = 0"
    "meip_up (env_upd (riscv_cpu_reset_hold hold v) m) = meip_up m"
  using assms by (simp_all add: riscv_cpu_reset_hold_def meip_up_def generic_hold_def)

text \<open>What the machine looks like after a reset, whatever state it was in.\<close>

lemma machine_after_reset:
  fixes s :: "'d board"
  assumes hold: "generic_hold hold" and eh: "eth_host_ok eh"
    and m: "m = bm (ch32_machine_reset rescan ch cf eh hold v s)"
  shows "reset_view m = reset_view (reset_head (bm s))" "owner m = 0"
    "\<exists>e. core_view m = (riscv_cpu_reset_hold hold v e)\<lparr>mie := 0, mip := 0, irq_line := False, wch_evt_mcause_override := 0\<rparr>"
    "pred_option eth_silent (m_eth m)" "\<forall>j<6. j < length (m_tims m) \<longrightarrow> tim_stopped (m_tims m ! j)"
    "meip_up m = meip_up (um (ch32_usb_reset_defaults rescan ch cf ((usbm s)\<lparr>um := reset_head (bm s)\<rparr>)))"
proof -
  let ?u = "um (ch32_usb_reset_defaults rescan ch cf ((usbm s)\<lparr>um := reset_head (bm s)\<rparr>))"
  let ?c = "env_upd (riscv_cpu_reset_hold hold v) ?u"
  have eq: "m = reset_tail eh ?c" unfolding m by (rule machine_reset_eq)
  note T = reset_tail_facts[OF eh, where m = ?c]
  have u: "reset_view ?c = reset_view (reset_head (bm s))"
    using usb_reset_reset_view[of ch cf "(usbm s)\<lparr>um := reset_head (bm s)\<rparr>"] by simp
  then show "reset_view m = reset_view (reset_head (bm s))" using T(1) eq by (simp only:)
  have "irqs_off (reset_head (bm s))"
    using arg_cong[OF reset_head_view[of "bm s"], of "\<lambda>t. pfic_ienr (fst t)"]
    by (intro irqs_off_reset) (simp add: reset_view_def)
  then have q: "irqs_off ?c" using irqs_off_reset_view[OF u] by simp
  note L = reset_core_line[OF hold, of v ?u]
  from reset_tail_facts(5)[OF eh q L(1)] L(2) eq
  show "owner m = 0" "meip_up m = meip_up ?u" by (simp_all only:)
  show "pred_option eth_silent (m_eth m)" using T(3) eq by (simp only:)
  show "\<forall>j<6. j < length (m_tims m) \<longrightarrow> tim_stopped (m_tims m ! j)" using T(4) eq by (simp only:) blast
  have "core_view m = core_view ?c" using T(2) eq by (simp only:)
  then show "\<exists>e. core_view m = (riscv_cpu_reset_hold hold v e)\<lparr>mie := 0, mip := 0, irq_line := False, wch_evt_mcause_override := 0\<rparr>"
    by (auto simp: core_view_def)
qed


text \<open>A board for the witnesses, with timer TIM2 owning the slot and the line pending.\<close>

definition board_sample :: "u8 list board" where
  "board_sample = \<lparr>
     usbm = usb_sample\<lparr>um := (um usb_sample)\<lparr>m_cpu := cpu_zero\<lparr>mip := MIP_MEIP, mie := MIP_MEIP,
       wch_evt_mcause_override := 44\<rparr>\<rparr>\<rparr>,
     flash = flash_sample, iwdt = iwdt_fresh,
     wwdg = \<lparr>wwdg_ctlr = 0, wwdg_cfgr = 0, wwdg_statr = 0\<rparr>, crc = \<lparr>crc_dr = 0, crc_idr = 0\<rparr>,
     rng = \<lparr>rng_ctlr = 0, rng_seq = 0\<rparr>, pwr = \<lparr>pwr_ctlr = 0, pwr_csr = 0\<rparr>,
     sdio = \<lparr>sdio_reg = replicate 20 0, sdio_sta = 0\<rparr>, rtc = rtc_reset 0,
     gpio = \<lparr>gpio_ports = [], afio_ecr = 0, afio_pcfr1 = 0, afio_pcfr2 = 0, afio_exticr = [], exti_shadow = []\<rparr>,
     spi = [], i2c = [i2c_zero], ahb_misc_ram = replicate 0x1000 0\<rparr>"

lemma sample_hold: "generic_hold (irq_line_update (\<lambda>_. False))"
  by (simp add: generic_hold_def)


text \<open>A reset does not withdraw the machine external interrupt. When the slot belongs to a timer, a DMA
  channel or an Ethernet controller and the line is pending, the line is still pending after the reset
  but has no owner any more: the core will take an interrupt that nobody asks for, through word 11 of the
  vector table, and the machine is outside the invariant that all other events keep.\<close>

theorem reset_leaves_line_pending:
  assumes "generic_hold hold" "eth_host_ok eh" and up: "meip_up (bm s)"
    and o: "\<forall>i<7. owner (bm s) \<noteq> of_nat (lite_irq ! i)" "owner (bm s) \<noteq> of_nat CH32_USART1_NVIC_IRQ"
      "owner (bm s) \<noteq> of_nat CH32_USBHS_NVIC_IRQ" "owner (bm s) \<noteq> of_nat CH32_USBFS_NVIC_IRQ"
  shows "let m = bm (ch32_machine_reset rescan ch cf eh hold v s) in
    meip_up m \<and> owner m = 0 \<and> wch_vtf_async_vec_word (m_cpu m) IRQ_M_EXT = 11 \<and> \<not> machine_inv m"
proof -
  let ?m = "bm (ch32_machine_reset rescan ch cf eh hold v s)"
  let ?u = "(usbm s)\<lparr>um := reset_head (bm s)\<rparr>"
  note M = machine_after_reset[OF assms(1,2) refl, of ch cf v s]
  note H = reset_head_line[OF o(1,2)]
  have "irqs_off (um ?u)"
    using arg_cong[OF reset_head_view[of "bm s"], of "\<lambda>t. pfic_ienr (fst t)"]
    by (intro irqs_off_reset) (simp add: reset_view_def)
  then have "meip_up (um (ch32_usb_reset_defaults rescan ch cf ?u)) = meip_up (um ?u)"
    using usb_reset_line[of ?u ch cf] H o by simp
  then have "meip_up ?m" using M(6) H up by simp
  then show ?thesis using M(2)
    by (simp add: Let_def wch_vtf_async_vec_word_def irq_m_defs machine_inv_def line_ok_def meip_up_def)
qed

lemma reset_leaves_line_pending_witness:
  "let m = bm (ch32_machine_reset rescan echo_core echo_core eth_sample_host (irq_line_update (\<lambda>_. False))
      0x08000000 board_sample)
   in bit (mip (m_cpu m)) 11 \<and> owner m = 0"
proof -
  have o: "owner (bm board_sample) = 44" "meip_up (bm board_sample)"
    by (simp_all add: board_sample_def meip_up_def MIP_MEIP_def bit_simps)
  have l: "\<forall>i<7. (44 :: u32) \<noteq> of_nat (lite_irq ! i)"
  proof -
    have "\<forall>x\<in>set lite_irq. (44 :: u32) \<noteq> of_nat x" "length lite_irq = 7" by (simp_all add: lite_irq_def)
    then show ?thesis by simp
  qed
  show ?thesis
    using reset_leaves_line_pending[OF sample_hold eth_sample_host_ok o(2), of echo_core echo_core "0x08000000"] l
    by (simp add: o(1) Let_def meip_up_def CH32_USART1_NVIC_IRQ_def CH32_USBHS_NVIC_IRQ_def CH32_USBFS_NVIC_IRQ_def)
qed

end
