(* ===== verification/Ch32_Construct.thy ===== *)
theory Ch32_Construct
  imports Ch32_Reset Ch32_Boards
begin

text \<open>
  Construction of a machine (\<open>ch32-v.c\<close>): the properties of the command line, the memory map that
  \<open>ch32_machine_init\<close> lays out, the network device of the board, and the initial state of the board.
\<close>

section \<open>Machine properties\<close>

record machine_props =
  flash_image :: "string option"
  flash_size_cfg :: u64
  the_boot_mode :: boot_mode

datatype prop_error = Invalid_flash_size string | Flash_size_below_minimum | Flash_size_above_maximum
  | Invalid_boot_mode string

definition ch32_machine_instance_init :: "machine_props \<Rightarrow> machine_props" where
  "ch32_machine_instance_init p = p\<lparr>the_boot_mode := Boot_flash\<rparr>"

definition ch32_prop_get_flash_image :: "machine_props \<Rightarrow> string" where
  "ch32_prop_get_flash_image p = (case flash_image p of Some s \<Rightarrow> s | None \<Rightarrow> '''')"

definition ch32_prop_set_flash_image :: "string \<Rightarrow> machine_props \<Rightarrow> machine_props" where
  "ch32_prop_set_flash_image value p = p\<lparr>flash_image := Some value\<rparr>"

text \<open>\<open>printf\<close> of an unsigned number in decimal.\<close>

fun udec :: "nat \<Rightarrow> string" where
  "udec n = (if n < 10 then [char_of (48 + n)] else udec (n div 10) @ [char_of (48 + n mod 10)])"

declare udec.simps [simp del]

definition ch32_prop_get_flash_size :: "machine_props \<Rightarrow> string" where
  "ch32_prop_get_flash_size p = udec (unat (flash_size_cfg p))"

text \<open>\<open>strtosz\<close> is QEMU's parser of sizes with a suffix; the limits are 4 KiB and 16 MiB.\<close>

definition ch32_prop_set_flash_size ::
    "(string \<Rightarrow> u64 option) \<Rightarrow> string \<Rightarrow> machine_props \<Rightarrow> prop_error + machine_props" where
  "ch32_prop_set_flash_size strtosz value p =
     (if value = [] then Inr (p\<lparr>flash_size_cfg := 0\<rparr>)
      else case strtosz value of
        None \<Rightarrow> Inl (Invalid_flash_size value)
      | Some v \<Rightarrow>
          if v < 4096 then Inl Flash_size_below_minimum
          else if v > 16 * (1024 * 1024) then Inl Flash_size_above_maximum
          else Inr (p\<lparr>flash_size_cfg := v\<rparr>))"

definition ch32_prop_get_boot_mode :: "machine_props \<Rightarrow> string" where
  "ch32_prop_get_boot_mode p =
     (case the_boot_mode p of Boot_flash \<Rightarrow> ''flash'' | Boot_sysmem \<Rightarrow> ''sysmem'' | Boot_sram \<Rightarrow> ''sram'')"

definition ch32_prop_set_boot_mode :: "string \<Rightarrow> machine_props \<Rightarrow> prop_error + machine_props" where
  "ch32_prop_set_boot_mode value p =
     (if value = '''' \<or> value = ''flash'' then Inr (p\<lparr>the_boot_mode := Boot_flash\<rparr>)
      else if value = ''sysmem'' \<or> value = ''system'' then Inr (p\<lparr>the_boot_mode := Boot_sysmem\<rparr>)
      else if value = ''sram'' then Inr (p\<lparr>the_boot_mode := Boot_sram\<rparr>)
      else Inl (Invalid_boot_mode value))"

definition machine_flash_sz :: "board_desc \<Rightarrow> machine_props \<Rightarrow> u64" where
  "machine_flash_sz bd p = (if flash_size_cfg p \<noteq> 0 then flash_size_cfg p else flash_size bd)"

section \<open>The memory map\<close>

datatype ch32_region = R_flash | R_sysmem_rom | R_boot_remap | R_sram | R_sram_gap | R_aclint_swi
  | R_aclint_mtimer | R_usart1 | R_dbg_ram | R_afio_exti | R_gpio | R_iwdt | R_tim nat | R_dma | R_ahb_misc
  | R_crc | R_rng | R_usbhs | R_usbfs | R_rcc | R_rtc | R_wwdg | R_bkp | R_pwr | R_usart_lite nat | R_sdio
  | R_spi nat | R_i2c nat | R_pfic | R_stk | R_esig_rom | R_flash_reg | R_periph_bus | R_adc_evt nat
  | R_eth_10m | R_eth_dwmac

text \<open>A subregion of the system memory: what, where, how long and its priority.\<close>

type_synonym mem_region = "ch32_region \<times> nat \<times> nat \<times> int"

text \<open>The region an access backed by no device reaches: reads are zero, writes are ignored.\<close>

definition ch32_sram_gap_read :: "nat \<Rightarrow> nat \<Rightarrow> u64" where
  "ch32_sram_gap_read addr sz = 0"

definition ch32_sram_gap_write :: "nat \<Rightarrow> u64 \<Rightarrow> nat \<Rightarrow> machine \<Rightarrow> machine" where
  "ch32_sram_gap_write addr val sz m = m"

definition CH32_PERIPH_BUS_BASE :: nat where "CH32_PERIPH_BUS_BASE = 0x40000000"
definition CH32_PERIPH_BUS_SIZE :: nat where "CH32_PERIPH_BUS_SIZE = 0x00c00000"
definition CH32_SYSMEM_BASE :: nat where "CH32_SYSMEM_BASE = 0x1FFF8000"
definition CH32_SYSMEM_SIZE :: nat where "CH32_SYSMEM_SIZE = 0x7000"
definition CH32_BOOT_REMAP_BASE :: nat where "CH32_BOOT_REMAP_BASE = 0"
definition CH32_QEMU_CLINT_BASE :: nat where "CH32_QEMU_CLINT_BASE = 0x02000000"
definition CH32_ETH_MMIO_BASE :: nat where "CH32_ETH_MMIO_BASE = 0x40028000"
definition CH32_AFIO_EXTI_BASE :: nat where "CH32_AFIO_EXTI_BASE = 0x40010000"
definition CH32_AFIO_EXTI_SIZE :: nat where "CH32_AFIO_EXTI_SIZE = 0x800"
definition CH32_GPIO_BLOCK_BASE :: nat where "CH32_GPIO_BLOCK_BASE = 0x40010000"
definition CH32_GPIO_BLOCK_SIZE :: nat where "CH32_GPIO_BLOCK_SIZE = 0x3000"
definition CH32_USBHS_BASE :: nat where "CH32_USBHS_BASE = 0x40023400"
definition CH32_USBFS_BASE :: nat where "CH32_USBFS_BASE = 0x50000000"
definition CH32_AHB_MISC_BASE :: nat where "CH32_AHB_MISC_BASE = 0x40023000"

lemmas map_consts = CH32_PERIPH_BUS_BASE_def CH32_PERIPH_BUS_SIZE_def CH32_SYSMEM_BASE_def
  CH32_SYSMEM_SIZE_def CH32_BOOT_REMAP_BASE_def CH32_QEMU_CLINT_BASE_def CH32_ETH_MMIO_BASE_def
  CH32_AFIO_EXTI_BASE_def CH32_AFIO_EXTI_SIZE_def CH32_GPIO_BLOCK_BASE_def CH32_GPIO_BLOCK_SIZE_def
  CH32_USBHS_BASE_def CH32_USBFS_BASE_def CH32_AHB_MISC_BASE_def CH32_AHB_MISC_SIZE_def
  Ch32_Usb.CH32_SRAM_BASE_def CH32_FLASH_BASE_def

text \<open>
  The memories, in the order they are added. \<open>swi\<close> and \<open>mtime\<close> are the sizes of QEMU's ACLINT, which is
  there under TCG.
\<close>

definition memory_regions :: "bool \<Rightarrow> nat \<Rightarrow> nat \<Rightarrow> boot_mode \<Rightarrow> nat \<Rightarrow> nat \<Rightarrow> mem_region list" where
  "memory_regions tcg swi mtime bmode flash_sz ram_sz =
     [(R_flash, CH32_FLASH_BASE, flash_sz, 0), (R_sysmem_rom, CH32_SYSMEM_BASE, CH32_SYSMEM_SIZE, 0)] @
     (case bmode of
        Boot_flash \<Rightarrow> [(R_boot_remap, CH32_BOOT_REMAP_BASE, flash_sz, - 1)]
      | Boot_sysmem \<Rightarrow> [(R_boot_remap, CH32_BOOT_REMAP_BASE, CH32_SYSMEM_SIZE, - 1)]
      | Boot_sram \<Rightarrow> []) @
     [(R_sram, Ch32_Usb.CH32_SRAM_BASE, ram_sz, 0)] @
     (let gap_base = Ch32_Usb.CH32_SRAM_BASE + ram_sz in
      if gap_base < CH32_PERIPH_BUS_BASE
      then [(R_sram_gap, gap_base, CH32_PERIPH_BUS_BASE - gap_base, - 1)] else []) @
     (if tcg then [(R_aclint_swi, CH32_QEMU_CLINT_BASE, swi, 0),
                   (R_aclint_mtimer, CH32_QEMU_CLINT_BASE + swi, mtime, 0)] else [])"

text \<open>The timers are added by \<open>ch32_tim_init_all\<close>.\<close>

definition ch32_tim_bases :: "nat list" where
  "ch32_tim_bases = [0x40000000, 0x40000400, 0x40000800, 0x40000C00, 0x40001000, 0x40001400]"

definition tim_regions :: "mem_region list" where
  "tim_regions = map (\<lambda>i. (R_tim i, ch32_tim_bases ! i, 0x400, 2)) [0..<6]"

definition device_regions :: "mem_region list" where
  "device_regions =
     [(R_usart1, 0x40013800, 0x400, 2), (R_dbg_ram, 0xE000D000, 0x10, 1),
      (R_afio_exti, CH32_AFIO_EXTI_BASE, CH32_AFIO_EXTI_SIZE, 2),
      (R_gpio, CH32_GPIO_BLOCK_BASE, CH32_GPIO_BLOCK_SIZE, 2), (R_iwdt, 0x40003000, 0x10, 3)] @
     tim_regions @
     [(R_dma, 0x40020000, 0x1000, 1), (R_ahb_misc, CH32_AHB_MISC_BASE, CH32_AHB_MISC_SIZE, 1),
      (R_crc, 0x40023000, 0x10, 3), (R_rng, 0x40023c00, 0x10, 3), (R_usbhs, CH32_USBHS_BASE, 0x400, 3),
      (R_usbfs, CH32_USBFS_BASE, 0x8000, 2), (R_rcc, 0x40021000, 0x80, 1), (R_rtc, 0x40002800, 0x80, 2),
      (R_wwdg, 0x40002C00, 0x10, 3), (R_bkp, 0x40006C00, 0x100, 2), (R_pwr, 0x40007000, 0x10, 2),
      (R_usart_lite 0, 0x40004400, 0x400, 2), (R_usart_lite 1, 0x40004800, 0x400, 2),
      (R_usart_lite 4, 0x40001800, 0x400, 2), (R_usart_lite 5, 0x40001C00, 0x400, 2),
      (R_usart_lite 6, 0x40002000, 0x400, 2), (R_usart_lite 2, 0x40004C00, 0x400, 2),
      (R_usart_lite 3, 0x40005000, 0x400, 2), (R_sdio, 0x40018000, 0x400, 2),
      (R_spi 0, 0x40013000, 0x28, 2), (R_spi 1, 0x40003800, 0x28, 2), (R_spi 2, 0x40003C00, 0x28, 2),
      (R_i2c 0, 0x40005400, 0x24, 2), (R_i2c 1, 0x40005800, 0x24, 2), (R_pfic, 0xE000E000, 0x1000, 0),
      (R_stk, 0xE000F000, 0x40, 0), (R_esig_rom, 0x1ffff700, 0x900, 0), (R_flash_reg, 0x40022000, 0x400, 1),
      (R_periph_bus, CH32_PERIPH_BUS_BASE, CH32_PERIPH_BUS_SIZE, 0),
      (R_adc_evt 0, 0x40012400, 0x80, 4), (R_adc_evt 1, 0x40012800, 0x80, 4), (R_adc_evt 2, 0x40013c00, 0x80, 4)]"

text \<open>The network device of the board and, for the GMAC, its \<open>phy-model\<close>.\<close>

datatype nic = Nic_10m | Nic_dwmac "string option"

definition machine_nic :: "string option \<Rightarrow> nic option" where
  "machine_nic dn =
     (case dn of
        None \<Rightarrow> None
      | Some n \<Rightarrow>
          Some (if n = ''ch32-eth-10m'' then Nic_10m
                else if n = ''ch32-eth-dwmac-10m'' then Nic_dwmac (Some ''phy10m'')
                else if n = ''ch32-eth-dwmac-rtl8211f'' then Nic_dwmac (Some ''rtl8211f'')
                else Nic_dwmac None))"

definition nic_regions :: "nic option \<Rightarrow> mem_region list" where
  "nic_regions nic =
     (case nic of
        None \<Rightarrow> []
      | Some Nic_10m \<Rightarrow> [(R_eth_10m, CH32_ETH_MMIO_BASE, 0x30, 10)]
      | Some (Nic_dwmac _) \<Rightarrow> [(R_eth_dwmac, CH32_ETH_MMIO_BASE, CH32_ETH_MMIO_SIZE, 10)])"

definition ch32_memory_map ::
    "bool \<Rightarrow> nat \<Rightarrow> nat \<Rightarrow> board_desc \<Rightarrow> machine_props \<Rightarrow> nat \<Rightarrow> mem_region list" where
  "ch32_memory_map tcg swi mtime bd p ram_sz =
     memory_regions tcg swi mtime (the_boot_mode p) (unat (machine_flash_sz bd p)) ram_sz @
     device_regions @ nic_regions (machine_nic (default_nic bd))"

section \<open>Which region answers\<close>

text \<open>The subregions with the highest priority among those that cover an address.\<close>

definition covers :: "nat \<Rightarrow> mem_region \<Rightarrow> bool" where
  "covers a e = (case e of (r, b, n, p) \<Rightarrow> b \<le> a \<and> a < b + n)"

definition prio :: "mem_region \<Rightarrow> int" where
  "prio e = (case e of (r, b, n, p) \<Rightarrow> p)"

definition top_regions :: "mem_region list \<Rightarrow> nat \<Rightarrow> mem_region list" where
  "top_regions rs a = (let cs = filter (covers a) rs in filter (\<lambda>e. \<forall>f \<in> set cs. prio f \<le> prio e) cs)"

text \<open>A window of addresses \<open>[lo, hi)\<close> and an entry that covers it: all others are outside or below.\<close>

definition beats :: "nat \<Rightarrow> nat \<Rightarrow> mem_region \<Rightarrow> mem_region \<Rightarrow> bool" where
  "beats lo hi e f = (f = e \<or> prio f < prio e \<or> (case f of (r, b, n, p) \<Rightarrow> hi \<le> b \<or> b + n \<le> lo))"

lemma top_set:
  assumes "E \<subseteq> set rs" "E \<noteq> {}" "\<forall>e \<in> E. covers a e \<and> prio e = p"
    "\<forall>f \<in> set rs. f \<in> E \<or> \<not> covers a f \<or> prio f < p"
  shows "set (top_regions rs a) = E"
proof -
  obtain e where e: "e \<in> E" "e \<in> set rs" "covers a e" "prio e = p" using assms(1,2,3) by blast
  have "f \<in> E" if "f \<in> set rs" "covers a f" "\<forall>g \<in> set rs. covers a g \<longrightarrow> prio g \<le> prio f" for f
    using bspec[OF assms(4) that(1)] that(2) bspec[OF that(3) e(2)] e(3,4) by linarith
  moreover have "prio g \<le> prio f" if "f \<in> E" "g \<in> set rs" "covers a g" for f g
    using bspec[OF assms(4) that(2)] that(1,3) assms(3) by force
  ultimately show ?thesis unfolding top_regions_def Let_def set_filter using assms(1,3) by blast
qed

lemma top_unique:
  assumes a: "lo \<le> a" "a < hi" and e: "e \<in> set rs" "covers a e" and b: "\<forall>f \<in> set rs. beats lo hi e f"
  shows "set (top_regions rs a) = {e}"
proof (rule top_set[where p = "prio e"])
  show "\<forall>f \<in> set rs. f \<in> {e} \<or> \<not> covers a f \<or> prio f < prio e"
    using b a by (fastforce simp: beats_def covers_def split: prod.splits)
qed (use e in auto)

text \<open>
  The windows of the peripherals: the range of each device, but for the block that holds the GPIO ports
  A to G behind the AFIO, and the two control registers in the AHB block.
\<close>

definition device_windows :: "(mem_region \<times> nat \<times> nat) list" where
  "device_windows =
     ((R_gpio, CH32_GPIO_BLOCK_BASE, CH32_GPIO_BLOCK_SIZE, 2), 0x40010800, 0x40012400) #
     ((R_ahb_misc, CH32_AHB_MISC_BASE, CH32_AHB_MISC_SIZE, 1), 0x40023800, 0x40023810) #
     map (\<lambda>(r, b, n, p). ((r, b, n, p), b, b + n))
       (filter (\<lambda>(r, b, n, p). r \<notin> {R_gpio, R_afio_exti, R_ahb_misc, R_periph_bus}) device_regions)"

lemma device_windows_check:
  "\<forall>(e, lo, hi) \<in> set device_windows. \<forall>f \<in> set device_regions. beats lo hi e f"
  by (simp add: device_windows_def device_regions_def tim_regions_def ch32_tim_bases_def map_consts upt_rec beats_def prio_def)

text \<open>The memories lie below the peripheral bus, apart from each other, when the flash and the main memory
  have a size a board can have.\<close>

definition sizes_ok :: "nat \<Rightarrow> nat \<Rightarrow> nat \<Rightarrow> nat \<Rightarrow> bool" where
  "sizes_ok swi mtime flash_sz ram_sz \<longleftrightarrow>
     0 < flash_sz \<and> flash_sz \<le> 16 * 1024 * 1024 \<and> 0 < ram_sz \<and> ram_sz \<le> CH32_PERIPH_BUS_BASE - Ch32_Usb.CH32_SRAM_BASE \<and>
     swi + mtime \<le> CH32_FLASH_BASE - CH32_QEMU_CLINT_BASE"

lemma memories_below:
  assumes "sizes_ok swi mtime fz rz" "CH32_PERIPH_BUS_BASE \<le> lo" "f \<in> set (memory_regions tcg swi mtime bmode fz rz)"
  shows "beats lo hi e f"
  using assms
  by (cases bmode) (auto simp: memory_regions_def sizes_ok_def beats_def map_consts Let_def split: if_splits)

definition memory_windows :: "bool \<Rightarrow> nat \<Rightarrow> nat \<Rightarrow> boot_mode \<Rightarrow> nat \<Rightarrow> nat \<Rightarrow> mem_region list" where
  "memory_windows tcg swi mtime bmode fz rz =
     memory_regions tcg swi mtime bmode fz rz @ [(R_esig_rom, 0x1ffff700, 0x900, 0)]"

lemma memory_beats:
  assumes z: "sizes_ok swi mtime fz rz" and f: "f \<in> set (memory_windows tcg swi mtime bmode fz rz)"
  shows "beats CH32_FLASH_BASE (CH32_FLASH_BASE + fz) (R_flash, CH32_FLASH_BASE, fz, 0) f"
    "beats CH32_SYSMEM_BASE (CH32_SYSMEM_BASE + CH32_SYSMEM_SIZE) (R_sysmem_rom, CH32_SYSMEM_BASE, CH32_SYSMEM_SIZE, 0) f"
    "beats Ch32_Usb.CH32_SRAM_BASE (Ch32_Usb.CH32_SRAM_BASE + rz) (R_sram, Ch32_Usb.CH32_SRAM_BASE, rz, 0) f"
    "beats 0x1ffff700 0x20000000 (R_esig_rom, 0x1ffff700, 0x900, 0) f"
    "bmode = Boot_flash \<Longrightarrow> beats 0 fz (R_boot_remap, 0, fz, - 1) f"
    "bmode = Boot_sysmem \<Longrightarrow> beats 0 CH32_SYSMEM_SIZE (R_boot_remap, 0, CH32_SYSMEM_SIZE, - 1) f"
proof -
  have "f \<in> {(R_flash, CH32_FLASH_BASE, fz, 0), (R_sysmem_rom, CH32_SYSMEM_BASE, CH32_SYSMEM_SIZE, 0),
      (R_sram, Ch32_Usb.CH32_SRAM_BASE, rz, 0), (R_aclint_swi, CH32_QEMU_CLINT_BASE, swi, 0),
      (R_aclint_mtimer, CH32_QEMU_CLINT_BASE + swi, mtime, 0), (R_esig_rom, 0x1ffff700, 0x900, 0)} \<or>
      f = (R_sram_gap, Ch32_Usb.CH32_SRAM_BASE + rz, CH32_PERIPH_BUS_BASE - (Ch32_Usb.CH32_SRAM_BASE + rz), - 1) \<or>
      bmode = Boot_flash \<and> f = (R_boot_remap, 0, fz, - 1) \<or>
      bmode = Boot_sysmem \<and> f = (R_boot_remap, 0, CH32_SYSMEM_SIZE, - 1)"
    using f unfolding memory_windows_def memory_regions_def Let_def
    by (cases bmode; cases tcg; cases "Ch32_Usb.CH32_SRAM_BASE + rz < CH32_PERIPH_BUS_BASE";
        simp add: CH32_BOOT_REMAP_BASE_def; blast)
  moreover have "fz \<le> 0x1000000" "rz \<le> 0x20000000" "swi + mtime \<le> 0x6000000"
    using z by (simp_all add: sizes_ok_def map_consts)
  ultimately show "beats CH32_FLASH_BASE (CH32_FLASH_BASE + fz) (R_flash, CH32_FLASH_BASE, fz, 0) f"
    "beats CH32_SYSMEM_BASE (CH32_SYSMEM_BASE + CH32_SYSMEM_SIZE) (R_sysmem_rom, CH32_SYSMEM_BASE, CH32_SYSMEM_SIZE, 0) f"
    "beats Ch32_Usb.CH32_SRAM_BASE (Ch32_Usb.CH32_SRAM_BASE + rz) (R_sram, Ch32_Usb.CH32_SRAM_BASE, rz, 0) f"
    "beats 0x1ffff700 0x20000000 (R_esig_rom, 0x1ffff700, 0x900, 0) f"
    "bmode = Boot_flash \<Longrightarrow> beats 0 fz (R_boot_remap, 0, fz, - 1) f"
    "bmode = Boot_sysmem \<Longrightarrow> beats 0 CH32_SYSMEM_SIZE (R_boot_remap, 0, CH32_SYSMEM_SIZE, - 1) f"
    unfolding map_consts by (elim disjE insertE emptyE conjE; simp add: beats_def prio_def)+
qed

lemma devices_above:
  "\<forall>f \<in> set device_regions. f = (R_esig_rom, 0x1ffff700, 0x900, 0) \<or> (case f of (r, b, n, p) \<Rightarrow> CH32_PERIPH_BUS_BASE \<le> b)"
  by (simp add: device_regions_def tim_regions_def ch32_tim_bases_def map_consts upt_rec)

lemma nic_beaten:
  "\<forall>(e, lo, hi) \<in> set device_windows. \<forall>f \<in> set (nic_regions nic). beats lo hi e f"
  "\<forall>f \<in> set (nic_regions nic). case f of (r, b, n, p) \<Rightarrow> CH32_ETH_MMIO_BASE \<le> b"
proof -
  have *: "nic_regions nic \<in> {[], [(R_eth_10m, 0x40028000, 0x30, 10)], [(R_eth_dwmac, 0x40028000, 0x1800, 10)]}"
    by (auto simp: nic_regions_def map_consts CH32_ETH_MMIO_SIZE_def split: option.split nic.split)
  then show "\<forall>f \<in> set (nic_regions nic). case f of (r, b, n, p) \<Rightarrow> CH32_ETH_MMIO_BASE \<le> b"
    by (auto simp: map_consts)
  have "\<forall>(e, lo, hi) \<in> set device_windows. hi \<le> 0x40028000 \<or> 0x40029800 \<le> lo"
    by (simp add: device_windows_def device_regions_def tim_regions_def ch32_tim_bases_def map_consts upt_rec)
  then show "\<forall>(e, lo, hi) \<in> set device_windows. \<forall>f \<in> set (nic_regions nic). beats lo hi e f"
    using * by (fastforce simp: beats_def)
qed

lemma windows_in_map:
  "\<forall>(e, lo, hi) \<in> set device_windows. e \<in> set device_regions \<and>
     (case e of (r, b, n, p) \<Rightarrow> b \<le> lo \<and> hi \<le> b + n) \<and>
     (CH32_PERIPH_BUS_BASE \<le> lo \<or> e = (R_esig_rom, 0x1ffff700, 0x900, 0) \<and> lo = 0x1ffff700 \<and> hi = 0x20000000)"
  by (simp add: device_windows_def device_regions_def tim_regions_def ch32_tim_bases_def map_consts upt_rec)

lemma device_window_top:
  assumes z: "sizes_ok swi mtime (unat (machine_flash_sz bd p)) rz"
    and w: "(e, lo, hi) \<in> set device_windows" "lo \<le> a" "a < hi"
  shows "set (top_regions (ch32_memory_map tcg swi mtime bd p rz) a) = {e}"
proof (rule top_unique[OF w(2,3)])
  note W = bspec[OF windows_in_map w(1), simplified]
  show "e \<in> set (ch32_memory_map tcg swi mtime bd p rz)" using W by (simp add: ch32_memory_map_def)
  show "covers a e" using W w(2,3) by (auto simp: covers_def split: prod.splits)
  have m: "beats lo hi e f" if "f \<in> set (memory_regions tcg swi mtime (the_boot_mode p) (unat (machine_flash_sz bd p)) rz)" for f
  proof (cases "CH32_PERIPH_BUS_BASE \<le> lo")
    case True
    then show ?thesis using memories_below[OF z _ that] by simp
  next
    case False
    then have "e = (R_esig_rom, 0x1ffff700, 0x900, 0)" "lo = 0x1ffff700" "hi = 0x20000000" using W by auto
    then show ?thesis using memory_beats(4)[OF z, of f tcg "the_boot_mode p"] that by (simp add: memory_windows_def)
  qed
  show "\<forall>f \<in> set (ch32_memory_map tcg swi mtime bd p rz). beats lo hi e f"
    using m bspec[OF device_windows_check w(1)] bspec[OF nic_beaten(1) w(1)]
    unfolding ch32_memory_map_def by auto
qed

lemma memory_top:
  assumes z: "sizes_ok swi mtime (unat (machine_flash_sz bd p)) rz"
    and e: "e \<in> set (memory_regions tcg swi mtime (the_boot_mode p) (unat (machine_flash_sz bd p)) rz)"
      "e = (r, b, n, q)" "b + n \<le> CH32_PERIPH_BUS_BASE" "b \<le> a" "a < b + n"
    and b: "\<forall>f \<in> set (memory_windows tcg swi mtime (the_boot_mode p) (unat (machine_flash_sz bd p)) rz). beats b (b + n) e f"
  shows "set (top_regions (ch32_memory_map tcg swi mtime bd p rz) a) = {e}"
proof (rule top_unique[OF e(4,5)])
  show "e \<in> set (ch32_memory_map tcg swi mtime bd p rz)" using e(1) by (simp add: ch32_memory_map_def)
  show "covers a e" using e by (simp add: covers_def)
  have "beats b (b + n) e f" if "f \<in> set device_regions" for f
    using bspec[OF devices_above that] b e(3) by (auto simp: memory_windows_def beats_def)
  moreover have "beats b (b + n) e f" if "f \<in> set (nic_regions nic)" for f nic
    using bspec[OF nic_beaten(2) that] e(3) by (auto simp: beats_def map_consts split: prod.splits)
  ultimately show "\<forall>f \<in> set (ch32_memory_map tcg swi mtime bd p rz). beats b (b + n) e f"
    using b unfolding ch32_memory_map_def memory_windows_def by auto
qed

text \<open>The sizes the command line and the boards allow.\<close>

definition props_ok :: "machine_props \<Rightarrow> bool" where
  "props_ok p \<longleftrightarrow> flash_size_cfg p = 0 \<or> 4096 \<le> flash_size_cfg p \<and> flash_size_cfg p \<le> 16 * (1024 * 1024)"

lemma props_ok_setters:
  "props_ok p \<Longrightarrow> ch32_prop_set_flash_size strtosz v p = Inr p' \<Longrightarrow> props_ok p'"
  "props_ok p \<Longrightarrow> ch32_prop_set_boot_mode v p = Inr p' \<Longrightarrow> props_ok p'"
  "props_ok p \<Longrightarrow> props_ok (ch32_prop_set_flash_image v p)" "props_ok p \<Longrightarrow> props_ok (ch32_machine_instance_init p)"
  by (auto simp: props_ok_def ch32_prop_set_flash_size_def ch32_prop_set_boot_mode_def ch32_prop_set_flash_image_def
      ch32_machine_instance_init_def not_less split: if_splits option.splits)

lemma board_sizes_ok:
  assumes "bd \<in> set ch32_boards" "props_ok p" "0 < rz" "rz \<le> 0x20000000" "swi + mtime \<le> 0x6000000"
  shows "sizes_ok swi mtime (unat (machine_flash_sz bd p)) rz"
proof -
  have "\<forall>bd \<in> set ch32_boards. 0 < flash_size bd \<and> flash_size bd \<le> 0x1000000"
    by (simp add: ch32_boards_def ch32_board_ch32v317_def ch32_board_ch32v307_def ch32_board_ch32v305_def
        ch32_board_ch32v303_def ch32_board_ch32v203_def ch32_board_ch32v203rb_def ch32_board_ch32v103_def
        ch32_board_ch32v003_def ch32_board_ch32h417_def ch32_board_ch32v407_def KiB_def)
  then have "0 < machine_flash_sz bd p" "machine_flash_sz bd p \<le> 0x1000000"
    using assms(1,2) by (auto simp: machine_flash_sz_def props_ok_def word_neq_0_conv)
  then have "0 < unat (machine_flash_sz bd p)" "unat (machine_flash_sz bd p) \<le> 0x1000000"
    by (simp_all add: word_less_nat_alt word_le_nat_alt)
  then show ?thesis using assms(3-5) by (simp add: sizes_ok_def map_consts)
qed


text \<open>The two regions at 0x40010000 have the same priority, so the map does not say which one answers.\<close>

lemma afio_others_check:
  "\<forall>f \<in> set device_regions. f = (R_afio_exti, CH32_AFIO_EXTI_BASE, CH32_AFIO_EXTI_SIZE, 2) \<or>
     f = (R_gpio, CH32_GPIO_BLOCK_BASE, CH32_GPIO_BLOCK_SIZE, 2) \<or> prio f < 2 \<or>
     (case f of (r, b, n, p) \<Rightarrow> 0x40010800 \<le> b \<or> b + n \<le> 0x40010000)"
  by (simp add: device_regions_def tim_regions_def ch32_tim_bases_def map_consts upt_rec prio_def)

text \<open>The AFIO and EXTI registers are not above the GPIO block. Every address of the AFIO window is covered by
  the AFIO region and by the GPIO block with the same, highest, priority; the GPIO handlers answer such
  an address with zero and ignore writes to it, so the AFIO is only reachable if the tie is broken its
  way.\<close>

theorem afio_tied_with_gpio:
  assumes z: "sizes_ok swi mtime (unat (machine_flash_sz bd p)) rz"
    and a: "CH32_AFIO_EXTI_BASE \<le> a" "a < CH32_AFIO_EXTI_BASE + CH32_AFIO_EXTI_SIZE"
  shows "set (top_regions (ch32_memory_map tcg swi mtime bd p rz) a) =
      {(R_afio_exti, CH32_AFIO_EXTI_BASE, CH32_AFIO_EXTI_SIZE, 2), (R_gpio, CH32_GPIO_BLOCK_BASE, CH32_GPIO_BLOCK_SIZE, 2)} \<and>
    ch32_gpio_read (a - CH32_GPIO_BLOCK_BASE) sz g = 0 \<and> ch32_gpio_write (a - CH32_GPIO_BLOCK_BASE) v sz g = g"
proof (intro conjI)
  let ?E = "{(R_afio_exti, CH32_AFIO_EXTI_BASE, CH32_AFIO_EXTI_SIZE, 2 :: int),
    (R_gpio, CH32_GPIO_BLOCK_BASE, CH32_GPIO_BLOCK_SIZE, 2)}"
  show "set (top_regions (ch32_memory_map tcg swi mtime bd p rz) a) = ?E"
  proof (rule top_set[where p = 2])
    show "?E \<subseteq> set (ch32_memory_map tcg swi mtime bd p rz)"
      by (simp add: ch32_memory_map_def device_regions_def)
    show "\<forall>e \<in> ?E. covers a e \<and> prio e = 2" using a by (simp add: covers_def prio_def map_consts)
    have "\<not> covers a f" if "f \<in> set (memory_regions tcg swi mtime (the_boot_mode p) (unat (machine_flash_sz bd p)) rz)" for f
      using memories_below[OF z, of CH32_PERIPH_BUS_BASE f tcg "the_boot_mode p" "Suc a" "(R_tim 9, 0, 0, 0)"] that a z
      by (auto simp: sizes_ok_def beats_def covers_def map_consts prio_def memory_regions_def Let_def split: prod.splits if_splits boot_mode.splits)
    moreover have "\<not> covers a f" if "f \<in> set (nic_regions nic)" for f nic
      using bspec[OF nic_beaten(2) that] a by (auto simp: covers_def map_consts split: prod.splits)
    moreover have "f \<in> ?E \<or> \<not> covers a f \<or> prio f < 2" if "f \<in> set device_regions" for f
      using bspec[OF afio_others_check that] a by (auto simp: covers_def map_consts split: prod.splits)
    ultimately show "\<forall>f \<in> set (ch32_memory_map tcg swi mtime bd p rz). f \<in> ?E \<or> \<not> covers a f \<or> prio f < 2"
      unfolding ch32_memory_map_def set_append by blast
  qed simp
  have "a - CH32_GPIO_BLOCK_BASE < 0x800" using a unfolding map_consts by linarith
  then show "ch32_gpio_read (a - CH32_GPIO_BLOCK_BASE) sz g = 0" "ch32_gpio_write (a - CH32_GPIO_BLOCK_BASE) v sz g = g"
    by (simp_all add: ch32_gpio_read_def ch32_gpio_write_def)
qed

text \<open>The V307 board with its defaults, and the ACLINT sizes of QEMU.\<close>

definition plain_props :: machine_props where
  "plain_props = \<lparr>flash_image = None, flash_size_cfg = 0, the_boot_mode = Boot_flash\<rparr>"


lemma afio_tied_with_gpio_witness:
  "fst ` set (top_regions (ch32_memory_map True 0x4000 0x8000 ch32_board_ch32v307 plain_props 0x10000) 0x40010004) =
     {R_afio_exti, R_gpio}"
proof -
  have "sizes_ok 0x4000 0x8000 (unat (machine_flash_sz ch32_board_ch32v307 plain_props)) 0x10000"
    by (rule board_sizes_ok) (simp_all add: ch32_boards_def props_ok_def plain_props_def)
  from afio_tied_with_gpio[OF this, of "0x40010004" True] show ?thesis
    by (simp add: map_consts)
qed

section \<open>Options of the command line\<close>

lemma boot_mode_roundtrip:
  "ch32_prop_set_boot_mode (ch32_prop_get_boot_mode p) q = Inr (q\<lparr>the_boot_mode := the_boot_mode p\<rparr>)"
  by (cases "the_boot_mode p") (simp_all add: ch32_prop_set_boot_mode_def ch32_prop_get_boot_mode_def)

text \<open>The boot mode moves the alias at address zero but never the reset vector.\<close>

lemma boot_mode_keeps_reset_vector:
  "boot_reset_vector xdv bmode flash_sz fw = boot_reset_vector xdv bmode' flash_sz fw"
  by (simp add: boot_reset_vector_def boot_load_def Let_def split: firmware.split)

end
