(* ===== verification/Ch32_FirstBoot.thy ===== *)
theory Ch32_FirstBoot
  imports Ch32_Construct "HOL-Library.Sublist"
begin

text \<open>
  The first boot: the initial state \<open>ch32_machine_init\<close> gives a board (\<open>ch32-v.c\<close> and the
  \<open>..._init_mr\<close> functions it calls), the reset that follows, and the invariant of everything after it.
\<close>

section \<open>Initial state\<close>

definition ch32_usart1_init_mr :: "machine \<Rightarrow> machine" where
  "ch32_usart1_init_mr m =
     uart_upd (\<lambda>u. u\<lparr>u1_statr := STATR_TXE OR STATR_TC, tx_empty := True, tx_complete := True,
       tx_timer := Timer_idle, rx_timer := Timer_idle, rx_stage_head := 0, rx_stage_tail := 0\<rparr>) m"

definition ch32_usart_lite_one_init :: "lite_state \<Rightarrow> lite_state" where
  "ch32_usart_lite_one_init u = u\<lparr>
     l_statr := STATR_TXE OR STATR_TC, l_brr := 0, l_ctlr1 := 0, l_ctlr2 := 0, l_ctlr3 := 0, l_gpr := 0,
     l_ctlr4 := 0, datar_last := 0, l_rx_pending := False, rx_fifo_h := 0, rx_fifo_t := 0,
     rx_fifo := replicate 8 0\<rparr>"

definition ch32_usart_lite_init_mr :: "machine \<Rightarrow> machine" where
  "ch32_usart_lite_init_mr m = m_lite_update (map ch32_usart_lite_one_init) m"

definition ch32_tim_init_all :: "machine \<Rightarrow> machine" where
  "ch32_tim_init_all m =
     fold (\<lambda>i. tim_upd i (\<lambda>t. (ch32_tim_reset_one t)\<lparr>tim_timer := Timer_idle\<rparr>)) [0..<6] m"

definition ch32_spi_init_mr :: "spi_state list \<Rightarrow> spi_state list" where
  "ch32_spi_init_mr sps = ch32_spi_reset sps"

definition ch32_i2c_init_mr :: "i2c_state list \<Rightarrow> i2c_state list" where
  "ch32_i2c_init_mr ips = ch32_i2c_reset ips"

definition ch32_usb_init_mr ::
    "(machine \<Rightarrow> machine) \<Rightarrow> 'd usb_core \<Rightarrow> 'd usb_core \<Rightarrow> 'd usb_machine \<Rightarrow> 'd usb_machine" where
  "ch32_usb_init_mr r ch cf u = ch32_usb_reset_defaults r ch cf u"

definition stk_pfic_init :: "machine \<Rightarrow> machine" where
  "stk_pfic_init m =
     m\<lparr>m_stk := \<lparr>stk_ctlr = 0, stk_sr = 0, stk_cmpl = 0, stk_cmph = 0\<rparr>,
       m_pfic := (m_pfic m)\<lparr>pfic_ienr := replicate 8 0\<rparr>,
       stk_epoch_ns := clock_ns m, stk_cnt_at_epoch := 0, stk_timer := Timer_idle\<rparr>"

text \<open>Registers and timers of all parts, on the zero-filled object; the network device is attached separately.\<close>

definition machine_init_state ::
    "(machine \<Rightarrow> machine) \<Rightarrow> 'd usb_core \<Rightarrow> 'd usb_core \<Rightarrow> 'd board \<Rightarrow> 'd board" where
  "machine_init_state r ch cf s =
     (let s1 = usbm_update (ch32_usbhost_machine_init \<circ> ch32_usbfs_host_machine_init) s;
          s2 = bm_upd ch32_usart1_init_mr s1;
          s3 = ch32_soft_state_reset s2;
          s4 = bm_upd stk_pfic_init s3;
          s5 = gpio_update ch32_gpio_afio_reset s4;
          s6 = iwdt_update ch32_iwdt_init_mr s5;
          s7 = bm_upd ch32_tim_init_all s6;
          s8 = ch32_ahb_misc_reset_defaults r ch cf (s7\<lparr>ahb_misc_ram := replicate CH32_AHB_MISC_SIZE 0\<rparr>);
          s9 = usbm_update (ch32_usb_init_mr r ch cf) s8;
          s10 = bm_upd ch32_usart_lite_init_mr s9
      in i2c_update ch32_i2c_init_mr (spi_update ch32_spi_init_mr s10))"

text \<open>
  The network device: \<open>e\<close> and \<open>d\<close> are the zero-filled objects of the two Ethernet controllers. \<open>None\<close> is
  the exit when a device cannot be realized.
\<close>

definition ch32_eth_set_machine :: "eth_state \<Rightarrow> machine \<Rightarrow> machine" where
  "ch32_eth_set_machine e m = m\<lparr>m_eth := Some e\<rparr>"

definition ch32_eth_10m_set_machine :: "eth10m_state \<Rightarrow> machine \<Rightarrow> machine" where
  "ch32_eth_10m_set_machine d m = m\<lparr>m_eth10m := Some d\<rparr>"

definition machine_attach_nic :: "eth_state \<Rightarrow> eth10m_state \<Rightarrow> nic option \<Rightarrow> machine \<Rightarrow> machine option" where
  "machine_attach_nic e d n m =
     (case n of
        None \<Rightarrow> Some m
      | Some Nic_10m \<Rightarrow> Some (ch32_eth_10m_set_machine (d\<lparr>link_timer := Timer_idle\<rparr>) m)
      | Some (Nic_dwmac pm) \<Rightarrow>
          (case ch32_eth_realize (clock_ns m) pm (e\<lparr>eth_poll := Timer_idle\<rparr>) of
             None \<Rightarrow> None
           | Some e' \<Rightarrow> Some (ch32_eth_set_machine e' m)))"

text \<open>
  The image the machine runs. \<open>load_elf\<close> is QEMU's ELF loader (the entry and the flash it leaves),
  \<open>load_file\<close> the contents of a file; \<open>None\<close> is the exit when neither option is given.
\<close>

definition machine_firmware ::
    "(string \<Rightarrow> (u64 \<times> u8 list) option) \<Rightarrow> (string \<Rightarrow> u8 list option) \<Rightarrow> string option \<Rightarrow> machine_props \<Rightarrow>
     firmware option" where
  "machine_firmware load_elf load_file kfile p =
     (let k = (case kfile of Some k \<Rightarrow> k | None \<Rightarrow> []);
          f = (case flash_image p of Some f \<Rightarrow> f | None \<Rightarrow> []);
          is_hex = suffix ''.hex'' f \<or> suffix ''.HEX'' f in
      if k = [] \<and> f = [] then None
      else Some (if k \<noteq> [] then Fw_elf (load_elf k)
                 else if is_hex then Fw_hex (load_file f)
                 else Fw_bin (load_file f)))"

datatype init_error = No_image | Image_not_loaded | Nic_not_realized

definition CH32_ESIG_SIZE :: nat where "CH32_ESIG_SIZE = 0x900"

text \<open>
  The whole init function: the flash, the reset vector, the reset of the core when it is realized, the
  state of the peripherals, the signature memory and the network device. The result is the board with
  its reset vector and signature; every exit is an error.
\<close>

definition ch32_machine_init ::
    "(machine \<Rightarrow> machine) \<Rightarrow> 'd usb_core \<Rightarrow> 'd usb_core \<Rightarrow> (cpu_state \<Rightarrow> cpu_state) \<Rightarrow> eth_state \<Rightarrow> eth10m_state \<Rightarrow>
     xdigit_value \<Rightarrow> (string \<Rightarrow> (u64 \<times> u8 list) option) \<Rightarrow> (string \<Rightarrow> u8 list option) \<Rightarrow> board_desc \<Rightarrow>
     string option \<Rightarrow> machine_props \<Rightarrow> 'd board \<Rightarrow> init_error + 'd board \<times> u32 \<times> u8 list" where
  "ch32_machine_init r ch cf hold e d xdv load_elf load_file bd kfile p s =
     (let flash_sz = machine_flash_sz bd p in
      case machine_firmware load_elf load_file kfile p of
        None \<Rightarrow> Inl No_image
      | Some fw \<Rightarrow>
          (case boot_reset_vector xdv (the_boot_mode p) flash_sz fw of
             None \<Rightarrow> Inl Image_not_loaded
           | Some (fl, elf_entry) \<Rightarrow>
               let resetvec = ucast elf_entry;
                   s0 = s\<lparr>flash := (flash s)\<lparr>flash_mem := fl\<rparr>\<rparr>;
                   s1 = bm_upd (env_upd (riscv_cpu_reset_hold hold resetvec)) s0;
                   s2 = machine_init_state r ch cf s1;
                   esig = ch32_esig_populate (tag bd) flash_sz (replicate CH32_ESIG_SIZE 0)
               in case machine_attach_nic e d (machine_nic (default_nic bd)) (bm s2) of
                    None \<Rightarrow> Inl Nic_not_realized
                  | Some m \<Rightarrow> Inr (bm_upd (\<lambda>_. m) s2, resetvec, esig)))"

text \<open>The end of the machine: the timers are freed and the USB packets are cleaned up.\<close>

definition ch32_machine_finalize :: "machine_props \<times> 'd board \<Rightarrow> machine_props \<times> 'd board" where
  "ch32_machine_finalize ps =
     (case ps of (p, s) \<Rightarrow>
        let s1 = bm_upd (stk_timer_update (\<lambda>_. Timer_null)) s;
            s2 = iwdt_update (iwdt_timer_update (\<lambda>_. Timer_null)) s1;
            s3 = iwdt_update (iwdt_flag_timer_update (\<lambda>_. Timer_null)) s2;
            s4 = usbm_update ch32_usbhost_machine_finalize s3;
            s5 = usbm_update ch32_usbfs_host_machine_finalize s4
        in (p\<lparr>flash_image := None\<rparr>, s5))"

section \<open>The invariant through a reset\<close>

lemma root_machine_inv:
  "machine_inv (um u) \<Longrightarrow> machine_inv (um (ch32_usbhost_resync_root_mmio rescan c u))"
  "machine_inv (um u) \<Longrightarrow> machine_inv (um (ch32_usbfs_host_resync_root_mmio rescan c u))"
  by (simp_all add: ch32_usbhost_resync_root_mmio_def ch32_usbfs_host_resync_root_mmio_def Let_def
      usbhs_resync_def usbfs_resync_def inv_resync split: option.split)

lemma usb_defaults_machine_inv:
  "machine_inv (um u) \<Longrightarrow> machine_inv (um (ch32_usb_reset_defaults rescan ch cf u))"
  unfolding ch32_usb_reset_defaults_def Let_def by (intro root_machine_inv) simp

lemma reset_head_inv: "machine_inv m \<Longrightarrow> machine_inv (reset_head m)"
proof -
  assume m: "machine_inv m"
  have "machine_inv (ch32_stk_pfic_reset m)"
    using m by (simp add: machine_inv_def ch32_stk_pfic_reset_def cpu_irq_def line_ok_def riscv_cpu_update_mip_def
        riscv_cpu_interrupt_def Let_def ienr_on_def MIP_MTIP_def MIP_MSIP_def bit_simps)
  then show ?thesis
    unfolding reset_head_def
    by (intro inv_usart1_reset inv_resync)
      (simp add: ch32_usart_lite_reset_def ch32_dma_reset_def inv_simps)
qed

lemma core_reset_inv:
  assumes "generic_hold hold" "machine_inv m" "\<not> meip_up m"
  shows "machine_inv (env_upd (riscv_cpu_reset_hold hold v) m)"
  using assms by (simp add: machine_inv_def line_ok_def meip_up_def riscv_cpu_reset_hold_def generic_hold_def ienr_on_def)

lemma reset_tail_inv:
  assumes h: "eth_host_ok h" and m: "machine_inv m"
  shows "machine_inv (reset_tail h m)"
proof -
  have e: "machine_inv (ch32_eth_reset rescan h x)" if "machine_inv x" "m_eth x \<noteq> None" for x
    unfolding eth_reset_eq[OF h that(2)] by (intro inv_resync) (simp add: that(1) inv_simps)
  have d: "machine_inv (eth_10m_reset rescan x)" if "machine_inv x" for x
    unfolding eth_10m_reset_def Let_def by (intro inv_resync) (simp add: that inv_simps)
  have t: "machine_inv (ch32_tim_reset rescan x)" if "machine_inv x" for x
    unfolding ch32_tim_reset_def
  proof -
    have "machine_inv (fold (\<lambda>i m. ch32_tim_meip_update i (ch32_tim_irqn ! i) rescan (tim_upd i ch32_tim_reset_one m)) [0..<k] x)"
      if "k \<le> 6" for k
      using that
    proof (induction k)
      case (Suc k)
      then show ?case using inv_tim_update[of k] by (simp add: inv_simps)
    qed (simp add: \<open>machine_inv x\<close>)
    from this[of 6] show "machine_inv (fold (\<lambda>i m. ch32_tim_meip_update i (ch32_tim_irqn ! i) rescan
      (tim_upd i ch32_tim_reset_one m)) [0..<6] x)" by simp
  qed
  show ?thesis unfolding reset_tail_def Let_def using m e d t by simp
qed

text \<open>A reset while nobody owns the slot keeps the invariant.\<close>

lemma reset_idle_inv:
  assumes hold: "generic_hold hold" and eh: "eth_host_ok eh" and m: "machine_inv (bm s)" and o: "owner (bm s) = 0"
  shows "machine_inv (bm (ch32_machine_reset rescan ch cf eh hold v s))"
proof -
  let ?u = "(usbm s)\<lparr>um := reset_head (bm s)\<rparr>"
  let ?d = "ch32_usb_reset_defaults rescan ch cf ?u"
  have nz: "\<forall>x \<in> set lite_irq. (0 :: u32) \<noteq> of_nat x" "length lite_irq = 7" by (simp_all add: lite_irq_def)
  have H: "owner (reset_head (bm s)) = 0 \<and> meip_up (reset_head (bm s)) = meip_up (bm s)"
    using reset_head_line[of "bm s"] o nz by (simp add: CH32_USART1_NVIC_IRQ_def)
  have "irqs_off (um ?u)"
    using arg_cong[OF reset_head_view[of "bm s"], of "\<lambda>t. pfic_ienr (fst t)"]
    by (intro irqs_off_reset) (simp add: reset_view_def)
  then have "meip_up (um ?d) = meip_up (bm s)"
    using usb_reset_line[of ?u ch cf] H by (simp add: CH32_USBHS_NVIC_IRQ_def CH32_USBFS_NVIC_IRQ_def)
  moreover have "\<not> meip_up (bm s)" using m o by (simp add: machine_inv_def line_ok_def meip_up_def)
  ultimately have "machine_inv (env_upd (riscv_cpu_reset_hold hold v) (um ?d))"
    using core_reset_inv[OF hold usb_defaults_machine_inv[of ?u ch cf]] reset_head_inv[OF m] by simp
  then show ?thesis unfolding machine_reset_eq by (rule reset_tail_inv[OF eh])
qed

section \<open>From allocation to the first instruction\<close>

text \<open>The object as QOM allocates it, zero-filled, as far as the invariant is concerned.\<close>

definition fresh_machine :: "machine \<Rightarrow> bool" where
  "fresh_machine m \<longleftrightarrow>
     mip (m_cpu m) = 0 \<and> owner m = 0 \<and> wch_vtf_in_isr (m_cpu m) = 0 \<and> \<not> out_of_fuel m"

lemma init_parts [simp]:
  "um (ch32_usbhost_machine_init u) = (um u)\<lparr>usb_host_inited := True\<rparr>"
  "um (ch32_usbfs_host_machine_init u) = (um u)\<lparr>usbfs_host_inited := True\<rparr>"
  by (cases "um u"; simp add: ch32_usbhost_machine_init_def ch32_usbfs_host_machine_init_def)+

lemma tim_init_frame:
  "m_cpu (ch32_tim_init_all m) = m_cpu m" "m_pfic (ch32_tim_init_all m) = m_pfic m"
  "out_of_fuel (ch32_tim_init_all m) = out_of_fuel m"
proof -
  have "m_cpu (fold (\<lambda>i. tim_upd i f) is m) = m_cpu m \<and> m_pfic (fold (\<lambda>i. tim_upd i f) is m) = m_pfic m \<and>
      out_of_fuel (fold (\<lambda>i. tim_upd i f) is m) = out_of_fuel m" for f "is"
    by (induction "is" arbitrary: m) simp_all
  then show "m_cpu (ch32_tim_init_all m) = m_cpu m" "m_pfic (ch32_tim_init_all m) = m_pfic m"
    "out_of_fuel (ch32_tim_init_all m) = out_of_fuel m"
    unfolding ch32_tim_init_all_def by blast+
qed

lemma usb_defaults_fresh:
  fixes ch cf :: "'d usb_core"
  assumes "irqs_off (um u)" "owner (um u) = 0" "machine_inv (um u)"
  defines "d \<equiv> um (ch32_usb_reset_defaults rescan ch cf u)"
  shows "irqs_off d" "owner d = 0" "machine_inv d"
proof -
  show "irqs_off d" unfolding d_def using irqs_off_reset_view[OF usb_reset_reset_view] assms(1) by metis
  show "owner d = 0" unfolding d_def
    using usb_reset_line[OF assms(1)] assms(2) by (simp add: CH32_USBHS_NVIC_IRQ_def CH32_USBFS_NVIC_IRQ_def)
  show "machine_inv d" unfolding d_def by (rule usb_defaults_machine_inv[OF assms(3)])
qed

lemma init_state_inv:
  assumes f: "fresh_machine (bm s)"
  shows "machine_inv (bm (machine_init_state rescan ch cf s)) \<and> owner (bm (machine_init_state rescan ch cf s)) = 0"
proof -
  let ?m1 = "(bm s)\<lparr>usbfs_host_inited := True, usb_host_inited := True\<rparr>"
  let ?m7 = "ch32_tim_init_all (stk_pfic_init (ch32_bkp_reset (rcc_words_update (\<lambda>_. (replicate 32 0)[0 := 1])
    (ch32_usart1_init_mr ?m1))))"
  have m7: "irqs_off ?m7" "owner ?m7 = 0" "machine_inv ?m7"
    using f by (simp_all add: irqs_off_def machine_inv_def line_ok_def ienr_on_def tim_init_frame stk_pfic_init_def
        ch32_bkp_reset_def ch32_usart1_init_mr_def fresh_machine_def)
  let ?s7 = "bm_upd ch32_tim_init_all (iwdt_update ch32_iwdt_init_mr (gpio_update ch32_gpio_afio_reset
    (bm_upd stk_pfic_init (ch32_soft_state_reset (bm_upd ch32_usart1_init_mr
      (usbm_update (ch32_usbhost_machine_init \<circ> ch32_usbfs_host_machine_init) s))))))"
  have "um (ch32_usbhost_machine_init (ch32_usbfs_host_machine_init (usbm s))) = ?m1" by simp
  then have s7: "bm ?s7 = ?m7"
    by (simp add: bm_stages)
  let ?u = "usbm (?s7\<lparr>ahb_misc_ram := replicate CH32_AHB_MISC_SIZE 0\<rparr>)"
  have u: "um ?u = ?m7" using s7 by simp
  note D1 = usb_defaults_fresh[of ?u, unfolded u, OF m7]
  note D2 = usb_defaults_fresh[OF D1]
  have eq: "bm (machine_init_state rescan ch cf s) =
      ch32_usart_lite_init_mr (um (ch32_usb_reset_defaults rescan ch cf (ch32_usb_reset_defaults rescan ch cf ?u)))"
    by (simp add: machine_init_state_def Let_def bm_stages(7) ch32_usb_init_mr_def)
  show ?thesis unfolding eq using D2 by (simp add: ch32_usart_lite_init_mr_def inv_simps)
qed

lemma attach_frame:
  assumes "machine_attach_nic e d n m = Some m'"
  shows "machine_inv m' = machine_inv m" "owner m' = owner m"
  using assms
  by (auto simp: machine_attach_nic_def ch32_eth_set_machine_def ch32_eth_10m_set_machine_def inv_simps
      split: option.splits nic.splits)

lemma init_state_flash: "flash_mem (flash (machine_init_state r ch cf s)) = flash_mem (flash s)"
  by (simp add: machine_init_state_def ch32_soft_state_reset_def ch32_ahb_misc_reset_defaults_def Let_def)

lemma fresh_core_reset:
  "generic_hold hold \<Longrightarrow> fresh_machine m \<Longrightarrow> fresh_machine (env_upd (riscv_cpu_reset_hold hold v) m)"
  by (simp add: fresh_machine_def generic_hold_def riscv_cpu_reset_hold_def)

lemma machine_init_inv:
  assumes "fresh_machine (bm s)" "generic_hold hold"
    "ch32_machine_init rescan ch cf hold e d xdv load_elf load_file bd kfile p s = Inr (s', v, esig)"
  shows "machine_inv (bm s')" "owner (bm s') = 0"
proof -
  have "fresh_machine (bm (bm_upd (env_upd (riscv_cpu_reset_hold hold v)) (s\<lparr>flash := fl\<rparr>)))" for fl
    using fresh_core_reset[OF assms(2,1)] by simp
  note I = init_state_inv[OF this, of ch cf]
  show "machine_inv (bm s')" "owner (bm s') = 0"
    using assms(3) I by (auto simp: ch32_machine_init_def Let_def attach_frame split: option.splits)
qed

text \<open>The network devices of the ten boards can be realized.\<close>

lemma boards_attach:
  assumes "bd \<in> set ch32_boards"
  shows "\<exists>m'. machine_attach_nic e d (machine_nic (default_nic bd)) m = Some m'"
proof -
  have "machine_nic (default_nic bd) \<in> {None, Some Nic_10m, Some (Nic_dwmac None), Some (Nic_dwmac (Some ''phy10m''))}"
    using assms
    by (auto simp: ch32_boards_def ch32_board_ch32v317_def ch32_board_ch32v307_def ch32_board_ch32v305_def
        ch32_board_ch32v303_def ch32_board_ch32v203_def ch32_board_ch32v203rb_def ch32_board_ch32v103_def
        ch32_board_ch32v003_def ch32_board_ch32h417_def ch32_board_ch32v407_def machine_nic_def)
  then show ?thesis by (auto simp: machine_attach_nic_def ch32_eth_realize_def eth_phy_model_def)
qed


definition e10_zero :: eth10m_state where
  "e10_zero = \<lparr>e10_regs = replicate 0x30 0, e10_phy_regs = replicate 32 0, e10_rx_stash = [],
     e10_irq_active = False, link_up_deadline_ns = 0, link_announced = False, link_timer = Timer_null\<rparr>"

text \<open>The V307 board with a raw image of one word in a flash of 4 KiB.\<close>

definition image_props :: machine_props where
  "image_props = \<lparr>flash_image = Some ''app.bin'', flash_size_cfg = 0x1000, the_boot_mode = Boot_flash\<rparr>"

lemma image_boots:
  "machine_firmware (\<lambda>_. None) (\<lambda>_. Some [0x13, 0, 0, 0]) None image_props = Some (Fw_bin (Some [0x13, 0, 0, 0]))"
  "\<exists>fl. boot_reset_vector xdigit_ref (the_boot_mode image_props) (machine_flash_sz bd image_props)
     (Fw_bin (Some [0x13, 0, 0, 0])) = Some (fl, 0x08000000)"
proof -
  show "machine_firmware (\<lambda>_. None) (\<lambda>_. Some [0x13, 0, 0, 0]) None image_props = Some (Fw_bin (Some [0x13, 0, 0, 0]))"
    by (simp add: machine_firmware_def image_props_def suffix_def Let_def)
  let ?fl = "mem_store 0 [0x13, 0, 0, 0] (replicate 0x1000 0xff) :: u8 list"
  have "take 4 ?fl = [0x13, 0, 0, 0]" by (simp add: mem_store_def)
  then have "ldl_le 0 ?fl = 0x13" by (simp add: ldl_le_def)
  then show "\<exists>fl. boot_reset_vector xdigit_ref (the_boot_mode image_props) (machine_flash_sz bd image_props)
     (Fw_bin (Some [0x13, 0, 0, 0])) = Some (fl, 0x08000000)"
    by (simp add: image_props_def machine_flash_sz_def boot_reset_vector_def boot_load_def is_elf_def boot_follow_jal_def
        ch32_flash_patch_vector_jal_if_needed_def CH32_FLASH_BAD_VEC_JAL_def BOOT_FLASH_BASE_def)
qed


end
