(* ===== verification/Ch32_Csr.thy ===== *)
theory Ch32_Csr
  imports Ch32_Machine Ch32_PowerOn
begin

text \<open>
  Control and status registers (\<open>csr.c\<close>, and the helpers of \<open>op_helper.c\<close> that execute the CSR
  instructions): the access check, the read-modify-write dispatch over the table \<open>csr_ops\<close> and the
  accessors of the registers a QingKe core has, the WCH registers among them.

  The branches for supervisor mode, hypervisor, AIA, vectors, state enable, counter filtering and
  writable \<open>misa\<close> are those of extensions the cores leave off. The floating-point status word and the
  physical memory protection keep their registers in files that are not in the repository
  (\<open>fpu_helper.c\<close>, \<open>pmp.c\<close>): the state is a word and a list here, and the functions of those files that
  read and write it are fields of \<open>csr_host\<close>. The event selectors and triggers (\<open>pmu.c\<close>, \<open>debug.c\<close>) and
  the registers of the extensions the cores leave off are not in the table.
\<close>

unbundle bit_operations_syntax

section \<open>State\<close>

text \<open>
  \<open>core\<close> holds the fields the trap path uses, but for \<open>mstatus\<close>, which is the whole 64-bit word here.
  \<open>xepc_mask\<close> is the value of \<open>get_xepc_mask\<close>.
\<close>

record pmu_ctr =
  mhpmcounter_val :: u32
  mhpmcounterh_val :: u32
  mhpmcounter_prev :: u32
  mhpmcounterh_prev :: u32

record csr_cfg =
  ext_zicsr :: bool
  priv_ver :: nat
  ext_zve32x :: bool
  ext_zfinx :: bool
  pmp_unit :: bool
  ext_zicntr :: bool
  misa_ext :: u32
  ids :: "u64 \<times> u64 \<times> u64"
  mhartid :: u32
  pmu_avail_ctrs :: u32
  xepc_mask :: u32

record csr_env =
  core :: cpu_state
  ccfg :: csr_cfg
  debugger :: bool
  mstatus_word :: u64
  mscratch :: u32
  mcounteren :: u32
  mcountinhibit :: u32
  menvcfg :: u64
  external_seip :: bool
  software_seip :: bool
  pmu_ctrs :: "pmu_ctr list"
  frm :: u32
  fp_status :: u32
  pmp_regs :: "u32 list"

text \<open>The fields of the status word as the trap path sees them, and the core with them.\<close>

definition mstatus_of :: "u64 \<Rightarrow> mstatus_fields" where
  "mstatus_of w =
     \<lparr>ms_sie = bit w 1, ms_mie = bit w 3, ms_spie = bit w 5, ms_spp = unat (drop_bit 8 w AND 1),
      ms_mpie = bit w 7, ms_mpp = unat (drop_bit 11 w AND 3), ms_fs = unat (drop_bit 13 w AND 3),
      ms_mprv = bit w 17, ms_mpv = bit w 39, ms_mpelp = bit w 41\<rparr>"

definition hart_core :: "csr_env \<Rightarrow> cpu_state" where
  "hart_core env = (core env)\<lparr>mstatus := mstatus_of (mstatus_word env)\<rparr>"

text \<open>
  QEMU's services: which counters count cycles or instructions, the ticks of either, the platform timer
  (\<open>rdtime_fn\<close>, \<open>None\<close> when not set), the accessors of the floating-point flags and of the protection unit.
\<close>

record csr_host =
  mon_cycles :: "nat \<Rightarrow> bool"
  mon_instr :: "nat \<Rightarrow> bool"
  ctr_ticks :: "bool \<Rightarrow> u64"
  rdtime :: "u64 option"
  riscv_cpu_get_fflags :: "u32 \<Rightarrow> u32"
  riscv_cpu_set_fflags :: "u32 \<Rightarrow> u32 \<Rightarrow> u32"
  pmpcfg_csr_read :: "u32 list \<Rightarrow> nat \<Rightarrow> u32"
  pmpcfg_csr_write :: "u32 list \<Rightarrow> nat \<Rightarrow> u32 \<Rightarrow> u32 list"
  pmpaddr_csr_read :: "u32 list \<Rightarrow> nat \<Rightarrow> u32"
  pmpaddr_csr_write :: "u32 list \<Rightarrow> nat \<Rightarrow> u32 \<Rightarrow> u32 list"

definition RVF :: nat where "RVF = 5"
definition RVS :: nat where "RVS = 18"
definition RVU :: nat where "RVU = 20"

lemmas rv_defs = RVF_def RVS_def RVU_def

definition riscv_has_ext :: "csr_env \<Rightarrow> nat \<Rightarrow> bool" where
  "riscv_has_ext env e = bit (misa_ext (ccfg env)) e"

section \<open>The table of operations\<close>

text \<open>
  A predicate returns the exception it raises. \<open>op_f\<close> is the combined operation (old value and state).
  Versions of the privileged specification are numbered from 1.10 on.
\<close>

record csr_operations =
  pred_f :: "(csr_env \<Rightarrow> nat \<Rightarrow> riscv_excp option) option"
  read_f :: "(csr_env \<Rightarrow> nat \<Rightarrow> riscv_excp + u32) option"
  write_f :: "(csr_env \<Rightarrow> nat \<Rightarrow> u32 \<Rightarrow> riscv_excp + csr_env) option"
  op_f :: "(csr_env \<Rightarrow> nat \<Rightarrow> u32 \<Rightarrow> u32 \<Rightarrow> riscv_excp + u32 \<times> csr_env) option"
  min_priv_ver :: nat

definition PRIV_VERSION_1_11_0 :: nat where "PRIV_VERSION_1_11_0 = 1"
definition PRIV_VERSION_1_12_0 :: nat where "PRIV_VERSION_1_12_0 = 2"

type_synonym csr_table = "nat \<Rightarrow> csr_operations"

section \<open>Access\<close>

definition csr_priv :: "nat \<Rightarrow> nat" where "csr_priv csrno = csrno div 0x100 mod 4"
definition csr_read_only :: "nat \<Rightarrow> bool" where "csr_read_only csrno \<longleftrightarrow> csrno div 0x400 mod 4 = 3"

definition riscv_csrrw_check :: "csr_table \<Rightarrow> csr_env \<Rightarrow> nat \<Rightarrow> bool \<Rightarrow> riscv_excp option" where
  "riscv_csrrw_check ops env csrno write =
     (if \<not> ext_zicsr (ccfg env) then Some RISCV_EXCP_ILLEGAL_INST
      else case pred_f (ops csrno) of
        None \<Rightarrow> Some RISCV_EXCP_ILLEGAL_INST
      | Some predicate \<Rightarrow>
          if priv_ver (ccfg env) < min_priv_ver (ops csrno) then Some RISCV_EXCP_ILLEGAL_INST
          else if write \<and> csr_read_only csrno then Some RISCV_EXCP_ILLEGAL_INST
          else case predicate env csrno of
            Some e \<Rightarrow> Some e
          | None \<Rightarrow>
              if \<not> debugger env \<and> priv (core env) < csr_priv csrno then Some RISCV_EXCP_ILLEGAL_INST
              else None)"

text \<open>\<open>want\<close> is false for a null result pointer: the register is then not read.\<close>

definition riscv_csrrw_do64 ::
    "csr_table \<Rightarrow> csr_env \<Rightarrow> nat \<Rightarrow> bool \<Rightarrow> u32 \<Rightarrow> u32 \<Rightarrow> riscv_excp + u32 \<times> csr_env" where
  "riscv_csrrw_do64 ops env csrno want new_value write_mask =
     (case op_f (ops csrno) of
        Some op \<Rightarrow> op env csrno new_value write_mask
      | None \<Rightarrow>
          (case (if want then (case read_f (ops csrno) of
                                 None \<Rightarrow> Inl RISCV_EXCP_ILLEGAL_INST
                               | Some rd \<Rightarrow> rd env csrno)
                 else Inr 0) of
             Inl e \<Rightarrow> Inl e
           | Inr old_value \<Rightarrow>
               if write_mask \<noteq> 0 then
                 let new_value' = (old_value AND NOT write_mask) OR (new_value AND write_mask) in
                 case write_f (ops csrno) of
                   None \<Rightarrow> Inr (old_value, env)
                 | Some wr \<Rightarrow>
                     (case wr env csrno new_value' of
                        Inl e \<Rightarrow> Inl e
                      | Inr env' \<Rightarrow> Inr (old_value, env'))
               else Inr (old_value, env)))"

definition riscv_csrr :: "csr_table \<Rightarrow> csr_env \<Rightarrow> nat \<Rightarrow> riscv_excp + u32 \<times> csr_env" where
  "riscv_csrr ops env csrno =
     (case riscv_csrrw_check ops env csrno False of
        Some e \<Rightarrow> Inl e
      | None \<Rightarrow> riscv_csrrw_do64 ops env csrno True 0 0)"

definition riscv_csrrw ::
    "csr_table \<Rightarrow> csr_env \<Rightarrow> nat \<Rightarrow> bool \<Rightarrow> u32 \<Rightarrow> u32 \<Rightarrow> riscv_excp + u32 \<times> csr_env" where
  "riscv_csrrw ops env csrno want new_value write_mask =
     (case riscv_csrrw_check ops env csrno True of
        Some e \<Rightarrow> Inl e
      | None \<Rightarrow> riscv_csrrw_do64 ops env csrno want new_value write_mask)"

definition CSR_SEED :: nat where "CSR_SEED = 0x15"

definition helper_csrr :: "csr_table \<Rightarrow> nat \<Rightarrow> csr_env \<Rightarrow> riscv_excp + u32 \<times> csr_env" where
  "helper_csrr ops csr env =
     (if csr = CSR_SEED then Inl RISCV_EXCP_ILLEGAL_INST else riscv_csrr ops env csr)"

definition helper_csrw :: "csr_table \<Rightarrow> nat \<Rightarrow> u32 \<Rightarrow> csr_env \<Rightarrow> riscv_excp + csr_env" where
  "helper_csrw ops csr src env = map_sum id snd (riscv_csrrw ops env csr False src (- 1))"

definition helper_csrrw :: "csr_table \<Rightarrow> nat \<Rightarrow> u32 \<Rightarrow> u32 \<Rightarrow> csr_env \<Rightarrow> riscv_excp + u32 \<times> csr_env" where
  "helper_csrrw ops csr src write_mask env = riscv_csrrw ops env csr True src write_mask"

section \<open>Predicates\<close>

definition any :: "csr_env \<Rightarrow> nat \<Rightarrow> riscv_excp option" where
  "any env csrno = None"

definition any32 :: "csr_env \<Rightarrow> nat \<Rightarrow> riscv_excp option" where
  "any32 env csrno = any env csrno"

definition umode :: "csr_env \<Rightarrow> nat \<Rightarrow> riscv_excp option" where
  "umode env csrno = (if riscv_has_ext env RVU then None else Some RISCV_EXCP_ILLEGAL_INST)"

definition umode32 :: "csr_env \<Rightarrow> nat \<Rightarrow> riscv_excp option" where
  "umode32 env csrno = umode env csrno"

definition CSR_CYCLE :: nat where "CSR_CYCLE = 0xC00"
definition CSR_INSTRET :: nat where "CSR_INSTRET = 0xC02"
definition CSR_HPMCOUNTER31 :: nat where "CSR_HPMCOUNTER31 = 0xC1F"
definition CSR_CYCLEH :: nat where "CSR_CYCLEH = 0xC80"
definition CSR_INSTRETH :: nat where "CSR_INSTRETH = 0xC82"
definition CSR_HPMCOUNTER31H :: nat where "CSR_HPMCOUNTER31H = 0xC9F"
definition CSR_MCYCLE :: nat where "CSR_MCYCLE = 0xB00"
definition CSR_MHPMCOUNTER3 :: nat where "CSR_MHPMCOUNTER3 = 0xB03"
definition CSR_MHPMCOUNTER31 :: nat where "CSR_MHPMCOUNTER31 = 0xB1F"
definition CSR_MCYCLEH :: nat where "CSR_MCYCLEH = 0xB80"
definition CSR_MHPMCOUNTER31H :: nat where "CSR_MHPMCOUNTER31H = 0xB9F"

lemmas ctr_csrs = CSR_CYCLE_def CSR_INSTRET_def CSR_HPMCOUNTER31_def CSR_CYCLEH_def CSR_INSTRETH_def
  CSR_HPMCOUNTER31H_def CSR_MCYCLE_def CSR_MHPMCOUNTER3_def CSR_MHPMCOUNTER31_def CSR_MCYCLEH_def
  CSR_MHPMCOUNTER31H_def

definition ctr :: "csr_env \<Rightarrow> nat \<Rightarrow> riscv_excp option" where
  "ctr env csrno =
     (let base_csrno = (if csrno \<ge> CSR_CYCLEH then CSR_CYCLE + 0x80 else CSR_CYCLE);
          ctr_index = csrno - base_csrno;
          fixed = csrno \<ge> CSR_CYCLE \<and> csrno \<le> CSR_INSTRET \<or> csrno \<ge> CSR_CYCLEH \<and> csrno \<le> CSR_INSTRETH
      in if fixed \<and> \<not> ext_zicntr (ccfg env) then Some RISCV_EXCP_ILLEGAL_INST
         else if \<not> fixed \<and> \<not> bit (pmu_avail_ctrs (ccfg env)) ctr_index then Some RISCV_EXCP_ILLEGAL_INST
         else if debugger env then None
         else if priv (core env) < PRV_M \<and> \<not> bit (mcounteren env) ctr_index
              then Some RISCV_EXCP_ILLEGAL_INST
         else None)"

definition ctr32 :: "csr_env \<Rightarrow> nat \<Rightarrow> riscv_excp option" where
  "ctr32 env csrno = ctr env csrno"

definition mctr :: "csr_env \<Rightarrow> nat \<Rightarrow> riscv_excp option" where
  "mctr env csrno =
     (let csrno' = (if csrno \<ge> CSR_MCYCLEH then csrno - 0x80 else csrno);
          ctr_index = csrno' - CSR_MHPMCOUNTER3
      in if \<not> bit (drop_bit 3 (pmu_avail_ctrs (ccfg env))) ctr_index then Some RISCV_EXCP_ILLEGAL_INST
         else None)"

definition mctr32 :: "csr_env \<Rightarrow> nat \<Rightarrow> riscv_excp option" where
  "mctr32 env csrno = mctr env csrno"

section \<open>Machine status\<close>

definition MSTATUS_SIE :: u64 where "MSTATUS_SIE = 0x2"
definition MSTATUS_MIE :: u64 where "MSTATUS_MIE = 0x8"
definition MSTATUS_SPIE :: u64 where "MSTATUS_SPIE = 0x20"
definition MSTATUS_MPIE :: u64 where "MSTATUS_MPIE = 0x80"
definition MSTATUS_SPP :: u64 where "MSTATUS_SPP = 0x100"
definition MSTATUS_VS :: u64 where "MSTATUS_VS = 0x600"
definition MSTATUS_MPP :: u64 where "MSTATUS_MPP = 0x1800"
definition MSTATUS_FS :: u64 where "MSTATUS_FS = 0x6000"
definition MSTATUS_XS :: u64 where "MSTATUS_XS = 0x18000"
definition MSTATUS_MPRV :: u64 where "MSTATUS_MPRV = 0x20000"
definition MSTATUS_SUM :: u64 where "MSTATUS_SUM = 0x40000"
definition MSTATUS_MXR :: u64 where "MSTATUS_MXR = 0x80000"
definition MSTATUS_TVM :: u64 where "MSTATUS_TVM = 0x100000"
definition MSTATUS_TW :: u64 where "MSTATUS_TW = 0x200000"
definition MSTATUS_TSR :: u64 where "MSTATUS_TSR = 0x400000"
definition MSTATUS_SDT :: u64 where "MSTATUS_SDT = 0x1000000"
definition MSTATUS32_SD :: u64 where "MSTATUS32_SD = 0x80000000"

lemmas mstatus_masks = MSTATUS_SIE_def MSTATUS_MIE_def MSTATUS_SPIE_def MSTATUS_MPIE_def MSTATUS_SPP_def
  MSTATUS_VS_def MSTATUS_MPP_def MSTATUS_FS_def MSTATUS_XS_def MSTATUS_MPRV_def MSTATUS_SUM_def
  MSTATUS_MXR_def MSTATUS_TVM_def MSTATUS_TW_def MSTATUS_TSR_def MSTATUS_SDT_def MSTATUS32_SD_def

definition add_status_sd :: "u64 \<Rightarrow> u64" where
  "add_status_sd status =
     (if status AND MSTATUS_FS = MSTATUS_FS \<or> status AND MSTATUS_VS = MSTATUS_VS \<or>
         status AND MSTATUS_XS = MSTATUS_XS
      then status OR MSTATUS32_SD else status)"

definition read_mstatus :: "csr_env \<Rightarrow> nat \<Rightarrow> riscv_excp + u32" where
  "read_mstatus env csrno = Inr (ucast (add_status_sd (mstatus_word env)))"

definition legalize_mpp :: "csr_env \<Rightarrow> u32 \<Rightarrow> u32 \<Rightarrow> u32" where
  "legalize_mpp env old_mpp val =
     (let new_mpp = unat (drop_bit 11 val AND 3);
          valid = (if new_mpp = PRV_M then True
                   else if new_mpp = PRV_S then riscv_has_ext env RVS
                   else if new_mpp = PRV_U then riscv_has_ext env RVU
                   else False)
      in if \<not> valid then (val AND NOT (ucast MSTATUS_MPP)) OR (push_bit 11 old_mpp AND ucast MSTATUS_MPP)
         else val)"

definition mstatus_write_mask :: "csr_env \<Rightarrow> u64" where
  "mstatus_write_mask env =
     MSTATUS_SIE OR MSTATUS_SPIE OR MSTATUS_MIE OR MSTATUS_MPIE OR MSTATUS_SPP OR MSTATUS_MPRV OR
     MSTATUS_SUM OR MSTATUS_MPP OR MSTATUS_MXR OR MSTATUS_TVM OR MSTATUS_TSR OR MSTATUS_TW OR
     (if riscv_has_ext env RVF then MSTATUS_FS else 0) OR
     (if ext_zve32x (ccfg env) then MSTATUS_VS else 0)"

definition write_mstatus :: "csr_env \<Rightarrow> nat \<Rightarrow> u32 \<Rightarrow> riscv_excp + csr_env" where
  "write_mstatus env csrno val0 =
     (let mstat = mstatus_word env;
          val = legalize_mpp env (ucast (drop_bit 11 mstat AND 3)) val0;
          mask = mstatus_write_mask env
      in Inr (env\<lparr>mstatus_word := (mstat AND NOT mask) OR (ucast val AND mask)\<rparr>))"

definition read_mstatush :: "csr_env \<Rightarrow> nat \<Rightarrow> riscv_excp + u32" where
  "read_mstatush env csrno = Inr (ucast (drop_bit 32 (mstatus_word env)))"

text \<open>Without the hypervisor extension and double traps no bit of the upper half is writable.\<close>

definition write_mstatush :: "csr_env \<Rightarrow> nat \<Rightarrow> u32 \<Rightarrow> riscv_excp + csr_env" where
  "write_mstatush env csrno val =
     (let valh = push_bit 32 (ucast val) :: u64; mask = 0
      in Inr (env\<lparr>mstatus_word := (mstatus_word env AND NOT mask) OR (valh AND mask)\<rparr>))"

definition read_misa :: "csr_env \<Rightarrow> nat \<Rightarrow> riscv_excp + u32" where
  "read_misa env csrno = Inr (push_bit 30 1 OR misa_ext (ccfg env))"

text \<open>\<open>misa_w\<close> is off on these cores.\<close>

definition write_misa :: "csr_env \<Rightarrow> nat \<Rightarrow> u32 \<Rightarrow> riscv_excp + csr_env" where
  "write_misa env csrno val = Inr env"

section \<open>Interrupt registers\<close>

definition S_MODE_INTERRUPTS :: u64 where "S_MODE_INTERRUPTS = 0x222"
definition VS_MODE_INTERRUPTS :: u64 where "VS_MODE_INTERRUPTS = 0x444"
definition M_MODE_INTERRUPTS :: u64 where "M_MODE_INTERRUPTS = 0x888"
definition HS_MODE_INTERRUPTS :: u64 where "HS_MODE_INTERRUPTS = 0x1444"
definition MIP_LCOFIP :: u64 where "MIP_LCOFIP = 0x2000"
definition LOCAL_INTERRUPTS :: u64 where "LOCAL_INTERRUPTS = NOT 0x1FFF"

definition delegable_ints :: u64 where
  "delegable_ints = S_MODE_INTERRUPTS OR VS_MODE_INTERRUPTS OR MIP_LCOFIP"

definition all_ints :: u64 where
  "all_ints = M_MODE_INTERRUPTS OR S_MODE_INTERRUPTS OR HS_MODE_INTERRUPTS OR LOCAL_INTERRUPTS"

lemmas int_masks = delegable_ints_def all_ints_def S_MODE_INTERRUPTS_def VS_MODE_INTERRUPTS_def
  M_MODE_INTERRUPTS_def HS_MODE_INTERRUPTS_def MIP_LCOFIP_def LOCAL_INTERRUPTS_def

definition rmw_mie64 :: "csr_env \<Rightarrow> u64 \<Rightarrow> u64 \<Rightarrow> u64 \<times> csr_env" where
  "rmw_mie64 env new_val wr_mask =
     (let mask = wr_mask AND all_ints;
          ie = (mie (core env) AND NOT mask) OR (new_val AND mask)
      in (mie (core env), env\<lparr>core := (core env)\<lparr>mie := ie AND NOT HS_MODE_INTERRUPTS\<rparr>\<rparr>))"

definition rmw_mie :: "csr_env \<Rightarrow> nat \<Rightarrow> u32 \<Rightarrow> u32 \<Rightarrow> riscv_excp + u32 \<times> csr_env" where
  "rmw_mie env csrno new_val wr_mask =
     (let (rval, env') = rmw_mie64 env (ucast new_val) (ucast wr_mask) in Inr (ucast rval, env'))"

definition rmw_mip64 :: "csr_env \<Rightarrow> u64 \<Rightarrow> u64 \<Rightarrow> u64 \<times> csr_env" where
  "rmw_mip64 env0 new_val0 wr_mask =
     (let mask = wr_mask AND delegable_ints;
          seip = bit mask 9;
          env = (if seip then env0\<lparr>software_seip := bit new_val0 9\<rparr> else env0);
          new_val = (if seip \<and> external_seip env then new_val0 OR one_bit 9 else new_val0);
          old_mip = mip (core env);
          env' = (if mask \<noteq> 0 then env\<lparr>core := riscv_cpu_update_mip mask (new_val AND mask) (core env)\<rparr> else env)
      in (old_mip OR (if vstime_irq (core env) then MIP_VSTIP else 0), env'))"

definition rmw_mip :: "csr_env \<Rightarrow> nat \<Rightarrow> u32 \<Rightarrow> u32 \<Rightarrow> riscv_excp + u32 \<times> csr_env" where
  "rmw_mip env csrno new_val wr_mask =
     (let (rval, env') = rmw_mip64 env (ucast new_val) (ucast wr_mask) in Inr (ucast rval, env'))"

section \<open>Trap registers\<close>

definition read_mtvec :: "csr_env \<Rightarrow> nat \<Rightarrow> riscv_excp + u32" where
  "read_mtvec env csrno = Inr (mtvec (core env))"

definition write_mtvec_csr :: "csr_env \<Rightarrow> nat \<Rightarrow> u32 \<Rightarrow> riscv_excp + csr_env" where
  "write_mtvec_csr env csrno val = Inr (env\<lparr>core := write_mtvec val (core env)\<rparr>)"

definition read_mscratch :: "csr_env \<Rightarrow> nat \<Rightarrow> riscv_excp + u32" where
  "read_mscratch env csrno = Inr (mscratch env)"

definition write_mscratch :: "csr_env \<Rightarrow> nat \<Rightarrow> u32 \<Rightarrow> riscv_excp + csr_env" where
  "write_mscratch env csrno val = Inr (env\<lparr>mscratch := val\<rparr>)"

definition read_mepc :: "csr_env \<Rightarrow> nat \<Rightarrow> riscv_excp + u32" where
  "read_mepc env csrno = Inr (mepc (core env) AND xepc_mask (ccfg env))"

definition write_mepc :: "csr_env \<Rightarrow> nat \<Rightarrow> u32 \<Rightarrow> riscv_excp + csr_env" where
  "write_mepc env csrno val = Inr (env\<lparr>core := (core env)\<lparr>mepc := val AND xepc_mask (ccfg env)\<rparr>\<rparr>)"

definition read_mcause :: "csr_env \<Rightarrow> nat \<Rightarrow> riscv_excp + u32" where
  "read_mcause env csrno = Inr (mcause (core env))"

definition write_mcause :: "csr_env \<Rightarrow> nat \<Rightarrow> u32 \<Rightarrow> riscv_excp + csr_env" where
  "write_mcause env csrno val = Inr (env\<lparr>core := (core env)\<lparr>mcause := val\<rparr>\<rparr>)"

definition read_mtval :: "csr_env \<Rightarrow> nat \<Rightarrow> riscv_excp + u32" where
  "read_mtval env csrno = Inr (mtval (core env))"

definition write_mtval :: "csr_env \<Rightarrow> nat \<Rightarrow> u32 \<Rightarrow> riscv_excp + csr_env" where
  "write_mtval env csrno val = Inr (env\<lparr>core := (core env)\<lparr>mtval := val\<rparr>\<rparr>)"

section \<open>Identification, configuration and WCH registers\<close>

definition read_zero :: "csr_env \<Rightarrow> nat \<Rightarrow> riscv_excp + u32" where
  "read_zero env csrno = Inr 0"

definition write_ignore :: "csr_env \<Rightarrow> nat \<Rightarrow> u32 \<Rightarrow> riscv_excp + csr_env" where
  "write_ignore env csrno val = Inr env"

definition read_mvendorid :: "csr_env \<Rightarrow> nat \<Rightarrow> riscv_excp + u32" where
  "read_mvendorid env csrno = Inr (ucast (fst (ids (ccfg env))))"

definition read_marchid :: "csr_env \<Rightarrow> nat \<Rightarrow> riscv_excp + u32" where
  "read_marchid env csrno = Inr (ucast (fst (snd (ids (ccfg env)))))"

definition read_mimpid :: "csr_env \<Rightarrow> nat \<Rightarrow> riscv_excp + u32" where
  "read_mimpid env csrno = Inr (ucast (snd (snd (ids (ccfg env)))))"

definition read_mhartid :: "csr_env \<Rightarrow> nat \<Rightarrow> riscv_excp + u32" where
  "read_mhartid env csrno = Inr (mhartid (ccfg env))"

definition COUNTEREN_CY :: u32 where "COUNTEREN_CY = 1"
definition COUNTEREN_TM :: u32 where "COUNTEREN_TM = 2"
definition COUNTEREN_IR :: u32 where "COUNTEREN_IR = 4"

definition read_mcounteren :: "csr_env \<Rightarrow> nat \<Rightarrow> riscv_excp + u32" where
  "read_mcounteren env csrno = Inr (mcounteren env)"

definition write_mcounteren :: "csr_env \<Rightarrow> nat \<Rightarrow> u32 \<Rightarrow> riscv_excp + csr_env" where
  "write_mcounteren env csrno val =
     Inr (env\<lparr>mcounteren := val AND (pmu_avail_ctrs (ccfg env) OR COUNTEREN_CY OR COUNTEREN_TM OR COUNTEREN_IR)\<rparr>)"

text \<open>\<open>CBIE\<close>, \<open>CBCFE\<close>, \<open>CBZE\<close>, \<open>FIOM\<close> and, in the upper half, \<open>CDE\<close>.\<close>

definition MENVCFG_LOW :: u64 where "MENVCFG_LOW = 0xF1"
definition MENVCFG_CDE :: u64 where "MENVCFG_CDE = one_bit 60"

definition read_menvcfg :: "csr_env \<Rightarrow> nat \<Rightarrow> riscv_excp + u32" where
  "read_menvcfg env csrno = Inr (ucast (menvcfg env))"

definition write_menvcfg :: "csr_env \<Rightarrow> nat \<Rightarrow> u32 \<Rightarrow> riscv_excp + csr_env" where
  "write_menvcfg env csrno val =
     (let mask = MENVCFG_LOW OR MENVCFG_CDE
      in Inr (env\<lparr>menvcfg := (menvcfg env AND NOT mask) OR (ucast val AND mask)\<rparr>))"

definition read_menvcfgh :: "csr_env \<Rightarrow> nat \<Rightarrow> riscv_excp + u32" where
  "read_menvcfgh env csrno = Inr (ucast (drop_bit 32 (menvcfg env)))"

text \<open>No extension with a bit in the upper half is on; \<open>DTE\<close> is bit 59.\<close>

definition write_menvcfgh :: "csr_env \<Rightarrow> nat \<Rightarrow> u32 \<Rightarrow> riscv_excp + csr_env" where
  "write_menvcfgh env csrno val =
     (let mask = 0 :: u64;
          valh = push_bit 32 (ucast val) :: u64;
          env1 = (if \<not> bit valh 59 then env\<lparr>mstatus_word := mstatus_word env AND NOT MSTATUS_SDT\<rparr> else env)
      in Inr (env1\<lparr>menvcfg := (menvcfg env1 AND NOT mask) OR (valh AND mask)\<rparr>))"

definition read_wch_gintenr :: "csr_env \<Rightarrow> nat \<Rightarrow> riscv_excp + u32" where
  "read_wch_gintenr env csrno = Inr (ucast (mstatus_word env))"

definition read_wch_intsyscr :: "csr_env \<Rightarrow> nat \<Rightarrow> riscv_excp + u32" where
  "read_wch_intsyscr env csrno = Inr (wch_intsyscr (core env))"

definition write_wch_intsyscr_csr :: "csr_env \<Rightarrow> nat \<Rightarrow> u32 \<Rightarrow> riscv_excp + csr_env" where
  "write_wch_intsyscr_csr env csrno val = Inr (env\<lparr>core := write_wch_intsyscr val (core env)\<rparr>)"

section \<open>Counters\<close>

text \<open>
  The source of a counter: without filters (their registers need extensions the cores leave off) the
  ticks of the clock, in the half asked for.
\<close>

definition riscv_pmu_ctr_get_fixed_counters_val :: "csr_host \<Rightarrow> nat \<Rightarrow> bool \<Rightarrow> u32" where
  "riscv_pmu_ctr_get_fixed_counters_val h counter_idx upper_half =
     (let inst = mon_instr h counter_idx; curr_val = ctr_ticks h inst
      in ucast (if upper_half then drop_bit 32 curr_val else curr_val))"

definition ctr_monitored :: "csr_host \<Rightarrow> nat \<Rightarrow> bool" where
  "ctr_monitored h i \<longleftrightarrow> mon_cycles h i \<or> mon_instr h i"

abbreviation pmu_upd :: "nat \<Rightarrow> (pmu_ctr \<Rightarrow> pmu_ctr) \<Rightarrow> csr_env \<Rightarrow> csr_env" where
  "pmu_upd i f \<equiv> pmu_ctrs_update (\<lambda>cs. cs[i := f (cs ! i)])"

text \<open>The overflow timer that counters of events arm is \<open>pmu.c\<close>'s and has no part in these registers.\<close>

definition riscv_pmu_write_ctr :: "csr_host \<Rightarrow> csr_env \<Rightarrow> u32 \<Rightarrow> nat \<Rightarrow> csr_env" where
  "riscv_pmu_write_ctr h env val i =
     (let env1 = pmu_upd i (\<lambda>c. c\<lparr>mhpmcounter_val := val\<rparr>) env
      in if \<not> bit (mcountinhibit env) i \<and> ctr_monitored h i
         then pmu_upd i (\<lambda>c. c\<lparr>mhpmcounter_prev := riscv_pmu_ctr_get_fixed_counters_val h i False\<rparr>) env1
         else pmu_upd i (\<lambda>c. c\<lparr>mhpmcounter_prev := val\<rparr>) env1)"

definition riscv_pmu_write_ctrh :: "csr_host \<Rightarrow> csr_env \<Rightarrow> u32 \<Rightarrow> nat \<Rightarrow> csr_env" where
  "riscv_pmu_write_ctrh h env val i =
     (let env1 = pmu_upd i (\<lambda>c. c\<lparr>mhpmcounterh_val := val\<rparr>) env
      in if \<not> bit (mcountinhibit env) i \<and> ctr_monitored h i
         then pmu_upd i (\<lambda>c. c\<lparr>mhpmcounterh_prev := riscv_pmu_ctr_get_fixed_counters_val h i True\<rparr>) env1
         else pmu_upd i (\<lambda>c. c\<lparr>mhpmcounterh_prev := val\<rparr>) env1)"

definition write_mhpmcounter :: "csr_host \<Rightarrow> csr_env \<Rightarrow> nat \<Rightarrow> u32 \<Rightarrow> riscv_excp + csr_env" where
  "write_mhpmcounter h env csrno val = Inr (riscv_pmu_write_ctr h env val (csrno - CSR_MCYCLE))"

definition write_mhpmcounterh :: "csr_host \<Rightarrow> csr_env \<Rightarrow> nat \<Rightarrow> u32 \<Rightarrow> riscv_excp + csr_env" where
  "write_mhpmcounterh h env csrno val = Inr (riscv_pmu_write_ctrh h env val (csrno - CSR_MCYCLEH))"

definition riscv_pmu_read_ctr :: "csr_host \<Rightarrow> csr_env \<Rightarrow> bool \<Rightarrow> nat \<Rightarrow> u32" where
  "riscv_pmu_read_ctr h env upper_half i =
     (let c = pmu_ctrs env ! i;
          ctr_prev = (if upper_half then mhpmcounterh_prev c else mhpmcounter_prev c);
          ctr_val = (if upper_half then mhpmcounterh_val c else mhpmcounter_val c)
      in if bit (mcountinhibit env) i then ctr_val
         else if ctr_monitored h i
         then riscv_pmu_ctr_get_fixed_counters_val h i upper_half - ctr_prev + ctr_val
         else ctr_val)"

definition read_hpmcounter :: "csr_host \<Rightarrow> csr_env \<Rightarrow> nat \<Rightarrow> riscv_excp + u32" where
  "read_hpmcounter h env csrno =
     (if csrno \<ge> CSR_MCYCLE \<and> csrno \<le> CSR_MHPMCOUNTER31
      then Inr (riscv_pmu_read_ctr h env False (csrno - CSR_MCYCLE))
      else if csrno \<ge> CSR_CYCLE \<and> csrno \<le> CSR_HPMCOUNTER31
      then Inr (riscv_pmu_read_ctr h env False (csrno - CSR_CYCLE))
      else Inl RISCV_EXCP_ILLEGAL_INST)"

definition read_hpmcounterh :: "csr_host \<Rightarrow> csr_env \<Rightarrow> nat \<Rightarrow> riscv_excp + u32" where
  "read_hpmcounterh h env csrno =
     (if csrno \<ge> CSR_MCYCLEH \<and> csrno \<le> CSR_MHPMCOUNTER31H
      then Inr (riscv_pmu_read_ctr h env True (csrno - CSR_MCYCLEH))
      else if csrno \<ge> CSR_CYCLEH \<and> csrno \<le> CSR_HPMCOUNTER31H
      then Inr (riscv_pmu_read_ctr h env True (csrno - CSR_CYCLEH))
      else Inl RISCV_EXCP_ILLEGAL_INST)"

definition read_time :: "csr_host \<Rightarrow> csr_env \<Rightarrow> nat \<Rightarrow> riscv_excp + u32" where
  "read_time h env csrno =
     (case rdtime h of None \<Rightarrow> Inl RISCV_EXCP_ILLEGAL_INST | Some t \<Rightarrow> Inr (ucast t))"

definition read_timeh :: "csr_host \<Rightarrow> csr_env \<Rightarrow> nat \<Rightarrow> riscv_excp + u32" where
  "read_timeh h env csrno =
     (case rdtime h of None \<Rightarrow> Inl RISCV_EXCP_ILLEGAL_INST | Some t \<Rightarrow> Inr (ucast (drop_bit 32 t)))"

definition read_mcountinhibit :: "csr_env \<Rightarrow> nat \<Rightarrow> riscv_excp + u32" where
  "read_mcountinhibit env csrno = Inr (mcountinhibit env)"

definition word64_of :: "u32 \<Rightarrow> u32 \<Rightarrow> u64" where
  "word64_of lo hi = ucast lo OR push_bit 32 (ucast hi)"

text \<open>A counter that starts takes a new snapshot of the clock, one that stops is brought up to date.\<close>

definition countinhibit_counter :: "csr_host \<Rightarrow> u32 \<Rightarrow> nat \<Rightarrow> pmu_ctr \<Rightarrow> pmu_ctr" where
  "countinhibit_counter h inhibit i c =
     (let lo = riscv_pmu_ctr_get_fixed_counters_val h i False;
          hi = riscv_pmu_ctr_get_fixed_counters_val h i True
      in if \<not> bit inhibit i then c\<lparr>mhpmcounter_prev := lo, mhpmcounterh_prev := hi\<rparr>
         else let curr_count = word64_of lo hi;
                  mhpmctr_val = word64_of (mhpmcounter_val c) (mhpmcounterh_val c);
                  prev_count = word64_of (mhpmcounter_prev c) (mhpmcounterh_prev c);
                  v = curr_count - prev_count + mhpmctr_val
              in c\<lparr>mhpmcounter_val := ucast v, mhpmcounterh_val := ucast (drop_bit 32 v)\<rparr>)"

definition RV_MAX_MHPMCOUNTERS :: nat where "RV_MAX_MHPMCOUNTERS = 32"

definition write_mcountinhibit :: "csr_host \<Rightarrow> csr_env \<Rightarrow> nat \<Rightarrow> u32 \<Rightarrow> riscv_excp + csr_env" where
  "write_mcountinhibit h env csrno val =
     (let present_ctrs = pmu_avail_ctrs (ccfg env) OR COUNTEREN_CY OR COUNTEREN_IR;
          updated_ctrs = (mcountinhibit env XOR val) AND present_ctrs;
          inhibit = val AND present_ctrs;
          env1 = env\<lparr>mcountinhibit := inhibit\<rparr>
      in Inr (fold (\<lambda>cidx e. if \<not> bit updated_ctrs cidx \<or> \<not> ctr_monitored h cidx then e
                             else pmu_upd cidx (countinhibit_counter h inhibit cidx) e)
                [0..<RV_MAX_MHPMCOUNTERS] env1))"

section \<open>Floating point and memory protection\<close>

definition riscv_cpu_fp_enabled :: "csr_env \<Rightarrow> bool" where
  "riscv_cpu_fp_enabled env \<longleftrightarrow> mstatus_word env AND MSTATUS_FS \<noteq> 0"

text \<open>With the state-enable extension off, \<open>smstateen_acc_ok\<close> lets every access through.\<close>

definition fs :: "csr_env \<Rightarrow> nat \<Rightarrow> riscv_excp option" where
  "fs env n =
     (if \<not> debugger env \<and> \<not> riscv_cpu_fp_enabled env \<and> \<not> ext_zfinx (ccfg env) then Some RISCV_EXCP_ILLEGAL_INST else None)"

definition fp_dirty :: "csr_env \<Rightarrow> csr_env" where
  "fp_dirty env = (if riscv_has_ext env RVF then env\<lparr>mstatus_word := mstatus_word env OR MSTATUS_FS\<rparr> else env)"

definition read_fflags :: "csr_host \<Rightarrow> csr_env \<Rightarrow> nat \<Rightarrow> riscv_excp + u32" where
  "read_fflags h env n = Inr (riscv_cpu_get_fflags h (fp_status env))"

definition write_fflags :: "csr_host \<Rightarrow> csr_env \<Rightarrow> nat \<Rightarrow> u32 \<Rightarrow> riscv_excp + csr_env" where
  "write_fflags h env n v =
     Inr ((fp_dirty env)\<lparr>fp_status := riscv_cpu_set_fflags h (fp_status env) (v AND 0x1F)\<rparr>)"

definition read_frm :: "csr_env \<Rightarrow> nat \<Rightarrow> riscv_excp + u32" where
  "read_frm env n = Inr (frm env)"

definition write_frm :: "csr_env \<Rightarrow> nat \<Rightarrow> u32 \<Rightarrow> riscv_excp + csr_env" where
  "write_frm env n v = Inr ((fp_dirty env)\<lparr>frm := v AND 7\<rparr>)"

definition read_fcsr :: "csr_host \<Rightarrow> csr_env \<Rightarrow> nat \<Rightarrow> riscv_excp + u32" where
  "read_fcsr h env n = Inr (push_bit 0 (riscv_cpu_get_fflags h (fp_status env)) OR push_bit 5 (frm env))"

definition write_fcsr :: "csr_host \<Rightarrow> csr_env \<Rightarrow> nat \<Rightarrow> u32 \<Rightarrow> riscv_excp + csr_env" where
  "write_fcsr h env n v =
     Inr ((fp_dirty env)\<lparr>frm := drop_bit 5 (v AND 0xE0),
       fp_status := riscv_cpu_set_fflags h (fp_status env) (drop_bit 0 (v AND 0x1F))\<rparr>)"

text \<open>The registers of an RV32 core are all there, the odd ones of the configuration included.\<close>

definition pmp :: "csr_env \<Rightarrow> nat \<Rightarrow> riscv_excp option" where
  "pmp env n = (if pmp_unit (ccfg env) then None else Some RISCV_EXCP_ILLEGAL_INST)"

definition read_pmpcfg :: "csr_host \<Rightarrow> csr_env \<Rightarrow> nat \<Rightarrow> riscv_excp + u32" where
  "read_pmpcfg h env n = Inr (pmpcfg_csr_read h (pmp_regs env) (n - 0x3A0))"

definition write_pmpcfg :: "csr_host \<Rightarrow> csr_env \<Rightarrow> nat \<Rightarrow> u32 \<Rightarrow> riscv_excp + csr_env" where
  "write_pmpcfg h env n v = Inr (env\<lparr>pmp_regs := pmpcfg_csr_write h (pmp_regs env) (n - 0x3A0) v\<rparr>)"

definition read_pmpaddr :: "csr_host \<Rightarrow> csr_env \<Rightarrow> nat \<Rightarrow> riscv_excp + u32" where
  "read_pmpaddr h env n = Inr (pmpaddr_csr_read h (pmp_regs env) (n - 0x3B0))"

definition write_pmpaddr :: "csr_host \<Rightarrow> csr_env \<Rightarrow> nat \<Rightarrow> u32 \<Rightarrow> riscv_excp + csr_env" where
  "write_pmpaddr h env n v = Inr (env\<lparr>pmp_regs := pmpaddr_csr_write h (pmp_regs env) (n - 0x3B0) v\<rparr>)"

section \<open>The table\<close>

definition no_ops :: csr_operations where
  "no_ops = \<lparr>pred_f = None, read_f = None, write_f = None, op_f = None, min_priv_ver = 0\<rparr>"

abbreviation ops where "ops p r w \<equiv> no_ops\<lparr>pred_f := Some p, read_f := Some r, write_f := Some w\<rparr>"
abbreviation ops_ro where "ops_ro p r \<equiv> no_ops\<lparr>pred_f := Some p, read_f := Some r\<rparr>"
abbreviation ops_rmw where "ops_rmw p f \<equiv> no_ops\<lparr>pred_f := Some p, op_f := Some f\<rparr>"

text \<open>The table by its parts; each part adds its rows to \<open>rest\<close>.\<close>

definition csr_user_counter_ops :: "csr_host \<Rightarrow> nat \<Rightarrow> csr_operations \<Rightarrow> csr_operations" where
  "csr_user_counter_ops h n rest =
     (if n = 0xC00 \<or> n = 0xC02 then ops_ro ctr (read_hpmcounter h)
      else if n = 0xC80 \<or> n = 0xC82 then ops_ro ctr32 (read_hpmcounterh h)
      else if n = 0xC01 then ops_ro ctr (read_time h)
      else if n = 0xC81 then ops_ro ctr32 (read_timeh h)
      else rest)"

definition csr_machine_ops :: "csr_host \<Rightarrow> nat \<Rightarrow> csr_operations \<Rightarrow> csr_operations" where
  "csr_machine_ops h n rest =
     (if n = 0xB00 \<or> n = 0xB02 then ops any (read_hpmcounter h) (write_mhpmcounter h)
      else if n = 0xB80 \<or> n = 0xB82 then ops any32 (read_hpmcounterh h) (write_mhpmcounterh h)
      else if n = 0xF11 then ops_ro any read_mvendorid
      else if n = 0xF12 then ops_ro any read_marchid
      else if n = 0xF13 then ops_ro any read_mimpid
      else if n = 0xF14 then ops_ro any read_mhartid
      else if n = 0xF15 then (ops_ro any read_zero)\<lparr>min_priv_ver := PRIV_VERSION_1_12_0\<rparr>
      else if n = 0x300 then ops any read_mstatus write_mstatus
      else if n = 0x301 then ops any read_misa write_misa
      else if n = 0x304 then ops_rmw any rmw_mie
      else if n = 0x305 then ops any read_mtvec write_mtvec_csr
      else if n = 0x306 then ops umode read_mcounteren write_mcounteren
      else if n = 0x310 then ops any32 read_mstatush write_mstatush
      else if n = 0x340 then ops any read_mscratch write_mscratch
      else if n = 0x341 then ops any read_mepc write_mepc
      else if n = 0x342 then ops any read_mcause write_mcause
      else if n = 0x343 then ops any read_mtval write_mtval
      else if n = 0x344 then ops_rmw any rmw_mip
      else rest)"

definition csr_envcfg_ops :: "nat \<Rightarrow> csr_operations \<Rightarrow> csr_operations" where
  "csr_envcfg_ops n rest =
     (if n = 0x30A then (ops umode read_menvcfg write_menvcfg)\<lparr>min_priv_ver := PRIV_VERSION_1_12_0\<rparr>
      else if n = 0x31A then (ops umode32 read_menvcfgh write_menvcfgh)\<lparr>min_priv_ver := PRIV_VERSION_1_12_0\<rparr>
      else rest)"

definition csr_hpm_ops :: "csr_host \<Rightarrow> nat \<Rightarrow> csr_operations \<Rightarrow> csr_operations" where
  "csr_hpm_ops h n rest =
     (if 0xC03 \<le> n \<and> n \<le> 0xC1F then ops_ro ctr (read_hpmcounter h)
      else if 0xB03 \<le> n \<and> n \<le> 0xB1F then ops mctr (read_hpmcounter h) (write_mhpmcounter h)
      else if n = 0x320 then (ops any read_mcountinhibit (write_mcountinhibit h))\<lparr>min_priv_ver := PRIV_VERSION_1_11_0\<rparr>
      else rest)"

definition csr_hpmh_ops :: "csr_host \<Rightarrow> nat \<Rightarrow> csr_operations \<Rightarrow> csr_operations" where
  "csr_hpmh_ops h n rest =
     (if 0xC83 \<le> n \<and> n \<le> 0xC9F then ops_ro ctr32 (read_hpmcounterh h)
      else if 0xB83 \<le> n \<and> n \<le> 0xB9F then ops mctr32 (read_hpmcounterh h) (write_mhpmcounterh h)
      else rest)"

definition csr_wch_ops :: "nat \<Rightarrow> csr_operations \<Rightarrow> csr_operations" where
  "csr_wch_ops n rest =
     (if n = 0x800 then ops any read_wch_gintenr write_mstatus
      else if n = 0x804 then ops any read_wch_intsyscr write_wch_intsyscr_csr
      else if n = 0xBC0 then ops any read_zero write_ignore
      else rest)"

definition csr_fp_ops :: "csr_host \<Rightarrow> nat \<Rightarrow> csr_operations \<Rightarrow> csr_operations" where
  "csr_fp_ops h n rest =
     (if n = 1 then ops fs (read_fflags h) (write_fflags h)
      else if n = 2 then ops fs read_frm write_frm
      else if n = 3 then ops fs (read_fcsr h) (write_fcsr h)
      else rest)"

definition csr_pmp_ops :: "csr_host \<Rightarrow> nat \<Rightarrow> csr_operations \<Rightarrow> csr_operations" where
  "csr_pmp_ops h n rest =
     (if 0x3A0 \<le> n \<and> n \<le> 0x3A3 then ops pmp (read_pmpcfg h) (write_pmpcfg h)
      else if 0x3A4 \<le> n \<and> n \<le> 0x3AF then
        (ops pmp (read_pmpcfg h) (write_pmpcfg h))\<lparr>min_priv_ver := PRIV_VERSION_1_12_0\<rparr>
      else if 0x3B0 \<le> n \<and> n \<le> 0x3BF then ops pmp (read_pmpaddr h) (write_pmpaddr h)
      else if 0x3C0 \<le> n \<and> n \<le> 0x3EF then
        (ops pmp (read_pmpaddr h) (write_pmpaddr h))\<lparr>min_priv_ver := PRIV_VERSION_1_12_0\<rparr>
      else rest)"

definition csr_ops :: "csr_host \<Rightarrow> csr_table" where
  "csr_ops h n =
     csr_fp_ops h n (csr_user_counter_ops h n (csr_machine_ops h n (csr_envcfg_ops n (csr_pmp_ops h n
       (csr_hpm_ops h n (csr_hpmh_ops h n (csr_wch_ops n no_ops)))))))"

text \<open>The instructions: set and clear bits are read-modify-write accesses with the operand as mask.\<close>

definition csr_set_bits :: "csr_table \<Rightarrow> nat \<Rightarrow> u32 \<Rightarrow> csr_env \<Rightarrow> riscv_excp + u32 \<times> csr_env" where
  "csr_set_bits t csr v env = helper_csrrw t csr (- 1) v env"

definition csr_clear_bits :: "csr_table \<Rightarrow> nat \<Rightarrow> u32 \<Rightarrow> csr_env \<Rightarrow> riscv_excp + u32 \<times> csr_env" where
  "csr_clear_bits t csr v env = helper_csrrw t csr 0 v env"

section \<open>The access check\<close>

lemma check_ok:
  "riscv_csrrw_check t env n w = None \<longleftrightarrow>
     ext_zicsr (ccfg env) \<and> (\<exists>p. pred_f (t n) = Some p \<and> p env n = None) \<and>
     min_priv_ver (t n) \<le> priv_ver (ccfg env) \<and> (w \<longrightarrow> \<not> csr_read_only n) \<and>
     (debugger env \<or> csr_priv n \<le> priv (core env))"
  by (auto simp: riscv_csrrw_check_def not_less split: option.splits if_splits)

lemma csrrw_checked:
  "riscv_csrrw t env n want v wm = Inr r \<longleftrightarrow>
     riscv_csrrw_check t env n True = None \<and> riscv_csrrw_do64 t env n want v wm = Inr r"
  "riscv_csrr t env n = Inr r \<longleftrightarrow>
     riscv_csrrw_check t env n False = None \<and> riscv_csrrw_do64 t env n True 0 0 = Inr r"
  by (auto simp: riscv_csrrw_def riscv_csrr_def split: option.splits)

section \<open>What the accessors change\<close>

lemma csr_op_f:
  "op_f (csr_ops h n) = (if n = 0x304 then Some rmw_mie else if n = 0x344 then Some rmw_mip else None)"
proof -
  have "op_f (csr_fp_ops h n r) = (if n \<in> {1, 2, 3} then None else op_f r)" for r
    by (simp add: csr_fp_ops_def no_ops_def)
  moreover have "op_f (csr_user_counter_ops h n r) = (if n \<in> {0xC00, 0xC01, 0xC02, 0xC80, 0xC81, 0xC82} then None else op_f r)" for r
    by (simp add: csr_user_counter_ops_def no_ops_def)
  moreover have "n \<noteq> 0x304 \<Longrightarrow> n \<noteq> 0x344 \<Longrightarrow> op_f r = None \<Longrightarrow> op_f (csr_machine_ops h n r) = None" for r
    by (simp add: csr_machine_ops_def no_ops_def)
  moreover have "op_f (csr_machine_ops h 0x304 r) = Some rmw_mie" "op_f (csr_machine_ops h 0x344 r) = Some rmw_mip" for r
    by (simp_all add: csr_machine_ops_def no_ops_def)
  moreover have "op_f (csr_envcfg_ops n (csr_pmp_ops h n (csr_hpm_ops h n (csr_hpmh_ops h n (csr_wch_ops n no_ops))))) = None"
    by (simp add: csr_envcfg_ops_def csr_pmp_ops_def csr_hpm_ops_def csr_hpmh_ops_def csr_wch_ops_def no_ops_def)
  ultimately show ?thesis unfolding csr_ops_def by auto
qed

text \<open>The fields of the interrupt network and the trap nesting.\<close>

definition line_view :: "cpu_state \<Rightarrow> bool \<times> u32 \<times> u32" where
  "line_view c = (bit (mip c) 11, wch_evt_mcause_override c, wch_vtf_in_isr c)"

lemma fold_core: "(\<And>i e. core (g i e) = core e) \<Longrightarrow> core (fold g is env) = core env"
  by (induction "is" arbitrary: env) simp_all

lemma write_mcountinhibit_core: "write_mcountinhibit h env n v = Inr env' \<Longrightarrow> core env' = core env"
  unfolding write_mcountinhibit_def Let_def by (auto intro!: trans[OF fold_core])

lemma line_view_writes:
  "write_mstatus env n v = Inr env' \<Longrightarrow> core env' = core env"
  "write_mstatush env n v = Inr env' \<Longrightarrow> core env' = core env"
  "write_misa env n v = Inr env' \<Longrightarrow> core env' = core env"
  "write_mtvec_csr env n v = Inr env' \<Longrightarrow> line_view (core env') = line_view (core env)"
  "write_mcounteren env n v = Inr env' \<Longrightarrow> core env' = core env"
  "write_menvcfg env n v = Inr env' \<Longrightarrow> core env' = core env"
  "write_menvcfgh env n v = Inr env' \<Longrightarrow> core env' = core env"
  "write_mscratch env n v = Inr env' \<Longrightarrow> core env' = core env"
  "write_mepc env n v = Inr env' \<Longrightarrow> line_view (core env') = line_view (core env)"
  "write_mcause env n v = Inr env' \<Longrightarrow> line_view (core env') = line_view (core env)"
  "write_mtval env n v = Inr env' \<Longrightarrow> line_view (core env') = line_view (core env)"
  "write_wch_intsyscr_csr env n v = Inr env' \<Longrightarrow> line_view (core env') = line_view (core env)"
  "write_ignore env n v = Inr env' \<Longrightarrow> core env' = core env"
  "write_mhpmcounter h env n v = Inr env' \<Longrightarrow> core env' = core env"
  "write_mhpmcounterh h env n v = Inr env' \<Longrightarrow> core env' = core env"
  "write_fflags h env n v = Inr env' \<Longrightarrow> core env' = core env"
  "write_frm env n v = Inr env' \<Longrightarrow> core env' = core env"
  "write_fcsr h env n v = Inr env' \<Longrightarrow> core env' = core env"
  "write_pmpcfg h env n v = Inr env' \<Longrightarrow> core env' = core env"
  "write_pmpaddr h env n v = Inr env' \<Longrightarrow> core env' = core env"
  by (auto simp: write_fflags_def write_frm_def write_fcsr_def fp_dirty_def write_pmpcfg_def write_pmpaddr_def write_mstatus_def write_mstatush_def write_misa_def write_mtvec_csr_def write_mtvec_def
      write_mcounteren_def write_menvcfg_def write_menvcfgh_def write_mscratch_def write_mepc_def
      write_mcause_def write_mtval_def write_wch_intsyscr_csr_def write_wch_intsyscr_def write_ignore_def
      write_mhpmcounter_def write_mhpmcounterh_def riscv_pmu_write_ctr_def riscv_pmu_write_ctrh_def
      line_view_def Let_def split: if_splits)

lemma delegable_11: "\<not> bit (x AND delegable_ints) 11"
  by (simp add: int_masks bit_simps)

lemma update_mip_11:
  assumes "\<not> bit msk 11"
  shows "bit (mip (riscv_cpu_update_mip msk v c)) 11 = bit (mip c) 11"
  using assms by (simp add: riscv_cpu_update_mip_def riscv_cpu_interrupt_def Let_def bit_simps)

lemma line_view_ops:
  "rmw_mie env n v m = Inr (r, env') \<Longrightarrow> line_view (core env') = line_view (core env)"
  "rmw_mip env n v m = Inr (r, env') \<Longrightarrow> line_view (core env') = line_view (core env)"
  by (auto simp: rmw_mie_def rmw_mie64_def rmw_mip_def rmw_mip64_def Let_def line_view_def
      update_mip_11[OF delegable_11] split: if_splits)

definition line_row :: "csr_operations \<Rightarrow> bool" where
  "line_row r \<longleftrightarrow> (\<forall>w env n v env'. write_f r = Some w \<longrightarrow> w env n v = Inr env' \<longrightarrow>
     line_view (core env') = line_view (core env))"

lemma line_rows:
  "line_row no_ops" "line_row r \<Longrightarrow> line_row (csr_user_counter_ops h n r)" "line_row r \<Longrightarrow> line_row (csr_machine_ops h n r)"
  "line_row r \<Longrightarrow> line_row (csr_envcfg_ops n r)" "line_row r \<Longrightarrow> line_row (csr_hpm_ops h n r)"
  "line_row r \<Longrightarrow> line_row (csr_hpmh_ops h n r)" "line_row r \<Longrightarrow> line_row (csr_wch_ops n r)"
  "line_row r \<Longrightarrow> line_row (csr_fp_ops h n r)" "line_row r \<Longrightarrow> line_row (csr_pmp_ops h n r)"
  by (simp_all add: line_row_def no_ops_def csr_fp_ops_def csr_pmp_ops_def csr_user_counter_ops_def csr_machine_ops_def csr_envcfg_ops_def
      csr_hpm_ops_def csr_hpmh_ops_def csr_wch_ops_def line_view_writes write_mcountinhibit_core)

lemma csr_write_line:
  assumes "write_f (csr_ops h n) = Some w" "w env n v = Inr env'"
  shows "line_view (core env') = line_view (core env)"
proof -
  have "line_row (csr_ops h n)" unfolding csr_ops_def by (intro line_rows)
  then show ?thesis using assms by (auto simp: line_row_def)
qed

lemma csrrw_line:
  assumes "riscv_csrrw_do64 (csr_ops h) env n want v wm = Inr (r, env')"
  shows "line_view (core env') = line_view (core env)"
  using assms csr_write_line[of h n _ env _ env']
  by (auto simp: riscv_csrrw_do64_def csr_op_f Let_def line_view_ops split: if_splits option.splits sum.splits)

lemma hart_line_view: "line_view (hart_core env) = line_view (core env)"
  by (simp add: line_view_def hart_core_def)

text \<open>C17. No CSR instruction disturbs the interrupt network. Whatever register is accessed with whatever
  operand and mask, in any mode, the machine with the new hart state satisfies the interrupt invariant
  when the machine before did: the external interrupt bit of \<open>mip\<close> cannot be written, and the owner of
  the line and the nesting count are out of reach of the registers.\<close>

theorem csr_access_keeps_invariant:
  assumes "machine_inv (m\<lparr>m_cpu := hart_core env\<rparr>)"
    "riscv_csrrw (csr_ops h) env n want v wm = Inr (r, env')"
  shows "machine_inv (m\<lparr>m_cpu := hart_core env'\<rparr>)"
proof -
  have "line_view (hart_core env') = line_view (hart_core env)"
    using csrrw_line assms(2) unfolding csrrw_checked hart_line_view by blast
  then show ?thesis
    using inv_cpu[OF assms(1), of "hart_core env'"] assms(1)
    by (simp add: line_view_def machine_inv_def)
qed

section \<open>User mode\<close>

definition trap_csrs :: "nat set" where
  "trap_csrs = {0x300, 0x301, 0x304, 0x305, 0x306, 0x30A, 0x310, 0x31A, 0x320, 0x340, 0x341, 0x342, 0x343,
     0x344, 0xBC0, 0xB00, 0xB02, 0xB80, 0xB82, 0xF11, 0xF12, 0xF13, 0xF14, 0xF15}"

lemma csr_entries:
  assumes "pred_f (csr_ops h n) \<noteq> None"
  shows "n = 0x800 \<or> n = 0x804 \<or> n \<in> trap_csrs \<or> 0xB03 \<le> n \<and> n \<le> 0xB1F \<or> 0xB83 \<le> n \<and> n \<le> 0xB9F \<or>
    0xC00 \<le> n \<and> n \<le> 0xC1F \<or> 0xC80 \<le> n \<and> n \<le> 0xC9F \<or> n \<in> {1, 2, 3} \<or> 0x3A0 \<le> n \<and> n \<le> 0x3EF"
proof (rule ccontr)
  assume a: "\<not> ?thesis"
  then have f: "n \<notin> {1, 2, 3}" "\<not> (0x3A0 \<le> n \<and> n \<le> 0x3EF)" by blast+
  from f(2) have g: "\<not> (0x3A0 \<le> n \<and> n \<le> 0x3A3)" "\<not> (0x3A4 \<le> n \<and> n \<le> 0x3AF)"
    "\<not> (0x3B0 \<le> n \<and> n \<le> 0x3BF)" "\<not> (0x3C0 \<le> n \<and> n \<le> 0x3EF)" by linarith+
  from a have r: "\<not> (0xB03 \<le> n \<and> n \<le> 0xB1F)" "\<not> (0xB83 \<le> n \<and> n \<le> 0xB9F)"
    "\<not> (0xC00 \<le> n \<and> n \<le> 0xC1F)" "\<not> (0xC80 \<le> n \<and> n \<le> 0xC9F)" by blast+
  have c: "n \<noteq> k" if "0xC00 \<le> k \<and> k \<le> 0xC1F \<or> 0xC80 \<le> k \<and> k \<le> 0xC9F" for k using r(3,4) that by blast
  have t: "n \<noteq> k" if "k \<in> trap_csrs \<or> k = 0x800 \<or> k = 0x804" for k using a that by blast
  have u: "\<not> (0xC03 \<le> n \<and> n \<le> 0xC1F)" "\<not> (0xC83 \<le> n \<and> n \<le> 0xC9F)" using r(3,4) by linarith+
  have "csr_user_counter_ops h n x = x" for x by (simp add: csr_user_counter_ops_def c)
  moreover have "csr_machine_ops h n x = x" for x by (simp add: csr_machine_ops_def t trap_csrs_def)
  moreover have "csr_envcfg_ops n x = x" "csr_wch_ops n x = x" for x
    by (simp_all add: csr_envcfg_ops_def csr_wch_ops_def t trap_csrs_def)
  moreover have "csr_hpm_ops h n x = x" for x by (simp add: csr_hpm_ops_def u r(1) t trap_csrs_def)
  moreover have "csr_hpmh_ops h n x = x" for x by (simp add: csr_hpmh_ops_def u r(2))
  moreover have "csr_fp_ops h n x = x" "csr_pmp_ops h n x = x" for x
    using f(1) by (simp_all add: csr_fp_ops_def csr_pmp_ops_def g)
  ultimately have "csr_ops h n = no_ops" by (simp add: csr_ops_def)
  then show False using assms by (simp add: no_ops_def)
qed

lemma user_entries:
  assumes "pred_f (csr_ops h n) \<noteq> None" "csr_priv n = 0"
  shows "n = 0x800 \<or> n = 0x804 \<or> n \<in> {1, 2, 3} \<or> csr_read_only n"
proof -
  have "\<forall>n \<in> trap_csrs. csr_priv n = 3" by (simp add: trap_csrs_def csr_priv_def)
  moreover have "csr_priv n = 3" if "0xB03 \<le> n \<and> n \<le> 0xB1F \<or> 0xB83 \<le> n \<and> n \<le> 0xB9F"
  proof -
    have "n div 0x100 = 0xB" using that by (intro div_nat_eqI) auto
    then show ?thesis by (simp add: csr_priv_def)
  qed
  moreover have "csr_priv n = 3" if "0x3A0 \<le> n \<and> n \<le> 0x3EF"
  proof -
    have "n div 0x100 = 3" using that by (intro div_nat_eqI) auto
    then show ?thesis by (simp add: csr_priv_def)
  qed
  moreover have "csr_read_only n" if "0xC00 \<le> n \<and> n \<le> 0xC1F \<or> 0xC80 \<le> n \<and> n \<le> 0xC9F"
  proof -
    have "n div 0x400 = 3" using that by (intro div_nat_eqI) auto
    then show ?thesis by (simp add: csr_read_only_def)
  qed
  ultimately show ?thesis using csr_entries[OF assms(1)] assms(2) by force
qed

lemma csr_numbers [simp]:
  "csr_priv 0x800 = 0" "csr_priv 0x804 = 0" "\<not> csr_read_only 0x800" "\<not> csr_read_only 0x804"
  "csr_priv 0x300 = 3" "\<not> csr_read_only 0x300"
  "csr_priv 1 = 0" "csr_priv 2 = 0" "csr_priv 3 = 0" "\<not> csr_read_only 1" "\<not> csr_read_only 2" "\<not> csr_read_only 3"
  by (simp_all add: csr_priv_def csr_read_only_def)

lemma csr_rows [simp]:
  "csr_ops h 0x800 = ops any read_wch_gintenr write_mstatus"
  "csr_ops h 0x804 = ops any read_wch_intsyscr write_wch_intsyscr_csr"
  "csr_ops h 0x300 = ops any read_mstatus write_mstatus"
  "csr_ops h 0x304 = ops_rmw any rmw_mie"
  "csr_ops h 0x305 = ops any read_mtvec write_mtvec_csr"
  "csr_ops h 0x306 = ops umode read_mcounteren write_mcounteren"
  "csr_ops h 0x340 = ops any read_mscratch write_mscratch"
  "csr_ops h 0x341 = ops any read_mepc write_mepc"
  "csr_ops h 0x342 = ops any read_mcause write_mcause"
  "csr_ops h 0x343 = ops any read_mtval write_mtval"
  by (simp_all add: csr_ops_def csr_fp_ops_def csr_user_counter_ops_def, simp_all add: csr_machine_ops_def,
      simp_all add: csr_envcfg_ops_def csr_pmp_ops_def csr_hpm_ops_def csr_hpmh_ops_def csr_wch_ops_def)

lemma fp_rows:
  assumes "n \<in> {1, 2, 3}"
  shows "pred_f (csr_ops h n) = Some fs" "op_f (csr_ops h n) = None"
    "write_f (csr_ops h n) \<in> Some ` {write_fflags h, write_frm, write_fcsr h}"
  using assms by (auto simp: csr_ops_def csr_fp_ops_def no_ops_def)

lemma fp_write:
  assumes "w \<in> {write_fflags h, write_frm, write_fcsr h}" "w env n v = Inr env'"
  shows "env' = (fp_dirty env)\<lparr>frm := frm env', fp_status := fp_status env'\<rparr>"
  using assms by (cases env) (auto simp: write_fflags_def write_frm_def write_fcsr_def fp_dirty_def)

lemma user_check:
  assumes "riscv_csrrw_check (csr_ops h) env n w = None" "priv (core env) = PRV_U" "\<not> debugger env"
  shows "n = 0x800 \<or> n = 0x804 \<or> n \<in> {1, 2, 3} \<and> (riscv_cpu_fp_enabled env \<or> ext_zfinx (ccfg env)) \<or>
    \<not> w \<and> csr_read_only n \<and> csr_priv n = 0"
proof -
  have "csr_priv n = 0" "pred_f (csr_ops h n) \<noteq> None" "w \<longrightarrow> \<not> csr_read_only n"
    using assms by (auto simp: check_ok PRV_U_def)
  moreover have "riscv_cpu_fp_enabled env \<or> ext_zfinx (ccfg env)" if "n \<in> {1, 2, 3}"
    using assms(1,3) fp_rows(1)[OF that, of h] by (auto simp: check_ok fs_def split: if_splits)
  ultimately show ?thesis using user_entries[of h n] by blast
qed

text \<open>User mode stays out of the machine registers, but for the two WCH registers, on a core without the
  vector extension. A write in user mode that does not trap went to \<open>gintenr\<close> and changed the status word
  only, or to \<open>intsyscr\<close> and changed that register only, or, with the floating-point unit switched on,
  to a floating-point register and changed the flags, the rounding mode and the dirty mark; a read changes
  nothing and names one of these or a read-only user counter. The check of the privilege does not depend
  on the table: a register of a higher mode traps whatever its entry.\<close>

theorem user_csr_access:
  assumes "priv (core env) = PRV_U" "\<not> debugger env" "\<not> ext_zve32x (ccfg env)"
  shows "(riscv_csrrw (csr_ops h) env n want v wm = Inr (old, env') \<longrightarrow>
      n = 0x800 \<and> (\<exists>w. env' = env\<lparr>mstatus_word := w\<rparr>) \<or>
      n = 0x804 \<and> (\<exists>w. env' = env\<lparr>core := (core env)\<lparr>wch_intsyscr := w\<rparr>\<rparr>) \<or>
      n \<in> {1, 2, 3} \<and> (riscv_cpu_fp_enabled env \<or> ext_zfinx (ccfg env)) \<and>
        (env' = env \<or> env' = (fp_dirty env)\<lparr>frm := frm env', fp_status := fp_status env'\<rparr>)) \<and>
    (riscv_csrr (csr_ops h) env n = Inr (old, env') \<longrightarrow>
      env' = env \<and> (n = 0x800 \<or> n = 0x804 \<or>
        n \<in> {1, 2, 3} \<and> (riscv_cpu_fp_enabled env \<or> ext_zfinx (ccfg env)) \<or> csr_read_only n \<and> csr_priv n = 0)) \<and>
    (csr_priv n \<noteq> 0 \<longrightarrow> (\<forall>t. (\<exists>e. riscv_csrr t env n = Inl e) \<and> (\<exists>e. riscv_csrrw t env n want v wm = Inl e)))"
proof (intro conjI impI)
  assume w: "riscv_csrrw (csr_ops h) env n want v wm = Inr (old, env')"
  then have c: "n = 0x800 \<or> n = 0x804 \<or> n \<in> {1, 2, 3} \<and> (riscv_cpu_fp_enabled env \<or> ext_zfinx (ccfg env))"
    using user_check[of h env n True] assms by (auto simp: csrrw_checked)
  have "env' = env \<or> env' = (fp_dirty env)\<lparr>frm := frm env', fp_status := fp_status env'\<rparr>" if f: "n \<in> {1, 2, 3}"
  proof -
    show ?thesis
      using w fp_rows(2,3)[OF f, of h] fp_write[of _ h env n _ env']
      by (auto simp only: csrrw_checked riscv_csrrw_do64_def Let_def split: if_splits option.splits sum.splits)
  qed
  moreover have "\<exists>w. env' = env\<lparr>mstatus_word := w\<rparr>" if "n = 0x800"
    using w that by (cases env; cases "core env")
      (auto simp: csrrw_checked riscv_csrrw_do64_def no_ops_def Let_def write_mstatus_def read_wch_gintenr_def split: if_splits)
  moreover have "\<exists>w. env' = env\<lparr>core := (core env)\<lparr>wch_intsyscr := w\<rparr>\<rparr>" if "n = 0x804"
    using w that by (cases env; cases "core env")
      (auto simp: csrrw_checked riscv_csrrw_do64_def no_ops_def Let_def write_wch_intsyscr_csr_def
        write_wch_intsyscr_def read_wch_intsyscr_def split: if_splits)
  ultimately show "n = 0x800 \<and> (\<exists>w. env' = env\<lparr>mstatus_word := w\<rparr>) \<or>
      n = 0x804 \<and> (\<exists>w. env' = env\<lparr>core := (core env)\<lparr>wch_intsyscr := w\<rparr>\<rparr>) \<or>
      n \<in> {1, 2, 3} \<and> (riscv_cpu_fp_enabled env \<or> ext_zfinx (ccfg env)) \<and>
        (env' = env \<or> env' = (fp_dirty env)\<lparr>frm := frm env', fp_status := fp_status env'\<rparr>)"
    using c by metis
next
  assume r: "riscv_csrr (csr_ops h) env n = Inr (old, env')"
  have c: "n = 0x800 \<or> n = 0x804 \<or>
      n \<in> {1, 2, 3} \<and> (riscv_cpu_fp_enabled env \<or> ext_zfinx (ccfg env)) \<or> csr_read_only n \<and> csr_priv n = 0"
    using r user_check[of h env n False] assms by (auto simp: csrrw_checked)
  then show "n = 0x800 \<or> n = 0x804 \<or>
      n \<in> {1, 2, 3} \<and> (riscv_cpu_fp_enabled env \<or> ext_zfinx (ccfg env)) \<or> csr_read_only n \<and> csr_priv n = 0" .
  have "op_f (csr_ops h n) = None"
    using c by (auto simp: csr_op_f csr_read_only_def)
  then show "env' = env"
    using r by (auto simp: csrrw_checked riscv_csrrw_do64_def split: option.splits sum.splits)
next
  assume p: "csr_priv n \<noteq> 0"
  have c: "\<exists>e. riscv_csrrw_check t env n w = Some e" for t w
    using p assms check_ok[of t env n w] by (auto simp: PRV_U_def)
  show "\<forall>t. (\<exists>e. riscv_csrr t env n = Inl e) \<and> (\<exists>e. riscv_csrrw t env n want v wm = Inl e)"
  proof
    fix t
    obtain e f where "riscv_csrrw_check t env n False = Some e" "riscv_csrrw_check t env n True = Some f"
      using c by metis
    then show "(\<exists>e. riscv_csrr t env n = Inl e) \<and> (\<exists>e. riscv_csrrw t env n want v wm = Inl e)"
      by (simp add: riscv_csrr_def riscv_csrrw_def)
  qed
qed

section \<open>The status word\<close>

lemma bit_ucast32: "bit (ucast (x :: u32) :: u64) k = bit x k"
  by (auto simp: bit_simps dest: bit_imp_le_length)

lemma bit_mpp: "bit MSTATUS_MPP k \<longleftrightarrow> k = 11 \<or> k = 12"
proof -
  have "MSTATUS_MPP = push_bit 11 (mask 2)" by (simp add: MSTATUS_MPP_def mask_eq_exp_minus_1 push_bit_eq_mult)
  show ?thesis unfolding \<open>MSTATUS_MPP = push_bit 11 (mask 2)\<close> by (auto simp: bit_simps)
qed

lemma and_3_bits: "drop_bit 11 x AND 3 = take_bit 2 (drop_bit 11 x)" for x :: "'a :: len word"
  by (simp add: take_bit_eq_mask mask_eq_exp_minus_1)

lemma legalize_same: "legalize_mpp env (drop_bit 11 v AND 3) v = v"
proof -
  have "(v AND NOT (ucast MSTATUS_MPP)) OR (push_bit 11 (drop_bit 11 v AND 3) AND ucast MSTATUS_MPP) = v"
  proof (rule bit_eqI)
    fix k
    show "bit ((v AND NOT (ucast MSTATUS_MPP)) OR (push_bit 11 (drop_bit 11 v AND 3) AND ucast MSTATUS_MPP)) k = bit v k"
      by (auto simp: bit_simps bit_mpp and_3_bits dest: bit_imp_le_length)
  qed
  then show ?thesis by (simp add: legalize_mpp_def Let_def)
qed

lemma legalize_bits: "k \<noteq> 11 \<Longrightarrow> k \<noteq> 12 \<Longrightarrow> bit (legalize_mpp env old v) k = bit v k"
  by (auto simp: legalize_mpp_def Let_def bit_simps bit_mpp dest: bit_imp_le_length)

lemma bit_write_mask:
  "bit (mstatus_write_mask env) k \<longleftrightarrow>
     k \<in> {1, 3, 5, 7, 8, 11, 12, 17, 18, 19, 20, 21, 22} \<or>
     riscv_has_ext env RVF \<and> k \<in> {13, 14} \<or> ext_zve32x (ccfg env) \<and> k \<in> {9, 10}"
proof -
  have b: "bit (2 ^ j :: u64) k \<longleftrightarrow> k = j" if "j < 64" for j
    using that by (auto simp: bit_exp_iff)
  have c: "MSTATUS_SIE = 2 ^ 1" "MSTATUS_MIE = 2 ^ 3" "MSTATUS_SPIE = 2 ^ 5" "MSTATUS_MPIE = 2 ^ 7"
    "MSTATUS_SPP = 2 ^ 8" "MSTATUS_MPRV = 2 ^ 17" "MSTATUS_SUM = 2 ^ 18" "MSTATUS_MXR = 2 ^ 19"
    "MSTATUS_TVM = 2 ^ 20" "MSTATUS_TW = 2 ^ 21" "MSTATUS_TSR = 2 ^ 22"
    "MSTATUS_FS = push_bit 13 (mask 2)" "MSTATUS_VS = push_bit 9 (mask 2)"
    by (simp_all add: mstatus_masks mask_eq_exp_minus_1 push_bit_eq_mult)
  have d: "bit (push_bit 13 (mask 2) :: u64) k \<longleftrightarrow> k = 13 \<or> k = 14" "bit (push_bit 9 (mask 2) :: u64) k \<longleftrightarrow> k = 9 \<or> k = 10"
    by (auto simp: bit_simps)
  note e = c[THEN arg_cong[of _ _ "\<lambda>w. bit w k"], unfolded d, simplified b, simplified]
  show ?thesis
    unfolding mstatus_write_mask_def bit_or_iff bit_mpp e
    by (cases "riscv_has_ext env RVF"; cases "ext_zve32x (ccfg env)"; simp add: e; blast)
qed

text \<open>A write that leaves \<open>MPP\<close> alone takes the writable bits from the operand and keeps the others.\<close>

lemma write_mstatus_keeps_mpp:
  assumes "drop_bit 11 v AND 3 = ucast (drop_bit 11 (mstatus_word env) AND 3)"
  shows "write_mstatus env n v = Inr (env\<lparr>mstatus_word :=
     (mstatus_word env AND NOT (mstatus_write_mask env)) OR (ucast v AND mstatus_write_mask env)\<rparr>)"
  using legalize_same[of env v] by (simp add: write_mstatus_def Let_def assms[symmetric])

lemma bit_irq_enables: "bit (0x88 :: u32) k \<longleftrightarrow> k = 3 \<or> k = 7" "bit (0x88 :: u64) k \<longleftrightarrow> k = 3 \<or> k = 7"
proof -
  have e: "(0x88 :: u32) = 2 ^ 3 OR 2 ^ 7" "(0x88 :: u64) = 2 ^ 3 OR 2 ^ 7" by simp_all
  show "bit (0x88 :: u32) k \<longleftrightarrow> k = 3 \<or> k = 7" "bit (0x88 :: u64) k \<longleftrightarrow> k = 3 \<or> k = 7"
    unfolding e bit_or_iff bit_exp_iff by auto
qed

lemma mpp_kept:
  assumes "\<And>k. k = 11 \<or> k = 12 \<Longrightarrow> bit v k = bit m k"
  shows "drop_bit 11 (v :: u32) AND 3 = ucast (drop_bit 11 (m :: u64) AND 3)"
proof (rule bit_eqI)
  fix k :: nat
  have "k < 2 \<Longrightarrow> 11 + k = 11 \<or> 11 + k = 12" by auto
  then show "bit (drop_bit 11 v AND 3) k = bit (ucast (drop_bit 11 m AND 3) :: u32) k"
    using assms[of "11 + k"] by (auto simp: bit_simps and_3_bits)
qed

lemma merge_mask:
  assumes "\<And>k. bit m' k = (if bit K k then bit v k else bit m k)"
  shows "(m AND NOT K) OR (ucast (v :: u32) AND K) = (m' :: u64)"
  by (rule bit_eqI) (auto simp: assms bit_ucast32 bit_simps dest: bit_imp_le_length)

lemma irq_bits_mstatus:
  shows "write_mstatus env n (ucast (mstatus_word env) AND NOT 0x88) =
      Inr (env\<lparr>mstatus_word := mstatus_word env AND NOT 0x88\<rparr>)"
    "write_mstatus env n (ucast (mstatus_word env) OR 0x88) = Inr (env\<lparr>mstatus_word := mstatus_word env OR 0x88\<rparr>)"
proof -
  let ?m = "mstatus_word env" and ?K = "mstatus_write_mask env"
  have lt: "bit ?K k \<Longrightarrow> k < 32" for k by (auto simp: bit_write_mask)
  have on: "\<not> bit ?K k \<Longrightarrow> k \<noteq> 3 \<and> k \<noteq> 7" for k by (auto simp: bit_write_mask)
  have "bit (?m AND NOT c) k = (if bit ?K k then bit (ucast ?m AND NOT d) k else bit ?m k)"
    if "c = 0x88" "d = 0x88" for k and c :: u64 and d :: u32
    using lt[of k] on[of k] bit_irq_enables[of k] unfolding that[symmetric]
    by (cases "bit ?K k") (auto simp: bit_simps dest: bit_imp_le_length)
  note clear = merge_mask[OF this[OF refl refl]]
  have "bit (?m OR c) k = (if bit ?K k then bit (ucast ?m OR d) k else bit ?m k)"
    if "c = 0x88" "d = 0x88" for k and c :: u64 and d :: u32
    using lt[of k] on[of k] bit_irq_enables[of k] unfolding that[symmetric]
    by (cases "bit ?K k") (auto simp: bit_simps dest: bit_imp_le_length)
  note set = merge_mask[OF this[OF refl refl]]
  have "drop_bit 11 (ucast ?m AND NOT (0x88 :: u32)) AND 3 = ucast (drop_bit 11 ?m AND 3)"
    "drop_bit 11 (ucast ?m OR (0x88 :: u32)) AND 3 = ucast (drop_bit 11 ?m AND 3)"
    by (rule mpp_kept; auto simp: bit_simps bit_irq_enables)+
  then show "write_mstatus env n (ucast ?m AND NOT 0x88) = Inr (env\<lparr>mstatus_word := ?m AND NOT 0x88\<rparr>)"
    "write_mstatus env n (ucast ?m OR 0x88) = Inr (env\<lparr>mstatus_word := ?m OR 0x88\<rparr>)"
    by (simp_all only: write_mstatus_keeps_mpp clear set)
qed

lemma check_gintenr:
  "ext_zicsr (ccfg env) \<Longrightarrow> riscv_csrrw_check (csr_ops h) env 0x800 w = None"
  by (simp add: check_ok no_ops_def any_def)


lemma write_mstatus_bit:
  assumes "write_mstatus env n v = Inr env'" "k \<noteq> 11" "k \<noteq> 12"
  shows "bit (mstatus_word env') k = (if bit (mstatus_write_mask env) k then bit v k else bit (mstatus_word env) k)"
  using assms legalize_bits[OF assms(2,3), of env _ v] bit_imp_le_length[of "mstatus_word env" k]
  by (auto simp: write_mstatus_def Let_def bit_ucast32 bit_or_iff bit_and_iff bit_not_iff dest: bit_imp_le_length)

text \<open>C38. \<open>gintenr\<close> is the whole status word. A write to it succeeds in every mode, user mode included, and has
  exactly the effect of a machine-mode write to \<open>mstatus\<close>: it sets the interrupt enables, but the
  modify-privilege bit too, and the previous mode to machine when the operand says so.\<close>

theorem gintenr_writes_whole_status:
  assumes "ext_zicsr (ccfg env)"
  shows "\<exists>w. helper_csrw (csr_ops h) 0x800 v env = Inr (env\<lparr>mstatus_word := w\<rparr>) \<and>
    helper_csrw (csr_ops h) 0x300 v (env\<lparr>core := (core env)\<lparr>priv := PRV_M\<rparr>\<rparr>) =
      Inr (env\<lparr>core := (core env)\<lparr>priv := PRV_M\<rparr>, mstatus_word := w\<rparr>) \<and>
    ms_mie (mstatus_of w) = bit v 3 \<and> ms_mpie (mstatus_of w) = bit v 7 \<and> ms_mprv (mstatus_of w) = bit v 17 \<and>
    (drop_bit 11 v AND 3 = 3 \<longrightarrow> ms_mpp (mstatus_of w) = PRV_M)"
proof -
  let ?e = "env\<lparr>core := (core env)\<lparr>priv := PRV_M\<rparr>\<rparr>"
  obtain env' where w: "write_mstatus env 0x800 v = Inr env'" by (simp add: write_mstatus_def Let_def)
  define w where "w = mstatus_word env'"
  have e: "env' = env\<lparr>mstatus_word := w\<rparr>" using w by (auto simp: write_mstatus_def Let_def w_def)
  have m: "write_mstatus ?e 0x300 v = Inr (?e\<lparr>mstatus_word := w\<rparr>)"
    using w by (auto simp: write_mstatus_def Let_def w_def legalize_mpp_def riscv_has_ext_def mstatus_write_mask_def)
  have "v AND - 1 = v" by simp
  moreover have "riscv_csrrw_check (csr_ops h) ?e 0x300 True = None"
    using assms by (simp add: check_ok no_ops_def any_def PRV_M_def)
  ultimately have "helper_csrw (csr_ops h) 0x800 v env = Inr (env\<lparr>mstatus_word := w\<rparr>)"
    "helper_csrw (csr_ops h) 0x300 v ?e = Inr (?e\<lparr>mstatus_word := w\<rparr>)"
    using check_gintenr[OF assms, of h True] m w e
    by (simp_all add: helper_csrw_def riscv_csrrw_def riscv_csrrw_do64_def no_ops_def Let_def)
  moreover have "ms_mie (mstatus_of w) = bit v 3" "ms_mpie (mstatus_of w) = bit v 7" "ms_mprv (mstatus_of w) = bit v 17"
    using write_mstatus_bit[OF w, of 3] write_mstatus_bit[OF w, of 7] write_mstatus_bit[OF w, of 17]
    by (simp_all add: mstatus_of_def w_def bit_write_mask)
  moreover have "ms_mpp (mstatus_of w) = PRV_M" if "drop_bit 11 v AND 3 = 3"
  proof -
    have v: "bit v 11" "bit v 12"
      using arg_cong[OF that, of "\<lambda>x. bit x 0"] arg_cong[OF that, of "\<lambda>x. bit x 1"] by (simp_all add: bit_simps and_3_bits)
    have "legalize_mpp env (ucast (drop_bit 11 (mstatus_word env) AND 3)) v = v"
      by (simp add: legalize_mpp_def that PRV_M_def)
    then have "w = (mstatus_word env AND NOT (mstatus_write_mask env)) OR (ucast v AND mstatus_write_mask env)"
      using w by (auto simp: write_mstatus_def Let_def w_def)
    then have b: "bit w 11" "bit w 12" using v by (simp_all add: bit_or_iff bit_and_iff bit_write_mask bit_ucast32)
    have "drop_bit 11 w AND 3 = 3"
    proof (rule bit_eqI)
      fix k :: nat
      have "bit (3 :: u64) k \<longleftrightarrow> k = 0 \<or> k = 1"
        using bit_mask_iff[of 2 k, where 'a = u64] by (auto simp: mask_eq_exp_minus_1 possible_bit_def)
      then show "bit (drop_bit 11 w AND 3) k = bit (3 :: u64) k" using b by (auto simp: bit_and_iff bit_drop_bit_eq)
    qed
    then show ?thesis by (simp add: mstatus_of_def PRV_M_def)
  qed
  ultimately show ?thesis by auto
qed

section \<open>Registers read back\<close>

text \<open>What a register holds after a write.\<close>

definition csr_warl :: "csr_env \<Rightarrow> nat \<Rightarrow> u32 \<Rightarrow> u32" where
  "csr_warl env n v =
     (if n = 0x305 then (if v AND 3 < 2 \<or> v AND 3 = 3 \<and> ext_hpe (cfg (core env)) then v else mtvec (core env))
      else if n = 0x306 then v AND (pmu_avail_ctrs (ccfg env) OR 7)
      else if n = 0x341 then v AND xepc_mask (ccfg env)
      else if n = 0x804 then v AND 0x1F
      else v)"

lemma csr_write_read:
  assumes "ext_zicsr (ccfg env)" "priv (core env) = PRV_M" "riscv_has_ext env RVU"
    and n: "n \<in> {0x305, 0x306, 0x340, 0x341, 0x342, 0x343, 0x804}"
  shows "\<exists>env'. helper_csrw (csr_ops h) n v env = Inr env' \<and> helper_csrr (csr_ops h) n env' = Inr (csr_warl env n v, env')"
proof -
  have c: "riscv_csrrw_check (csr_ops h) e n w = None" if "ccfg e = ccfg env" "priv (core e) = PRV_M" for e w
    using n
    by (elim insertE emptyE; use assms(1,3) that in
      \<open>simp add: check_ok no_ops_def any_def umode_def riscv_has_ext_def csr_read_only_def csr_priv_def PRV_M_def\<close>)
  have m: "COUNTEREN_CY OR COUNTEREN_TM OR COUNTEREN_IR = 7" by (simp add: COUNTEREN_CY_def COUNTEREN_TM_def COUNTEREN_IR_def)
  have v: "v AND - 1 = v" by simp
  have "\<exists>env'. riscv_csrrw_do64 (csr_ops h) env n False v (- 1) = Inr (0, env') \<and>
      ccfg env' = ccfg env \<and> priv (core env') = PRV_M \<and>
      riscv_csrrw_do64 (csr_ops h) env' n True 0 0 = Inr (csr_warl env n v, env')"
    using n assms(2)
    by (elim insertE emptyE; simp add: riscv_csrrw_do64_def no_ops_def csr_warl_def Let_def m v
        write_mtvec_csr_def write_mtvec_def read_mtvec_def write_mcounteren_def read_mcounteren_def write_mscratch_def
        read_mscratch_def write_mepc_def read_mepc_def write_mcause_def read_mcause_def write_mtval_def read_mtval_def
        write_wch_intsyscr_csr_def write_wch_intsyscr_def read_wch_intsyscr_def or.assoc and.assoc)
  moreover have "n \<noteq> CSR_SEED" using n by (auto simp: CSR_SEED_def)
  ultimately show ?thesis
    using c assms(2) by (auto simp: helper_csrw_def helper_csrr_def riscv_csrr_def riscv_csrrw_def)
qed

section \<open>Counters\<close>

text \<open>A running counter written at one time and read at another: each half counts for itself, without the
  carry from the lower half into the upper one.\<close>

lemma counter_halves:
  assumes "ctr_monitored h i" "ctr_monitored h' i" "mon_instr h i = mon_instr h' i" "i < length (pmu_ctrs env)"
    "\<not> bit (mcountinhibit env) i"
  shows "riscv_pmu_read_ctr h' (riscv_pmu_write_ctr h env v i) False i =
      v + (ucast (ctr_ticks h' (mon_instr h i)) - ucast (ctr_ticks h (mon_instr h i)))"
    "riscv_pmu_read_ctr h' (riscv_pmu_write_ctrh h env v i) True i =
      v + (ucast (drop_bit 32 (ctr_ticks h' (mon_instr h i))) - ucast (drop_bit 32 (ctr_ticks h (mon_instr h i))))"
  using assms
  by (simp_all add: riscv_pmu_read_ctr_def riscv_pmu_write_ctr_def riscv_pmu_write_ctrh_def Let_def
      riscv_pmu_ctr_get_fixed_counters_val_def)

lemma counter_carry_lost:
  fixes h h' :: csr_host and env :: csr_env
  assumes "ctr_monitored h i" "ctr_monitored h' i" "mon_instr h i = mon_instr h' i" "i < length (pmu_ctrs env)"
    "\<not> bit (mcountinhibit env) i"
    "ctr_ticks h (mon_instr h i) = 0xFFFFFFFF" "ctr_ticks h' (mon_instr h i) = 0x100000000"
  shows "word64_of (riscv_pmu_read_ctr h' (riscv_pmu_write_ctr h env 0 i) False i)
      (riscv_pmu_read_ctr h' (riscv_pmu_write_ctrh h env 0 i) True i) = 0x100000001"
  using assms by (simp add: counter_halves word64_of_def)

section \<open>A V4F hart\<close>

definition csr_sample_host :: csr_host where
  "csr_sample_host = \<lparr>mon_cycles = (\<lambda>i. i = 0), mon_instr = (\<lambda>i. i = 2), ctr_ticks = (\<lambda>_. 0), rdtime = None,
     riscv_cpu_get_fflags = id, riscv_cpu_set_fflags = (\<lambda>_ v. v), pmpcfg_csr_read = (\<lambda>_ _. 0),
     pmpcfg_csr_write = (\<lambda>s _ _. s), pmpaddr_csr_read = (\<lambda>s i. if i < length s then s ! i else 0),
     pmpaddr_csr_write = (\<lambda>s i v. s[i := v])\<rparr>"

definition csr_sample :: "nat \<Rightarrow> csr_env" where
  "csr_sample p = \<lparr>core = cpu_zero\<lparr>priv := p, mie := 0x800, mip := 0x800, wch_evt_mcause_override := 53\<rparr>,
     ccfg = \<lparr>ext_zicsr = True, priv_ver = 3, ext_zve32x = False, ext_zfinx = False,
       pmp_unit = True, ext_zicntr = False, misa_ext = 0x101125,
       ids = (0, 0xDC68D886, 0xDC688001), mhartid = 0, pmu_avail_ctrs = 0, xepc_mask = - 2\<rparr>,
     debugger = False, mstatus_word = 0x1888, mscratch = 0, mcounteren = 0, mcountinhibit = 0, menvcfg = 0,
     external_seip = False, software_seip = False, pmu_ctrs = replicate 32 \<lparr>mhpmcounter_val = 0,
       mhpmcounterh_val = 0, mhpmcounter_prev = 0, mhpmcounterh_prev = 0\<rparr>,
     frm = 0, fp_status = 0, pmp_regs = replicate 16 0\<rparr>"

abbreviation sample_ops :: csr_table where "sample_ops \<equiv> csr_ops csr_sample_host"

lemma csr_access_keeps_invariant_witness:
  "\<exists>r env'. riscv_csrrw sample_ops (csr_sample PRV_M) 0x304 True 0 0x800 = Inr (r, env') \<and> mie (core env') = 0 \<and>
     machine_inv (machine_zero\<lparr>m_cpu := hart_core env'\<rparr>)"
proof -
  have "machine_inv (machine_zero\<lparr>m_cpu := hart_core (csr_sample PRV_M)\<rparr>)"
    by (simp add: machine_inv_def line_ok_def machine_zero_def cpu_zero_def csr_sample_def hart_core_def ienr_on_def)
  moreover obtain r env' where "riscv_csrrw sample_ops (csr_sample PRV_M) 0x304 True 0 0x800 = Inr (r, env')" "mie (core env') = 0"
    by (simp add: riscv_csrrw_def riscv_csrrw_check_def riscv_csrrw_do64_def no_ops_def any_def csr_sample_def
        csr_read_only_def csr_priv_def cpu_zero_def prv_defs rmw_mie_def rmw_mie64_def int_masks)
  ultimately show ?thesis using csr_access_keeps_invariant by blast
qed

lemma user_csr_access_witness:
  "\<exists>e. riscv_csrrw sample_ops (csr_sample PRV_U) 0x341 True 0x100 (- 1) = Inl e"
  using user_csr_access[of "csr_sample PRV_U" csr_sample_host "0x341" True "0x100" "- 1"]
  by (simp add: csr_sample_def csr_priv_def)


lemma gintenr_writes_whole_status_witness:
  "\<exists>w. helper_csrw sample_ops 0x800 0x21888 (csr_sample PRV_U) = Inr (csr_sample PRV_U\<lparr>mstatus_word := w\<rparr>) \<and>
     ms_mprv (mstatus_of w) \<and> ms_mpp (mstatus_of w) = PRV_M"
  using gintenr_writes_whole_status[of "csr_sample PRV_U" csr_sample_host "0x21888"]
  by (auto simp: csr_sample_def)

end
