(* ===== verification/Ch32_CpuClass.thy ===== *)
theory Ch32_CpuClass
  imports Ch32_Boards "HOL-Library.Monad_Syntax"
begin

text \<open>
  The classes of the processors (\<open>target/riscv/cpu.c\<close>): the definition a class inherits and merges
  (\<open>riscv_cpu_class_base_init\<close>, \<open>riscv_cpu_cfg_merge\<close> over the fields of \<open>cpu_cfg_fields.h.inc\<close>), the
  instance made from it (\<open>riscv_cpu_init\<close>), the user's options (\<open>riscv_cpu_properties\<close>), and the choice of
  the translation mode before the instance is realised. The target is the 32-bit one, where
  \<open>riscv_cpu_mxl\<close> is the constant \<open>MXL_RV32\<close>. A failed assertion is the value \<open>None\<close>.
\<close>

section \<open>The configuration\<close>

text \<open>A configuration is a value for every field: the flags, and the numbers with the default that a merge skips.\<close>

definition bool_fields :: "string list" where
  "bool_fields = [
     ''ext_zba'', ''ext_zbb'', ''ext_zbc'', ''ext_zbkb'', ''ext_zbkc'', ''ext_zbkx'', ''ext_zbs'',
     ''ext_zca'', ''ext_zcb'', ''ext_xw'', ''ext_xwchmcpy'', ''ext_hpe'', ''ext_zcd'', ''ext_zce'',
     ''ext_zcf'', ''ext_zcmp'', ''ext_zcmt'', ''ext_zk'', ''ext_zkn'', ''ext_zknd'', ''ext_zkne'',
     ''ext_zknh'', ''ext_zkr'', ''ext_zks'', ''ext_zksed'', ''ext_zksh'', ''ext_zkt'', ''ext_zifencei'',
     ''ext_zicntr'', ''ext_zicsr'', ''ext_zicbom'', ''ext_zicbop'', ''ext_zicboz'', ''ext_zicfilp'',
     ''ext_zicfiss'', ''ext_zicond'', ''ext_zihintntl'', ''ext_zihintpause'', ''ext_zihpm'', ''ext_zimop'',
     ''ext_zcmop'', ''ext_ztso'', ''ext_smstateen'', ''ext_sstc'', ''ext_smcdeleg'', ''ext_ssccfg'',
     ''ext_smcntrpmf'', ''ext_smcsrind'', ''ext_sscsrind'', ''ext_ssdbltrp'', ''ext_smdbltrp'',
     ''ext_svadu'', ''ext_svinval'', ''ext_svnapot'', ''ext_svpbmt'', ''ext_svrsw60t59b'', ''ext_svvptc'',
     ''ext_svukte'', ''ext_zdinx'', ''ext_zaamo'', ''ext_zacas'', ''ext_zama16b'', ''ext_zabha'',
     ''ext_zalrsc'', ''ext_zawrs'', ''ext_zfa'', ''ext_zfbfmin'', ''ext_zfh'', ''ext_zfhmin'',
     ''ext_zfinx'', ''ext_zhinx'', ''ext_zhinxmin'', ''ext_zve32f'', ''ext_zve32x'', ''ext_zve64f'',
     ''ext_zve64d'', ''ext_zve64x'', ''ext_zvbb'', ''ext_zvbc'', ''ext_zvkb'', ''ext_zvkg'',
     ''ext_zvkned'', ''ext_zvknha'', ''ext_zvknhb'', ''ext_zvksed'', ''ext_zvksh'', ''ext_zvkt'',
     ''ext_zvkn'', ''ext_zvknc'', ''ext_zvkng'', ''ext_zvks'', ''ext_zvksc'', ''ext_zvksg'', ''ext_zmmul'',
     ''ext_zvfbfmin'', ''ext_zvfbfwma'', ''ext_zvfh'', ''ext_zvfhmin'', ''ext_smaia'', ''ext_ssaia'',
     ''ext_smctr'', ''ext_ssctr'', ''ext_sscofpmf'', ''ext_smepmp'', ''ext_smrnmi'', ''ext_ssnpm'',
     ''ext_smnpm'', ''ext_smmpm'', ''ext_sspm'', ''ext_supm'', ''rvv_ta_all_1s'', ''rvv_ma_all_1s'',
     ''rvv_vl_half_avl'', ''rvv_vsetvl_x0_vill'', ''ext_svade'', ''ext_zic64b'', ''ext_ssstateen'',
     ''ext_sha'', ''has_priv_1_13'', ''has_priv_1_12'', ''has_priv_1_11'', ''ext_ziccrse'',
     ''ext_xtheadba'', ''ext_xtheadbb'', ''ext_xtheadbs'', ''ext_xtheadcmo'', ''ext_xtheadcondmov'',
     ''ext_xtheadfmemidx'', ''ext_xtheadfmv'', ''ext_xtheadmac'', ''ext_xtheadmemidx'',
     ''ext_xtheadmempair'', ''ext_xtheadsync'', ''ext_XVentanaCondOps'', ''mmu'', ''pmp'', ''debug'',
     ''misa_w'', ''short_isa_string'']"

definition typed_fields :: "(string \<times> int) list" where
  "typed_fields = [
     (''mvendorid'', 0), (''marchid'', 0), (''mimpid'', 0), (''pmu_mask'', 0), (''vlenb'', 0),
     (''elen'', 0), (''cbom_blocksize'', 0), (''cbop_blocksize'', 0), (''cboz_blocksize'', 0),
     (''pmp_regions'', 0), (''pmp_granularity'', 0), (''max_satp_mode'', - 1)]"

record cpu_config =
  cfg_on :: "string \<Rightarrow> bool"
  cfg_num :: "string \<Rightarrow> int"

definition riscv_cpu_cfg_merge :: "cpu_config \<Rightarrow> cpu_config \<Rightarrow> cpu_config" where
  "riscv_cpu_cfg_merge dest src = dest\<lparr>
     cfg_on := (\<lambda>x. cfg_on dest x \<or> (x \<in> set bool_fields \<and> cfg_on src x)),
     cfg_num := (\<lambda>x. case map_of typed_fields x of
                     Some d \<Rightarrow> if cfg_num src x \<noteq> d then cfg_num src x else cfg_num dest x
                   | None \<Rightarrow> cfg_num dest x)\<rparr>"

abbreviation set_on :: "string \<Rightarrow> bool \<Rightarrow> cpu_config \<Rightarrow> cpu_config" where
  "set_on x b c \<equiv> c\<lparr>cfg_on := (cfg_on c)(x := b)\<rparr>"

abbreviation set_num :: "string \<Rightarrow> int \<Rightarrow> cpu_config \<Rightarrow> cpu_config" where
  "set_num x v c \<equiv> c\<lparr>cfg_num := (cfg_num c)(x := v)\<rparr>"

definition config_new0 :: cpu_config where
  "config_new0 = \<lparr>cfg_on = (\<lambda>_. False), cfg_num = (\<lambda>_. 0)\<rparr>"

section \<open>Classes\<close>

datatype profile = Profile string "profile option" "profile option"

text \<open>The walk along the \<open>u_parent\<close> links and along the \<open>s_parent\<close> links of a profile.\<close>

fun u_reaches :: "profile \<Rightarrow> profile \<Rightarrow> bool" where
  "u_reaches (Profile n u s) parent =
     (Profile n u s = parent \<or> (case u of Some q \<Rightarrow> u_reaches q parent | None \<Rightarrow> False))"

fun s_reaches :: "profile \<Rightarrow> profile \<Rightarrow> bool" where
  "s_reaches (Profile n u s) parent =
     (Profile n u s = parent \<or> (case s of Some q \<Rightarrow> s_reaches q parent | None \<Rightarrow> False))"

definition profile_extends :: "profile \<Rightarrow> profile option \<Rightarrow> bool" where
  "profile_extends trial parent =
     (case parent of None \<Rightarrow> True | Some p \<Rightarrow> u_reaches trial p \<or> s_reaches trial p)"

definition MXL_RV32 :: nat where "MXL_RV32 = 1"
definition MXL_RV128 :: nat where "MXL_RV128 = 3"
definition VM_1_10_MBARE :: int where "VM_1_10_MBARE = 0"
definition VM_1_10_SV32 :: int where "VM_1_10_SV32 = 1"
definition PRIV_VERSION_1_10_0 :: int where "PRIV_VERSION_1_10_0 = 0"
definition PRIV_VERSION_LATEST :: int where "PRIV_VERSION_LATEST = 3"
definition RISCV_PROFILE_ATTR_UNUSED :: int where "RISCV_PROFILE_ATTR_UNUSED = - 1"

lemmas class_consts = MXL_RV32_def MXL_RV128_def VM_1_10_MBARE_def VM_1_10_SV32_def
  PRIV_VERSION_1_10_0_def PRIV_VERSION_LATEST_def RISCV_PROFILE_ATTR_UNUSED_def

definition valid_vm_1_10_32 :: "nat \<Rightarrow> bool" where
  "valid_vm_1_10_32 i \<longleftrightarrow> i = 0 \<or> i = 1"

record cpu_class =
  def_mxl :: nat
  def_profile :: "profile option"
  def_misa :: u32
  def_priv_spec :: int
  def_vext_spec :: int
  def_cfg :: cpu_config
  def_bare :: bool
  def_custom_csrs :: bool

definition class_new0 :: cpu_class where
  "class_new0 = \<lparr>def_mxl = 0, def_profile = None, def_misa = 0, def_priv_spec = 0, def_vext_spec = 0,
     def_cfg = config_new0, def_bare = False, def_custom_csrs = False\<rparr>"

text \<open>The initialiser of \<open>DEFINE_RISCV_CPU\<close> and \<open>DEFINE_ABSTRACT_RISCV_CPU\<close>.\<close>

definition define_riscv_cpu :: cpu_class where
  "define_riscv_cpu = class_new0\<lparr>def_priv_spec := RISCV_PROFILE_ATTR_UNUSED,
     def_vext_spec := RISCV_PROFILE_ATTR_UNUSED, def_cfg := set_num ''max_satp_mode'' (- 1) config_new0\<rparr>"

definition merge_profile :: "cpu_class \<Rightarrow> cpu_class \<Rightarrow> cpu_class option" where
  "merge_profile data d =
     (case def_profile data of
        None \<Rightarrow> Some d
      | Some p \<Rightarrow> if profile_extends p (def_profile d) \<and> def_bare d
                  then Some (d\<lparr>def_profile := Some p\<rparr>) else None)"

definition merge_mxl :: "cpu_class \<Rightarrow> cpu_class \<Rightarrow> cpu_class option" where
  "merge_mxl data d =
     (if def_mxl data = 0 then Some d
      else if MXL_RV128 < def_mxl data then None
      else let d1 = d\<lparr>def_mxl := def_mxl data\<rparr>; m = cfg_num (def_cfg d1) ''max_satp_mode'' in
        if def_mxl d1 \<noteq> MXL_RV32 then Some d1
        else if m < 0 \<or> 16 \<le> m then None
        else if valid_vm_1_10_32 (nat m) then Some d1
        else Some (d1\<lparr>def_cfg := set_num ''max_satp_mode'' VM_1_10_SV32 (def_cfg d1)\<rparr>))"

definition merge_versions :: "cpu_class \<Rightarrow> cpu_class \<Rightarrow> cpu_class option" where
  "merge_versions data d = do {
     d1 \<leftarrow> (if def_priv_spec data = RISCV_PROFILE_ATTR_UNUSED then Some d
           else if PRIV_VERSION_LATEST < def_priv_spec data then None
           else Some (d\<lparr>def_priv_spec := def_priv_spec data\<rparr>));
     if def_vext_spec data = RISCV_PROFILE_ATTR_UNUSED then Some d1
     else if def_vext_spec data = 0 then None
     else Some (d1\<lparr>def_vext_spec := def_vext_spec data\<rparr>)
   }"

definition merge_csrs :: "cpu_class \<Rightarrow> cpu_class \<Rightarrow> cpu_class option" where
  "merge_csrs data d =
     (if \<not> def_custom_csrs data then Some d
      else if def_custom_csrs d then None
      else Some (d\<lparr>def_custom_csrs := True\<rparr>))"

definition riscv_cpu_validate_misa_mxl :: "cpu_class \<Rightarrow> bool" where
  "riscv_cpu_validate_misa_mxl d \<longleftrightarrow> def_mxl d = MXL_RV32"

text \<open>\<open>parent\<close> is the definition of the parent class and \<open>data\<close> the class data (\<open>None\<close>: a null pointer).\<close>

definition riscv_cpu_class_base_init ::
    "bool \<Rightarrow> cpu_class option \<Rightarrow> cpu_class option \<Rightarrow> cpu_class option" where
  "riscv_cpu_class_base_init is_abstract parent data = do {
     d \<leftarrow> (case data of
             None \<Rightarrow> Some (case parent of Some p \<Rightarrow> p | None \<Rightarrow> class_new0)
           | Some def \<Rightarrow>
               let d0 = (case parent of Some p \<Rightarrow> p | None \<Rightarrow> class_new0) in do {
                 d1 \<leftarrow> merge_profile def (d0\<lparr>def_bare := def_bare d0 \<or> def_bare def\<rparr>);
                 d2 \<leftarrow> merge_mxl def d1;
                 d3 \<leftarrow> merge_versions def d2;
                 merge_csrs def (d3\<lparr>def_misa := def_misa d3 OR def_misa def,
                                    def_cfg := riscv_cpu_cfg_merge (def_cfg d3) (def_cfg def)\<rparr>)
               });
     if is_abstract \<or> riscv_cpu_validate_misa_mxl d then Some d else None
   }"

section \<open>The QingKe classes\<close>

definition riscv_bare_cpu :: cpu_class where
  "riscv_bare_cpu = define_riscv_cpu\<lparr>def_bare := True, def_priv_spec := PRIV_VERSION_1_10_0,
     def_cfg := set_num ''max_satp_mode'' VM_1_10_SV32 config_new0\<rparr>"

definition riscv_cpu_wch_qingke_base :: cpu_class where
  "riscv_cpu_wch_qingke_base = define_riscv_cpu\<lparr>def_priv_spec := PRIV_VERSION_LATEST, def_mxl := MXL_RV32,
     def_cfg := set_on ''mmu'' False (set_on ''pmp'' True (set_num ''pmp_regions'' 4
                  (set_num ''max_satp_mode'' VM_1_10_MBARE config_new0)))\<rparr>"

definition RV :: "char \<Rightarrow> u32" where "RV x = one_bit (of_char x - 65)"

definition misa_word :: "string \<Rightarrow> u32" where
  "misa_word s = foldr (\<lambda>x w. RV x OR w) s 0"

text \<open>The initialiser of a model, from its row of the table: \<open>WCH_QINGKE_BASE_CFG\<close> and what the row sets.\<close>

definition qingke_cfg :: "cpu_def \<Rightarrow> cpu_config" where
  "qingke_cfg d = config_new0\<lparr>
     cfg_on := (\<lambda>x. x \<in> {''ext_zicsr'', ''ext_zifencei'', ''ext_zca'', ''ext_zcb''} \<or>
        (x = ''ext_zcf'' \<and> ext_zcf d) \<or>
        (x \<in> {''ext_zba'', ''ext_zbb'', ''ext_zbc'', ''ext_zbs''} \<and> ext_b_group d) \<or>
        (x = ''ext_zmmul'' \<and> ext_zmmul d) \<or> (x = ''ext_xw'' \<and> ext_xw d) \<or>
        (x = ''ext_xwchmcpy'' \<and> ext_xwchmcpy d) \<or> (x = ''ext_hpe'' \<and> Ch32_Boards.ext_hpe d)),
     cfg_num := (\<lambda>x. if x = ''pmp_regions'' then int (pmp_regions d)
        else if x = ''marchid'' then uint (marchid d) else if x = ''mimpid'' then uint (mimpid d)
        else if x = ''mvendorid'' then uint (mvendorid d)
        else if x = ''max_satp_mode'' then - 1 else 0)\<rparr>"

definition qingke_data :: "cpu_def \<Rightarrow> cpu_class" where
  "qingke_data d = define_riscv_cpu\<lparr>def_mxl := MXL_RV32, def_misa := misa_word (misa_ext d),
     def_cfg := qingke_cfg d\<rparr>"

definition qingke_class :: "qingke \<Rightarrow> cpu_class option" where
  "qingke_class c = do {
     d \<leftarrow> cpu_type_info c;
     b \<leftarrow> riscv_cpu_class_base_init True None (Some riscv_bare_cpu);
     q \<leftarrow> riscv_cpu_class_base_init True (Some b) (Some riscv_cpu_wch_qingke_base);
     riscv_cpu_class_base_init False (Some q) (Some (qingke_data d))
   }"

section \<open>Instances\<close>

record riscv_cpu =
  rcfg :: cpu_config
  r_mxl :: nat
  r_misa :: u32
  r_misa_mask :: u32
  r_priv_ver :: int
  r_vext_ver :: int
  r_profile :: "profile option"
  satp_map :: u32
  satp_init :: u32
  user_opts :: "string \<rightharpoonup> u32"
  type_chain :: "string list"

definition MIN_RISCV_PMP_GRANULARITY :: int where "MIN_RISCV_PMP_GRANULARITY = 4"
definition VEXT_VERSION_1_00_0 :: int where "VEXT_VERSION_1_00_0 = 0x10000"

text \<open>The defaults of \<open>riscv_cpu_properties\<close>, set before the instance is initialised.\<close>

definition property_defaults :: cpu_config where
  "property_defaults = set_on ''debug'' True config_new0"

text \<open>\<open>accel\<close> is \<open>accel_cpu_instance_init\<close>; \<open>chain\<close> the names of the instance's type and its parents.\<close>

definition riscv_cpu_init :: "(riscv_cpu \<Rightarrow> riscv_cpu) \<Rightarrow> string list \<Rightarrow> cpu_class \<Rightarrow> riscv_cpu" where
  "riscv_cpu_init accel chain d =
     (let c0 = set_on ''ext_zihpm'' (\<not> def_bare d) (set_on ''ext_zicntr'' (\<not> def_bare d) property_defaults);
          c1 = set_num ''max_satp_mode'' (- 1) (set_num ''pmp_granularity'' MIN_RISCV_PMP_GRANULARITY
                 (set_num ''pmp_regions'' 16 (set_num ''cboz_blocksize'' 64 (set_num ''cbop_blocksize'' 64
                 (set_num ''cbom_blocksize'' 64 (set_num ''elen'' 64 (set_num ''vlenb'' 16
                 (set_num ''pmu_mask'' 0x7FFF8 c0))))))));
          cpu = \<lparr>rcfg = riscv_cpu_cfg_merge c1 (def_cfg d), r_mxl = def_mxl d, r_misa = def_misa d,
                 r_misa_mask = def_misa d,
                 r_priv_ver = (if def_priv_spec d \<noteq> RISCV_PROFILE_ATTR_UNUSED then def_priv_spec d else 0),
                 r_vext_ver = (if def_vext_spec d \<noteq> RISCV_PROFILE_ATTR_UNUSED then def_vext_spec d
                               else VEXT_VERSION_1_00_0),
                 r_profile = def_profile d, satp_map = 0, satp_init = 0, user_opts = Map.empty,
                 type_chain = chain\<rparr>
      in accel cpu)"

definition riscv_cpu_is_vendor :: "riscv_cpu \<Rightarrow> bool" where
  "riscv_cpu_is_vendor cpu \<longleftrightarrow> ''riscv-vendor-cpu'' \<in> set (type_chain cpu)"

definition riscv_cpu_is_dynamic :: "riscv_cpu \<Rightarrow> bool" where
  "riscv_cpu_is_dynamic cpu \<longleftrightarrow> ''riscv-dynamic-cpu'' \<in> set (type_chain cpu)"

definition is_bare_cpu :: "riscv_cpu \<Rightarrow> bool" where
  "is_bare_cpu cpu \<longleftrightarrow> ''riscv-bare-cpu'' \<in> set (type_chain cpu)"

text \<open>The names of the models (\<open>cpu-qom.h\<close>) and of the classes above them.\<close>

definition qingke_name :: "qingke \<Rightarrow> string" where
  "qingke_name c = (case c of
     Base32 \<Rightarrow> ''rv32'' | V5F \<Rightarrow> ''wch-qingke-v5f'' | V4F \<Rightarrow> ''wch-qingke-v4f'' | V4J \<Rightarrow> ''wch-qingke-v4j''
   | V4C \<Rightarrow> ''wch-qingke-v4c'' | V4B \<Rightarrow> ''wch-qingke-v4b'' | V4A \<Rightarrow> ''wch-qingke-v4a''
   | V3V \<Rightarrow> ''wch-qingke-v3v'' | V3F \<Rightarrow> ''wch-qingke-v3f'' | V3C \<Rightarrow> ''wch-qingke-v3c''
   | V3B \<Rightarrow> ''wch-qingke-v3b'' | V3A \<Rightarrow> ''wch-qingke-v3a'' | V2C \<Rightarrow> ''wch-qingke-v2c''
   | V2A \<Rightarrow> ''wch-qingke-v2a'') @ ''-riscv-cpu''"

definition qingke_chain :: "qingke \<Rightarrow> string list" where
  "qingke_chain c = [qingke_name c, ''wch-qingke-base-riscv-cpu'', ''riscv-bare-cpu'', ''riscv-cpu'']"

definition qingke_cpu :: "(riscv_cpu \<Rightarrow> riscv_cpu) \<Rightarrow> qingke \<Rightarrow> riscv_cpu option" where
  "qingke_cpu accel c = map_option (riscv_cpu_init accel (qingke_chain c)) (qingke_class c)"

section \<open>Options\<close>

datatype prop_error = Err_fixed_value | Err_counters | Err_regions | Err_granularity | Err_priv_spec
  | Err_vext_spec | Err_power_of_2 | Err_id | Err_marchid | Err_satp_too_high

definition cpu_option_add_user_setting :: "string \<Rightarrow> u32 \<Rightarrow> riscv_cpu \<Rightarrow> riscv_cpu" where
  "cpu_option_add_user_setting optname value cpu = cpu\<lparr>user_opts := (user_opts cpu)(optname \<mapsto> value)\<rparr>"

definition riscv_cpu_option_set :: "string \<Rightarrow> riscv_cpu \<Rightarrow> bool" where
  "riscv_cpu_option_set optname cpu \<longleftrightarrow> user_opts cpu optname \<noteq> None"

abbreviation upd_cfg :: "(cpu_config \<Rightarrow> cpu_config) \<Rightarrow> riscv_cpu \<Rightarrow> riscv_cpu" where
  "upd_cfg f cpu \<equiv> cpu\<lparr>rcfg := f (rcfg cpu)\<rparr>"

definition ctpop32 :: "u32 \<Rightarrow> nat" where
  "ctpop32 w = length (filter (bit w) [0..<32])"

definition is_power_of_2 :: "u64 \<Rightarrow> bool" where
  "is_power_of_2 v \<longleftrightarrow> v \<noteq> 0 \<and> v AND (v - 1) = 0"

definition pmu_mask_of :: "riscv_cpu \<Rightarrow> u32" where
  "pmu_mask_of cpu = of_int (cfg_num (rcfg cpu) ''pmu_mask'')"

definition prop_pmu_num_set :: "u8 \<Rightarrow> riscv_cpu \<Rightarrow> prop_error + riscv_cpu" where
  "prop_pmu_num_set pmu_num cpu =
     (if unat pmu_num \<noteq> ctpop32 (pmu_mask_of cpu) \<and> riscv_cpu_is_vendor cpu then Inl Err_fixed_value
      else if 29 < pmu_num then Inl Err_counters
      else let pmu_mask = (if pmu_num = 0 then 0 else push_bit 3 (mask (unat pmu_num))) :: u32
           in Inr (cpu_option_add_user_setting ''pmu-mask'' pmu_mask
                     (upd_cfg (set_num ''pmu_mask'' (uint pmu_mask)) cpu)))"

definition prop_pmu_num_get :: "riscv_cpu \<Rightarrow> u8" where
  "prop_pmu_num_get cpu = of_nat (ctpop32 (pmu_mask_of cpu))"

definition prop_pmu_mask_set :: "u32 \<Rightarrow> riscv_cpu \<Rightarrow> prop_error + riscv_cpu" where
  "prop_pmu_mask_set value cpu =
     (if value \<noteq> pmu_mask_of cpu \<and> riscv_cpu_is_vendor cpu then Inl Err_fixed_value
      else if 29 < ctpop32 value then Inl Err_counters
      else Inr (upd_cfg (set_num ''pmu_mask'' (uint value))
                  (cpu_option_add_user_setting ''pmu-mask'' value cpu)))"

definition prop_pmu_mask_get :: "riscv_cpu \<Rightarrow> u8" where
  "prop_pmu_mask_get cpu = ucast (pmu_mask_of cpu)"

text \<open>A flag or a number that a vendor processor keeps; \<open>name\<close> is the option and \<open>field\<close> its field.\<close>

definition set_flag :: "string \<Rightarrow> string \<Rightarrow> bool \<Rightarrow> riscv_cpu \<Rightarrow> prop_error + riscv_cpu" where
  "set_flag name field value cpu =
     (if cfg_on (rcfg cpu) field \<noteq> value \<and> riscv_cpu_is_vendor cpu then Inl Err_fixed_value
      else Inr (upd_cfg (set_on field value) (cpu_option_add_user_setting name (of_bool value) cpu)))"

definition set_number :: "string \<Rightarrow> string \<Rightarrow> u32 \<Rightarrow> riscv_cpu \<Rightarrow> prop_error + riscv_cpu" where
  "set_number name field value cpu =
     (if uint value \<noteq> cfg_num (rcfg cpu) field \<and> riscv_cpu_is_vendor cpu then Inl Err_fixed_value
      else Inr (upd_cfg (set_num field (uint value)) (cpu_option_add_user_setting name value cpu)))"

definition prop_mmu_set :: "bool \<Rightarrow> riscv_cpu \<Rightarrow> prop_error + riscv_cpu" where
  "prop_mmu_set = set_flag ''mmu'' ''mmu''"

definition prop_mmu_get :: "riscv_cpu \<Rightarrow> bool" where "prop_mmu_get cpu = cfg_on (rcfg cpu) ''mmu''"

definition prop_pmp_set :: "bool \<Rightarrow> riscv_cpu \<Rightarrow> prop_error + riscv_cpu" where
  "prop_pmp_set = set_flag ''pmp'' ''pmp''"

definition prop_pmp_get :: "riscv_cpu \<Rightarrow> bool" where "prop_pmp_get cpu = cfg_on (rcfg cpu) ''pmp''"

definition prop_num_pmp_regions_set :: "u8 \<Rightarrow> riscv_cpu \<Rightarrow> prop_error + riscv_cpu" where
  "prop_num_pmp_regions_set value cpu =
     (if cfg_num (rcfg cpu) ''pmp_regions'' \<noteq> uint value \<and> riscv_cpu_is_vendor cpu then Inl Err_fixed_value
      else if r_priv_ver cpu < 2 \<and> 16 < value then Inl Err_regions
      else if 64 < value then Inl Err_regions
      else Inr (upd_cfg (set_num ''pmp_regions'' (uint value))
                  (cpu_option_add_user_setting ''num-pmp-regions'' (ucast value) cpu)))"

definition prop_num_pmp_regions_get :: "riscv_cpu \<Rightarrow> u8" where
  "prop_num_pmp_regions_get cpu = of_int (cfg_num (rcfg cpu) ''pmp_regions'')"

definition prop_pmp_granularity_set :: "u32 \<Rightarrow> riscv_cpu \<Rightarrow> prop_error + riscv_cpu" where
  "prop_pmp_granularity_set value cpu =
     (if uint value < MIN_RISCV_PMP_GRANULARITY \<and> value AND (value - 1) \<noteq> 0 then Inl Err_granularity
      else set_number ''pmp-granularity'' ''pmp_granularity'' value cpu)"

definition prop_pmp_granularity_get :: "riscv_cpu \<Rightarrow> u32" where
  "prop_pmp_granularity_get cpu = of_int (cfg_num (rcfg cpu) ''pmp_granularity'')"

definition priv_spec_from_str :: "string \<Rightarrow> int" where
  "priv_spec_from_str s =
     (if s = ''v1.13.0'' then 3 else if s = ''v1.12.0'' then 2 else if s = ''v1.11.0'' then 1
      else if s = ''v1.10.0'' then 0 else - 1)"

definition priv_spec_to_str :: "int \<Rightarrow> string option" where
  "priv_spec_to_str v =
     (if v = 0 then Some ''v1.10.0'' else if v = 1 then Some ''v1.11.0'' else if v = 2 then Some ''v1.12.0''
      else if v = 3 then Some ''v1.13.0'' else None)"

definition prop_priv_spec_set :: "string \<Rightarrow> riscv_cpu \<Rightarrow> prop_error + riscv_cpu" where
  "prop_priv_spec_set value cpu =
     (let v = priv_spec_from_str value in
      if v < 0 then Inl Err_priv_spec
      else if v \<noteq> r_priv_ver cpu \<and> riscv_cpu_is_vendor cpu then Inl Err_fixed_value
      else Inr ((cpu_option_add_user_setting ''priv_spec'' (of_int v) cpu)\<lparr>r_priv_ver := v\<rparr>))"

definition prop_priv_spec_get :: "riscv_cpu \<Rightarrow> string option" where
  "prop_priv_spec_get cpu = priv_spec_to_str (r_priv_ver cpu)"

definition prop_vext_spec_set :: "string \<Rightarrow> riscv_cpu \<Rightarrow> prop_error + riscv_cpu" where
  "prop_vext_spec_set value cpu =
     (if value \<noteq> ''v1.0'' then Inl Err_vext_spec
      else Inr ((cpu_option_add_user_setting ''vext_spec'' (of_int VEXT_VERSION_1_00_0) cpu)
                  \<lparr>r_vext_ver := VEXT_VERSION_1_00_0\<rparr>))"

definition prop_vext_spec_get :: "riscv_cpu \<Rightarrow> string" where
  "prop_vext_spec_get cpu = ''v1.0''"

definition vlen_of :: "riscv_cpu \<Rightarrow> u16" where
  "vlen_of cpu = push_bit 3 (of_int (cfg_num (rcfg cpu) ''vlenb''))"

definition prop_vlen_set :: "u16 \<Rightarrow> riscv_cpu \<Rightarrow> prop_error + riscv_cpu" where
  "prop_vlen_set value cpu =
     (if \<not> is_power_of_2 (ucast value) then Inl Err_power_of_2
      else if value \<noteq> vlen_of cpu \<and> riscv_cpu_is_vendor cpu then Inl Err_fixed_value
      else Inr (upd_cfg (set_num ''vlenb'' (uint (drop_bit 3 value)))
                  (cpu_option_add_user_setting ''vlen'' (ucast value) cpu)))"

definition prop_vlen_get :: "riscv_cpu \<Rightarrow> u16" where "prop_vlen_get cpu = vlen_of cpu"

definition prop_elen_set :: "u16 \<Rightarrow> riscv_cpu \<Rightarrow> prop_error + riscv_cpu" where
  "prop_elen_set value cpu =
     (if \<not> is_power_of_2 (ucast value) then Inl Err_power_of_2
      else set_number ''elen'' ''elen'' (ucast value) cpu)"

definition prop_elen_get :: "riscv_cpu \<Rightarrow> u16" where
  "prop_elen_get cpu = of_int (cfg_num (rcfg cpu) ''elen'')"

definition prop_cbom_blksize_set :: "u16 \<Rightarrow> riscv_cpu \<Rightarrow> prop_error + riscv_cpu" where
  "prop_cbom_blksize_set value = set_number ''cbom_blocksize'' ''cbom_blocksize'' (ucast value)"

definition prop_cbom_blksize_get :: "riscv_cpu \<Rightarrow> u16" where
  "prop_cbom_blksize_get cpu = of_int (cfg_num (rcfg cpu) ''cbom_blocksize'')"

definition prop_cbop_blksize_set :: "u16 \<Rightarrow> riscv_cpu \<Rightarrow> prop_error + riscv_cpu" where
  "prop_cbop_blksize_set value = set_number ''cbop_blocksize'' ''cbop_blocksize'' (ucast value)"

definition prop_cbop_blksize_get :: "riscv_cpu \<Rightarrow> u16" where
  "prop_cbop_blksize_get cpu = of_int (cfg_num (rcfg cpu) ''cbop_blocksize'')"

definition prop_cboz_blksize_set :: "u16 \<Rightarrow> riscv_cpu \<Rightarrow> prop_error + riscv_cpu" where
  "prop_cboz_blksize_set value = set_number ''cboz_blocksize'' ''cboz_blocksize'' (ucast value)"

definition prop_cboz_blksize_get :: "riscv_cpu \<Rightarrow> u16" where
  "prop_cboz_blksize_get cpu = of_int (cfg_num (rcfg cpu) ''cboz_blocksize'')"

definition prop_mvendorid_set :: "u32 \<Rightarrow> riscv_cpu \<Rightarrow> prop_error + riscv_cpu" where
  "prop_mvendorid_set value cpu =
     (if \<not> riscv_cpu_is_dynamic cpu \<and> cfg_num (rcfg cpu) ''mvendorid'' \<noteq> uint value then Inl Err_id
      else Inr (upd_cfg (set_num ''mvendorid'' (uint value)) cpu))"

definition prop_mvendorid_get :: "riscv_cpu \<Rightarrow> u32" where
  "prop_mvendorid_get cpu = of_int (cfg_num (rcfg cpu) ''mvendorid'')"

definition prop_mimpid_set :: "u64 \<Rightarrow> riscv_cpu \<Rightarrow> prop_error + riscv_cpu" where
  "prop_mimpid_set value cpu =
     (if \<not> riscv_cpu_is_dynamic cpu \<and> cfg_num (rcfg cpu) ''mimpid'' \<noteq> uint value then Inl Err_id
      else Inr (upd_cfg (set_num ''mimpid'' (uint value)) cpu))"

definition prop_mimpid_get :: "riscv_cpu \<Rightarrow> u64" where
  "prop_mimpid_get cpu = of_int (cfg_num (rcfg cpu) ''mimpid'')"

definition prop_marchid_set :: "u64 \<Rightarrow> riscv_cpu \<Rightarrow> prop_error + riscv_cpu" where
  "prop_marchid_set value cpu =
     (if \<not> riscv_cpu_is_dynamic cpu \<and> cfg_num (rcfg cpu) ''marchid'' \<noteq> uint value then Inl Err_id
      else if value = push_bit 31 1 then Inl Err_marchid
      else Inr (upd_cfg (set_num ''marchid'' (uint value)) cpu))"

definition prop_marchid_get :: "riscv_cpu \<Rightarrow> u64" where
  "prop_marchid_get cpu = of_int (cfg_num (rcfg cpu) ''marchid'')"

text \<open>The switch of a translation mode. The 32-bit target has the one for \<open>sv32\<close>.\<close>

definition satp_mode_from_str :: "string \<Rightarrow> nat option" where
  "satp_mode_from_str s =
     (if take 5 s = ''mbare'' then Some 0 else if take 4 s = ''sv32'' then Some 1
      else if take 4 s = ''sv39'' then Some 8 else if take 4 s = ''sv48'' then Some 9
      else if take 4 s = ''sv57'' then Some 10 else if take 4 s = ''sv64'' then Some 11 else None)"

definition cpu_riscv_get_satp :: "nat \<Rightarrow> riscv_cpu \<Rightarrow> bool" where
  "cpu_riscv_get_satp satp cpu \<longleftrightarrow> satp_map cpu AND one_bit satp \<noteq> 0"

definition cpu_riscv_set_satp :: "nat \<Rightarrow> bool \<Rightarrow> riscv_cpu \<Rightarrow> riscv_cpu" where
  "cpu_riscv_set_satp satp value cpu = cpu\<lparr>
     satp_map := (satp_map cpu AND NOT (one_bit satp)) OR (if value then one_bit satp else 0),
     satp_init := satp_init cpu OR one_bit satp\<rparr>"

datatype cpu_option = Opt_pmu_mask u32 | Opt_pmu_num u8 | Opt_mmu bool | Opt_pmp bool
  | Opt_num_pmp_regions u8 | Opt_pmp_granularity u32 | Opt_priv_spec string | Opt_vext_spec string
  | Opt_vlen u16 | Opt_elen u16 | Opt_cbom u16 | Opt_cbop u16 | Opt_cboz u16
  | Opt_mvendorid u32 | Opt_mimpid u64 | Opt_marchid u64 | Opt_flag cpu_flag bool | Opt_sv32 bool
and cpu_flag = Fl_debug | Fl_short_isa_string | Fl_rvv_ta_all_1s | Fl_rvv_ma_all_1s
  | Fl_rvv_vl_half_avl | Fl_rvv_vsetvl_x0_vill | Fl_misa_w

primrec flag_field :: "cpu_flag \<Rightarrow> string" where
  "flag_field Fl_debug = ''debug''"
| "flag_field Fl_short_isa_string = ''short_isa_string''"
| "flag_field Fl_rvv_ta_all_1s = ''rvv_ta_all_1s''"
| "flag_field Fl_rvv_ma_all_1s = ''rvv_ma_all_1s''"
| "flag_field Fl_rvv_vl_half_avl = ''rvv_vl_half_avl''"
| "flag_field Fl_rvv_vsetvl_x0_vill = ''rvv_vsetvl_x0_vill''"
| "flag_field Fl_misa_w = ''misa_w''"

primrec set_option :: "cpu_option \<Rightarrow> riscv_cpu \<Rightarrow> prop_error + riscv_cpu" where
  "set_option (Opt_pmu_mask v) = prop_pmu_mask_set v"
| "set_option (Opt_pmu_num v) = prop_pmu_num_set v"
| "set_option (Opt_mmu v) = prop_mmu_set v"
| "set_option (Opt_pmp v) = prop_pmp_set v"
| "set_option (Opt_num_pmp_regions v) = prop_num_pmp_regions_set v"
| "set_option (Opt_pmp_granularity v) = prop_pmp_granularity_set v"
| "set_option (Opt_priv_spec v) = prop_priv_spec_set v"
| "set_option (Opt_vext_spec v) = prop_vext_spec_set v"
| "set_option (Opt_vlen v) = prop_vlen_set v"
| "set_option (Opt_elen v) = prop_elen_set v"
| "set_option (Opt_cbom v) = prop_cbom_blksize_set v"
| "set_option (Opt_cbop v) = prop_cbop_blksize_set v"
| "set_option (Opt_cboz v) = prop_cboz_blksize_set v"
| "set_option (Opt_mvendorid v) = prop_mvendorid_set v"
| "set_option (Opt_mimpid v) = prop_mimpid_set v"
| "set_option (Opt_marchid v) = prop_marchid_set v"
| "set_option (Opt_flag f v) = (\<lambda>cpu. Inr (upd_cfg (set_on (flag_field f) v) cpu))"
| "set_option (Opt_sv32 v) = (\<lambda>cpu. Inr (cpu_riscv_set_satp 1 v cpu))"

text \<open>The options of a command line, in order; the first refused one ends it.\<close>

fun set_options :: "cpu_option list \<Rightarrow> riscv_cpu \<Rightarrow> prop_error + riscv_cpu" where
  "set_options [] cpu = Inr cpu"
| "set_options (x # xs) cpu = (case set_option x cpu of Inl e \<Rightarrow> Inl e | Inr cpu' \<Rightarrow> set_options xs cpu')"

section \<open>The translation mode\<close>

definition satp_mode_max_from_map :: "u32 \<Rightarrow> nat option" where
  "satp_mode_max_from_map m = List.find (bit m) (rev [0..<32])"

definition satp_mode_str :: "nat \<Rightarrow> string option" where
  "satp_mode_str m = (if m = 1 then Some ''sv32'' else if m = 0 then Some ''none'' else None)"

definition get_satp_mode_supported :: "riscv_cpu \<Rightarrow> u16 option" where
  "get_satp_mode_supported cpu =
     (let satp_mode = cfg_num (rcfg cpu) ''max_satp_mode'' in
      if satp_mode = - 1 then None
      else Some (fold (\<lambda>i w. if valid_vm_1_10_32 i then w OR one_bit i else w) [0..<nat (satp_mode + 1)] 0))"

definition set_satp_mode_default_map :: "riscv_cpu \<Rightarrow> riscv_cpu" where
  "set_satp_mode_default_map cpu =
     (if is_bare_cpu cpu then upd_cfg (set_num ''max_satp_mode'' VM_1_10_MBARE) cpu else cpu)"

text \<open>The first valid level below a supported one that the user disabled.\<close>

definition satp_below :: "u16 \<Rightarrow> nat \<Rightarrow> nat option" where
  "satp_below supported i = List.find (bit supported) (rev [0..<i])"

definition satp_disabled :: "u32 \<Rightarrow> u16 \<Rightarrow> nat option" where
  "satp_disabled init supported =
     (case List.find (\<lambda>i. bit init i \<and> bit supported i \<and> satp_below supported i \<noteq> None) [1..<16] of
        None \<Rightarrow> None | Some i \<Rightarrow> satp_below supported i)"

definition riscv_cpu_satp_mode_finalize :: "riscv_cpu \<Rightarrow> prop_error + riscv_cpu" where
  "riscv_cpu_satp_mode_finalize cpu =
     (case get_satp_mode_supported cpu of
        None \<Rightarrow> Inr cpu
      | Some supported \<Rightarrow>
          if satp_map cpu = 0 then
            (if satp_init cpu = 0 then Inr (set_satp_mode_default_map cpu)
             else case satp_disabled (satp_init cpu) supported of
                    Some j \<Rightarrow> Inr (upd_cfg (set_num ''max_satp_mode'' (int j)) cpu)
                  | None \<Rightarrow> Inr cpu)
          else let satp_mode_map_max = the (satp_mode_max_from_map (satp_map cpu)) in
            if cfg_num (rcfg cpu) ''max_satp_mode'' < int satp_mode_map_max then Inl Err_satp_too_high
            else Inr (upd_cfg (set_num ''max_satp_mode'' (int satp_mode_map_max)) cpu))"

text \<open>\<open>tcg\<close>: the feature check of the accelerator; \<open>execr\<close>: \<open>cpu_exec_realizefn\<close>; \<open>start\<close>: the rest, which cannot fail.\<close>

definition riscv_cpu_finalize_features ::
    "(riscv_cpu \<Rightarrow> prop_error + riscv_cpu) \<Rightarrow> riscv_cpu \<Rightarrow> prop_error + riscv_cpu" where
  "riscv_cpu_finalize_features tcg cpu =
     (case riscv_cpu_satp_mode_finalize cpu of Inl e \<Rightarrow> Inl e | Inr cpu1 \<Rightarrow> tcg cpu1)"

definition riscv_cpu_realize ::
    "(riscv_cpu \<Rightarrow> prop_error option) \<Rightarrow> (riscv_cpu \<Rightarrow> prop_error + riscv_cpu) \<Rightarrow> (riscv_cpu \<Rightarrow> riscv_cpu) \<Rightarrow>
     riscv_cpu \<Rightarrow> prop_error + riscv_cpu" where
  "riscv_cpu_realize execr tcg start cpu =
     (case execr cpu of
        Some e \<Rightarrow> Inl e
      | None \<Rightarrow> (case riscv_cpu_finalize_features tcg cpu of Inl e \<Rightarrow> Inl e | Inr cpu1 \<Rightarrow> Inr (start cpu1)))"

section \<open>The effective configuration\<close>

lemma merge_on:
  "x \<in> set bool_fields \<Longrightarrow> cfg_on (riscv_cpu_cfg_merge a b) x \<longleftrightarrow> cfg_on a x \<or> cfg_on b x"
  by (simp add: riscv_cpu_cfg_merge_def)

lemma merge_num:
  "map_of typed_fields x = Some d \<Longrightarrow>
     cfg_num (riscv_cpu_cfg_merge a b) x = (if cfg_num b x \<noteq> d then cfg_num b x else cfg_num a x)"
  by (simp add: riscv_cpu_cfg_merge_def)

lemma used_bool_fields:
  "''mmu'' \<in> set bool_fields" "''pmp'' \<in> set bool_fields" "''ext_hpe'' \<in> set bool_fields"
  "''ext_xw'' \<in> set bool_fields" "''ext_xwchmcpy'' \<in> set bool_fields" "''ext_zca'' \<in> set bool_fields"
  "''ext_zicntr'' \<in> set bool_fields" "''ext_zihpm'' \<in> set bool_fields" "''ext_zicsr'' \<in> set bool_fields"
  by (simp_all add: bool_fields_def)

lemma used_typed_fields:
  "map_of typed_fields ''pmp_regions'' = Some 0" "map_of typed_fields ''marchid'' = Some 0"
  "map_of typed_fields ''mimpid'' = Some 0" "map_of typed_fields ''mvendorid'' = Some 0"
  "map_of typed_fields ''max_satp_mode'' = Some (- 1)" "map_of typed_fields ''pmu_mask'' = Some 0"
  by (simp_all add: typed_fields_def)

lemmas merge_fields = merge_on[OF used_bool_fields(1)] merge_on[OF used_bool_fields(2)]
  merge_on[OF used_bool_fields(3)] merge_on[OF used_bool_fields(4)] merge_on[OF used_bool_fields(5)]
  merge_on[OF used_bool_fields(6)] merge_on[OF used_bool_fields(7)] merge_on[OF used_bool_fields(8)]
  merge_on[OF used_bool_fields(9)] merge_num[OF used_typed_fields(1)] merge_num[OF used_typed_fields(2)]
  merge_num[OF used_typed_fields(3)] merge_num[OF used_typed_fields(4)] merge_num[OF used_typed_fields(5)]
  merge_num[OF used_typed_fields(6)]

definition qingke_base_cfg :: cpu_config where
  "qingke_base_cfg = riscv_cpu_cfg_merge (riscv_cpu_cfg_merge config_new0 (def_cfg riscv_bare_cpu))
     (def_cfg riscv_cpu_wch_qingke_base)"

lemma qingke_class_row:
  assumes "cpu_type_info c = Some d"
  shows "qingke_class c = Some \<lparr>def_mxl = MXL_RV32, def_profile = None, def_misa = misa_word (misa_ext d),
    def_priv_spec = PRIV_VERSION_LATEST, def_vext_spec = 0,
    def_cfg = riscv_cpu_cfg_merge qingke_base_cfg (qingke_cfg d), def_bare = True, def_custom_csrs = False\<rparr>"
  using assms
  by (simp add: qingke_class_def riscv_cpu_class_base_init_def merge_profile_def merge_mxl_def
      merge_versions_def merge_csrs_def riscv_bare_cpu_def riscv_cpu_wch_qingke_base_def define_riscv_cpu_def
      class_new0_def qingke_data_def riscv_cpu_validate_misa_mxl_def class_consts Let_def merge_fields
      config_new0_def valid_vm_1_10_32_def qingke_base_cfg_def)

lemma qingke_base_fields:
  "\<not> cfg_on qingke_base_cfg ''mmu''" "cfg_on qingke_base_cfg ''pmp''" "\<not> cfg_on qingke_base_cfg ''ext_hpe''"
  "\<not> cfg_on qingke_base_cfg ''ext_zicntr''" "\<not> cfg_on qingke_base_cfg ''ext_zihpm''"
  "\<not> cfg_on qingke_base_cfg ''ext_zca''"
  "cfg_num qingke_base_cfg ''pmp_regions'' = 4" "cfg_num qingke_base_cfg ''max_satp_mode'' = 0"
  "cfg_num qingke_base_cfg ''marchid'' = 0" "cfg_num qingke_base_cfg ''mimpid'' = 0"
  "cfg_num qingke_base_cfg ''mvendorid'' = 0" "cfg_num qingke_base_cfg ''pmu_mask'' = 0"
  by (simp_all add: qingke_base_cfg_def merge_fields riscv_bare_cpu_def riscv_cpu_wch_qingke_base_def
      define_riscv_cpu_def class_new0_def config_new0_def class_consts)

lemma qingke_row:
  assumes "cpu_type_info c = Some d"
  shows "Ch32_Boards.ext_hpe d" "pmp_regions d = 0 \<or> pmp_regions d = 4" "marchid d \<noteq> 0" "mimpid d = 0xDC688001"
    "mvendorid d = 0"
proof -
  have "c \<noteq> Base32" using assms by (auto simp: cpu_type_info_def)
  then show "Ch32_Boards.ext_hpe d" "pmp_regions d = 0 \<or> pmp_regions d = 4" "marchid d \<noteq> 0" "mimpid d = 0xDC688001"
    "mvendorid d = 0"
    using assms by (cases c; simp add: cpu_type_info_def qingke_base_def WCH_QINGKE_MARCHID_def
        WCH_QINGKE_MIMPID_def WCH_QINGKE_MVENDORID_def; fastforce)+
qed

lemma qingke_types:
  assumes "type_chain cpu = qingke_chain c"
  shows "\<not> riscv_cpu_is_vendor cpu" "\<not> riscv_cpu_is_dynamic cpu" "is_bare_cpu cpu"
  using assms by (cases c; simp add: riscv_cpu_is_vendor_def riscv_cpu_is_dynamic_def is_bare_cpu_def
      qingke_chain_def qingke_name_def)+

lemma instance_fields:
  assumes "cpu_type_info c = Some d" "qingke_cpu accel c = Some x"
  obtains cpu where "x = accel cpu" "\<not> cfg_on (rcfg cpu) ''mmu''" "cfg_on (rcfg cpu) ''pmp''"
    "cfg_on (rcfg cpu) ''ext_hpe''" "\<not> cfg_on (rcfg cpu) ''ext_zicntr''" "\<not> cfg_on (rcfg cpu) ''ext_zihpm''"
    "cfg_on (rcfg cpu) ''ext_zca''" "cfg_on (rcfg cpu) ''ext_zicsr''"
    "cfg_on (rcfg cpu) ''ext_xw'' = ext_xw d" "cfg_on (rcfg cpu) ''ext_xwchmcpy'' = ext_xwchmcpy d"
    "cfg_num (rcfg cpu) ''pmp_regions'' = 4" "cfg_num (rcfg cpu) ''max_satp_mode'' = 0"
    "cfg_num (rcfg cpu) ''marchid'' = uint (marchid d)" "cfg_num (rcfg cpu) ''mimpid'' = uint (mimpid d)"
    "cfg_num (rcfg cpu) ''mvendorid'' = 0" "cfg_num (rcfg cpu) ''pmu_mask'' = 0x7FFF8"
    "r_misa cpu = misa_word (misa_ext d)" "r_priv_ver cpu = PRIV_VERSION_LATEST" "r_mxl cpu = MXL_RV32"
    "satp_map cpu = 0" "satp_init cpu = 0" "type_chain cpu = qingke_chain c"
proof -
  note R = qingke_row[OF assms(1)]
  have x: "\<not> cfg_on qingke_base_cfg ''ext_xw''" "\<not> cfg_on qingke_base_cfg ''ext_xwchmcpy''"
    by (simp_all add: qingke_base_cfg_def merge_fields riscv_bare_cpu_def riscv_cpu_wch_qingke_base_def
        define_riscv_cpu_def class_new0_def config_new0_def class_consts)
  define cpu where "cpu = riscv_cpu_init id (qingke_chain c) (the (qingke_class c))"
  have a: "x = accel cpu" using assms(2) qingke_class_row[OF assms(1)]
    by (simp add: qingke_cpu_def cpu_def riscv_cpu_init_def Let_def)
  have q: "qingke_cfg d = config_new0\<lparr>cfg_on := cfg_on (qingke_cfg d), cfg_num := cfg_num (qingke_cfg d)\<rparr>" by simp
  note F = cpu_def riscv_cpu_init_def Let_def qingke_class_row[OF assms(1)] merge_fields qingke_base_fields x
    qingke_cfg_def R(1,3-5) property_defaults_def config_new0_def class_consts
  show thesis by (rule that[OF a]) (use R(2) in \<open>auto simp: F\<close>)
qed

text \<open>C24. What a QingKe instance is, whatever its definition says. Every model of the table gives a class and an
  instance without an MMU and without the user counters, with the WCH interrupt extension, the 32-bit
  width, the latest privileged version, the extensions and the identification registers of its row, and
  with four protected regions. The regions are four for the models too whose definition asks for none: the
  merge takes a zero for an unset number and keeps what the base class gave.\<close>

theorem qingke_effective_config:
  assumes "cpu_type_info c = Some d"
  shows "\<exists>cpu. qingke_cpu accel c = Some (accel cpu) \<and>
    \<not> cfg_on (rcfg cpu) ''mmu'' \<and> \<not> cfg_on (rcfg cpu) ''ext_zicntr'' \<and> \<not> cfg_on (rcfg cpu) ''ext_zihpm'' \<and>
    cfg_on (rcfg cpu) ''ext_hpe'' \<and> cfg_on (rcfg cpu) ''pmp'' \<and>
    r_mxl cpu = MXL_RV32 \<and> r_priv_ver cpu = PRIV_VERSION_LATEST \<and> r_misa cpu = misa_word (misa_ext d) \<and>
    cfg_on (rcfg cpu) ''ext_xw'' = ext_xw d \<and> cfg_on (rcfg cpu) ''ext_xwchmcpy'' = ext_xwchmcpy d \<and>
    cfg_num (rcfg cpu) ''marchid'' = uint (marchid d) \<and> cfg_num (rcfg cpu) ''mimpid'' = uint (mimpid d) \<and>
    cfg_num (rcfg cpu) ''pmp_regions'' = 4"
proof -
  obtain x where x: "qingke_cpu accel c = Some x"
    using qingke_class_row[OF assms] by (simp add: qingke_cpu_def)
  show ?thesis by (rule instance_fields[OF assms x]) (use x in auto)
qed

theorem qingke_effective_config_witness:
  "\<exists>d cpu. cpu_type_info V4B = Some d \<and> pmp_regions d = 0 \<and> qingke_cpu id V4B = Some cpu \<and>
     cfg_num (rcfg cpu) ''pmp_regions'' = 4"
proof -
  obtain d where d: "cpu_type_info V4B = Some d" "pmp_regions d = 0" by (simp add: cpu_type_info_def)
  then show ?thesis using qingke_effective_config[OF d(1), of id] by auto
qed

section \<open>The user's options\<close>

lemma ctpop32_mask: "n \<le> 29 \<Longrightarrow> ctpop32 (push_bit 3 (mask n)) = n"
proof -
  assume n: "n \<le> 29"
  have "{i. bit (push_bit 3 (mask n) :: u32) i} \<inter> set [0..<32] = {3..<n + 3}"
    using n by (auto simp: bit_simps)
  then show ?thesis by (simp add: ctpop32_def distinct_length_filter)
qed

text \<open>What the options leave alone, and the limits they keep.\<close>

definition options_inv :: "qingke \<Rightarrow> cpu_def \<Rightarrow> riscv_cpu \<Rightarrow> bool" where
  "options_inv c d cpu \<longleftrightarrow> type_chain cpu = qingke_chain c \<and> r_misa cpu = misa_word (misa_ext d) \<and>
     cfg_on (rcfg cpu) ''ext_hpe'' \<and> cfg_on (rcfg cpu) ''ext_xw'' = ext_xw d \<and>
     cfg_on (rcfg cpu) ''ext_xwchmcpy'' = ext_xwchmcpy d \<and>
     cfg_num (rcfg cpu) ''marchid'' = uint (marchid d) \<and> cfg_num (rcfg cpu) ''mimpid'' = uint (mimpid d) \<and>
     cfg_num (rcfg cpu) ''mvendorid'' = 0 \<and> cfg_num (rcfg cpu) ''max_satp_mode'' = 0 \<and>
     satp_map cpu \<in> {0, 2} \<and> ctpop32 (pmu_mask_of cpu) \<le> 29 \<and>
     0 \<le> cfg_num (rcfg cpu) ''pmp_regions'' \<and> cfg_num (rcfg cpu) ''pmp_regions'' \<le> 64"

lemma flag_field_other: "flag_field fl \<notin> {''ext_hpe'', ''ext_xw'', ''ext_xwchmcpy''}"
  by (cases fl) simp_all

lemma user_setting_fields [simp]:
  "rcfg (cpu_option_add_user_setting n v cpu) = rcfg cpu"
  "type_chain (cpu_option_add_user_setting n v cpu) = type_chain cpu"
  "r_misa (cpu_option_add_user_setting n v cpu) = r_misa cpu"
  "satp_map (cpu_option_add_user_setting n v cpu) = satp_map cpu"
  "r_priv_ver (cpu_option_add_user_setting n v cpu) = r_priv_ver cpu"
  by (simp_all add: cpu_option_add_user_setting_def)

lemma inv_frame:
  assumes "options_inv c d cpu" "type_chain cpu' = type_chain cpu" "r_misa cpu' = r_misa cpu"
    "satp_map cpu' = satp_map cpu"
    "\<And>x. x \<in> {''ext_hpe'', ''ext_xw'', ''ext_xwchmcpy''} \<Longrightarrow> cfg_on (rcfg cpu') x = cfg_on (rcfg cpu) x"
    "\<And>x. x \<in> {''marchid'', ''mimpid'', ''mvendorid'', ''max_satp_mode''} \<Longrightarrow> cfg_num (rcfg cpu') x = cfg_num (rcfg cpu) x"
    "ctpop32 (pmu_mask_of cpu') \<le> 29"
    "0 \<le> cfg_num (rcfg cpu') ''pmp_regions'' \<and> cfg_num (rcfg cpu') ''pmp_regions'' \<le> 64"
  shows "options_inv c d cpu'"
  using assms(1-4,7,8) assms(5)[of "''ext_hpe''"] assms(5)[of "''ext_xw''"] assms(5)[of "''ext_xwchmcpy''"]
    assms(6)[of "''marchid''"] assms(6)[of "''mimpid''"] assms(6)[of "''mvendorid''"] assms(6)[of "''max_satp_mode''"]
  unfolding options_inv_def by simp

lemma inv_limits:
  assumes "options_inv c d cpu"
  shows "ctpop32 (pmu_mask_of cpu) \<le> 29" "0 \<le> cfg_num (rcfg cpu) ''pmp_regions''"
    "cfg_num (rcfg cpu) ''pmp_regions'' \<le> 64" "type_chain cpu = qingke_chain c"
    "cfg_num (rcfg cpu) ''mvendorid'' = 0" "cfg_num (rcfg cpu) ''marchid'' = uint (marchid d)"
    "cfg_num (rcfg cpu) ''mimpid'' = uint (mimpid d)"
  using assms unfolding options_inv_def by blast+

lemma set_flag_inv:
  assumes "options_inv c d cpu" "set_flag name field v cpu = Inr cpu'"
    "field \<notin> {''ext_hpe'', ''ext_xw'', ''ext_xwchmcpy''}"
  shows "options_inv c d cpu'"
proof -
  have "cpu' = upd_cfg (set_on field v) (cpu_option_add_user_setting name (of_bool v) cpu)"
    using assms(2) by (cases v) (simp_all add: set_flag_def split: if_splits)
  then show ?thesis using assms(3) inv_limits[OF assms(1)]
    by (intro inv_frame[OF assms(1)]) (auto simp: pmu_mask_of_def)
qed

lemma set_number_inv:
  assumes "options_inv c d cpu" "set_number name field v cpu = Inr cpu'"
    "field \<notin> {''marchid'', ''mimpid'', ''mvendorid'', ''max_satp_mode'', ''pmu_mask'', ''pmp_regions''}"
  shows "options_inv c d cpu'"
proof -
  have "cpu' = upd_cfg (set_num field (uint v)) (cpu_option_add_user_setting name v cpu)"
    using assms(2) by (simp add: set_number_def split: if_splits)
  then show ?thesis using assms(3) inv_limits[OF assms(1)]
    by (intro inv_frame[OF assms(1)]) (auto simp: pmu_mask_of_def)
qed

lemma pmu_write_inv:
  assumes "options_inv c d cpu" "ctpop32 m \<le> 29"
  shows "options_inv c d (upd_cfg (set_num ''pmu_mask'' (uint m)) (cpu_option_add_user_setting n v cpu))"
  using assms(2) inv_limits[OF assms(1)]
  by (intro inv_frame[OF assms(1)]) (auto simp: pmu_mask_of_def)

lemma pmu_inv:
  assumes "options_inv c d cpu"
  shows "prop_pmu_mask_set m cpu = Inr cpu' \<Longrightarrow> options_inv c d cpu'"
    "prop_pmu_num_set n cpu = Inr cpu' \<Longrightarrow> options_inv c d cpu'"
proof -
  show "options_inv c d cpu'" if "prop_pmu_mask_set m cpu = Inr cpu'"
    using that pmu_write_inv[OF assms, of m "''pmu-mask''" m] by (simp add: prop_pmu_mask_set_def split: if_splits)
  show "options_inv c d cpu'" if p: "prop_pmu_num_set n cpu = Inr cpu'"
  proof -
    let ?m = "if n = 0 then 0 else push_bit 3 (mask (unat n)) :: u32"
    have n: "unat n \<le> 29" using p by (simp add: prop_pmu_num_set_def Let_def word_le_nat_alt not_less split: if_splits)
    have "ctpop32 ?m \<le> 29" using ctpop32_mask[OF n] n by (simp add: ctpop32_def)
    moreover have "cpu' = upd_cfg (set_num ''pmu_mask'' (uint ?m)) (cpu_option_add_user_setting ''pmu-mask'' ?m cpu)"
      using p by (cases cpu) (auto simp: prop_pmu_num_set_def Let_def cpu_option_add_user_setting_def split: if_splits)
    ultimately show ?thesis using pmu_write_inv[OF assms] by simp
  qed
qed

lemma number_options_inv:
  assumes "options_inv c d cpu"
  shows "prop_num_pmp_regions_set n8 cpu = Inr cpu' \<Longrightarrow> options_inv c d cpu'"
    "prop_vlen_set n16 cpu = Inr cpu' \<Longrightarrow> options_inv c d cpu'"
    "prop_priv_spec_set str cpu = Inr cpu' \<Longrightarrow> options_inv c d cpu'"
    "prop_vext_spec_set str cpu = Inr cpu' \<Longrightarrow> options_inv c d cpu'"
proof -
  note L = inv_limits[OF assms]
  show "options_inv c d cpu'" if p: "prop_num_pmp_regions_set n8 cpu = Inr cpu'"
  proof -
    have "uint n8 \<le> 64" using p
      by (simp add: prop_num_pmp_regions_set_def not_less word_le_def split: if_splits)
    moreover have "cpu' = upd_cfg (set_num ''pmp_regions'' (uint n8))
        (cpu_option_add_user_setting ''num-pmp-regions'' (ucast n8) cpu)"
      using p by (simp add: prop_num_pmp_regions_set_def split: if_splits)
    ultimately show ?thesis using L by (intro inv_frame[OF assms]) (auto simp: pmu_mask_of_def)
  qed
  show "options_inv c d cpu'" if p: "prop_vlen_set n16 cpu = Inr cpu'"
  proof -
    have "cpu' = upd_cfg (set_num ''vlenb'' (uint (drop_bit 3 n16)))
        (cpu_option_add_user_setting ''vlen'' (ucast n16) cpu)"
      using p by (simp add: prop_vlen_set_def split: if_splits)
    then show ?thesis using L by (intro inv_frame[OF assms]) (auto simp: pmu_mask_of_def)
  qed
  show "options_inv c d cpu'" if p: "prop_priv_spec_set str cpu = Inr cpu'"
  proof -
    have "cpu' = (cpu_option_add_user_setting ''priv_spec'' (of_int (priv_spec_from_str str)) cpu)
        \<lparr>r_priv_ver := priv_spec_from_str str\<rparr>"
      using p by (simp add: prop_priv_spec_set_def Let_def split: if_splits)
    then show ?thesis using L by (intro inv_frame[OF assms]) (auto simp: pmu_mask_of_def)
  qed
  show "options_inv c d cpu'" if p: "prop_vext_spec_set str cpu = Inr cpu'"
  proof -
    have "cpu' = (cpu_option_add_user_setting ''vext_spec'' (of_int VEXT_VERSION_1_00_0) cpu)
        \<lparr>r_vext_ver := VEXT_VERSION_1_00_0\<rparr>"
      using p by (simp add: prop_vext_spec_set_def split: if_splits)
    then show ?thesis using L by (intro inv_frame[OF assms]) (auto simp: pmu_mask_of_def)
  qed
qed

lemma id_options_inv:
  assumes "options_inv c d cpu"
  shows "prop_mvendorid_set n32 cpu = Inr cpu' \<Longrightarrow> options_inv c d cpu'"
    "prop_mimpid_set n64 cpu = Inr cpu' \<Longrightarrow> options_inv c d cpu'"
    "prop_marchid_set n64 cpu = Inr cpu' \<Longrightarrow> options_inv c d cpu'"
proof -
  note L = inv_limits[OF assms]
  note T = qingke_types(2)[OF L(4)]
  have same: "options_inv c d (upd_cfg (set_num x v) cpu)"
    if "cfg_num (rcfg cpu) x = v" "x \<in> {''marchid'', ''mimpid'', ''mvendorid''}" for x v
    using that L by (intro inv_frame[OF assms]) (auto simp: pmu_mask_of_def)
  show "options_inv c d cpu'" if "prop_mvendorid_set n32 cpu = Inr cpu'"
    using that T same[of "''mvendorid''" "uint n32"] by (simp add: prop_mvendorid_set_def split: if_splits)
  show "options_inv c d cpu'" if "prop_mimpid_set n64 cpu = Inr cpu'"
    using that T same[of "''mimpid''" "uint n64"] by (simp add: prop_mimpid_set_def split: if_splits)
  show "options_inv c d cpu'" if "prop_marchid_set n64 cpu = Inr cpu'"
    using that T same[of "''marchid''" "uint n64"] by (simp add: prop_marchid_set_def split: if_splits)
qed

lemma satp_inv: "options_inv c d cpu \<Longrightarrow> options_inv c d (cpu_riscv_set_satp 1 v cpu)"
proof -
  assume a: "options_inv c d cpu"
  have "satp_map cpu = 0 \<or> satp_map cpu = 2" using a unfolding options_inv_def by blast
  then have "satp_map (cpu_riscv_set_satp 1 v cpu) \<in> {0, 2}" by (auto simp: cpu_riscv_set_satp_def)
  then show ?thesis using a unfolding options_inv_def by (simp add: cpu_riscv_set_satp_def pmu_mask_of_def)
qed

lemma set_option_inv:
  assumes "options_inv c d cpu" "set_option x cpu = Inr cpu'"
  shows "options_inv c d cpu'"
proof (cases x)
  case (Opt_flag fl v)
  then have "cpu' = upd_cfg (set_on (flag_field fl) v) cpu" using assms(2) by simp
  then show ?thesis using flag_field_other[of fl] inv_limits[OF assms(1)]
    by (intro inv_frame[OF assms(1)]) (auto simp: pmu_mask_of_def)
next
  case (Opt_sv32 v)
  then show ?thesis using assms satp_inv by auto
next
  case (Opt_pmp_granularity v)
  then have "set_number ''pmp-granularity'' ''pmp_granularity'' v cpu = Inr cpu'"
    using assms(2) by (simp add: prop_pmp_granularity_set_def split: if_splits)
  then show ?thesis by (rule set_number_inv[OF assms(1)]) simp
next
  case (Opt_elen v)
  then have "set_number ''elen'' ''elen'' (ucast v) cpu = Inr cpu'"
    using assms(2) by (simp add: prop_elen_set_def split: if_splits)
  then show ?thesis by (rule set_number_inv[OF assms(1)]) simp
next
  case (Opt_cbom v)
  then show ?thesis using assms(2) set_number_inv[OF assms(1)] by (simp add: prop_cbom_blksize_set_def)
next
  case (Opt_cbop v)
  then show ?thesis using assms(2) set_number_inv[OF assms(1)] by (simp add: prop_cbop_blksize_set_def)
next
  case (Opt_cboz v)
  then show ?thesis using assms(2) set_number_inv[OF assms(1)] by (simp add: prop_cboz_blksize_set_def)
next
  case (Opt_mmu v)
  then show ?thesis using assms(2) set_flag_inv[OF assms(1)] by (simp add: prop_mmu_set_def)
next
  case (Opt_pmp v)
  then show ?thesis using assms(2) set_flag_inv[OF assms(1)] by (simp add: prop_pmp_set_def)
next
  case (Opt_pmu_mask v)
  then show ?thesis using assms(2) pmu_inv(1)[OF assms(1), of v] by simp
next
  case (Opt_pmu_num v)
  then show ?thesis using assms(2) pmu_inv(2)[OF assms(1), of v] by simp
next
  case (Opt_num_pmp_regions v)
  then show ?thesis using assms(2) number_options_inv(1)[OF assms(1), of v] by simp
next
  case (Opt_vlen v)
  then show ?thesis using assms(2) number_options_inv(2)[OF assms(1), of v] by simp
next
  case (Opt_priv_spec v)
  then show ?thesis using assms(2) number_options_inv(3)[OF assms(1), of v] by simp
next
  case (Opt_vext_spec v)
  then show ?thesis using assms(2) number_options_inv(4)[OF assms(1), of v] by simp
next
  case (Opt_mvendorid v)
  then show ?thesis using assms(2) id_options_inv(1)[OF assms(1), of v] by simp
next
  case (Opt_mimpid v)
  then show ?thesis using assms(2) id_options_inv(2)[OF assms(1), of v] by simp
next
  case (Opt_marchid v)
  then show ?thesis using assms(2) id_options_inv(3)[OF assms(1), of v] by simp
qed

lemma set_options_inv:
  assumes "options_inv c d cpu" "set_options xs cpu = Inr cpu'"
  shows "options_inv c d cpu'"
  using assms by (induction xs cpu rule: set_options.induct) (auto split: sum.splits intro: set_option_inv)

lemma instance_inv:
  assumes "cpu_type_info c = Some d" "qingke_cpu accel c = Some (accel cpu)" "accel = id"
  shows "options_inv c d cpu"
proof -
  have m: "ctpop32 0x7FFF8 = 16" using ctpop32_mask[of 16] by (simp add: mask_eq_exp_minus_1)
  show ?thesis
    by (rule instance_fields[OF assms(1,2)])
      (use assms(3) m in \<open>simp add: options_inv_def pmu_mask_of_def\<close>)
qed

lemma satp_finalize_bare:
  assumes "cfg_num (rcfg cpu) ''max_satp_mode'' = 0" "satp_map cpu \<in> {0, 2}"
  shows "satp_map cpu = 2 \<Longrightarrow> riscv_cpu_satp_mode_finalize cpu = Inl Err_satp_too_high"
    "riscv_cpu_satp_mode_finalize cpu = Inr cpu' \<Longrightarrow> cpu' = cpu"
proof -
  have s: "get_satp_mode_supported cpu = Some 1"
    using assms(1) by (simp add: get_satp_mode_supported_def valid_vm_1_10_32_def)
  have m: "satp_mode_max_from_map 2 = Some 1" by code_simp
  have n: "satp_disabled i 1 = None" for i
  proof -
    have "\<not> bit (1 :: u16) k" if "k \<in> set [1..<16]" for k using that by (auto simp: bit_1_iff)
    then have "List.find (\<lambda>k. bit i k \<and> bit (1 :: u16) k \<and> satp_below 1 k \<noteq> None) [1..<16] = None"
      unfolding find_None_iff by blast
    then show ?thesis by (simp add: satp_disabled_def)
  qed
  show "satp_map cpu = 2 \<Longrightarrow> riscv_cpu_satp_mode_finalize cpu = Inl Err_satp_too_high"
    using assms(1) s m by (simp add: riscv_cpu_satp_mode_finalize_def)
  have triv: "cpu\<lparr>rcfg := (rcfg cpu)\<lparr>cfg_num := (cfg_num (rcfg cpu))(''max_satp_mode'' := 0)\<rparr>\<rparr> = cpu"
    using fun_upd_triv[of "cfg_num (rcfg cpu)" "''max_satp_mode''"] assms(1) by (simp del: fun_upd_triv)
  show "riscv_cpu_satp_mode_finalize cpu = Inr cpu' \<Longrightarrow> cpu' = cpu"
    using assms s m n triv
    by (auto simp: riscv_cpu_satp_mode_finalize_def set_satp_mode_default_map_def VM_1_10_MBARE_def split: if_splits)
qed



text \<open>What the getter of an option says, for the value it was set to.\<close>

definition reads_back :: "cpu_option \<Rightarrow> riscv_cpu \<Rightarrow> bool" where
  "reads_back x cpu = (case x of
     Opt_pmu_num v \<Rightarrow> prop_pmu_num_get cpu = v
   | Opt_pmu_mask v \<Rightarrow> prop_pmu_mask_get cpu = ucast v
   | Opt_mmu v \<Rightarrow> prop_mmu_get cpu = v
   | Opt_pmp v \<Rightarrow> prop_pmp_get cpu = v
   | Opt_num_pmp_regions v \<Rightarrow> prop_num_pmp_regions_get cpu = v
   | Opt_pmp_granularity v \<Rightarrow> prop_pmp_granularity_get cpu = v
   | Opt_priv_spec v \<Rightarrow> prop_priv_spec_get cpu = Some v
   | Opt_vext_spec v \<Rightarrow> prop_vext_spec_get cpu = v
   | Opt_vlen v \<Rightarrow> prop_vlen_get cpu = (if v < 8 then 0 else v)
   | Opt_elen v \<Rightarrow> prop_elen_get cpu = v
   | Opt_cbom v \<Rightarrow> prop_cbom_blksize_get cpu = v
   | Opt_cbop v \<Rightarrow> prop_cbop_blksize_get cpu = v
   | Opt_cboz v \<Rightarrow> prop_cboz_blksize_get cpu = v
   | Opt_mvendorid v \<Rightarrow> prop_mvendorid_get cpu = v
   | Opt_mimpid v \<Rightarrow> prop_mimpid_get cpu = v
   | Opt_marchid v \<Rightarrow> prop_marchid_get cpu = v
   | Opt_flag fl v \<Rightarrow> cfg_on (rcfg cpu) (flag_field fl) = v
   | Opt_sv32 v \<Rightarrow> cpu_riscv_get_satp 1 cpu = v)"

lemma priv_spec_roundtrip: "0 \<le> priv_spec_from_str s \<Longrightarrow> priv_spec_to_str (priv_spec_from_str s) = Some s"
  by (simp add: priv_spec_from_str_def priv_spec_to_str_def split: if_splits)

lemma number_back:
  "set_number name field v cpu = Inr c1 \<Longrightarrow> cfg_num (rcfg c1) field = uint v"
  "set_flag name field b cpu = Inr c1 \<Longrightarrow> cfg_on (rcfg c1) field = b"
  by (auto simp: set_number_def set_flag_def split: if_splits)

lemma power_of_2_bits:
  assumes "is_power_of_2 v" "8 \<le> unat v"
  shows "unat v mod 8 = 0"
proof (rule ccontr)
  let ?n = "unat v"
  assume r: "?n mod 8 \<noteq> 0"
  have "v \<noteq> 0" "v AND (v - 1) = 0" using assms(1) by (simp_all add: is_power_of_2_def)
  then have "?n AND (?n - 1) = 0" by (metis unat_0 unat_minus_one unsigned_and_eq)
  then have "drop_bit 3 ?n AND drop_bit 3 (?n - 1) = 0" by (metis drop_bit_and drop_bit_of_0)
  then have "(?n div 8) AND ((?n - 1) div 8) = 0" by (simp add: drop_bit_eq_div)
  moreover have "(8 * q + x - 1) div 8 = q" if "0 < x" "x < 8" for q x :: nat
    by (rule div_nat_eqI) (use that in auto)
  from this[of "?n mod 8" "?n div 8"] have "(?n - 1) div 8 = ?n div 8" using r by simp
  ultimately show False using assms(2) by simp
qed

lemma unat_lt2p16: "unat (v :: u16) < 65536"
  by (rule less_le_trans[OF unsigned_less]) simp

lemma ucast_32_16: "ucast (ucast v :: u32) = (v :: u16)"
  by (rule bit_word_eqI) (simp add: bit_simps)

lemma vlen_back:
  fixes v :: u16
  assumes "is_power_of_2 (ucast v)"
  shows "push_bit 3 (drop_bit 3 v) = (if v < 8 then 0 else v)"
proof -
  have t: "unat (take_bit 3 v) = unat v mod 8" unfolding unsigned_take_bit_eq by (simp add: take_bit_eq_mod)
  have u: "unat (ucast v :: u64) = unat v" using unat_lt2p16[of v]
    by (simp add: unsigned_ucast_eq take_bit_nat_eq_self)
  have s: "push_bit 3 (drop_bit 3 v) = v - take_bit 3 v"
    using bits_ident[of 3 v] by (metis add_diff_cancel_right')
  show ?thesis
  proof (cases "v < 8")
    case True
    then have "unat (take_bit 3 v) = unat v" using t by (simp add: word_less_nat_alt)
    then have "take_bit 3 v = v" by (simp only: word_unat_eq_iff)
    then show ?thesis using True s by simp
  next
    case False
    then have "take_bit 3 v = 0" using power_of_2_bits[OF assms] t u by (simp add: word_less_nat_alt unat_eq_0)
    then show ?thesis using False s by simp
  qed
qed



end
