(* ===== verification/Ch32_Mem.thy ===== *)
theory Ch32_Mem
  imports Ch32_CpuClass Ch32_PowerOn
begin

text \<open>
  The way of a memory access through the core (\<open>target/riscv/cpu_helper.c\<close>): the mode it is checked
  in, the translation (the identity without an MMU), the physical memory protection with the QingKe rule
  that an address no rule matches is free, the fault, and the trap with its cause and its value.
  The lookup in the protection table (\<open>pmp.c\<close>) is not in the repository and is a parameter. Without the
  hypervisor and the shadow-stack extensions a memory index is the mode alone and the lookup has one
  stage; the page-table walk, which a core without an MMU never reaches, is the value \<open>None\<close>.
\<close>

section \<open>The hart\<close>

record fault_env =
  hart :: cpu_state
  mmu :: bool
  ext_svukte :: bool
  satp_is_sv39 :: bool
  senvcfg_ukte :: bool
  exception_index :: u32
  badaddr :: u32
  bins :: u32
  sw_check_code :: u32
  watchpoint_hit :: "u32 option"
  always_storeamo :: bool

definition riscv_cpu_allow_16bit_insn :: "riscv_cpu \<Rightarrow> bool" where
  "riscv_cpu_allow_16bit_insn cpu =
     (if 2 \<le> r_priv_ver cpu then cfg_on (rcfg cpu) ''ext_zca'' else r_misa cpu AND RV CHR ''C'' \<noteq> 0)"

text \<open>The flags the trap path reads, of an instance with \<open>n\<close> protection rules set.\<close>

definition core_config :: "riscv_cpu \<Rightarrow> nat \<Rightarrow> cpu_cfg" where
  "core_config cpu n = \<lparr>ext_hpe = cfg_on (rcfg cpu) ''ext_hpe'', has_rvf = (r_misa cpu AND RV CHR ''F'' \<noteq> 0),
     has_rvu = (r_misa cpu AND RV CHR ''U'' \<noteq> 0), allow_16bit = riscv_cpu_allow_16bit_insn cpu,
     cfg_pmp = cfg_on (rcfg cpu) ''pmp'', pmp_num_rules = n, priv_ge_1_12 = (2 \<le> r_priv_ver cpu)\<rparr>"

datatype access = MMU_DATA_LOAD | MMU_DATA_STORE | MMU_INST_FETCH

primrec access_priv :: "access \<Rightarrow> u8" where
  "access_priv MMU_DATA_LOAD = 1"
| "access_priv MMU_DATA_STORE = 2"
| "access_priv MMU_INST_FETCH = 4"

text \<open>The mode an access is checked in: \<open>MPRV\<close> lets machine-mode data accesses take the mode of \<open>MPP\<close>.\<close>

definition riscv_env_mmu_index :: "cpu_state \<Rightarrow> bool \<Rightarrow> nat" where
  "riscv_env_mmu_index env ifetch =
     (if \<not> ifetch \<and> priv env = PRV_M \<and> ms_mprv (mstatus env) then ms_mpp (mstatus env) else priv env)"

section \<open>Protection and translation\<close>

record pmp_unit =
  pmp_hart_has_privs :: "u64 \<Rightarrow> nat \<Rightarrow> u8 \<Rightarrow> nat \<Rightarrow> bool \<times> u8"
  pmp_priv_to_page_prot :: "u8 \<Rightarrow> u8"
  pmp_get_tlb_size :: "u64 \<Rightarrow> u64"

datatype translate = TRANSLATE_SUCCESS | TRANSLATE_FAIL | TRANSLATE_PMP_FAIL

definition PAGE_RWX :: u8 where "PAGE_RWX = 7"

definition get_physical_address_pmp ::
    "pmp_unit \<Rightarrow> cpu_cfg \<Rightarrow> u64 \<Rightarrow> nat \<Rightarrow> access \<Rightarrow> nat \<Rightarrow> translate \<times> u8" where
  "get_physical_address_pmp P c addr sz access mode =
     (if \<not> cfg_pmp c then (TRANSLATE_SUCCESS, PAGE_RWX)
      else case pmp_hart_has_privs P addr sz (access_priv access) mode of (has, allowed) \<Rightarrow>
        if ext_hpe c then
          (if has then (TRANSLATE_SUCCESS, pmp_priv_to_page_prot P allowed)
           else if allowed \<noteq> 0 then (TRANSLATE_PMP_FAIL, 0)
           else (TRANSLATE_SUCCESS, PAGE_RWX))
        else if \<not> has then (TRANSLATE_PMP_FAIL, 0)
        else (TRANSLATE_SUCCESS, pmp_priv_to_page_prot P allowed))"

definition do_svukte_check :: "fault_env \<Rightarrow> nat \<Rightarrow> bool" where
  "do_svukte_check e mode \<longleftrightarrow>
     (ext_svukte e \<or> \<not> satp_is_sv39 e) \<and> senvcfg_ukte e \<and> mode = PRV_U"

definition check_svukte_addr :: "u64 \<Rightarrow> bool" where
  "check_svukte_addr addr \<longleftrightarrow> addr AND one_bit 31 = 0"

definition get_physical_address :: "fault_env \<Rightarrow> u64 \<Rightarrow> nat \<Rightarrow> (translate \<times> u64 \<times> u8) option" where
  "get_physical_address e addr mode =
     (if do_svukte_check e mode \<and> \<not> check_svukte_addr addr then Some (TRANSLATE_FAIL, 0, 0)
      else if mode = PRV_M \<or> \<not> mmu e then Some (TRANSLATE_SUCCESS, addr, PAGE_RWX)
      else None)"

section \<open>Faults\<close>

definition RISCV_EXCP_INST_ADDR_MIS_CODE :: nat where "RISCV_EXCP_INST_ADDR_MIS_CODE = 0"
definition RISCV_EXCP_INST_ACCESS_FAULT_CODE :: nat where "RISCV_EXCP_INST_ACCESS_FAULT_CODE = 1"
definition RISCV_EXCP_ILLEGAL_INST_CODE :: nat where "RISCV_EXCP_ILLEGAL_INST_CODE = 2"
definition RISCV_EXCP_BREAKPOINT :: nat where "RISCV_EXCP_BREAKPOINT = 3"
definition RISCV_EXCP_LOAD_ADDR_MIS :: nat where "RISCV_EXCP_LOAD_ADDR_MIS = 4"
definition RISCV_EXCP_LOAD_ACCESS_FAULT :: nat where "RISCV_EXCP_LOAD_ACCESS_FAULT = 5"
definition RISCV_EXCP_STORE_AMO_ADDR_MIS :: nat where "RISCV_EXCP_STORE_AMO_ADDR_MIS = 6"
definition RISCV_EXCP_STORE_AMO_ACCESS_FAULT :: nat where "RISCV_EXCP_STORE_AMO_ACCESS_FAULT = 7"
definition RISCV_EXCP_U_ECALL :: nat where "RISCV_EXCP_U_ECALL = 8"
definition RISCV_EXCP_S_ECALL :: nat where "RISCV_EXCP_S_ECALL = 9"
definition RISCV_EXCP_M_ECALL :: nat where "RISCV_EXCP_M_ECALL = 11"
definition RISCV_EXCP_INST_PAGE_FAULT :: nat where "RISCV_EXCP_INST_PAGE_FAULT = 12"
definition RISCV_EXCP_LOAD_PAGE_FAULT :: nat where "RISCV_EXCP_LOAD_PAGE_FAULT = 13"
definition RISCV_EXCP_STORE_PAGE_FAULT :: nat where "RISCV_EXCP_STORE_PAGE_FAULT = 15"
definition RISCV_EXCP_SW_CHECK :: nat where "RISCV_EXCP_SW_CHECK = 18"
definition RISCV_EXCP_INST_GUEST_PAGE_FAULT :: nat where "RISCV_EXCP_INST_GUEST_PAGE_FAULT = 20"
definition RISCV_EXCP_LOAD_GUEST_ACCESS_FAULT :: nat where "RISCV_EXCP_LOAD_GUEST_ACCESS_FAULT = 21"
definition RISCV_EXCP_VIRT_INSTRUCTION_FAULT :: nat where "RISCV_EXCP_VIRT_INSTRUCTION_FAULT = 22"
definition RISCV_EXCP_STORE_GUEST_AMO_ACCESS_FAULT :: nat where "RISCV_EXCP_STORE_GUEST_AMO_ACCESS_FAULT = 23"
definition RISCV_EXCP_SEMIHOST :: nat where "RISCV_EXCP_SEMIHOST = 0x3F"

lemmas excp_codes = RISCV_EXCP_INST_ADDR_MIS_CODE_def RISCV_EXCP_INST_ACCESS_FAULT_CODE_def
  RISCV_EXCP_ILLEGAL_INST_CODE_def RISCV_EXCP_BREAKPOINT_def RISCV_EXCP_LOAD_ADDR_MIS_def
  RISCV_EXCP_LOAD_ACCESS_FAULT_def RISCV_EXCP_STORE_AMO_ADDR_MIS_def RISCV_EXCP_STORE_AMO_ACCESS_FAULT_def
  RISCV_EXCP_U_ECALL_def RISCV_EXCP_S_ECALL_def RISCV_EXCP_M_ECALL_def RISCV_EXCP_INST_PAGE_FAULT_def
  RISCV_EXCP_LOAD_PAGE_FAULT_def RISCV_EXCP_STORE_PAGE_FAULT_def RISCV_EXCP_SW_CHECK_def
  RISCV_EXCP_INST_GUEST_PAGE_FAULT_def RISCV_EXCP_LOAD_GUEST_ACCESS_FAULT_def
  RISCV_EXCP_VIRT_INSTRUCTION_FAULT_def RISCV_EXCP_STORE_GUEST_AMO_ACCESS_FAULT_def RISCV_EXCP_SEMIHOST_def

primrec access_fault :: "access \<Rightarrow> nat" where
  "access_fault MMU_INST_FETCH = RISCV_EXCP_INST_ACCESS_FAULT_CODE"
| "access_fault MMU_DATA_LOAD = RISCV_EXCP_LOAD_ACCESS_FAULT"
| "access_fault MMU_DATA_STORE = RISCV_EXCP_STORE_AMO_ACCESS_FAULT"

primrec page_fault :: "access \<Rightarrow> nat" where
  "page_fault MMU_INST_FETCH = RISCV_EXCP_INST_PAGE_FAULT"
| "page_fault MMU_DATA_LOAD = RISCV_EXCP_LOAD_PAGE_FAULT"
| "page_fault MMU_DATA_STORE = RISCV_EXCP_STORE_PAGE_FAULT"

primrec misaligned_fault :: "access \<Rightarrow> nat" where
  "misaligned_fault MMU_INST_FETCH = RISCV_EXCP_INST_ADDR_MIS_CODE"
| "misaligned_fault MMU_DATA_LOAD = RISCV_EXCP_LOAD_ADDR_MIS"
| "misaligned_fault MMU_DATA_STORE = RISCV_EXCP_STORE_AMO_ADDR_MIS"

definition raise_mmu_exception :: "u32 \<Rightarrow> access \<Rightarrow> bool \<Rightarrow> fault_env \<Rightarrow> fault_env" where
  "raise_mmu_exception address access pmp_violation e =
     e\<lparr>exception_index := of_nat (if pmp_violation then access_fault access else page_fault access),
       badaddr := address\<rparr>"

definition riscv_cpu_do_transaction_failed :: "u32 \<Rightarrow> access \<Rightarrow> fault_env \<Rightarrow> fault_env" where
  "riscv_cpu_do_transaction_failed addr access e =
     e\<lparr>exception_index := of_nat (access_fault access), badaddr := addr\<rparr>"

definition riscv_cpu_do_unaligned_access :: "u32 \<Rightarrow> access \<Rightarrow> fault_env \<Rightarrow> fault_env" where
  "riscv_cpu_do_unaligned_access addr access e =
     e\<lparr>exception_index := of_nat (misaligned_fault access), badaddr := addr\<rparr>"

definition riscv_raise_exception :: "nat \<Rightarrow> fault_env \<Rightarrow> fault_env" where
  "riscv_raise_exception exception e = e\<lparr>exception_index := of_nat exception\<rparr>"

text \<open>
  \<open>watch\<close>: a watchpoint covers the access, and the debugger takes over. A fault carries the state at the
  exit from the execution loop, with \<open>pc\<close> back at the instruction.
\<close>

datatype fill = Tlb_page u64 u64 u8 u64 | Probe_failed | Watch_stop | Fault fault_env

definition riscv_cpu_tlb_fill ::
    "pmp_unit \<Rightarrow> bool \<Rightarrow> u32 \<Rightarrow> nat \<Rightarrow> access \<Rightarrow> nat \<Rightarrow> bool \<Rightarrow> fault_env \<Rightarrow> fill option" where
  "riscv_cpu_tlb_fill P watch address sz access mode probe e =
     (case get_physical_address e (ucast address) mode of
        None \<Rightarrow> None
      | Some (r0, pa, prot0) \<Rightarrow>
          let (r, prot, tlb_size) =
                (if r0 = TRANSLATE_SUCCESS
                 then (case get_physical_address_pmp P (cfg (hart e)) pa sz access mode of
                         (r1, prot_pmp) \<Rightarrow> (r1, prot0 AND prot_pmp, pmp_get_tlb_size P pa))
                 else (r0, prot0, 4096))
          in Some (if r = TRANSLATE_SUCCESS
                   then Tlb_page (ucast address AND NOT (tlb_size - 1)) (pa AND NOT (tlb_size - 1)) prot tlb_size
                   else if probe then Probe_failed
                   else if watch then Watch_stop
                   else Fault (raise_mmu_exception address access (r = TRANSLATE_PMP_FAIL) e)))"

section \<open>The trap\<close>

definition promote_load_fault :: "nat \<Rightarrow> nat" where
  "promote_load_fault orig_cause =
     (if orig_cause = RISCV_EXCP_LOAD_GUEST_ACCESS_FAULT then RISCV_EXCP_STORE_GUEST_AMO_ACCESS_FAULT
      else if orig_cause = RISCV_EXCP_LOAD_ACCESS_FAULT then RISCV_EXCP_STORE_AMO_ACCESS_FAULT
      else if orig_cause = RISCV_EXCP_LOAD_PAGE_FAULT then RISCV_EXCP_STORE_PAGE_FAULT
      else orig_cause)"

text \<open>The cause and the value of a synchronous trap, and the watchpoint that is left.\<close>

definition trap_value :: "nat \<Rightarrow> fault_env \<Rightarrow> nat \<times> u32 \<times> u32 option" where
  "trap_value cause e =
     (if cause \<in> {RISCV_EXCP_LOAD_GUEST_ACCESS_FAULT, RISCV_EXCP_STORE_GUEST_AMO_ACCESS_FAULT,
          RISCV_EXCP_LOAD_ADDR_MIS, RISCV_EXCP_STORE_AMO_ADDR_MIS, RISCV_EXCP_LOAD_ACCESS_FAULT,
          RISCV_EXCP_STORE_AMO_ACCESS_FAULT, RISCV_EXCP_LOAD_PAGE_FAULT, RISCV_EXCP_STORE_PAGE_FAULT}
      then (if always_storeamo e then promote_load_fault cause else cause, badaddr e, watchpoint_hit e)
      else if cause \<in> {RISCV_EXCP_INST_GUEST_PAGE_FAULT, RISCV_EXCP_INST_ADDR_MIS_CODE,
          RISCV_EXCP_INST_ACCESS_FAULT_CODE, RISCV_EXCP_INST_PAGE_FAULT}
      then (cause, badaddr e, watchpoint_hit e)
      else if cause = RISCV_EXCP_ILLEGAL_INST_CODE \<or> cause = RISCV_EXCP_VIRT_INSTRUCTION_FAULT
      then (cause, bins e, watchpoint_hit e)
      else if cause = RISCV_EXCP_BREAKPOINT
      then (cause, case watchpoint_hit e of Some a \<Rightarrow> a | None \<Rightarrow> badaddr e, None)
      else if cause = RISCV_EXCP_SW_CHECK then (cause, sw_check_code e, watchpoint_hit e)
      else (cause, 0, watchpoint_hit e))"

definition ecall_cause :: "nat \<Rightarrow> nat \<Rightarrow> nat" where
  "ecall_cause prv cause =
     (if cause \<noteq> RISCV_EXCP_U_ECALL then cause
      else if prv = PRV_M then RISCV_EXCP_M_ECALL
      else if prv = PRV_S then RISCV_EXCP_S_ECALL
      else RISCV_EXCP_U_ECALL)"

text \<open>\<open>semi\<close> is \<open>do_common_semihosting\<close>.\<close>

definition cpu_do_interrupt ::
    "(u64 \<Rightarrow> u32 option) \<Rightarrow> (fault_env \<Rightarrow> fault_env) \<Rightarrow> fault_env \<Rightarrow> fault_env" where
  "cpu_do_interrupt ldl semi e =
     (let async = bit (exception_index e) 31;
          cause = unat (exception_index e AND 0x7FFFFFFF)
      in if async then e\<lparr>hart := riscv_cpu_do_interrupt ldl True cause 0 (hart e)\<rparr>
         else if cause = RISCV_EXCP_SEMIHOST then
           (let e1 = semi e in e1\<lparr>hart := (hart e1)\<lparr>pc := pc (hart e1) + 4\<rparr>\<rparr>)
         else case trap_value cause e of (c, tval, w) \<Rightarrow>
           e\<lparr>hart := riscv_cpu_do_interrupt ldl False (ecall_cause (priv (hart e)) c) tval (hart e),
             watchpoint_hit := w\<rparr>)"

section \<open>Protection on a QingKe core\<close>

text \<open>A hart of a QingKe instance: the flags of the instance, no MMU, and the supervisor's registers at their
  reset values, which no CSR of such a core reaches.\<close>

definition qingke_hart :: "riscv_cpu \<Rightarrow> fault_env \<Rightarrow> bool" where
  "qingke_hart cpu e \<longleftrightarrow> (\<exists>c d n. cpu_type_info c = Some d \<and> qingke_cpu id c = Some cpu \<and>
     cfg (hart e) = core_config cpu n) \<and> mmu e = cfg_on (rcfg cpu) ''mmu'' \<and> \<not> senvcfg_ukte e \<and>
     medeleg (hart e) = 0 \<and> mvien (hart e) = 0 \<and> \<not> always_storeamo e"

lemma qingke_hart_flags:
  assumes "qingke_hart cpu e"
  shows "ext_hpe (cfg (hart e))" "cfg_pmp (cfg (hart e))" "\<not> mmu e" "\<not> senvcfg_ukte e"
    "medeleg (hart e) = 0" "mvien (hart e) = 0" "\<not> always_storeamo e"
proof -
  obtain c d n where c: "cpu_type_info c = Some d" "qingke_cpu id c = Some cpu" "cfg (hart e) = core_config cpu n"
    using assms unfolding qingke_hart_def by blast
  have "ext_hpe (cfg (hart e)) \<and> cfg_pmp (cfg (hart e)) \<and> \<not> cfg_on (rcfg cpu) ''mmu''"
    by (rule instance_fields[OF c(1,2)]) (simp add: c(3) core_config_def)
  then show "ext_hpe (cfg (hart e))" "cfg_pmp (cfg (hart e))" "\<not> mmu e" "\<not> senvcfg_ukte e"
    "medeleg (hart e) = 0" "mvien (hart e) = 0" "\<not> always_storeamo e"
    using assms unfolding qingke_hart_def by auto
qed

lemma fill_qingke:
  assumes "qingke_hart cpu e" "pmp_hart_has_privs P (ucast address) sz (access_priv access) mode = (has, al)"
  shows "riscv_cpu_tlb_fill P watch address sz access mode probe e =
    Some (if has \<or> al = 0
          then Tlb_page (ucast address AND NOT (pmp_get_tlb_size P (ucast address) - 1))
                 (ucast address AND NOT (pmp_get_tlb_size P (ucast address) - 1))
                 (PAGE_RWX AND (if has then pmp_priv_to_page_prot P al else PAGE_RWX))
                 (pmp_get_tlb_size P (ucast address))
          else if probe then Probe_failed
          else if watch then Watch_stop
          else Fault (raise_mmu_exception address access True e))"
  using qingke_hart_flags[OF assms(1)] assms(2)
  by (simp add: riscv_cpu_tlb_fill_def get_physical_address_def do_svukte_check_def get_physical_address_pmp_def)

text \<open>What the lookup answers for user mode: the permissions of the rule that matches, if one does
  (the privileged specification, and the interface of \<open>pmp_hart_has_privs\<close>).\<close>

definition user_rules :: "(u64 \<Rightarrow> u8 option) \<Rightarrow> pmp_unit \<Rightarrow> bool" where
  "user_rules rule P \<longleftrightarrow> (\<forall>addr sz privs. pmp_hart_has_privs P addr sz privs PRV_U =
     (case rule addr of Some r \<Rightarrow> (privs AND r = privs, r) | None \<Rightarrow> (False, 0)))"

text \<open>A V4F in user mode, and a protection table that forbids the first page, lets the second be read and says
  nothing of the rest.\<close>

definition sample_cpu :: riscv_cpu where "sample_cpu = the (qingke_cpu id V4F)"

definition sample_hart :: fault_env where
  "sample_hart = \<lparr>hart = cpu_zero\<lparr>cfg := core_config sample_cpu 2, priv := PRV_U, pc := 0x100, mtvec := 0x203\<rparr>,
     mmu = cfg_on (rcfg sample_cpu) ''mmu'', ext_svukte = False, satp_is_sv39 = False, senvcfg_ukte = False,
     exception_index = 0, badaddr = 0, bins = 0, sw_check_code = 0, watchpoint_hit = None, always_storeamo = False\<rparr>"

definition sample_rule :: "u64 \<Rightarrow> u8 option" where
  "sample_rule addr = (if addr < 0x1000 then Some 0 else if addr < 0x2000 then Some 1 else None)"

definition sample_pmp :: pmp_unit where
  "sample_pmp = \<lparr>pmp_hart_has_privs = (\<lambda>addr sz privs mode. case sample_rule addr of
       Some r \<Rightarrow> (privs AND r = privs, r) | None \<Rightarrow> (False, 0)),
     pmp_priv_to_page_prot = id, pmp_get_tlb_size = (\<lambda>_. 4096)\<rparr>"

lemma sample_qingke: "qingke_hart sample_cpu sample_hart"
proof -
  obtain d where d: "cpu_type_info V4F = Some d" by (simp add: cpu_type_info_def)
  have c: "qingke_cpu id V4F = Some sample_cpu"
    using qingke_class_row[OF d] by (simp add: sample_cpu_def qingke_cpu_def)
  have "medeleg cpu_zero = 0" "mvien cpu_zero = 0" by (simp_all add: cpu_zero_def)
  then show ?thesis using d c unfolding qingke_hart_def by (auto simp: sample_hart_def)
qed

lemma sample_rules: "user_rules sample_rule sample_pmp"
  by (simp add: user_rules_def sample_pmp_def)



text \<open>The trap of a faulting access.\<close>

lemma access_fault_small: "access_fault a < 8"
  by (cases a) (simp_all add: excp_codes)

lemma not_delegated: "medeleg e = 0 \<Longrightarrow> mvien e = 0 \<Longrightarrow> \<not> trap_to_smode False c e"
  by (simp add: trap_to_smode_def Let_def)

lemma trap_value_access: "\<not> always_storeamo e \<Longrightarrow> trap_value (access_fault a) e = (access_fault a, badaddr e, watchpoint_hit e)"
  by (cases a) (simp_all add: trap_value_def excp_codes)

lemma fault_code_bits:
  "\<not> bit (of_nat (access_fault a) :: u32) 31" "unat (of_nat (access_fault a) AND 0x7FFFFFFF :: u32) = access_fault a"
  "access_fault a \<noteq> RISCV_EXCP_SEMIHOST" "ecall_cause p (access_fault a) = access_fault a"
  by (cases a; simp add: excp_codes ecall_cause_def)+

lemma mmode_sync_fields:
  fixes ldl :: "u64 \<Rightarrow> u32 option" and c :: nat and tval :: u32 and h :: cpu_state
  defines "h1 \<equiv> do_interrupt_mmode ldl False c tval h"
  shows "mcause h1 = of_nat c" "mtval h1 = tval" "mepc h1 = pc h" "priv h1 = PRV_M" "gpr h1 = gpr h"
    "ms_mpp (mstatus h1) = priv h" "\<not> ms_mie (mstatus h1)" "ms_mpie (mstatus h1) = ms_mie (mstatus h)"
    "wch_hpe_depth h1 = wch_hpe_depth h" "wch_vtf_in_isr h1 = wch_vtf_in_isr h"
    "pc h1 = (if wch_is_vtf_mode h then evt_dispatch ldl (mtvec h AND NOT 3) WCH_EVT_HARDFAULT_WORD
              else mtvec h AND NOT 3)"
  by (auto simp: h1_def do_interrupt_mmode_def Let_def trap_mstatus_def wch_hpe_fix_fpu_on_entry_def
      trap_vector_def riscv_cpu_set_mode_def wch_is_vtf_mode_def)



end
