(* ===== verification/Ch32_Walk.thy ===== *)
theory Ch32_Walk
  imports Ch32_Mem
begin

text \<open>
  The page-table walk of \<open>get_physical_address\<close> (\<open>cpu_helper.c\<close>) on an RV32 core with supervisor mode and
  without the hypervisor and shadow stacks: Sv32 or no translation. QingKe cores have no MMU and never get
  here; the other cores of this target do. The page tables are a memory of words; \<open>races\<close> says what other
  harts and devices do to it between the read of a leaf entry and its update. On RV32 the attribute bits of
  a page-table entry lie beyond the word, and the test of the top bits of the address always passes.
\<close>

unbundle bit_operations_syntax

section \<open>Page-table entries\<close>

type_synonym pt_mem = "u64 \<Rightarrow> u32 option"

definition PTE_V :: nat where "PTE_V = 0"
definition PTE_R :: nat where "PTE_R = 1"
definition PTE_W :: nat where "PTE_W = 2"
definition PTE_X :: nat where "PTE_X = 3"
definition PTE_U :: nat where "PTE_U = 4"
definition PTE_A :: nat where "PTE_A = 6"
definition PTE_D :: nat where "PTE_D = 7"
definition PTE_PPN_SHIFT :: nat where "PTE_PPN_SHIFT = 10"

lemmas pte_defs = PTE_V_def PTE_R_def PTE_W_def PTE_X_def PTE_U_def PTE_A_def PTE_D_def PTE_PPN_SHIFT_def

text \<open>The hart: protection, which addresses are RAM, the extensions that decide who sets the accessed and dirty
  bits. An access: mode and \<open>SUM\<close> of its MMU index, \<open>MXR\<close>, its kind, and whether the debugger makes it.\<close>

record walk_cfg =
  w_pmp :: pmp_unit
  w_core :: cpu_cfg
  w_ram :: "u64 \<Rightarrow> bool"
  ext_svade :: bool
  ext_svadu :: bool
  menvcfg_adue :: bool

record walk_access =
  w_mode :: nat
  w_sum :: bool
  w_mxr :: bool
  w_kind :: access
  w_debug :: bool

definition walk_adue :: "walk_cfg \<Rightarrow> bool" where
  "walk_adue c = (if ext_svadu c then menvcfg_adue c else \<not> ext_svade c)"

section \<open>The levels\<close>

text \<open>A walk ends with a result or with a leaf, the shift of its level and the table it lies in. A shift by a
  negative amount is undefined in C: \<open>None\<close>.\<close>

datatype level_end = Ended translate | Leaf u64 u32 int u64

fun walk_levels :: "walk_cfg \<Rightarrow> pt_mem \<Rightarrow> u32 \<Rightarrow> nat \<Rightarrow> int \<Rightarrow> u64 \<Rightarrow> level_end option" where
  "walk_levels c mem addr 0 ptshift base = Some (Ended TRANSLATE_FAIL)"
| "walk_levels c mem addr (Suc n) ptshift base =
     (if 12 + ptshift < 0 then None
      else
        let idx = drop_bit (nat (12 + ptshift)) addr AND 0x3FF;
            pte_addr = base + ucast idx * 4
        in if fst (get_physical_address_pmp (w_pmp c) (w_core c) pte_addr 4 MMU_DATA_LOAD PRV_S) \<noteq> TRANSLATE_SUCCESS
           then Some (Ended TRANSLATE_PMP_FAIL)
           else case mem pte_addr of
             None \<Rightarrow> Some (Ended TRANSLATE_FAIL)
           | Some pte \<Rightarrow>
               if \<not> bit pte PTE_V then Some (Ended TRANSLATE_FAIL)
               else if bit pte PTE_R \<or> bit pte PTE_W \<or> bit pte PTE_X then Some (Leaf pte_addr pte ptshift base)
               else if bit pte PTE_D \<or> bit pte PTE_A \<or> bit pte PTE_U then Some (Ended TRANSLATE_FAIL)
               else walk_levels c mem addr n (ptshift - 10) (push_bit 12 (ucast (drop_bit PTE_PPN_SHIFT pte))))"

section \<open>The leaf\<close>

definition leaf_prot :: "bool \<Rightarrow> u32 \<Rightarrow> u8 option" where
  "leaf_prot mxr pte =
     (if bit pte PTE_W \<and> \<not> bit pte PTE_R then None
      else Some ((if bit pte PTE_R then 1 else 0) OR (if bit pte PTE_W then 2 else 0) OR
                 (if bit pte PTE_X then (if mxr then 1 else 0) OR 4 else 0)))"

definition leaf_check :: "walk_access \<Rightarrow> u32 \<Rightarrow> nat \<Rightarrow> u8 option" where
  "leaf_check x pte ptshift =
     (if (ucast (drop_bit PTE_PPN_SHIFT pte) :: u64) AND (2 ^ ptshift - 1) \<noteq> 0 then None
      else case leaf_prot (w_mxr x) pte of
        None \<Rightarrow> None
      | Some p \<Rightarrow>
          (case (if bit pte PTE_U
                 then (if w_mode x \<noteq> PRV_U then (if w_sum x then Some (p AND 3) else None) else Some p)
                 else if w_mode x \<noteq> PRV_S then None else Some p) of
             None \<Rightarrow> None
           | Some prot \<Rightarrow> if prot AND access_priv (w_kind x) = 0 then None else Some prot))"

definition ad_update :: "bool \<Rightarrow> access \<Rightarrow> u32 \<Rightarrow> u32 option" where
  "ad_update adue access pte =
     (if adue then Some (pte OR push_bit PTE_A 1 OR (if access = MMU_DATA_STORE then push_bit PTE_D 1 else 0))
      else if \<not> bit pte PTE_A \<or> access = MMU_DATA_STORE \<and> \<not> bit pte PTE_D then None
      else Some pte)"

text \<open>The physical address, and the permissions less the write permission of a clean page.\<close>

definition walk_done :: "access \<Rightarrow> u32 \<Rightarrow> u32 \<Rightarrow> nat \<Rightarrow> u8 \<Rightarrow> translate \<times> u64 \<times> u8" where
  "walk_done access addr pte ptshift prot =
     (TRANSLATE_SUCCESS,
      push_bit 12 (ucast (drop_bit PTE_PPN_SHIFT pte) OR (ucast (drop_bit 12 addr) AND (2 ^ ptshift - 1))) OR
        (ucast addr AND 0xFFF),
      if access \<noteq> MMU_DATA_STORE \<and> \<not> bit pte PTE_D then prot AND NOT 2 else prot)"

datatype walk_stage =
    Final "translate \<times> u64 \<times> u8"
  | Update u64 u32 u32 "translate \<times> u64 \<times> u8" int u64

definition walk_stage :: "walk_cfg \<Rightarrow> walk_access \<Rightarrow> u32 \<Rightarrow> int \<Rightarrow> u64 \<Rightarrow> pt_mem \<Rightarrow> walk_stage option" where
  "walk_stage c x addr ptshift base mem =
     (case walk_levels c mem addr 2 ptshift base of
        None \<Rightarrow> None
      | Some (Ended r) \<Rightarrow> Some (Final (r, 0, 0))
      | Some (Leaf pte_addr pte sh b) \<Rightarrow>
          if sh < 0 then None
          else case leaf_check x pte (nat sh) of
            None \<Rightarrow> Some (Final (TRANSLATE_FAIL, 0, 0))
          | Some prot \<Rightarrow>
              (case ad_update (walk_adue c) (w_kind x) pte of
                 None \<Rightarrow> Some (Final (TRANSLATE_FAIL, 0, 0))
               | Some updated \<Rightarrow>
                   if updated = pte \<or> w_debug x
                   then Some (Final (walk_done (w_kind x) addr pte (nat sh) prot))
                   else if \<not> w_ram c pte_addr then Some (Final (TRANSLATE_FAIL, 0, 0))
                   else Some (Update pte_addr pte updated (walk_done (w_kind x) addr updated (nat sh) prot) sh b)))"

text \<open>The compare-and-swap of the entry. When it fails the walk starts again, from the table and with the shift
  it has got to: only the level counter is reset.\<close>

fun walk_run ::
    "walk_cfg \<Rightarrow> walk_access \<Rightarrow> u32 \<Rightarrow> (pt_mem \<Rightarrow> pt_mem) list \<Rightarrow> int \<Rightarrow> u64 \<Rightarrow> pt_mem \<Rightarrow>
     ((translate \<times> u64 \<times> u8) \<times> pt_mem) option" where
  "walk_run c x addr [] ptshift base mem =
     (case walk_stage c x addr ptshift base mem of
        None \<Rightarrow> None
      | Some (Final r) \<Rightarrow> Some (r, mem)
      | Some (Update a old new r sh b) \<Rightarrow> Some (r, mem(a \<mapsto> new)))"
| "walk_run c x addr (race # races) ptshift base mem =
     (case walk_stage c x addr ptshift base mem of
        None \<Rightarrow> None
      | Some (Final r) \<Rightarrow> Some (r, mem)
      | Some (Update a old new r sh b) \<Rightarrow>
          let mem1 = race mem
          in if mem1 a = Some old then Some (r, mem1(a \<mapsto> new))
             else walk_run c x addr races sh b mem1)"

text \<open>The translation of a user or supervisor access. \<open>satp\<close> holds the mode bit and the page number of the root.\<close>

definition sv32_translate ::
    "walk_cfg \<Rightarrow> walk_access \<Rightarrow> (pt_mem \<Rightarrow> pt_mem) list \<Rightarrow> u32 \<Rightarrow> u32 \<Rightarrow> pt_mem \<Rightarrow>
     ((translate \<times> u64 \<times> u8) \<times> pt_mem) option" where
  "sv32_translate c x races satp addr mem =
     (if \<not> bit satp 31 then Some ((TRANSLATE_SUCCESS, ucast addr, PAGE_RWX), mem)
      else walk_run c x addr races 10 (push_bit 12 (ucast (satp AND 0x3FFFFF))) mem)"

section \<open>The architecture's translation\<close>

text \<open>The privileged specification in its own terms: the leaf entry of an address with the size of its page, and
  which accesses an entry allows.\<close>

definition pte_ppn :: "u32 \<Rightarrow> nat" where "pte_ppn pte = unat pte div 2 ^ 10"

definition pte_pointer :: "u32 \<Rightarrow> bool" where
  "pte_pointer pte \<longleftrightarrow> (\<forall>k \<in> {PTE_R, PTE_W, PTE_X, PTE_D, PTE_A, PTE_U}. \<not> bit pte k)"

definition pte_leaf :: "u32 \<Rightarrow> bool" where
  "pte_leaf pte \<longleftrightarrow> bit pte PTE_R \<or> bit pte PTE_W \<or> bit pte PTE_X"

definition table_entry :: "nat \<Rightarrow> nat \<Rightarrow> u64" where
  "table_entry ppn vpn = of_nat (ppn * 4096 + vpn * 4)"

definition sv32_leaf :: "pt_mem \<Rightarrow> nat \<Rightarrow> u32 \<Rightarrow> (u64 \<times> u32 \<times> nat) option" where
  "sv32_leaf mem root va =
     (let a1 = table_entry root (unat va div 2 ^ 22) in
      case mem a1 of
        None \<Rightarrow> None
      | Some p1 \<Rightarrow>
          if \<not> bit p1 PTE_V then None
          else if pte_leaf p1 then (if pte_ppn p1 mod 2 ^ 10 = 0 then Some (a1, p1, 2 ^ 22) else None)
          else if \<not> pte_pointer p1 then None
          else let a2 = table_entry (pte_ppn p1) (unat va div 2 ^ 12 mod 2 ^ 10) in
               (case mem a2 of
                  None \<Rightarrow> None
                | Some p2 \<Rightarrow> if bit p2 PTE_V \<and> pte_leaf p2 then Some (a2, p2, 2 ^ 12) else None))"

definition pte_grants :: "bool \<Rightarrow> u32 \<Rightarrow> access \<Rightarrow> bool" where
  "pte_grants mxr pte access =
     (case access of
        MMU_DATA_LOAD \<Rightarrow> bit pte PTE_R \<or> mxr \<and> bit pte PTE_X
      | MMU_DATA_STORE \<Rightarrow> bit pte PTE_W
      | MMU_INST_FETCH \<Rightarrow> bit pte PTE_X)"

definition sv32_allowed :: "walk_access \<Rightarrow> u32 \<Rightarrow> access \<Rightarrow> bool" where
  "sv32_allowed x pte access \<longleftrightarrow>
     (bit pte PTE_W \<longrightarrow> bit pte PTE_R) \<and> pte_grants (w_mxr x) pte access \<and>
     (if bit pte PTE_U then w_mode x = PRV_U \<or> w_sum x \<and> access \<noteq> MMU_INST_FETCH else w_mode x = PRV_S)"

text \<open>The entry after the access.\<close>

definition pte_marked :: "access \<Rightarrow> u32 \<Rightarrow> u32" where
  "pte_marked access pte = pte OR push_bit PTE_A 1 OR (if access = MMU_DATA_STORE then push_bit PTE_D 1 else 0)"

section \<open>Addresses\<close>

lemma unat_lt32: "unat (w :: u32) < 4294967296"
  using unsigned_less[of w, where 'a = nat] by simp

lemma index_nat: "ucast (drop_bit k addr AND 0x3FF) = (of_nat (unat addr div 2 ^ k mod 2 ^ 10) :: u64)" for addr :: u32
proof -
  have m: "(0x3FF :: u32) = mask 10" by (simp add: mask_eq_exp_minus_1)
  have "unat (drop_bit k addr AND 0x3FF) = unat addr div 2 ^ k mod 2 ^ 10"
    unfolding m take_bit_eq_mask[symmetric] unsigned_take_bit_eq unat_drop_bit_eq
    by (simp add: take_bit_eq_mod drop_bit_eq_div)
  then show ?thesis by (metis of_nat_unat)
qed

lemma table_nat: "push_bit 12 (ucast w) = (of_nat (unat w * 4096) :: u64)" for w :: u32
proof -
  have "(ucast w :: u64) = of_nat (unat w)" by simp
  then show ?thesis by (simp add: push_bit_eq_mult)
qed

lemma entry_word: "push_bit 12 (ucast w) + ucast (drop_bit k addr AND 0x3FF) * 4 =
    table_entry (unat w) (unat addr div 2 ^ k mod 2 ^ 10)" for w addr :: u32
  by (simp add: table_entry_def index_nat table_nat)

lemma ppn_word: "unat (drop_bit PTE_PPN_SHIFT pte) = pte_ppn pte"
  unfolding pte_ppn_def PTE_PPN_SHIFT_def unat_drop_bit_eq by (simp add: drop_bit_eq_div)

lemma top_index: "unat (addr :: u32) div 2 ^ 22 mod 2 ^ 10 = unat addr div 2 ^ 22"
proof -
  have "unat addr div 4194304 < 1024" using unat_lt32[of addr] by (simp add: less_mult_imp_div_less)
  then show ?thesis by simp
qed

lemma aligned_ppn:
  "(ucast (drop_bit PTE_PPN_SHIFT pte) :: u64) AND (2 ^ k - 1) = 0 \<longleftrightarrow> pte_ppn pte mod 2 ^ k = 0"
proof -
  have m: "(2 ^ k - 1 :: u64) = mask k" by (simp add: mask_eq_exp_minus_1 push_bit_eq_mult)
  have u: "unat (ucast (drop_bit PTE_PPN_SHIFT pte) :: u64) = pte_ppn pte"
    using unat_lt32[of "drop_bit PTE_PPN_SHIFT pte"]
    by (simp add: ppn_word[symmetric] unsigned_ucast_eq take_bit_nat_eq_self)
  have "unat ((ucast (drop_bit PTE_PPN_SHIFT pte) :: u64) AND mask k) = pte_ppn pte mod 2 ^ k"
    unfolding take_bit_eq_mask[symmetric] unsigned_take_bit_eq u by (simp add: take_bit_eq_mod)
  then show ?thesis unfolding m by (metis unat_0 unat_eq_0)
qed

text \<open>The parts of the physical address do not overlap when the page number is aligned.\<close>

lemma physical_nat:
  assumes "pte_ppn pte mod 2 ^ k = 0" "k \<le> 10"
  shows "unat (fst (snd (walk_done access addr pte k prot))) =
    pte_ppn pte * 4096 + unat addr mod 2 ^ (12 + k)"
proof -
  let ?p = "ucast (drop_bit PTE_PPN_SHIFT pte) :: u64" and ?a = "ucast addr :: u64"
  let ?w = "push_bit 12 (?p OR (ucast (drop_bit 12 addr) AND (2 ^ k - 1))) OR (?a AND 0xFFF)"
  have m: "(2 ^ k - 1 :: u64) = mask k" "(0xFFF :: u64) = mask 12"
    by (simp_all add: mask_eq_exp_minus_1 push_bit_eq_mult)
  have pz: "\<not> bit ?p i" if "i < k" for i
  proof -
    have "take_bit k ?p = 0" using iffD2[OF aligned_ppn assms(1)] unfolding m take_bit_eq_mask .
    then have "bit (take_bit k ?p) i = False" by simp
    then show ?thesis using that by (simp add: bit_take_bit_iff)
  qed
  have w: "?w = push_bit 12 ?p OR take_bit (12 + k) ?a"
  proof (rule bit_word_eqI)
    fix i assume "i < LENGTH(64)"
    then show "bit ?w i = bit (push_bit 12 ?p OR take_bit (12 + k) ?a) i"
      unfolding m take_bit_eq_mask[symmetric]
      by (auto simp: bit_simps dest: bit_imp_le_length)
  qed
  have "push_bit 12 ?p AND take_bit (12 + k) ?a = 0"
  proof (rule bit_word_eqI)
    fix i assume "i < LENGTH(64)"
    show "bit (push_bit 12 ?p AND take_bit (12 + k) ?a) i = bit (0 :: u64) i"
    proof (cases "12 \<le> i \<and> i < 12 + k")
      case True
      then have "i - 12 < k" by linarith
      then show ?thesis using pz by (simp add: bit_and_iff bit_push_bit_iff)
    qed (auto simp: bit_and_iff bit_push_bit_iff bit_take_bit_iff)
  qed
  then have s: "?w = push_bit 12 ?p + take_bit (12 + k) ?a" unfolding w by (simp add: disjunctive_add_eq_or)
  have u: "unat ?p = pte_ppn pte" "unat ?a = unat addr"
    using unat_lt32[of "drop_bit PTE_PPN_SHIFT pte"] unat_lt32[of addr]
    by (simp_all add: ppn_word[symmetric] unsigned_ucast_eq take_bit_nat_eq_self)
  have "pte_ppn pte < 4194304" using unat_lt32[of pte] by (simp add: pte_ppn_def less_mult_imp_div_less)
  moreover have "unat addr mod 2 ^ (12 + k) < 2 ^ 22"
    by (rule order.strict_trans2[OF mod_less_divisor power_increasing]) (use assms(2) in auto)
  ultimately have b: "pte_ppn pte * 4096 + unat addr mod 2 ^ (12 + k) < 2 ^ 64" by simp
  have "?w = of_nat (pte_ppn pte * 4096 + unat addr mod 2 ^ (12 + k))"
  proof -
    have "push_bit 12 ?p = of_nat (pte_ppn pte * 4096)" unfolding u(1)[symmetric] by (simp add: push_bit_eq_mult)
    moreover have "take_bit (12 + k) ?a = of_nat (unat addr mod 2 ^ (12 + k))"
      unfolding u(2)[symmetric] take_bit_eq_mod[symmetric] unsigned_take_bit_eq[symmetric] by (rule of_nat_unat[symmetric, THEN trans]) simp
    ultimately show ?thesis unfolding s by simp
  qed
  then have "unat ?w = pte_ppn pte * 4096 + unat addr mod 2 ^ (12 + k)"
    using b by (simp only: unat_of_nat take_bit_nat_eq_self) simp
  then show ?thesis by (simp add: walk_done_def)
qed

section \<open>The walk against the specification\<close>

lemma walk_step:
  assumes "\<And>a. fst (get_physical_address_pmp (w_pmp c) (w_core c) a 4 MMU_DATA_LOAD PRV_S) = TRANSLATE_SUCCESS" "0 \<le> sh"
  defines "a addr root \<equiv> table_entry (unat (root :: u32)) (unat addr div 2 ^ nat (12 + sh) mod 2 ^ 10)"
  shows "walk_levels c mem addr (Suc n) sh (push_bit 12 (ucast root)) =
    (case mem (a addr root) of
       None \<Rightarrow> Some (Ended TRANSLATE_FAIL)
     | Some pte \<Rightarrow>
         if \<not> bit pte PTE_V then Some (Ended TRANSLATE_FAIL)
         else if pte_leaf pte then Some (Leaf (a addr root) pte sh (push_bit 12 (ucast root)))
         else if \<not> pte_pointer pte then Some (Ended TRANSLATE_FAIL)
         else walk_levels c mem addr n (sh - 10) (push_bit 12 (ucast (drop_bit PTE_PPN_SHIFT pte))))"
proof -
  have s: "\<not> 12 + sh < 0" using assms(2) by simp
  show ?thesis
    unfolding walk_levels.simps Let_def entry_word a_def[symmetric]
    using s assms(1) by (cases "mem (a addr root)") (auto simp: pte_leaf_def pte_pointer_def)
qed

lemma levels_leaf:
  assumes "\<And>a. fst (get_physical_address_pmp (w_pmp c) (w_core c) a 4 MMU_DATA_LOAD PRV_S) = TRANSLATE_SUCCESS"
  shows "\<exists>e. walk_levels c mem addr 2 10 (push_bit 12 (ucast (root :: u32))) = Some e \<and>
    (case e of
       Ended r \<Rightarrow> r = TRANSLATE_FAIL \<and> sv32_leaf mem (unat root) addr = None
     | Leaf a pte sh b \<Rightarrow> (sh = 0 \<or> sh = 10) \<and> mem a = Some pte \<and>
         sv32_leaf mem (unat root) addr =
           (if pte_ppn pte mod 2 ^ nat sh = 0 then Some (a, pte, 2 ^ (12 + nat sh)) else None))"
proof -
  define a1 where "a1 = table_entry (unat root) (unat addr div 2 ^ 22)"
  define a2 where "a2 p = table_entry (pte_ppn p) (unat addr div 2 ^ 12 mod 2 ^ 10)" for p
  have n: "nat (12 + 10) = 22" "(10 :: int) - 10 = 0" "(0 :: int) \<le> 10" by simp_all
  have w1: "walk_levels c mem addr 2 10 (push_bit 12 (ucast root)) =
    (case mem a1 of
       None \<Rightarrow> Some (Ended TRANSLATE_FAIL)
     | Some pte \<Rightarrow>
         if \<not> bit pte PTE_V then Some (Ended TRANSLATE_FAIL)
         else if pte_leaf pte then Some (Leaf a1 pte 10 (push_bit 12 (ucast root)))
         else if \<not> pte_pointer pte then Some (Ended TRANSLATE_FAIL)
         else walk_levels c mem addr 1 0 (push_bit 12 (ucast (drop_bit PTE_PPN_SHIFT pte))))"
    using walk_step[OF assms n(3), of mem addr 1 root] unfolding a1_def Suc_1 n top_index .
  have w2: "walk_levels c mem addr 1 0 (push_bit 12 (ucast (drop_bit PTE_PPN_SHIFT p))) =
    (case mem (a2 p) of
       None \<Rightarrow> Some (Ended TRANSLATE_FAIL)
     | Some pte \<Rightarrow>
         if \<not> bit pte PTE_V then Some (Ended TRANSLATE_FAIL)
         else if pte_leaf pte then Some (Leaf (a2 p) pte 0 (push_bit 12 (ucast (drop_bit PTE_PPN_SHIFT p))))
         else Some (Ended TRANSLATE_FAIL))" for p
    using walk_step[OF assms, of 0 mem addr 0 "drop_bit PTE_PPN_SHIFT p"] unfolding a2_def by (simp add: ppn_word split: option.splits)
  have l: "sv32_leaf mem (unat root) addr =
    (case mem a1 of
        None \<Rightarrow> None
      | Some p1 \<Rightarrow>
          if \<not> bit p1 PTE_V then None
          else if pte_leaf p1 then (if pte_ppn p1 mod 2 ^ 10 = 0 then Some (a1, p1, 2 ^ 22) else None)
          else if \<not> pte_pointer p1 then None
          else (case mem (a2 p1) of
                  None \<Rightarrow> None
                | Some p2 \<Rightarrow> if bit p2 PTE_V \<and> pte_leaf p2 then Some (a2 p1, p2, 2 ^ 12) else None))"
    unfolding sv32_leaf_def Let_def a1_def a2_def ..
  show ?thesis unfolding w1 w2 l
    by (cases "mem a1"; simp; cases "mem (a2 (the (mem a1)))"; simp)
qed

lemma leaf_prot_bits:
  assumes "leaf_prot mxr pte = Some p"
  shows "p AND access_priv b = 0 \<longleftrightarrow> \<not> pte_grants mxr pte b"
    "(p AND 3) AND access_priv b = 0 \<longleftrightarrow> \<not> (pte_grants mxr pte b \<and> b \<noteq> MMU_INST_FETCH)"
  using assms
  by (cases b; cases "bit pte PTE_R"; cases "bit pte PTE_W"; cases "bit pte PTE_X"; cases mxr;
      force simp: leaf_prot_def pte_grants_def)+

lemma leaf_check_allowed:
  assumes "w_mode x = PRV_U \<or> w_mode x = PRV_S" "pte_ppn pte mod 2 ^ k = 0"
  shows "case leaf_check x pte k of
      None \<Rightarrow> \<not> sv32_allowed x pte (w_kind x)
    | Some prot \<Rightarrow> sv32_allowed x pte (w_kind x) \<and>
        (\<forall>b. prot AND access_priv b \<noteq> 0 \<longleftrightarrow> sv32_allowed x pte b)"
proof (cases "leaf_prot (w_mxr x) pte")
  case None
  then have "\<not> sv32_allowed x pte b" for b by (simp add: leaf_prot_def sv32_allowed_def split: if_splits)
  then show ?thesis using None assms(2) by (simp add: leaf_check_def aligned_ppn)
next
  case (Some p)
  then have w: "bit pte PTE_W \<longrightarrow> bit pte PTE_R" by (simp add: leaf_prot_def split: if_splits)
  have us: "PRV_U \<noteq> PRV_S" by (simp add: prv_defs)
  show ?thesis
    using Some assms w us leaf_prot_bits[OF Some]
    by (cases "bit pte PTE_U"; cases "w_mode x = PRV_U"; cases "w_sum x")
      (simp_all add: leaf_check_def aligned_ppn sv32_allowed_def)
qed

lemma leaf_check_misaligned: "pte_ppn pte mod 2 ^ k \<noteq> 0 \<Longrightarrow> leaf_check x pte k = None"
  by (simp add: leaf_check_def aligned_ppn)

lemma bit_marked:
  "bit (pte_marked access pte) k \<longleftrightarrow> bit pte k \<or> k = PTE_A \<or> access = MMU_DATA_STORE \<and> k = PTE_D"
proof -
  have "bit (push_bit n 1 :: u32) k \<longleftrightarrow> k = n" if "n < 32" for n using that by (auto simp: bit_exp_iff)
  from this[of PTE_A] this[of PTE_D] show ?thesis
    unfolding pte_marked_def bit_or_iff by (cases "access = MMU_DATA_STORE") (auto simp: PTE_A_def PTE_D_def)
qed

lemma marked_same: "pte = pte_marked access pte \<longleftrightarrow> bit pte PTE_A \<and> (access = MMU_DATA_STORE \<longrightarrow> bit pte PTE_D)"
proof
  assume "pte = pte_marked access pte"
  then show "bit pte PTE_A \<and> (access = MMU_DATA_STORE \<longrightarrow> bit pte PTE_D)" by (metis bit_marked)
next
  assume "bit pte PTE_A \<and> (access = MMU_DATA_STORE \<longrightarrow> bit pte PTE_D)"
  then show "pte = pte_marked access pte" by (intro bit_word_eqI) (auto simp: bit_marked)
qed

lemma marked_ppn: "pte_ppn (pte_marked access pte) = pte_ppn pte"
proof -
  have "drop_bit PTE_PPN_SHIFT (pte_marked access pte) = drop_bit PTE_PPN_SHIFT pte"
    by (rule bit_word_eqI) (simp add: bit_drop_bit_eq bit_marked pte_defs)
  then show ?thesis by (simp add: ppn_word[symmetric])
qed

lemma ad_marked:
  "ad_update adue access pte = (if adue \<or> pte = pte_marked access pte then Some (pte_marked access pte) else None)"
proof (cases adue)
  case True
  then show ?thesis by (simp add: ad_update_def pte_marked_def)
next
  case False
  then show ?thesis using marked_same[of pte access] by (auto simp: ad_update_def)
qed

text \<open>The translation the specification asks for: the address of the leaf entry, the size of the page and the
  entry after the access, if the access is allowed and the bits are set or can be set.\<close>

definition sv32_spec :: "walk_cfg \<Rightarrow> walk_access \<Rightarrow> nat \<Rightarrow> u32 \<Rightarrow> pt_mem \<Rightarrow> (u64 \<times> nat \<times> u32) option" where
  "sv32_spec c x root va mem =
     (case sv32_leaf mem root va of
        None \<Rightarrow> None
      | Some (a, pte, span) \<Rightarrow>
          let new = pte_marked (w_kind x) pte in
          if sv32_allowed x pte (w_kind x) \<and> (pte = new \<or> walk_adue c \<and> w_ram c a) then Some (a, span, new) else None)"

lemma done_grants:
  assumes "\<And>b. prot AND access_priv b \<noteq> 0 \<longleftrightarrow> G b" "access = MMU_DATA_STORE \<longrightarrow> bit pte PTE_D"
  shows "snd (snd (walk_done access addr pte k prot)) AND access_priv b \<noteq> 0 \<longleftrightarrow>
    G b \<and> (b = MMU_DATA_STORE \<longrightarrow> bit pte PTE_D)"
proof -
  have "(prot AND NOT 2) AND access_priv b \<noteq> 0 \<longleftrightarrow> prot AND access_priv b \<noteq> 0 \<and> b \<noteq> MMU_DATA_STORE"
    by (cases b) (simp_all add: and.assoc)
  then show ?thesis using assms by (auto simp: walk_done_def)
qed

lemma allowed_marked: "sv32_allowed x (pte_marked access pte) b = sv32_allowed x pte b"
  by (cases b) (auto simp: sv32_allowed_def pte_grants_def bit_marked pte_defs)

text \<open>C21. The page-table walk is the translation of the architecture. For a user or supervisor access on a core whose
  protection lets the tables be read, with no interference, the walk fails exactly when the specification
  gives no page, and then changes nothing; otherwise it delivers the physical address of the page, sets
  nothing but the accessed and dirty bits of the leaf entry, and grants precisely the kinds of access the
  entry allows, a store only when the page is marked dirty.\<close>

theorem sv32_walk_correct:
  assumes "\<And>a. fst (get_physical_address_pmp (w_pmp c) (w_core c) a 4 MMU_DATA_LOAD PRV_S) = TRANSLATE_SUCCESS"
    and "w_mode x = PRV_U \<or> w_mode x = PRV_S" "\<not> w_debug x" "bit satp 31"
  shows "case sv32_spec c x (unat (satp AND 0x3FFFFF)) addr mem of
      None \<Rightarrow> sv32_translate c x [] satp addr mem = Some ((TRANSLATE_FAIL, 0, 0), mem)
    | Some (a, span, new) \<Rightarrow> \<exists>pa prot.
        sv32_translate c x [] satp addr mem = Some ((TRANSLATE_SUCCESS, pa, prot), mem(a \<mapsto> new)) \<and>
        unat pa = pte_ppn new * 4096 + unat addr mod span \<and>
        (\<forall>b. prot AND access_priv b \<noteq> 0 \<longleftrightarrow> sv32_allowed x new b \<and> (b = MMU_DATA_STORE \<longrightarrow> bit new PTE_D))"
proof -
  let ?root = "satp AND 0x3FFFFF"
  obtain e where e: "walk_levels c mem addr 2 10 (push_bit 12 (ucast ?root)) = Some e"
    and l: "case e of
       Ended r \<Rightarrow> r = TRANSLATE_FAIL \<and> sv32_leaf mem (unat ?root) addr = None
     | Leaf a pte sh b \<Rightarrow> (sh = 0 \<or> sh = 10) \<and> mem a = Some pte \<and>
         sv32_leaf mem (unat ?root) addr =
           (if pte_ppn pte mod 2 ^ nat sh = 0 then Some (a, pte, 2 ^ (12 + nat sh)) else None)"
    using levels_leaf[OF assms(1), of mem addr ?root] by blast
  have tr: "sv32_translate c x [] satp addr mem = walk_run c x addr [] 10 (push_bit 12 (ucast ?root)) mem"
    using assms(4) by (simp add: sv32_translate_def)
  show ?thesis
  proof (cases e)
    case (Ended r)
    then show ?thesis using e l by (simp add: tr walk_stage_def sv32_spec_def)
  next
    case (Leaf a pte sh b)
    then have sh: "sh = 0 \<or> sh = 10" and m: "mem a = Some pte" using l by auto
    show ?thesis
    proof (cases "pte_ppn pte mod 2 ^ nat sh = 0")
      case False
      then show ?thesis using e l Leaf sh leaf_check_misaligned[OF False, of x]
        by (auto simp: tr walk_stage_def sv32_spec_def)
    next
      case True
      define new where "new = pte_marked (w_kind x) pte"
      have leaf: "sv32_leaf mem (unat ?root) addr = Some (a, pte, 2 ^ (12 + nat sh))" using True l Leaf by simp
      note chk = leaf_check_allowed[OF assms(2) True]
      have stage: "walk_stage c x addr 10 (push_bit 12 (ucast ?root)) mem =
        (case leaf_check x pte (nat sh) of
           None \<Rightarrow> Some (Final (TRANSLATE_FAIL, 0, 0))
         | Some prot \<Rightarrow>
             if \<not> (walk_adue c \<or> pte = new) then Some (Final (TRANSLATE_FAIL, 0, 0))
             else if new = pte then Some (Final (walk_done (w_kind x) addr new (nat sh) prot))
             else if \<not> w_ram c a then Some (Final (TRANSLATE_FAIL, 0, 0))
             else Some (Update a pte new (walk_done (w_kind x) addr new (nat sh) prot) sh b))"
        using e Leaf sh assms(3) by (auto simp: walk_stage_def ad_marked new_def[symmetric] split: option.splits)
      have spec: "sv32_spec c x (unat ?root) addr mem =
        (if sv32_allowed x pte (w_kind x) \<and> (pte = new \<or> walk_adue c \<and> w_ram c a)
         then Some (a, 2 ^ (12 + nat sh), new) else None)"
        by (simp add: sv32_spec_def leaf new_def Let_def)
      show ?thesis
      proof (cases "leaf_check x pte (nat sh)")
        case None
        then show ?thesis using chk by (simp add: tr stage spec)
      next
        case (Some prot)
        then have al: "sv32_allowed x pte (w_kind x)" and g: "\<And>b. prot AND access_priv b \<noteq> 0 \<longleftrightarrow> sv32_allowed x new b"
          using chk by (auto simp: new_def allowed_marked)
        obtain pa pr where d: "walk_done (w_kind x) addr new (nat sh) prot = (TRANSLATE_SUCCESS, pa, pr)"
          by (simp add: walk_done_def)
        have "unat pa = pte_ppn new * 4096 + unat addr mod 2 ^ (12 + nat sh)"
          using physical_nat[of new "nat sh" "w_kind x" addr prot] True sh d by (auto simp: new_def marked_ppn)
        moreover have "pr AND access_priv b \<noteq> 0 \<longleftrightarrow> sv32_allowed x new b \<and> (b = MMU_DATA_STORE \<longrightarrow> bit new PTE_D)" for b
          using done_grants[OF g, of "w_kind x" new addr "nat sh" b] d by (simp add: new_def bit_marked)
        moreover have "mem(a \<mapsto> new) = mem" if "pte = new" using m that by (simp add: fun_upd_idem)
        moreover have "sv32_translate c x [] satp addr mem =
          (if pte = new \<or> walk_adue c \<and> w_ram c a
           then Some ((TRANSLATE_SUCCESS, pa, pr), if pte = new then mem else mem(a \<mapsto> new))
           else Some ((TRANSLATE_FAIL, 0, 0), mem))"
          using d by (cases "new = pte") (simp_all add: tr stage Some)
        ultimately show ?thesis using al by (simp add: spec split: if_splits)
      qed
    qed
  qed
qed

text \<open>A supervisor page that is writable and clean, in a table of one entry.\<close>

definition walk_sample :: walk_cfg where
  "walk_sample = \<lparr>w_pmp = \<lparr>pmp_hart_has_privs = (\<lambda>_ _ _ _. (True, 7)), pmp_priv_to_page_prot = id,
       pmp_get_tlb_size = (\<lambda>_. 4096)\<rparr>,
     w_core = (core_config sample_cpu 0)\<lparr>cfg_pmp := False\<rparr>, w_ram = (\<lambda>_. True), ext_svade = False,
     ext_svadu = False, menvcfg_adue = False\<rparr>"

definition sample_store :: walk_access where
  "sample_store = \<lparr>w_mode = PRV_S, w_sum = False, w_mxr = False, w_kind = MMU_DATA_STORE, w_debug = False\<rparr>"

definition sample_tables :: pt_mem where
  "sample_tables = [0x1000 \<mapsto> 0x801, 0x2004 \<mapsto> 0x1407]"

lemma walk_sample_pmp:
  "fst (get_physical_address_pmp (w_pmp walk_sample) (w_core walk_sample) a 4 MMU_DATA_LOAD PRV_S) = TRANSLATE_SUCCESS"
  by (simp add: walk_sample_def get_physical_address_pmp_def)

theorem sv32_walk_correct_witness:
  "\<exists>pa prot. sv32_translate walk_sample sample_store [] 0x80000001 0x1234 sample_tables =
     Some ((TRANSLATE_SUCCESS, pa, prot), sample_tables(0x2004 \<mapsto> 0x14C7)) \<and> unat pa = 0x5234"
proof -
  have l: "sv32_leaf sample_tables 1 0x1234 = Some (0x2004, 0x1407, 4096)"
    by (simp add: sv32_leaf_def table_entry_def sample_tables_def pte_leaf_def pte_pointer_def pte_ppn_def pte_defs)
  have "pte_marked MMU_DATA_STORE 0x1407 = 0x14C7" by (simp add: pte_marked_def pte_defs)
  moreover have "sv32_allowed sample_store 0x1407 MMU_DATA_STORE"
    by (simp add: sv32_allowed_def pte_grants_def sample_store_def pte_defs)
  ultimately have "sv32_spec walk_sample sample_store 1 0x1234 sample_tables = Some (0x2004, 4096, 0x14C7)"
    by (simp add: sv32_spec_def l[unfolded One_nat_def] walk_adue_def walk_sample_def sample_store_def)
  moreover have "w_mode sample_store = PRV_U \<or> w_mode sample_store = PRV_S" "\<not> w_debug sample_store" "bit (0x80000001 :: u32) 31"
    by (simp_all add: sample_store_def)
  ultimately show ?thesis
    using sv32_walk_correct[OF walk_sample_pmp, of sample_store "0x80000001" "0x1234" sample_tables]
    by (simp add: pte_ppn_def) blast
qed

section \<open>A lost race\<close>


end
