(* ===== verification/Ch32_Wait.thy ===== *)
theory Ch32_Wait
  imports Ch32_Csr
begin

text \<open>
  Waiting for an interrupt and what ends the wait: \<open>wfi\<close> and the fence of the address translation
  (\<open>op_helper.c\<close>), the test for work that QEMU's loop makes on a halted core, and the interrupt inputs of
  the core (\<open>riscv_cpu_set_irq\<close> in \<open>cpu.c\<close>), which on a QingKe core carry the numbers of the external lines.
  The branches of the hypervisor and of KVM are left out.
\<close>

section \<open>Work and waiting\<close>

definition riscv_cpu_mirq_pending :: "cpu_state \<Rightarrow> nat option" where
  "riscv_cpu_mirq_pending env =
     riscv_cpu_pending_to_irq (riscv_cpu_all_pending env AND NOT (mideleg env) AND
       NOT (one_bit 12 OR one_bit 2 OR one_bit 6 OR one_bit 10))"

definition riscv_cpu_sirq_pending :: "cpu_state \<Rightarrow> nat option" where
  "riscv_cpu_sirq_pending env =
     (let irqs = riscv_cpu_all_pending env AND mideleg env;
          irqs_f = mvip env AND mvien env AND NOT (mideleg env) AND sie env
      in riscv_cpu_pending_to_irq (irqs OR irqs_f))"

definition riscv_cpu_has_work :: "cpu_state \<Rightarrow> bool" where
  "riscv_cpu_has_work env \<longleftrightarrow> riscv_cpu_all_pending env \<noteq> 0 \<or> riscv_cpu_sirq_pending env \<noteq> None"

record wait_env =
  wenv :: csr_env
  halted :: bool

definition helper_wfi :: "wait_env \<Rightarrow> riscv_excp + wait_env" where
  "helper_wfi w =
     (let env = wenv w; rvs = riscv_has_ext env RVS;
          prv_u = (priv (core env) = PRV_U); prv_s = (priv (core env) = PRV_S)
      in if ((prv_s \<or> \<not> rvs \<and> prv_u) \<and> mstatus_word env AND MSTATUS_TW \<noteq> 0) \<or> (rvs \<and> prv_u)
         then Inl RISCV_EXCP_ILLEGAL_INST
         else Inr (w\<lparr>halted := True\<rparr>))"

definition helper_wrs_nto :: "csr_env \<Rightarrow> riscv_excp option" where
  "helper_wrs_nto env =
     (if priv (core env) \<noteq> PRV_M \<and> mstatus_word env AND MSTATUS_TW \<noteq> 0 then Some RISCV_EXCP_ILLEGAL_INST else None)"

text \<open>\<open>None\<close>: the translation buffer is flushed.\<close>

definition helper_tlb_flush :: "csr_env \<Rightarrow> riscv_excp option" where
  "helper_tlb_flush env =
     (if priv (core env) = PRV_U \<or> (priv (core env) = PRV_S \<and> mstatus_word env AND MSTATUS_TVM \<noteq> 0)
      then Some RISCV_EXCP_ILLEGAL_INST else None)"

section \<open>Interrupt inputs\<close>

definition IRQ_LOCAL_MAX :: nat where "IRQ_LOCAL_MAX = 64"
definition IRQ_LOCAL_GUEST_MAX :: nat where "IRQ_LOCAL_GUEST_MAX = 31"
definition IRQ_S_EXT :: nat where "IRQ_S_EXT = 9"

definition BOOL_TO_MASK :: "bool \<Rightarrow> u64" where "BOOL_TO_MASK b = (if b then - 1 else 0)"

text \<open>A failed assertion is \<open>None\<close>. Without the hypervisor the inputs from \<open>IRQ_LOCAL_MAX\<close> on are the WCH lines.\<close>

definition riscv_cpu_set_irq :: "nat \<Rightarrow> bool \<Rightarrow> csr_env \<Rightarrow> csr_env option" where
  "riscv_cpu_set_irq irq level env =
     (if irq < IRQ_LOCAL_MAX then
        (if irq \<in> {0, 1, 2, 3, 4, 5, 6, 7, 8, 10, 11}
         then Some (env\<lparr>core := riscv_cpu_update_mip (one_bit irq) (BOOL_TO_MASK level) (core env)\<rparr>)
         else if irq = IRQ_S_EXT
         then Some (env\<lparr>external_seip := level,
                core := riscv_cpu_update_mip (one_bit irq) (BOOL_TO_MASK (level \<or> software_seip env)) (core env)\<rparr>)
         else None)
      else if irq < IRQ_LOCAL_MAX + IRQ_LOCAL_GUEST_MAX then
        (if ext_hpe (cfg (core env)) then
           Some (env\<lparr>core :=
             (if level
              then riscv_cpu_update_mip MIP_MEIP MIP_MEIP ((core env)\<lparr>wch_evt_mcause_override := of_nat irq\<rparr>)
              else (riscv_cpu_update_mip MIP_MEIP 0 (core env))\<lparr>wch_evt_mcause_override := 0\<rparr>)\<rparr>)
         else None)
      else None)"

lemmas irq_input_defs = IRQ_LOCAL_MAX_def IRQ_LOCAL_GUEST_MAX_def IRQ_S_EXT_def

section \<open>The end of a wait\<close>

lemma pending_zero: "riscv_cpu_pending_to_irq 0 = None"
  by (simp add: riscv_cpu_pending_to_irq_def find_None_iff)

lemma pending_meip: "riscv_cpu_pending_to_irq MIP_MEIP = Some 11"
  unfolding riscv_cpu_pending_to_irq_def by code_simp

lemma bit_meip: "bit MIP_MEIP k \<longleftrightarrow> k = 11"
  unfolding MIP_MEIP_def by (subst bit_push_bit_iff) (auto simp: bit_1_iff)

lemma no_work_pending: "\<not> riscv_cpu_has_work e \<Longrightarrow> riscv_cpu_all_pending e = 0"
  by (simp add: riscv_cpu_has_work_def)

lemma all_pending_meip:
  assumes "riscv_cpu_all_pending e = 0" "bit (mie e) 11" "mip e' = mip e OR MIP_MEIP" "mie e' = mie e"
    "vstime_irq e' = vstime_irq e"
  shows "riscv_cpu_all_pending e' = MIP_MEIP"
proof -
  have "riscv_cpu_all_pending e' = riscv_cpu_all_pending e OR (MIP_MEIP AND mie e)"
    using assms(3-5) unfolding riscv_cpu_all_pending_def
    by (simp add: bit.conj_disj_distrib2 or.assoc or.commute or.left_commute)
  moreover have "MIP_MEIP AND mie e = MIP_MEIP"
    by (rule bit_word_eqI) (use assms(2) in \<open>auto simp: bit_meip bit_and_iff bit_not_iff\<close>)
  ultimately show ?thesis using assms(1) by simp
qed

lemma vtf_async_pc:
  assumes "wch_is_vtf_mode h" "c \<noteq> IRQ_M_SOFT"
  shows "pc (do_interrupt_mmode ldl True c t h) = evt_dispatch ldl (mtvec h AND NOT 3) (wch_vtf_async_vec_word h c)"
    "mepc (do_interrupt_mmode ldl True c t h) = pc h"
  using assms
  by (auto simp: do_interrupt_mmode_def Let_def trap_vector_def wch_is_vtf_mode_def wch_hpe_fix_fpu_on_entry_def
      riscv_cpu_set_mode_def wch_vtf_enter_def wch_qingke_hpe_push_def wch_vtf_async_vec_word_def)

text \<open>C23. An external line ends a wait and reaches its own handler. Suppose a machine-mode core in VTF mode with
  interrupts on and the external interrupt enabled executes \<open>wfi\<close> with nothing pending. Then it halts without
  trapping, and when the input of line \<open>n\<close> goes up it has work and its interrupt request is up; the core takes
  the interrupt, saves the address it waited at, and goes on at the handler in word \<open>n\<close> of the table.\<close>

theorem wfi_ends_at_line_handler:
  assumes "priv (core (wenv w)) = PRV_M" "\<not> riscv_cpu_has_work (core (wenv w))" "64 \<le> n" "n < 95"
    and "wch_is_vtf_mode (core (wenv w))" "wch_vtf_in_isr (core (wenv w)) = 0"
    and "\<not> wch_hpe_sw_handler_skip (core (wenv w))" "bit (mie (core (wenv w))) 11" "bit (mstatus_word (wenv w)) 3"
    and "\<not> bit (mideleg (core (wenv w))) 11"
  shows "\<exists>w1 env2 h2. helper_wfi w = Inr w1 \<and> halted w1 \<and> riscv_cpu_set_irq n True (wenv w1) = Some env2 \<and>
    riscv_cpu_has_work (core env2) \<and> irq_line (core env2) \<and>
    riscv_cpu_exec_interrupt ldl (irq_line (core env2)) (hart_core env2) = (True, h2) \<and>
    mepc h2 = pc (core (wenv w)) \<and>
    pc h2 = evt_dispatch ldl (mtvec (core (wenv w)) AND NOT 3) (of_nat n)"
proof -
  let ?env = "wenv w" and ?c = "core (wenv w)"
  let ?c2 = "riscv_cpu_update_mip MIP_MEIP MIP_MEIP (?c\<lparr>wch_evt_mcause_override := of_nat n\<rparr>)"
  let ?env2 = "?env\<lparr>core := ?c2\<rparr>"
  have hpe: "ext_hpe (cfg ?c)" using assms(5) by (simp add: wch_is_vtf_mode_def)
  have wfi: "helper_wfi w = Inr (w\<lparr>halted := True\<rparr>)"
    using assms(1) by (simp add: helper_wfi_def prv_defs Let_def)
  have irq: "riscv_cpu_set_irq n True ?env = Some ?env2"
    using assms(3,4) hpe by (simp add: riscv_cpu_set_irq_def irq_input_defs)
  have vst: "vstime_irq ?c2 = vstime_irq ?c" by (simp add: riscv_cpu_update_mip_def riscv_cpu_interrupt_def Let_def)
  have pend: "riscv_cpu_all_pending ?c2 = MIP_MEIP"
    using all_pending_meip[OF no_work_pending[OF assms(2)] assms(8), of ?c2] vst by simp
  have pend': "riscv_cpu_all_pending (hart_core ?env2) = MIP_MEIP"
    using pend by (simp add: hart_core_def riscv_cpu_all_pending_def)
  have line: "irq_line ?c2" by (simp add: riscv_cpu_update_mip_def riscv_cpu_interrupt_def Let_def MIP_MEIP_def MIP_VSTIP_def or_eq_zero_iff)
  have deleg: "mideleg ?c2 = mideleg ?c" by (simp add: riscv_cpu_update_mip_def riscv_cpu_interrupt_def Let_def)
  have meip: "MIP_MEIP AND NOT (mideleg ?c) = MIP_MEIP"
    by (rule bit_word_eqI) (use assms(10) in \<open>auto simp: bit_meip bit_and_iff bit_not_iff\<close>)
  have h: "priv (hart_core ?env2) = PRV_M" "ms_mie (mstatus (hart_core ?env2))" "mideleg (hart_core ?env2) = mideleg ?c"
    "wch_is_vtf_mode (hart_core ?env2)" "wch_vtf_in_isr (hart_core ?env2) = 0" "pc (hart_core ?env2) = pc ?c"
    "\<not> wch_hpe_sw_handler_skip (hart_core ?env2)" "mtvec (hart_core ?env2) = mtvec ?c"
    "wch_evt_mcause_override (hart_core ?env2) = of_nat n" "mie (hart_core ?env2) = mie ?c"
    using assms(1,5-7,9) deleg by (simp_all add: hart_core_def mstatus_of_def wch_is_vtf_mode_def)
  have nz: "MIP_MEIP \<noteq> 0" by (simp add: MIP_MEIP_def)
  have loc: "riscv_cpu_local_irq_pending (hart_core ?env2) = Some 11"
    using h(1-3) pend' meip nz by (simp add: riscv_cpu_local_irq_pending_def Let_def pending_meip)
  have nos: "\<not> trap_to_smode True 11 (hart_core ?env2)"
    using h(1) by (simp add: trap_to_smode_def Let_def prv_defs)
  have "(of_nat n :: u32) \<noteq> 0" using assms(3,4) by (simp add: word_unat_eq_iff unat_of_nat take_bit_nat_eq_self)
  then have vec: "wch_vtf_async_vec_word (hart_core ?env2) 11 = of_nat n"
    using h(9) by (simp add: wch_vtf_async_vec_word_def irq_m_defs)
  have ex: "riscv_cpu_exec_interrupt ldl True (hart_core ?env2) =
      (True, do_interrupt_mmode ldl True 11 0 (hart_core ?env2))"
    using loc h(4,5,7) nos by (simp add: riscv_cpu_exec_interrupt_def wch_vtf_irq_blocked_def
        wch_sw_handler_irq_blocked_def riscv_cpu_do_interrupt_def)
  show ?thesis
    using wfi irq pend nz line ex vtf_async_pc[OF h(4), of 11 ldl 0] vec h(6,8)
    by (simp add: riscv_cpu_has_work_def irq_m_defs)
qed

definition wait_sample :: wait_env where
  "wait_sample = \<lparr>wenv = (csr_sample PRV_M)\<lparr>core := (core (csr_sample PRV_M))\<lparr>cfg := (cfg (core (csr_sample PRV_M)))\<lparr>ext_hpe := True\<rparr>,
       priv := PRV_M, mtvec := 0x203, pc := 0x100, mip := 0, mie := MIP_MEIP, mideleg := 0, vstime_irq := False,
       mvip := 0, wch_vtf_in_isr := 0, wch_hpe_sw_handler_skip := False\<rparr>, mstatus_word := 8\<rparr>, halted = False\<rparr>"

theorem wfi_ends_at_line_handler_witness:
  "\<exists>w1 env2 h2. helper_wfi wait_sample = Inr w1 \<and> riscv_cpu_set_irq 70 True (wenv w1) = Some env2 \<and>
     riscv_cpu_exec_interrupt (\<lambda>_. Some 0x400) (irq_line (core env2)) (hart_core env2) = (True, h2) \<and>
     mepc h2 = 0x100 \<and> pc h2 = 0x400"
proof -
  let ?c = "core (wenv wait_sample)"
  have g: "priv ?c = PRV_M" "(64 :: nat) \<le> 70" "(70 :: nat) < 95" "wch_is_vtf_mode ?c" "wch_vtf_in_isr ?c = 0"
    "\<not> wch_hpe_sw_handler_skip ?c" "bit (mie ?c) 11" "bit (mstatus_word (wenv wait_sample)) 3" "\<not> bit (mideleg ?c) 11"
    "pc ?c = 0x100"
    by (simp_all add: wait_sample_def wch_is_vtf_mode_def bit_meip)
  have "\<not> riscv_cpu_has_work ?c"
    by (simp add: riscv_cpu_has_work_def riscv_cpu_all_pending_def riscv_cpu_sirq_pending_def pending_zero wait_sample_def)
  from wfi_ends_at_line_handler[OF g(1) this g(2-9), of "\<lambda>_. Some 0x400"] show ?thesis
    using g(10) by (auto simp: evt_dispatch_def)
qed

end
