(* ===== verification/Ch32_Decode.thy ===== *)
theory Ch32_Decode
  imports Ch32_Xw
begin

text \<open>
  Fetching and dispatch of an instruction and the extent of a translation block (\<open>decode_opc\<close> and
  \<open>riscv_tr_translate_insn\<close> of \<open>translate.c\<close>). The decoders of the standard instructions are generated code
  and parameters; so are \<open>insn_len\<close>, the length the first halfword encodes (two or four bytes), which a
  header outside the repository defines, and whether an instruction ends the block. Code is read byte by byte, low byte first.
\<close>

section \<open>Fetch\<close>

definition code_lduw :: "(u32 \<Rightarrow> u8) \<Rightarrow> u32 \<Rightarrow> u16" where
  "code_lduw code a = ucast (code a) OR push_bit 8 (ucast (code (a + 1)))"

definition code_ldl :: "(u32 \<Rightarrow> u8) \<Rightarrow> u32 \<Rightarrow> u32" where
  "code_ldl code a = ucast (code_lduw code a) OR push_bit 16 (ucast (code_lduw code (a + 2)))"

definition deposit_high :: "u32 \<Rightarrow> u16 \<Rightarrow> u32" where
  "deposit_high w h = take_bit 16 w OR push_bit 16 (ucast h)"

section \<open>Dispatch\<close>

datatype ('a, 'b) decoded =
    Xw16 xw_insn | Std16 'a | Mcpy32 "nat \<times> nat \<times> nat" | Std32 'b | Illegal_insn

definition decode16 :: "xw_cfg \<Rightarrow> (u16 \<Rightarrow> 'a option) \<Rightarrow> u16 \<Rightarrow> ('a, 'b) decoded" where
  "decode16 ctx insn16 opcode =
     (case decode_opc16 ctx insn16 opcode of
        Some (Inl x) \<Rightarrow> Xw16 x | Some (Inr y) \<Rightarrow> Std16 y | None \<Rightarrow> Illegal_insn)"

fun first_decoder :: "(u32 \<Rightarrow> 'b option) list \<Rightarrow> u32 \<Rightarrow> 'b option" where
  "first_decoder [] opcode = None"
| "first_decoder (f # fs) opcode = (case f opcode of Some x \<Rightarrow> Some x | None \<Rightarrow> first_decoder fs opcode)"

definition decode32 :: "xw_cfg \<Rightarrow> (u32 \<Rightarrow> 'b option) list \<Rightarrow> u32 \<Rightarrow> ('a, 'b) decoded" where
  "decode32 ctx decoders opcode =
     (case (if cfg_xwchmcpy ctx then mcpy_fields ctx opcode else None) of
        Some f \<Rightarrow> Mcpy32 f
      | None \<Rightarrow> (case first_decoder decoders opcode of Some x \<Rightarrow> Std32 x | None \<Rightarrow> Illegal_insn))"

definition decode_opc ::
    "xw_cfg \<Rightarrow> (u16 \<Rightarrow> nat) \<Rightarrow> (u16 \<Rightarrow> 'a option) \<Rightarrow> (u32 \<Rightarrow> 'b option) list \<Rightarrow> (u32 \<Rightarrow> u8) \<Rightarrow> u32 \<Rightarrow>
     ('a, 'b) decoded \<times> nat" where
  "decode_opc ctx insn_len insn16 decoders code pc_next =
     (let aligned = (pc_next mod 4 = 0);
          opcode = (if aligned then code_ldl code pc_next else ucast (code_lduw code pc_next));
          len = insn_len (ucast opcode)
      in if len = 2 then (decode16 ctx insn16 (ucast opcode), len)
         else let opcode4 = (if aligned then opcode else deposit_high opcode (code_lduw code (pc_next + 2)))
              in (decode32 ctx decoders opcode4, len))"

section \<open>Translation blocks\<close>

datatype disas = DISAS_NEXT | DISAS_TOO_MANY | DISAS_NORETURN

definition translator_is_same_page :: "u32 \<Rightarrow> u32 \<Rightarrow> bool" where
  "translator_is_same_page pc_first addr \<longleftrightarrow> (addr XOR pc_first) AND NOT 0xFFF = 0"

text \<open>\<open>stops\<close>: the translated instruction ends the block; \<open>itrigger\<close>: an instruction-count trigger is armed.\<close>

definition riscv_tr_translate_insn ::
    "xw_cfg \<Rightarrow> (u16 \<Rightarrow> nat) \<Rightarrow> (u16 \<Rightarrow> 'a option) \<Rightarrow> (u32 \<Rightarrow> 'b option) list \<Rightarrow> (('a, 'b) decoded \<Rightarrow> bool) \<Rightarrow> bool \<Rightarrow>
     (u32 \<Rightarrow> u8) \<Rightarrow> u32 \<Rightarrow> u32 \<Rightarrow> ('a, 'b) decoded \<times> nat \<times> u32 \<times> disas" where
  "riscv_tr_translate_insn ctx insn_len insn16 decoders stops itrigger code pc_first pc_next =
     (case decode_opc ctx insn_len insn16 decoders code pc_next of (x, len) \<Rightarrow>
        let pc1 = pc_next + of_nat len in
        (x, len, pc1,
         if stops x then DISAS_NORETURN
         else if itrigger \<or> \<not> translator_is_same_page pc_first pc1 then DISAS_TOO_MANY
         else if 4096 - 4 < unat (pc1 AND 0xFFF) then
           (if translator_is_same_page pc_first (pc1 + of_nat (insn_len (code_lduw code pc1)) - 1)
            then DISAS_NEXT else DISAS_TOO_MANY)
         else DISAS_NEXT))"

text \<open>The block: the addresses and lengths of its instructions, \<open>n\<close> at most.\<close>

fun translate_block ::
    "xw_cfg \<Rightarrow> (u16 \<Rightarrow> nat) \<Rightarrow> (u16 \<Rightarrow> 'a option) \<Rightarrow> (u32 \<Rightarrow> 'b option) list \<Rightarrow> (('a, 'b) decoded \<Rightarrow> bool) \<Rightarrow> bool \<Rightarrow>
     (u32 \<Rightarrow> u8) \<Rightarrow> u32 \<Rightarrow> nat \<Rightarrow> u32 \<Rightarrow> (u32 \<times> nat) list" where
  "translate_block ctx insn_len insn16 decoders stops itrigger code pc_first 0 pc_next = []"
| "translate_block ctx insn_len insn16 decoders stops itrigger code pc_first (Suc n) pc_next =
     (case riscv_tr_translate_insn ctx insn_len insn16 decoders stops itrigger code pc_first pc_next of
        (x, len, pc1, j) \<Rightarrow>
          (pc_next, len) # (if j = DISAS_NEXT
                            then translate_block ctx insn_len insn16 decoders stops itrigger code pc_first n pc1 else []))"

section \<open>What a fetch sees\<close>

lemma low_half_ldl: "ucast (code_ldl code a) = code_lduw code a"
  by (rule bit_word_eqI) (auto simp: code_ldl_def bit_simps)

lemma low_half: "ucast (if pc mod 4 = 0 then code_ldl code pc else ucast (code_lduw code pc)) = code_lduw code pc"
  by (auto simp: low_half_ldl intro: bit_word_eqI simp: bit_simps)

lemma whole_word: "deposit_high (ucast (code_lduw code pc)) (code_lduw code (pc + 2)) = code_ldl code pc"
  by (rule bit_word_eqI) (auto simp: deposit_high_def code_ldl_def bit_simps dest: bit_imp_le_length)

text \<open>The result whatever the alignment.\<close>

lemma decode_opc_bytes:
  assumes "\<And>w. insn_len w = 2 \<or> insn_len w = 4"
  shows "decode_opc ctx insn_len insn16 decoders code pc =
     (if insn_len (code_lduw code pc) = 2 then (decode16 ctx insn16 (code_lduw code pc), 2)
      else (decode32 ctx decoders (code_ldl code pc), 4))"
proof -
  show ?thesis using assms[of "code_lduw code pc"]
    by (auto simp: decode_opc_def Let_def low_half low_half_ldl whole_word)
qed

text \<open>C28. An instruction is its bytes. Two places in memory that hold the same bytes, as many as the length says,
  decode to the same instruction of the same length, whether the places are aligned to four bytes (one
  fetch of the whole word) or not (one fetch per halfword), and whatever follows.\<close>

theorem decode_depends_on_bytes:
  assumes l: "\<And>w. insn_len w = 2 \<or> insn_len w = 4"
    and "\<And>k. k < snd (decode_opc ctx insn_len insn16 decoders code pc) \<Longrightarrow> code' (pc' + of_nat k) = code (pc + of_nat k)"
  shows "decode_opc ctx insn_len insn16 decoders code' pc' = decode_opc ctx insn_len insn16 decoders code pc"
proof -
  have len: "snd (decode_opc ctx insn_len insn16 decoders code pc) = insn_len (code_lduw code pc)"
    using l[of "code_lduw code pc"] by (auto simp: decode_opc_bytes[OF l])
  then have n: "2 \<le> snd (decode_opc ctx insn_len insn16 decoders code pc)" using l[of "code_lduw code pc"] by auto
  have "code' pc' = code pc" "code' (pc' + 1) = code (pc + 1)" using assms(2)[of 0] assms(2)[of 1] n by simp_all
  then have lo: "code_lduw code' pc' = code_lduw code pc" by (simp add: code_lduw_def)
  show ?thesis
  proof (cases "insn_len (code_lduw code pc) = 2")
    case True
    then show ?thesis using lo by (simp add: decode_opc_bytes[OF l])
  next
    case False
    then have "snd (decode_opc ctx insn_len insn16 decoders code pc) = 4" using len l[of "code_lduw code pc"] by auto
    then have "code' (pc' + 2) = code (pc + 2)" "code' (pc' + 3) = code (pc + 3)"
      using assms(2)[of 2] assms(2)[of 3] by simp_all
    then have "code_ldl code' pc' = code_ldl code pc"
      using lo by (simp add: code_ldl_def code_lduw_def add.assoc)
    then show ?thesis using lo by (simp add: decode_opc_bytes[OF l])
  qed
qed

text \<open>The encoding of the length in the instruction set.\<close>

definition length_bits :: "u16 \<Rightarrow> nat" where
  "length_bits first_word = (if first_word AND 3 = 3 then 4 else 2)"

lemma length_bits_cases: "length_bits w = 2 \<or> length_bits w = 4"
  by (simp add: length_bits_def)

theorem decode_depends_on_bytes_witness:
  "decode_opc xw_core length_bits (\<lambda>_. None :: unit option) [\<lambda>_. Some ()] (\<lambda>a. ucast (a - 2) + 0x13) 0x1002 =
   decode_opc xw_core length_bits (\<lambda>_. None :: unit option) [\<lambda>_. Some ()] (\<lambda>a. ucast a + 0x13) 0x1000"
  by (rule decode_depends_on_bytes[OF length_bits_cases]) simp

section \<open>What a block covers\<close>

lemma same_page_drop: "translator_is_same_page a b \<longleftrightarrow> drop_bit 12 a = drop_bit 12 b"
proof -
  have m: "(0xFFF :: u32) = mask 12" by (simp add: mask_eq_exp_minus_1)
  have "(b XOR a) AND NOT (mask 12) = 0 \<longleftrightarrow> (\<forall>n < 32. 12 \<le> n \<longrightarrow> bit a n = bit b n)"
    by (auto simp: bit_eq_iff bit_simps)
  also have "\<dots> \<longleftrightarrow> drop_bit 12 a = drop_bit 12 b"
  proof
    assume "\<forall>n < 32. 12 \<le> n \<longrightarrow> bit a n = bit b n"
    then have "bit a (12 + n) = bit b (12 + n)" for n
      by (cases "12 + n < 32") (auto dest: bit_imp_le_length)
    then show "drop_bit 12 a = drop_bit 12 b" by (intro bit_word_eqI) (simp add: bit_simps)
  next
    assume e: "drop_bit 12 a = drop_bit 12 b"
    show "\<forall>n < 32. 12 \<le> n \<longrightarrow> bit a n = bit b n"
    proof (intro allI impI)
      fix n :: nat assume "n < 32" "12 \<le> n"
      then show "bit a n = bit b n" using arg_cong[OF e, of "\<lambda>w. bit w (n - 12)"] by (simp add: bit_simps)
    qed
  qed
  finally show ?thesis by (simp add: translator_is_same_page_def m)
qed

lemma same_page_plus:
  fixes p :: u32
  assumes "unat (p AND 0xFFF) + k < 4096"
  shows "drop_bit 12 (p + of_nat k) = drop_bit 12 p"
proof -
  have m: "(0xFFF :: u32) = mask 12" by (simp add: mask_eq_exp_minus_1)
  have r: "unat (p AND 0xFFF) = unat p mod 4096"
    unfolding m take_bit_eq_mask[symmetric] unsigned_take_bit_eq by (simp add: take_bit_eq_mod)
  let ?q = "unat p div 4096"
  have p: "unat p = 4096 * ?q + unat p mod 4096" by simp
  have "unat p < 4294967296" using unsigned_less[of p, where 'a = nat] by simp
  then have "?q < 1048576" by (simp add: less_mult_imp_div_less)
  then have s: "unat p + k < 4294967296" using p assms r by linarith
  have "unat (p + of_nat k) = unat p + k"
    using s assms r by (simp add: unat_word_ariths unat_of_nat take_bit_nat_eq_self)
  moreover have "(4096 * q + x + k) div 4096 = q" if "x + k < 4096" for q x :: nat
    by (rule div_nat_eqI) (use that in auto)
  from this[of "unat p mod 4096" ?q] have "(unat p + k) div 4096 = ?q" using assms r p by simp
  moreover have "unat (drop_bit 12 w) = unat w div 4096" for w :: u32
    unfolding unat_drop_bit_eq by (simp add: drop_bit_eq_div)
  ultimately show ?thesis by (simp only: word_unat_eq_iff)
qed

lemma insn_last_on_page:
  assumes "insn_len w = 2 \<or> insn_len w = 4" "translator_is_same_page f p" "unat (p AND 0xFFF) \<le> 4092"
  shows "translator_is_same_page f (p + of_nat (insn_len w) - 1)"
proof -
  have "insn_len w - 1 \<le> 3" "1 \<le> insn_len w" using assms(1) by auto
  then have k: "unat (p AND 0xFFF) + (insn_len w - 1) < 4096" "(of_nat (insn_len w) - 1 :: u32) = of_nat (insn_len w - 1)"
    using assms(3) by (simp_all add: of_nat_diff)
  then show ?thesis using same_page_plus[OF k(1)] assms(2)
    by (simp add: same_page_drop add_diff_eq[symmetric] k(2))
qed

text \<open>Both ends of an instruction are on the page of the block.\<close>

definition insn_on_page :: "(u16 \<Rightarrow> nat) \<Rightarrow> (u32 \<Rightarrow> u8) \<Rightarrow> u32 \<Rightarrow> u32 \<Rightarrow> bool" where
  "insn_on_page insn_len code f p \<longleftrightarrow> translator_is_same_page f p \<and>
     translator_is_same_page f (p + of_nat (insn_len (code_lduw code p)) - 1)"

lemma next_on_page:
  assumes l: "\<And>w. insn_len w = 2 \<or> insn_len w = 4"
    and "riscv_tr_translate_insn ctx insn_len insn16 decoders stops itrigger code f p = (x, len, p1, DISAS_NEXT)"
  shows "insn_on_page insn_len code f p1"
proof -
  have s: "translator_is_same_page f p1"
    "4092 < unat (p1 AND 0xFFF) \<Longrightarrow> translator_is_same_page f (p1 + of_nat (insn_len (code_lduw code p1)) - 1)"
    using assms(2) by (auto simp: riscv_tr_translate_insn_def Let_def split: prod.splits if_splits)
  show ?thesis using s insn_last_on_page[of insn_len "code_lduw code p1" f p1] l[of "code_lduw code p1"]
    by (cases "4092 < unat (p1 AND 0xFFF)") (auto simp: insn_on_page_def)
qed

lemma translate_len:
  assumes l: "\<And>w. insn_len w = 2 \<or> insn_len w = 4"
    and "riscv_tr_translate_insn ctx insn_len insn16 decoders stops itrigger code f p = (x, len, p1, j)"
  shows "len = insn_len (code_lduw code p)"
  using assms(2) l[of "code_lduw code p"]
  by (auto simp: riscv_tr_translate_insn_def decode_opc_bytes[OF l] Let_def split: prod.splits if_splits)

lemma block_on_page:
  assumes l: "\<And>w. insn_len w = 2 \<or> insn_len w = 4"
    and "insn_on_page insn_len code f p" "(a, len) \<in> set (translate_block ctx insn_len insn16 decoders stops itrigger code f n p)"
  shows "translator_is_same_page f a \<and> translator_is_same_page f (a + of_nat len - 1)"
  using assms(2,3)
proof (induction n arbitrary: p)
  case (Suc n)
  obtain x k p1 j where t: "riscv_tr_translate_insn ctx insn_len insn16 decoders stops itrigger code f p = (x, k, p1, j)"
    by (rule prod_cases4)
  show ?case
  proof (cases "(a, len) = (p, k)")
    case True
    then show ?thesis using Suc.prems(1) translate_len[OF l t] by (simp add: insn_on_page_def)
  next
    case False
    then have j: "j = DISAS_NEXT" and m: "(a, len) \<in> set (translate_block ctx insn_len insn16 decoders stops itrigger code f n p1)"
      using Suc.prems(2) t by (auto split: if_splits)
    show ?thesis by (rule Suc.IH[OF next_on_page[OF l t[unfolded j]] m])
  qed
qed simp

text \<open>C27. A translation block covers one page. Of the instructions of a block, only the first may reach over the
  end of its page; every other one begins and ends on the page the block began on, whatever the code, the
  decoders and the limit on the length of the block.\<close>

theorem block_stays_on_page:
  assumes l: "\<And>w. insn_len w = 2 \<or> insn_len w = 4"
    and "(a, len) \<in> set (tl (translate_block ctx insn_len insn16 decoders stops itrigger code pc_first n pc_first))"
  shows "translator_is_same_page pc_first a \<and> translator_is_same_page pc_first (a + of_nat len - 1)"
proof (cases n)
  case (Suc m)
  obtain x k p1 j where t: "riscv_tr_translate_insn ctx insn_len insn16 decoders stops itrigger code pc_first pc_first = (x, k, p1, j)"
    by (rule prod_cases4)
  then have j: "j = DISAS_NEXT" and m: "(a, len) \<in> set (translate_block ctx insn_len insn16 decoders stops itrigger code pc_first m p1)"
    using assms(2) Suc by (auto split: if_splits)
  show ?thesis by (rule block_on_page[OF l next_on_page[OF l t[unfolded j]] m])
qed (use assms(2) in simp)

text \<open>A block of compressed instructions that begins three halfwords before the end of a page.\<close>

theorem block_stays_on_page_witness:
  "translator_is_same_page 0xFFA 0xFFE \<and>
   length (translate_block xw_core length_bits (\<lambda>_. Some ()) ([] :: (u32 \<Rightarrow> unit option) list) (\<lambda>_. False) False (\<lambda>_. 1) 0xFFA 9 0xFFA) = 3"
proof -
  let ?b = "translate_block xw_core length_bits (\<lambda>_. Some ()) ([] :: (u32 \<Rightarrow> unit option) list) (\<lambda>_. False) False (\<lambda>_. 1) 0xFFA 9 0xFFA"
  have b: "?b = [(0xFFA, 2), (0xFFC, 2), (0xFFE, 2)]" by code_simp
  then have m: "(0xFFE, 2) \<in> set (tl ?b)" by simp
  show ?thesis using block_stays_on_page[OF length_bits_cases m] b by simp
qed

end
