(* ===== verification/Ch32_Devices.thy ===== *)
theory Ch32_Devices
  imports Ch32_Machine
begin

text \<open>
  What the devices can do to the hart: every handler, timer and backend callback of the machine leaves all of
  \<open>CPURISCVState\<close> as it is but the pending and enable bits, the interrupt request and the owner of the
  external line. The remaining steps of the machine are those of the CPU itself.
\<close>

unbundle bit_operations_syntax

named_theorems rest_simps "device operations leave the hart alone"

definition hart_rest :: "machine \<Rightarrow> cpu_state" where
  "hart_rest m = (m_cpu m)\<lparr>mie := 0, mip := 0, irq_line := False, wch_evt_mcause_override := 0\<rparr>"

lemma rest_of_view:
  assumes "meip_view m = meip_view m'"
  shows "hart_rest m = hart_rest m'"
  using arg_cong[OF assms, of m_cpu] by (simp add: meip_view_def hart_rest_def)

section \<open>Primitive operations\<close>

lemma rest_frames [rest_simps]:
  "hart_rest (m_usart1_update u m) = hart_rest m" "hart_rest (m_lite_update l m) = hart_rest m"
  "hart_rest (m_tims_update t m) = hart_rest m" "hart_rest (m_dma_update d m) = hart_rest m"
  "hart_rest (m_eth10m_update e m) = hart_rest m" "hart_rest (m_eth_update h m) = hart_rest m"
  "hart_rest (m_stk_update s m) = hart_rest m" "hart_rest (stk_timer_update q m) = hart_rest m"
  "hart_rest (rcc_words_update w m) = hart_rest m" "hart_rest (clock_ns_update c m) = hart_rest m"
  "hart_rest (stk_epoch_ns_update c m) = hart_rest m" "hart_rest (stk_cnt_at_epoch_update c m) = hart_rest m"
  "hart_rest (bkp_datar_update bd m) = hart_rest m" "hart_rest (bkp_octlr_update bo m) = hart_rest m"
  "hart_rest (bkp_tpcsr_update bo m) = hart_rest m" "hart_rest (chr_out_update co m) = hart_rest m"
  "hart_rest (net_out_update no m) = hart_rest m" "hart_rest (m_ram_update mr m) = hart_rest m"
  "hart_rest (reset_requested_update rq m) = hart_rest m"
  "hart_rest (usbhs_reg_update ur m) = hart_rest m" "hart_rest (usbfs_reg_update ur m) = hart_rest m"
  "hart_rest (m_pfic_update p m) = hart_rest m"
  by (simp_all add: hart_rest_def)

lemma rest_ops [rest_simps]:
  "hart_rest (meip_lower m) = hart_rest m" "hart_rest (meip_disable m) = hart_rest m"
  "hart_rest (cpu_irq m) = hart_rest m" "hart_rest (meip_claim n m) = hart_rest m"
  "hart_rest (meip_release n m) = hart_rest m" "hart_rest (ch32_stk_clear_mtip m) = hart_rest m"
  "hart_rest (ch32_stk_mtie_ensure m) = hart_rest m" "hart_rest (ch32_pfic_irq_active_set n m) = hart_rest m"
  "hart_rest (ch32_pfic_irq_active_clear n m) = hart_rest m"
  "hart_rest (env_upd (riscv_cpu_update_mip a b) m) = hart_rest m"
  "hart_rest (env_upd (\<lambda>e. e\<lparr>mie := f e\<rparr>) m) = hart_rest m"
  "hart_rest (env_upd (\<lambda>e. e\<lparr>wch_evt_mcause_override := n'\<rparr>) m) = hart_rest m"
  "hart_rest (env_upd (riscv_cpu_update_mip a b \<circ> (\<lambda>e. e\<lparr>mie := f e\<rparr>)) m) = hart_rest m"
  "hart_rest (env_upd (riscv_cpu_update_mip a b \<circ> (\<lambda>e. e\<lparr>mie := f e, wch_evt_mcause_override := n'\<rparr>)) m) = hart_rest m"
  by (rule rest_of_view, simp add: frame_simps ch32_stk_clear_mtip_def ch32_stk_mtie_ensure_def view_env update_mip_view)+

lemma rest_dma_upd [rest_simps]: "hart_rest (dma_upd ref f m) = hart_rest m"
  by (cases ref) (simp_all add: rest_simps)

lemma rest_if [rest_simps]:
  "hart_rest (if c then a else b) = (if c then hart_rest a else hart_rest b)"
  "hart_rest (snd (if c then p else q)) = (if c then hart_rest (snd p) else hart_rest (snd q))"
  by simp_all

lemma rest_fold:
  assumes "\<And>i m. i \<in> set is \<Longrightarrow> hart_rest (f i m) = hart_rest m"
  shows "hart_rest (fold f is m) = hart_rest m"
  using assms by (induction "is" arbitrary: m) auto

section \<open>The interrupt network\<close>

lemma rest_unit: "(N, D) \<in> set pfic_units \<Longrightarrow> hart_rest (D rescan m) = hart_rest m"
  by (rule rest_of_view[OF meip_unit.frame[OF net.units pending_view]])

lemma rest_resync [rest_simps]:
  "hart_rest (ch32_pfic_sw_irq_miesync m) = hart_rest m" "hart_rest (ch32_stk_schedule m) = hart_rest m"
  "hart_rest (ch32_usart1_meip_resync rescan m) = hart_rest m" "hart_rest (ch32_eth_10m_meip_resync rescan m) = hart_rest m"
  "hart_rest (ch32_eth_meip_resync rescan m) = hart_rest m" "hart_rest (ch32_usbhost_meip_resync rescan m) = hart_rest m"
  "hart_rest (ch32_usbfs_host_meip_resync rescan m) = hart_rest m" "hart_rest (rescan m) = hart_rest m"
  by (rule rest_unit[of "of_nat CH32_PFIC_SW_IRQ_BIT" "\<lambda>r. ch32_pfic_sw_irq_miesync"]
      rest_unit[of "of_nat CH32_SYSTICK_NVIC_BIT" "\<lambda>r. ch32_stk_schedule"]
      rest_unit[of "of_nat CH32_USART1_NVIC_IRQ" ch32_usart1_meip_resync]
      rest_unit[of "of_nat CH32_ETH_10M_IRQ_N" ch32_eth_10m_meip_resync]
      rest_unit[of "of_nat CH32_ETH_IRQ_N" ch32_eth_meip_resync]
      rest_unit[of "of_nat CH32_USBHS_NVIC_IRQ" ch32_usbhost_meip_resync]
      rest_unit[of "of_nat CH32_USBFS_NVIC_IRQ" ch32_usbfs_host_meip_resync]
      rest_of_view[OF pending_view], (simp add: pfic_units_def; fail)?)+

lemma rest_run: "set us \<subseteq> set pfic_units \<Longrightarrow> hart_rest (run_units us rescan m) = hart_rest m"
  by (induction us arbitrary: m) (auto simp: rest_unit)

lemma rest_groups [rest_simps]:
  "hart_rest (ch32_usart_lite_meip_resync rescan m) = hart_rest m"
  "hart_rest (ch32_tim_meip_resync_all rescan m) = hart_rest m" "hart_rest (ch32_dma_meip_resync rescan m) = hart_rest m"
  using rest_run[of lite_units m] rest_run[of tim_units m] rest_run[of dma_units m]
  by (simp_all add: run_lite_units run_tim_units run_dma_units) (auto simp: pfic_units_def)

lemma rest_one [rest_simps]:
  "i < 6 \<Longrightarrow> hart_rest (ch32_tim_meip_update i (ch32_tim_irqn ! i) rescan m) = hart_rest m"
  "i < 7 \<Longrightarrow> hart_rest (usart_lite_meip_one i (lite_irq ! i) rescan m) = hart_rest m"
  by (rule rest_unit[of "of_nat (ch32_tim_irqn ! i)"], force simp: pfic_units_def tim_units_def)
    (rule rest_unit[of "of_nat (lite_irq ! i)"], force simp: pfic_units_def lite_units_def)

section \<open>Clocks, SysTick and timers\<close>

lemma rest_sw_pending [rest_simps]: "hart_rest (ch32_pfic_sw_irq_set_pending m) = hart_rest m"
  by (simp add: ch32_pfic_sw_irq_set_pending_def rest_simps)

lemma rest_set_cnt [rest_simps]: "hart_rest (ch32_stk_set_cnt c m) = hart_rest m"
  by (simp add: ch32_stk_set_cnt_def rest_simps)

lemma rest_stk [rest_simps]:
  "hart_rest (ch32_stk_tick m) = hart_rest m" "hart_rest (ch32_stk_write a v sz m) = hart_rest m"
  "hart_rest (ch32_stk_rcc_clock_changed m) = hart_rest m"
  by (simp_all add: ch32_stk_tick_def ch32_stk_write_def ch32_stk_rcc_clock_changed_def Let_def rest_simps
      cong: if_cong split del: if_split)

lemma rest_tim_schedule [rest_simps]: "hart_rest (ch32_tim_schedule i m) = hart_rest m"
  by (simp add: ch32_tim_schedule_def rest_simps)

lemma rest_tim_clock [rest_simps]: "hart_rest (ch32_tim_rcc_clock_changed m) = hart_rest m"
  unfolding ch32_tim_rcc_clock_changed_def
  by (rule rest_fold) (auto simp: tim_clock_changed_one_def Let_def rest_simps)

lemma rest_rcc [rest_simps]:
  "hart_rest (ch32_bkp_reset m) = hart_rest m" "hart_rest (ch32_bkp_write a v sz m) = hart_rest m"
  "hart_rest (ch32_rcc_write a v sz m) = hart_rest m"
  by (simp_all add: ch32_bkp_reset_def ch32_bkp_write_def ch32_rcc_write_def Let_def rest_simps cong: if_cong
      split del: if_split split: option.splits)

lemma rest_tim [rest_simps]:
  "i < 6 \<Longrightarrow> hart_rest (ch32_tim_tick i rescan m) = hart_rest m"
  "i < 6 \<Longrightarrow> hart_rest (ch32_tim_write i rescan a v sz m) = hart_rest m"
  by (simp_all add: ch32_tim_tick_def ch32_tim_write_def tim_write_reg_def Let_def rest_simps cong: if_cong
      split del: if_split split: option.split)

section \<open>DMA and the address space\<close>

text \<open>An access of the DMA engine ends in RAM or in one of the handlers of this theory.\<close>

definition host_rest :: "host \<Rightarrow> bool" where
  "host_rest h \<longleftrightarrow>
     (\<forall>a n m. hart_rest (snd (h_asr h a n m)) = hart_rest m) \<and>
     (\<forall>a bs m. hart_rest (snd (h_asw h a bs m)) = hart_rest m) \<and>
     (\<forall>a bs m. hart_rest (h_pwrite h a bs m) = hart_rest m) \<and> (\<forall>m. hart_rest (h_flush h m) = hart_rest m)"

lemma host_restD [rest_simps]:
  assumes "host_rest h"
  shows "hart_rest (snd (h_asr h a n m)) = hart_rest m" "hart_rest (snd (h_asw h a bs m)) = hart_rest m"
    "hart_rest (h_pwrite h b bs m) = hart_rest m" "hart_rest (h_flush h m) = hart_rest m"
  using assms by (auto simp: host_rest_def)

lemma rest_dma_copy [rest_simps]:
  assumes h: "host_rest h"
  shows "hart_rest (snd (dma_copy (h_asr h) (h_asw h) sinc dinc ssz dsz n src dst m)) = hart_rest m"
proof (induction n arbitrary: src dst m)
  case (Suc n)
  obtain ob m1 where 1: "h_asr h src ssz m = (ob, m1)" by fastforce
  have m1: "hart_rest m1 = hart_rest m" using host_restD(1)[OF h, of src ssz m] 1 by simp
  show ?case
  proof (cases ob)
    case (Some bs)
    obtain b m2 where 2: "h_asw h dst (dma_convert dsz bs) m1 = (b, m2)" by fastforce
    have "hart_rest m2 = hart_rest m1" using host_restD(2)[OF h, of dst "dma_convert dsz bs" m1] 2 by simp
    then show ?thesis using Suc.IH 1 2 Some m1 by (cases b) auto
  qed (use 1 m1 in simp)
qed simp

lemma rest_fire [rest_simps]: "hart_rest (ch32_dma_fire_irq n m) = hart_rest m"
  by (simp add: ch32_dma_fire_irq_def rest_simps cong: if_cong split del: if_split)

lemma rest_dma_exec [rest_simps]:
  "host_rest h \<Longrightarrow> hart_rest (ch32_dma_exec (h_asr h) (h_asw h) q m) = hart_rest m"
  by (cases q) (simp add: ch32_dma_exec_def Let_def split_beta rest_simps cong: if_cong split del: if_split)

lemma rest_intfcr [rest_simps]: "hart_rest (dma_intfcr_write k v m) = hart_rest m"
  by (auto simp: dma_intfcr_write_def Let_def rest_simps split: option.splits)

lemma rest_dma_write [rest_simps]:
  "host_rest h \<Longrightarrow> hart_rest (ch32_dma_write (h_asr h) (h_asw h) a v m) = hart_rest m"
  by (simp add: ch32_dma_write_def Let_def rest_simps split_beta cong: if_cong split del: if_split split: option.split)

section \<open>Serial ports\<close>

lemma rest_dma_byte [rest_simps]:
  "host_rest h \<Longrightarrow> hart_rest (ch32_dma_write_byte (h_asw h) ref b m) = hart_rest m"
  "hart_rest (ch32_dma_finish_channel ref k c n m) = hart_rest m"
  by (simp_all add: ch32_dma_write_byte_def ch32_dma_finish_channel_def Let_def rest_simps cong: if_cong split del: if_split)

lemma rest_rx_pump [rest_simps]: "host_rest h \<Longrightarrow> hart_rest (ch32_usart1_dma_rx_pump (h_asw h) m) = hart_rest m"
  by (simp add: ch32_usart1_dma_rx_pump_def Let_def rest_simps cong: if_cong split del: if_split)

lemma rest_usart1 [rest_simps]:
  "host_rest h \<Longrightarrow> hart_rest (ch32_usart1_rx_tick rescan (h_asw h) m) = hart_rest m"
  "hart_rest (ch32_usart1_receive bs m) = hart_rest m"
  "hart_rest (snd (ch32_usart1_read rescan a sz m)) = hart_rest m"
  "hart_rest (ch32_usart1_write rescan a v m) = hart_rest m" "hart_rest (ch32_usart1_reset m) = hart_rest m"
  by (simp_all add: ch32_usart1_rx_tick_def ch32_usart1_receive_def ch32_usart1_read_def ch32_usart1_write_def
      ch32_usart1_reset_def Let_def split_beta rest_simps cong: if_cong split del: if_split)

lemma rest_drain_loop:
  assumes "tx_drain_loop cw ch m = Some y"
  shows "hart_rest (snd (snd y)) = hart_rest m"
  by (rule tx_drain_loop.raw_induct[OF _ assms, of "\<lambda>cw ch m y. hart_rest (snd (snd y)) = hart_rest m"])
    (fastforce simp: Let_def rest_simps split: if_splits)

lemma rest_tx_drain:
  assumes "ch32_usart1_tx_drain rescan cw m = Some m'"
  shows "hart_rest m' = hart_rest m"
proof -
  obtain c s m1 where d: "tx_drain_loop cw False m = Some (c, s, m1)"
    using assms(1) by (auto simp: ch32_usart1_tx_drain_def split: option.splits)
  then show ?thesis using assms(1) rest_drain_loop[OF d]
    by (auto simp: ch32_usart1_tx_drain_def Let_def rest_simps split: if_splits)
qed

lemma rest_lite_pump [rest_simps]:
  "hart_rest (ch32_usart_lite_dma_rx_finish ref c m) = hart_rest m"
  "host_rest h \<Longrightarrow> hart_rest (ch32_usart_lite_dma_rx_pump (h_asw h) i c m) = hart_rest m"
  by (simp_all add: ch32_usart_lite_dma_rx_finish_def ch32_usart_lite_dma_rx_pump_def Let_def split_beta rest_simps
      cong: if_cong split del: if_split split: option.split)

lemma rest_lite [rest_simps]:
  "i < 7 \<Longrightarrow> hart_rest (ch32_usart_lite_push_rx_byte rescan i b m) = hart_rest m"
  "hart_rest (snd (ch32_usart_lite_read rescan i a sz m)) = hart_rest m"
  "i < 7 \<Longrightarrow> host_rest h \<Longrightarrow> hart_rest (ch32_usart_lite_write rescan (h_asw h) i a v m) = hart_rest m"
  by (simp_all add: ch32_usart_lite_push_rx_byte_def ch32_usart_lite_read_def ch32_usart_lite_write_def Let_def
      split_beta rest_simps cong: if_cong split del: if_split)

section \<open>Ethernet and USB\<close>

lemma rest_e10 [rest_simps]:
  "hart_rest (eth_10m_raise_eir rescan b m) = hart_rest m" "hart_rest (eth_10m_update_irq rescan m) = hart_rest m"
  "hart_rest (eth_10m_link_timer_cb rescan m) = hart_rest m" "hart_rest (eth_10m_phy_write k w m) = hart_rest m"
  by (simp_all add: eth_10m_raise_eir_def eth_10m_update_irq_def eth_10m_link_timer_cb_def eth_10m_phy_write_def Let_def
      rest_simps cong: if_cong split del: if_split)

lemma rest_e10_tx [rest_simps]: "hart_rest (eth_10m_do_tx rescan pr sz m) = hart_rest m"
  by (simp add: eth_10m_do_tx_def Let_def rest_simps cong: if_cong split del: if_split)

lemma rest_e10_receive [rest_simps]:
  "host_rest h \<Longrightarrow> hart_rest (snd (eth_10m_receive rescan (h_pwrite h) sz bs m)) = hart_rest m"
  by (simp add: eth_10m_receive_def Let_def rest_simps cong: if_cong split del: if_split)

lemma rest_e10_byte [rest_simps]:
  "host_rest h \<Longrightarrow> hart_rest (e10_write_byte rescan (h_pread h) sz (h_flush h) off b m) = hart_rest m"
  by (simp add: e10_write_byte_def Let_def rest_simps cong: if_cong split del: if_split)

lemma rest_e10_bytes [rest_simps]:
  "host_rest h \<Longrightarrow>
     hart_rest (fold (\<lambda>i. e10_write_byte rescan (h_pread h) sz (h_flush h) (a + i) (f i)) is m) = hart_rest m"
  by (rule rest_fold) (simp add: rest_simps)

lemma rest_e10_write [rest_simps]:
  "host_rest h \<Longrightarrow>
     hart_rest (eth_10m_mmio_write rescan (h_pread h) (h_pwrite h) (h_sram h) (h_flush h) a v sz m) = hart_rest m"
  by (simp add: eth_10m_mmio_write_def Let_def rest_simps cong: if_cong split del: if_split)

lemma rest_eth_raise [rest_simps]: "hart_rest (ch32_eth_dmasr_raise rescan b m) = hart_rest m"
  by (simp add: ch32_eth_dmasr_raise_def ch32_eth_update_irq_def rest_simps)

section \<open>PFIC\<close>

lemma rest_pfic_views [rest_simps]:
  "hart_rest (ch32_pfic_resync_changed wd c m) = hart_rest m"
  "hart_rest (ch32_pfic_inject_meip_for_irq wd en m) = hart_rest m"
  "hart_rest (ch32_pfic_resync_software_pending m) = hart_rest m"
  by (rule rest_of_view, rule changed_view inject_view software_resync_view)+

lemma rest_pfic_writes [rest_simps]:
  "hart_rest (pfic_ipsr_write idx v m) = hart_rest m" "hart_rest (pfic_iprr_write idx v m) = hart_rest m"
  "hart_rest (pfic_ienr_write idx f m) = hart_rest m"
  by (simp_all add: pfic_ipsr_write_def pfic_iprr_write_def pfic_ienr_write_def Let_def rest_simps cong: if_cong
      split del: if_split)

lemma rest_pfic_write [rest_simps]: "hart_rest (ch32_pfic_write a v sz m) = hart_rest m"
  by (simp add: ch32_pfic_write_def Let_def rest_simps cong: if_cong split del: if_split)

section \<open>The steps of the machine\<close>

text \<open>A step of the machine leaves the rest of the hart alone, or it is one of the four of the CPU.\<close>

lemma device_step_rest:
  assumes "ch32_step h m m'" "host_rest h"
  shows "hart_rest m' = hart_rest m \<or>
    m' = env_upd (\<lambda>e. snd (riscv_cpu_exec_interrupt (h_ldl h) (irq_line e) e)) m \<or>
    (\<exists>c t. m' = env_upd (riscv_cpu_do_interrupt (h_ldl h) False c t) m) \<or>
    m' = snd (helper_mret (Some ch32_pfic_on_mret) (h_xepc_mask h) m) \<or> (\<exists>e. m' = m\<lparr>m_cpu := e\<rparr>)"
  using assms
proof (induction rule: ch32_step.induct)
  case (usart1_tx_drain m m')
  then show ?case using rest_tx_drain by blast
next
  case (cpu_exception c t m)
  then show ?case by blast
next
  case (cpu_insn e m)
  then show ?case by blast
qed (simp_all add: rest_simps)

end
