(* ===== verification/Ch32_User.thy ===== *)
theory Ch32_User
  imports Ch32_Csr Ch32_Mem Ch32_Devices
begin

text \<open>
  What a user-mode program can do to a QingKe core before it traps: the step relation of its instructions
  on the registers of the hart, with the devices at work beside it, and what the trap that ends it finds.
  The CSR instructions and \<open>mret\<close> are the model's own (\<open>Ch32_Csr\<close>, \<open>Ch32_Cpu\<close>); an instruction that works on
  registers and memory can change the general registers, \<open>pc\<close>, the reservation and, with the floating-point
  unit on, its flags; devices change the interrupt lines, their owner and, some of them, \<open>mie\<close> (\<open>device_step_is_lines\<close>).
\<close>

unbundle bit_operations_syntax

section \<open>Steps of a user program\<close>

inductive user_step :: "csr_host \<Rightarrow> csr_env \<Rightarrow> csr_env \<Rightarrow> bool" for h where
  insn: "user_step h env (env\<lparr>core := (core env)\<lparr>gpr := g, pc := p, load_res := l\<rparr>\<rparr>)"
| fp_insn: "riscv_cpu_fp_enabled env \<Longrightarrow> user_step h env ((fp_dirty env)\<lparr>fp_status := f\<rparr>)"
| csr_insn: "riscv_csrrw (csr_ops h) env n want v wm = Inr (old, env') \<Longrightarrow> user_step h env env'"
| csr_read: "riscv_csrr (csr_ops h) env n = Inr (old, env') \<Longrightarrow> user_step h env env'"
| mret: "m_cpu m = hart_core env \<Longrightarrow> helper_mret (Some ch32_pfic_on_mret) msk m = (r, m') \<Longrightarrow>
    user_step h env (env\<lparr>core := m_cpu m'\<rparr>)"
| lines: "user_step h env (env\<lparr>core := (core env)\<lparr>mip := a, mie := b, irq_line := i, wch_evt_mcause_override := n\<rparr>,
    external_seip := x\<rparr>)"

inductive_cases user_stepE: "user_step h env env'"

text \<open>A step of a device of the machine is a step of the last kind (\<open>Ch32_Devices\<close>).\<close>

lemma device_step_is_lines:
  assumes "hart_rest m' = hart_rest m" "m_cpu m = hart_core env"
  shows "\<exists>env'. user_step h env env' \<and> hart_core env' = m_cpu m'"
proof -
  let ?c = "m_cpu m'"
  let ?env = "env\<lparr>core := (core env)\<lparr>mip := mip ?c, mie := mie ?c, irq_line := irq_line ?c,
    wch_evt_mcause_override := wch_evt_mcause_override ?c\<rparr>, external_seip := external_seip env\<rparr>"
  have "hart_core ?env = ?c"
    using assms by (cases ?c; cases "core env") (simp add: hart_rest_def hart_core_def)
  then show ?thesis using user_step.lines by metis
qed

section \<open>What stays\<close>

text \<open>The hart without what a user program or a device can change. Of the status word only writable bits
  change; the depth of the register bank and the nesting count can fall, through \<open>mret\<close>.\<close>

definition core_view :: "cpu_state \<Rightarrow> cpu_state" where
  "core_view c = c\<lparr>gpr := [], pc := 0, load_res := 0, mip := 0, mie := 0, irq_line := False,
     wch_evt_mcause_override := 0, wch_hpe_depth := 0, wch_vtf_in_isr := 0, wch_hpe_sw_handler_skip := False,
     wch_intsyscr := 0, mstatus := mstatus_of 0\<rparr>"

definition user_view :: "csr_env \<Rightarrow> csr_env" where
  "user_view env = env\<lparr>core := core_view (core env), mstatus_word := 0, external_seip := False, frm := 0, fp_status := 0\<rparr>"

definition core_frame :: "cpu_state \<Rightarrow> cpu_state \<Rightarrow> bool" where
  "core_frame c c' \<longleftrightarrow> core_view c' = core_view c \<and>
     wch_hpe_depth c' \<le> wch_hpe_depth c \<and> wch_vtf_in_isr c' \<le> wch_vtf_in_isr c"

definition user_frame :: "csr_env \<Rightarrow> csr_env \<Rightarrow> bool" where
  "user_frame env env' \<longleftrightarrow> user_view env' = user_view env \<and> core_frame (core env) (core env') \<and>
     (mstatus_word env' XOR mstatus_word env) AND NOT (mstatus_write_mask env) = 0"

lemma core_view_fields:
  assumes "core_view c' = core_view c"
  shows "cfg c' = cfg c" "priv c' = priv c" "mtvec c' = mtvec c" "mideleg c' = mideleg c" "medeleg c' = medeleg c"
    "mvien c' = mvien c"
  using arg_cong[OF assms, of cfg] arg_cong[OF assms, of priv] arg_cong[OF assms, of mtvec]
    arg_cong[OF assms, of mideleg] arg_cong[OF assms, of medeleg] arg_cong[OF assms, of mvien]
  by (simp_all add: core_view_def)

lemma user_view_fields:
  assumes "user_view env' = user_view env"
  shows "ccfg env' = ccfg env" "debugger env' = debugger env"
  using arg_cong[OF assms, of ccfg] arg_cong[OF assms, of debugger] by (simp_all add: user_view_def)

lemma frame_refl: "core_frame c c" "user_frame env env"
  by (simp_all add: user_frame_def core_frame_def)

lemma write_mask_cong:
  "ccfg env' = ccfg env \<Longrightarrow> mstatus_write_mask env' = mstatus_write_mask env"
  by (simp add: mstatus_write_mask_def riscv_has_ext_def)

lemma core_frame_trans: "core_frame a b \<Longrightarrow> core_frame b c \<Longrightarrow> core_frame a c"
  unfolding core_frame_def by (auto intro: order.trans)

lemma xor_outside: "(x XOR y) AND NOT k = 0 \<longleftrightarrow> (\<forall>i. \<not> bit k i \<longrightarrow> bit x i = bit y i)" for x :: u64
proof -
  have z: "w = 0 \<longleftrightarrow> (\<forall>i. \<not> bit w i)" for w :: u64 by (auto intro: bit_word_eqI)
  have "bit ((x XOR y) AND NOT k) i \<longleftrightarrow> bit x i \<noteq> bit y i \<and> \<not> bit k i" for i
    by (auto simp: bit_simps dest: bit_imp_le_length)
  then show ?thesis by (auto simp: z)
qed

lemma user_frame_trans:
  assumes "user_frame a b" "user_frame b c"
  shows "user_frame a c"
proof -
  have "mstatus_write_mask b = mstatus_write_mask a"
    using assms(1) by (intro write_mask_cong user_view_fields(1)) (simp add: user_frame_def)
  then have "(mstatus_word c XOR mstatus_word a) AND NOT (mstatus_write_mask a) = 0"
    using assms unfolding user_frame_def xor_outside by metis
  moreover have "core_frame (core a) (core c)" "user_view c = user_view a"
    using assms core_frame_trans[of "core a" "core b" "core c"] unfolding user_frame_def by simp_all
  ultimately show ?thesis by (simp add: user_frame_def)
qed

section \<open>Each instruction keeps it\<close>

lemma bit_fs: "bit MSTATUS_FS k \<longleftrightarrow> k = 13 \<or> k = 14"
proof -
  have "MSTATUS_FS = push_bit 13 (mask 2)" by (simp add: MSTATUS_FS_def mask_eq_exp_minus_1 push_bit_eq_mult)
  show ?thesis unfolding \<open>MSTATUS_FS = push_bit 13 (mask 2)\<close> by (auto simp: bit_simps)
qed

lemma fp_dirty_frame:
  "user_frame env ((fp_dirty env)\<lparr>frm := r, fp_status := f\<rparr>)" "user_frame env ((fp_dirty env)\<lparr>fp_status := f\<rparr>)"
proof -
  have "bit (mstatus_word env OR MSTATUS_FS) i = bit (mstatus_word env) i"
    if "riscv_has_ext env RVF" "\<not> bit (mstatus_write_mask env) i" for i
    using that by (auto simp: bit_or_iff bit_write_mask bit_fs)
  then show "user_frame env ((fp_dirty env)\<lparr>frm := r, fp_status := f\<rparr>)" "user_frame env ((fp_dirty env)\<lparr>fp_status := f\<rparr>)"
    by (simp_all add: user_frame_def user_view_def fp_dirty_def frame_refl xor_outside)
qed

lemma merge_outside: "\<not> bit K i \<Longrightarrow> bit ((m AND NOT K) OR (v AND K)) i = bit m i" for m K v :: u64
  using bit_imp_le_length[of m i] by (auto simp: bit_or_iff bit_and_iff bit_not_iff)

lemma write_mstatus_frame: "write_mstatus env n v = Inr env' \<Longrightarrow> user_frame env env'"
  by (auto simp: write_mstatus_def Let_def user_frame_def user_view_def frame_refl xor_outside merge_outside)

lemma csrrw_written:
  assumes "riscv_csrrw_do64 t env n want v wm = Inr (old, env')" "op_f (t n) = None"
  shows "env' = env \<or> (\<exists>f x. write_f (t n) = Some f \<and> f env n x = Inr env')"
  using assms by (auto simp: riscv_csrrw_do64_def Let_def split: option.splits sum.splits if_splits)

lemma user_csr_frame:
  assumes "priv (core env) = PRV_U" "\<not> debugger env" "riscv_csrrw (csr_ops h) env n want v wm = Inr (old, env')"
  shows "user_frame env env'"
proof -
  have c: "n = 0x800 \<or> n = 0x804 \<or> n \<in> {1, 2, 3}" and d: "riscv_csrrw_do64 (csr_ops h) env n want v wm = Inr (old, env')"
    using user_check[of h env n True] assms by (auto simp: csrrw_checked)
  have "op_f (csr_ops h n) = None" using c by (auto simp: csr_op_f)
  then consider "env' = env" | f x where "write_f (csr_ops h n) = Some f" "f env n x = Inr env'"
    using csrrw_written[OF d] by blast
  then show ?thesis
  proof cases
    case (2 f x)
    from c show ?thesis
    proof (elim disjE)
      assume "n = 0x800"
      then show ?thesis using 2 write_mstatus_frame by (simp add: no_ops_def)
    next
      assume "n = 0x804"
      then have "env' = env\<lparr>core := (core env)\<lparr>wch_intsyscr := x AND 0x1F\<rparr>\<rparr>"
        using 2 by (auto simp: no_ops_def write_wch_intsyscr_csr_def write_wch_intsyscr_def)
      then show ?thesis by (simp add: user_frame_def user_view_def core_frame_def core_view_def)
    next
      assume "n \<in> {1, 2, 3}"
      then have "f \<in> {write_fflags h, write_frm, write_fcsr h}" using 2(1) fp_rows(3)[of n h] by auto
      from fp_write[OF this 2(2)] show ?thesis using fp_dirty_frame(1) by metis
    qed
  qed (simp add: frame_refl)
qed

lemma user_csrr_same:
  assumes "priv (core env) = PRV_U" "\<not> debugger env" "riscv_csrr (csr_ops h) env n = Inr (old, env')"
  shows "env' = env"
proof -
  have "n = 0x800 \<or> n = 0x804 \<or> n \<in> {1, 2, 3} \<or> csr_read_only n"
    using user_check[of h env n False] assms by (auto simp: csrrw_checked)
  then have "op_f (csr_ops h n) = None" by (auto simp: csr_op_f csr_read_only_def)
  then show ?thesis
    using assms(3) by (auto simp: csrrw_checked riscv_csrrw_do64_def split: option.splits sum.splits)
qed

text \<open>\<open>mret\<close> raises its exception in user mode, with the bank popped and the level left before.\<close>

lemma pop_core_frame: "core_frame e (wch_qingke_hpe_mret_pop e)"
  by (simp add: wch_qingke_hpe_mret_pop_def core_frame_def core_view_def Let_def word_le_nat_alt unat_minus_one)

lemma exit_core_frame: "core_frame e (wch_vtf_exit e)"
proof -
  have "0 < w \<Longrightarrow> w - 1 \<le> w" for w :: u32 by (simp add: word_le_nat_alt unat_minus_one word_gt_0)
  then show ?thesis by (simp add: wch_vtf_exit_def core_frame_def core_view_def)
qed

lemma view_core_frame:
  assumes "meip_view m = meip_view m'"
  shows "core_frame (m_cpu m') (m_cpu m)"
  using arg_cong[OF assms, of "\<lambda>m. core_view (m_cpu m)"] arg_cong[OF assms, of "\<lambda>m. wch_hpe_depth (m_cpu m)"]
    arg_cong[OF assms, of "\<lambda>m. wch_vtf_in_isr (m_cpu m)"]
  by (simp add: meip_view_def core_frame_def core_view_def)

lemma mret_core_frame: "core_frame (m_cpu m) (m_cpu (mret_wch (Some ch32_pfic_on_mret) m))"
proof -
  let ?m1 = "env_upd wch_qingke_hpe_mret_pop m" and ?m2 = "env_upd wch_vtf_exit (env_upd wch_qingke_hpe_mret_pop m)"
  have a: "core_frame (m_cpu m) (m_cpu ?m1)" by (simp add: pop_core_frame)
  have b: "core_frame (m_cpu m) (m_cpu ?m2)" by (simp add: core_frame_trans[OF pop_core_frame exit_core_frame])
  have "core_frame (m_cpu m) (m_cpu (ch32_pfic_on_mret n ?m2))" for n
    using core_frame_trans[OF b] view_core_frame[OF on_mret_view] by blast
  then show ?thesis using a b by (simp add: mret_wch_def Let_def)
qed

lemma user_mret_frame:
  assumes "m_cpu m = hart_core env" "priv (core env) = PRV_U" "helper_mret (Some ch32_pfic_on_mret) msk m = (r, m')"
  shows "user_frame env (env\<lparr>core := m_cpu m'\<rparr>)"
proof -
  have f: "core_frame (hart_core env) (m_cpu (mret_wch (Some ch32_pfic_on_mret) m))"
    using mret_core_frame[of m] assms(1) by simp
  then have "priv (m_cpu (mret_wch (Some ch32_pfic_on_mret) m)) = PRV_U"
    using assms(2) core_view_fields(2)[of "m_cpu (mret_wch (Some ch32_pfic_on_mret) m)" "hart_core env"]
    by (simp add: core_frame_def hart_core_def)
  then have "m' = mret_wch (Some ch32_pfic_on_mret) m"
    using assms(3) by (simp add: helper_mret_def Let_def check_ret_from_m_mode_def prv_defs)
  then show ?thesis using f by (simp add: user_frame_def user_view_def core_frame_def hart_core_def core_view_def)
qed

lemma user_step_frame:
  assumes "user_step h env env'" "priv (core env) = PRV_U" "\<not> debugger env"
  shows "user_frame env env'"
  using assms
proof (cases rule: user_step.cases)
  case (fp_insn f)
  then show ?thesis using fp_dirty_frame(2) by simp
next
  case (csr_insn n want v wm old)
  then show ?thesis using user_csr_frame assms(2,3) by blast
next
  case (csr_read n old)
  then show ?thesis using user_csrr_same assms(2,3) frame_refl(2) by blast
next
  case (mret m msk r m')
  then show ?thesis using user_mret_frame assms(2) by blast
qed (simp_all add: user_frame_def user_view_def core_frame_def core_view_def)

lemma user_steps_frame:
  assumes "(user_step h)\<^sup>*\<^sup>* env env'" "priv (core env) = PRV_U" "\<not> debugger env"
  shows "user_frame env env'"
  using assms(1)
proof (induction rule: rtranclp_induct)
  case (step y z)
  have "priv (core y) = PRV_U" "\<not> debugger y"
    using step.IH assms(2,3) core_view_fields(2)[of "core y" "core env"] user_view_fields(2)[of y env]
    by (simp_all add: user_frame_def core_frame_def)
  then show ?case using user_frame_trans[OF step.IH] user_step_frame[OF step.hyps(2)] by blast
qed (rule frame_refl)

section \<open>The way out\<close>

text \<open>The handler a trap enters, from the vector register and the owner of the line.\<close>

definition trap_target :: "(u64 \<Rightarrow> u32 option) \<Rightarrow> cpu_state \<Rightarrow> u32 \<Rightarrow> bool \<Rightarrow> nat \<Rightarrow> u32" where
  "trap_target ldl c line async cause =
     (let base = mtvec c AND NOT 3 in
      if wch_is_vtf_mode c
      then evt_dispatch ldl base
             (if async then wch_vtf_async_vec_word (c\<lparr>wch_evt_mcause_override := line\<rparr>) cause else WCH_EVT_HARDFAULT_WORD)
      else base + (if async \<and> mtvec c AND 3 = 1 then of_nat cause * 4 else 0))"

lemma trap_vector_enters:
  "pc (trap_vector ldl async cause e) = trap_target ldl e (wch_evt_mcause_override e) async cause"
  "mstatus (trap_vector ldl async cause e) = mstatus e" "mepc (trap_vector ldl async cause e) = mepc e"
  "mcause (trap_vector ldl async cause e) = mcause e" "mtval (trap_vector ldl async cause e) = mtval e"
  by (auto simp: trap_vector_def trap_target_def Let_def wch_is_vtf_mode_def wch_vtf_async_vec_word_def
      riscv_cpu_update_mip_def riscv_cpu_interrupt_def wch_vtf_enter_def irq_m_defs)

lemma push_trap_fields:
  "pc (wch_qingke_hpe_push e) = pc e" "priv (wch_qingke_hpe_push e) = priv e"
  "mstatus (wch_qingke_hpe_push e) = mstatus e" "mepc (wch_qingke_hpe_push e) = mepc e"
  "mcause (wch_qingke_hpe_push e) = mcause e" "mtval (wch_qingke_hpe_push e) = mtval e"
  by (simp_all add: wch_qingke_hpe_push_def)

lemma trap_target_cong:
  "mtvec e = mtvec c \<Longrightarrow> cfg e = cfg c \<Longrightarrow> trap_target ldl e line async cause = trap_target ldl c line async cause"
  by (simp add: trap_target_def wch_is_vtf_mode_def wch_vtf_async_vec_word_def Let_def)

lemma mmode_fields:
  fixes ldl :: "u64 \<Rightarrow> u32 option" and async :: bool and cause :: nat and tval :: u32
  defines "h1 e \<equiv> do_interrupt_mmode ldl async cause tval e"
  shows "priv (h1 e) = PRV_M" "ms_mpp (mstatus (h1 e)) = priv e" "\<not> ms_mie (mstatus (h1 e))" "mepc (h1 e) = pc e"
    "mcause (h1 e) = of_nat cause OR (if async then one_bit 31 else 0)" "mtval (h1 e) = tval"
    "pc (h1 e) = trap_target ldl e (wch_evt_mcause_override e) async cause"
proof -
  let ?f = "wch_hpe_fix_fpu_on_entry (e\<lparr>mstatus := trap_mstatus e\<rparr>)"
  have f: "ms_mpp (mstatus ?f) = priv e" "\<not> ms_mie (mstatus ?f)" "pc ?f = pc e" "mtvec ?f = mtvec e" "cfg ?f = cfg e"
    "wch_evt_mcause_override ?f = wch_evt_mcause_override e"
    by (simp_all add: wch_hpe_fix_fpu_on_entry_def trap_mstatus_def)
  show "priv (h1 e) = PRV_M" "ms_mpp (mstatus (h1 e)) = priv e" "\<not> ms_mie (mstatus (h1 e))" "mepc (h1 e) = pc e"
    "mcause (h1 e) = of_nat cause OR (if async then one_bit 31 else 0)" "mtval (h1 e) = tval"
    "pc (h1 e) = trap_target ldl e (wch_evt_mcause_override e) async cause"
    unfolding h1_def do_interrupt_mmode_def Let_def
    using f trap_target_cong[of "?f\<lparr>mcause := x, mepc := y, mtval := z\<rparr>" e for x y z]
    by (simp_all add: push_trap_fields trap_vector_enters riscv_cpu_set_mode_def)
qed



end
