(* ===== verification/Spec2Isabelle.thy ===== *)
theory Spec2Isabelle
  imports Ch32_IrqProperties Ch32_Ring Ch32_Flash Ch32_Gpio Ch32_Rtc Ch32_Wdg Ch32_Crc
    Ch32_Spi Ch32_I2c Ch32_Boards Ch32_Misc Ch32_Xw Ch32_EthRing Ch32_Serial Ch32_Traps
    Ch32_DmaCopy Ch32_UsbXfer Ch32_FirstBoot Ch32_Csr
    Ch32_CpuClass Ch32_Mem Ch32_Walk Ch32_Wait Ch32_Decode Ch32_User
begin

text \<open>
  A verification library for the CH32 machine of the QingKe overlay on QEMU 10.2.2: the peripheral
  models under \<open>src/qemu-overlay/10.2.2/hw/riscv/ch32-*.c\<close> and the WCH changes to the RISC-V target
  under \<open>src/qemu-overlay/10.2.2/target/riscv/\<close>.

  \<^bold>\<open>The program.\<close> One structure, \<open>Ch32MachineState\<close>, embeds the state of every peripheral. The guest
  reaches the peripherals through MMIO handlers; timers of the virtual clock, the character and
  network backends and the CPU's trap helpers call them from the other side. All peripheral
  interrupts share the machine external line: \<open>wch_evt_mcause_override\<close> is the single routing slot,
  each peripheral's resync function claims or releases it, a release asks for a rescan of all the
  others through a table (\<open>ch32-stk-pfic.c\<close>), and the core reports \<open>mret\<close> back through a callback.

  \<^bold>\<open>The theories and what they model.\<close> Definitions keep the names of the C functions.
  \<^item> \<open>Ch32_Prelude\<close>: words, arrays, byte memories, QEMU timers, \<open>muldiv64\<close> as a parameter.
    \<open>Ch32_State\<close>: the machine as a nested record, \<open>ch32-machine-internal.h\<close> and the fields of
    \<open>CPURISCVState\<close> in use. \<open>Ch32_Ring\<close>: ring buffers and the queue they stand for.
  \<^item> \<open>Ch32_Cpu\<close>: the register bank (HPE) and table dispatch (VTF) of \<open>wch-qingke.h\<close>, acceptance and trap
    entry of \<open>cpu_helper.c\<close>, \<open>helper_mret\<close> of \<open>op_helper.c\<close>. \<open>Ch32_Xw\<close>: the XW compressed instructions and
    \<open>mcpy\<close> (\<open>trans_rvwch.c.inc\<close>); the code TCG would emit is read as its meaning.
  \<^item> \<open>Ch32_Meip\<close>: the operations on the routing slot and the contract of a resync function.
    \<open>Ch32_Resync\<close>, \<open>Ch32_Stk\<close>: the PFIC table, rescan, software interrupts, \<open>mret\<close> callback, SysTick
    (\<open>ch32-stk-pfic.c\<close>).
  \<^item> \<open>Ch32_Usart1\<close>, \<open>Ch32_Lite\<close> (\<open>ch32-usart.c\<close>), \<open>Ch32_Tim\<close> (\<open>ch32-tim.c\<close>), \<open>Ch32_Dma\<close> (\<open>ch32-dma.c\<close>),
    \<open>Ch32_Eth10m\<close> (\<open>ch32-eth-10m.c\<close>), \<open>Ch32_Eth\<close> and \<open>Ch32_EthMac\<close> (\<open>ch32-eth-dwmac.c\<close>), \<open>Ch32_UsbIrq\<close> (the resync
    functions of the USB hosts, which \<open>Ch32_Usb\<close> and \<open>Ch32_UsbXfer\<close> complete: transactions, packets and root
    ports of \<open>ch32-usb-hs-host.c\<close> and \<open>ch32-usb-fs-host.c\<close>), \<open>Ch32_Rcc\<close> and \<open>Ch32_RccIo\<close> (\<open>ch32-rcc.c\<close>, \<open>ch32-bkp.c\<close>): the peripherals
    that take part in the interrupt network. Their handlers take the rescan as an argument \<open>r\<close>, which
    \<open>Ch32_Machine\<close> instantiates with \<open>ch32_pfic_resync_pending_meip\<close>.
  \<^item> \<open>Ch32_Machine\<close>: the transition system of all handlers, timers, backend callbacks and CPU events, and
    its invariant. \<open>Ch32_Devices\<close>: every device handler, timer and callback leaves the rest of the hart
    alone (its registers, mode, status and trap state). \<open>Ch32_PowerOn\<close>: a concrete machine for the witnesses.
  \<^item> \<open>Ch32_Flash\<close>, \<open>Ch32_Gpio\<close>, \<open>Ch32_Rtc\<close>, \<open>Ch32_Wdg\<close>, \<open>Ch32_Crc\<close>, \<open>Ch32_Spi\<close>, \<open>Ch32_I2c\<close> (with \<open>Ch32_Lanes\<close>),
    \<open>Ch32_Misc\<close> (random numbers, power control, ADC, SDIO), \<open>Ch32_Hex\<close>, \<open>Ch32_Boot\<close> and \<open>Ch32_Boards\<close>: the
    other peripherals, the HEX loader, the boot fix-ups and the board and CPU tables, each with a
    state record of its own.
  \<^item> \<open>Ch32_Construct\<close>, \<open>Ch32_Reset\<close>, \<open>Ch32_FirstBoot\<close>: the options of the machine, its memory map, the init function
    of \<open>ch32-v.c\<close> with image and network device, the guest reset of every part, and the first boot.
  \<^item> \<open>Ch32_CpuClass\<close>: the class definitions of the QingKe models and how \<open>cpu.c\<close> merges and instantiates them, the
    command-line options of a CPU. \<open>Ch32_Csr\<close>: the CSR table, its accessors and the CSR helpers (\<open>csr.c\<close>,
    \<open>op_helper.c\<close>). \<open>Ch32_Mem\<close>: protection, translation, faults and the traps they become,
    \<open>Ch32_Walk\<close>: the Sv32 page-table walk (\<open>cpu_helper.c\<close>).
    \<open>Ch32_Wait\<close>: \<open>wfi\<close>, the interrupt lines of the hart and the test that wakes it. \<open>Ch32_Decode\<close>: fetch, dispatch
    and the extent of a translation block (\<open>translate.c\<close>).

  \<^bold>\<open>What is proved.\<close>
  \<^item> \<open>Ch32_Line\<close>, \<open>Ch32_IrqProperties\<close>: reachable machines keep the interrupt invariant; the recursive
    rescan has exactly one solution; a waiting peripheral is raised when a handler returns; nobody
    steals the slot or is delivered unasked.
  \<^item> \<open>Ch32_Serial\<close>: USART1 refines three bounded queues for every run and every backend; the light ports
    deliver in order. \<open>Ch32_Traps\<close>: interrupt, handler and \<open>mret\<close> compose to the identity on what the
    interrupted code sees. \<open>Ch32_DmaCopy\<close>, \<open>Ch32_EthRing\<close> (over \<open>Ch32_Ram\<close>): transfers and the Ethernet
    descriptor rings against a byte memory, and that reception never gets stuck.
  \<^item> In the component's own theory: flash protection and key sequences, HEX bounds and round trip, the
    watchdog that cannot be stopped, \<open>mcpy\<close> as \<open>memcpy\<close>, decoding round trips, the clock and alarm of
    the RTC, error detection and linearity of the CRC, GPIO, I2C, SPI and backup registers.
  \<^item> \<open>Ch32_UsbXfer\<close>: no packet is used while it is in flight, every transaction is reported, the two hosts
    agree. \<open>Ch32_Reset\<close>, \<open>Ch32_FirstBoot\<close>: a guest reset is the power-on state, a built machine starts at its
    image and keeps the interrupt invariant. \<open>Ch32_Construct\<close>: an address belongs to one device.
  \<^item> \<open>Ch32_Csr\<close>: no CSR instruction disturbs the interrupt network, what user mode reaches, the interrupt lock of
    \<open>gintenr\<close>. \<open>Ch32_CpuClass\<close>: what an instance of each model is and what options can change. \<open>Ch32_Mem\<close>: what
    the protection rules let user code touch and how a forbidden access traps. \<open>Ch32_Walk\<close>: the walk is the
    translation of the specification, but for a lost race. \<open>Ch32_Wait\<close>: an external line
    ends a wait. \<open>Ch32_User\<close>: what a user-mode program of any length can change, and where its trap leads.
    \<open>Ch32_Decode\<close>: an instruction is its bytes, a block stays on its page.
  \<^item> Behaviour that differs from the comments or the hardware is stated as it is, e.g. the shadowed DMA2
    channel 8, the truncated watchdog timeout, the second I2C start, narrow writes to the Ethernet
    status register, the protection rule that grants nothing, the page-table walk after a lost race, and
    \<open>mret\<close> that changes registers before its privilege check.

  \<^bold>\<open>Interfaces.\<close> \<open>ring_buffer\<close> (interpreted by the three rings of USART1 and the FIFO of a light port) gives
  the queue laws. \<open>meip_unit\<close> and its extension \<open>prompt_unit\<close> state what a resync function owes the network
  (interpreted for every peripheral); \<open>meip_network\<close> derives the theory of the rescan from it.

  \<^bold>\<open>Parameters and bounds.\<close> Code outside the repository is an argument: the address space (\<open>as_read\<close>,
  \<open>as_write\<close>, with \<open>ram_backed\<close> where a theorem needs a memory), the character backend, the network core's
  redelivery of queued packets, the checksum library and \<open>muldiv64\<close>. The rescan is bounded at depth two
  and records running out of it; \<open>rescan_unique_solution\<close> shows that the bound is never reached. The
  transmit drain of USART1 is a partial function whose termination is part of the refinement theorem.
  Every handler runs under QEMU's big lock, so the model is sequential.

  \<^bold>\<open>Not modelled.\<close> The registration of types, properties and memory regions with QEMU's object model, and
  migration and tracing. Of QEMU's own RISC-V front end, the code of extensions that QingKe cores leave off:
  the CSRs of supervisor mode, the hypervisor, AIA, RNMI, CFI, CTR, vectors, state enable and
  their CSRs, dumps and profiles; the code generation of the standard instructions. Files outside the
  repository are parameters: the lookup of the protection rules (\<open>pmp.c\<close>), the floating-point flags, the generated
  decoders, semihosting, the accelerators, QEMU's USB core, network core, character devices and timers.
  Event selectors and triggers keep their registers in such files, so their CSRs are left out. The DMA
  engines of the Ethernet MAC are a transition system of their own, beside that of \<open>Ch32_Machine\<close>.
\<close>

end
